(* ===== verification/Prelude.thy ===== *)
theory Prelude
  imports Complex_Main
begin

text \<open>
  Shared vocabulary of the development: the error values of the JavaScript code, sequencing of
  fallible computations, the two collections of rewrite rules that the component theories add to,
  and a stable sort driven by a comparison function (what \<^verbatim>\<open>Array.prototype.sort(compare)\<close> does)
  with its laws stated once in a locale that every comparison function of the model interprets.
\<close>

named_theorems js_eval \<open>rules that evaluate operations on JavaScript values\<close>
named_theorems store_simps \<open>rules that read back what was written to the file store\<close>

section \<open>Errors and sequencing\<close>

datatype js_error =
    TypeError string
  | SyntaxError
  | RangeError string
  | IoError string
  | ErrorMsg string

type_synonym 'a result = "js_error + 'a"

fun bindE :: "'a result \<Rightarrow> ('a \<Rightarrow> 'b result) \<Rightarrow> 'b result" where
  "bindE (Inl e) f = Inl e"
| "bindE (Inr x) f = f x"

lemma bindE_assoc: "bindE (bindE m f) g = bindE m (\<lambda>x. bindE (f x) g)"
  by (cases m) auto

lemma bindE_Inr_iff [simp]: "bindE m f = Inr y \<longleftrightarrow> (\<exists>x. m = Inr x \<and> f x = Inr y)"
  by (cases m) auto

lemma bindE_Inl_iff: "bindE m f = Inl e \<longleftrightarrow> m = Inl e \<or> (\<exists>x. m = Inr x \<and> f x = Inl e)"
  by (cases m) auto

lemma bindE_cong [fundef_cong]:
  "m = m' \<Longrightarrow> (\<And>x. m' = Inr x \<Longrightarrow> f x = f' x) \<Longrightarrow> bindE m f = bindE m' f'"
  by (cases m') auto

text \<open>\<open>mapE\<close> runs a fallible function over a list and stops at the first error.\<close>

fun mapE :: "('a \<Rightarrow> 'b result) \<Rightarrow> 'a list \<Rightarrow> 'b list result" where
  "mapE f [] = Inr []"
| "mapE f (x # xs) = bindE (f x) (\<lambda>y. bindE (mapE f xs) (\<lambda>ys. Inr (y # ys)))"

lemma mapE_length: "mapE f xs = Inr ys \<Longrightarrow> length ys = length xs"
  by (induction xs arbitrary: ys) auto

lemma mapE_pure [simp]: "mapE (\<lambda>x. Inr (g x)) xs = Inr (map g xs)"
  by (induction xs) auto

text \<open>
  Runs over a state in sequence: an exception keeps the state reached so far.
\<close>

fun runE :: "'s \<times> 'a result \<Rightarrow> ('a \<Rightarrow> 's \<Rightarrow> 's \<times> 'b result) \<Rightarrow> 's \<times> 'b result" where
  "runE (st, Inl e) f = (st, Inl e)"
| "runE (st, Inr x) f = f x st"

lemma runE_Inr_iff:
  "runE m f = (st', Inr y) \<longleftrightarrow> (\<exists>st x. m = (st, Inr x) \<and> f x st = (st', Inr y))"
  by (cases "(m, f)" rule: runE.cases) auto

lemma runE_pure [simp]: "runE (st, bindE (Inr x) g) f = runE (st, g x) f"
  by simp

section \<open>Lists\<close>

text \<open>
  \<open>uniq\<close> keeps the first occurrence of every element: the order in which
  \<^verbatim>\<open>[...new Set(xs)]\<close> lists the members of the set.
\<close>

fun uniq_acc :: "'a list \<Rightarrow> 'a list \<Rightarrow> 'a list" where
  "uniq_acc seen [] = []"
| "uniq_acc seen (x # xs) =
     (if x \<in> set seen then uniq_acc seen xs else x # uniq_acc (x # seen) xs)"

definition uniq :: "'a list \<Rightarrow> 'a list" where
  "uniq xs = uniq_acc [] xs"

lemma set_uniq_acc: "set (uniq_acc seen xs) = set xs - set seen"
  by (induction seen xs rule: uniq_acc.induct) auto

lemma set_uniq [simp]: "set (uniq xs) = set xs"
  by (simp add: uniq_def set_uniq_acc)

lemma distinct_uniq_acc: "distinct (uniq_acc seen xs)"
  by (induction seen xs rule: uniq_acc.induct) (auto simp: set_uniq_acc)

lemma distinct_uniq [simp]: "distinct (uniq xs)"
  by (simp add: uniq_def distinct_uniq_acc)

lemma uniq_acc_cong: "set a = set b \<Longrightarrow> uniq_acc a xs = uniq_acc b xs"
proof (induction xs arbitrary: a b)
  case Nil
  then show ?case by simp
next
  case (Cons x xs)
  then have "set (x # a) = set (x # b)" by simp
  from Cons.IH [OF this] Cons.IH [OF Cons.prems] Cons.prems show ?case
    by simp
qed

lemma uniq_acc_idem:
  "distinct xs \<Longrightarrow> set xs \<inter> set seen = {} \<Longrightarrow> uniq_acc seen xs = xs"
  by (induction seen xs rule: uniq_acc.induct) auto

lemma uniq_distinct [simp]: "distinct xs \<Longrightarrow> uniq xs = xs"
  by (simp add: uniq_def uniq_acc_idem)

lemma uniq_eq_Nil [simp]: "uniq xs = [] \<longleftrightarrow> xs = []"
  by (metis set_empty set_uniq)

lemma length_filter_le_if: "length (filter P xs) \<le> length xs"
  by (rule length_filter_le)

section \<open>Stable sorting by a comparison\<close>

text \<open>
  \<open>insert_by le x xs\<close> puts \<open>x\<close> before the first element that is not strictly before it, so equal
  elements keep their order when the list is folded from the right: the stable order that
  ECMAScript requires of \<^verbatim>\<open>sort\<close>.  \<open>le a b\<close> reads: \<open>compare(a, b) <= 0\<close>.
\<close>

fun insert_by :: "('a \<Rightarrow> 'a \<Rightarrow> bool) \<Rightarrow> 'a \<Rightarrow> 'a list \<Rightarrow> 'a list" where
  "insert_by le x [] = [x]"
| "insert_by le x (y # ys) = (if le x y then x # y # ys else y # insert_by le x ys)"

definition sort_by :: "('a \<Rightarrow> 'a \<Rightarrow> bool) \<Rightarrow> 'a list \<Rightarrow> 'a list" where
  "sort_by le xs = foldr (insert_by le) xs []"

lemma sort_by_simps [simp]:
  "sort_by le [] = []"
  "sort_by le (x # xs) = insert_by le x (sort_by le xs)"
  by (simp_all add: sort_by_def)

lemma set_insert_by [simp]: "set (insert_by le x xs) = insert x (set xs)"
  by (induction xs) auto

lemma length_insert_by [simp]: "length (insert_by le x xs) = Suc (length xs)"
  by (induction xs) auto

lemma distinct_insert_by [simp]: "distinct (insert_by le x xs) \<longleftrightarrow> x \<notin> set xs \<and> distinct xs"
  by (induction xs) auto

lemma set_sort_by [simp]: "set (sort_by le xs) = set xs"
  by (induction xs) auto

lemma length_sort_by [simp]: "length (sort_by le xs) = length xs"
  by (induction xs) auto

lemma distinct_sort_by [simp]: "distinct (sort_by le xs) \<longleftrightarrow> distinct xs"
  by (induction xs) auto

lemma distinct_map_insert_by [simp]:
  "distinct (map f (insert_by le x xs)) \<longleftrightarrow> f x \<notin> f ` set xs \<and> distinct (map f xs)"
  by (induction xs) auto

lemma distinct_map_sort_by [simp]: "distinct (map f (sort_by le xs)) \<longleftrightarrow> distinct (map f xs)"
  by (induction xs) auto

text \<open>
  The contract a comparison function must keep on the values it is used on: total and
  transitive.  The client's facts, proved once: the sorted list is ordered and its head is a
  least element.
\<close>

locale comparison_order =
  fixes le :: "'a \<Rightarrow> 'a \<Rightarrow> bool" and carrier :: "'a \<Rightarrow> bool"
  assumes le_total: "carrier a \<Longrightarrow> carrier b \<Longrightarrow> le a b \<or> le b a"
    and le_trans: "carrier a \<Longrightarrow> carrier b \<Longrightarrow> carrier c \<Longrightarrow> le a b \<Longrightarrow> le b c \<Longrightarrow> le a c"
begin

lemma insert_by_ordered:
  "carrier x \<Longrightarrow> \<forall>y \<in> set xs. carrier y \<Longrightarrow> sorted_wrt le xs \<Longrightarrow> sorted_wrt le (insert_by le x xs)"
proof (induction xs)
  case Nil
  then show ?case by simp
next
  case (Cons y ys)
  show ?case
  proof (cases "le x y")
    case True
    with Cons.prems show ?thesis
      by (auto intro: le_trans)
  next
    case False
    with Cons.prems have "le y x"
      using le_total by auto
    with False Cons show ?thesis
      by auto
  qed
qed

lemma sort_by_ordered:
  "\<forall>y \<in> set xs. carrier y \<Longrightarrow> sorted_wrt le (sort_by le xs)"
  by (induction xs) (auto intro: insert_by_ordered)

lemma sort_by_least:
  "\<forall>y \<in> set xs. carrier y \<Longrightarrow> sort_by le xs = z # zs \<Longrightarrow> y \<in> set zs \<Longrightarrow> le z y"
  using sort_by_ordered [of xs] by auto

end

text \<open>The numeric order itself is a comparison order; number lists are sorted with it.\<close>

definition le_nat :: "nat \<Rightarrow> nat \<Rightarrow> bool" where
  "le_nat a b \<longleftrightarrow> a \<le> b"

interpretation nat_order: comparison_order le_nat "\<lambda>_. True"
  by unfold_locales (auto simp: le_nat_def)

lemma sort_nat_ordered: "sorted_wrt (\<le>) (sort_by le_nat xs)"
  using nat_order.sort_by_ordered [of xs] by (simp add: le_nat_def [abs_def])

section \<open>Steps and reachable states\<close>

text \<open>
  A component with durable state is a relation on states; the locale gives the reachable states
  and the induction that lifts an invariant of every step to all of them.
\<close>

locale step_system =
  fixes initial :: "'s \<Rightarrow> bool" and step :: "'s \<Rightarrow> 's \<Rightarrow> bool" and inv :: "'s \<Rightarrow> bool"
  assumes inv_initial: "initial s \<Longrightarrow> inv s"
    and inv_step: "inv s \<Longrightarrow> step s t \<Longrightarrow> inv t"
begin

lemma inv_reachable: "step\<^sup>*\<^sup>* s t \<Longrightarrow> initial s \<Longrightarrow> inv t"
  by (induction rule: rtranclp_induct) (auto intro: inv_initial inv_step)

end

end
