(* ===== verification/JsValue.thy ===== *)
theory JsValue
  imports Prelude
begin

text \<open>
  The part of ECMAScript the modelled modules use: numbers with NaN and the infinities over exact
  rationals, values, property reads with optional chaining, the coercions
  (\<^verbatim>\<open>String(v)\<close>, \<^verbatim>\<open>Number(v)\<close>, \<^verbatim>\<open>Boolean(v)\<close>, \<^verbatim>\<open>??\<close>, \<^verbatim>\<open>||\<close>), object spread and update, and the string
  methods.  Strings are lists of ASCII characters; an object is the list of its own enumerable
  properties in insertion order.  Numbers are exact: the rounding of IEEE doubles is not modelled,
  and negative zero is zero.
\<close>

section \<open>Numbers\<close>

datatype jsnum = NaN | PosInf | NegInf | Fin rat

fun num_neg :: "jsnum \<Rightarrow> jsnum" where
  "num_neg NaN = NaN"
| "num_neg PosInf = NegInf"
| "num_neg NegInf = PosInf"
| "num_neg (Fin x) = Fin (- x)"

fun num_add :: "jsnum \<Rightarrow> jsnum \<Rightarrow> jsnum" where
  "num_add NaN b = NaN"
| "num_add a NaN = NaN"
| "num_add (Fin x) (Fin y) = Fin (x + y)"
| "num_add PosInf NegInf = NaN"
| "num_add NegInf PosInf = NaN"
| "num_add PosInf b = PosInf"
| "num_add NegInf b = NegInf"
| "num_add a PosInf = PosInf"
| "num_add a NegInf = NegInf"

definition num_sub :: "jsnum \<Rightarrow> jsnum \<Rightarrow> jsnum" where
  "num_sub a b = num_add a (num_neg b)"

definition inf_of_sign :: "rat \<Rightarrow> jsnum" where
  "inf_of_sign s = (if s > 0 then PosInf else if s < 0 then NegInf else NaN)"

fun num_sign :: "jsnum \<Rightarrow> rat" where
  "num_sign NaN = 0"
| "num_sign PosInf = 1"
| "num_sign NegInf = -1"
| "num_sign (Fin x) = sgn x"

fun num_mul :: "jsnum \<Rightarrow> jsnum \<Rightarrow> jsnum" where
  "num_mul NaN b = NaN"
| "num_mul a NaN = NaN"
| "num_mul (Fin x) (Fin y) = Fin (x * y)"
| "num_mul a b = inf_of_sign (num_sign a * num_sign b)"

fun num_div :: "jsnum \<Rightarrow> jsnum \<Rightarrow> jsnum" where
  "num_div NaN b = NaN"
| "num_div a NaN = NaN"
| "num_div (Fin x) (Fin y) = (if y = 0 then inf_of_sign x else Fin (x / y))"
| "num_div (Fin x) b = Fin 0"
| "num_div a (Fin y) = inf_of_sign (num_sign a * (if y < 0 then -1 else 1))"
| "num_div a b = NaN"

fun num_lt :: "jsnum \<Rightarrow> jsnum \<Rightarrow> bool" where
  "num_lt NaN b = False"
| "num_lt a NaN = False"
| "num_lt (Fin x) (Fin y) = (x < y)"
| "num_lt NegInf b = (b \<noteq> NegInf)"
| "num_lt a PosInf = (a \<noteq> PosInf)"
| "num_lt PosInf b = False"
| "num_lt a NegInf = False"

definition num_gt :: "jsnum \<Rightarrow> jsnum \<Rightarrow> bool" where
  "num_gt a b = num_lt b a"

definition num_ge :: "jsnum \<Rightarrow> jsnum \<Rightarrow> bool" where
  "num_ge a b = (a \<noteq> NaN \<and> b \<noteq> NaN \<and> \<not> num_lt a b)"

definition num_le :: "jsnum \<Rightarrow> jsnum \<Rightarrow> bool" where
  "num_le a b = num_ge b a"

text \<open>\<^verbatim>\<open>Math.max\<close> and \<^verbatim>\<open>Math.min\<close> of two numbers: NaN if either is NaN.\<close>

definition num_max :: "jsnum \<Rightarrow> jsnum \<Rightarrow> jsnum" where
  "num_max a b = (if a = NaN \<or> b = NaN then NaN else if num_lt a b then b else a)"

definition num_min :: "jsnum \<Rightarrow> jsnum \<Rightarrow> jsnum" where
  "num_min a b = (if a = NaN \<or> b = NaN then NaN else if num_lt b a then b else a)"

fun num_finite :: "jsnum \<Rightarrow> bool" where
  "num_finite (Fin x) = True"
| "num_finite a = False"

fun num_integer :: "jsnum \<Rightarrow> bool" where
  "num_integer (Fin x) = (of_int \<lfloor>x\<rfloor> = x)"
| "num_integer a = False"

fun num_trunc :: "jsnum \<Rightarrow> jsnum" where
  "num_trunc (Fin x) = Fin (of_int (if x < 0 then \<lceil>x\<rceil> else \<lfloor>x\<rfloor>))"
| "num_trunc a = a"

fun num_floor :: "jsnum \<Rightarrow> jsnum" where
  "num_floor (Fin x) = Fin (of_int \<lfloor>x\<rfloor>)"
| "num_floor a = a"

text \<open>
  \<open>num_toFixed k a\<close> is \<^verbatim>\<open>Number(a.toFixed(k))\<close>: the nearest multiple of \<open>10 ^ -k\<close>, ties away from zero.
\<close>

fun num_toFixed :: "nat \<Rightarrow> jsnum \<Rightarrow> jsnum" where
  "num_toFixed k (Fin x) = Fin (sgn x * of_int \<lfloor>\<bar>x\<bar> * 10 ^ k + 1 / 2\<rfloor> / 10 ^ k)"
| "num_toFixed k a = a"

abbreviation num_of_int :: "int \<Rightarrow> jsnum" where
  "num_of_int i \<equiv> Fin (of_int i)"

lemma num_sub_Fin [simp]: "num_sub (Fin x) (Fin y) = Fin (x - y)"
  by (simp add: num_sub_def)

lemma num_gt_Fin [simp]: "num_gt (Fin x) (Fin y) \<longleftrightarrow> x > y"
  by (simp add: num_gt_def)

lemma num_ge_Fin [simp]: "num_ge (Fin x) (Fin y) \<longleftrightarrow> x \<ge> y"
  by (auto simp: num_ge_def)

lemma num_le_Fin [simp]: "num_le (Fin x) (Fin y) \<longleftrightarrow> x \<le> y"
  by (simp add: num_le_def)

lemma num_max_Fin [simp]: "num_max (Fin x) (Fin y) = Fin (max x y)"
  by (simp add: num_max_def max_def)

lemma num_min_Fin [simp]: "num_min (Fin x) (Fin y) = Fin (min x y)"
  by (auto simp: num_min_def min_def)

lemma num_gt_PosInf [simp]: "num_gt PosInf (Fin y)"
  by (simp add: num_gt_def)

lemma num_integer_of_int [simp]: "num_integer (num_of_int i)"
  by simp

lemma num_integer_finite: "num_integer a \<Longrightarrow> num_finite a"
  by (cases a) auto

section \<open>Values\<close>

datatype jsval =
    JUndef
  | JNull
  | JBool bool
  | JNum jsnum
  | JStr string
  | JArr "jsval list"
  | JObj "(string \<times> jsval) list"

type_synonym fields = "(string \<times> jsval) list"

abbreviation JInt :: "int \<Rightarrow> jsval" where
  "JInt i \<equiv> JNum (num_of_int i)"

fun truthy :: "jsval \<Rightarrow> bool" where
  "truthy JUndef = False"
| "truthy JNull = False"
| "truthy (JBool b) = b"
| "truthy (JNum n) = (n \<noteq> NaN \<and> n \<noteq> Fin 0)"
| "truthy (JStr s) = (s \<noteq> [])"
| "truthy (JArr xs) = True"
| "truthy (JObj kvs) = True"

fun nullish :: "jsval \<Rightarrow> bool" where
  "nullish JUndef = True"
| "nullish JNull = True"
| "nullish v = False"

text \<open>\<^verbatim>\<open>a || b\<close>, \<^verbatim>\<open>a ?? b\<close>.\<close>

definition js_or :: "jsval \<Rightarrow> jsval \<Rightarrow> jsval" where
  "js_or a b = (if truthy a then a else b)"

definition js_coalesce :: "jsval \<Rightarrow> jsval \<Rightarrow> jsval" where
  "js_coalesce a b = (if nullish a then b else a)"

fun is_object :: "jsval \<Rightarrow> bool" where
  "is_object (JArr xs) = True"
| "is_object (JObj kvs) = True"
| "is_object v = False"

fun is_array :: "jsval \<Rightarrow> bool" where
  "is_array (JArr xs) = True"
| "is_array v = False"

text \<open>\<^verbatim>\<open>typeof v === 'object'\<close> holds for null as well.\<close>

definition typeof_object :: "jsval \<Rightarrow> bool" where
  "typeof_object v = (v = JNull \<or> is_object v)"

fun array_items :: "jsval \<Rightarrow> jsval list" where
  "array_items (JArr xs) = xs"
| "array_items v = []"

lemma js_or_truthy [simp]: "truthy a \<Longrightarrow> js_or a b = a"
  by (simp add: js_or_def)

lemma js_or_falsy [simp]: "\<not> truthy a \<Longrightarrow> js_or a b = b"
  by (simp add: js_or_def)

lemma js_coalesce_simps [simp]:
  "js_coalesce JUndef b = b"
  "js_coalesce JNull b = b"
  "js_coalesce (JBool x) b = JBool x"
  "js_coalesce (JNum n) b = JNum n"
  "js_coalesce (JStr s) b = JStr s"
  "js_coalesce (JArr xs) b = JArr xs"
  "js_coalesce (JObj kvs) b = JObj kvs"
  by (simp_all add: js_coalesce_def)

section \<open>Properties\<close>

text \<open>
  \<open>getp v k\<close> is \<^verbatim>\<open>v?.k\<close>.  Only named data properties are read this way; \<^verbatim>\<open>length\<close> and array indices
  have their own operations.
\<close>

fun lookup :: "fields \<Rightarrow> string \<Rightarrow> jsval" where
  "lookup [] k = JUndef"
| "lookup ((k', v) # kvs) k = (if k' = k then v else lookup kvs k)"

fun getp :: "jsval \<Rightarrow> string \<Rightarrow> jsval" where
  "getp (JObj kvs) k = lookup kvs k"
| "getp v k = JUndef"

abbreviation getp2 :: "jsval \<Rightarrow> string \<Rightarrow> string \<Rightarrow> jsval" where
  "getp2 v k1 k2 \<equiv> getp (getp v k1) k2"

text \<open>\<^verbatim>\<open>v.k\<close> without the question mark raises a TypeError when \<open>v\<close> is null or undefined.\<close>

definition dot :: "jsval \<Rightarrow> string \<Rightarrow> jsval result" where
  "dot v k = (if nullish v then Inl (TypeError k) else Inr (getp v k))"

fun has_key :: "jsval \<Rightarrow> string \<Rightarrow> bool" where
  "has_key (JObj kvs) k = (k \<in> set (map fst kvs))"
| "has_key v k = False"

text \<open>Assignment to a property: in place when the key exists, at the end otherwise.\<close>

fun update_fields :: "fields \<Rightarrow> string \<Rightarrow> jsval \<Rightarrow> fields" where
  "update_fields [] k v = [(k, v)]"
| "update_fields ((k', v') # kvs) k v =
     (if k' = k then (k, v) # kvs else (k', v') # update_fields kvs k v)"

definition override :: "fields \<Rightarrow> fields \<Rightarrow> fields" where
  "override base upd = fold (\<lambda>(k, v) acc. update_fields acc k v) upd base"

lemma override_Nil [simp]: "override base [] = base"
  by (simp add: override_def)

lemma override_Cons [simp]:
  "override base ((k, v) # upd) = override (update_fields base k v) upd"
  by (simp add: override_def)

lemma lookup_update_fields [simp]:
  "lookup (update_fields kvs k v) k' = (if k = k' then v else lookup kvs k')"
  by (induction kvs k v rule: update_fields.induct) auto

lemma keys_update_fields:
  "set (map fst (update_fields kvs k v)) = insert k (set (map fst kvs))"
  by (induction kvs k v rule: update_fields.induct) auto

lemma distinct_update_fields [simp]:
  "distinct (map fst kvs) \<Longrightarrow> distinct (map fst (update_fields kvs k v))"
proof (induction kvs k v rule: update_fields.induct)
  case (1 k v)
  then show ?case by simp
next
  case (2 k' v' kvs k v)
  then show ?case
    using keys_update_fields [of kvs k v] by (auto simp: image_def)
qed

lemma lookup_override:
  "lookup (override base upd) k =
     (if k \<in> set (map fst upd) then lookup (override [] upd) k else lookup base k)"
proof (induction upd rule: rev_induct)
  case Nil
  then show ?case by simp
next
  case (snoc kv upd)
  obtain k1 v1 where "kv = (k1, v1)" by (cases kv)
  with snoc show ?case by (auto simp: override_def)
qed

lemma lookup_override_other:
  "k \<notin> set (map fst upd) \<Longrightarrow> lookup (override base upd) k = lookup base k"
  by (subst lookup_override) simp

lemma distinct_override [simp]:
  "distinct (map fst base) \<Longrightarrow> distinct (map fst (override base upd))"
  by (induction upd arbitrary: base) auto

section \<open>Decimal text\<close>

definition digit_char :: "nat \<Rightarrow> char" where
  "digit_char d = char_of (48 + d)"

definition is_digit :: "char \<Rightarrow> bool" where
  "is_digit c \<longleftrightarrow> 48 \<le> (of_char c :: nat) \<and> (of_char c :: nat) \<le> 57"

definition digit_val :: "char \<Rightarrow> nat" where
  "digit_val c = of_char c - 48"

fun show_nat :: "nat \<Rightarrow> string" where
  "show_nat n = (if n < 10 then [digit_char n] else show_nat (n div 10) @ [digit_char (n mod 10)])"

declare show_nat.simps [simp del]

definition show_int :: "int \<Rightarrow> string" where
  "show_int i = (if i < 0 then ''-'' @ show_nat (nat (- i)) else show_nat (nat i))"

definition read_nat :: "string \<Rightarrow> nat" where
  "read_nat s = foldl (\<lambda>n c. 10 * n + digit_val c) 0 s"

lemma of_char_digit [simp]: "d < 10 \<Longrightarrow> (of_char (digit_char d) :: nat) = 48 + d"
  by (simp add: digit_char_def)

lemma is_digit_digit_char [simp]: "d < 10 \<Longrightarrow> is_digit (digit_char d)"
  by (simp add: is_digit_def)

lemma digit_val_digit_char [simp]: "d < 10 \<Longrightarrow> digit_val (digit_char d) = d"
  by (simp add: digit_val_def)

lemma read_nat_snoc [simp]: "read_nat (s @ [c]) = 10 * read_nat s + digit_val c"
  by (simp add: read_nat_def)

lemma read_nat_Nil [simp]: "read_nat [] = 0"
  by (simp add: read_nat_def)

lemma read_show_nat [simp]: "read_nat (show_nat n) = n"
proof (induction n rule: show_nat.induct)
  case (1 n)
  then show ?case
    using read_nat_snoc [of "[]"] by (subst show_nat.simps) (auto simp del: append.simps(2))
qed

lemma show_nat_digits: "list_all is_digit (show_nat n)"
proof (induction n rule: show_nat.induct)
  case (1 n)
  then show ?case
    by (subst show_nat.simps) auto
qed

lemma show_nat_nonempty [simp]: "show_nat n \<noteq> []"
  by (subst show_nat.simps) simp

lemma show_nat_inject [simp]: "show_nat m = show_nat n \<longleftrightarrow> m = n"
  by (metis read_show_nat)

text \<open>
  A finite number as text: the decimal expansion, at most 20 fractional digits, which is exact for
  every decimal a JSON text writes with no more digits; exponent notation is not produced.
\<close>

fun frac_digits :: "nat \<Rightarrow> rat \<Rightarrow> string" where
  "frac_digits 0 x = []"
| "frac_digits (Suc k) x =
     (if x = 0 then [] else digit_char (nat \<lfloor>10 * x\<rfloor>) # frac_digits k (10 * x - of_int \<lfloor>10 * x\<rfloor>))"

fun num_to_string :: "jsnum \<Rightarrow> string" where
  "num_to_string NaN = ''NaN''"
| "num_to_string PosInf = ''Infinity''"
| "num_to_string NegInf = ''-Infinity''"
| "num_to_string (Fin x) =
     (let a = \<bar>x\<bar>; w = \<lfloor>a\<rfloor>; f = a - of_int w
      in (if x < 0 then ''-'' else []) @ show_nat (nat w) @
         (if f = 0 then [] else ''.'' @ frac_digits 20 f))"

section \<open>Strings\<close>

definition is_space :: "char \<Rightarrow> bool" where
  "is_space c \<longleftrightarrow> (let n = (of_char c :: nat) in (9 \<le> n \<and> n \<le> 13) \<or> n = 32)"

definition ltrim :: "string \<Rightarrow> string" where
  "ltrim s = dropWhile is_space s"

definition trim :: "string \<Rightarrow> string" where
  "trim s = rev (ltrim (rev (ltrim s)))"

definition lower_char :: "char \<Rightarrow> char" where
  "lower_char c = (let n = (of_char c :: nat) in if 65 \<le> n \<and> n \<le> 90 then char_of (n + 32) else c)"

definition upper_char :: "char \<Rightarrow> char" where
  "upper_char c = (let n = (of_char c :: nat) in if 97 \<le> n \<and> n \<le> 122 then char_of (n - 32) else c)"

definition to_lower :: "string \<Rightarrow> string" where
  "to_lower s = map lower_char s"

definition to_upper :: "string \<Rightarrow> string" where
  "to_upper s = map upper_char s"

fun starts_with :: "string \<Rightarrow> string \<Rightarrow> bool" where
  "starts_with s [] = True"
| "starts_with [] (p # ps) = False"
| "starts_with (c # s) (p # ps) = (c = p \<and> starts_with s ps)"

fun split_acc :: "char \<Rightarrow> string \<Rightarrow> string \<Rightarrow> string list" where
  "split_acc d acc [] = [rev acc]"
| "split_acc d acc (c # s) = (if c = d then rev acc # split_acc d [] s else split_acc d (c # acc) s)"

definition split_on :: "char \<Rightarrow> string \<Rightarrow> string list" where
  "split_on d s = split_acc d [] s"

fun join_with :: "string \<Rightarrow> string list \<Rightarrow> string" where
  "join_with sep [] = []"
| "join_with sep [x] = x"
| "join_with sep (x # y # xs) = x @ sep @ join_with sep (y # xs)"

lemma starts_with_append [simp]: "starts_with (p @ s) p"
  by (induction p) auto

text \<open>Text that \<^verbatim>\<open>trim\<close> leaves alone: no white space at either end.\<close>

definition trimmed :: "string \<Rightarrow> bool" where
  "trimmed s \<longleftrightarrow> s = [] \<or> (\<not> is_space (hd s) \<and> \<not> is_space (last s))"

lemma ltrim_hd: "ltrim s \<noteq> [] \<Longrightarrow> \<not> is_space (hd (ltrim s))"
  unfolding ltrim_def by (rule hd_dropWhile)

lemma ltrim_id: "s = [] \<or> \<not> is_space (hd s) \<Longrightarrow> ltrim s = s"
  by (cases s) (auto simp: ltrim_def)

lemma last_ltrim: "ltrim s \<noteq> [] \<Longrightarrow> last (ltrim s) = last s"
  unfolding ltrim_def by (metis append_Nil2 last_appendR takeWhile_dropWhile_id)

lemma trimmed_trim [simp]: "trimmed (trim s)"
proof -
  let ?t = "ltrim s"
  let ?r = "ltrim (rev ?t)"
  show ?thesis
  proof (cases "?r = []")
    case True
    then show ?thesis by (simp add: trim_def trimmed_def)
  next
    case False
    then have "\<not> is_space (hd ?r)" and "last ?r = last (rev ?t)"
      by (rule ltrim_hd, rule last_ltrim)
    moreover from False have "?t \<noteq> []" by (auto simp: ltrim_def dest: set_dropWhileD)
    ultimately show ?thesis
      using False ltrim_hd [of s]
      by (simp add: trim_def trimmed_def hd_rev last_rev)
  qed
qed

lemma trim_id [simp]: "trimmed s \<Longrightarrow> trim s = s"
  by (auto simp: trim_def trimmed_def ltrim_id hd_rev)

lemma trim_trim [simp]: "trim (trim s) = trim s"
  by simp

section \<open>Coercions\<close>

text \<open>\<^verbatim>\<open>String(v)\<close>; an array joins its items with commas, null and undefined items are empty.\<close>

fun js_string :: "jsval \<Rightarrow> string" where
  "js_string JUndef = ''undefined''"
| "js_string JNull = ''null''"
| "js_string (JBool b) = (if b then ''true'' else ''false'')"
| "js_string (JNum n) = num_to_string n"
| "js_string (JStr s) = s"
| "js_string (JArr xs) =
     join_with '','' (map (\<lambda>v. if v = JUndef \<or> v = JNull then [] else js_string v) xs)"
| "js_string (JObj kvs) = ''[object Object]''"

text \<open>Decimal literals: digits, an optional fraction, an optional exponent.\<close>

fun span_digits :: "string \<Rightarrow> string \<times> string" where
  "span_digits [] = ([], [])"
| "span_digits (c # s) = (if is_digit c then (case span_digits s of (d, r) \<Rightarrow> (c # d, r)) else ([], c # s))"

definition read_exponent :: "string \<Rightarrow> int option" where
  "read_exponent s =
     (case s of
        [] \<Rightarrow> Some 0
      | e # r \<Rightarrow>
          if e = CHR ''e'' \<or> e = CHR ''E'' then
            (let (sg, r') = (if starts_with r ''-'' then (-1, tl r) else if starts_with r ''+'' then (1, tl r) else (1, r));
                 (d, rest) = span_digits r'
             in if d = [] \<or> rest \<noteq> [] then None else Some (sg * int (read_nat d)))
          else None)"

definition pow10 :: "int \<Rightarrow> rat" where
  "pow10 e = (if e \<ge> 0 then 10 ^ nat e else 1 / 10 ^ nat (- e))"

definition read_unsigned :: "string \<Rightarrow> jsnum" where
  "read_unsigned s =
     (if s = ''Infinity'' then PosInf
      else
        (let (d, r) = span_digits s;
             (f, r') = (if starts_with r ''.'' then span_digits (tl r) else ([], r))
         in if d = [] \<and> f = [] then NaN
            else (case read_exponent r' of
                    None \<Rightarrow> NaN
                  | Some e \<Rightarrow>
                      Fin ((of_nat (read_nat d) + of_nat (read_nat f) / 10 ^ length f) * pow10 e))))"

text \<open>\<^verbatim>\<open>Number(s)\<close> for a decimal text (hexadecimal, octal and binary literals are not decimal: NaN here).\<close>

definition number_of_string :: "string \<Rightarrow> jsnum" where
  "number_of_string s =
     (let t = trim s
      in if t = [] then Fin 0
         else if starts_with t ''-'' then num_neg (read_unsigned (tl t))
         else if starts_with t ''+'' then read_unsigned (tl t)
         else read_unsigned t)"

fun js_number :: "jsval \<Rightarrow> jsnum" where
  "js_number JUndef = NaN"
| "js_number JNull = Fin 0"
| "js_number (JBool b) = (if b then Fin 1 else Fin 0)"
| "js_number (JNum n) = n"
| "js_number (JStr s) = number_of_string s"
| "js_number (JArr xs) = number_of_string (js_string (JArr xs))"
| "js_number (JObj kvs) = NaN"

text \<open>\<^verbatim>\<open>Number.parseInt(s, 10)\<close>: an optional sign and the longest prefix of digits.\<close>

definition parse_int10 :: "string \<Rightarrow> jsnum" where
  "parse_int10 s =
     (let t = ltrim s;
          (sg, r) = (if starts_with t ''-'' then (-1, tl t) else if starts_with t ''+'' then (1, tl t) else (1 :: int, t));
          d = fst (span_digits r)
      in if d = [] then NaN else num_of_int (sg * int (read_nat d)))"

text \<open>\<^verbatim>\<open>Number.isFinite(v)\<close> and \<^verbatim>\<open>Number.isInteger(v)\<close> do not coerce.\<close>

fun is_finite_number :: "jsval \<Rightarrow> bool" where
  "is_finite_number (JNum n) = num_finite n"
| "is_finite_number v = False"

fun is_integer_number :: "jsval \<Rightarrow> bool" where
  "is_integer_number (JNum n) = num_integer n"
| "is_integer_number v = False"

lemma is_integer_number_cases:
  "is_integer_number v \<Longrightarrow> \<exists>i. v = JInt i"
proof (cases v)
  case (JNum n)
  assume "is_integer_number v"
  with JNum show ?thesis by (cases n) (auto simp: eq_commute)
qed auto

section \<open>Spread and serialisation\<close>

definition index_fields :: "jsval list \<Rightarrow> fields" where
  "index_fields xs = zip (map show_nat [0..<length xs]) xs"

text \<open>The own enumerable properties \<^verbatim>\<open>{...v}\<close> copies.\<close>

fun spread :: "jsval \<Rightarrow> fields" where
  "spread (JObj kvs) = kvs"
| "spread (JArr xs) = index_fields xs"
| "spread (JStr s) = index_fields (map (\<lambda>c. JStr [c]) s)"
| "spread v = []"

text \<open>
  What \<^verbatim>\<open>JSON.parse(JSON.stringify(v))\<close> returns: undefined properties vanish, undefined items and
  numbers that are not finite become null.
\<close>

fun json_norm :: "jsval \<Rightarrow> jsval" where
  "json_norm JUndef = JNull"
| "json_norm JNull = JNull"
| "json_norm (JBool b) = JBool b"
| "json_norm (JNum n) = (if num_finite n then JNum n else JNull)"
| "json_norm (JStr s) = JStr s"
| "json_norm (JArr xs) = JArr (map json_norm xs)"
| "json_norm (JObj kvs) =
     JObj (map (\<lambda>(k, v). (k, json_norm v)) (filter (\<lambda>(k, v). v \<noteq> JUndef) kvs))"

lemma lookup_json_fields:
  "distinct (map fst kvs) \<Longrightarrow>
   lookup (map (\<lambda>(k, v). (k, json_norm v)) (filter (\<lambda>(k, v). v \<noteq> JUndef) kvs)) k =
     (if lookup kvs k = JUndef then JUndef else json_norm (lookup kvs k))"
proof (induction kvs)
  case Nil
  then show ?case by simp
next
  case (Cons kv kvs)
  obtain k' v where kv: "kv = (k', v)" by (cases kv)
  have notin: "k \<notin> set (map fst kvs) \<Longrightarrow>
    lookup (map (\<lambda>(k, v). (k, json_norm v)) (filter (\<lambda>(k, v). v \<noteq> JUndef) kvs)) k = JUndef"
    by (induction kvs) auto
  from Cons kv notin show ?case by auto
qed

lemma getp_json_norm:
  "distinct (map fst kvs) \<Longrightarrow>
   getp (json_norm (JObj kvs)) k =
     (if lookup kvs k = JUndef then JUndef else json_norm (lookup kvs k))"
  by (simp add: lookup_json_fields)

lemma json_norm_JObj [simp]: "\<exists>kvs'. json_norm (JObj kvs) = JObj kvs'"
  by simp

lemma truthy_json_norm_JObj [simp]: "truthy (json_norm (JObj kvs))"
  by simp

lemma json_norm_neq_undef [simp]: "json_norm v \<noteq> JUndef"
  by (cases v) auto

lemma json_norm_idem [simp]: "json_norm (json_norm v) = json_norm v"
  by (induction v rule: json_norm.induct) (auto simp: filter_map o_def split_beta intro!: map_cong filter_cong)

lemma lookup_json_fields_defined:
  "lookup kvs k \<noteq> JUndef \<Longrightarrow>
   lookup (map (\<lambda>(k, v). (k, json_norm v)) (filter (\<lambda>(k, v). v \<noteq> JUndef) kvs)) k = json_norm (lookup kvs k)"
  by (induction kvs) (auto split: if_splits)

lemma getp_json_norm_defined:
  "getp v k \<noteq> JUndef \<Longrightarrow> getp (json_norm v) k = json_norm (getp v k)"
  by (cases v) (auto simp: lookup_json_fields_defined)

lemma getp_json_stable:
  "json_norm v = v \<Longrightarrow> getp v k \<noteq> JUndef \<Longrightarrow> json_norm (getp v k) = getp v k"
  by (metis getp_json_norm_defined)

end
