(* ===== verification/JsDate.thy ===== *)
theory JsDate
  imports JsValue "HOL-Library.Monad_Syntax"
begin

text \<open>
  Time values (milliseconds since 1970-01-01T00:00:00Z) and their ISO 8601 text, as
  \<^verbatim>\<open>Date.prototype.toISOString\<close> prints and \<^verbatim>\<open>Date.parse\<close> reads them.  \<open>date_parse\<close> covers the Date Time
  String Format of ECMAScript (a date-time without an offset is read in UTC, the time zone the
  tools run in); every other text is NaN.  The main fact is that printing and reading back is the
  identity, on which every statement about lease ages rests.
\<close>

section \<open>Civil calendar\<close>

text \<open>Days from 0000-01-01 to the first of January of a year, leap years counted.\<close>

definition days_to_year :: "int \<Rightarrow> int" where
  "days_to_year y = 365 * y + (y + 3) div 4 - (y + 99) div 100 + (y + 399) div 400"

definition leap :: "int \<Rightarrow> bool" where
  "leap y \<longleftrightarrow> y mod 4 = 0 \<and> (y mod 100 \<noteq> 0 \<or> y mod 400 = 0)"

definition year_of_day :: "int \<Rightarrow> int" where
  "year_of_day d =
     (let y = (400 * d) div 146097
      in if d < days_to_year y then y - 1 else if days_to_year (y + 1) \<le> d then y + 1 else y)"

definition month_start :: "bool \<Rightarrow> int \<Rightarrow> int" where
  "month_start l m =
     (let k = (if l then 1 else 0)
      in if m \<le> 1 then 0 else if m = 2 then 31 else if m = 3 then 59 + k else if m = 4 then 90 + k
         else if m = 5 then 120 + k else if m = 6 then 151 + k else if m = 7 then 181 + k
         else if m = 8 then 212 + k else if m = 9 then 243 + k else if m = 10 then 273 + k
         else if m = 11 then 304 + k else if m = 12 then 334 + k else 365 + k)"

definition month_of_doy :: "bool \<Rightarrow> int \<Rightarrow> int" where
  "month_of_doy l n =
     (if n < month_start l 2 then 1 else if n < month_start l 3 then 2
      else if n < month_start l 4 then 3 else if n < month_start l 5 then 4
      else if n < month_start l 6 then 5 else if n < month_start l 7 then 6
      else if n < month_start l 8 then 7 else if n < month_start l 9 then 8
      else if n < month_start l 10 then 9 else if n < month_start l 11 then 10
      else if n < month_start l 12 then 11 else 12)"

definition day_of_civil :: "int \<Rightarrow> int \<Rightarrow> int \<Rightarrow> int" where
  "day_of_civil y m d = days_to_year y + month_start (leap y) m + (d - 1)"

definition civil_of_day :: "int \<Rightarrow> int \<times> int \<times> int" where
  "civil_of_day d =
     (let y = year_of_day d; n = d - days_to_year y; m = month_of_doy (leap y) n
      in (y, m, n - month_start (leap y) m + 1))"

lemma div_bounds:
  fixes x k :: int
  assumes "0 < k"
  shows "k * (x div k) \<le> x" "x < k * (x div k) + k"
  using mult_div_mod_eq [of k x] pos_mod_sign [OF assms, of x] pos_mod_bound [OF assms, of x] by linarith+

lemma ceil_div_step:
  fixes y k j :: int
  assumes "0 < k" and j: "k = j + 1"
  shows "(y + k) div k = (y + j) div k + (if y mod k = 0 then 1 else 0)"
proof -
  have j: "j = k - 1" using j by simp
  define q r where "q = y div k" and "r = y mod k"
  have y: "y = k * q + r" by (simp add: q_def r_def)
  have r: "0 \<le> r" "r < k" using assms(1) by (auto simp: r_def)
  have l: "(y + k) div k = q + 1"
    by (rule int_div_pos_eq [of _ _ _ r]) (use y r in \<open>auto simp: algebra_simps\<close>)
  have "(y + j) div k = (if r = 0 then q else q + 1)"
  proof (cases "r = 0")
    case True
    have "(y + (k - 1)) div k = q"
      by (rule int_div_pos_eq [of _ _ _ "k - 1"]) (use True assms y in auto)
    with True show ?thesis by (simp add: j)
  next
    case False
    have "(y + (k - 1)) div k = q + 1"
      by (rule int_div_pos_eq [of _ _ _ "r - 1"]) (use False y r in \<open>auto simp: algebra_simps\<close>)
    with False show ?thesis by (simp add: j)
  qed
  with l show ?thesis by (simp add: r_def)
qed

lemma days_to_year_Suc: "days_to_year (y + 1) = days_to_year y + (if leap y then 366 else 365)"
proof -
  have a: "(y + 4) div 4 = (y + 3) div 4 + (if y mod 4 = 0 then 1 else 0)"
    by (rule ceil_div_step) simp_all
  have b: "(y + 100) div 100 = (y + 99) div 100 + (if y mod 100 = 0 then 1 else 0)"
    by (rule ceil_div_step) simp_all
  have c: "(y + 400) div 400 = (y + 399) div 400 + (if y mod 400 = 0 then 1 else 0)"
    by (rule ceil_div_step) simp_all
  have d: "y mod 100 = 0 \<Longrightarrow> y mod 4 = 0" "y mod 400 = 0 \<Longrightarrow> y mod 100 = 0"
    using dvd_trans [of 4 "100 :: int" y] dvd_trans [of 100 "400 :: int" y]
    by (simp_all only: dvd_eq_mod_eq_0 [symmetric]) simp_all
  define A B C p4 p100 p400 where "A = (y + 3) div 4" and "B = (y + 99) div 100" and "C = (y + 399) div 400"
    and "p4 = (y mod 4 = 0)" and "p100 = (y mod 100 = 0)" and "p400 = (y mod 400 = 0)"
  note defs = A_def [symmetric] B_def [symmetric] C_def [symmetric]
    p4_def [symmetric] p100_def [symmetric] p400_def [symmetric]
  have "y + 1 + 3 = y + 4" "y + 1 + 99 = y + 100" "y + 1 + 399 = y + 400" by simp_all
  then have "days_to_year (y + 1) = 365 * (y + 1) + (A + (if p4 then 1 else 0)) -
      (B + (if p100 then 1 else 0)) + (C + (if p400 then 1 else 0))"
    by (simp only: days_to_year_def a b c defs)
  moreover have "days_to_year y = 365 * y + A - B + C"
    by (simp only: days_to_year_def defs)
  moreover have "leap y = (p4 \<and> (\<not> p100 \<or> p400))"
    by (simp only: leap_def defs)
  moreover have "p100 \<Longrightarrow> p4" "p400 \<Longrightarrow> p100"
    using d by (simp_all only: defs)
  ultimately show ?thesis by (cases p4; cases p100; cases p400) simp_all
qed

lemma days_to_year_bounds:
  "146097 * y - 396 \<le> 400 * days_to_year y" "400 * days_to_year y \<le> 146097 * y + 699"
proof -
  define a b c where "a = (y + 3) div 4" and "b = (y + 99) div 100" and "c = (y + 399) div 400"
  have a: "4 * a \<le> y + 3" "y \<le> 4 * a"
    using div_bounds [of 4 "y + 3"] by (auto simp: a_def)
  have b: "100 * b \<le> y + 99" "y \<le> 100 * b"
    using div_bounds [of 100 "y + 99"] by (auto simp: b_def)
  have c: "400 * c \<le> y + 399" "y \<le> 400 * c"
    using div_bounds [of 400 "y + 399"] by (auto simp: c_def)
  have "days_to_year y = 365 * y + a - b + c"
    by (simp add: days_to_year_def a_def b_def c_def)
  then show "146097 * y - 396 \<le> 400 * days_to_year y" "400 * days_to_year y \<le> 146097 * y + 699"
    using a b c by linarith+
qed

lemma year_of_day_bounds:
  "days_to_year (year_of_day d) \<le> d" "d < days_to_year (year_of_day d + 1)"
proof -
  define y where "y = (400 * d) div 146097"
  have lo: "146097 * y \<le> 400 * d" and hi: "400 * d < 146097 * (y + 1)"
    using div_bounds [of 146097 "400 * d"] by (auto simp: y_def)
  have l1: "days_to_year (y - 1) \<le> d"
    using days_to_year_bounds(2) [of "y - 1"] lo by simp
  have h1: "d < days_to_year (y + 2)"
    using days_to_year_bounds(1) [of "y + 2"] hi by simp
  show "days_to_year (year_of_day d) \<le> d" "d < days_to_year (year_of_day d + 1)"
    using l1 h1 by (auto simp: year_of_day_def y_def [symmetric] Let_def add.assoc)
qed

lemma month_start_vals:
  "month_start True 1 = 0"
  "month_start True 2 = 31"
  "month_start True 3 = 60"
  "month_start True 4 = 91"
  "month_start True 5 = 121"
  "month_start True 6 = 152"
  "month_start True 7 = 182"
  "month_start True 8 = 213"
  "month_start True 9 = 244"
  "month_start True 10 = 274"
  "month_start True 11 = 305"
  "month_start True 12 = 335"
  "month_start False 1 = 0"
  "month_start False 2 = 31"
  "month_start False 3 = 59"
  "month_start False 4 = 90"
  "month_start False 5 = 120"
  "month_start False 6 = 151"
  "month_start False 7 = 181"
  "month_start False 8 = 212"
  "month_start False 9 = 243"
  "month_start False 10 = 273"
  "month_start False 11 = 304"
  "month_start False 12 = 334"
  by (simp_all add: month_start_def)

lemma month_of_doy_range: "1 \<le> month_of_doy l n \<and> month_of_doy l n \<le> 12"
  by (simp add: month_of_doy_def)

lemma month_of_doy_bounds:
  assumes "0 \<le> n" "n < (if l then 366 else 365)"
  shows "month_start l (month_of_doy l n) \<le> n"
    and "n < month_start l (month_of_doy l n) + 31"
  using assms by (cases l; simp add: month_of_doy_def month_start_vals)+

lemma civil_roundtrip:
  assumes "civil_of_day d = (y, m, k)"
  shows "day_of_civil y m k = d" "1 \<le> m" "m \<le> 12" "1 \<le> k" "k \<le> 31"
proof -
  define n where "n = d - days_to_year y"
  from assms have y: "y = year_of_day d" and m: "m = month_of_doy (leap y) n"
    and k: "k = n - month_start (leap y) m + 1"
    by (auto simp: civil_of_day_def n_def Let_def)
  have n: "0 \<le> n" "n < (if leap y then 366 else 365)"
    using year_of_day_bounds [of d] days_to_year_Suc [of y] by (auto simp: n_def y)
  show "day_of_civil y m k = d"
    by (simp add: day_of_civil_def k n_def)
  show "1 \<le> m" "m \<le> 12"
    using month_of_doy_range [of "leap y" n] by (auto simp: m)
  show "1 \<le> k" "k \<le> 31"
    using month_of_doy_bounds [OF n] by (auto simp: k m)
qed

section \<open>Printing\<close>

fun fixed_digits :: "nat \<Rightarrow> nat \<Rightarrow> string" where
  "fixed_digits 0 n = []"
| "fixed_digits (Suc k) n = fixed_digits k (n div 10) @ [digit_char (n mod 10)]"

lemma length_fixed_digits [simp]: "length (fixed_digits k n) = k"
  by (induction k arbitrary: n) auto

lemma digits_fixed_digits [simp]: "list_all is_digit (fixed_digits k n)"
  by (induction k arbitrary: n) auto

lemma read_fixed_digits [simp]: "n < 10 ^ k \<Longrightarrow> read_nat (fixed_digits k n) = n"
  by (induction k arbitrary: n) auto

definition epoch_day :: int where
  "epoch_day = 719528"

definition ms_per_day :: int where
  "ms_per_day = 86400000"

definition year_text :: "int \<Rightarrow> string" where
  "year_text y =
     (if 0 \<le> y \<and> y \<le> 9999 then fixed_digits 4 (nat y)
      else if y < 0 then ''-'' @ fixed_digits 6 (nat (- y))
      else ''+'' @ fixed_digits 6 (nat y))"

text \<open>\<^verbatim>\<open>new Date(t).toISOString()\<close>.\<close>

definition iso_string :: "int \<Rightarrow> string" where
  "iso_string t =
     (let (y, m, d) = civil_of_day (t div ms_per_day + epoch_day); r = t mod ms_per_day
      in year_text y @ ''-'' @ fixed_digits 2 (nat m) @ ''-'' @ fixed_digits 2 (nat d) @ ''T'' @
         fixed_digits 2 (nat (r div 3600000)) @ '':'' @ fixed_digits 2 (nat (r div 60000 mod 60)) @ '':'' @
         fixed_digits 2 (nat (r div 1000 mod 60)) @ ''.'' @ fixed_digits 3 (nat (r mod 1000)) @ ''Z'')"

text \<open>The time values whose year has four digits.\<close>

definition iso_range :: "int \<Rightarrow> bool" where
  "iso_range t \<longleftrightarrow> -62167219200000 \<le> t \<and> t < 253402300800000"

section \<open>Reading\<close>

definition take_fixed :: "nat \<Rightarrow> string \<Rightarrow> (nat \<times> string) option" where
  "take_fixed k s =
     (if k \<le> length s \<and> list_all is_digit (take k s) then Some (read_nat (take k s), drop k s) else None)"

fun expect :: "char \<Rightarrow> string \<Rightarrow> string option" where
  "expect c [] = None"
| "expect c (c' # s) = (if c = c' then Some s else None)"

definition parse_year :: "string \<Rightarrow> (int \<times> string) option" where
  "parse_year s =
     (if starts_with s ''+'' then map_option (\<lambda>(n, q). (int n, q)) (take_fixed 6 (tl s))
      else if starts_with s ''-'' then
        (case take_fixed 6 (tl s) of
           Some (n, q) \<Rightarrow> if n = 0 then None else Some (- int n, q)
         | None \<Rightarrow> None)
      else map_option (\<lambda>(n, q). (int n, q)) (take_fixed 4 s))"

text \<open>An optional field \<^verbatim>\<open>-NN\<close>, 1 when absent.\<close>

definition parse_date_field :: "string \<Rightarrow> (nat \<times> string) option" where
  "parse_date_field s =
     (if starts_with s ''-'' then take_fixed 2 (tl s) else Some (1, s))"

definition parse_seconds :: "string \<Rightarrow> (nat \<times> nat \<times> string) option" where
  "parse_seconds s =
     (if starts_with s '':'' then
        (case take_fixed 2 (tl s) of
           None \<Rightarrow> None
         | Some (sec, q) \<Rightarrow>
             (if starts_with q ''.'' then
                (case span_digits (tl q) of
                   (d, q') \<Rightarrow> if d = [] then None else Some (sec, read_nat (take 3 (d @ ''00'')), q'))
              else Some (sec, 0, q)))
      else Some (0, 0, s))"

definition parse_time :: "string \<Rightarrow> (int \<times> string) option" where
  "parse_time s =
     do {
       (h, s1) \<leftarrow> take_fixed 2 s;
       s2 \<leftarrow> expect CHR '':'' s1;
       (mi, s3) \<leftarrow> take_fixed 2 s2;
       (sec, ms, s4) \<leftarrow> parse_seconds s3;
       if mi \<le> 59 \<and> sec \<le> 59 \<and> (h \<le> 23 \<or> (h = 24 \<and> mi = 0 \<and> sec = 0 \<and> ms = 0))
       then Some (int h * 3600000 + int mi * 60000 + int sec * 1000 + int ms, s4)
       else None
     }"

text \<open>The offset from UTC in milliseconds, which is subtracted.\<close>

definition parse_zone :: "string \<Rightarrow> int option" where
  "parse_zone s =
     (case s of
        [] \<Rightarrow> Some 0
      | c # r \<Rightarrow>
          if c = CHR ''Z'' \<and> r = [] then Some 0
          else if c = CHR ''+'' \<or> c = CHR ''-'' then
            do {
              (h, s1) \<leftarrow> take_fixed 2 r;
              s2 \<leftarrow> expect CHR '':'' s1;
              (mi, s3) \<leftarrow> take_fixed 2 s2;
              if s3 = [] \<and> h \<le> 23 \<and> mi \<le> 59
              then Some ((if c = CHR ''-'' then -1 else 1) * (int h * 3600000 + int mi * 60000))
              else None
            }
          else None)"

definition parse_iso :: "string \<Rightarrow> int option" where
  "parse_iso s =
     do {
       (y, s1) \<leftarrow> parse_year s;
       (m, s2) \<leftarrow> parse_date_field s1;
       (d, s3) \<leftarrow> parse_date_field s2;
       if 1 \<le> m \<and> m \<le> 12 \<and> 1 \<le> d \<and> d \<le> 31
       then
         (let day = (day_of_civil y (int m) (int d) - epoch_day) * ms_per_day
          in if s3 = [] then Some day
             else if starts_with s3 ''T'' then
               do { (t, r') \<leftarrow> parse_time (tl s3); z \<leftarrow> parse_zone r'; Some (day + t - z) }
             else None)
       else None
     }"

text \<open>\<^verbatim>\<open>Date.parse(s)\<close>: time values beyond 8.64e15 milliseconds are not dates.\<close>

definition time_clip :: "int \<Rightarrow> jsnum" where
  "time_clip t = (if \<bar>t\<bar> \<le> 8640000000000000 then num_of_int t else NaN)"

definition date_parse :: "string \<Rightarrow> jsnum" where
  "date_parse s = (case parse_iso s of Some t \<Rightarrow> time_clip t | None \<Rightarrow> NaN)"

section \<open>Reading back what was printed\<close>

lemma take_fixed_digits [simp]:
  "n < 10 ^ k \<Longrightarrow> take_fixed k (fixed_digits k n @ s) = Some (n, s)"
  by (simp add: take_fixed_def)

lemma fixed_digits_Cons:
  "0 < k \<Longrightarrow> \<exists>c cs. fixed_digits k n = c # cs \<and> is_digit c"
proof -
  assume "0 < k"
  then have "fixed_digits k n \<noteq> []" by (metis length_fixed_digits less_numeral_extra(3) list.size(3))
  then obtain c cs where "fixed_digits k n = c # cs" by (cases "fixed_digits k n") auto
  with digits_fixed_digits [of k n] show ?thesis by simp
qed

lemma parse_year_four:
  assumes "n < 10000"
  shows "parse_year (fixed_digits 4 n @ s) = Some (int n, s)"
proof -
  obtain c cs where c: "fixed_digits 4 n = c # cs" "is_digit c"
    using fixed_digits_Cons [of 4 n] by auto
  have "c \<noteq> CHR ''+''" "c \<noteq> CHR ''-''"
    using c(2) by (auto simp: is_digit_def)
  then have "parse_year (fixed_digits 4 n @ s) = map_option (\<lambda>(n, q). (int n, q)) (take_fixed 4 (fixed_digits 4 n @ s))"
    by (simp add: parse_year_def c(1))
  with assms show ?thesis by simp
qed

lemma span_digits_append:
  "list_all is_digit d \<Longrightarrow> (s = [] \<or> \<not> is_digit (hd s)) \<Longrightarrow> span_digits (d @ s) = (d, s)"
proof (induction d)
  case Nil
  then show ?case by (cases s) auto
next
  case (Cons c d)
  then show ?case by simp
qed

lemma parse_seconds_iso:
  assumes "sec < 100" "ms < 1000"
  shows "parse_seconds ('':'' @ fixed_digits 2 sec @ ''.'' @ fixed_digits 3 ms @ ''Z'') = Some (sec, ms, ''Z'')"
proof -
  have "take_fixed 2 (fixed_digits 2 sec @ CHR ''.'' # fixed_digits 3 ms @ ''Z'') =
      Some (sec, CHR ''.'' # fixed_digits 3 ms @ ''Z'')"
    using assms by simp
  moreover have "span_digits (fixed_digits 3 ms @ ''Z'') = (fixed_digits 3 ms, ''Z'')"
    by (rule span_digits_append) (auto simp: is_digit_def)
  moreover have "fixed_digits 3 ms \<noteq> []"
    by (metis length_fixed_digits list.size(3) numeral_3_eq_3 old.nat.distinct(1))
  moreover have "take 3 (fixed_digits 3 ms @ ''00'') = fixed_digits 3 ms"
    by simp
  ultimately show ?thesis
    using assms by (simp add: parse_seconds_def)
qed

lemma parse_time_iso:
  assumes "h \<le> 23" "mi \<le> 59" "sec \<le> 59" "ms < 1000"
  shows "parse_time (fixed_digits 2 h @ '':'' @ fixed_digits 2 mi @ '':'' @ fixed_digits 2 sec @ ''.'' @
           fixed_digits 3 ms @ ''Z'') =
         Some (int h * 3600000 + int mi * 60000 + int sec * 1000 + int ms, ''Z'')"
  using assms parse_seconds_iso [of sec ms] by (simp add: parse_time_def)

lemma iso_range_year:
  assumes "iso_range t" "civil_of_day (t div ms_per_day + epoch_day) = (y, m, d)"
  shows "0 \<le> y" "y \<le> 9999"
proof -
  let ?D = "t div ms_per_day + epoch_day"
  have D: "0 \<le> ?D" "?D < 3652425"
    using assms(1) by (auto simp: iso_range_def ms_per_day_def epoch_day_def)
  have y: "y = year_of_day ?D"
    using assms(2) by (simp add: civil_of_day_def Let_def)
  have b: "days_to_year y \<le> ?D" "?D < days_to_year (y + 1)"
    using year_of_day_bounds [of ?D] by (auto simp: y)
  show "0 \<le> y"
  proof (rule ccontr)
    assume "\<not> 0 \<le> y"
    then have "y + 1 \<le> 0" by simp
    then have "days_to_year (y + 1) \<le> 0"
      using days_to_year_bounds(2) [of "y + 1"] by (cases "y = -1") (auto simp: days_to_year_def)
    with b D show False by linarith
  qed
  show "y \<le> 9999"
  proof (rule ccontr)
    assume "\<not> y \<le> 9999"
    then have "10000 \<le> y" by simp
    then have "3652425 \<le> days_to_year y"
      using days_to_year_bounds(1) [of y] by (cases "y = 10000") (auto simp: days_to_year_def)
    with b D show False by linarith
  qed
qed

lemma clock_split:
  fixes r :: int
  shows "(r div 3600000) * 3600000 + (r div 60000 mod 60) * 60000 + (r div 1000 mod 60) * 1000 + r mod 1000 = r"
proof -
  define a b c where "a = r div 1000" and "b = a div 60" and "c = b div 60"
  have b: "r div 60000 = b"
    unfolding b_def a_def by (subst zdiv_zmult2_eq [symmetric]) simp_all
  have c: "r div 3600000 = c"
    unfolding c_def b [symmetric] by (subst zdiv_zmult2_eq [symmetric]) simp_all
  have "r = 1000 * a + r mod 1000" "a = 60 * b + a mod 60" "b = 60 * c + b mod 60"
    by (simp_all add: a_def b_def c_def)
  then have "c * 3600000 + (b mod 60) * 60000 + (a mod 60) * 1000 + r mod 1000 = r"
    by (simp add: algebra_simps)
  then show ?thesis by (simp only: b c a_def)
qed
lemma clock_bounds:
  fixes r :: int
  assumes r: "0 \<le> r" "r < 86400000"
  shows "nat (r div 3600000) \<le> 23" "nat (r div 60000 mod 60) \<le> 59"
    "nat (r div 1000 mod 60) \<le> 59" "nat (r mod 1000) < 1000"
proof -
  have "r div 3600000 < 24"
    using r(2) by (simp add: div_less_iff_less_mult)
  then show "nat (r div 3600000) \<le> 23" by simp
  have m: "x mod 60 \<le> 59" for x :: int using pos_mod_bound [of 60 x] by linarith
  show "nat (r div 60000 mod 60) \<le> 59" "nat (r div 1000 mod 60) \<le> 59"
    using m [of "r div 60000"] m [of "r div 1000"] by (simp_all only: nat_le_iff of_nat_numeral)
  have "r mod 1000 < 1000" by simp
  then show "nat (r mod 1000) < 1000" by simp
qed

theorem parse_iso_string:
  assumes "iso_range t"
  shows "parse_iso (iso_string t) = Some t"
proof -
  obtain y m d where c: "civil_of_day (t div ms_per_day + epoch_day) = (y, m, d)"
    by (metis prod_cases3)
  note civil = civil_roundtrip [OF c] and year = iso_range_year [OF assms c]
  define r where "r = t mod ms_per_day"
  define h mi sec ms where "h = nat (r div 3600000)" and "mi = nat (r div 60000 mod 60)"
    and "sec = nat (r div 1000 mod 60)" and "ms = nat (r mod 1000)"
  have r: "0 \<le> r" "r < 86400000"
    by (auto simp: r_def ms_per_day_def)
  have bounds: "h \<le> 23" "mi \<le> 59" "sec \<le> 59" "ms < 1000"
    unfolding h_def mi_def sec_def ms_def using clock_bounds [OF r] .
  have "int h = r div 3600000" "int mi = r div 60000 mod 60" "int sec = r div 1000 mod 60" "int ms = r mod 1000"
    using r by (simp_all add: h_def mi_def sec_def ms_def pos_imp_zdiv_nonneg_iff)
  then have sum: "int h * 3600000 + int mi * 60000 + int sec * 1000 + int ms = r"
    by (simp only: clock_split)
  have md: "nat m < 100" "nat d < 100" "Suc 0 \<le> nat m" "Suc 0 \<le> nat d" using civil by auto
  have text_eq: "iso_string t = fixed_digits 4 (nat y) @ CHR ''-'' # fixed_digits 2 (nat m) @ CHR ''-'' #
      fixed_digits 2 (nat d) @ CHR ''T'' # fixed_digits 2 h @ '':'' @ fixed_digits 2 mi @ '':'' @
      fixed_digits 2 sec @ ''.'' @ fixed_digits 3 ms @ ''Z''"
    using year by (simp add: iso_string_def c year_text_def h_def mi_def sec_def ms_def r_def Let_def)
  have zone: "parse_zone ''Z'' = Some 0" by (simp add: parse_zone_def)
  have "parse_iso (iso_string t) =
      Some ((day_of_civil y m d - epoch_day) * ms_per_day +
            (int h * 3600000 + int mi * 60000 + int sec * 1000 + int ms) - 0)"
    unfolding text_eq parse_iso_def
    using year civil md parse_time_iso [OF bounds] zone
    by (simp add: parse_year_four parse_date_field_def nat_le_iff Let_def)
  also have "\<dots> = Some t"
    unfolding sum using civil(1) by (simp add: r_def)
  finally show ?thesis .
qed

lemma date_parse_iso [simp]: "iso_range t \<Longrightarrow> date_parse (iso_string t) = num_of_int t"
  by (simp add: date_parse_def parse_iso_string time_clip_def) (auto simp: iso_range_def abs_if)

lemma iso_string_inject: "iso_range a \<Longrightarrow> iso_range b \<Longrightarrow> iso_string a = iso_string b \<longleftrightarrow> a = b"
  by (metis option.inject parse_iso_string)

lemma iso_string_nonempty [simp]: "iso_string t \<noteq> []"
  by (simp add: iso_string_def Let_def split: prod.split)

text \<open>
  \<^verbatim>\<open>new Date(v)\<close> for a truthy value: a text (or an object's text) is parsed, a number is a time value.
\<close>

fun date_of_value :: "jsval \<Rightarrow> jsnum" where
  "date_of_value (JNum n) = (case num_trunc n of Fin x \<Rightarrow> time_clip \<lfloor>x\<rfloor> | _ \<Rightarrow> NaN)"
| "date_of_value (JBool b) = (if b then Fin 1 else Fin 0)"
| "date_of_value JNull = Fin 0"
| "date_of_value JUndef = NaN"
| "date_of_value v = date_parse (js_string v)"

text \<open>A valid date's ISO text; the callers test for NaN first.\<close>

definition iso_of_num :: "jsnum \<Rightarrow> string" where
  "iso_of_num n = (case n of Fin x \<Rightarrow> iso_string \<lfloor>x\<rfloor> | _ \<Rightarrow> ''Invalid Date'')"

lemma iso_of_num_of_int [simp]: "iso_of_num (num_of_int t) = iso_string t"
  by (simp add: iso_of_num_def)

end
