(* ===== verification/FileStore.thy ===== *)
theory FileStore
  imports JsDate
begin

text \<open>
  Paths and JSON documents on disk.  The file system is a map from paths to contents; a content is
  a JSON document, white space only, or text that does not parse.  \<^verbatim>\<open>node:path\<close> is modelled in its
  POSIX form.  The interface the lease modules use (read a document, replace a document) is the
  locale \<open>document_store\<close>, interpreted at the end on the atomic replacement the code performs.
\<close>

section \<open>Paths\<close>

fun normalize_segments :: "bool \<Rightarrow> string list \<Rightarrow> string list \<Rightarrow> string list" where
  "normalize_segments ab acc [] = rev acc"
| "normalize_segments ab acc (s # ss) =
     (if s = [] \<or> s = ''.'' then normalize_segments ab acc ss
      else if s = ''..'' then
        (case acc of
           [] \<Rightarrow> normalize_segments ab (if ab then [] else [''..'']) ss
         | a # as \<Rightarrow>
             if a = ''..'' then normalize_segments ab (''..'' # acc) ss
             else normalize_segments ab as ss)
      else normalize_segments ab (s # acc) ss)"

definition path_is_absolute :: "string \<Rightarrow> bool" where
  "path_is_absolute p \<longleftrightarrow> starts_with p ''/''"

definition path_normalize :: "string \<Rightarrow> string" where
  "path_normalize p =
     (if p = [] then ''.''
      else
        (let ab = path_is_absolute p;
             body = join_with ''/'' (normalize_segments ab [] (split_on CHR ''/'' p));
             slash = (last p = CHR ''/'');
             r = (if body = [] \<and> \<not> ab then ''.'' else body)
         in (if ab then ''/'' else []) @ r @ (if slash \<and> r \<noteq> [] then ''/'' else [])))"

definition path_join :: "string list \<Rightarrow> string" where
  "path_join ps =
     (let ne = filter (\<lambda>p. p \<noteq> []) ps in if ne = [] then ''.'' else path_normalize (join_with ''/'' ne))"

text \<open>\<^verbatim>\<open>path.resolve(...)\<close>: the segments from the last absolute one on, made absolute by the working directory.\<close>

fun resolve_segments :: "string list \<Rightarrow> string list \<Rightarrow> string list" where
  "resolve_segments acc [] = acc"
| "resolve_segments acc (p # ps) =
     (if path_is_absolute p then resolve_segments [p] ps else resolve_segments (acc @ [p]) ps)"

definition path_resolve :: "string \<Rightarrow> string list \<Rightarrow> string" where
  "path_resolve cwd ps =
     (let joined = join_with ''/'' (filter (\<lambda>p. p \<noteq> []) (resolve_segments [cwd] ps))
      in ''/'' @ join_with ''/'' (normalize_segments True [] (split_on CHR ''/'' joined)))"

definition path_dirname :: "string \<Rightarrow> string" where
  "path_dirname p =
     (let segs = split_on CHR ''/'' p
      in if length segs \<le> 1 then ''.''
         else (let d = join_with ''/'' (butlast segs) in if d = [] then ''/'' else d))"

text \<open>Runs of characters outside a class become one replacement: \<^verbatim>\<open>s.replace(/[^...]+/g, rep)\<close>.\<close>

fun replace_runs :: "(char \<Rightarrow> bool) \<Rightarrow> string \<Rightarrow> bool \<Rightarrow> string \<Rightarrow> string" where
  "replace_runs keep rep inrun [] = []"
| "replace_runs keep rep inrun (c # s) =
     (if keep c then c # replace_runs keep rep False s
      else (if inrun then [] else rep) @ replace_runs keep rep True s)"

definition safe_name_char :: "char \<Rightarrow> bool" where
  "safe_name_char c \<longleftrightarrow>
     (let n = (of_char c :: nat)
      in (65 \<le> n \<and> n \<le> 90) \<or> (97 \<le> n \<and> n \<le> 122) \<or> (48 \<le> n \<and> n \<le> 57) \<or> n = 46 \<or> n = 95 \<or> n = 45)"

lemma replace_runs_safe:
  "list_all keep rep \<Longrightarrow> list_all keep (replace_runs keep rep b s)"
  by (induction keep rep b s rule: replace_runs.induct) auto

lemma replace_runs_id: "list_all keep s \<Longrightarrow> replace_runs keep rep b s = s"
  by (induction keep rep b s rule: replace_runs.induct) auto

text \<open>A resolved path is a fixed point: resolving it again, from any directory, changes nothing.\<close>

lemma split_acc_no_sep: "d \<notin> set acc \<Longrightarrow> x \<in> set (split_acc d acc s) \<Longrightarrow> d \<notin> set x"
  by (induction d acc s rule: split_acc.induct) (auto split: if_splits)

lemma split_on_no_sep: "x \<in> set (split_on d s) \<Longrightarrow> d \<notin> set x"
  unfolding split_on_def by (rule split_acc_no_sep [of d "[]"]) auto

definition plain_segment :: "string \<Rightarrow> bool" where
  "plain_segment s \<longleftrightarrow> s \<notin> {[], ''.'', ''..''} \<and> CHR ''/'' \<notin> set s"

lemma normalize_segments_plain:
  "(\<And>x. x \<in> set acc \<Longrightarrow> plain_segment x) \<Longrightarrow> (\<And>x. x \<in> set ss \<Longrightarrow> CHR ''/'' \<notin> set x) \<Longrightarrow>
     x \<in> set (normalize_segments True acc ss) \<Longrightarrow> plain_segment x"
proof (induction True acc ss rule: normalize_segments.induct)
  case (1 acc)
  then show ?case by simp
next
  case (2 acc s ss)
  then show ?case
    by (cases acc) (auto simp: plain_segment_def split: if_splits)
qed

lemma normalize_plain: "list_all plain_segment ss \<Longrightarrow> normalize_segments True acc ss = rev acc @ ss"
  by (induction ss arbitrary: acc) (auto simp: plain_segment_def)

lemma split_acc_append: "d \<notin> set a \<Longrightarrow> split_acc d acc (a @ d # s) = (rev acc @ a) # split_acc d [] s"
  by (induction a arbitrary: acc) auto

lemma split_acc_end: "d \<notin> set a \<Longrightarrow> split_acc d acc a = [rev acc @ a]"
  by (induction a arbitrary: acc) auto

lemma split_join: "ss \<noteq> [] \<Longrightarrow> list_all (\<lambda>x. d \<notin> set x) ss \<Longrightarrow> split_on d (join_with [d] ss) = ss"
  unfolding split_on_def
  by (induction "[d]" ss rule: join_with.induct) (auto simp: split_acc_append split_acc_end)

lemma split_abs:
  assumes "list_all plain_segment ss"
  shows "normalize_segments True [] (split_on CHR ''/'' (''/'' @ join_with ''/'' ss)) = ss"
proof (cases "ss = []")
  case True
  then show ?thesis by (simp add: split_on_def)
next
  case False
  have "split_on CHR ''/'' (''/'' @ join_with ''/'' ss) = [] # split_on CHR ''/'' (join_with ''/'' ss)"
    by (simp add: split_on_def)
  also have "\<dots> = [] # ss"
    using assms False by (subst split_join) (auto simp: list_all_iff plain_segment_def)
  finally show ?thesis
    using normalize_plain [OF assms, of "[]"] by simp
qed

lemma path_resolve_idem: "path_resolve cwd [path_resolve cwd' ps] = path_resolve cwd' ps"
proof -
  define ss where "ss = normalize_segments True []
      (split_on CHR ''/'' (join_with ''/'' (filter (\<lambda>p. p \<noteq> []) (resolve_segments [cwd'] ps))))"
  have plain: "list_all plain_segment ss"
    unfolding list_all_iff ss_def
    by (auto intro: normalize_segments_plain [of "[]"] dest: split_on_no_sep)
  have "path_resolve cwd' ps = ''/'' @ join_with ''/'' ss"
    by (simp add: path_resolve_def ss_def Let_def)
  moreover have "path_is_absolute (''/'' @ join_with ''/'' ss)"
    by (simp add: path_is_absolute_def)
  ultimately show ?thesis
    using split_abs [OF plain] by (simp add: path_resolve_def Let_def)
qed

section \<open>Files inside a directory\<close>

text \<open>
  \<open>normal_step\<close> is one step of the normalisation; normalising a relative path first and resolving
  the result later gives what resolving it at once gives.
\<close>

definition normal_step :: "bool \<Rightarrow> string list \<Rightarrow> string \<Rightarrow> string list" where
  "normal_step ab acc s =
     (if s = [] \<or> s = ''.'' then acc
      else if s = ''..'' then
        (case acc of
           [] \<Rightarrow> (if ab then [] else [''..''])
         | a # as \<Rightarrow> if a = ''..'' then ''..'' # acc else as)
      else s # acc)"

lemma normalize_segments_fold: "normalize_segments ab acc ss = rev (foldl (normal_step ab) acc ss)"
  by (induction ab acc ss rule: normalize_segments.induct) (auto simp: normal_step_def split: list.splits)

lemma normal_step_visible:
  "\<forall>x\<in>set acc. x \<noteq> [] \<and> x \<noteq> ''.'' \<Longrightarrow> \<forall>x\<in>set (normal_step ab acc s). x \<noteq> [] \<and> x \<noteq> ''.''"
  by (auto simp: normal_step_def split: list.splits)

lemma normal_step_replay:
  assumes "\<forall>x\<in>set rel. x \<noteq> [] \<and> x \<noteq> ''.''"
  shows "foldl (normal_step True) acc (rev (normal_step False rel s)) =
    normal_step True (foldl (normal_step True) acc (rev rel)) s"
  using assms by (auto simp: normal_step_def split: list.splits)

lemma normalize_replay_acc:
  "\<forall>x\<in>set rel. x \<noteq> [] \<and> x \<noteq> ''.'' \<Longrightarrow>
     foldl (normal_step True) acc (rev (foldl (normal_step False) rel ss)) =
     foldl (normal_step True) (foldl (normal_step True) acc (rev rel)) ss"
proof (induction ss arbitrary: rel)
  case Nil
  then show ?case by simp
next
  case (Cons s ss)
  then show ?case
    using Cons.IH [OF normal_step_visible [OF Cons.prems]] normal_step_replay [OF Cons.prems] by simp
qed

lemma normalize_replay:
  "normalize_segments True acc (normalize_segments False [] ss) = normalize_segments True acc ss"
  using normalize_replay_acc [of "[]" acc ss] by (simp add: normalize_segments_fold)

lemma normalize_append:
  "normalize_segments ab acc (xs @ ys) = normalize_segments ab (rev (normalize_segments ab acc xs)) ys"
  by (simp add: normalize_segments_fold)

lemma normalize_last:
  "plain_segment n \<Longrightarrow> normalize_segments ab acc (xs @ [n]) = normalize_segments ab acc xs @ [n]"
  by (simp add: normalize_append plain_segment_def)

lemma split_acc_app: "split_acc d acc (a @ d # b) = split_acc d acc a @ split_acc d [] b"
  by (induction d acc a rule: split_acc.induct) auto

lemma split_on_app: "split_on d (a @ d # b) = split_on d a @ split_on d b"
  by (simp add: split_on_def split_acc_app)

lemma split_on_plain: "plain_segment n \<Longrightarrow> split_on CHR ''/'' n = [n]"
  by (simp add: split_on_def split_acc_end plain_segment_def)

lemma split_dir_name: "plain_segment n \<Longrightarrow> split_on CHR ''/'' (dir @ CHR ''/'' # n) = split_on CHR ''/'' dir @ [n]"
  using split_on_app [of "CHR ''/''" dir n] by (simp add: split_on_plain)

lemma join_snoc: "xs \<noteq> [] \<Longrightarrow> join_with sep (xs @ [n]) = join_with sep xs @ sep @ n"
  by (induction sep xs rule: join_with.induct) auto

lemma normalize_no_sep:
  "(\<forall>x\<in>set acc. d \<notin> set x) \<Longrightarrow> d \<noteq> CHR ''.'' \<Longrightarrow> (\<forall>x\<in>set ss. d \<notin> set x) \<Longrightarrow>
     x \<in> set (normalize_segments ab acc ss) \<Longrightarrow> d \<notin> set x"
proof (induction ab acc ss rule: normalize_segments.induct)
  case (1 ab acc)
  then show ?case by simp
next
  case (2 ab acc s ss)
  then show ?case
    by (cases acc) (auto split: if_splits)
qed

text \<open>The absolute path of a file directly inside a directory, and its directory.\<close>

definition resolved :: "string \<Rightarrow> string \<Rightarrow> string list" where
  "resolved cwd p = normalize_segments True []
     (if path_is_absolute p then split_on CHR ''/'' p
      else split_on CHR ''/'' cwd @ split_on CHR ''/'' p)"

lemma normalize_skip_empty: "normalize_segments ab acc (xs @ [[]]) = normalize_segments ab acc xs"
  by (simp add: normalize_append)

lemma path_resolve_resolved:
  assumes "cwd \<noteq> []"
  shows "path_resolve cwd [p] = ''/'' @ join_with ''/'' (resolved cwd p)"
proof -
  have "split_on CHR ''/'' [] = [[]]"
    by (simp add: split_on_def)
  then show ?thesis
    using assms split_on_app [of "CHR ''/''" cwd p]
    by (auto simp: path_resolve_def resolved_def Let_def path_is_absolute_def normalize_skip_empty)
qed

lemma normalized_plain:
  "(\<And>x. x \<in> set ss \<Longrightarrow> CHR ''/'' \<notin> set x) \<Longrightarrow> list_all plain_segment (normalize_segments True [] ss)"
  using normalize_segments_plain [of "[]" ss] by (auto simp: list_all_iff)

lemma resolved_plain: "list_all plain_segment (resolved cwd p)"
  unfolding resolved_def by (rule normalized_plain) (auto dest: split_on_no_sep split: if_splits)

lemma visible_fold:
  "\<forall>x\<in>set acc. x \<noteq> [] \<and> x \<noteq> ''.'' \<Longrightarrow> x \<in> set (foldl (normal_step ab) acc ss) \<Longrightarrow> x \<noteq> [] \<and> x \<noteq> ''.''"
proof (induction ss arbitrary: acc)
  case Nil
  then show ?case by simp
next
  case (Cons s ss)
  from Cons.IH [OF normal_step_visible [OF Cons.prems(1)]] Cons.prems(2) show ?case by simp
qed

lemma normalized_visible: "x \<in> set (normalize_segments ab [] ss) \<Longrightarrow> x \<noteq> []"
  using visible_fold [of "[]" x ab ss] by (simp add: normalize_segments_fold)

lemma split_normalized:
  assumes "X = normalize_segments ab [] (split_on CHR ''/'' p)" "X \<noteq> []"
  shows "split_on CHR ''/'' (join_with ''/'' X) = X" "\<not> path_is_absolute (join_with ''/'' X)"
proof -
  have "list_all (\<lambda>x. CHR ''/'' \<notin> set x) X"
    using assms(1) normalize_no_sep [of "[]" "CHR ''/''"] by (auto simp: list_all_iff dest: split_on_no_sep)
  then show split: "split_on CHR ''/'' (join_with ''/'' X) = X"
    by (rule split_join [OF assms(2)])
  have "[] \<notin> set X"
    using assms(1) normalized_visible by auto
  moreover have "[] \<in> set (split_on CHR ''/'' (CHR ''/'' # r))" for r
    by (simp add: split_on_def)
  ultimately show "\<not> path_is_absolute (join_with ''/'' X)"
    using split by (cases "join_with ''/'' X") (auto simp: path_is_absolute_def)
qed

lemma resolved_join:
  assumes "dir \<noteq> []" "plain_segment n"
  shows "resolved cwd (path_join [dir, n]) = resolved cwd dir @ [n]"
proof -
  define X where "X = normalize_segments (path_is_absolute dir) [] (split_on CHR ''/'' (dir @ CHR ''/'' # n))"
  have n: "n \<noteq> []" "last n \<noteq> CHR ''/''"
    using assms(2) by (auto simp: plain_segment_def) (metis last_in_set)
  have X: "X = normalize_segments (path_is_absolute dir) [] (split_on CHR ''/'' dir) @ [n]"
    by (simp add: X_def split_dir_name normalize_last assms(2))
  have ne: "join_with ''/'' X \<noteq> []"
    using n X by (cases "butlast X = []") (auto simp: join_snoc)
  have pabs: "path_is_absolute (dir @ CHR ''/'' # n) = path_is_absolute dir"
    using assms(1) by (cases dir) (auto simp: path_is_absolute_def)
  have "last (dir @ CHR ''/'' # n) \<noteq> CHR ''/''"
    using n by simp
  then have j: "path_join [dir, n] = (if path_is_absolute dir then ''/'' else []) @ join_with ''/'' X"
    using assms(1) n ne pabs by (simp add: path_join_def path_normalize_def Let_def X_def [symmetric])
  show ?thesis
  proof (cases "path_is_absolute dir")
    case True
    then have "list_all plain_segment X"
      using X_def by (auto intro: normalized_plain dest: split_on_no_sep)
    moreover from j True have "path_join [dir, n] = ''/'' @ join_with ''/'' X" by simp
    ultimately show ?thesis
      using True split_abs X by (simp add: resolved_def path_is_absolute_def)
  next
    case False
    with j split_normalized [of X False "dir @ CHR ''/'' # n"] X have
      "split_on CHR ''/'' (path_join [dir, n]) = X" "\<not> path_is_absolute (path_join [dir, n])"
      by (auto simp: X_def)
    with False show ?thesis
      using normalize_replay [of "rev (normalize_segments True [] (split_on CHR ''/'' cwd))" "split_on CHR ''/'' dir @ [n]"]
      by (simp add: resolved_def normalize_append [of True "[]"] X_def split_dir_name assms(2) normalize_last)
  qed
qed

text \<open>\<open>absolute_dir\<close> is where a file directly inside the directory lives.\<close>

lemma dirname_abs:
  assumes "list_all plain_segment xs" "plain_segment n"
  shows "path_dirname (''/'' @ join_with ''/'' (xs @ [n])) = ''/'' @ join_with ''/'' xs"
proof -
  have "split_on CHR ''/'' (''/'' @ join_with ''/'' (xs @ [n])) = [] # xs @ [n]"
    using split_join [of "xs @ [n]" "CHR ''/''"] assms
    by (simp add: split_on_def list_all_iff plain_segment_def)
  then show ?thesis
    by (cases xs) (auto simp: path_dirname_def Let_def)
qed

lemma file_in_dir:
  assumes "cwd \<noteq> []" "dir \<noteq> []" "plain_segment n"
  shows "path_dirname (path_resolve cwd [path_join [dir, n]]) = path_resolve cwd [dir]"
    "path_resolve cwd [path_join [dir, n]] = ''/'' @ join_with ''/'' (resolved cwd dir @ [n])"
  using assms dirname_abs [OF resolved_plain [of cwd dir]]
  by (simp_all add: path_resolve_resolved resolved_join)

section \<open>Documents\<close>

datatype file_content = Blank | Malformed | Doc jsval

type_synonym store = "string \<Rightarrow> file_content option"

text \<open>
  A write goes to a private temporary file that is renamed over the target and removed in the
  \<^verbatim>\<open>finally\<close> block, so the target changes in one step.
\<close>

definition temp_path :: "nat \<Rightarrow> int \<Rightarrow> string \<Rightarrow> string" where
  "temp_path pid ms p = p @ ''.'' @ show_nat pid @ ''.'' @ show_int ms @ ''.tmp''"

definition atomic_replace :: "string \<Rightarrow> string \<Rightarrow> jsval \<Rightarrow> store \<Rightarrow> store" where
  "atomic_replace tmp p v st =
     (let st1 = st(tmp \<mapsto> Doc (json_norm v));
          st2 = (st1(p := st1 tmp))(tmp := None)
      in st2(tmp := None))"

text \<open>\<^verbatim>\<open>JSON.parse\<close> of an empty text is a SyntaxError as well; a missing file reads as null.\<close>

definition read_doc :: "string \<Rightarrow> store \<Rightarrow> jsval result" where
  "read_doc p st =
     (case st p of
        None \<Rightarrow> Inr JNull
      | Some (Doc v) \<Rightarrow> Inr v
      | Some _ \<Rightarrow> Inl SyntaxError)"

lemma temp_path_neq [simp]: "temp_path pid ms p \<noteq> p" "p \<noteq> temp_path pid ms p"
  by (simp_all add: temp_path_def)

lemma atomic_replace_apply:
  "tmp \<noteq> p \<Longrightarrow> atomic_replace tmp p v st q =
     (if q = tmp then None else if q = p then Some (Doc (json_norm v)) else st q)"
  by (simp add: atomic_replace_def Let_def)

text \<open>
  The contract of a document store as the lease modules use it: what was written is read back
  (as JSON), and a write touches nothing outside its own scratch paths.
\<close>

locale document_store =
  fixes rd :: "string \<Rightarrow> 's \<Rightarrow> jsval result"
    and wr :: "string \<Rightarrow> jsval \<Rightarrow> 's \<Rightarrow> 's"
    and touched :: "string \<Rightarrow> string set"
  assumes read_back: "rd p (wr p v s) = Inr (json_norm v)"
    and read_other: "q \<notin> touched p \<Longrightarrow> rd q (wr p v s) = rd q s"
begin

text \<open>A document and then a report about it: the document survives when the report is elsewhere.\<close>

lemma document_then_report:
  "p \<notin> touched out \<Longrightarrow> rd p (wr out rep (wr p v s)) = Inr (json_norm v)"
  by (simp add: read_back read_other)

lemma report_only: "p \<notin> touched out \<Longrightarrow> rd p (wr out rep s) = rd p s"
  by (simp add: read_other)

end

definition touched_paths :: "nat \<Rightarrow> int \<Rightarrow> string \<Rightarrow> string set" where
  "touched_paths pid ms p = {p, temp_path pid ms p}"

lemma read_doc_cong: "st p = st' p \<Longrightarrow> read_doc p st = read_doc p st'"
  by (simp add: read_doc_def)

interpretation json_store: document_store read_doc
  "\<lambda>p. atomic_replace (temp_path pid ms p) p" "touched_paths pid ms" for pid ms
  by unfold_locales (auto simp: read_doc_def atomic_replace_apply touched_paths_def)

end
