(* ===== verification/LaneHelpers.thy ===== *)
theory LaneHelpers
  imports FileStore
begin

text \<open>
  What the execution-cell lease and the docker-lane handshake share: text normalisation, the
  process context (environment, working directory, clock, git), capability lists, the operator
  profile and the host context.  Both modules declare these helpers with the same text; the ones
  of \<^verbatim>\<open>tools/priority/execution-cell-lease.mjs\<close> are modelled here, and the docker theory states
  its own copies of the longer ones and proves that they agree.
\<close>

section \<open>The process context\<close>

text \<open>
  \<open>gitCommonDir\<close> is what git reports for the repository, \<open>None\<close> when
  \<^verbatim>\<open>resolveGitAdminPaths\<close> throws.  \<open>rand\<close> is the hexadecimal suffix \<^verbatim>\<open>Math.random()\<close> yields.
\<close>

record process =
  env :: "string \<Rightarrow> string option"
  gitCommonDir :: "string option"
  moduleRepoRoot :: string
  workingDir :: string
  pid :: nat
  clockMs :: int
  rand :: string
  hostName :: string

definition env_value :: "process \<Rightarrow> string \<Rightarrow> jsval" where
  "env_value c k = (case env c k of None \<Rightarrow> JUndef | Some s \<Rightarrow> JStr s)"

text \<open>The functions of \<^verbatim>\<open>node:path\<close> accept strings only.\<close>

fun as_text :: "jsval \<Rightarrow> string result" where
  "as_text (JStr s) = Inr s"
| "as_text v = Inl (TypeError ''path'')"

section \<open>Text\<close>

definition normalizeText :: "jsval \<Rightarrow> string" where
  "normalizeText v = (if nullish v then [] else trim (js_string v))"

definition toOptionalText :: "jsval \<Rightarrow> jsval" where
  "toOptionalText v = (let n = normalizeText v in if n = [] then JNull else JStr n)"

definition normalizeAgentClass :: "jsval \<Rightarrow> string" where
  "normalizeAgentClass v =
     (let n = to_lower (normalizeText v)
      in if n \<in> set [''sagan'', ''subagent'', ''other''] then n else ''subagent'')"

definition uniqueId :: "string \<Rightarrow> int \<Rightarrow> string \<Rightarrow> string" where
  "uniqueId prefix now rnd = prefix @ ''-'' @ show_int now @ ''-'' @ rnd"

lemma normalizeText_trimmed [simp]: "trimmed (normalizeText v)"
  by (simp add: normalizeText_def) (simp add: trimmed_def)

lemma normalizeText_JStr [simp]: "normalizeText (JStr s) = trim s"
  by (simp add: normalizeText_def)

lemma normalizeText_nullish [simp]: "normalizeText JNull = []" "normalizeText JUndef = []"
  by (simp_all add: normalizeText_def)

lemma trim_normalizeText [simp]: "trim (normalizeText v) = normalizeText v"
  by simp

lemma normalizeText_toOptionalText [simp]: "normalizeText (toOptionalText v) = normalizeText v"
  by (simp add: toOptionalText_def Let_def)

lemma toOptionalText_nullish [simp]: "toOptionalText JNull = JNull" "toOptionalText JUndef = JNull"
  by (simp_all add: toOptionalText_def)

lemma toOptionalText_idem [simp]: "toOptionalText (toOptionalText v) = toOptionalText v"
  by (simp add: toOptionalText_def Let_def)

lemma toOptionalText_cases:
  obtains "toOptionalText v = JNull" "normalizeText v = []"
  | "toOptionalText v = JStr (normalizeText v)" "normalizeText v \<noteq> []"
  by (cases "normalizeText v = []") (simp_all add: toOptionalText_def Let_def)

lemma truthy_toOptionalText [simp]: "truthy (toOptionalText v) \<longleftrightarrow> normalizeText v \<noteq> []"
  by (simp add: toOptionalText_def Let_def)

lemma toOptionalText_neq_JUndef [simp]: "toOptionalText v \<noteq> JUndef"
  by (simp add: toOptionalText_def Let_def)

lemma json_norm_toOptionalText [simp]: "json_norm (toOptionalText v) = toOptionalText v"
  by (simp add: toOptionalText_def Let_def)

lemma toOptionalText_JStr [simp]: "trimmed s \<Longrightarrow> s \<noteq> [] \<Longrightarrow> toOptionalText (JStr s) = JStr s"
  by (simp add: toOptionalText_def)

lemma toOptionalText_eq_JStr: "toOptionalText v = JStr s \<longleftrightarrow> normalizeText v = s \<and> s \<noteq> []"
  by (auto simp: toOptionalText_def Let_def)

section \<open>Objects built and changed by the reports\<close>

fun set_field :: "jsval \<Rightarrow> string \<Rightarrow> jsval \<Rightarrow> jsval" where
  "set_field (JObj kvs) k v = JObj (update_fields kvs k v)"
| "set_field w k v = w"

text \<open>\<^verbatim>\<open>{ ...base, k1: v1, ... }\<close>.\<close>

definition with_fields :: "jsval \<Rightarrow> fields \<Rightarrow> jsval" where
  "with_fields base upd = JObj (override (spread base) upd)"

definition jstrs :: "string list \<Rightarrow> jsval" where
  "jstrs ss = JArr (map JStr ss)"

text \<open>\<^verbatim>\<open>report.summary[key].push(...items)\<close>.\<close>

definition push_summary :: "string \<Rightarrow> string list \<Rightarrow> jsval \<Rightarrow> jsval" where
  "push_summary key items report =
     (let summary = getp report ''summary''
      in set_field report ''summary''
           (set_field summary key (JArr (array_items (getp summary key) @ map JStr items))))"

lemma getp_set_field [simp]:
  "is_object w \<and> \<not> is_array w \<Longrightarrow> getp (set_field w k v) k' = (if k = k' then v else getp w k')"
  by (cases w) auto

lemma getp_push_summary_other [simp]:
  "k \<noteq> ''summary'' \<Longrightarrow> getp (push_summary key items report) k = getp report k"
  by (cases report) (auto simp: push_summary_def Let_def)

lemma truthy_with_fields [simp]: "truthy (with_fields base upd)"
  by (simp add: with_fields_def)

lemma with_fields_not_undef [simp]: "with_fields base upd \<noteq> JUndef"
  by (simp add: with_fields_def)

lemma getp_with_fields:
  "getp (with_fields base upd) k =
     (if k \<in> set (map fst upd) then lookup (override [] upd) k else lookup (spread base) k)"
  by (simp add: with_fields_def lookup_override [of "spread base"])

section \<open>Capabilities\<close>

text \<open>\<^verbatim>\<open>for (const entry of v)\<close>, with the default \<^verbatim>\<open>[]\<close> for undefined.\<close>

fun iterable :: "jsval \<Rightarrow> jsval list result" where
  "iterable JUndef = Inr []"
| "iterable (JArr xs) = Inr xs"
| "iterable (JStr s) = Inr (map (\<lambda>c. JStr [c]) s)"
| "iterable v = Inl (TypeError ''not iterable'')"

definition normalizeCapabilityList :: "jsval list \<Rightarrow> string list" where
  "normalizeCapabilityList xs = uniq (filter (\<lambda>s. s \<noteq> []) (map normalizeText xs))"

definition normalizeCapabilities :: "jsval \<Rightarrow> string list result" where
  "normalizeCapabilities v = bindE (iterable v) (\<lambda>xs. Inr (normalizeCapabilityList xs))"

definition DOCKER_LANE_CAPABILITY :: string where
  "DOCKER_LANE_CAPABILITY = ''docker-lane''"

definition NATIVE_LV32_CAPABILITY :: string where
  "NATIVE_LV32_CAPABILITY = ''native-labview-2026-32''"

definition isPremiumDualLaneRequest :: "string list \<Rightarrow> bool" where
  "isPremiumDualLaneRequest caps =
     (let s = set (normalizeCapabilityList (map JStr caps))
      in DOCKER_LANE_CAPABILITY \<in> s \<and> NATIVE_LV32_CAPABILITY \<in> s)"

lemma normalizeCapabilityList_props:
  "distinct (normalizeCapabilityList xs)"
  "s \<in> set (normalizeCapabilityList xs) \<Longrightarrow> trimmed s \<and> s \<noteq> []"
  by (auto simp: normalizeCapabilityList_def)

lemma normalizeCapabilityList_idem:
  "normalizeCapabilityList (map JStr (normalizeCapabilityList xs)) = normalizeCapabilityList xs"
proof -
  let ?l = "normalizeCapabilityList xs"
  have "map (normalizeText \<circ> JStr) ?l = ?l"
    by (rule map_idI) (use normalizeCapabilityList_props(2) in auto)
  moreover have "filter (\<lambda>s. s \<noteq> []) ?l = ?l"
    by (rule filter_True) (use normalizeCapabilityList_props(2) in auto)
  ultimately show ?thesis
    using normalizeCapabilityList_props(1) [of xs]
    by (simp add: normalizeCapabilityList_def [of "map JStr _"])
qed

lemma normalizeCapabilities_jstrs [simp]:
  "normalizeCapabilities (jstrs (normalizeCapabilityList xs)) = Inr (normalizeCapabilityList xs)"
  by (simp add: normalizeCapabilities_def jstrs_def normalizeCapabilityList_idem)

lemma json_norm_jstrs [simp]: "json_norm (jstrs ss) = jstrs ss"
  by (simp add: jstrs_def)

section \<open>Host and operator\<close>

record host_context =
  context_of :: jsval
  observations_of :: "string list"

definition int_or_null :: "jsval \<Rightarrow> jsval" where
  "int_or_null v = (if is_integer_number v then v else JNull)"

definition finite_or_null :: "jsval \<Rightarrow> jsval" where
  "finite_or_null v = (if is_finite_number v then v else JNull)"

definition buildHostContext :: "jsval \<Rightarrow> host_context" where
  "buildHostContext hostPlaneReport =
     (let fingerprint = getp (getp hostPlaneReport ''host'') ''osFingerprint''
      in if \<not> truthy fingerprint \<or> \<not> typeof_object fingerprint
         then \<lparr>context_of = JNull, observations_of = [''host-os-fingerprint-missing'']\<rparr>
         else \<lparr>context_of = JObj
                 [(''isolatedLaneGroupId'', toOptionalText (getp fingerprint ''isolatedLaneGroupId'')),
                  (''fingerprintSha256'', toOptionalText (getp fingerprint ''fingerprintSha256'')),
                  (''platform'', toOptionalText (getp fingerprint ''platform'')),
                  (''computerName'', toOptionalText (getp2 hostPlaneReport ''host'' ''computerName'')),
                  (''canonical'', JObj
                    [(''version'', toOptionalText (getp2 fingerprint ''canonical'' ''version'')),
                     (''buildNumber'', toOptionalText (getp2 fingerprint ''canonical'' ''buildNumber'')),
                     (''ubr'', int_or_null (getp2 fingerprint ''canonical'' ''ubr''))])],
               observations_of = []\<rparr>)"

record operator_profile =
  operatorId :: jsval
  currency :: jsval
  laborRateUsdPerHour :: jsval

fun find_first :: "('a \<Rightarrow> bool) \<Rightarrow> 'a list \<Rightarrow> 'a option" where
  "find_first P [] = None"
| "find_first P (x # xs) = (if P x then Some x else find_first P xs)"

fun value_or_undef :: "jsval option \<Rightarrow> jsval" where
  "value_or_undef None = JUndef"
| "value_or_undef (Some v) = v"

definition first_item :: "jsval list \<Rightarrow> jsval" where
  "first_item xs = (case xs of [] \<Rightarrow> JUndef | x # _ \<Rightarrow> x)"

definition resolveOperatorProfile :: "jsval \<Rightarrow> jsval \<Rightarrow> operator_profile" where
  "resolveOperatorProfile profile explicitOperatorId =
     (let operators = array_items (getp profile ''operators'');
          desiredId = js_or (toOptionalText explicitOperatorId) (toOptionalText (getp profile ''defaultOperatorId''));
          activeOperators = filter (\<lambda>e. getp e ''active'' \<noteq> JBool False) operators;
          resolved = js_or (value_or_undef (find_first (\<lambda>e. normalizeText (getp e ''id'') = normalizeText desiredId) activeOperators))
                       (js_or (first_item activeOperators) JNull)
      in \<lparr>operatorId = js_or (toOptionalText (getp resolved ''id'')) desiredId,
          currency = js_or (toOptionalText (getp profile ''currency'')) (JStr ''USD''),
          laborRateUsdPerHour = finite_or_null (getp resolved ''laborRateUsdPerHour'')\<rparr>)"

lemma find_first_set: "find_first P xs = Some x \<Longrightarrow> x \<in> set xs \<and> P x"
  by (induction xs) (auto split: if_splits)

lemma context_of_buildHostContext_json [simp]:
  "json_norm (context_of (buildHostContext r)) = context_of (buildHostContext r)"
proof -
  have "json_norm (int_or_null v) = int_or_null v \<and> int_or_null v \<noteq> JUndef" for v
    using is_integer_number_cases [of v] by (auto simp: int_or_null_def)
  then show ?thesis by (simp add: buildHostContext_def Let_def)
qed

section \<open>Lease age\<close>

definition DEFAULT_TTL_SECONDS :: int where
  "DEFAULT_TTL_SECONDS = 1800"

fun num_of_value :: "jsval \<Rightarrow> jsnum" where
  "num_of_value (JNum n) = n"
| "num_of_value v = NaN"

definition resolveHeartbeatTimestamp :: "jsval \<Rightarrow> jsval" where
  "resolveHeartbeatTimestamp lease =
     js_or (getp lease ''heartbeatAt'')
      (js_or (getp2 lease ''commit'' ''committedAt'')
        (js_or (getp2 lease ''grant'' ''grantedAt'')
          (js_or (getp2 lease ''request'' ''requestedAt'') JNull)))"

definition leaseAgeSeconds :: "jsval \<Rightarrow> jsnum \<Rightarrow> jsnum" where
  "leaseAgeSeconds lease nowMs =
     (let timestamp = resolveHeartbeatTimestamp lease
      in if \<not> truthy timestamp then PosInf
         else (let parsed = date_parse (js_string timestamp)
               in if \<not> num_finite parsed then PosInf
                  else num_max (Fin 0) (num_div (num_sub nowMs parsed) (Fin 1000))))"

definition resolveTtlSeconds :: "jsval \<Rightarrow> jsnum" where
  "resolveTtlSeconds lease =
     (if is_integer_number (getp2 lease ''grant'' ''ttlSeconds'')
      then num_of_value (getp2 lease ''grant'' ''ttlSeconds'') else num_of_int DEFAULT_TTL_SECONDS)"

lemma leaseAgeSeconds_iso:
  assumes "getp lease ''heartbeatAt'' = JStr (iso_string t0)" "iso_range t0"
  shows "leaseAgeSeconds lease (num_of_int t) = Fin (max 0 (of_int (t - t0) / 1000))"
  using assms by (simp add: leaseAgeSeconds_def resolveHeartbeatTimestamp_def Let_def)

section \<open>Records read back from disk\<close>

text \<open>
  A record \<^verbatim>\<open>{ ...base, k: v }\<close> that was written and read again: the new fields are the ones that
  were set, the others the ones of the base document (which came from a file itself).
\<close>

lemma getp_stored_new:
  "lookup (override [] upd) k \<noteq> JUndef \<Longrightarrow> k \<in> set (map fst upd) \<Longrightarrow>
   getp (json_norm (with_fields base upd)) k = json_norm (lookup (override [] upd) k)"
  by (simp add: getp_json_norm_defined getp_with_fields del: json_norm.simps)

lemma getp_stored_old:
  "json_norm base = base \<Longrightarrow> getp base k \<noteq> JUndef \<Longrightarrow> k \<notin> set (map fst upd) \<Longrightarrow>
   getp (json_norm (with_fields base upd)) k = getp base k"
  using getp_json_stable [of base k]
  by (cases base) (auto simp add: getp_json_norm_defined getp_with_fields simp del: json_norm.simps)

lemma with_fields_is_object: "\<exists>kvs. json_norm (with_fields base upd) = JObj kvs"
  by (simp add: with_fields_def)

lemma truthy_stored [simp]: "truthy (json_norm (with_fields base upd))"
  by (simp add: with_fields_def)

end
