(* ===== verification/ExecutionCell.thy ===== *)
theory ExecutionCell
  imports LaneHelpers
begin

text \<open>
  The execution-cell lease of \<^verbatim>\<open>tools/priority/execution-cell-lease.mjs\<close>: one JSON document per
  cell, moved by the actions request, grant, commit, heartbeat, release and inspect of
  \<^verbatim>\<open>runExecutionCellLease\<close>.  Options are a JavaScript object; \<open>options.now\<close> is the time value \<open>now\<close>.
  Each branch of the dispatcher is a definition from the prepared run and the store to the new
  store and the report.
\<close>

section \<open>Paths and defaults\<close>

definition EXECUTION_CELL_LEASE_SCHEMA :: string where
  "EXECUTION_CELL_LEASE_SCHEMA = ''priority/execution-cell-lease@v1''"

definition EXECUTION_CELL_LEASE_REPORT_SCHEMA :: string where
  "EXECUTION_CELL_LEASE_REPORT_SCHEMA = ''priority/execution-cell-lease-report@v1''"

definition DEFAULT_OUTPUT_PATH :: string where
  "DEFAULT_OUTPUT_PATH = path_join [''tests'', ''results'', ''_agent'', ''runtime'', ''execution-cell-lease.json'']"

definition DEFAULT_HOST_PLANE_REPORT_PATH :: string where
  "DEFAULT_HOST_PLANE_REPORT_PATH =
     path_join [''tests'', ''results'', ''_agent'', ''host-planes'', ''labview-2026-host-plane-report.json'']"

definition DEFAULT_OPERATOR_COST_PROFILE_PATH :: string where
  "DEFAULT_OPERATOR_COST_PROFILE_PATH = path_join [''tools'', ''policy'', ''operator-cost-profile.json'']"

definition DEFAULT_HARNESS_KIND :: string where
  "DEFAULT_HARNESS_KIND = ''teststand-compare-harness''"

definition PREMIUM_RATE_MULTIPLIER :: jsnum where
  "PREMIUM_RATE_MULTIPLIER = Fin (3 / 2)"

definition ORDINARY_RATE_MULTIPLIER :: jsnum where
  "ORDINARY_RATE_MULTIPLIER = Fin 1"

definition normalizeCellClass :: "jsval \<Rightarrow> string" where
  "normalizeCellClass v =
     (let n = to_lower (normalizeText v)
      in if n \<in> set [''worker'', ''coordinator'', ''kernel-coordinator''] then n else ''worker'')"

definition sanitizeCellId :: "jsval \<Rightarrow> string" where
  "sanitizeCellId cellId = replace_runs safe_name_char ''__'' False (normalizeText cellId)"

definition resolveDefaultLeaseRoot :: "process \<Rightarrow> jsval \<Rightarrow> jsval result" where
  "resolveDefaultLeaseRoot c opts =
     (case gitCommonDir c of
        Some d \<Rightarrow> Inr (JStr (path_join [d, ''execution-cell-leases'']))
      | None \<Rightarrow>
          bindE (as_text (js_or (getp opts ''repoRoot'') (JStr (moduleRepoRoot c))))
            (\<lambda>root. Inr (JStr (path_join [root, ''.git'', ''execution-cell-leases'']))))"

definition defaultLeaseRoot :: "process \<Rightarrow> jsval \<Rightarrow> jsval result" where
  "defaultLeaseRoot c opts =
     (let given = js_or (getp opts ''leaseRoot'') (env_value c ''EXECUTION_CELL_LEASE_ROOT'')
      in if truthy given then Inr given else resolveDefaultLeaseRoot c opts)"

definition leasePathForCell :: "jsval \<Rightarrow> string \<Rightarrow> string" where
  "leasePathForCell cellId leaseRoot = path_join [leaseRoot, sanitizeCellId cellId @ ''.json'']"

text \<open>\<^verbatim>\<open>path.resolve(root, p)\<close> reads its arguments from the right and stops at an absolute one.\<close>

definition resolve_under :: "process \<Rightarrow> jsval \<Rightarrow> jsval \<Rightarrow> string result" where
  "resolve_under c base p =
     bindE (as_text p) (\<lambda>q.
       if path_is_absolute q then Inr (path_resolve (workingDir c) [q])
       else bindE (as_text base) (\<lambda>r. Inr (path_resolve (workingDir c) [r, q])))"

definition isWindowsNativeTestStandPlaneBinding :: "jsval \<Rightarrow> bool" where
  "isWindowsNativeTestStandPlaneBinding planeBinding =
     (let n = to_lower (normalizeText planeBinding)
      in n = [] \<or> n = ''dual-plane-parity'' \<or> starts_with n ''native-labview-'')"

definition isExecutionCellLeaseStale :: "jsval \<Rightarrow> jsnum \<Rightarrow> bool" where
  "isExecutionCellLeaseStale lease nowMs =
     (truthy lease \<and> getp lease ''state'' \<noteq> JStr ''released'' \<and>
      num_gt (leaseAgeSeconds lease nowMs) (resolveTtlSeconds lease))"

definition write_json :: "process \<Rightarrow> string \<Rightarrow> jsval \<Rightarrow> store \<Rightarrow> store" where
  "write_json c p v st = atomic_replace (temp_path (pid c) (clockMs c) p) p v st"

section \<open>Records\<close>

text \<open>The values \<^verbatim>\<open>runExecutionCellLease\<close> computes before it looks at the action.\<close>

record cell_run =
  ec_action :: string
  ec_cellId :: string
  ec_repoRoot :: jsval
  ec_leasePath :: string
  ec_outputPath :: string
  ec_generatedAt :: string
  ec_hostContext :: host_context
  ec_profile :: operator_profile
  ec_agentClass :: string
  ec_cellClass :: string
  ec_capabilities :: "string list"
  ec_existing :: jsval

definition buildRequestRecord :: "process \<Rightarrow> int \<Rightarrow> jsval \<Rightarrow> cell_run \<Rightarrow> jsval" where
  "buildRequestRecord c now opts r =
     (let requestedCapabilities = normalizeCapabilityList (map JStr (ec_capabilities r));
          generatedAt = JStr (iso_string now)
      in JObj
        [(''schema'', JStr EXECUTION_CELL_LEASE_SCHEMA),
         (''generatedAt'', generatedAt),
         (''cellId'', JStr (ec_cellId r)),
         (''resourceKind'', JStr ''execution-cell''),
         (''state'', JStr ''requested''),
         (''sequence'', JInt 1),
         (''heartbeatAt'', generatedAt),
         (''host'', context_of (ec_hostContext r)),
         (''request'', JObj
           [(''requestId'', JStr (uniqueId ''request'' now (rand c))),
            (''requestedAt'', generatedAt),
            (''agentId'', toOptionalText (getp opts ''agentId'')),
            (''agentClass'', JStr (ec_agentClass r)),
            (''cellClass'', JStr (ec_cellClass r)),
            (''suiteClass'', toOptionalText (getp opts ''suiteClass'')),
            (''planeBinding'', toOptionalText (getp opts ''planeBinding'')),
            (''harnessKind'', js_or (toOptionalText (getp opts ''harnessKind'')) (JStr DEFAULT_HARNESS_KIND)),
            (''capabilities'', jstrs requestedCapabilities),
            (''premiumDualLaneRequested'', JBool (isPremiumDualLaneRequest requestedCapabilities)),
            (''operatorId'', toOptionalText (operatorId (ec_profile r))),
            (''operatorAuthorizationRef'', toOptionalText (getp opts ''operatorAuthorizationRef'')),
            (''workingRoot'', toOptionalText (getp opts ''workingRoot'')),
            (''artifactRoot'', toOptionalText (getp opts ''artifactRoot''))]),
         (''grant'', JNull),
         (''commit'', JNull),
         (''release'', JNull)])"

record grant_decision =
  gd_reasons :: "string list"
  gd_premium :: bool
  gd_capabilities :: "string list"
  gd_multiplier :: jsnum
  gd_rate :: jsval

definition gd_allowed :: "grant_decision \<Rightarrow> bool" where
  "gd_allowed d \<longleftrightarrow> gd_reasons d = []"

definition gd_policyDecision :: "grant_decision \<Rightarrow> string" where
  "gd_policyDecision d = (if gd_premium d then ''sagan-premium-dual-lane'' else ''ordinary-execution-cell'')"

text \<open>\<^verbatim>\<open>if (b) reasons.push(r)\<close>.\<close>

definition reason_if :: "bool \<Rightarrow> string \<Rightarrow> string list" where
  "reason_if b r = (if b then [r] else [])"

definition billable_rate :: "jsval \<Rightarrow> jsnum \<Rightarrow> jsval" where
  "billable_rate laborRate multiplier =
     (if is_finite_number laborRate
      then JNum (num_toFixed 3 (num_mul (num_of_value laborRate) multiplier)) else JNull)"

definition buildGrantDecision :: "jsval \<Rightarrow> operator_profile \<Rightarrow> jsnum \<Rightarrow> grant_decision result" where
  "buildGrantDecision lease profile nowMs =
     bindE (normalizeCapabilities (getp2 lease ''request'' ''capabilities'')) (\<lambda>requestedCapabilities.
       let stale = isExecutionCellLeaseStale lease nowMs;
           leaseState = toOptionalText (getp lease ''state'');
           request = getp lease ''request'';
           premium = (getp request ''premiumDualLaneRequested'' = JBool True);
           sagan = (getp request ''agentClass'' = JStr ''sagan'');
           requestedCellClass = normalizeCellClass (getp request ''cellClass'');
           requestedHarnessKind = js_or (toOptionalText (getp request ''harnessKind'')) (JStr DEFAULT_HARNESS_KIND);
           requestedPlaneBinding = toOptionalText (getp request ''planeBinding'');
           multiplier = (if premium then PREMIUM_RATE_MULTIPLIER else ORDINARY_RATE_MULTIPLIER)
       in Inr \<lparr>gd_reasons =
                 reason_if (leaseState = JStr ''active'' \<and> \<not> stale) ''execution-cell-already-active'' @
                 reason_if (requestedHarnessKind = JStr DEFAULT_HARNESS_KIND \<and>
                            \<not> isWindowsNativeTestStandPlaneBinding requestedPlaneBinding) ''teststand-windows-native-only'' @
                 reason_if (requestedCellClass = ''kernel-coordinator'' \<and> \<not> sagan) ''kernel-cell-sagan-only'' @
                 reason_if (premium \<and> \<not> sagan) ''premium-sagan-only'' @
                 reason_if (premium \<and> requestedCellClass \<noteq> ''kernel-coordinator'') ''premium-kernel-cell-required'' @
                 reason_if (premium \<and> \<not> truthy (toOptionalText (getp request ''operatorAuthorizationRef'')))
                   ''operator-authorization-required'' @
                 reason_if (\<not> is_finite_number (laborRateUsdPerHour profile)) ''operator-cost-rate-unavailable'',
               gd_premium = premium,
               gd_capabilities = requestedCapabilities,
               gd_multiplier = multiplier,
               gd_rate = billable_rate (laborRateUsdPerHour profile) multiplier\<rparr>)"

section \<open>Reports\<close>

definition age_field :: "jsnum \<Rightarrow> jsval" where
  "age_field age = (if num_finite age then JNum (num_toFixed 3 age) else JNull)"

definition cell_summary :: "jsval \<Rightarrow> jsnum \<Rightarrow> jsval" where
  "cell_summary lease nowMs =
     (let request = getp lease ''request''; grant = getp lease ''grant''; commit = getp lease ''commit'';
          host = getp lease ''host''
      in JObj
        [(''leaseState'', js_coalesce (getp lease ''state'') JNull),
         (''leaseId'', toOptionalText (getp grant ''leaseId'')),
         (''holder'', toOptionalText (getp request ''agentId'')),
         (''agentClass'', toOptionalText (getp request ''agentClass'')),
         (''cellClass'', toOptionalText (getp request ''cellClass'')),
         (''harnessKind'', toOptionalText (getp request ''harnessKind'')),
         (''harnessInstanceId'', toOptionalText (getp commit ''harnessInstanceId'')),
         (''suiteClass'', toOptionalText (getp request ''suiteClass'')),
         (''planeBinding'', toOptionalText (getp request ''planeBinding'')),
         (''premiumSaganMode'', JBool (getp grant ''premiumSaganMode'' = JBool True \<or>
                                       getp request ''premiumDualLaneRequested'' = JBool True)),
         (''billableRateMultiplier'', finite_or_null (getp grant ''billableRateMultiplier'')),
         (''billableRateUsdPerHour'', finite_or_null (getp grant ''billableRateUsdPerHour'')),
         (''operatorAuthorizationRef'', toOptionalText (getp request ''operatorAuthorizationRef'')),
         (''isolatedLaneGroupId'', toOptionalText (getp host ''isolatedLaneGroupId'')),
         (''fingerprintSha256'', toOptionalText (getp host ''fingerprintSha256'')),
         (''linkedDockerLaneId'', toOptionalText (getp commit ''dockerLaneId'')),
         (''linkedDockerLaneLeaseId'', toOptionalText (getp commit ''dockerLaneLeaseId'')),
         (''workingRoot'', js_or (toOptionalText (getp commit ''workingRoot'')) (toOptionalText (getp request ''workingRoot''))),
         (''artifactRoot'', js_or (toOptionalText (getp commit ''artifactRoot'')) (toOptionalText (getp request ''artifactRoot''))),
         (''isStale'', JBool (isExecutionCellLeaseStale lease nowMs)),
         (''ageSeconds'', age_field (leaseAgeSeconds lease nowMs)),
         (''ttlSeconds'', if truthy lease then JNum (resolveTtlSeconds lease) else JNull),
         (''denialReasons'', JArr []),
         (''observations'', JArr [])])"

definition buildBaseReport :: "string \<Rightarrow> string \<Rightarrow> string \<Rightarrow> string \<Rightarrow> jsval \<Rightarrow> fields \<Rightarrow> jsval" where
  "buildBaseReport action cellId leasePath generatedAt lease extras =
     with_fields (JObj
       [(''schema'', JStr EXECUTION_CELL_LEASE_REPORT_SCHEMA),
        (''generatedAt'', JStr generatedAt),
        (''action'', JStr action),
        (''cellId'', JStr cellId),
        (''leasePath'', JStr leasePath),
        (''lease'', lease),
        (''summary'', cell_summary lease (date_parse generatedAt))]) extras"

text \<open>The arguments every branch passes to \<^verbatim>\<open>buildBaseReport\<close>: the status and the pricing policy.\<close>

definition policy_fields :: "operator_profile \<Rightarrow> jsval" where
  "policy_fields p = JObj
     [(''operatorId'', operatorId p), (''currency'', currency p), (''laborRateUsdPerHour'', laborRateUsdPerHour p)]"

definition run_report :: "cell_run \<Rightarrow> jsval \<Rightarrow> string \<Rightarrow> jsval" where
  "run_report r lease status =
     buildBaseReport (ec_action r) (ec_cellId r) (ec_leasePath r) (ec_generatedAt r) lease
       [(''status'', JStr status), (''policy'', policy_fields (ec_profile r))]"

text \<open>\<^verbatim>\<open>await writeJsonAtomic(outputPath, report); return report\<close>.\<close>

definition finish_run :: "process \<Rightarrow> cell_run \<Rightarrow> jsval \<Rightarrow> store \<Rightarrow> store \<times> jsval result" where
  "finish_run c r report st = (write_json c (ec_outputPath r) report st, Inr report)"

definition refuse_run :: "process \<Rightarrow> cell_run \<Rightarrow> string \<Rightarrow> string list \<Rightarrow> store \<Rightarrow> store \<times> jsval result" where
  "refuse_run c r status reasons st =
     finish_run c r (push_summary ''denialReasons'' reasons (run_report r (ec_existing r) status)) st"

section \<open>Links to a docker lane\<close>

definition resolveDockerLaneLinkContext :: "jsval \<Rightarrow> jsval" where
  "resolveDockerLaneLinkContext report =
     (let handshake = getp report ''handshake''; summary = getp report ''summary''
      in if \<not> truthy report \<or> \<not> typeof_object report then JNull
         else if \<not> truthy handshake \<or> \<not> typeof_object handshake then JNull
         else JObj
           [(''laneId'', js_or (toOptionalText (getp report ''laneId'')) (toOptionalText (getp handshake ''laneId''))),
            (''leaseId'', js_or (toOptionalText (getp summary ''leaseId''))
               (toOptionalText (getp2 handshake ''grant'' ''leaseId''))),
            (''holder'', js_or (toOptionalText (getp summary ''holder''))
               (toOptionalText (getp2 handshake ''request'' ''agentId''))),
            (''isolatedLaneGroupId'', js_or (toOptionalText (getp summary ''isolatedLaneGroupId''))
               (toOptionalText (getp2 handshake ''host'' ''isolatedLaneGroupId''))),
            (''fingerprintSha256'', js_or (toOptionalText (getp summary ''fingerprintSha256''))
               (toOptionalText (getp2 handshake ''host'' ''fingerprintSha256'')))])"

definition validateDockerLaneLink :: "jsval \<Rightarrow> jsval \<Rightarrow> string list" where
  "validateDockerLaneLink lease linked =
     (if \<not> truthy linked then [''docker-lane-report-invalid'']
      else
        (let holder = getp linked ''holder'';
             groupId = getp linked ''isolatedLaneGroupId'';
             sha = getp linked ''fingerprintSha256'';
             leaseHolder = toOptionalText (getp2 lease ''request'' ''agentId'');
             leaseGroup = toOptionalText (getp2 lease ''host'' ''isolatedLaneGroupId'');
             leaseSha = toOptionalText (getp2 lease ''host'' ''fingerprintSha256'')
         in reason_if (\<not> truthy (getp linked ''laneId'')) ''docker-lane-id-missing'' @
            reason_if (\<not> truthy (getp linked ''leaseId'')) ''docker-lane-lease-id-missing'' @
            reason_if (\<not> truthy holder) ''docker-lane-holder-missing'' @
            reason_if (\<not> truthy groupId \<or> \<not> truthy sha) ''docker-lane-host-fingerprint-missing'' @
            reason_if (truthy leaseHolder \<and> truthy holder \<and> holder \<noteq> leaseHolder) ''docker-lane-owner-mismatch'' @
            reason_if (truthy leaseGroup \<and> truthy groupId \<and> groupId \<noteq> leaseGroup)
              ''docker-lane-isolated-lane-group-mismatch'' @
            reason_if (truthy leaseSha \<and> truthy sha \<and> sha \<noteq> leaseSha) ''docker-lane-host-fingerprint-mismatch''))"

section \<open>The actions\<close>

definition prepare_cell_run :: "process \<Rightarrow> int \<Rightarrow> jsval \<Rightarrow> store \<Rightarrow> cell_run result" where
  "prepare_cell_run c now opts st =
     (let action = js_string (js_or (toOptionalText (getp opts ''action'')) (JStr ''inspect''));
          cellId = toOptionalText (getp opts ''cellId'');
          repoRoot = js_or (getp opts ''repoRoot'') (JStr (moduleRepoRoot c))
      in if \<not> truthy cellId then Inl (ErrorMsg ''cellId is required'')
         else
           bindE (defaultLeaseRoot c (with_fields opts [(''repoRoot'', repoRoot)])) (\<lambda>leaseRootValue.
           bindE (as_text leaseRootValue) (\<lambda>leaseRoot.
           bindE (resolve_under c repoRoot (js_or (getp opts ''outputPath'') (JStr DEFAULT_OUTPUT_PATH))) (\<lambda>outputPath.
           bindE (resolve_under c repoRoot
             (js_or (getp opts ''hostPlaneReportPath'') (JStr DEFAULT_HOST_PLANE_REPORT_PATH))) (\<lambda>hostPlaneReportPath.
           bindE (resolve_under c repoRoot
             (js_or (getp opts ''operatorCostProfilePath'') (JStr DEFAULT_OPERATOR_COST_PROFILE_PATH))) (\<lambda>costProfilePath.
           bindE (read_doc hostPlaneReportPath st) (\<lambda>hostPlaneReport.
           bindE (read_doc costProfilePath st) (\<lambda>costProfile.
           bindE (normalizeCapabilities (getp opts ''capabilities'')) (\<lambda>capabilities.
           bindE (read_doc (leasePathForCell cellId leaseRoot) st) (\<lambda>existing.
             Inr \<lparr>ec_action = action, ec_cellId = js_string cellId, ec_repoRoot = repoRoot,
                  ec_leasePath = leasePathForCell cellId leaseRoot, ec_outputPath = outputPath,
                  ec_generatedAt = iso_string now,
                  ec_hostContext = buildHostContext hostPlaneReport,
                  ec_profile = resolveOperatorProfile costProfile (getp opts ''operatorId''),
                  ec_agentClass = normalizeAgentClass (getp opts ''agentClass''),
                  ec_cellClass = normalizeCellClass (getp opts ''cellClass''),
                  ec_capabilities = capabilities, ec_existing = existing\<rparr>))))))))))"

text \<open>The lease is written first, then the report about it.\<close>

definition commit_lease :: "process \<Rightarrow> cell_run \<Rightarrow> jsval \<Rightarrow> string \<Rightarrow> string list \<Rightarrow> store \<Rightarrow> store \<times> jsval result" where
  "commit_lease c r lease status observations st =
     finish_run c r (push_summary ''observations'' observations (run_report r lease status))
       (write_json c (ec_leasePath r) lease st)"

definition request_cell :: "process \<Rightarrow> int \<Rightarrow> jsval \<Rightarrow> cell_run \<Rightarrow> store \<Rightarrow> store \<times> jsval result" where
  "request_cell c now opts r st =
     commit_lease c r (buildRequestRecord c now opts r) ''requested'' (observations_of (ec_hostContext r)) st"

definition missing_cell :: "process \<Rightarrow> cell_run \<Rightarrow> store \<Rightarrow> store \<times> jsval result" where
  "missing_cell c r st =
     finish_run c r (push_summary ''observations'' [''execution-cell-lease-missing''] (run_report r JNull ''not-found'')) st"

definition next_sequence :: "jsval \<Rightarrow> jsval" where
  "next_sequence existing =
     (let s = getp existing ''sequence''
      in if is_integer_number s then JNum (num_add (num_of_value s) (Fin 1)) else JInt 2)"

definition host_of_run :: "cell_run \<Rightarrow> jsval" where
  "host_of_run r = js_or (context_of (ec_hostContext r)) (js_or (getp (ec_existing r) ''host'') JNull)"

text \<open>The fields every transition sets on the stored lease.\<close>

definition touch_fields :: "int \<Rightarrow> cell_run \<Rightarrow> string \<Rightarrow> fields" where
  "touch_fields now r state =
     [(''generatedAt'', JStr (iso_string now)),
      (''state'', JStr state),
      (''sequence'', next_sequence (ec_existing r)),
      (''heartbeatAt'', JStr (iso_string now))]"

definition granted_lease :: "process \<Rightarrow> int \<Rightarrow> jsval \<Rightarrow> cell_run \<Rightarrow> grant_decision \<Rightarrow> jsval" where
  "granted_lease c now opts r d =
     with_fields (ec_existing r) (touch_fields now r ''granted'' @
       [(''host'', host_of_run r),
        (''grant'', JObj
          [(''grantedAt'', JStr (iso_string now)),
           (''grantor'', js_or (toOptionalText (getp opts ''grantor'')) (JStr ''execution-cell-governor'')),
           (''leaseId'', JStr (uniqueId ''lease'' now (rand c))),
           (''ttlSeconds'', if is_integer_number (getp opts ''ttlSeconds'') then getp opts ''ttlSeconds''
                            else JInt DEFAULT_TTL_SECONDS),
           (''premiumDualLaneRequested'', JBool (gd_premium d)),
           (''premiumSaganMode'', JBool (gd_premium d)),
           (''policyDecision'', JStr (gd_policyDecision d)),
           (''grantedCapabilities'', jstrs (gd_capabilities d)),
           (''billableRateMultiplier'', JNum (gd_multiplier d)),
           (''billableRateUsdPerHour'', gd_rate d)])])"

definition grant_cell :: "process \<Rightarrow> int \<Rightarrow> jsval \<Rightarrow> cell_run \<Rightarrow> store \<Rightarrow> store \<times> jsval result" where
  "grant_cell c now opts r st =
     (case buildGrantDecision (ec_existing r) (ec_profile r) (num_of_int now) of
        Inl e \<Rightarrow> (st, Inl e)
      | Inr d \<Rightarrow>
          if \<not> gd_allowed d then
            refuse_run c r (if ''execution-cell-already-active'' \<in> set (gd_reasons d) then ''busy'' else ''denied'')
              (gd_reasons d) st
          else commit_lease c r (granted_lease c now opts r d) ''granted'' (observations_of (ec_hostContext r)) st)"

definition lease_id_mismatch :: "jsval \<Rightarrow> jsval \<Rightarrow> bool" where
  "lease_id_mismatch opts existing =
     (let leaseId = toOptionalText (getp opts ''leaseId'')
      in truthy leaseId \<and> leaseId \<noteq> toOptionalText (getp2 existing ''grant'' ''leaseId''))"

definition committed_lease :: "int \<Rightarrow> jsval \<Rightarrow> cell_run \<Rightarrow> jsval \<Rightarrow> jsval" where
  "committed_lease now opts r linked =
     (let request = getp (ec_existing r) ''request''; commit = getp (ec_existing r) ''commit''
      in with_fields (ec_existing r) (touch_fields now r ''active'' @
       [(''host'', host_of_run r),
        (''commit'', JObj
          [(''committedAt'', JStr (iso_string now)),
           (''harnessInstanceId'', js_or (toOptionalText (getp opts ''harnessInstanceId''))
              (toOptionalText (getp commit ''harnessInstanceId''))),
           (''dockerLaneId'', js_or (getp linked ''laneId'') (toOptionalText (getp commit ''dockerLaneId''))),
           (''dockerLaneLeaseId'', js_or (getp linked ''leaseId'') (toOptionalText (getp commit ''dockerLaneLeaseId''))),
           (''workingRoot'', js_or (toOptionalText (getp opts ''workingRoot'')) (toOptionalText (getp request ''workingRoot''))),
           (''artifactRoot'', js_or (toOptionalText (getp opts ''artifactRoot'')) (toOptionalText (getp request ''artifactRoot'')))])]))"

text \<open>The docker-lane report a commit names; \<open>JNull\<close> when there is nothing to link.\<close>

definition load_docker_link :: "process \<Rightarrow> jsval \<Rightarrow> cell_run \<Rightarrow> store \<Rightarrow> jsval result" where
  "load_docker_link c opts r st =
     bindE (resolve_under c (ec_repoRoot r) (getp opts ''dockerLaneReportPath'')) (\<lambda>p.
     bindE (read_doc p st) (\<lambda>report. Inr (resolveDockerLaneLinkContext report)))"

definition activate_cell :: "process \<Rightarrow> int \<Rightarrow> jsval \<Rightarrow> cell_run \<Rightarrow> jsval \<Rightarrow> store \<Rightarrow> store \<times> jsval result" where
  "activate_cell c now opts r linked st =
     commit_lease c r (committed_lease now opts r linked)
       (if ec_action r = ''commit'' then ''committed'' else ''renewed'')
       (observations_of (ec_hostContext r) @ reason_if (truthy (getp linked ''laneId'')) ''linked-docker-lane-commit'') st"

definition commit_cell :: "process \<Rightarrow> int \<Rightarrow> jsval \<Rightarrow> cell_run \<Rightarrow> store \<Rightarrow> store \<times> jsval result" where
  "commit_cell c now opts r st =
     (let leaseState = toOptionalText (getp (ec_existing r) ''state'')
      in if lease_id_mismatch opts (ec_existing r) then refuse_run c r ''mismatch'' [''lease-id-mismatch''] st
         else if leaseState \<noteq> JStr ''granted'' \<and> leaseState \<noteq> JStr ''active'' then
           refuse_run c r ''invalid-state'' [''execution-cell-not-granted''] st
         else if ec_action r = ''commit'' \<and> truthy (toOptionalText (getp opts ''dockerLaneReportPath'')) then
           (case load_docker_link c opts r st of
              Inl e \<Rightarrow> (st, Inl e)
            | Inr linked \<Rightarrow>
                (let linkReasons = validateDockerLaneLink (ec_existing r) linked
                 in if linkReasons \<noteq> [] then refuse_run c r ''mismatch'' linkReasons st
                    else activate_cell c now opts r linked st))
         else activate_cell c now opts r JNull st)"

text \<open>\<^verbatim>\<open>options.artifactPaths?.map(normalizeText).filter(Boolean) || []\<close>.\<close>

fun artifact_paths :: "jsval \<Rightarrow> string list result" where
  "artifact_paths (JArr xs) = Inr (filter (\<lambda>s. s \<noteq> []) (map normalizeText xs))"
| "artifact_paths JUndef = Inr []"
| "artifact_paths JNull = Inr []"
| "artifact_paths v = Inl (TypeError ''map is not a function'')"

definition released_lease :: "int \<Rightarrow> cell_run \<Rightarrow> string list \<Rightarrow> jsval" where
  "released_lease now r paths =
     with_fields (ec_existing r) (touch_fields now r ''released'' @
       [(''release'', JObj [(''releasedAt'', JStr (iso_string now)), (''artifactPaths'', jstrs paths)])])"

definition release_cell :: "process \<Rightarrow> int \<Rightarrow> jsval \<Rightarrow> cell_run \<Rightarrow> store \<Rightarrow> store \<times> jsval result" where
  "release_cell c now opts r st =
     (if lease_id_mismatch opts (ec_existing r) then refuse_run c r ''mismatch'' [''lease-id-mismatch''] st
      else
        (case artifact_paths (getp opts ''artifactPaths'') of
           Inl e \<Rightarrow> (st, Inl e)
         | Inr paths \<Rightarrow> commit_lease c r (released_lease now r paths) ''released'' [] st))"

definition inspect_status :: "jsval \<Rightarrow> int \<Rightarrow> string" where
  "inspect_status existing now =
     (if isExecutionCellLeaseStale existing (num_of_int now) then ''stale''
      else if toOptionalText (getp existing ''state'') = JStr ''released'' then ''released''
      else ''active'')"

definition inspect_cell :: "process \<Rightarrow> int \<Rightarrow> cell_run \<Rightarrow> store \<Rightarrow> store \<times> jsval result" where
  "inspect_cell c now r st =
     finish_run c r (run_report r (ec_existing r) (inspect_status (ec_existing r) now)) st"

definition run_cell_action :: "process \<Rightarrow> int \<Rightarrow> jsval \<Rightarrow> cell_run \<Rightarrow> store \<Rightarrow> store \<times> jsval result" where
  "run_cell_action c now opts r st =
     (let a = ec_action r
      in if a = ''request'' then request_cell c now opts r st
         else if \<not> truthy (ec_existing r) then missing_cell c r st
         else if a = ''grant'' then grant_cell c now opts r st
         else if a = ''commit'' \<or> a = ''heartbeat'' then commit_cell c now opts r st
         else if a = ''release'' then release_cell c now opts r st
         else if a = ''inspect'' then inspect_cell c now r st
         else (st, Inl (ErrorMsg (''Unsupported action '' @ [CHR 0x27] @ a @ [CHR 0x27]))))"

definition runExecutionCellLease :: "process \<Rightarrow> int \<Rightarrow> jsval \<Rightarrow> store \<Rightarrow> store \<times> jsval result" where
  "runExecutionCellLease c now opts st =
     (case prepare_cell_run c now opts st of
        Inl e \<Rightarrow> (st, Inl e)
      | Inr r \<Rightarrow> run_cell_action c now opts r st)"

section \<open>What a run writes\<close>

text \<open>
  The lease documents a run may write and the status it reports with each; every other run leaves
  the lease document alone.
\<close>

inductive cell_writes :: "process \<Rightarrow> int \<Rightarrow> jsval \<Rightarrow> cell_run \<Rightarrow> jsval \<Rightarrow> string \<Rightarrow> bool"
  for c now opts r where
  writes_request: "ec_action r = ''request'' \<Longrightarrow>
     cell_writes c now opts r (buildRequestRecord c now opts r) ''requested''"
| writes_grant: "ec_action r = ''grant'' \<Longrightarrow> truthy (ec_existing r) \<Longrightarrow>
     buildGrantDecision (ec_existing r) (ec_profile r) (num_of_int now) = Inr d \<Longrightarrow> gd_allowed d \<Longrightarrow>
     cell_writes c now opts r (granted_lease c now opts r d) ''granted''"
| writes_active: "ec_action r = ''commit'' \<and> s = ''committed'' \<or> ec_action r = ''heartbeat'' \<and> s = ''renewed'' \<Longrightarrow>
     truthy (ec_existing r) \<Longrightarrow> \<not> lease_id_mismatch opts (ec_existing r) \<Longrightarrow>
     toOptionalText (getp (ec_existing r) ''state'') \<in> {JStr ''granted'', JStr ''active''} \<Longrightarrow>
     linked = JNull \<or> ec_action r = ''commit'' \<and> validateDockerLaneLink (ec_existing r) linked = [] \<Longrightarrow>
     cell_writes c now opts r (committed_lease now opts r linked) s"
| writes_release: "ec_action r = ''release'' \<Longrightarrow> truthy (ec_existing r) \<Longrightarrow>
     \<not> lease_id_mismatch opts (ec_existing r) \<Longrightarrow> artifact_paths (getp opts ''artifactPaths'') = Inr paths \<Longrightarrow>
     cell_writes c now opts r (released_lease now r paths) ''released''"

definition cell_separated :: "process \<Rightarrow> cell_run \<Rightarrow> bool" where
  "cell_separated c r \<longleftrightarrow> ec_leasePath r \<notin> touched_paths (pid c) (clockMs c) (ec_outputPath r)"

definition refusal_statuses :: "string list" where
  "refusal_statuses = [''not-found'', ''busy'', ''denied'', ''mismatch'', ''invalid-state'']"

definition inspection_statuses :: "string list" where
  "inspection_statuses = [''stale'', ''released'', ''active'']"

lemma inspect_status_in: "inspect_status existing now \<in> set inspection_statuses"
  by (simp add: inspect_status_def inspection_statuses_def)

lemma status_run_report [simp]: "getp (run_report r l s) ''status'' = JStr s"
  by (simp add: run_report_def buildBaseReport_def getp_with_fields)

lemma lease_run_report [simp]: "getp (run_report r l s) ''lease'' = l"
  by (simp add: run_report_def buildBaseReport_def getp_with_fields)

lemma read_finish_run [store_simps]:
  "cell_separated c r \<Longrightarrow>
     read_doc (ec_leasePath r) (fst (finish_run c r rep st)) = read_doc (ec_leasePath r) st"
  by (simp add: cell_separated_def finish_run_def write_json_def json_store.report_only)

lemma read_commit_lease [store_simps]:
  "cell_separated c r \<Longrightarrow>
     read_doc (ec_leasePath r) (fst (commit_lease c r l s obs st)) = Inr (json_norm l)"
  unfolding commit_lease_def write_json_def
  by (simp add: cell_separated_def finish_run_def write_json_def json_store.document_then_report)

lemma snd_finish_run [simp]: "snd (finish_run c r rep st) = Inr rep"
  by (simp add: finish_run_def)

lemma status_commit_lease [simp]:
  "snd (commit_lease c r l s obs st) = Inr rep \<Longrightarrow> getp rep ''status'' = JStr s"
  by (auto simp: commit_lease_def)

text \<open>Every run is one of three: a lease is written, only a report is written, nothing is written.\<close>

definition cell_outcome :: "process \<Rightarrow> int \<Rightarrow> jsval \<Rightarrow> cell_run \<Rightarrow> store \<Rightarrow> store \<times> jsval result \<Rightarrow> bool" where
  "cell_outcome c now opts r st res \<longleftrightarrow>
     (\<exists>l s obs. cell_writes c now opts r l s \<and> res = commit_lease c r l s obs st) \<or>
     (\<exists>s reasons. res = refuse_run c r s reasons st \<and> s \<in> set refusal_statuses \<and> ec_action r \<noteq> ''request'') \<or>
     (res = missing_cell c r st \<and> \<not> truthy (ec_existing r) \<and> ec_action r \<noteq> ''request'') \<or>
     (res = inspect_cell c now r st \<and> ec_action r = ''inspect'') \<or>
     (\<exists>e. res = (st, Inl e))"

lemma outcome_wrote: "cell_writes c now opts r l s \<Longrightarrow> cell_outcome c now opts r st (commit_lease c r l s obs st)"
  by (auto simp: cell_outcome_def)

lemma outcome_refused:
  "s \<in> set refusal_statuses \<Longrightarrow> ec_action r \<noteq> ''request'' \<Longrightarrow>
     cell_outcome c now opts r st (refuse_run c r s reasons st)"
  by (auto simp: cell_outcome_def)

lemma outcome_failed: "cell_outcome c now opts r st (st, Inl e)"
  by (auto simp: cell_outcome_def)

lemma outcome_grant:
  "ec_action r = ''grant'' \<Longrightarrow> truthy (ec_existing r) \<Longrightarrow> cell_outcome c now opts r st (grant_cell c now opts r st)"
  by (auto simp: grant_cell_def refusal_statuses_def split: sum.split
      intro!: outcome_wrote outcome_refused outcome_failed writes_grant)

lemma outcome_activate:
  assumes "ec_action r = ''commit'' \<or> ec_action r = ''heartbeat''" "truthy (ec_existing r)"
    "\<not> lease_id_mismatch opts (ec_existing r)"
    "toOptionalText (getp (ec_existing r) ''state'') \<in> {JStr ''granted'', JStr ''active''}"
    "linked = JNull \<or> ec_action r = ''commit'' \<and> validateDockerLaneLink (ec_existing r) linked = []"
  shows "cell_outcome c now opts r st (activate_cell c now opts r linked st)"
  using assms by (auto simp: activate_cell_def intro!: outcome_wrote writes_active)

lemma outcome_commit:
  "ec_action r = ''commit'' \<or> ec_action r = ''heartbeat'' \<Longrightarrow> truthy (ec_existing r) \<Longrightarrow>
     cell_outcome c now opts r st (commit_cell c now opts r st)"
  by (auto simp: commit_cell_def refusal_statuses_def Let_def split: sum.split
      intro!: outcome_activate outcome_refused outcome_failed)

lemma outcome_release:
  "ec_action r = ''release'' \<Longrightarrow> truthy (ec_existing r) \<Longrightarrow> cell_outcome c now opts r st (release_cell c now opts r st)"
  by (auto simp: release_cell_def refusal_statuses_def split: sum.split
      intro!: outcome_wrote outcome_refused outcome_failed writes_release)

lemma outcome_run: "cell_outcome c now opts r st (run_cell_action c now opts r st)"
proof -
  have "cell_outcome c now opts r st (missing_cell c r st)"
    if "\<not> truthy (ec_existing r)" "ec_action r \<noteq> ''request''"
    using that by (simp add: cell_outcome_def)
  moreover have "cell_outcome c now opts r st (inspect_cell c now r st)" if "ec_action r = ''inspect''"
    using that by (simp add: cell_outcome_def)
  moreover have "cell_outcome c now opts r st (request_cell c now opts r st)" if "ec_action r = ''request''"
    using that by (auto simp: request_cell_def intro!: outcome_wrote writes_request)
  ultimately show ?thesis
    by (simp add: run_cell_action_def Let_def outcome_grant outcome_commit outcome_release outcome_failed)
qed

lemma run_cell_action_cases:
  obtains (wrote) l s obs where "cell_writes c now opts r l s"
      "run_cell_action c now opts r st = commit_lease c r l s obs st"
  | (refused) s reasons where "run_cell_action c now opts r st = refuse_run c r s reasons st"
      "s \<in> set refusal_statuses" "ec_action r \<noteq> ''request''"
  | (missing) "run_cell_action c now opts r st = missing_cell c r st" "\<not> truthy (ec_existing r)" "ec_action r \<noteq> ''request''"
  | (inspected) "run_cell_action c now opts r st = inspect_cell c now r st" "ec_action r = ''inspect''"
  | (failed) e where "run_cell_action c now opts r st = (st, Inl e)"
  using outcome_run [of c now opts r st] by (auto simp: cell_outcome_def)

lemma runExecutionCellLease_prepared:
  "prepare_cell_run c now opts st = Inr r \<Longrightarrow>
     runExecutionCellLease c now opts st = run_cell_action c now opts r st"
  by (simp add: runExecutionCellLease_def)

lemma prepared_fields:
  assumes "prepare_cell_run c now opts st = Inr r"
  shows "ec_generatedAt r = iso_string now" "read_doc (ec_leasePath r) st = Inr (ec_existing r)"
    "ec_cellId r = normalizeText (getp opts ''cellId'')" "ec_cellId r \<noteq> []"
    "\<exists>xs. ec_capabilities r = normalizeCapabilityList xs" "\<exists>h. ec_hostContext r = buildHostContext h"
  using assms
  by (auto simp: prepare_cell_run_def Let_def normalizeCapabilities_def toOptionalText_def split: if_splits)

section \<open>Well-formed leases\<close>

definition grant_conforms :: "jsval \<Rightarrow> bool" where
  "grant_conforms d \<longleftrightarrow>
     (let grant = getp d ''grant''; request = getp d ''request''
      in truthy (getp grant ''leaseId'') \<and> is_integer_number (getp grant ''ttlSeconds'') \<and>
         (if getp request ''premiumDualLaneRequested'' = JBool True
          then getp request ''agentClass'' = JStr ''sagan'' \<and>
               normalizeCellClass (getp request ''cellClass'') = ''kernel-coordinator'' \<and>
               truthy (toOptionalText (getp request ''operatorAuthorizationRef'')) \<and>
               getp grant ''premiumSaganMode'' = JBool True \<and>
               getp grant ''billableRateMultiplier'' = JNum PREMIUM_RATE_MULTIPLIER
          else getp grant ''premiumSaganMode'' = JBool False \<and>
               getp grant ''billableRateMultiplier'' = JNum ORDINARY_RATE_MULTIPLIER))"

definition lease_states :: "string list" where
  "lease_states = [''requested'', ''granted'', ''active'', ''released'']"

definition cell_wf :: "jsval \<Rightarrow> bool" where
  "cell_wf d \<longleftrightarrow>
     truthy d \<and> json_norm d = d \<and>
     (\<exists>s \<in> set lease_states. getp d ''state'' = JStr s) \<and>
     (\<exists>n \<ge> 1. getp d ''sequence'' = JInt n) \<and>
     (\<exists>t. iso_range t \<and> getp d ''heartbeatAt'' = JStr (iso_string t)) \<and>
     getp d ''request'' \<noteq> JUndef \<and>
     (getp d ''state'' \<in> {JStr ''granted'', JStr ''active''} \<longrightarrow> grant_conforms d)"

lemma js_or_text_stable [simp]:
  "json_norm (js_or (toOptionalText v) (JStr s)) = js_or (toOptionalText v) (JStr s)"
  "js_or (toOptionalText v) (JStr s) \<noteq> JUndef"
  by (simp_all add: js_or_def)

lemma context_of_not_undef [simp]: "context_of (buildHostContext v) \<noteq> JUndef"
  by (metis context_of_buildHostContext_json json_norm_neq_undef)

lemma jstrs_not_undef [simp]: "jstrs xs \<noteq> JUndef"
  by (simp add: jstrs_def)

lemma cell_wf_request:
  assumes "ec_hostContext r = buildHostContext h" "iso_range now"
  shows "cell_wf (json_norm (buildRequestRecord c now opts r))"
proof -
  have stable: "json_norm (buildRequestRecord c now opts r) = buildRequestRecord c now opts r"
    using assms(1) by (simp add: buildRequestRecord_def Let_def)
  show ?thesis
    unfolding stable using assms(2) stable
    by (auto simp add: cell_wf_def buildRequestRecord_def Let_def lease_states_def simp del: json_norm.simps(7))
qed

lemma next_sequence_wf:
  "getp d ''sequence'' = JInt n \<Longrightarrow> next_sequence d = JInt (n + 1)"
  by (simp add: next_sequence_def Let_def)

lemma touch_stored:
  assumes "upd = touch_fields now r s @ rest"
    "''state'' \<notin> fst ` set rest" "''sequence'' \<notin> fst ` set rest" "''heartbeatAt'' \<notin> fst ` set rest"
    "getp (ec_existing r) ''sequence'' = JInt n"
  shows "getp (json_norm (with_fields b upd)) ''state'' = JStr s"
    "getp (json_norm (with_fields b upd)) ''sequence'' = JInt (n + 1)"
    "getp (json_norm (with_fields b upd)) ''heartbeatAt'' = JStr (iso_string now)"
proof -
  have "lookup (override [] upd) k = lookup (override [] (touch_fields now r s)) k" if "k \<notin> fst ` set rest" for k
    using that assms(1) by (simp add: override_def) (simp add: override_def [symmetric] lookup_override_other)
  with assms show "getp (json_norm (with_fields b upd)) ''state'' = JStr s"
    "getp (json_norm (with_fields b upd)) ''sequence'' = JInt (n + 1)"
    "getp (json_norm (with_fields b upd)) ''heartbeatAt'' = JStr (iso_string now)"
    by (simp_all add: getp_stored_new touch_fields_def next_sequence_wf)
qed

lemma reason_if_Nil [simp]: "reason_if b x = [] \<longleftrightarrow> \<not> b"
  by (simp add: reason_if_def)

lemma grant_decision_policy:
  assumes "buildGrantDecision lease p nowMs = Inr d" "gd_allowed d"
  defines "request \<equiv> getp lease ''request''"
  shows "gd_premium d \<longleftrightarrow> getp request ''premiumDualLaneRequested'' = JBool True"
    "gd_premium d \<Longrightarrow> getp request ''agentClass'' = JStr ''sagan''"
    "gd_premium d \<Longrightarrow> normalizeCellClass (getp request ''cellClass'') = ''kernel-coordinator''"
    "gd_premium d \<Longrightarrow> truthy (toOptionalText (getp request ''operatorAuthorizationRef''))"
    "gd_multiplier d = (if gd_premium d then PREMIUM_RATE_MULTIPLIER else ORDINARY_RATE_MULTIPLIER)"
    "is_finite_number (laborRateUsdPerHour p)"
    "gd_rate d = billable_rate (laborRateUsdPerHour p) (gd_multiplier d)"
    "\<not> (toOptionalText (getp lease ''state'') = JStr ''active'' \<and> \<not> isExecutionCellLeaseStale lease nowMs)"
  using assms(1,2) unfolding request_def
  by (auto simp: buildGrantDecision_def gd_allowed_def Let_def)

lemma grant_record_conforms:
  assumes "buildGrantDecision (ec_existing r) p nowMs = Inr d" "gd_allowed d"
    "json_norm (ec_existing r) = ec_existing r" "getp (ec_existing r) ''request'' \<noteq> JUndef"
  shows "grant_conforms (json_norm (granted_lease c now opts r d))"
proof -
  let ?d = "json_norm (granted_lease c now opts r d)"
  have request: "getp ?d ''request'' = getp (ec_existing r) ''request''"
    unfolding granted_lease_def by (rule getp_stored_old) (use assms in \<open>auto simp: touch_fields_def\<close>)
  have grant: "truthy (getp2 ?d ''grant'' ''leaseId'')"
    "is_integer_number (getp2 ?d ''grant'' ''ttlSeconds'')"
    "getp2 ?d ''grant'' ''premiumSaganMode'' = JBool (gd_premium d)"
    "getp2 ?d ''grant'' ''billableRateMultiplier'' = JNum (gd_multiplier d)"
    using grant_decision_policy(5) [OF assms(1,2)] num_integer_finite
    by (auto simp: granted_lease_def touch_fields_def getp_stored_new getp_json_norm_defined uniqueId_def
        PREMIUM_RATE_MULTIPLIER_def ORDINARY_RATE_MULTIPLIER_def
        dest!: is_integer_number_cases simp del: json_norm.simps(7))
  show ?thesis
    unfolding grant_conforms_def request Let_def
    using grant grant_decision_policy(1-5) [OF assms(1,2)] by auto
qed

lemma grant_conforms_cong:
  "getp d ''grant'' = getp e ''grant'' \<Longrightarrow> getp d ''request'' = getp e ''request'' \<Longrightarrow>
     grant_conforms d = grant_conforms e"
  by (simp add: grant_conforms_def)

lemma grant_conforms_defined: "grant_conforms d \<Longrightarrow> getp d ''grant'' \<noteq> JUndef"
  by (auto simp: grant_conforms_def Let_def)

lemma cell_wf_touched:
  assumes "cell_wf (ec_existing r)" "iso_range now" "s \<in> set lease_states"
    "\<forall>k \<in> {''state'', ''sequence'', ''heartbeatAt'', ''request''}. k \<notin> fst ` set rest"
    "s \<in> {''granted'', ''active''} \<Longrightarrow>
       grant_conforms (json_norm (with_fields (ec_existing r) (touch_fields now r s @ rest)))"
  shows "cell_wf (json_norm (with_fields (ec_existing r) (touch_fields now r s @ rest)))"
proof -
  obtain n where e: "json_norm (ec_existing r) = ec_existing r" "getp (ec_existing r) ''sequence'' = JInt n"
    "n \<ge> 1" "getp (ec_existing r) ''request'' \<noteq> JUndef"
    using assms(1) by (auto simp: cell_wf_def)
  have "getp (json_norm (with_fields (ec_existing r) (touch_fields now r s @ rest))) ''request'' =
      getp (ec_existing r) ''request''"
    by (rule getp_stored_old) (use e assms(4) in \<open>auto simp: touch_fields_def\<close>)
  moreover have "\<exists>m \<ge> 1. rat_of_int n + 1 = rat_of_int m"
    using e(3) by (intro exI [of _ "n + 1"]) simp
  ultimately show ?thesis
    using assms(2-5) e(2-4) touch_stored [OF refl, of rest r n "ec_existing r" now s]
    by (auto simp: cell_wf_def)
qed

lemma grant_conforms_committed:
  assumes "cell_wf (ec_existing r)"
    "toOptionalText (getp (ec_existing r) ''state'') \<in> {JStr ''granted'', JStr ''active''}"
  shows "grant_conforms (json_norm (committed_lease now opts r linked))"
proof -
  obtain s where s: "s \<in> set lease_states" "getp (ec_existing r) ''state'' = JStr s"
    using assms(1) by (auto simp: cell_wf_def)
  then have "trimmed s" by (auto simp: lease_states_def trimmed_def is_space_def)
  with s assms(2) have "getp (ec_existing r) ''state'' \<in> {JStr ''granted'', JStr ''active''}"
    by (auto simp: toOptionalText_eq_JStr)
  with assms(1) have conf: "grant_conforms (ec_existing r)"
    by (auto simp: cell_wf_def)
  have keep: "getp (json_norm (committed_lease now opts r linked)) k = getp (ec_existing r) k"
    if "k \<in> {''grant'', ''request''}" "getp (ec_existing r) k \<noteq> JUndef" for k
    unfolding committed_lease_def Let_def
    by (rule getp_stored_old) (use assms(1) that in \<open>auto simp: cell_wf_def touch_fields_def\<close>)
  show ?thesis
    using conf grant_conforms_cong [of "json_norm (committed_lease now opts r linked)" "ec_existing r"]
      keep grant_conforms_defined [OF conf] assms(1)
    by (auto simp: cell_wf_def)
qed

lemma cell_wf_transition:
  assumes "cell_wf (ec_existing r)" "cell_writes c now opts r l s" "iso_range now" "ec_action r \<noteq> ''request''"
  shows "cell_wf (json_norm l)"
  using assms(2)
proof cases
  case (writes_grant d)
  have "grant_conforms (json_norm (granted_lease c now opts r d))"
    by (rule grant_record_conforms) (use writes_grant assms(1) in \<open>auto simp: cell_wf_def\<close>)
  then show ?thesis
    unfolding writes_grant(1) granted_lease_def
    by (intro cell_wf_touched assms) (auto simp: lease_states_def)
next
  case (writes_active linked)
  then show ?thesis
    using grant_conforms_committed [OF assms(1), of now opts linked]
    unfolding writes_active(1) committed_lease_def Let_def
    by (intro cell_wf_touched assms) (auto simp: lease_states_def)
next
  case (writes_release paths)
  then show ?thesis
    unfolding writes_release(1) released_lease_def
    by (intro cell_wf_touched assms) (auto simp: lease_states_def)
qed (use assms(4) in simp)

section \<open>Reachable leases\<close>

lemma at_finish_run [store_simps]:
  "cell_separated c r \<Longrightarrow> fst (finish_run c r rep st) (ec_leasePath r) = st (ec_leasePath r)"
  by (simp add: cell_separated_def finish_run_def write_json_def atomic_replace_apply touched_paths_def)

lemma at_commit_lease [store_simps]:
  "cell_separated c r \<Longrightarrow> fst (commit_lease c r l s obs st) (ec_leasePath r) = Some (Doc (json_norm l))"
  by (simp add: commit_lease_def at_finish_run) (simp add: write_json_def atomic_replace_apply)

lemma run_effect [case_names wrote kept]:
  assumes "cell_separated c r"
  obtains (wrote) l s where "cell_writes c now opts r l s"
      "fst (run_cell_action c now opts r st) (ec_leasePath r) = Some (Doc (json_norm l))"
      "\<exists>rep. snd (run_cell_action c now opts r st) = Inr rep \<and> getp rep ''status'' = JStr s"
  | (kept) "fst (run_cell_action c now opts r st) (ec_leasePath r) = st (ec_leasePath r)"
      "\<And>rep. snd (run_cell_action c now opts r st) = Inr rep \<Longrightarrow>
         getp rep ''status'' \<in> JStr ` set refusal_statuses \<or>
         ec_action r = ''inspect'' \<and> getp rep ''status'' \<in> JStr ` set inspection_statuses"
proof (cases rule: run_cell_action_cases [of c now opts r st])
  case (wrote l s obs)
  then show ?thesis
    using assms by (intro that(1) [of l s]) (simp_all add: at_commit_lease, simp add: commit_lease_def)
next
  case inspected
  then show ?thesis
    using assms by (intro that(2)) (auto simp: inspect_cell_def at_finish_run inspect_status_in)
next
  case (refused s reasons)
  then show ?thesis
    using assms by (intro that(2)) (auto simp: refuse_run_def at_finish_run)
next
  case missing
  then show ?thesis
    using assms by (intro that(2)) (auto simp: missing_cell_def at_finish_run refusal_statuses_def)
next
  case (failed e)
  then show ?thesis
    by (intro that(2)) auto
qed

text \<open>
  A step at the lease path \<open>p\<close>: one run that resolves to \<open>p\<close> and reports elsewhere, or anything that
  leaves the file \<open>p\<close> alone (runs about other cells, runs that fail early, other programs).
\<close>

inductive cell_step :: "string \<Rightarrow> store \<Rightarrow> store \<Rightarrow> bool" for p where
  cell_run: "iso_range now \<Longrightarrow> prepare_cell_run c now opts st = Inr r \<Longrightarrow> ec_leasePath r = p \<Longrightarrow>
     cell_separated c r \<Longrightarrow> cell_step p st (fst (runExecutionCellLease c now opts st))"
| cell_elsewhere: "st' p = st p \<Longrightarrow> cell_step p st st'"

definition cell_inv :: "string \<Rightarrow> store \<Rightarrow> bool" where
  "cell_inv p st \<longleftrightarrow> st p = None \<or> (\<exists>d. st p = Some (Doc d) \<and> cell_wf d)"

lemma cell_inv_run:
  assumes "cell_inv (ec_leasePath r) st" "iso_range now" "prepare_cell_run c now opts st = Inr r" "cell_separated c r"
  shows "cell_inv (ec_leasePath r) (fst (run_cell_action c now opts r st))"
  using assms(4)
proof (cases rule: run_effect [of c r now opts st, case_names wrote kept])
  case (wrote l s)
  have "cell_wf (json_norm l)"
  proof (cases "ec_action r = ''request''")
    case True
    with wrote(1) have "l = buildRequestRecord c now opts r"
      by cases auto
    moreover obtain h where "ec_hostContext r = buildHostContext h"
      using prepared_fields(6) [OF assms(3)] by blast
    ultimately show ?thesis
      using cell_wf_request [of r h now c opts] assms(2) by simp
  next
    case False
    with wrote(1) have "truthy (ec_existing r)"
      by cases auto
    with prepared_fields(2) [OF assms(3)] assms(1) have "cell_wf (ec_existing r)"
      by (auto simp: cell_inv_def read_doc_def)
    then show ?thesis
      by (rule cell_wf_transition [OF _ wrote(1) assms(2) False])
  qed
  then show ?thesis
    using wrote(2) by (simp add: cell_inv_def)
next
  case kept
  then show ?thesis
    using assms(1) by (simp add: cell_inv_def)
qed

interpretation cell_system: step_system "\<lambda>st. st p = None" "cell_step p" "cell_inv p" for p
proof
  show "cell_inv p s" if "s p = None" for s
    using that by (simp add: cell_inv_def)
  show "cell_inv p t" if "cell_inv p s" "cell_step p s t" for s t
    using that(2,1)
  proof cases
    case (cell_run now c opts r)
    then show ?thesis
      using cell_inv_run [of r s now c opts] that(1) by (simp add: runExecutionCellLease_prepared)
  qed (simp add: cell_inv_def)
qed

section \<open>The phases of a lease\<close>

datatype cell_phase = Absent | Requested | Granted | Active | Released | Odd

definition phase_of :: "jsval \<Rightarrow> cell_phase" where
  "phase_of d =
     (if \<not> truthy d then Absent
      else (let s = toOptionalText (getp d ''state'')
            in if s = JStr ''requested'' then Requested else if s = JStr ''granted'' then Granted
               else if s = JStr ''active'' then Active else if s = JStr ''released'' then Released else Odd))"

text \<open>What the lease protocol promises: who may move where, and that anything else stays.\<close>

inductive phase_step :: "string \<Rightarrow> cell_phase \<Rightarrow> cell_phase \<Rightarrow> bool" where
  phase_request: "phase_step ''request'' p Requested"
| phase_grant: "p \<noteq> Absent \<Longrightarrow> phase_step ''grant'' p Granted"
| phase_commit: "p \<in> {Granted, Active} \<Longrightarrow> phase_step ''commit'' p Active"
| phase_heartbeat: "p \<in> {Granted, Active} \<Longrightarrow> phase_step ''heartbeat'' p Active"
| phase_release: "p \<noteq> Absent \<Longrightarrow> phase_step ''release'' p Released"
| phase_stay: "phase_step a p p"

inductive_simps phase_step_to_active [simp]: "phase_step a p Active"
inductive_simps phase_step_to_granted [simp]: "phase_step a p Granted"

lemma phase_of_not_absent [simp]: "truthy d \<Longrightarrow> phase_of d \<noteq> Absent"
  by (simp add: phase_of_def Let_def)

lemma phase_of_state:
  "truthy d \<Longrightarrow> getp d ''state'' = JStr ''requested'' \<Longrightarrow> phase_of d = Requested"
  "truthy d \<Longrightarrow> getp d ''state'' = JStr ''granted'' \<Longrightarrow> phase_of d = Granted"
  "truthy d \<Longrightarrow> getp d ''state'' = JStr ''active'' \<Longrightarrow> phase_of d = Active"
  "truthy d \<Longrightarrow> getp d ''state'' = JStr ''released'' \<Longrightarrow> phase_of d = Released"
  by (simp_all add: phase_of_def trimmed_def is_space_def)

lemma state_written:
  "getp (json_norm (buildRequestRecord c now opts r)) ''state'' = JStr ''requested''"
  "getp (json_norm (granted_lease c now opts r d)) ''state'' = JStr ''granted''"
  "getp (json_norm (committed_lease now opts r linked)) ''state'' = JStr ''active''"
  "getp (json_norm (released_lease now r paths)) ''state'' = JStr ''released''"
  by (simp_all add: buildRequestRecord_def granted_lease_def committed_lease_def released_lease_def
      touch_fields_def Let_def getp_stored_new getp_json_norm_defined del: json_norm.simps(7))

lemma truthy_written [simp]: "truthy (json_norm (buildRequestRecord c now opts r))"
  by (simp add: buildRequestRecord_def Let_def)

lemma phase_of_written:
  assumes "cell_writes c now opts r l s"
  shows "phase_step (ec_action r) (phase_of (ec_existing r)) (phase_of (json_norm l))"
  using assms
proof cases
  case writes_request
  then show ?thesis
    using phase_step.phase_request by (simp add: phase_of_state state_written)
next
  case (writes_grant d)
  then have "phase_of (json_norm l) = Granted"
    by (intro phase_of_state) (simp_all add: state_written, simp add: granted_lease_def)
  with writes_grant show ?thesis by simp
next
  case (writes_active linked)
  then have "phase_of (json_norm l) = Active"
    by (intro phase_of_state) (simp_all add: state_written, simp add: committed_lease_def Let_def)
  moreover have "phase_of (ec_existing r) \<in> {Granted, Active}"
    using writes_active by (auto simp: phase_of_def)
  ultimately show ?thesis using writes_active(2) by auto
next
  case (writes_release paths)
  then have "phase_of (json_norm l) = Released"
    by (intro phase_of_state) (simp_all add: state_written, simp add: released_lease_def)
  with writes_release show ?thesis
    using phase_step.phase_release [of "phase_of (ec_existing r)"] by simp
qed

text \<open>
  C8: Seen through its phase (absent, requested, granted, active, released), every run of the
  dispatcher is a step of the abstract lease protocol: request from anywhere, grant and release of
  an existing lease, commit and heartbeat only from granted or active, and otherwise no change.
\<close>

theorem cell_phase_simulation:
  assumes "prepare_cell_run c now opts st = Inr r" "cell_separated c r"
    "read_doc (ec_leasePath r) (fst (runExecutionCellLease c now opts st)) = Inr d"
  shows "phase_step (ec_action r) (phase_of (ec_existing r)) (phase_of d)"
  using assms(2)
proof (cases rule: run_effect [of c r now opts st, case_names wrote kept])
  case (wrote l s)
  then show ?thesis
    using assms(1,3) phase_of_written [OF wrote(1)]
    by (simp add: runExecutionCellLease_prepared read_doc_def)
next
  case kept
  then have "d = ec_existing r"
    using assms(1,3) prepared_fields(2) [OF assms(1)]
    by (simp add: runExecutionCellLease_prepared read_doc_def)
  then show ?thesis
    using phase_step.phase_stay by simp
qed

text \<open>
  C1: In every store reachable from a missing lease file by any sequence of execution-cell runs
  and writes to other files, a granted or active lease of a premium dual-lane request was
  requested by a sagan agent for a kernel-coordinator cell with an operator authorization, and its
  grant bills the premium multiplier 1.5.
\<close>

theorem cell_reachable_premium:
  assumes "(cell_step p)\<^sup>*\<^sup>* st0 st" "st0 p = None" "st p = Some (Doc d)"
    "getp d ''state'' \<in> {JStr ''granted'', JStr ''active''}"
    "getp2 d ''request'' ''premiumDualLaneRequested'' = JBool True"
  shows "getp2 d ''request'' ''agentClass'' = JStr ''sagan'' \<and>
         normalizeCellClass (getp2 d ''request'' ''cellClass'') = ''kernel-coordinator'' \<and>
         truthy (toOptionalText (getp2 d ''request'' ''operatorAuthorizationRef'')) \<and>
         getp2 d ''grant'' ''billableRateMultiplier'' = JNum (Fin (3 / 2))"
  using cell_system.inv_reachable [OF assms(1,2)] assms(3-)
  by (auto simp: cell_inv_def cell_wf_def grant_conforms_def Let_def PREMIUM_RATE_MULTIPLIER_def)

text \<open>
  C21: Every lease file reachable from a missing one holds a JSON document in one of the four
  states, with a positive integer sequence number and a heartbeat that Date.parse reads as a
  finite time.
\<close>

theorem cell_reachable_wf:
  assumes "(cell_step p)\<^sup>*\<^sup>* st0 st" "st0 p = None" "st p = Some f"
  shows "\<exists>d. f = Doc d \<and> (\<exists>s \<in> {''requested'', ''granted'', ''active'', ''released''}. getp d ''state'' = JStr s) \<and>
     (\<exists>n \<ge> 1. getp d ''sequence'' = JInt n) \<and>
     (\<exists>t. date_parse (js_string (resolveHeartbeatTimestamp d)) = num_of_int t)"
proof -
  obtain d where d: "f = Doc d" "cell_wf d"
    using cell_system.inv_reachable [OF assms(1,2)] assms(3) by (auto simp: cell_inv_def)
  then obtain t where "iso_range t" "getp d ''heartbeatAt'' = JStr (iso_string t)"
    by (auto simp: cell_wf_def)
  then have "date_parse (js_string (resolveHeartbeatTimestamp d)) = num_of_int t"
    by (simp add: resolveHeartbeatTimestamp_def)
  moreover have "\<exists>n \<ge> 1. getp d ''sequence'' = JInt n" "\<exists>s \<in> set lease_states. getp d ''state'' = JStr s"
    using d(2) by (auto simp: cell_wf_def)
  ultimately show ?thesis
    using d(1) by (simp add: lease_states_def)
qed

text \<open>
  C23: A grant on an active lease that is not stale reports busy and leaves the lease file as it
  was: a live lease is never granted a second time.
\<close>

theorem grant_fresh_active_busy:
  assumes "prepare_cell_run c now opts st = Inr r" "cell_separated c r" "ec_action r = ''grant''"
    "toOptionalText (getp (ec_existing r) ''state'') = JStr ''active''"
    "\<not> isExecutionCellLeaseStale (ec_existing r) (num_of_int now)"
    "normalizeCapabilities (getp2 (ec_existing r) ''request'' ''capabilities'') = Inr caps"
  shows "fst (runExecutionCellLease c now opts st) (ec_leasePath r) = st (ec_leasePath r) \<and>
    (\<exists>rep. snd (runExecutionCellLease c now opts st) = Inr rep \<and> getp rep ''status'' = JStr ''busy'')"
proof -
  have e: "truthy (ec_existing r)"
    using assms(4) by (cases "ec_existing r") auto
  obtain d where d: "buildGrantDecision (ec_existing r) (ec_profile r) (num_of_int now) = Inr d"
      "''execution-cell-already-active'' \<in> set (gd_reasons d)"
    using assms(4-6) by (simp add: buildGrantDecision_def reason_if_def Let_def)
  then have "\<not> gd_allowed d"
    by (auto simp: gd_allowed_def)
  with d e assms(1-3) show ?thesis
    by (simp add: runExecutionCellLease_prepared run_cell_action_def grant_cell_def refuse_run_def at_finish_run)
qed

text \<open>
  C29: A run that reports not-found, busy, denied, mismatch or invalid-state, and every
  inspection, leaves the lease file as it was.
\<close>

theorem cell_refusal_frame:
  assumes "prepare_cell_run c now opts st = Inr r" "cell_separated c r"
    "snd (runExecutionCellLease c now opts st) = Inr rep"
    "ec_action r = ''inspect'' \<or> getp rep ''status'' \<in> JStr ` set refusal_statuses"
  shows "fst (runExecutionCellLease c now opts st) (ec_leasePath r) = st (ec_leasePath r)"
  using assms(2)
proof (cases rule: run_effect [of c r now opts st, case_names wrote kept])
  case (wrote l s)
  from wrote(1) have "s \<notin> set refusal_statuses" "ec_action r \<noteq> ''inspect''"
    by (cases; auto simp: refusal_statuses_def)+
  with wrote(3) assms show ?thesis
    by (auto simp: runExecutionCellLease_prepared)
qed (use assms(1) in \<open>simp add: runExecutionCellLease_prepared\<close>)

section \<open>Accounting\<close>

lemma sequence_written:
  assumes "cell_writes c now opts r l s" "ec_action r \<noteq> ''request''" "getp (ec_existing r) ''sequence'' = JInt n"
  shows "getp (json_norm l) ''sequence'' = JInt (n + 1)"
  using assms(1)
proof cases
  case (writes_grant d)
  show ?thesis
    unfolding writes_grant(1) granted_lease_def by (rule touch_stored(2) [OF refl _ _ _ assms(3)]) simp_all
next
  case (writes_active linked)
  show ?thesis
    unfolding writes_active(1) committed_lease_def Let_def by (rule touch_stored(2) [OF refl _ _ _ assms(3)]) simp_all
next
  case (writes_release paths)
  show ?thesis
    unfolding writes_release(1) released_lease_def by (rule touch_stored(2) [OF refl _ _ _ assms(3)]) simp_all
qed (use assms(2) in simp)

text \<open>
  Every run other than a request that changes the lease document raises its sequence number
  by exactly one.
\<close>

theorem cell_sequence_counts:
  assumes "prepare_cell_run c now opts st = Inr r" "cell_separated c r" "ec_action r \<noteq> ''request''"
    "getp (ec_existing r) ''sequence'' = JInt n"
    "read_doc (ec_leasePath r) (fst (runExecutionCellLease c now opts st)) = Inr d" "d \<noteq> ec_existing r"
  shows "getp d ''sequence'' = JInt (n + 1)"
  using assms(2)
proof (cases rule: run_effect [of c r now opts st, case_names wrote kept])
  case (wrote l s)
  then show ?thesis
    using assms(1,5) sequence_written [OF wrote(1) assms(3,4)]
    by (simp add: runExecutionCellLease_prepared read_doc_def)
next
  case kept
  then show ?thesis
    using assms(1,5,6) prepared_fields(2) [OF assms(1)]
    by (simp add: runExecutionCellLease_prepared read_doc_def)
qed

text \<open>
  C28: A lease granted at time now with ttlSeconds t, read back from disk, is stale at a later
  time exactly when more than t seconds have passed: the ISO text and the JSON document round-trip
  the timestamp to the millisecond.
\<close>

theorem grant_ttl_exact:
  assumes "prepare_cell_run c now opts st = Inr r" "cell_separated c r" "ec_action r = ''grant''"
    "iso_range now" "getp opts ''ttlSeconds'' = JInt ttl"
    "snd (runExecutionCellLease c now opts st) = Inr rep" "getp rep ''status'' = JStr ''granted''"
    "read_doc (ec_leasePath r) (fst (runExecutionCellLease c now opts st)) = Inr d"
  shows "isExecutionCellLeaseStale d (num_of_int t) \<longleftrightarrow> (of_int (max 0 (t - now)) :: rat) > 1000 * of_int ttl"
  using assms(2)
proof (cases rule: run_effect [of c r now opts st, case_names wrote kept])
  case (wrote l s)
  from wrote(1) obtain dec where l: "l = granted_lease c now opts r dec"
    using assms(3) by cases auto
  then have d: "d = json_norm (granted_lease c now opts r dec)"
    using wrote assms(1,8) by (simp add: runExecutionCellLease_prepared read_doc_def)
  have hb: "getp d ''heartbeatAt'' = JStr (iso_string now)"
    unfolding d by (simp add: granted_lease_def touch_fields_def getp_stored_new del: json_norm.simps(7))
  have ttl: "getp2 d ''grant'' ''ttlSeconds'' = JInt ttl"
    unfolding d using assms(5)
    by (simp add: granted_lease_def touch_fields_def getp_stored_new getp_json_norm_defined del: json_norm.simps(7))
  have "truthy d" "getp d ''state'' \<noteq> JStr ''released''"
    unfolding d using state_written(2) by (simp_all, simp add: granted_lease_def)
  then show ?thesis
    using leaseAgeSeconds_iso [OF hb assms(4), of t] ttl
    by (auto simp: isExecutionCellLeaseStale_def resolveTtlSeconds_def max_def field_simps)
next
  case kept
  then show ?thesis
    using assms(1,3,6,7) by (auto simp: runExecutionCellLease_prepared refusal_statuses_def)
qed

section \<open>Requests, links and guards\<close>

text \<open>
  A request replaces whatever lease the file holds, live or not and whoever holds it, by a
  fresh requested record of the new agent with sequence 1 and no grant.
\<close>

theorem request_takes_over:
  assumes "prepare_cell_run c now opts st = Inr r" "cell_separated c r" "ec_action r = ''request''"
  shows "\<exists>d. read_doc (ec_leasePath r) (fst (runExecutionCellLease c now opts st)) = Inr d \<and>
     getp d ''state'' = JStr ''requested'' \<and> getp d ''sequence'' = JInt 1 \<and> getp d ''grant'' = JNull \<and>
     getp2 d ''request'' ''agentId'' = toOptionalText (getp opts ''agentId'')"
proof -
  have "read_doc (ec_leasePath r) (fst (runExecutionCellLease c now opts st)) =
      Inr (json_norm (buildRequestRecord c now opts r))"
    using assms by (simp add: runExecutionCellLease_prepared run_cell_action_def request_cell_def read_commit_lease)
  moreover have "getp (json_norm (buildRequestRecord c now opts r)) ''state'' = JStr ''requested'' \<and>
     getp (json_norm (buildRequestRecord c now opts r)) ''sequence'' = JInt 1 \<and>
     getp (json_norm (buildRequestRecord c now opts r)) ''grant'' = JNull \<and>
     getp2 (json_norm (buildRequestRecord c now opts r)) ''request'' ''agentId'' = toOptionalText (getp opts ''agentId'')"
    by (simp add: buildRequestRecord_def Let_def getp_json_norm_defined del: json_norm.simps(7))
  ultimately show ?thesis by blast
qed

lemma or_text_stable:
  "json_norm (js_or (toOptionalText a) (toOptionalText b)) = js_or (toOptionalText a) (toOptionalText b)"
  "js_or (toOptionalText a) (toOptionalText b) \<noteq> JUndef"
  "js_or v (toOptionalText b) \<noteq> JUndef"
  by (auto simp: js_or_def)

lemma committed_fields:
  shows "getp2 (json_norm (committed_lease now opts r linked)) ''commit'' ''harnessInstanceId'' =
      js_or (toOptionalText (getp opts ''harnessInstanceId'')) (toOptionalText (getp (getp (ec_existing r) ''commit'') ''harnessInstanceId''))"
    "getp2 (json_norm (committed_lease now opts r linked)) ''commit'' ''workingRoot'' =
      js_or (toOptionalText (getp opts ''workingRoot'')) (toOptionalText (getp2 (ec_existing r) ''request'' ''workingRoot''))"
    "getp2 (json_norm (committed_lease now opts r linked)) ''commit'' ''dockerLaneId'' =
      json_norm (js_or (getp linked ''laneId'') (toOptionalText (getp (getp (ec_existing r) ''commit'') ''dockerLaneId'')))"
    "getp2 (json_norm (committed_lease now opts r linked)) ''commit'' ''dockerLaneLeaseId'' =
      json_norm (js_or (getp linked ''leaseId'') (toOptionalText (getp (getp (ec_existing r) ''commit'') ''dockerLaneLeaseId'')))"
  by (simp_all add: committed_lease_def touch_fields_def Let_def getp_stored_new
      getp_json_norm_defined or_text_stable del: json_norm.simps(7))

lemma validated_link:
  assumes "validateDockerLaneLink lease linked = []"
  shows "truthy linked" "truthy (getp linked ''laneId'')" "truthy (getp linked ''leaseId'')"
    "truthy (getp linked ''holder'')" "truthy (getp linked ''fingerprintSha256'')"
    "truthy (toOptionalText (getp2 lease ''request'' ''agentId'')) \<Longrightarrow>
       getp linked ''holder'' = toOptionalText (getp2 lease ''request'' ''agentId'')"
    "truthy (toOptionalText (getp2 lease ''host'' ''fingerprintSha256'')) \<Longrightarrow>
       getp linked ''fingerprintSha256'' = toOptionalText (getp2 lease ''host'' ''fingerprintSha256'')"
  using assms by (auto simp: validateDockerLaneLink_def Let_def split: if_splits)

lemma linked_json: "json_norm (resolveDockerLaneLinkContext v) = resolveDockerLaneLinkContext v"
  by (simp add: resolveDockerLaneLinkContext_def Let_def js_or_def)

lemma validated_group:
  assumes "validateDockerLaneLink lease linked = []"
  shows "truthy (getp linked ''isolatedLaneGroupId'')"
    "truthy (toOptionalText (getp2 lease ''host'' ''isolatedLaneGroupId'')) \<Longrightarrow>
       getp linked ''isolatedLaneGroupId'' = toOptionalText (getp2 lease ''host'' ''isolatedLaneGroupId'')"
  using assms by (auto simp: validateDockerLaneLink_def Let_def split: if_splits)

text \<open>A check of the link is skipped when the lease of the cell does not have the field.\<close>

definition link_agrees :: "jsval \<Rightarrow> jsval \<Rightarrow> bool" where
  "link_agrees v own \<longleftrightarrow> truthy v \<and> (truthy (toOptionalText own) \<longrightarrow> v = toOptionalText own)"

text \<open>
  C30: A commit that names a docker-lane report and succeeds recorded the lane and lease id of
  that report, both non-empty. The isolated lane group, the agent and the host fingerprint of the
  report were compared before the commit with those of the lease that was there: each agrees
  whenever that lease has the field, and is not looked at when the lease lacks it.
\<close>

theorem commit_link_checked:
  assumes "prepare_cell_run c now opts st = Inr r" "cell_separated c r" "ec_action r = ''commit''"
    "truthy (toOptionalText (getp opts ''dockerLaneReportPath''))"
    "snd (runExecutionCellLease c now opts st) = Inr rep" "getp rep ''status'' = JStr ''committed''"
    "read_doc (ec_leasePath r) (fst (runExecutionCellLease c now opts st)) = Inr d"
  shows "\<exists>linked. load_docker_link c opts r st = Inr linked \<and>
     link_agrees (getp linked ''holder'') (getp2 (ec_existing r) ''request'' ''agentId'') \<and>
     link_agrees (getp linked ''isolatedLaneGroupId'') (getp2 (ec_existing r) ''host'' ''isolatedLaneGroupId'') \<and>
     link_agrees (getp linked ''fingerprintSha256'') (getp2 (ec_existing r) ''host'' ''fingerprintSha256'') \<and>
     truthy (getp2 d ''commit'' ''dockerLaneId'') \<and> truthy (getp2 d ''commit'' ''dockerLaneLeaseId'') \<and>
     getp2 d ''commit'' ''dockerLaneId'' = getp linked ''laneId'' \<and>
     getp2 d ''commit'' ''dockerLaneLeaseId'' = getp linked ''leaseId''"
proof -
  have run: "runExecutionCellLease c now opts st =
      (if truthy (ec_existing r) then commit_cell c now opts r st else missing_cell c r st)"
    using assms(1,3) by (simp add: runExecutionCellLease_prepared run_cell_action_def)
  obtain linked where linked: "load_docker_link c opts r st = Inr linked"
    "validateDockerLaneLink (ec_existing r) linked = []"
    "runExecutionCellLease c now opts st = activate_cell c now opts r linked st"
    using assms(3-6) unfolding run
    by (auto simp: commit_cell_def missing_cell_def refuse_run_def Let_def split: if_splits sum.splits)
  have d: "d = json_norm (committed_lease now opts r linked)"
    using assms(2,7) by (simp add: linked(3) activate_cell_def read_commit_lease)
  have "json_norm linked = linked"
    using linked(1) linked_json by (auto simp: load_docker_link_def)
  then have stable: "json_norm (getp linked k) = getp linked k" if "truthy (getp linked k)" for k
    using that by (intro getp_json_stable) auto
  note v = validated_link [OF linked(2)] validated_group [OF linked(2)]
  then have "getp2 d ''commit'' ''dockerLaneId'' = getp linked ''laneId''"
      "getp2 d ''commit'' ''dockerLaneLeaseId'' = getp linked ''leaseId''"
    using committed_fields(3,4) [of now opts r linked] stable unfolding d by simp_all
  then show ?thesis
    using linked(1) v by (auto simp: link_agrees_def)
qed

text \<open>
  A renewing heartbeat keeps the docker-lane id, the docker-lane lease id and the harness
  instance that the commit recorded.
\<close>

theorem heartbeat_keeps_links:
  assumes "prepare_cell_run c now opts st = Inr r" "cell_separated c r" "ec_action r = ''heartbeat''"
    "snd (runExecutionCellLease c now opts st) = Inr rep" "getp rep ''status'' = JStr ''renewed''"
    "read_doc (ec_leasePath r) (fst (runExecutionCellLease c now opts st)) = Inr d"
    "\<not> truthy (toOptionalText (getp opts ''harnessInstanceId''))"
  shows "getp2 d ''commit'' ''dockerLaneId'' = toOptionalText (getp2 (ec_existing r) ''commit'' ''dockerLaneId'') \<and>
     getp2 d ''commit'' ''dockerLaneLeaseId'' = toOptionalText (getp2 (ec_existing r) ''commit'' ''dockerLaneLeaseId'') \<and>
     getp2 d ''commit'' ''harnessInstanceId'' = toOptionalText (getp2 (ec_existing r) ''commit'' ''harnessInstanceId'')"
  using assms(2)
proof (cases rule: run_effect [of c r now opts st, case_names wrote kept])
  case (wrote l s)
  from wrote(1) have "l = committed_lease now opts r JNull"
    using assms(3) by cases auto
  then have d: "d = json_norm (committed_lease now opts r JNull)"
    using wrote(2) assms(1,6) by (simp add: runExecutionCellLease_prepared read_doc_def)
  show ?thesis
    unfolding d using committed_fields [of now opts r JNull] assms(7) by simp
next
  case kept
  then show ?thesis
    using assms(1,3,4,5) by (auto simp: runExecutionCellLease_prepared refusal_statuses_def)
qed

text \<open>
  A renewing heartbeat that passes no working root replaces the working root recorded by the
  commit with the one of the request.
\<close>

theorem heartbeat_resets_roots:
  assumes "prepare_cell_run c now opts st = Inr r" "cell_separated c r" "ec_action r = ''heartbeat''"
    "snd (runExecutionCellLease c now opts st) = Inr rep" "getp rep ''status'' = JStr ''renewed''"
    "read_doc (ec_leasePath r) (fst (runExecutionCellLease c now opts st)) = Inr d"
    "\<not> truthy (toOptionalText (getp opts ''workingRoot''))"
  shows "getp2 d ''commit'' ''workingRoot'' = toOptionalText (getp2 (ec_existing r) ''request'' ''workingRoot'')"
  using assms(2)
proof (cases rule: run_effect [of c r now opts st, case_names wrote kept])
  case (wrote l s)
  from wrote(1) have "l = committed_lease now opts r JNull"
    using assms(3) by cases auto
  then have d: "d = json_norm (committed_lease now opts r JNull)"
    using wrote(2) assms(1,6) by (simp add: runExecutionCellLease_prepared read_doc_def)
  show ?thesis
    unfolding d using committed_fields(2) [of now opts r JNull] assms(7) by simp
next
  case kept
  then show ?thesis
    using assms(1,3,4,5) by (auto simp: runExecutionCellLease_prepared refusal_statuses_def)
qed

text \<open>
  A commit, heartbeat or release that passes a lease id other than the granted one reports
  mismatch and leaves the lease file as it was.
\<close>

theorem cell_lease_id_guard:
  assumes "prepare_cell_run c now opts st = Inr r" "cell_separated c r" "truthy (ec_existing r)"
    "ec_action r = ''commit'' \<or> ec_action r = ''heartbeat'' \<or> ec_action r = ''release''"
    "toOptionalText (getp opts ''leaseId'') = JStr i"
    "toOptionalText (getp2 (ec_existing r) ''grant'' ''leaseId'') \<noteq> JStr i"
  shows "fst (runExecutionCellLease c now opts st) (ec_leasePath r) = st (ec_leasePath r) \<and>
    (\<exists>rep. snd (runExecutionCellLease c now opts st) = Inr rep \<and> getp rep ''status'' = JStr ''mismatch'')"
proof -
  have "lease_id_mismatch opts (ec_existing r)"
    using assms(5,6) toOptionalText_eq_JStr [THEN iffD1, OF assms(5)] by (simp add: lease_id_mismatch_def)
  with assms(1-4) show ?thesis
    by (auto simp: runExecutionCellLease_prepared run_cell_action_def commit_cell_def release_cell_def
        refuse_run_def at_finish_run Let_def)
qed

text \<open>
  The sanitised cell id contains only letters, digits, dots, underscores and dashes, so no
  path separator reaches the lease file name.
\<close>

theorem sanitized_cell_name:
  "set (sanitizeCellId v) \<subseteq> {ch. safe_name_char ch} \<and> CHR ''/'' \<notin> set (sanitizeCellId v)"
proof -
  have "list_all safe_name_char (sanitizeCellId v)"
    by (simp add: sanitizeCellId_def replace_runs_safe safe_name_char_def)
  moreover have "\<not> safe_name_char CHR ''/''"
    by (simp add: safe_name_char_def)
  ultimately show ?thesis
    by (auto simp: list_all_iff)
qed

text \<open>
  Two different cell ids can share one lease file: the sanitised file names of team/a and
  team:a are equal.
\<close>

theorem cell_ids_collide:
  "leasePathForCell (JStr ''team/a'') base = leasePathForCell (JStr ''team:a'') base"
proof -
  have "sanitizeCellId (JStr ''team/a'') = sanitizeCellId (JStr ''team:a'')"
    by code_simp
  then show ?thesis
    by (simp add: leasePathForCell_def)
qed

section \<open>The command line\<close>

text \<open>Each option consumes the next argument, undefined at the end of the line.\<close>

definition cell_options :: "(string \<times> string) list" where
  "cell_options =
     [(''--action'', ''action''), (''--cell-id'', ''cellId''), (''--agent-id'', ''agentId''),
      (''--agent-class'', ''agentClass''), (''--cell-class'', ''cellClass''), (''--suite-class'', ''suiteClass''),
      (''--plane-binding'', ''planeBinding''), (''--harness-kind'', ''harnessKind''),
      (''--working-root'', ''workingRoot''), (''--artifact-root'', ''artifactRoot''),
      (''--docker-lane-report-path'', ''dockerLaneReportPath''), (''--lease-id'', ''leaseId''),
      (''--harness-instance-id'', ''harnessInstanceId''), (''--operator-id'', ''operatorId''),
      (''--operator-authorization-ref'', ''operatorAuthorizationRef''),
      (''--host-plane-report-path'', ''hostPlaneReportPath''),
      (''--operator-cost-profile-path'', ''operatorCostProfilePath''), (''--output-path'', ''outputPath''),
      (''--lease-root'', ''leaseRoot'')]"

definition next_argument :: "string list \<Rightarrow> jsval" where
  "next_argument rest = (case rest of [] \<Rightarrow> JUndef | a # _ \<Rightarrow> JStr a)"

definition push_field :: "string \<Rightarrow> jsval list \<Rightarrow> jsval \<Rightarrow> jsval" where
  "push_field key items w = set_field w key (JArr (array_items (getp w key) @ items))"

fun parse_cell_args :: "jsval \<Rightarrow> string list \<Rightarrow> jsval" where
  "parse_cell_args res [] = res"
| "parse_cell_args res (token # rest) =
     (case map_of cell_options token of
        Some key \<Rightarrow> parse_cell_args (set_field res key (next_argument rest)) (tl rest)
      | None \<Rightarrow>
          if token = ''--capability'' then
            parse_cell_args (push_field ''capabilities'' [next_argument rest] res) (tl rest)
          else if token = ''--premium-dual-lane'' then
            parse_cell_args
              (push_field ''capabilities'' [JStr DOCKER_LANE_CAPABILITY, JStr NATIVE_LV32_CAPABILITY] res) rest
          else if token = ''--artifact-path'' then
            parse_cell_args (push_field ''artifactPaths'' [next_argument rest] res) (tl rest)
          else parse_cell_args res rest)"

definition parseArgs_cell :: "string list \<Rightarrow> jsval" where
  "parseArgs_cell argv =
     parse_cell_args (JObj [(''action'', JStr ''inspect''), (''capabilities'', JArr []), (''artifactPaths'', JArr [])]) argv"

definition cell_main :: "process \<Rightarrow> int \<Rightarrow> string list \<Rightarrow> store \<Rightarrow> store \<times> jsval result" where
  "cell_main c now argv st = runExecutionCellLease c now (parseArgs_cell argv) st"

text \<open>The command line can never set the time to live, the grantor, the repository root or the clock.\<close>

definition cell_cli_keys :: "string set" where
  "cell_cli_keys = {''capabilities'', ''artifactPaths''} \<union> snd ` set cell_options"

lemma parse_cell_args_keys:
  "is_object res \<and> \<not> is_array res \<Longrightarrow> k \<notin> cell_cli_keys \<Longrightarrow> getp (parse_cell_args res argv) k = getp res k"
proof (induction res argv rule: parse_cell_args.induct)
  case (1 res)
  then show ?case by simp
next
  case (2 res token rest)
  have obj: "is_object (set_field res k v) \<and> \<not> is_array (set_field res k v)" for k v
    using 2(6) by (cases res) auto
  then have push: "is_object (push_field k' items res) \<and> \<not> is_array (push_field k' items res)" for k' items
    by (simp add: push_field_def)
  have ne: "k \<noteq> ''capabilities''" "k \<noteq> ''artifactPaths''"
    using 2(7) by (auto simp: cell_cli_keys_def)
  show ?case
  proof (cases "map_of cell_options token")
    case (Some key)
    then have "key \<in> cell_cli_keys"
      by (force simp: cell_cli_keys_def dest!: map_of_SomeD)
    then have "key \<noteq> k" using 2(7) by auto
    then show ?thesis
      using 2(5) [OF Some obj] 2(6,7) Some by simp
  next
    case None
    then show ?thesis
      using 2(1-4) [OF None] 2(6,7) push ne by (simp add: push_field_def)
  qed
qed

text \<open>
  No command line of the execution-cell tool can set the time to live, the grantor, the
  repository root or the clock of a run: those options stay undefined and the defaults apply.
\<close>

theorem cell_cli_defaults:
  "getp (parseArgs_cell argv) ''ttlSeconds'' = JUndef \<and> getp (parseArgs_cell argv) ''grantor'' = JUndef \<and>
   getp (parseArgs_cell argv) ''repoRoot'' = JUndef \<and> getp (parseArgs_cell argv) ''now'' = JUndef"
proof -
  have "getp (parseArgs_cell argv) k = JUndef" if "k \<notin> cell_cli_keys" "k \<noteq> ''action''" for k
    unfolding parseArgs_cell_def using that
    by (subst parse_cell_args_keys) (auto simp: cell_cli_keys_def)
  then show ?thesis
    by (simp add: cell_cli_keys_def cell_options_def)
qed

section \<open>A concrete cell\<close>

text \<open>One host, one operator at 100 an hour, the cell \<^verbatim>\<open>c1\<close>.\<close>

definition demo_process :: process where
  "demo_process = \<lparr>env = (\<lambda>_. None), gitCommonDir = Some ''/g'', moduleRepoRoot = ''/r'', workingDir = ''/r'',
     pid = 7, clockMs = 0, rand = ''ab'', hostName = ''h''\<rparr>"

definition demo_cost_path :: string where
  "demo_cost_path = ''/r/tools/policy/operator-cost-profile.json''"

definition demo_host_path :: string where
  "demo_host_path = ''/r/tests/results/_agent/host-planes/labview-2026-host-plane-report.json''"

definition demo_output_path :: string where
  "demo_output_path = ''/r/tests/results/_agent/runtime/execution-cell-lease.json''"

definition demo_lane_path :: string where
  "demo_lane_path = ''/r/lane.json''"

definition demo_cell_path :: string where
  "demo_cell_path = ''/g/execution-cell-leases/c1.json''"

definition demo_profile :: jsval where
  "demo_profile = JObj [(''operators'', JArr [JObj [(''id'', JStr ''op''), (''laborRateUsdPerHour'', JInt 100)]])]"

definition demo_store :: "jsval \<Rightarrow> store" where
  "demo_store d = [demo_cost_path \<mapsto> Doc demo_profile, demo_cell_path \<mapsto> Doc d]"

definition demo_opts :: "string \<Rightarrow> fields \<Rightarrow> jsval" where
  "demo_opts action extra = JObj ([(''action'', JStr action), (''cellId'', JStr ''c1'')] @ extra)"

definition demo_run :: "int \<Rightarrow> string \<Rightarrow> fields \<Rightarrow> string list \<Rightarrow> jsval \<Rightarrow> cell_run" where
  "demo_run now action extra caps existing =
     \<lparr>ec_action = action, ec_cellId = ''c1'', ec_repoRoot = JStr ''/r'', ec_leasePath = demo_cell_path,
      ec_outputPath = demo_output_path, ec_generatedAt = iso_string now,
      ec_hostContext = buildHostContext JNull,
      ec_profile = resolveOperatorProfile demo_profile JUndef,
      ec_agentClass = normalizeAgentClass (lookup extra ''agentClass''),
      ec_cellClass = normalizeCellClass (lookup extra ''cellClass''),
      ec_capabilities = caps, ec_existing = existing\<rparr>"

lemma demo_paths:
  "path_join [''/g'', ''execution-cell-leases''] = ''/g/execution-cell-leases''"
  "leasePathForCell (JStr ''c1'') ''/g/execution-cell-leases'' = demo_cell_path"
  "resolve_under demo_process (JStr ''/r'') (JStr DEFAULT_OUTPUT_PATH) = Inr demo_output_path"
  "resolve_under demo_process (JStr ''/r'') (JStr DEFAULT_HOST_PLANE_REPORT_PATH) = Inr demo_host_path"
  "resolve_under demo_process (JStr ''/r'') (JStr DEFAULT_OPERATOR_COST_PROFILE_PATH) = Inr demo_cost_path"
  "resolve_under demo_process (JStr ''/r'') (JStr ''lane.json'') = Inr demo_lane_path"
  by code_simp+

definition demo_plain :: "fields \<Rightarrow> bool" where
  "demo_plain extra \<longleftrightarrow>
     (\<forall>k \<in> set [''leaseRoot'', ''repoRoot'', ''outputPath'', ''hostPlaneReportPath'', ''operatorCostProfilePath'',
        ''operatorId'']. lookup extra k = JUndef)"

lemma demo_prepared:
  assumes "trimmed action" "action \<noteq> []" "demo_plain extra"
    "normalizeCapabilities (lookup extra ''capabilities'') = Inr caps"
    "st demo_host_path = None" "st demo_cost_path = Some (Doc demo_profile)"
    "read_doc demo_cell_path st = Inr existing"
  shows "prepare_cell_run demo_process now (demo_opts action extra) st = Inr (demo_run now action extra caps existing)"
proof -
  have c1: "toOptionalText (JStr ''c1'') = JStr ''c1''"
    by (rule toOptionalText_JStr) (simp_all add: trimmed_def is_space_def)
  have lease_root: "defaultLeaseRoot demo_process (with_fields (demo_opts action extra) [(''repoRoot'', JStr ''/r'')]) =
      Inr (JStr ''/g/execution-cell-leases'')"
    using assms(3) demo_paths(1)
    by (simp add: defaultLeaseRoot_def getp_with_fields demo_opts_def demo_plain_def env_value_def demo_process_def
        resolveDefaultLeaseRoot_def Let_def)
  have fields: "getp (demo_opts action extra) ''action'' = JStr action" "getp (demo_opts action extra) ''cellId'' = JStr ''c1''"
    "k \<notin> {''action'', ''cellId''} \<Longrightarrow> getp (demo_opts action extra) k = lookup extra k" for k
    by (auto simp: demo_opts_def)
  have "moduleRepoRoot demo_process = ''/r''" by (simp add: demo_process_def)
  then show ?thesis
    using assms lease_root demo_paths c1
    by (simp add: prepare_cell_run_def fields demo_plain_def demo_run_def read_doc_def)
qed

lemma demo_separated [simp]: "cell_separated demo_process (demo_run now action extra caps existing)"
  by (simp add: cell_separated_def demo_run_def touched_paths_def demo_cell_path_def demo_output_path_def temp_path_def)

lemma demo_run_simps [simp]:
  "ec_action (demo_run now action extra caps existing) = action"
  "ec_existing (demo_run now action extra caps existing) = existing"
  "ec_leasePath (demo_run now action extra caps existing) = demo_cell_path"
  by (simp_all add: demo_run_def)

lemma demo_store_simps [simp]:
  "demo_store d demo_host_path = None" "demo_store d demo_cost_path = Some (Doc demo_profile)"
  "demo_store d demo_cell_path = Some (Doc d)" "read_doc demo_cell_path (demo_store d) = Inr d"
  by (simp_all add: demo_store_def demo_host_path_def demo_cost_path_def demo_cell_path_def read_doc_def)

lemma demo_prepared_store:
  "trimmed action \<Longrightarrow> action \<noteq> [] \<Longrightarrow> demo_plain extra \<Longrightarrow> lookup extra ''capabilities'' = JUndef \<Longrightarrow>
   prepare_cell_run demo_process now (demo_opts action extra) (demo_store d) = Inr (demo_run now action extra [] d)"
  by (rule demo_prepared) (simp_all add: normalizeCapabilities_def normalizeCapabilityList_def)

lemmas demo_text = trimmed_def is_space_def demo_plain_def

definition demo_lease :: "string \<Rightarrow> jsval" where
  "demo_lease state = JObj
     [(''state'', JStr state), (''sequence'', JInt 3), (''heartbeatAt'', JStr (iso_string 0)),
      (''host'', JObj [(''fingerprintSha256'', JStr ''f00d'')]),
      (''request'', JObj [(''agentId'', JStr ''a1''), (''agentClass'', JStr ''sagan''),
         (''cellClass'', JStr ''kernel-coordinator''), (''capabilities'', JArr []),
         (''premiumDualLaneRequested'', JBool True), (''operatorAuthorizationRef'', JStr ''ref'')]),
      (''grant'', JObj [(''leaseId'', JStr ''L1''), (''ttlSeconds'', JInt 60)]),
      (''commit'', JObj [(''dockerLaneId'', JStr ''d1''), (''workingRoot'', JStr ''/w'')])]"

lemma iso_range_0 [simp]: "iso_range 0"
  by (simp add: iso_range_def)

lemma demo_fresh [simp]: "\<not> isExecutionCellLeaseStale (demo_lease s) (Fin 1000)"
proof -
  have "leaseAgeSeconds (demo_lease s) (num_of_int 1000) = Fin 1"
    by (subst leaseAgeSeconds_iso [of _ 0]) (simp_all add: demo_lease_def)
  then show ?thesis
    by (simp add: isExecutionCellLeaseStale_def resolveTtlSeconds_def) (simp add: demo_lease_def)
qed

lemma demo_lease_simps [simp]:
  "truthy (demo_lease s)"
  "getp (demo_lease s) ''state'' = JStr s"
  "getp (demo_lease s) ''sequence'' = JInt 3"
  "getp2 (demo_lease s) ''grant'' ''leaseId'' = JStr ''L1''"
  "normalizeCapabilities (getp2 (demo_lease s) ''request'' ''capabilities'') = Inr []"
  by (simp_all add: demo_lease_def normalizeCapabilities_def normalizeCapabilityList_def)

lemma grant_fresh_active_busy_witness:
  "fst (runExecutionCellLease demo_process 1000 (demo_opts ''grant'' []) (demo_store (demo_lease ''active''))) demo_cell_path =
     Some (Doc (demo_lease ''active'')) \<and>
   (\<exists>rep. snd (runExecutionCellLease demo_process 1000 (demo_opts ''grant'' []) (demo_store (demo_lease ''active''))) =
     Inr rep \<and> getp rep ''status'' = JStr ''busy'')"
  using grant_fresh_active_busy [OF demo_prepared_store [of "''grant''" "[]" 1000 "demo_lease ''active''"] demo_separated]
  by (simp add: demo_text)

lemma cell_refusal_frame_witness:
  "fst (runExecutionCellLease demo_process 1000 (demo_opts ''inspect'' []) (demo_store (demo_lease ''active''))) demo_cell_path =
     Some (Doc (demo_lease ''active''))"
proof -
  have prep: "prepare_cell_run demo_process 1000 (demo_opts ''inspect'' []) (demo_store (demo_lease ''active'')) =
      Inr (demo_run 1000 ''inspect'' [] [] (demo_lease ''active''))"
    by (rule demo_prepared_store) (simp_all add: demo_text)
  show ?thesis
    using cell_refusal_frame [OF prep demo_separated]
    by (simp add: runExecutionCellLease_prepared [OF prep] run_cell_action_def inspect_cell_def Let_def)
qed

lemma demo_release_run:
  "runExecutionCellLease demo_process 1000 (demo_opts ''release'' []) (demo_store (demo_lease ''active'')) =
     commit_lease demo_process (demo_run 1000 ''release'' [] [] (demo_lease ''active''))
       (released_lease 1000 (demo_run 1000 ''release'' [] [] (demo_lease ''active'')) []) ''released'' []
       (demo_store (demo_lease ''active''))"
proof -
  have prep: "prepare_cell_run demo_process 1000 (demo_opts ''release'' []) (demo_store (demo_lease ''active'')) =
      Inr (demo_run 1000 ''release'' [] [] (demo_lease ''active''))"
    by (rule demo_prepared_store) (simp_all add: demo_text)
  show ?thesis
    by (simp add: runExecutionCellLease_prepared [OF prep] run_cell_action_def release_cell_def lease_id_mismatch_def Let_def)
       (simp add: demo_opts_def)
qed

lemma demo_read_release:
  "read_doc demo_cell_path (fst (runExecutionCellLease demo_process 1000 (demo_opts ''release'' [])
     (demo_store (demo_lease ''active'')))) =
   Inr (json_norm (released_lease 1000 (demo_run 1000 ''release'' [] [] (demo_lease ''active'')) []))"
  using read_commit_lease [OF demo_separated, of 1000 "''release''" "[]" "[]" "demo_lease ''active''"]
  by (simp add: demo_release_run)

lemma cell_phase_simulation_witness:
  "phase_step ''release'' Active
     (phase_of (json_norm (released_lease 1000 (demo_run 1000 ''release'' [] [] (demo_lease ''active'')) [])))"
proof -
  have "phase_of (demo_lease ''active'') = Active"
    by (simp add: phase_of_state)
  then show ?thesis
    using cell_phase_simulation [OF demo_prepared_store [of "''release''" "[]" 1000 "demo_lease ''active''"] demo_separated]
      demo_read_release by (simp add: demo_text)
qed

lemma cell_sequence_counts_witness:
  "getp (json_norm (released_lease 1000 (demo_run 1000 ''release'' [] [] (demo_lease ''active'')) [])) ''sequence'' = JInt 4"
proof -
  have "json_norm (released_lease 1000 (demo_run 1000 ''release'' [] [] (demo_lease ''active'')) []) \<noteq> demo_lease ''active''"
    using state_written(4) [of 1000 "demo_run 1000 ''release'' [] [] (demo_lease ''active'')" "[]"]
      demo_lease_simps(2) [of "''active''"] by auto
  then show ?thesis
    using cell_sequence_counts [OF demo_prepared_store [of "''release''" "[]" 1000 "demo_lease ''active''"] demo_separated]
      demo_read_release by (simp add: demo_text)
qed

lemma cell_lease_id_guard_witness:
  "fst (runExecutionCellLease demo_process 1000 (demo_opts ''release'' [(''leaseId'', JStr ''L2'')])
      (demo_store (demo_lease ''active''))) demo_cell_path = Some (Doc (demo_lease ''active''))"
  using cell_lease_id_guard [OF demo_prepared_store [of "''release''" "[(''leaseId'', JStr ''L2'')]" 1000 "demo_lease ''active''"]
      demo_separated, of "''L2''"]
  by (simp add: demo_text demo_opts_def toOptionalText_JStr)

lemma request_takes_over_witness:
  "\<exists>d. read_doc demo_cell_path (fst (runExecutionCellLease demo_process 1000
        (demo_opts ''request'' [(''agentId'', JStr ''a2'')]) (demo_store (demo_lease ''active'')))) = Inr d \<and>
     getp2 d ''request'' ''agentId'' = JStr ''a2'' \<and> getp d ''grant'' = JNull"
  using request_takes_over [OF demo_prepared_store [of "''request''" "[(''agentId'', JStr ''a2'')]" 1000
      "demo_lease ''active''"] demo_separated]
  by (auto simp add: demo_text demo_opts_def toOptionalText_JStr)

text \<open>A commit that names the report of a docker lane held by the same agent on the same host.\<close>

definition demo_lane_report :: jsval where
  "demo_lane_report = JObj
     [(''laneId'', JStr ''d9''),
      (''summary'', JObj [(''leaseId'', JStr ''L9''), (''holder'', JStr ''a1''),
         (''isolatedLaneGroupId'', JStr ''grp''), (''fingerprintSha256'', JStr ''f00d'')]),
      (''handshake'', JObj [])]"

definition demo_link_fields :: fields where
  "demo_link_fields = [(''dockerLaneReportPath'', JStr ''lane.json'')]"

definition demo_link_store :: store where
  "demo_link_store = (demo_store (demo_lease ''granted''))(demo_lane_path \<mapsto> Doc demo_lane_report)"

lemma demo_link_prepared:
  "prepare_cell_run demo_process 1000 (demo_opts ''commit'' demo_link_fields) demo_link_store =
     Inr (demo_run 1000 ''commit'' demo_link_fields [] (demo_lease ''granted''))"
  by (rule demo_prepared)
    (simp_all add: demo_text demo_link_fields_def demo_link_store_def demo_store_def demo_host_path_def demo_cost_path_def
      demo_lane_path_def demo_cell_path_def read_doc_def normalizeCapabilities_def normalizeCapabilityList_def)

lemma demo_link_loaded:
  "load_docker_link demo_process (demo_opts ''commit'' demo_link_fields)
     (demo_run 1000 ''commit'' demo_link_fields [] (demo_lease ''granted'')) demo_link_store =
     Inr (resolveDockerLaneLinkContext demo_lane_report)"
proof -
  have "ec_repoRoot (demo_run 1000 ''commit'' demo_link_fields [] (demo_lease ''granted'')) = JStr ''/r''"
    by (simp add: demo_run_def)
  moreover have "getp (demo_opts ''commit'' demo_link_fields) ''dockerLaneReportPath'' = JStr ''lane.json''"
    by (simp add: demo_opts_def demo_link_fields_def)
  ultimately show ?thesis
    using demo_paths(6) by (simp add: load_docker_link_def demo_link_store_def read_doc_def)
qed

lemma demo_link_valid:
  "validateDockerLaneLink (demo_lease ''granted'') (resolveDockerLaneLinkContext demo_lane_report) = []"
  by (simp add: validateDockerLaneLink_def resolveDockerLaneLinkContext_def demo_lane_report_def demo_lease_def demo_text
      typeof_object_def)

lemma demo_link_fields_simps [simp]:
  "getp (demo_opts ''commit'' demo_link_fields) ''dockerLaneReportPath'' = JStr ''lane.json''"
  "getp (demo_opts ''commit'' demo_link_fields) ''leaseId'' = JUndef"
  by (simp_all add: demo_opts_def demo_link_fields_def)

lemma demo_link_run:
  "runExecutionCellLease demo_process 1000 (demo_opts ''commit'' demo_link_fields) demo_link_store =
     activate_cell demo_process 1000 (demo_opts ''commit'' demo_link_fields)
       (demo_run 1000 ''commit'' demo_link_fields [] (demo_lease ''granted''))
       (resolveDockerLaneLinkContext demo_lane_report) demo_link_store"
  by (simp add: runExecutionCellLease_prepared [OF demo_link_prepared] run_cell_action_def commit_cell_def
      demo_link_loaded demo_link_valid lease_id_mismatch_def demo_text Let_def)

lemma commit_link_checked_witness:
  "\<exists>d linked. read_doc demo_cell_path (fst (runExecutionCellLease demo_process 1000
       (demo_opts ''commit'' demo_link_fields) demo_link_store)) = Inr d \<and>
     getp linked ''holder'' = JStr ''a1'' \<and> getp linked ''fingerprintSha256'' = JStr ''f00d'' \<and>
     getp2 d ''commit'' ''dockerLaneLeaseId'' = getp linked ''leaseId''"
proof -
  let ?run = "runExecutionCellLease demo_process 1000 (demo_opts ''commit'' demo_link_fields) demo_link_store"
  obtain rep where rep: "snd ?run = Inr rep" "getp rep ''status'' = JStr ''committed''"
    by (simp add: demo_link_run activate_cell_def commit_lease_def)
  obtain d where d: "read_doc demo_cell_path (fst ?run) = Inr d"
    using read_commit_lease [OF demo_separated, of 1000 "''commit''" demo_link_fields "[]" "demo_lease ''granted''"]
    by (simp add: demo_link_run activate_cell_def)
  have "toOptionalText (getp2 (demo_lease ''granted'') ''request'' ''agentId'') = JStr ''a1''"
    "toOptionalText (getp2 (demo_lease ''granted'') ''host'' ''fingerprintSha256'') = JStr ''f00d''"
    by (simp_all add: demo_lease_def demo_text)
  then show ?thesis
    using commit_link_checked [OF demo_link_prepared demo_separated _ _ rep, where d = d] d
    by (auto simp: demo_text link_agrees_def)
qed

lemma demo_heartbeat_run:
  "runExecutionCellLease demo_process 1000 (demo_opts ''heartbeat'' []) (demo_store (demo_lease ''active'')) =
     activate_cell demo_process 1000 (demo_opts ''heartbeat'' []) (demo_run 1000 ''heartbeat'' [] [] (demo_lease ''active''))
       JNull (demo_store (demo_lease ''active''))"
proof -
  have prep: "prepare_cell_run demo_process 1000 (demo_opts ''heartbeat'' []) (demo_store (demo_lease ''active'')) =
      Inr (demo_run 1000 ''heartbeat'' [] [] (demo_lease ''active''))"
    by (rule demo_prepared_store) (simp_all add: demo_text)
  have "getp (demo_opts ''heartbeat'' []) ''leaseId'' = JUndef"
    by (simp add: demo_opts_def)
  then show ?thesis
    by (simp add: runExecutionCellLease_prepared [OF prep] run_cell_action_def commit_cell_def lease_id_mismatch_def
        demo_text Let_def)
qed

lemma demo_heartbeat:
  "snd (runExecutionCellLease demo_process 1000 (demo_opts ''heartbeat'' []) (demo_store (demo_lease ''active''))) = Inr rep \<Longrightarrow>
     getp rep ''status'' = JStr ''renewed''"
  "\<exists>rep. snd (runExecutionCellLease demo_process 1000 (demo_opts ''heartbeat'' []) (demo_store (demo_lease ''active''))) = Inr rep"
  "\<exists>d. read_doc demo_cell_path (fst (runExecutionCellLease demo_process 1000 (demo_opts ''heartbeat'' [])
      (demo_store (demo_lease ''active'')))) = Inr d"
  "prepare_cell_run demo_process 1000 (demo_opts ''heartbeat'' []) (demo_store (demo_lease ''active'')) =
      Inr (demo_run 1000 ''heartbeat'' [] [] (demo_lease ''active''))"
  using read_commit_lease [OF demo_separated, of 1000 "''heartbeat''" "[]" "[]" "demo_lease ''active''"]
  by (auto simp add: demo_heartbeat_run activate_cell_def commit_lease_def demo_text intro!: demo_prepared_store)

lemma demo_heartbeat_opts [simp]: "getp (demo_opts ''heartbeat'' []) ''harnessInstanceId'' = JUndef"
  "getp (demo_opts ''heartbeat'' []) ''workingRoot'' = JUndef"
  by (simp_all add: demo_opts_def)

lemma heartbeat_keeps_links_witness:
  "\<exists>d. read_doc demo_cell_path (fst (runExecutionCellLease demo_process 1000 (demo_opts ''heartbeat'' [])
      (demo_store (demo_lease ''active'')))) = Inr d \<and> getp2 d ''commit'' ''dockerLaneId'' = JStr ''d1''"
proof -
  obtain rep d where "snd (runExecutionCellLease demo_process 1000 (demo_opts ''heartbeat'' []) (demo_store (demo_lease ''active''))) = Inr rep"
    "read_doc demo_cell_path (fst (runExecutionCellLease demo_process 1000 (demo_opts ''heartbeat'' [])
      (demo_store (demo_lease ''active'')))) = Inr d"
    using demo_heartbeat(2,3) by blast
  moreover have "toOptionalText (getp2 (demo_lease ''active'') ''commit'' ''dockerLaneId'') = JStr ''d1''"
    by (simp add: demo_lease_def demo_text)
  ultimately show ?thesis
    using heartbeat_keeps_links [OF demo_heartbeat(4) demo_separated] demo_heartbeat(1) by auto
qed

lemma heartbeat_resets_roots_witness:
  "getp2 (demo_lease ''active'') ''commit'' ''workingRoot'' = JStr ''/w'' \<and>
   (\<exists>d. read_doc demo_cell_path (fst (runExecutionCellLease demo_process 1000 (demo_opts ''heartbeat'' [])
      (demo_store (demo_lease ''active'')))) = Inr d \<and> getp2 d ''commit'' ''workingRoot'' = JNull)"
proof -
  obtain rep d where "snd (runExecutionCellLease demo_process 1000 (demo_opts ''heartbeat'' []) (demo_store (demo_lease ''active''))) = Inr rep"
    "read_doc demo_cell_path (fst (runExecutionCellLease demo_process 1000 (demo_opts ''heartbeat'' [])
      (demo_store (demo_lease ''active'')))) = Inr d"
    using demo_heartbeat(2,3) by blast
  moreover have "toOptionalText (getp2 (demo_lease ''active'') ''request'' ''workingRoot'') = JNull"
    "getp2 (demo_lease ''active'') ''commit'' ''workingRoot'' = JStr ''/w''"
    by (simp_all add: demo_lease_def)
  ultimately show ?thesis
    using heartbeat_resets_roots [OF demo_heartbeat(4) demo_separated] demo_heartbeat(1) by auto
qed

text \<open>A request and a grant from an empty lease directory.\<close>

lemma demo_rate [simp]: "laborRateUsdPerHour (resolveOperatorProfile demo_profile JUndef) = JInt 100"
  by (simp add: resolveOperatorProfile_def demo_profile_def Let_def finite_or_null_def first_item_def)

lemma demo_profile_of_run [simp]:
  "ec_profile (demo_run now action extra caps existing) = resolveOperatorProfile demo_profile JUndef"
  by (simp add: demo_run_def)

definition demo_ttl_fields :: fields where
  "demo_ttl_fields = [(''ttlSeconds'', JInt 60)]"

definition demo_premium :: "jsval \<Rightarrow> bool" where
  "demo_premium e \<longleftrightarrow> truthy e \<and> getp e ''state'' = JStr ''requested'' \<and>
     (\<exists>caps. normalizeCapabilities (getp2 e ''request'' ''capabilities'') = Inr caps) \<and>
     getp2 e ''request'' ''agentClass'' = JStr ''sagan'' \<and>
     getp2 e ''request'' ''cellClass'' = JStr ''kernel-coordinator'' \<and>
     toOptionalText (getp2 e ''request'' ''planeBinding'') = JNull \<and>
     getp2 e ''request'' ''operatorAuthorizationRef'' = JStr ''ref''"

lemma demo_class [simp]: "normalizeCellClass (JStr ''kernel-coordinator'') = ''kernel-coordinator''"
  by code_simp

lemma demo_grant_run:
  assumes "demo_premium e"
    "prepare_cell_run demo_process 2000 (demo_opts ''grant'' demo_ttl_fields) st = Inr (demo_run 2000 ''grant'' demo_ttl_fields [] e)"
  obtains d where "runExecutionCellLease demo_process 2000 (demo_opts ''grant'' demo_ttl_fields) st =
     commit_lease demo_process (demo_run 2000 ''grant'' demo_ttl_fields [] e)
       (granted_lease demo_process 2000 (demo_opts ''grant'' demo_ttl_fields) (demo_run 2000 ''grant'' demo_ttl_fields [] e) d)
       ''granted'' [''host-os-fingerprint-missing''] st"
proof -
  have native: "isWindowsNativeTestStandPlaneBinding JNull"
    by (simp add: isWindowsNativeTestStandPlaneBinding_def to_lower_def)
  obtain d where "buildGrantDecision e (resolveOperatorProfile demo_profile JUndef) (num_of_int 2000) = Inr d" "gd_allowed d"
    using assms(1) native
    by (auto simp: demo_premium_def buildGrantDecision_def gd_allowed_def demo_text Let_def)
  moreover have "observations_of (ec_hostContext (demo_run 2000 ''grant'' demo_ttl_fields [] e)) = [''host-os-fingerprint-missing'']"
    by (simp add: demo_run_def buildHostContext_def)
  ultimately show ?thesis
    using assms by (intro that [of d])
      (simp add: demo_premium_def runExecutionCellLease_prepared run_cell_action_def grant_cell_def Let_def)
qed

lemma demo_ttl_plain [simp]: "demo_plain demo_ttl_fields" "lookup demo_ttl_fields ''capabilities'' = JUndef"
  "getp (demo_opts ''grant'' demo_ttl_fields) ''ttlSeconds'' = JInt 60"
  by (simp_all add: demo_plain_def demo_ttl_fields_def demo_opts_def)

lemma grant_ttl_exact_witness:
  "\<exists>d. read_doc demo_cell_path (fst (runExecutionCellLease demo_process 2000 (demo_opts ''grant'' demo_ttl_fields)
        (demo_store (demo_lease ''requested'')))) = Inr d \<and>
     isExecutionCellLeaseStale d (num_of_int 62001) \<and> \<not> isExecutionCellLeaseStale d (num_of_int 62000)"
proof -
  have prep: "prepare_cell_run demo_process 2000 (demo_opts ''grant'' demo_ttl_fields) (demo_store (demo_lease ''requested'')) =
      Inr (demo_run 2000 ''grant'' demo_ttl_fields [] (demo_lease ''requested''))"
    by (rule demo_prepared_store) (simp_all add: demo_text(1,2))
  have "demo_premium (demo_lease ''requested'')"
    unfolding demo_premium_def by (simp add: demo_lease_simps) (simp add: demo_lease_def)
  then obtain d where run: "runExecutionCellLease demo_process 2000 (demo_opts ''grant'' demo_ttl_fields)
      (demo_store (demo_lease ''requested'')) =
     commit_lease demo_process (demo_run 2000 ''grant'' demo_ttl_fields [] (demo_lease ''requested''))
       (granted_lease demo_process 2000 (demo_opts ''grant'' demo_ttl_fields)
         (demo_run 2000 ''grant'' demo_ttl_fields [] (demo_lease ''requested'')) d)
       ''granted'' [''host-os-fingerprint-missing''] (demo_store (demo_lease ''requested''))"
    by (rule demo_grant_run [OF _ prep])
  obtain rep where rep: "snd (runExecutionCellLease demo_process 2000 (demo_opts ''grant'' demo_ttl_fields)
      (demo_store (demo_lease ''requested''))) = Inr rep" "getp rep ''status'' = JStr ''granted''"
    by (simp add: run commit_lease_def)
  obtain d' where d': "read_doc demo_cell_path (fst (runExecutionCellLease demo_process 2000
      (demo_opts ''grant'' demo_ttl_fields) (demo_store (demo_lease ''requested'')))) = Inr d'"
    using read_commit_lease [OF demo_separated, of 2000 "''grant''" demo_ttl_fields "[]" "demo_lease ''requested''"]
    by (simp add: run)
  have "isExecutionCellLeaseStale d' (num_of_int t) \<longleftrightarrow> (of_int (max 0 (t - 2000)) :: rat) > 1000 * of_int 60" for t
    using grant_ttl_exact [OF prep demo_separated _ _ _ rep, of 60 d'] d' by (simp add: iso_range_def)
  from this [of 62001] this [of 62000] show ?thesis
    using d' by simp
qed

definition demo_empty :: store where
  "demo_empty = [demo_cost_path \<mapsto> Doc demo_profile]"

definition demo_premium_fields :: fields where
  "demo_premium_fields =
     [(''agentId'', JStr ''a1''), (''agentClass'', JStr ''sagan''), (''cellClass'', JStr ''kernel-coordinator''),
      (''capabilities'', jstrs [''docker-lane'', ''native-labview-2026-32'']),
      (''operatorAuthorizationRef'', JStr ''ref'')]"

definition demo_caps :: "string list" where
  "demo_caps = [''docker-lane'', ''native-labview-2026-32'']"

definition demo_requested :: store where
  "demo_requested = fst (runExecutionCellLease demo_process 0 (demo_opts ''request'' demo_premium_fields) demo_empty)"

definition demo_granted :: store where
  "demo_granted = fst (runExecutionCellLease demo_process 2000 (demo_opts ''grant'' demo_ttl_fields) demo_requested)"

lemma commit_lease_frame:
  "q \<notin> touched_paths (pid c) (clockMs c) (ec_leasePath r) \<Longrightarrow> q \<notin> touched_paths (pid c) (clockMs c) (ec_outputPath r) \<Longrightarrow>
     fst (commit_lease c r l s obs st) q = st q"
  by (simp add: commit_lease_def finish_run_def write_json_def atomic_replace_apply touched_paths_def)

lemma demo_frame [simp]:
  "fst (commit_lease demo_process (demo_run now a x caps e) l s obs st) demo_cost_path = st demo_cost_path"
  "fst (commit_lease demo_process (demo_run now a x caps e) l s obs st) demo_host_path = st demo_host_path"
  by (rule commit_lease_frame; simp add: touched_paths_def demo_run_def temp_path_def demo_cell_path_def
      demo_cost_path_def demo_host_path_def demo_output_path_def)+

lemma demo_empty_simps [simp]:
  "demo_empty demo_host_path = None" "demo_empty demo_cost_path = Some (Doc demo_profile)"
  "demo_empty demo_cell_path = None" "read_doc demo_cell_path demo_empty = Inr JNull"
  by (simp_all add: demo_empty_def demo_host_path_def demo_cost_path_def demo_cell_path_def read_doc_def)

lemma demo_caps_normal: "normalizeCapabilities (jstrs demo_caps) = Inr demo_caps" "isPremiumDualLaneRequest demo_caps"
  "normalizeCapabilityList (map JStr demo_caps) = demo_caps"
  by code_simp+

lemma demo_request_prepared:
  "prepare_cell_run demo_process 0 (demo_opts ''request'' demo_premium_fields) demo_empty =
     Inr (demo_run 0 ''request'' demo_premium_fields demo_caps JNull)"
proof (rule demo_prepared)
  show "normalizeCapabilities (lookup demo_premium_fields ''capabilities'') = Inr demo_caps"
    using demo_caps_normal(1) by (simp add: demo_premium_fields_def demo_caps_def)
qed (simp_all add: demo_text demo_premium_fields_def)

definition demo_record :: jsval where
  "demo_record = buildRequestRecord demo_process 0 (demo_opts ''request'' demo_premium_fields)
     (demo_run 0 ''request'' demo_premium_fields demo_caps JNull)"

lemma demo_requested_at:
  "demo_requested demo_cell_path = Some (Doc (json_norm demo_record))"
  "demo_requested demo_cost_path = Some (Doc demo_profile)" "demo_requested demo_host_path = None"
  using at_commit_lease [OF demo_separated, of 0 "''request''" demo_premium_fields demo_caps JNull demo_record]
  by (simp_all add: demo_requested_def runExecutionCellLease_prepared [OF demo_request_prepared] run_cell_action_def
      request_cell_def demo_record_def Let_def)

lemma demo_record_premium:
  "demo_premium (json_norm demo_record)" "getp2 (json_norm demo_record) ''request'' ''premiumDualLaneRequested'' = JBool True"
proof -
  have "normalizeAgentClass (JStr ''sagan'') = ''sagan''" by code_simp
  then show "demo_premium (json_norm demo_record)"
    "getp2 (json_norm demo_record) ''request'' ''premiumDualLaneRequested'' = JBool True"
    using demo_caps_normal
    by (simp_all add: demo_premium_def demo_record_def buildRequestRecord_def Let_def getp_json_norm_defined
        del: json_norm.simps(7)) (simp_all add: demo_run_def demo_opts_def demo_premium_fields_def demo_text)
qed

lemma demo_grant_prepared:
  "prepare_cell_run demo_process 2000 (demo_opts ''grant'' demo_ttl_fields) demo_requested =
     Inr (demo_run 2000 ''grant'' demo_ttl_fields [] (json_norm demo_record))"
  by (rule demo_prepared)
    (simp_all add: demo_text(1,2) demo_requested_at read_doc_def normalizeCapabilities_def normalizeCapabilityList_def)

lemma demo_steps: "(cell_step demo_cell_path)\<^sup>*\<^sup>* demo_empty demo_granted"
proof -
  have "cell_step demo_cell_path demo_empty demo_requested"
    unfolding demo_requested_def
    by (rule cell_step.cell_run [OF _ demo_request_prepared]) simp_all
  moreover have "cell_step demo_cell_path demo_requested demo_granted"
    unfolding demo_granted_def
    by (rule cell_step.cell_run [OF _ demo_grant_prepared]) (simp_all add: iso_range_def)
  ultimately show ?thesis
    by (meson converse_rtranclp_into_rtranclp r_into_rtranclp)
qed

lemma demo_granted_doc:
  obtains d where "demo_granted demo_cell_path = Some (Doc d)" "getp d ''state'' = JStr ''granted''"
    "getp2 d ''request'' ''premiumDualLaneRequested'' = JBool True"
proof -
  let ?r = "demo_run 2000 ''grant'' demo_ttl_fields [] (json_norm demo_record)"
  obtain g where run: "runExecutionCellLease demo_process 2000 (demo_opts ''grant'' demo_ttl_fields) demo_requested =
     commit_lease demo_process ?r (granted_lease demo_process 2000 (demo_opts ''grant'' demo_ttl_fields) ?r g)
       ''granted'' [''host-os-fingerprint-missing''] demo_requested"
    by (rule demo_grant_run [OF demo_record_premium(1) demo_grant_prepared])
  let ?d = "json_norm (granted_lease demo_process 2000 (demo_opts ''grant'' demo_ttl_fields) ?r g)"
  have "getp ?d ''request'' = getp (json_norm demo_record) ''request''"
    unfolding granted_lease_def demo_run_simps
    by (rule getp_stored_old) (use demo_record_premium(2) in \<open>auto simp: touch_fields_def\<close>)
  then show ?thesis
    using at_commit_lease [OF demo_separated, of 2000 "''grant''" demo_ttl_fields "[]" "json_norm demo_record"]
      state_written(2) demo_record_premium(2) by (intro that [of ?d]) (simp_all add: demo_granted_def run)
qed

lemma cell_reachable_premium_witness:
  "\<exists>d. demo_granted demo_cell_path = Some (Doc d) \<and> getp2 d ''request'' ''agentClass'' = JStr ''sagan'' \<and>
     getp2 d ''grant'' ''billableRateMultiplier'' = JNum (Fin (3 / 2))"
proof -
  obtain d where d: "demo_granted demo_cell_path = Some (Doc d)" "getp d ''state'' = JStr ''granted''"
    "getp2 d ''request'' ''premiumDualLaneRequested'' = JBool True"
    by (rule demo_granted_doc)
  then show ?thesis
    using cell_reachable_premium [OF demo_steps _ d(1) _ d(3)] by auto
qed

lemma cell_reachable_wf_witness:
  "\<exists>d. demo_granted demo_cell_path = Some (Doc d) \<and> (\<exists>n \<ge> 1. getp d ''sequence'' = JInt n)"
proof -
  obtain d where d: "demo_granted demo_cell_path = Some (Doc d)"
    by (rule demo_granted_doc)
  then show ?thesis
    using cell_reachable_wf [OF demo_steps _ d] by auto
qed

end
