(* ===== verification/WriterLease.thy ===== *)
theory WriterLease
  imports LaneHelpers
begin

text \<open>
  The single-writer lease of \<^verbatim>\<open>tools/priority/agent-writer-lease.mjs\<close>: a lock file that is created
  with the exclusive flag, renewed by its owner, and may be taken over when it is stale.  Other
  processes act between the file operations of a run: \<open>others k\<close> is what they do to the store at
  the \<open>k\<close>-th gap of the acquire loop, and \<open>gaps_at k\<close> what they do inside the replacing write of
  attempt \<open>k\<close>: before each rename (the wait after a refusal included), before each removal of the
  target, and before the temporary file is removed.  The clock and the random suffix are read at
  each attempt, and \<open>rename_at\<close> is what the operating system answers to each rename.
\<close>

section \<open>Defaults and options\<close>

definition envInt :: "process \<Rightarrow> string \<Rightarrow> rat \<Rightarrow> rat" where
  "envInt c name fallback =
     (case env c name of
        None \<Rightarrow> fallback
      | Some raw \<Rightarrow> if raw = [] then fallback else (case parse_int10 raw of Fin x \<Rightarrow> x | _ \<Rightarrow> fallback))"

definition envBool :: "process \<Rightarrow> string \<Rightarrow> bool \<Rightarrow> bool" where
  "envBool c name fallback =
     (case env c name of None \<Rightarrow> fallback | Some raw \<Rightarrow> raw = ''1'' \<or> to_lower raw = ''true'')"

definition resolveDefaultGitCommonDir :: "process \<Rightarrow> string" where
  "resolveDefaultGitCommonDir c =
     (case gitCommonDir c of Some d \<Rightarrow> d | None \<Rightarrow> path_join [moduleRepoRoot c, ''.git''])"

definition defaultWriterLeaseRoot :: "process \<Rightarrow> jsval" where
  "defaultWriterLeaseRoot c =
     js_or (env_value c ''AGENT_WRITER_LEASE_ROOT'')
       (JStr (path_join [resolveDefaultGitCommonDir c, ''agent-writer-leases'']))"

definition defaultOwner :: "process \<Rightarrow> string" where
  "defaultOwner c =
     (let explicit = (case env c ''AGENT_WRITER_LEASE_OWNER'' of None \<Rightarrow> [] | Some s \<Rightarrow> trim s);
          actor = js_or (env_value c ''AGENT_WRITER_LEASE_ACTOR'') (js_or (env_value c ''GITHUB_ACTOR'')
                    (js_or (env_value c ''USERNAME'') (js_or (env_value c ''USER'') (JStr ''unknown''))));
          session = js_or (env_value c ''AGENT_SESSION_NAME'') (js_or (env_value c ''PS_SESSION_NAME'') (JStr ''default''))
      in if explicit \<noteq> [] then explicit
         else js_string actor @ ''@'' @ hostName c @ '':'' @ js_string session)"

definition leasePathForScope :: "jsval \<Rightarrow> string \<Rightarrow> string" where
  "leasePathForScope scope leaseRoot = path_join [leaseRoot, js_string scope @ ''.json'']"

definition leaseAgeSeconds_wl :: "jsval \<Rightarrow> int \<Rightarrow> jsnum" where
  "leaseAgeSeconds_wl lease nowMs =
     (let heartbeat = js_or (getp lease ''heartbeatAt'') (getp lease ''acquiredAt'')
      in if \<not> truthy heartbeat then PosInf
         else (let parsed = date_parse (js_string heartbeat)
               in if \<not> num_finite parsed then PosInf
                  else num_max (Fin 0) (num_div (num_sub (num_of_int nowMs) parsed) (Fin 1000))))"

text \<open>\<^verbatim>\<open>Number.isFinite(v) ? v : fallback\<close>.\<close>

fun finite_or :: "jsval \<Rightarrow> rat \<Rightarrow> rat" where
  "finite_or (JNum (Fin x)) fallback = x"
| "finite_or v fallback = fallback"

record acquire_options =
  wl_scope :: jsval
  wl_owner :: jsval
  wl_leaseRoot :: jsval
  wl_staleSeconds :: rat
  wl_waitMs :: rat
  wl_maxAttempts :: rat
  wl_forceTakeover :: jsval

definition normalizeAcquireOptions :: "process \<Rightarrow> jsval \<Rightarrow> acquire_options" where
  "normalizeAcquireOptions c opts =
     \<lparr>wl_scope = js_or (getp opts ''scope'') (JStr ''workspace''),
      wl_owner = js_or (getp opts ''owner'') (JStr (defaultOwner c)),
      wl_leaseRoot = js_or (getp opts ''leaseRoot'') (defaultWriterLeaseRoot c),
      wl_staleSeconds = finite_or (getp opts ''staleSeconds'') (envInt c ''AGENT_WRITER_LEASE_STALE_SECONDS'' 900),
      wl_waitMs = finite_or (getp opts ''waitMs'') (envInt c ''AGENT_WRITER_LEASE_WAIT_MS'' 250),
      wl_maxAttempts = finite_or (getp opts ''maxAttempts'') (envInt c ''AGENT_WRITER_LEASE_MAX_ATTEMPTS'' 0),
      wl_forceTakeover = js_coalesce (getp opts ''forceTakeover'')
        (JBool (envBool c ''AGENT_WRITER_LEASE_FORCE_TAKEOVER'' False))\<rparr>"

record release_options =
  rl_scope :: jsval
  rl_owner :: jsval
  rl_leaseRoot :: jsval
  rl_leaseId :: jsval

definition normalizeReleaseOptions :: "process \<Rightarrow> jsval \<Rightarrow> release_options" where
  "normalizeReleaseOptions c opts =
     \<lparr>rl_scope = js_or (getp opts ''scope'') (JStr ''workspace''),
      rl_owner = js_or (getp opts ''owner'') (JStr (defaultOwner c)),
      rl_leaseRoot = js_or (getp opts ''leaseRoot'') (defaultWriterLeaseRoot c),
      rl_leaseId = js_or (getp opts ''leaseId'') (js_or (env_value c ''AGENT_WRITER_LEASE_ID'') (JStr []))\<rparr>"

section \<open>Files\<close>

text \<open>A lease file of white space reads as absent.\<close>

definition readLease :: "string \<Rightarrow> store \<Rightarrow> jsval result" where
  "readLease p st =
     (case st p of
        None \<Rightarrow> Inr JNull
      | Some Blank \<Rightarrow> Inr JNull
      | Some Malformed \<Rightarrow> Inl SyntaxError
      | Some (Doc v) \<Rightarrow> Inr v)"

datatype rename_outcome = Renamed | Refused string

definition isRetryableLeaseReplaceError :: "string \<Rightarrow> bool" where
  "isRetryableLeaseReplaceError code \<longleftrightarrow> code \<in> set [''EPERM'', ''EACCES'', ''EBUSY'', ''EEXIST'']"

definition rename_file :: "string \<Rightarrow> string \<Rightarrow> store \<Rightarrow> store" where
  "rename_file tmp p st = (st(p := st tmp))(tmp := None)"

text \<open>\<^verbatim>\<open>fs.rm(p, { force: true })\<close>.\<close>

definition remove_file :: "string \<Rightarrow> store \<Rightarrow> store" where
  "remove_file p st = st(p := None)"

lemma remove_file_apply [simp]: "remove_file p st q = (if q = p then None else st q)"
  by (simp add: remove_file_def)

text \<open>What other processes do to the files inside one replacing write.\<close>

record write_gaps =
  before_rename :: "nat \<Rightarrow> store \<Rightarrow> store"
  before_rm :: "nat \<Rightarrow> store \<Rightarrow> store"
  before_cleanup :: "store \<Rightarrow> store"

text \<open>A rename without a source is refused whatever the operating system would have said.\<close>

definition rename_answer :: "rename_outcome \<Rightarrow> string \<Rightarrow> store \<Rightarrow> rename_outcome" where
  "rename_answer answer tmp st = (if answer = Renamed \<and> st tmp = None then Refused ''ENOENT'' else answer)"

text \<open>The wait after a refused rename is part of the gap before the next one.\<close>

function replaceFileWithRetry ::
  "(nat \<Rightarrow> rename_outcome) \<Rightarrow> write_gaps \<Rightarrow> nat \<Rightarrow> string \<Rightarrow> string \<Rightarrow> nat \<Rightarrow> store \<Rightarrow> store \<times> unit result" where
  "replaceFileWithRetry answer g retryAttempts tmp p attempt st =
     (let st0 = before_rename g attempt st
      in case rename_answer (answer attempt) tmp st0 of
           Renamed \<Rightarrow> (rename_file tmp p st0, Inr ())
         | Refused code \<Rightarrow>
             if \<not> isRetryableLeaseReplaceError code then (st0, Inl (IoError code))
             else if attempt \<ge> retryAttempts then (st0, Inl (IoError code))
             else replaceFileWithRetry answer g retryAttempts tmp p (Suc attempt)
                    (remove_file p (before_rm g attempt st0)))"
  by pat_completeness auto
termination
  by (relation "measure (\<lambda>(answer, g, retryAttempts, tmp, p, attempt, st). retryAttempts - attempt)") auto

declare replaceFileWithRetry.simps [simp del]

definition DEFAULT_RENAME_RETRY_ATTEMPTS :: nat where
  "DEFAULT_RENAME_RETRY_ATTEMPTS = 5"

text \<open>The temporary file is removed in the \<^verbatim>\<open>finally\<close> block, whatever the renames did.\<close>

definition writeJson_replace ::
  "process \<Rightarrow> (nat \<Rightarrow> rename_outcome) \<Rightarrow> write_gaps \<Rightarrow> string \<Rightarrow> jsval \<Rightarrow> store \<Rightarrow> store \<times> unit result" where
  "writeJson_replace c answer g p payload st =
     (let tmp = temp_path (pid c) (clockMs c) p;
          (st1, r) = replaceFileWithRetry answer g DEFAULT_RENAME_RETRY_ATTEMPTS tmp p 0
            (st(tmp \<mapsto> Doc (json_norm payload)))
      in (remove_file tmp (before_cleanup g st1), r))"

text \<open>\<^verbatim>\<open>flag: 'wx'\<close>: fails with EEXIST (\<open>None\<close> here) when the file exists.\<close>

definition writeJson_create :: "string \<Rightarrow> jsval \<Rightarrow> store \<Rightarrow> store option" where
  "writeJson_create p payload st =
     (case st p of None \<Rightarrow> Some (st(p \<mapsto> Doc (json_norm payload))) | Some _ \<Rightarrow> None)"

section \<open>Records\<close>

definition buildBaseResult :: "process \<Rightarrow> string \<Rightarrow> jsval \<Rightarrow> string \<Rightarrow> jsval \<Rightarrow> fields" where
  "buildBaseResult c action scope leasePath owner =
     [(''schema'', JStr ''agent/writer-lease-result@v1''), (''action'', JStr action), (''scope'', scope),
      (''leasePath'', JStr leasePath), (''owner'', owner), (''checkedAt'', JStr (iso_string (clockMs c)))]"

definition createLeaseRecord :: "process \<Rightarrow> jsval \<Rightarrow> jsval \<Rightarrow> jsval \<Rightarrow> jsval \<Rightarrow> string \<Rightarrow> jsval" where
  "createLeaseRecord c scope owner leaseId takeoverFrom takeoverReason =
     (let timestamp = JStr (iso_string (clockMs c))
      in JObj ([(''schema'', JStr ''agent/writer-lease@v1''), (''scope'', scope), (''leaseId'', leaseId),
                (''owner'', owner), (''acquiredAt'', timestamp), (''heartbeatAt'', timestamp)] @
               (if truthy takeoverFrom
                then [(''takeover'', JObj [(''fromOwner'', takeoverFrom),
                        (''reason'', js_or (JStr takeoverReason) (JStr ''stale-lease''))])]
                else [])))"

text \<open>\<^verbatim>\<open>a === b\<close>: objects are compared by identity, and a parsed one is never the caller's.\<close>

definition strict_eq :: "jsval \<Rightarrow> jsval \<Rightarrow> bool" where
  "strict_eq a b \<longleftrightarrow> a = b \<and> \<not> is_object a \<and> a \<noteq> JNum NaN"

section \<open>Acquiring\<close>

text \<open>
  \<open>proc_at (2 * k)\<close> is the process when attempt \<open>k\<close> creates its record, \<open>proc_at (2 * k + 1)\<close> when it
  reads the lease it found; \<open>others (3 * k)\<close>, \<open>others (3 * k + 1)\<close> and \<open>others (3 * k + 2)\<close> act before
  the exclusive create, before the read and before the replacing write of attempt \<open>k\<close>, and
  \<open>gaps_at k\<close> inside that write.
\<close>

record lease_world =
  proc_at :: "nat \<Rightarrow> process"
  others :: "nat \<Rightarrow> store \<Rightarrow> store"
  gaps_at :: "nat \<Rightarrow> write_gaps"
  rename_at :: "nat \<Rightarrow> nat \<Rightarrow> rename_outcome"

datatype attempt_result = Done store "jsval result" | Retry store

text \<open>A write followed by the return of the result that names the written lease.\<close>

definition write_and_return ::
  "lease_world \<Rightarrow> nat \<Rightarrow> string \<Rightarrow> jsval \<Rightarrow> jsval \<Rightarrow> store \<Rightarrow> store \<times> jsval result" where
  "write_and_return w k p lease result st =
     (case writeJson_replace (proc_at w (2 * k + 1)) (rename_at w k) (gaps_at w k) p lease (others w (3 * k + 2) st) of
        (st', Inl e) \<Rightarrow> (st', Inl e)
      | (st', Inr u) \<Rightarrow> (st', Inr result))"

definition acquire_lease_id :: "process \<Rightarrow> jsval \<Rightarrow> jsval" where
  "acquire_lease_id c opts =
     js_or (getp opts ''leaseId'')
       (JStr (show_int (clockMs c) @ ''-'' @ show_nat (pid c) @ ''-'' @ rand c))"

definition int_field :: "nat \<Rightarrow> jsval" where
  "int_field n = JInt (int n)"

text \<open>What an attempt does with a lease it found in the way.\<close>

definition acquire_found ::
  "lease_world \<Rightarrow> acquire_options \<Rightarrow> fields \<Rightarrow> string \<Rightarrow> jsval \<Rightarrow> nat \<Rightarrow> jsval \<Rightarrow> store \<Rightarrow> attempt_result" where
  "acquire_found w q base p leaseId k current st =
     (let c = proc_at w (2 * k + 1);
          ageSeconds = leaseAgeSeconds_wl current (clockMs c);
          isStale = num_gt ageSeconds (Fin (wl_staleSeconds q));
          holder = getp current ''owner'';
          result = (\<lambda>status extra. JObj (base @
            [(''status'', JStr status), (''attempt'', int_field k), (''ageSeconds'', JNum ageSeconds)] @ extra))
      in if strict_eq holder (wl_owner q) then
           (let renewed = with_fields current [(''heartbeatAt'', JStr (iso_string (clockMs c)))]
            in case_prod Done (write_and_return w k p renewed (result ''renewed'' [(''lease'', renewed)]) st))
         else if isStale then
           if \<not> truthy (wl_forceTakeover q) then
             Done st (Inr (result ''stale'' [(''staleSeconds'', JNum (Fin (wl_staleSeconds q))),
                                             (''holder'', holder), (''lease'', current)]))
           else
             (let takeover = createLeaseRecord c (wl_scope q) (wl_owner q) leaseId holder
                    (''stale>'' @ num_to_string (Fin (wl_staleSeconds q)) @ ''s'')
              in case_prod Done (write_and_return w k p takeover
                   (result ''takeover'' [(''staleSeconds'', JNum (Fin (wl_staleSeconds q))),
                                         (''previousLease'', current), (''lease'', takeover)]) st))
         else if of_nat k \<ge> wl_maxAttempts q then
           Done st (Inr (result ''busy'' [(''staleSeconds'', JNum (Fin (wl_staleSeconds q))),
                                          (''holder'', holder), (''lease'', current)]))
         else Retry st)"

definition acquire_attempt ::
  "lease_world \<Rightarrow> acquire_options \<Rightarrow> jsval \<Rightarrow> fields \<Rightarrow> string \<Rightarrow> nat \<Rightarrow> store \<Rightarrow> attempt_result" where
  "acquire_attempt w q opts base p k st =
     (let c = proc_at w (2 * k);
          leaseId = acquire_lease_id c opts;
          freshLease = createLeaseRecord c (wl_scope q) (wl_owner q) leaseId JNull [];
          st1 = others w (3 * k) st
      in case writeJson_create p freshLease st1 of
           Some st2 \<Rightarrow> Done st2 (Inr (JObj (base @
             [(''status'', JStr ''acquired''), (''attempt'', int_field k), (''lease'', freshLease)])))
         | None \<Rightarrow>
             (let st2 = others w (3 * k + 1) st1
              in case readLease p st2 of
                   Inl e \<Rightarrow> Done st2 (Inl e)
                 | Inr current \<Rightarrow>
                     if \<not> truthy current then
                       (if of_nat k \<ge> wl_maxAttempts q
                        then Done st2 (Inr (JObj (base @
                          [(''status'', JStr ''busy''), (''attempt'', int_field k),
                           (''reason'', JStr ''lease-file-race''), (''lease'', JNull)])))
                        else Retry st2)
                     else acquire_found w q base p leaseId k current st2))"

lemma acquire_retry_bound: "acquire_attempt w q opts base p k st = Retry st' \<Longrightarrow> of_nat k < wl_maxAttempts q"
  by (auto simp: acquire_attempt_def acquire_found_def Let_def split: option.splits sum.splits if_splits prod.splits)

function acquire_loop ::
  "lease_world \<Rightarrow> acquire_options \<Rightarrow> jsval \<Rightarrow> fields \<Rightarrow> string \<Rightarrow> nat \<Rightarrow> store \<Rightarrow> store \<times> jsval result" where
  "acquire_loop w q opts base p k st =
     (case acquire_attempt w q opts base p k st of
        Done st' r \<Rightarrow> (st', r)
      | Retry st' \<Rightarrow> acquire_loop w q opts base p (Suc k) st')"
  by pat_completeness auto
termination
proof (relation "measure (\<lambda>(w, q, opts, base, p, k, st). nat (\<lceil>wl_maxAttempts q\<rceil> - int k))")
  fix w q opts base p k st st'
  assume "acquire_attempt w q opts base p k st = Retry st'"
  then have "of_nat k < wl_maxAttempts q"
    by (rule acquire_retry_bound)
  then have "int k < \<lceil>wl_maxAttempts q\<rceil>"
    by (metis less_ceiling_iff of_int_of_nat_eq)
  then show "((w, q, opts, base, p, Suc k, st'), w, q, opts, base, p, k, st)
      \<in> measure (\<lambda>(w, q, opts, base, p, k, st). nat (\<lceil>wl_maxAttempts q\<rceil> - int k))"
    by simp
qed simp

declare acquire_loop.simps [simp del]

text \<open>\<^verbatim>\<open>leasePathForScope(scope, leaseRoot)\<close>, a TypeError when the root is no text.\<close>

definition acquire_path :: "process \<Rightarrow> jsval \<Rightarrow> string result" where
  "acquire_path c opts =
     (let q = normalizeAcquireOptions c opts
      in bindE (as_text (wl_leaseRoot q)) (\<lambda>dir. Inr (leasePathForScope (wl_scope q) dir)))"

definition acquireWriterLease :: "lease_world \<Rightarrow> jsval \<Rightarrow> store \<Rightarrow> store \<times> jsval result" where
  "acquireWriterLease w opts st =
     (let c = proc_at w 0;
          q = normalizeAcquireOptions c opts
      in case acquire_path c opts of
           Inl e \<Rightarrow> (st, Inl e)
         | Inr p \<Rightarrow> acquire_loop w q opts (buildBaseResult c ''acquire'' (wl_scope q) p (wl_owner q)) p 0 st)"

section \<open>Inspecting, releasing, renewing\<close>

definition inspectWriterLease :: "process \<Rightarrow> jsval \<Rightarrow> store \<Rightarrow> jsval result" where
  "inspectWriterLease c opts st =
     (let q = normalizeAcquireOptions c opts
      in bindE (acquire_path c opts) (\<lambda>p.
         let base = buildBaseResult c ''inspect'' (wl_scope q) p (wl_owner q)
         in bindE (readLease p st) (\<lambda>lease.
              if \<not> truthy lease then Inr (JObj (base @ [(''status'', JStr ''not-found''), (''lease'', JNull)]))
              else
                (let ageSeconds = leaseAgeSeconds_wl lease (clockMs c)
                 in Inr (JObj (base @
                      [(''status'', JStr ''active''), (''ageSeconds'', JNum ageSeconds),
                       (''stale'', JBool (num_gt ageSeconds (Fin (wl_staleSeconds q)))), (''lease'', lease)])))))) "

definition lease_matches :: "release_options \<Rightarrow> jsval \<Rightarrow> bool" where
  "lease_matches q current \<longleftrightarrow>
     strict_eq (getp current ''owner'') (rl_owner q) \<or>
     truthy (rl_leaseId q) \<and> strict_eq (getp current ''leaseId'') (rl_leaseId q)"

text \<open>Release and heartbeat read, check the owner or the lease id, and act; \<open>interfere\<close> happens in between.\<close>

definition guarded_lease ::
  "string \<Rightarrow> process \<Rightarrow> jsval \<Rightarrow> store \<Rightarrow> (string \<Rightarrow> fields \<Rightarrow> jsval \<Rightarrow> store \<times> jsval result) \<Rightarrow> store \<times> jsval result" where
  "guarded_lease action c opts st act =
     (let q = normalizeReleaseOptions c opts
      in case as_text (rl_leaseRoot q) of
           Inl e \<Rightarrow> (st, Inl e)
         | Inr root_dir \<Rightarrow>
             (let p = leasePathForScope (rl_scope q) root_dir;
                  base = buildBaseResult c action (rl_scope q) p (rl_owner q)
              in case readLease p st of
                   Inl e \<Rightarrow> (st, Inl e)
                 | Inr current \<Rightarrow>
                     if \<not> truthy current then
                       (st, Inr (JObj (base @ [(''status'', JStr ''not-found''), (''lease'', JNull)])))
                     else if \<not> lease_matches q current then
                       (st, Inr (JObj (base @ [(''status'', JStr ''mismatch''), (''lease'', current),
                          (''reason'', JStr ''owner-or-lease-id-mismatch'')])))
                     else act p base current))"

definition releaseWriterLease :: "process \<Rightarrow> (store \<Rightarrow> store) \<Rightarrow> jsval \<Rightarrow> store \<Rightarrow> store \<times> jsval result" where
  "releaseWriterLease c interfere opts st =
     guarded_lease ''release'' c opts st (\<lambda>p base current.
       (remove_file p (interfere st), Inr (JObj (base @ [(''status'', JStr ''released''), (''lease'', current)]))))"

definition heartbeatWriterLease ::
  "process \<Rightarrow> (store \<Rightarrow> store) \<Rightarrow> (nat \<Rightarrow> rename_outcome) \<Rightarrow> write_gaps \<Rightarrow> jsval \<Rightarrow> store \<Rightarrow> store \<times> jsval result" where
  "heartbeatWriterLease c interfere answer g opts st =
     guarded_lease ''heartbeat'' c opts st (\<lambda>p base current.
       (let renewed = with_fields current [(''heartbeatAt'', JStr (iso_string (clockMs c)))]
        in case writeJson_replace c answer g p renewed (interfere st) of
             (st', Inl e) \<Rightarrow> (st', Inl e)
           | (st', Inr u) \<Rightarrow> (st', Inr (JObj (base @ [(''status'', JStr ''renewed''), (''lease'', renewed)])))))"

section \<open>The command line\<close>

definition exitCodeForResult :: "jsval \<Rightarrow> nat" where
  "exitCodeForResult result =
     (let action = getp result ''action''; status = getp result ''status''
      in if \<not> truthy result then 1
         else if action = JStr ''acquire'' then
           (if status \<in> JStr ` set [''acquired'', ''renewed'', ''takeover''] then 0
            else if status = JStr ''busy'' then 10 else if status = JStr ''stale'' then 11 else 1)
         else if action = JStr ''release'' then
           (if status \<in> JStr ` set [''released'', ''not-found''] then 0 else if status = JStr ''mismatch'' then 12 else 1)
         else if action = JStr ''heartbeat'' then
           (if status = JStr ''renewed'' then 0 else if status = JStr ''not-found'' then 13
            else if status = JStr ''mismatch'' then 12 else 1)
         else if action = JStr ''inspect'' then (if status = JStr ''active'' then 0 else 1)
         else 1)"

definition writer_text_options :: "(string \<times> string) list" where
  "writer_text_options =
     [(''--action'', ''action''), (''--owner'', ''owner''), (''--lease-root'', ''leaseRoot''),
      (''--lease-id'', ''leaseId''), (''--report'', ''report'')]"

definition writer_int_options :: "(string \<times> string) list" where
  "writer_int_options =
     [(''--stale-seconds'', ''staleSeconds''), (''--wait-ms'', ''waitMs''), (''--max-attempts'', ''maxAttempts'')]"

text \<open>\<^verbatim>\<open>argv[++index] || ''\<close>.\<close>

definition next_text :: "string list \<Rightarrow> string" where
  "next_text rest = (case rest of [] \<Rightarrow> [] | a # _ \<Rightarrow> a)"

fun parse_writer_args :: "jsval \<Rightarrow> string list \<Rightarrow> jsval result" where
  "parse_writer_args parsed [] = Inr parsed"
| "parse_writer_args parsed (token # rest) =
     (case map_of writer_text_options token of
        Some key \<Rightarrow> parse_writer_args (set_field parsed key (JStr (next_text rest))) (tl rest)
      | None \<Rightarrow>
     (case map_of writer_int_options token of
        Some key \<Rightarrow> parse_writer_args (set_field parsed key (JNum (parse_int10 (next_text rest)))) (tl rest)
      | None \<Rightarrow>
          if token = ''--scope'' then
            parse_writer_args (set_field parsed ''scope'' (js_or (JStr (next_text rest)) (JStr ''workspace''))) (tl rest)
          else if token = ''--force-takeover'' then parse_writer_args (set_field parsed ''forceTakeover'' (JBool True)) rest
          else if token = ''--quiet'' then parse_writer_args (set_field parsed ''quiet'' (JBool True)) rest
          else if token = ''--help'' \<or> token = ''-h'' then parse_writer_args (set_field parsed ''help'' (JBool True)) rest
          else Inl (ErrorMsg (''Unknown argument: '' @ token))))"

definition parseArgs_writer :: "string list \<Rightarrow> jsval result" where
  "parseArgs_writer argv = parse_writer_args (JObj
     [(''action'', JStr []), (''scope'', JStr ''workspace''), (''owner'', JStr []), (''leaseRoot'', JStr []),
      (''leaseId'', JStr []), (''staleSeconds'', JUndef), (''waitMs'', JUndef), (''maxAttempts'', JUndef),
      (''forceTakeover'', JBool False), (''report'', JStr []), (''quiet'', JBool False)]) argv"

text \<open>The report file is written in place, after the lease operation.\<close>

definition maybeWriteReport :: "jsval \<Rightarrow> jsval \<Rightarrow> store \<Rightarrow> store" where
  "maybeWriteReport reportPath payload st =
     (if truthy reportPath then st(js_string reportPath \<mapsto> Doc (json_norm payload)) else st)"

definition writer_dispatch :: "lease_world \<Rightarrow> jsval \<Rightarrow> store \<Rightarrow> store \<times> jsval result" where
  "writer_dispatch w opts st =
     (let c = proc_at w 0; action = getp opts ''action''
      in if action = JStr ''acquire'' then acquireWriterLease w opts st
         else if action = JStr ''release'' then releaseWriterLease c (others w 0) opts st
         else if action = JStr ''heartbeat'' then heartbeatWriterLease c (others w 0) (rename_at w 0) (gaps_at w 0) opts st
         else if action = JStr ''inspect'' then (st, inspectWriterLease c opts st)
         else (st, Inl (ErrorMsg (''Unsupported action '' @ [CHR 0x27] @ js_string action @ [CHR 0x27] @ ''.''))))"

definition runCli_writer :: "lease_world \<Rightarrow> string list \<Rightarrow> store \<Rightarrow> store \<times> nat result" where
  "runCli_writer w argv st =
     (case parseArgs_writer argv of
        Inl e \<Rightarrow> (st, Inl e)
      | Inr opts \<Rightarrow>
          if truthy (getp opts ''help'') \<or> \<not> truthy (getp opts ''action'') then (st, Inr 0)
          else
            (case writer_dispatch w opts st of
               (st', Inl e) \<Rightarrow> (st', Inl e)
             | (st', Inr result) \<Rightarrow>
                 (maybeWriteReport (getp opts ''report'') result st', Inr (exitCodeForResult result))))"

section \<open>Replacing a file\<close>

text \<open>
  Other processes may delete the temporary file of a write but never write it (its name carries the
  process id and the clock), and leave the target alone once it has been replaced.
\<close>

definition private_temp :: "write_gaps \<Rightarrow> string \<Rightarrow> bool" where
  "private_temp g tmp \<longleftrightarrow>
     (\<forall>j s. before_rename g j s tmp \<in> {None, s tmp} \<and> before_rm g j s tmp \<in> {None, s tmp})"

definition writes_alone :: "write_gaps \<Rightarrow> process \<Rightarrow> string \<Rightarrow> bool" where
  "writes_alone g c p \<longleftrightarrow>
     private_temp g (temp_path (pid c) (clockMs c) p) \<and> (\<forall>s. before_cleanup g s p = s p)"

definition respects_write :: "lease_world \<Rightarrow> string \<Rightarrow> bool" where
  "respects_write w p \<longleftrightarrow> (\<forall>k. writes_alone (gaps_at w k) (proc_at w (2 * k + 1)) p)"

lemma rename_answer_Renamed [simp]: "rename_answer a tmp st = Renamed \<longleftrightarrow> a = Renamed \<and> st tmp \<noteq> None"
  by (auto simp: rename_answer_def)

lemma rename_answer_refused [simp]: "rename_answer (Refused code) tmp st = Refused code"
  by (simp add: rename_answer_def)

lemma replace_success:
  assumes "private_temp g tmp" "tmp \<noteq> p"
  shows "replaceFileWithRetry answer g n tmp p k st = (st', Inr u) \<Longrightarrow> st' p = st tmp \<and> st tmp \<noteq> None"
proof (induction "n - k" arbitrary: k st rule: less_induct)
  case less
  define st0 where "st0 = before_rename g k st"
  have st0: "st0 tmp \<in> {None, st tmp}" and rm: "before_rm g k st0 tmp \<in> {None, st tmp}"
    using assms(1) unfolding private_temp_def st0_def by (blast, metis insertE insert_iff singletonD)
  show ?case
  proof (cases "rename_answer (answer k) tmp st0")
    case Renamed
    have "replaceFileWithRetry answer g n tmp p k st = (rename_file tmp p st0, Inr ())"
      by (subst replaceFileWithRetry.simps) (simp only: Let_def st0_def [symmetric] Renamed rename_outcome.case)
    with Renamed show ?thesis
      using less(2) assms(2) st0 by (auto simp: rename_file_def)
  next
    case (Refused code)
    let ?s = "remove_file p (before_rm g k st0)"
    from Refused have "k < n" "replaceFileWithRetry answer g n tmp p (Suc k) ?s = (st', Inr u)"
      using less(2) by (subst (asm) replaceFileWithRetry.simps; simp add: Let_def st0_def [symmetric] split: if_splits)+
    moreover from this(1) have "n - Suc k < n - k" by simp
    ultimately have "st' p = ?s tmp \<and> ?s tmp \<noteq> None"
      using less(1) by blast
    then show ?thesis
      using rm assms(2) by auto
  qed
qed

lemma writeJson_success:
  assumes "writeJson_replace c answer g p v st = (st', Inr u)" "writes_alone g c p"
  shows "st' p = Some (Doc (json_norm v))"
  using assms replace_success [of g "temp_path (pid c) (clockMs c) p" p answer _ 0
      "st(temp_path (pid c) (clockMs c) p \<mapsto> Doc (json_norm v))"]
  by (auto simp: writeJson_replace_def writes_alone_def Let_def split: prod.splits)

lemma replace_all_refused:
  assumes "\<forall>j < n. \<exists>code. answer j = Refused code \<and> isRetryableLeaseReplaceError code" "answer n = Refused code"
    "\<forall>s. s p = None \<longrightarrow> before_rename g n s p = None"
  shows "k \<le> n \<Longrightarrow> k < n \<or> st p = None \<Longrightarrow>
     \<exists>st'. replaceFileWithRetry answer g n tmp p k st = (st', Inl (IoError code)) \<and> st' p = None"
proof (induction "n - k" arbitrary: k st rule: less_induct)
  case less
  show ?case
  proof (cases "k < n")
    case True
    let ?s = "remove_file p (before_rm g k (before_rename g k st))"
    obtain code' where "answer k = Refused code'" "isRetryableLeaseReplaceError code'"
      using assms(1) True by blast
    moreover obtain st' where "replaceFileWithRetry answer g n tmp p (Suc k) ?s = (st', Inl (IoError code))" "st' p = None"
      using less(1) [of "Suc k" ?s] True by fastforce
    ultimately show ?thesis
      using True by (subst replaceFileWithRetry.simps) (simp add: Let_def)
  next
    case False
    with less(2,3) assms(2,3) show ?thesis
      by (subst replaceFileWithRetry.simps) (simp add: Let_def)
  qed
qed

text \<open>
  A replacement whose renames are all refused fails with the code of the last refusal, and the lease
  file it was to replace is gone, when no other process creates it again after the last removal.
\<close>

theorem exhausted_replace_drops_lease:
  assumes "\<forall>j < DEFAULT_RENAME_RETRY_ATTEMPTS. \<exists>code. answer j = Refused code \<and> isRetryableLeaseReplaceError code"
    "answer DEFAULT_RENAME_RETRY_ATTEMPTS = Refused code"
    "\<forall>s. s p = None \<longrightarrow> before_rename g DEFAULT_RENAME_RETRY_ATTEMPTS s p = None \<and> before_cleanup g s p = None"
  shows "snd (writeJson_replace c answer g p v st) = Inl (IoError code) \<and>
    fst (writeJson_replace c answer g p v st) p = None"
proof -
  obtain st' where "replaceFileWithRetry answer g DEFAULT_RENAME_RETRY_ATTEMPTS (temp_path (pid c) (clockMs c) p) p 0
      (st(temp_path (pid c) (clockMs c) p \<mapsto> Doc (json_norm v))) = (st', Inl (IoError code))" "st' p = None"
    using replace_all_refused [OF assms(1,2), of p g 0] assms(3)
    by (force simp: DEFAULT_RENAME_RETRY_ATTEMPTS_def)
  then show ?thesis
    using assms(3) by (simp add: writeJson_replace_def Let_def)
qed

section \<open>What a successful acquire leaves behind\<close>

lemma lookup_base [simp]:
  "k \<notin> set [''schema'', ''action'', ''scope'', ''leasePath'', ''owner'', ''checkedAt''] \<Longrightarrow>
     lookup (buildBaseResult c a scope p owner @ rest) k = lookup rest k"
  "lookup (buildBaseResult c a scope p owner @ rest) ''leasePath'' = JStr p"
  "lookup (buildBaseResult c a scope p owner @ rest) ''owner'' = owner"
  "lookup (buildBaseResult c a scope p owner @ rest) ''action'' = JStr a"
  by (auto simp: buildBaseResult_def)

definition acquired_statuses :: "jsval set" where
  "acquired_statuses = {JStr ''acquired'', JStr ''renewed'', JStr ''takeover''}"

text \<open>The file named by the result holds the lease of the result, and that lease is the owner's.\<close>

definition holds_lease :: "store \<Rightarrow> jsval \<Rightarrow> bool" where
  "holds_lease st r \<longleftrightarrow>
     (\<exists>p. getp r ''leasePath'' = JStr p \<and> st p = Some (Doc (json_norm (getp r ''lease'')))) \<and>
     getp (getp r ''lease'') ''owner'' = getp r ''owner''"

lemma owner_createLeaseRecord [simp]: "getp (createLeaseRecord c scope owner i f reason) ''owner'' = owner"
  by (simp add: createLeaseRecord_def Let_def)

lemma write_and_return_result: "write_and_return w k p lease res st = (st', Inr r) \<Longrightarrow> r = res"
  by (auto simp: write_and_return_def split: prod.splits sum.splits)

lemma write_and_return_success:
  "write_and_return w k p lease res st = (st', Inr r) \<Longrightarrow> respects_write w p \<Longrightarrow>
     r = res \<and> st' p = Some (Doc (json_norm lease))"
  by (auto simp: write_and_return_def respects_write_def dest: writeJson_success split: prod.splits sum.splits)

lemma case_prod_Done_iff: "case_prod Done x = Done st r \<longleftrightarrow> x = (st, r)"
  by (cases x) auto

lemma renewed_owner:
  "strict_eq (getp current ''owner'') owner \<Longrightarrow> owner \<noteq> JUndef \<Longrightarrow>
     getp (with_fields current [(''heartbeatAt'', t)]) ''owner'' = owner"
  by (cases current) (auto simp: getp_with_fields strict_eq_def)

lemma found_success:
  assumes "acquire_found w q (buildBaseResult c a scope p (wl_owner q)) p i k current st = Done st' (Inr r)"
    "getp r ''status'' \<in> acquired_statuses" "wl_owner q \<noteq> JUndef" "respects_write w p"
  shows "holds_lease st' r"
  using assms renewed_owner [of current "wl_owner q"]
  unfolding acquire_found_def acquired_statuses_def holds_lease_def Let_def
  by (auto simp: case_prod_Done_iff split: if_splits dest!: write_and_return_success)

lemma attempt_success:
  assumes "acquire_attempt w q opts (buildBaseResult c a scope p (wl_owner q)) p k st = Done st' (Inr r)"
    "getp r ''status'' \<in> acquired_statuses" "wl_owner q \<noteq> JUndef" "respects_write w p"
  shows "holds_lease st' r"
proof (cases "writeJson_create p (createLeaseRecord (proc_at w (2 * k)) (wl_scope q) (wl_owner q)
    (acquire_lease_id (proc_at w (2 * k)) opts) JNull []) (others w (3 * k) st)")
  case (Some st2)
  with assms(1) show ?thesis
    by (auto simp: acquire_attempt_def Let_def holds_lease_def writeJson_create_def split: option.splits)
next
  case None
  with assms found_success show ?thesis
    unfolding acquire_attempt_def Let_def
    by (auto simp: acquired_statuses_def split: sum.splits if_splits)
qed

lemma loop_success:
  assumes "getp r ''status'' \<in> acquired_statuses" "wl_owner q \<noteq> JUndef" "respects_write w p"
  shows "acquire_loop w q opts (buildBaseResult c a scope p (wl_owner q)) p k st = (st', Inr r) \<Longrightarrow> holds_lease st' r"
proof (induction "nat (\<lceil>wl_maxAttempts q\<rceil> - int k)" arbitrary: k st rule: less_induct)
  case less
  show ?case
  proof (cases "acquire_attempt w q opts (buildBaseResult c a scope p (wl_owner q)) p k st")
    case (Done s x)
    with less(2) assms show ?thesis
      by (subst (asm) acquire_loop.simps) (auto intro: attempt_success)
  next
    case (Retry s)
    then have "int k < \<lceil>wl_maxAttempts q\<rceil>"
      by (metis acquire_retry_bound less_ceiling_iff of_int_of_nat_eq)
    moreover from Retry less(2) have "acquire_loop w q opts (buildBaseResult c a scope p (wl_owner q)) p (Suc k) s = (st', Inr r)"
      by (subst (asm) acquire_loop.simps) simp
    ultimately show ?thesis
      using less(1) [of "Suc k" s] by simp
  qed
qed

lemma owner_defined [simp]: "wl_owner (normalizeAcquireOptions c opts) \<noteq> JUndef"
  by (auto simp: normalizeAcquireOptions_def js_or_def)

text \<open>Every result of the acquire loop names the lease path and the owner it was asked for.\<close>

lemma found_base:
  assumes "acquire_found w q (buildBaseResult c a scope p owner) p i k current st = Done st' (Inr r)"
  shows "getp r ''leasePath'' = JStr p \<and> getp r ''owner'' = owner"
  using assms unfolding acquire_found_def Let_def
  by (auto simp: case_prod_Done_iff split: if_splits dest!: write_and_return_result)

lemma attempt_base:
  assumes "acquire_attempt w q opts (buildBaseResult c a scope p owner) p k st = Done st' (Inr r)"
  shows "getp r ''leasePath'' = JStr p \<and> getp r ''owner'' = owner"
  using assms found_base unfolding acquire_attempt_def Let_def
  by (auto split: option.splits sum.splits if_splits)

lemma loop_base:
  "acquire_loop w q opts (buildBaseResult c a scope p owner) p k st = (st', Inr r) \<Longrightarrow>
     getp r ''leasePath'' = JStr p \<and> getp r ''owner'' = owner"
proof (induction w q opts "buildBaseResult c a scope p owner" p k st rule: acquire_loop.induct)
  case (1 w q opts p k st)
  then show ?case
    by (subst (asm) (2) acquire_loop.simps) (auto split: attempt_result.splits dest: attempt_base)
qed

text \<open>
  C13: An acquire whose lease path resolves and that returns acquired, renewed or takeover leaves
  the lease file holding exactly the lease it returns, owned by the owner of the result. Other
  processes may write and delete any files between the reads and writes, between a refused rename,
  its removal of the target and the retry, and before the first rename; what is asked of them is
  that they never write the private temp file of this process (they may delete it) and leave the
  lease file alone between the rename that replaces it and the cleanup of the temp file.
\<close>

theorem acquire_success_holds:
  assumes "acquireWriterLease w opts st = (st', Inr r)" "getp r ''status'' \<in> acquired_statuses"
    "acquire_path (proc_at w 0) opts = Inr p" "respects_write w p"
  shows "holds_lease st' r \<and> getp r ''leasePath'' = JStr p"
  using assms loop_success [OF assms(2) owner_defined assms(4)] loop_base
  by (fastforce simp: acquireWriterLease_def Let_def)

section \<open>Attempts\<close>

lemma found_attempt:
  assumes "acquire_found w q (buildBaseResult c a scope p owner) p i k current st = Done st' (Inr r)"
  shows "getp r ''attempt'' = int_field k"
  using assms unfolding acquire_found_def Let_def
  by (auto simp: case_prod_Done_iff split: if_splits dest!: write_and_return_result)

lemma attempt_number:
  assumes "acquire_attempt w q opts (buildBaseResult c a scope p owner) p k st = Done st' (Inr r)"
  shows "getp r ''attempt'' = int_field k"
  using assms found_attempt unfolding acquire_attempt_def Let_def
  by (auto split: option.splits sum.splits if_splits)

lemma loop_attempts:
  "acquire_loop w q opts (buildBaseResult c a scope p owner) p k st = (st', Inr r) \<Longrightarrow>
     \<exists>n. getp r ''attempt'' = int_field n \<and> (n = k \<or> k < n \<and> int n \<le> \<lceil>wl_maxAttempts q\<rceil>)"
proof (induction "nat (\<lceil>wl_maxAttempts q\<rceil> - int k)" arbitrary: k st rule: less_induct)
  case less
  show ?case
  proof (cases "acquire_attempt w q opts (buildBaseResult c a scope p owner) p k st")
    case (Done s x)
    with less(2) show ?thesis
      by (subst (asm) acquire_loop.simps) (auto dest: attempt_number)
  next
    case (Retry s)
    then have k: "int k < \<lceil>wl_maxAttempts q\<rceil>"
      by (metis acquire_retry_bound less_ceiling_iff of_int_of_nat_eq)
    from Retry less(2) have "acquire_loop w q opts (buildBaseResult c a scope p owner) p (Suc k) s = (st', Inr r)"
      by (subst (asm) acquire_loop.simps) simp
    with less(1) [of "Suc k" s] k show ?thesis
      by fastforce
  qed
qed

text \<open>
  C32: The acquire loop always returns, and the attempt number it reports is at most the ceiling
  of maxAttempts (zero when that is negative), whatever other processes do.
\<close>

theorem acquire_attempts_bounded:
  assumes "acquireWriterLease w opts st = (st', Inr r)"
  shows "\<exists>n. getp r ''attempt'' = int_field n \<and>
    int n \<le> max 0 \<lceil>wl_maxAttempts (normalizeAcquireOptions (proc_at w 0) opts)\<rceil>"
  using assms loop_attempts [of w _ opts _ _ _ _ _ 0 st st' r]
  by (force simp: acquireWriterLease_def Let_def split: sum.splits)

section \<open>A lease held by somebody else\<close>

definition undisturbed :: "lease_world \<Rightarrow> bool" where
  "undisturbed w \<longleftrightarrow> others w = (\<lambda>k st. st)"

lemma readLease_doc: "readLease p st = Inr d \<Longrightarrow> truthy d \<Longrightarrow> st p = Some (Doc d)"
  by (auto simp: readLease_def split: option.splits file_content.splits)

lemma create_blocked: "readLease p st = Inr d \<Longrightarrow> truthy d \<Longrightarrow> writeJson_create p v st = None"
  by (auto simp: writeJson_create_def dest: readLease_doc)

lemma foreign_attempt:
  assumes "undisturbed w" "readLease p st = Inr d" "truthy d" "\<not> strict_eq (getp d ''owner'') (wl_owner q)"
    "\<not> truthy (wl_forceTakeover q) \<or>
       (\<forall>n. \<not> num_gt (leaseAgeSeconds_wl d (clockMs (proc_at w n))) (Fin (wl_staleSeconds q)))"
  shows "acquire_attempt w q opts (buildBaseResult c a scope p owner) p k st = Retry st \<or>
    (\<exists>r. acquire_attempt w q opts (buildBaseResult c a scope p owner) p k st = Done st (Inr r) \<and>
       getp r ''status'' \<in> {JStr ''busy'', JStr ''stale''} \<and> getp r ''holder'' = getp d ''owner'' \<and>
       getp r ''action'' = JStr a)"
  using assms create_blocked [OF assms(2,3)]
  unfolding acquire_attempt_def acquire_found_def undisturbed_def Let_def by auto

lemma foreign_loop:
  assumes "undisturbed w" "readLease p st = Inr d" "truthy d" "\<not> strict_eq (getp d ''owner'') (wl_owner q)"
    "\<not> truthy (wl_forceTakeover q) \<or>
       (\<forall>n. \<not> num_gt (leaseAgeSeconds_wl d (clockMs (proc_at w n))) (Fin (wl_staleSeconds q)))"
  shows "\<exists>r. acquire_loop w q opts (buildBaseResult c a scope p owner) p k st = (st, Inr r) \<and>
    getp r ''status'' \<in> {JStr ''busy'', JStr ''stale''} \<and> getp r ''holder'' = getp d ''owner'' \<and>
    getp r ''action'' = JStr a"
proof (induction "nat (\<lceil>wl_maxAttempts q\<rceil> - int k)" arbitrary: k rule: less_induct)
  case less
  from foreign_attempt [OF assms, of opts c a scope owner k] show ?case
  proof
    assume retry: "acquire_attempt w q opts (buildBaseResult c a scope p owner) p k st = Retry st"
    then have "int k < \<lceil>wl_maxAttempts q\<rceil>"
      by (metis acquire_retry_bound less_ceiling_iff of_int_of_nat_eq)
    with retry less [of "Suc k"] show ?thesis
      by (subst acquire_loop.simps) simp
  qed (subst acquire_loop.simps, auto)
qed

text \<open>
  C5: With nobody interfering, an acquire on a lease held by another owner leaves every file as it
  was and exits with code 10 or 11, when takeover is not forced or the lease is not stale at any
  attempt.
\<close>

theorem acquire_respects_holder:
  assumes "undisturbed w" "acquire_path (proc_at w 0) opts = Inr p" "readLease p st = Inr d" "truthy d"
    "\<not> strict_eq (getp d ''owner'') (wl_owner (normalizeAcquireOptions (proc_at w 0) opts))"
    "\<not> truthy (wl_forceTakeover (normalizeAcquireOptions (proc_at w 0) opts)) \<or>
       (\<forall>n. \<not> num_gt (leaseAgeSeconds_wl d (clockMs (proc_at w n)))
              (Fin (wl_staleSeconds (normalizeAcquireOptions (proc_at w 0) opts))))"
  shows "\<exists>r. acquireWriterLease w opts st = (st, Inr r) \<and> getp r ''holder'' = getp d ''owner'' \<and>
    exitCodeForResult r \<in> {10, 11}"
proof -
  obtain r where r: "acquireWriterLease w opts st = (st, Inr r)"
    "getp r ''status'' \<in> {JStr ''busy'', JStr ''stale''}" "getp r ''holder'' = getp d ''owner''"
    "getp r ''action'' = JStr ''acquire''"
    using foreign_loop [OF assms(1,3-6)] assms(2) by (fastforce simp: acquireWriterLease_def Let_def)
  then have "truthy r" by (cases r) auto
  with r have "exitCodeForResult r \<in> {10, 11}"
    by (auto simp: exitCodeForResult_def)
  with r show ?thesis by blast
qed

section \<open>The gap between reading and replacing\<close>

text \<open>The first rename finds its temporary file and succeeds.\<close>

definition renamed_at_once :: "(nat \<Rightarrow> rename_outcome) \<Rightarrow> write_gaps \<Rightarrow> process \<Rightarrow> string \<Rightarrow> bool" where
  "renamed_at_once answer g c p \<longleftrightarrow> answer 0 = Renamed \<and>
     (\<forall>s. before_rename g 0 s (temp_path (pid c) (clockMs c) p) = s (temp_path (pid c) (clockMs c) p))"

lemma writeJson_renamed:
  assumes "renamed_at_once answer g c p" "writes_alone g c p"
  shows "\<exists>st'. writeJson_replace c answer g p v st = (st', Inr ()) \<and> st' p = Some (Doc (json_norm v))"
proof -
  have "snd (writeJson_replace c answer g p v st) = Inr ()"
    using assms(1) unfolding writeJson_replace_def renamed_at_once_def Let_def
    by (subst replaceFileWithRetry.simps) (simp add: rename_answer_def Let_def split_beta)
  then have run: "writeJson_replace c answer g p v st = (fst (writeJson_replace c answer g p v st), Inr ())"
    by (metis prod.collapse)
  from writeJson_success [OF this assms(2)] run show ?thesis by blast
qed

lemma acquire_loop_Done:
  "acquire_attempt w q opts base p k st = Done st' x \<Longrightarrow> acquire_loop w q opts base p k st = (st', x)"
  by (subst acquire_loop.simps) simp

lemma write_and_return_renamed:
  assumes "renamed_at_once (rename_at w k) (gaps_at w k) (proc_at w (2 * k + 1)) p" "respects_write w p"
  shows "\<exists>st'. write_and_return w k p l res st = (st', Inr res)"
  using writeJson_renamed [OF assms(1), of l "others w (3 * k + 2) st"] assms(2)
  by (auto simp: write_and_return_def respects_write_def)

lemma found_stale:
  assumes "\<not> strict_eq (getp d ''owner'') (wl_owner q)" "truthy (wl_forceTakeover q)"
    "num_gt (leaseAgeSeconds_wl d (clockMs (proc_at w (2 * k + 1)))) (Fin (wl_staleSeconds q))"
  shows "\<exists>l res. acquire_found w q base p i k d st =
    case_prod Done (write_and_return w k p l (JObj (base @ (''status'', JStr ''takeover'') # res)) st)"
  unfolding acquire_found_def Let_def using assms
  by (simp del: num_to_string.simps) (intro exI, rule refl)

lemma found_takeover:
  assumes "\<not> strict_eq (getp d ''owner'') (wl_owner q)" "truthy (wl_forceTakeover q)"
    "num_gt (leaseAgeSeconds_wl d (clockMs (proc_at w (2 * k + 1)))) (Fin (wl_staleSeconds q))"
    "renamed_at_once (rename_at w k) (gaps_at w k) (proc_at w (2 * k + 1)) p" "respects_write w p"
  shows "\<exists>st' r. acquire_found w q (buildBaseResult c a scope p (wl_owner q)) p i k d st = Done st' (Inr r) \<and>
    getp r ''status'' = JStr ''takeover'' \<and> getp r ''leasePath'' = JStr p \<and> getp r ''owner'' = wl_owner q"
proof -
  let ?base = "buildBaseResult c a scope p (wl_owner q)"
  obtain l res where found: "acquire_found w q ?base p i k d st =
      case_prod Done (write_and_return w k p l (JObj (?base @ (''status'', JStr ''takeover'') # res)) st)"
    using found_stale [of d q w k, OF assms(1-3)] by blast
  obtain st' where "write_and_return w k p l (JObj (?base @ (''status'', JStr ''takeover'') # res)) st =
      (st', Inr (JObj (?base @ (''status'', JStr ''takeover'') # res)))"
    using write_and_return_renamed [OF assms(4,5)] by blast
  then show ?thesis
    using found by simp
qed

text \<open>
  A forced takeover of a stale lease does not look at the file again before it replaces it:
  whatever another process wrote up to the rename, the takeover succeeds and the file holds its
  lease, so two forced takeovers can both report success.  The rename is accepted at once, and
  nobody touches the temp file before it or the lease between it and the cleanup.
\<close>

theorem takeover_overwrites_gap:
  assumes "acquire_path (proc_at w 0) opts = Inr p" "readLease p st = Inr d" "truthy d"
    "\<not> strict_eq (getp d ''owner'') (wl_owner (normalizeAcquireOptions (proc_at w 0) opts))"
    "truthy (wl_forceTakeover (normalizeAcquireOptions (proc_at w 0) opts))"
    "num_gt (leaseAgeSeconds_wl d (clockMs (proc_at w 1))) (Fin (wl_staleSeconds (normalizeAcquireOptions (proc_at w 0) opts)))"
    "others w 0 = (\<lambda>s. s)" "others w 1 = (\<lambda>s. s)"
    "renamed_at_once (rename_at w 0) (gaps_at w 0) (proc_at w 1) p" "respects_write w p"
  shows "\<exists>st' r. acquireWriterLease w opts st = (st', Inr r) \<and> getp r ''status'' = JStr ''takeover'' \<and>
    holds_lease st' r \<and> getp r ''leasePath'' = JStr p \<and>
    getp r ''owner'' = wl_owner (normalizeAcquireOptions (proc_at w 0) opts)"
proof -
  define q where "q = normalizeAcquireOptions (proc_at w 0) opts"
  obtain st' r where r: "acquire_found w q (buildBaseResult (proc_at w 0) ''acquire'' (wl_scope q) p (wl_owner q)) p
        (acquire_lease_id (proc_at w 0) opts) 0 d st = Done st' (Inr r)"
    "getp r ''status'' = JStr ''takeover''" "getp r ''leasePath'' = JStr p" "getp r ''owner'' = wl_owner q"
    using found_takeover [of d q w 0 p] assms(4-6,9,10) unfolding q_def by fastforce
  then have "acquire_attempt w q opts (buildBaseResult (proc_at w 0) ''acquire'' (wl_scope q) p (wl_owner q)) p 0 st =
      Done st' (Inr r)"
    using assms(2,3,7,8) create_blocked [OF assms(2,3)] by (simp add: acquire_attempt_def Let_def)
  then have "acquireWriterLease w opts st = (st', Inr r)" "holds_lease st' r"
    using assms(1,10) r(2) attempt_success [of w q opts _ _ _ p 0 st st' r]
    by (simp_all add: acquireWriterLease_def q_def [symmetric] Let_def acquire_loop_Done acquired_statuses_def)
       (simp add: q_def)
  with r show ?thesis
    by (auto simp: q_def)
qed

section \<open>Release and heartbeat\<close>

definition release_path :: "process \<Rightarrow> jsval \<Rightarrow> string result" where
  "release_path c opts =
     (let q = normalizeReleaseOptions c opts
      in bindE (as_text (rl_leaseRoot q)) (\<lambda>dir. Inr (leasePathForScope (rl_scope q) dir)))"

lemma release_acquire_path: "release_path c opts = acquire_path c opts"
  by (simp add: release_path_def acquire_path_def normalizeReleaseOptions_def normalizeAcquireOptions_def)

lemma guarded_lease_cases:
  assumes "release_path c opts = Inr p" "readLease p st = Inr d"
  shows "guarded_lease action c opts st act =
    (let q = normalizeReleaseOptions c opts; base = buildBaseResult c action (rl_scope q) p (rl_owner q)
     in if \<not> truthy d then (st, Inr (JObj (base @ [(''status'', JStr ''not-found''), (''lease'', JNull)])))
        else if \<not> lease_matches q d then
          (st, Inr (JObj (base @ [(''status'', JStr ''mismatch''), (''lease'', d),
             (''reason'', JStr ''owner-or-lease-id-mismatch'')])))
        else act p base d)"
  using assms by (auto simp: guarded_lease_def release_path_def Let_def split: sum.splits)

text \<open>
  Release exits 0 and changes nothing when there is no lease, exits 0 and removes the lease
  file when the owner or the lease id matches, and exits 12 and changes nothing otherwise.
\<close>

theorem release_exit_codes:
  assumes "release_path c opts = Inr p" "readLease p st = Inr d"
  shows "\<exists>st' r. releaseWriterLease c interfere opts st = (st', Inr r) \<and>
    (if \<not> truthy d then exitCodeForResult r = 0 \<and> st' = st
     else if lease_matches (normalizeReleaseOptions c opts) d
       then exitCodeForResult r = 0 \<and> st' = remove_file p (interfere st)
     else exitCodeForResult r = 12 \<and> st' = st)"
  unfolding releaseWriterLease_def guarded_lease_cases [OF assms]
  by (auto simp: exitCodeForResult_def Let_def)

lemma heartbeat_exit_codes:
  assumes "release_path c opts = Inr p" "readLease p st = Inr d" "renamed_at_once answer g c p" "writes_alone g c p"
  shows "\<exists>st' r. heartbeatWriterLease c interfere answer g opts st = (st', Inr r) \<and>
    (if \<not> truthy d then exitCodeForResult r = 13 \<and> st' = st
     else if lease_matches (normalizeReleaseOptions c opts) d
       then exitCodeForResult r = 0 \<and>
         st' p = Some (Doc (json_norm (with_fields d [(''heartbeatAt'', JStr (iso_string (clockMs c)))])))
     else exitCodeForResult r = 12 \<and> st' = st)"
proof -
  define t where "t = with_fields d [(''heartbeatAt'', JStr (iso_string (clockMs c)))]"
  obtain st' where "writeJson_replace c answer g p t (interfere st) = (st', Inr ())" "st' p = Some (Doc (json_norm t))"
    using writeJson_renamed [OF assms(3,4)] by blast
  then show ?thesis
    unfolding heartbeatWriterLease_def guarded_lease_cases [OF assms(1,2)] t_def
    by (auto simp: exitCodeForResult_def Let_def)
qed

text \<open>
  After a heartbeat of a matching lease at time t0, the lease read back from disk is exactly
  as old at any later time as the time since t0.
\<close>

theorem heartbeat_restarts_age:
  assumes "release_path c opts = Inr p" "readLease p st = Inr d" "truthy d" "renamed_at_once answer g c p"
    "writes_alone g c p" "lease_matches (normalizeReleaseOptions c opts) d" "iso_range (clockMs c)"
  shows "\<exists>d'. readLease p (fst (heartbeatWriterLease c interfere answer g opts st)) = Inr d' \<and>
    leaseAgeSeconds_wl d' t = Fin (max 0 (of_int (t - clockMs c) / 1000))"
proof -
  let ?d = "json_norm (with_fields d [(''heartbeatAt'', JStr (iso_string (clockMs c)))])"
  have "readLease p (fst (heartbeatWriterLease c interfere answer g opts st)) = Inr ?d"
    using heartbeat_exit_codes [of c opts p st d answer g interfere, OF assms(1,2,4,5)] assms(3,6) by (auto simp: readLease_def)
  moreover have "getp ?d ''heartbeatAt'' = JStr (iso_string (clockMs c))"
    by (simp add: getp_stored_new del: json_norm.simps(7))
  then have "leaseAgeSeconds_wl ?d t = Fin (max 0 (of_int (t - clockMs c) / 1000))"
    using assms(7) by (simp add: leaseAgeSeconds_wl_def Let_def)
  ultimately show ?thesis by blast
qed

text \<open>What the option defaults are computed from: the clock and the process id are not among it.\<close>

definition same_setting :: "process \<Rightarrow> process \<Rightarrow> bool" where
  "same_setting c c' \<longleftrightarrow> env c' = env c \<and> gitCommonDir c' = gitCommonDir c \<and>
     moduleRepoRoot c' = moduleRepoRoot c \<and> hostName c' = hostName c"

lemma same_setting_defaults:
  assumes "same_setting c c'"
  shows "normalizeReleaseOptions c' opts = normalizeReleaseOptions c opts" "release_path c' opts = release_path c opts"
proof -
  have "resolveDefaultGitCommonDir c' = resolveDefaultGitCommonDir c" "env_value c' = env_value c" "defaultOwner c' = defaultOwner c"
    using assms by (simp_all add: same_setting_def resolveDefaultGitCommonDir_def env_value_def defaultOwner_def Let_def
        fun_eq_iff cong: if_cong option.case_cong)
  then show "normalizeReleaseOptions c' opts = normalizeReleaseOptions c opts"
    by (simp add: normalizeReleaseOptions_def defaultWriterLeaseRoot_def)
  then show "release_path c' opts = release_path c opts"
    by (simp add: release_path_def)
qed

lemma defaultOwner_nonempty: "\<exists>x s. defaultOwner c = x # s"
  by (cases "defaultOwner c") (auto simp: defaultOwner_def Let_def split: if_splits)

lemma owner_text:
  assumes "getp opts ''owner'' \<in> {JUndef, JNull} \<union> range JStr"
  shows "\<exists>x s. wl_owner (normalizeAcquireOptions c opts) = JStr (x # s) \<and>
    rl_owner (normalizeReleaseOptions c opts) = JStr (x # s)"
proof (cases "truthy (getp opts ''owner'')")
  case True
  with assms obtain x s where "getp opts ''owner'' = JStr (x # s)"
    by (auto simp: neq_Nil_conv)
  then show ?thesis
    by (simp add: normalizeAcquireOptions_def normalizeReleaseOptions_def)
next
  case False
  then show ?thesis
    using defaultOwner_nonempty [of c]
    by (simp add: normalizeAcquireOptions_def normalizeReleaseOptions_def js_or_def)
qed

text \<open>
  C31: With nobody interfering between the operations, and an owner that is a text or not given,
  acquiring an absent lease and releasing it with the same options restores the files as they
  were, with the statuses acquired and released. The release may be that of a later process with
  another clock and pid, as long as its environment, host name and git directory are the same: the
  default owner is then the same one too.
\<close>

theorem acquire_release_roundtrip:
  assumes "undisturbed w" "acquire_path (proc_at w 0) opts = Inr p" "st p = None"
    "getp opts ''owner'' \<in> {JUndef, JNull} \<union> range JStr" "same_setting (proc_at w 0) c'"
  shows "\<exists>r r'. snd (acquireWriterLease w opts st) = Inr r \<and> getp r ''status'' = JStr ''acquired'' \<and>
    releaseWriterLease c' (\<lambda>s. s) opts (fst (acquireWriterLease w opts st)) = (st, Inr r') \<and>
    getp r' ''status'' = JStr ''released''"
proof -
  define c q where "c = proc_at w 0" and "q = normalizeAcquireOptions c opts"
  define l where "l = createLeaseRecord c (wl_scope q) (wl_owner q) (acquire_lease_id c opts) JNull []"
  obtain x s where own: "wl_owner q = JStr (x # s)" "rl_owner (normalizeReleaseOptions c' opts) = JStr (x # s)"
    using owner_text [OF assms(4), of c] same_setting_defaults(1) [OF assms(5)] by (auto simp: q_def c_def)
  obtain r where "acquire_attempt w q opts (buildBaseResult c ''acquire'' (wl_scope q) p (wl_owner q)) p 0 st =
      Done (st(p \<mapsto> Doc (json_norm l))) (Inr r)" "getp r ''status'' = JStr ''acquired''"
    using assms(1,3)
    by (simp add: acquire_attempt_def undisturbed_def writeJson_create_def Let_def c_def [symmetric] l_def [symmetric])
  then have acq: "acquireWriterLease w opts st = (st(p \<mapsto> Doc (json_norm l)), Inr r)" "getp r ''status'' = JStr ''acquired''"
    using assms(2) by (simp_all add: acquireWriterLease_def c_def [symmetric] q_def [symmetric] Let_def acquire_loop_Done)
  have "getp (json_norm l) ''owner'' = JStr (x # s)"
    using own(1) by (subst getp_json_norm_defined) (simp_all add: l_def)
  then have matches: "lease_matches (normalizeReleaseOptions c' opts) (json_norm l)"
    using own(2) by (simp add: lease_matches_def strict_eq_def)
  have "truthy (json_norm l)"
    by (simp add: l_def createLeaseRecord_def Let_def)
  moreover have "readLease p (st(p \<mapsto> Doc (json_norm l))) = Inr (json_norm l)"
    by (simp add: readLease_def)
  moreover have "release_path c' opts = Inr p"
    using assms(2) same_setting_defaults(2) [OF assms(5)] by (simp add: release_acquire_path)
  moreover have "remove_file p (st(p \<mapsto> Doc (json_norm l))) = st"
    using assms(3) by (auto simp: remove_file_def)
  ultimately show ?thesis
    using acq matches guarded_lease_cases [of c' opts p "st(p \<mapsto> Doc (json_norm l))" "json_norm l"]
    by (simp add: releaseWriterLease_def Let_def)
qed

section \<open>The command line and the environment\<close>

lemma parse_writer_force:
  assumes "parse_writer_args parsed argv = Inr opts" "''--force-takeover'' \<notin> set argv"
    "is_object parsed \<and> \<not> is_array parsed"
  shows "getp opts ''forceTakeover'' = getp parsed ''forceTakeover''"
  using assms
proof (induction "length argv" arbitrary: parsed argv rule: less_induct)
  case less
  show ?case
  proof (cases argv)
    case (Cons token rest)
    have obj: "is_object (set_field parsed k v) \<and> \<not> is_array (set_field parsed k v)" for k v
      using less(4) by (cases parsed) auto
    have rest: "''--force-takeover'' \<notin> set rest" "''--force-takeover'' \<notin> set (tl rest)" "token \<noteq> ''--force-takeover''"
      using less(3) Cons by (auto dest: list.set_sel(2) [rotated]) (metis list.sel(2) list.set_sel(2))
    have IH: "getp opts ''forceTakeover'' = getp (set_field parsed k v) ''forceTakeover''"
      if "parse_writer_args (set_field parsed k v) r = Inr opts" "r \<in> {rest, tl rest}" for k v r
      using less(1) [of r "set_field parsed k v"] that obj rest Cons by auto
    have keys: "key \<noteq> ''forceTakeover''" if "map_of writer_text_options token = Some key \<or> map_of writer_int_options token = Some key" for key
      using that by (auto simp: writer_text_options_def writer_int_options_def split: if_splits)
    have keep: "getp (set_field parsed k v) ''forceTakeover'' = getp parsed ''forceTakeover''" if "k \<noteq> ''forceTakeover''" for k v
      using that less(4) by simp
    consider (textual) key where "map_of writer_text_options token = Some key"
      | (num) key where "map_of writer_text_options token = None" "map_of writer_int_options token = Some key"
      | (flag) "map_of writer_text_options token = None" "map_of writer_int_options token = None"
      by (cases "map_of writer_text_options token"; cases "map_of writer_int_options token") auto
    then show ?thesis
    proof cases
      case (textual key)
      then show ?thesis using less(2) Cons IH keep keys by fastforce
    next
      case (num key)
      then show ?thesis using less(2) Cons IH keep keys by fastforce
    next
      case flag
      with less(2) Cons rest(3) obtain k v r where "parse_writer_args (set_field parsed k v) r = Inr opts"
          "r \<in> {rest, tl rest}" "k \<in> {''scope'', ''quiet'', ''help''}"
        by (auto split: if_splits)
      then show ?thesis using IH keep by fastforce
    qed
  qed (use less(2) in simp)
qed

text \<open>
  A command line without --force-takeover never forces a takeover, whatever
  AGENT_WRITER_LEASE_FORCE_TAKEOVER says.
\<close>

theorem cli_ignores_force_environment:
  assumes "parseArgs_writer argv = Inr opts" "''--force-takeover'' \<notin> set argv"
  shows "wl_forceTakeover (normalizeAcquireOptions c opts) = JBool False"
proof -
  have "getp opts ''forceTakeover'' = JBool False"
    using assms parse_writer_force [of _ argv opts] by (fastforce simp: parseArgs_writer_def)
  then show ?thesis
    by (simp add: normalizeAcquireOptions_def)
qed

section \<open>A concrete workspace\<close>

definition demo_clock :: "int \<Rightarrow> process" where
  "demo_clock t = \<lparr>env = (\<lambda>k. if k = ''AGENT_WRITER_LEASE_FORCE_TAKEOVER'' then Some ''1'' else None),
     gitCommonDir = Some ''/g'', moduleRepoRoot = ''/r'', workingDir = ''/r'', pid = 7, clockMs = t,
     rand = ''ab'', hostName = ''h''\<rparr>"

definition quiet_gaps :: write_gaps where
  "quiet_gaps = \<lparr>before_rename = (\<lambda>j s. s), before_rm = (\<lambda>j s. s), before_cleanup = (\<lambda>s. s)\<rparr>"

lemma quiet_gaps [simp]: "writes_alone quiet_gaps c p" "renamed_at_once answer quiet_gaps c p \<longleftrightarrow> answer 0 = Renamed"
  by (simp_all add: writes_alone_def private_temp_def renamed_at_once_def quiet_gaps_def)

definition demo_world :: "int \<Rightarrow> (store \<Rightarrow> store) \<Rightarrow> lease_world" where
  "demo_world t gap = \<lparr>proc_at = (\<lambda>k. demo_clock t), others = (\<lambda>k. if k = 2 then gap else (\<lambda>s. s)),
     gaps_at = (\<lambda>k. quiet_gaps), rename_at = (\<lambda>k j. Renamed)\<rparr>"

definition demo_lease_opts :: "bool \<Rightarrow> jsval" where
  "demo_lease_opts force = JObj [(''owner'', JStr ''a''), (''leaseRoot'', JStr ''/l''), (''forceTakeover'', JBool force)]"

definition demo_lease_path :: string where
  "demo_lease_path = ''/l/workspace.json''"

definition demo_held :: jsval where
  "demo_held = JObj [(''owner'', JStr ''b''), (''leaseId'', JStr ''L''), (''heartbeatAt'', JStr (iso_string 0))]"

lemma demo_lease_path [simp]: "acquire_path (demo_clock t) (demo_lease_opts f) = Inr demo_lease_path"
proof -
  have "leasePathForScope (JStr ''workspace'') ''/l'' = demo_lease_path"
    by code_simp
  then show ?thesis
    by (simp add: acquire_path_def normalizeAcquireOptions_def demo_lease_opts_def)
qed

lemma demo_world_simps [simp]:
  "proc_at (demo_world t gap) k = demo_clock t" "others (demo_world t gap) 2 = gap"
  "k \<noteq> 2 \<Longrightarrow> others (demo_world t gap) k = (\<lambda>s. s)" "rename_at (demo_world t gap) k j = Renamed"
  "gaps_at (demo_world t gap) k = quiet_gaps" "respects_write (demo_world t gap) p"
  "clockMs (demo_clock t) = t" "undisturbed (demo_world t (\<lambda>s. s))"
  by (simp_all add: demo_world_def demo_clock_def undisturbed_def respects_write_def fun_eq_iff)

lemma demo_normal [simp]:
  "wl_owner (normalizeAcquireOptions (demo_clock t) (demo_lease_opts f)) = JStr ''a''"
  "wl_forceTakeover (normalizeAcquireOptions (demo_clock t) (demo_lease_opts f)) = JBool f"
  "wl_staleSeconds (normalizeAcquireOptions (demo_clock t) (demo_lease_opts f)) = 900"
  by (simp_all add: normalizeAcquireOptions_def demo_lease_opts_def envInt_def demo_clock_def)

lemma demo_held_simps [simp]:
  "getp demo_held ''owner'' = JStr ''b''" "truthy demo_held" "readLease p [p \<mapsto> Doc demo_held] = Inr demo_held"
  "leaseAgeSeconds_wl demo_held t = Fin (max 0 (of_int t / 1000))"
  by (simp_all add: demo_held_def readLease_def leaseAgeSeconds_wl_def iso_range_def Let_def)

lemma acquire_respects_holder_witness:
  "\<exists>r. acquireWriterLease (demo_world 1000 (\<lambda>s. s)) (demo_lease_opts True) [demo_lease_path \<mapsto> Doc demo_held] =
       ([demo_lease_path \<mapsto> Doc demo_held], Inr r) \<and> getp r ''holder'' = JStr ''b'' \<and> exitCodeForResult r \<in> {10, 11}"
  using acquire_respects_holder [of "demo_world 1000 (\<lambda>s. s)" "demo_lease_opts True" demo_lease_path
      "[demo_lease_path \<mapsto> Doc demo_held]" demo_held]
  by (simp add: strict_eq_def)

lemma cli_ignores_force_environment_witness:
  "envBool (demo_clock 0) ''AGENT_WRITER_LEASE_FORCE_TAKEOVER'' False \<and>
   (\<exists>opts. parseArgs_writer [''--action'', ''acquire''] = Inr opts \<and>
     wl_forceTakeover (normalizeAcquireOptions (demo_clock 0) opts) = JBool False)"
proof -
  have "envBool (demo_clock 0) ''AGENT_WRITER_LEASE_FORCE_TAKEOVER'' False"
    by (simp add: envBool_def demo_clock_def)
  moreover obtain opts where "parseArgs_writer [''--action'', ''acquire''] = Inr opts"
    by (simp add: parseArgs_writer_def writer_text_options_def)
  ultimately show ?thesis
    using cli_ignores_force_environment [of "[''--action'', ''acquire'']"] by auto
qed

text \<open>While \<open>a\<close> is about to replace the stale lease of \<open>b\<close>, the process \<open>x\<close> takes it over.\<close>

lemma takeover_overwrites_gap_witness:
  "\<exists>st' r. acquireWriterLease (demo_world 2000000 (\<lambda>s. s(demo_lease_path \<mapsto> Doc (JObj [(''owner'', JStr ''x'')]))))
       (demo_lease_opts True) [demo_lease_path \<mapsto> Doc demo_held] = (st', Inr r) \<and>
     getp r ''status'' = JStr ''takeover'' \<and> holds_lease st' r \<and> getp r ''owner'' = JStr ''a''"
  using takeover_overwrites_gap [of "demo_world 2000000 (\<lambda>s. s(demo_lease_path \<mapsto> Doc (JObj [(''owner'', JStr ''x'')])))"
      "demo_lease_opts True" demo_lease_path "[demo_lease_path \<mapsto> Doc demo_held]" demo_held]
  by (auto simp: strict_eq_def)

lemma acquire_success_holds_witness:
  "\<exists>st' r. acquireWriterLease (demo_world 0 (\<lambda>s. s)) (demo_lease_opts False) Map.empty = (st', Inr r) \<and> holds_lease st' r"
proof -
  let ?acq = "acquireWriterLease (demo_world 0 (\<lambda>s. s)) (demo_lease_opts False) Map.empty"
  obtain r where "snd ?acq = Inr r" "getp r ''status'' = JStr ''acquired''"
    by (simp add: acquireWriterLease_def acquire_loop_Done acquire_attempt_def writeJson_create_def Let_def)
  then show ?thesis
    using acquire_success_holds [of "demo_world 0 (\<lambda>s. s)" "demo_lease_opts False" Map.empty "fst ?acq" r demo_lease_path]
    by (simp add: acquired_statuses_def) (metis prod.collapse)
qed

lemma acquire_attempts_bounded_witness:
  "\<exists>r n. snd (acquireWriterLease (demo_world 0 (\<lambda>s. s)) (demo_lease_opts False) Map.empty) = Inr r \<and>
     getp r ''attempt'' = int_field n \<and> n = 0"
proof -
  let ?acq = "acquireWriterLease (demo_world 0 (\<lambda>s. s)) (demo_lease_opts False) Map.empty"
  obtain r where r: "snd ?acq = Inr r"
    by (simp add: acquireWriterLease_def acquire_loop_Done acquire_attempt_def writeJson_create_def Let_def)
  then have "?acq = (fst ?acq, Inr r)" by (metis prod.collapse)
  moreover have "wl_maxAttempts (normalizeAcquireOptions (demo_clock 0) (demo_lease_opts False)) = 0"
    by (simp add: normalizeAcquireOptions_def demo_lease_opts_def envInt_def demo_clock_def)
  ultimately show ?thesis
    using acquire_attempts_bounded [of "demo_world 0 (\<lambda>s. s)" "demo_lease_opts False" Map.empty "fst ?acq" r] r
    by auto
qed

text \<open>No owner is given: both commands take the default owner of the environment.\<close>

definition demo_default_opts :: jsval where
  "demo_default_opts = JObj [(''leaseRoot'', JStr ''/l'')]"

lemma acquire_release_roundtrip_witness:
  "\<exists>r'. releaseWriterLease (demo_clock 60000) (\<lambda>s. s) demo_default_opts
      (fst (acquireWriterLease (demo_world 0 (\<lambda>s. s)) demo_default_opts Map.empty)) = (Map.empty, Inr r') \<and>
     getp r' ''status'' = JStr ''released''"
proof -
  have "leasePathForScope (JStr ''workspace'') ''/l'' = demo_lease_path"
    by code_simp
  then have path: "acquire_path (proc_at (demo_world 0 (\<lambda>s. s)) 0) demo_default_opts = Inr demo_lease_path"
    by (simp add: acquire_path_def normalizeAcquireOptions_def demo_default_opts_def)
  have "same_setting (proc_at (demo_world 0 (\<lambda>s. s)) 0) (demo_clock 60000)"
    by (simp add: same_setting_def demo_clock_def)
  then show ?thesis
    using acquire_release_roundtrip [OF _ path, of Map.empty] by (auto simp: demo_default_opts_def)
qed

lemma demo_release_path [simp]: "release_path (demo_clock t) (demo_lease_opts f) = Inr demo_lease_path"
  by (simp add: release_acquire_path)

lemma demo_release_owner [simp]:
  "rl_owner (normalizeReleaseOptions (demo_clock t) (demo_lease_opts f)) = JStr ''a''"
  "rl_leaseId (normalizeReleaseOptions (demo_clock t) (demo_lease_opts f)) = JStr []"
  by (simp_all add: normalizeReleaseOptions_def demo_lease_opts_def env_value_def demo_clock_def)

lemma release_exit_codes_witness:
  "\<exists>st' r. releaseWriterLease (demo_clock 0) (\<lambda>s. s) (demo_lease_opts False) [demo_lease_path \<mapsto> Doc demo_held] = (st', Inr r) \<and>
     exitCodeForResult r = 12 \<and> st' = [demo_lease_path \<mapsto> Doc demo_held]"
proof -
  have "\<not> lease_matches (normalizeReleaseOptions (demo_clock 0) (demo_lease_opts False)) demo_held"
    by (simp add: lease_matches_def strict_eq_def)
  then show ?thesis
    using release_exit_codes [of "demo_clock 0" "demo_lease_opts False" demo_lease_path
      "[demo_lease_path \<mapsto> Doc demo_held]" demo_held "\<lambda>s. s"] by auto
qed

lemma heartbeat_restarts_age_witness:
  "\<exists>d'. readLease demo_lease_path (fst (heartbeatWriterLease (demo_clock 5000) (\<lambda>s. s) (\<lambda>j. Renamed) quiet_gaps
      (demo_lease_opts False) [demo_lease_path \<mapsto> Doc (JObj [(''owner'', JStr ''a'')])])) = Inr d' \<and>
     leaseAgeSeconds_wl d' 7000 = Fin 2"
proof -
  have "lease_matches (normalizeReleaseOptions (demo_clock 5000) (demo_lease_opts False)) (JObj [(''owner'', JStr ''a'')])"
    by (simp add: lease_matches_def strict_eq_def)
  then show ?thesis
    using heartbeat_restarts_age [of "demo_clock 5000" "demo_lease_opts False" demo_lease_path
      "[demo_lease_path \<mapsto> Doc (JObj [(''owner'', JStr ''a'')])]" "JObj [(''owner'', JStr ''a'')]" "\<lambda>j. Renamed" quiet_gaps "\<lambda>s. s" 7000]
    by (simp add: readLease_def iso_range_def)
qed

text \<open>The last rename is refused with EBUSY, the ones before with EPERM.\<close>

lemma exhausted_replace_drops_lease_witness:
  "snd (writeJson_replace (demo_clock 0) (\<lambda>j. Refused (if j = 5 then ''EBUSY'' else ''EPERM'')) quiet_gaps demo_lease_path
     demo_held [demo_lease_path \<mapsto> Doc demo_held]) = Inl (IoError ''EBUSY'') \<and>
   fst (writeJson_replace (demo_clock 0) (\<lambda>j. Refused (if j = 5 then ''EBUSY'' else ''EPERM'')) quiet_gaps demo_lease_path
     demo_held [demo_lease_path \<mapsto> Doc demo_held]) demo_lease_path = None"
  by (rule exhausted_replace_drops_lease)
     (auto simp: isRetryableLeaseReplaceError_def DEFAULT_RENAME_RETRY_ATTEMPTS_def quiet_gaps_def)

end
