(* ===== verification/DockerLane.thy ===== *)
theory DockerLane
  imports ExecutionCell WriterLease
begin

text \<open>
  The docker-lane handshake of \<^verbatim>\<open>tools/priority/docker-lane-handshake.mjs\<close>: a stricter protocol over
  the same kind of document.  Only the agent that requested a lane may grant, commit, renew or
  release it, every transition asks for one state, and a lane that is not released cannot be
  requested again.  The module repeats the text, capability, host and operator helpers of the
  execution-cell lease word for word; its copies are named with the suffix \<open>_dl\<close>.
\<close>

section \<open>Defaults\<close>

definition DOCKER_LANE_HANDSHAKE_SCHEMA :: string where
  "DOCKER_LANE_HANDSHAKE_SCHEMA = ''priority/docker-lane-handshake@v1''"

definition DOCKER_LANE_HANDSHAKE_REPORT_SCHEMA :: string where
  "DOCKER_LANE_HANDSHAKE_REPORT_SCHEMA = ''priority/docker-lane-handshake-report@v1''"

definition DEFAULT_OUTPUT_PATH_dl :: string where
  "DEFAULT_OUTPUT_PATH_dl = path_join [''tests'', ''results'', ''_agent'', ''runtime'', ''docker-lane-handshake.json'']"

definition DEFAULT_HOST_PLANE_REPORT_PATH_dl :: string where
  "DEFAULT_HOST_PLANE_REPORT_PATH_dl =
     path_join [''tests'', ''results'', ''_agent'', ''host-planes'', ''labview-2026-host-plane-report.json'']"

definition DEFAULT_OPERATOR_COST_PROFILE_PATH_dl :: string where
  "DEFAULT_OPERATOR_COST_PROFILE_PATH_dl = path_join [''tools'', ''policy'', ''operator-cost-profile.json'']"

definition DEFAULT_TTL_SECONDS_dl :: int where
  "DEFAULT_TTL_SECONDS_dl = 1800"

definition PREMIUM_RATE_MULTIPLIER_dl :: jsnum where
  "PREMIUM_RATE_MULTIPLIER_dl = Fin (3 / 2)"

definition ORDINARY_RATE_MULTIPLIER_dl :: jsnum where
  "ORDINARY_RATE_MULTIPLIER_dl = Fin 1"

definition normalizeAgentClass_dl :: "jsval \<Rightarrow> string" where
  "normalizeAgentClass_dl v =
     (let n = to_lower (normalizeText v)
      in if n \<in> set [''sagan'', ''subagent'', ''other''] then n else ''subagent'')"

definition uniqueId_dl :: "string \<Rightarrow> jsnum \<Rightarrow> string \<Rightarrow> string" where
  "uniqueId_dl prefix now rnd = prefix @ ''-'' @ num_to_string now @ ''-'' @ rnd"

definition sanitizeLaneId :: "jsval \<Rightarrow> string" where
  "sanitizeLaneId laneId = replace_runs safe_name_char ''__'' False (normalizeText laneId)"

definition resolveDefaultHandshakeRoot :: "process \<Rightarrow> jsval \<Rightarrow> jsval result" where
  "resolveDefaultHandshakeRoot c repoRoot =
     (case gitCommonDir c of
        Some d \<Rightarrow> Inr (JStr (path_join [d, ''docker-lane-handshakes'']))
      | None \<Rightarrow>
          bindE (as_text (js_or repoRoot (JStr (moduleRepoRoot c))))
            (\<lambda>r. Inr (JStr (path_join [r, ''.git'', ''docker-lane-handshakes'']))))"

definition defaultHandshakeRoot :: "process \<Rightarrow> jsval \<Rightarrow> jsval \<Rightarrow> jsval result" where
  "defaultHandshakeRoot c repoRoot handshakeRoot =
     (let given = js_or handshakeRoot (env_value c ''DOCKER_LANE_HANDSHAKE_ROOT'')
      in if truthy given then Inr given else resolveDefaultHandshakeRoot c repoRoot)"

definition handshakePathForLane :: "jsval \<Rightarrow> string \<Rightarrow> string" where
  "handshakePathForLane laneId handshakeRoot = path_join [handshakeRoot, sanitizeLaneId laneId @ ''.json'']"

definition write_json_dl :: "process \<Rightarrow> string \<Rightarrow> jsval \<Rightarrow> store \<Rightarrow> store" where
  "write_json_dl c p v st = atomic_replace (temp_path (pid c) (clockMs c) p) p v st"

definition normalizeCapabilities_dl :: "jsval \<Rightarrow> string list result" where
  "normalizeCapabilities_dl v = bindE (iterable v) (\<lambda>xs. Inr (normalizeCapabilityList xs))"

definition isPremiumDualLaneRequest_dl :: "string list \<Rightarrow> bool" where
  "isPremiumDualLaneRequest_dl caps =
     (let s = set (normalizeCapabilityList (map JStr caps))
      in DOCKER_LANE_CAPABILITY \<in> s \<and> NATIVE_LV32_CAPABILITY \<in> s)"

definition resolveHeartbeatTimestamp_dl :: "jsval \<Rightarrow> jsval" where
  "resolveHeartbeatTimestamp_dl handshake =
     js_or (getp handshake ''heartbeatAt'')
      (js_or (getp2 handshake ''commit'' ''committedAt'')
        (js_or (getp2 handshake ''grant'' ''grantedAt'')
          (js_or (getp2 handshake ''request'' ''requestedAt'') JNull)))"

definition handshakeAgeSeconds :: "jsval \<Rightarrow> jsnum \<Rightarrow> jsnum" where
  "handshakeAgeSeconds handshake nowMs =
     (let timestamp = resolveHeartbeatTimestamp_dl handshake
      in if \<not> truthy timestamp then PosInf
         else (let parsed = date_parse (js_string timestamp)
               in if \<not> num_finite parsed then PosInf
                  else num_max (Fin 0) (num_div (num_sub nowMs parsed) (Fin 1000))))"

definition resolveTtlSeconds_dl :: "jsval \<Rightarrow> jsnum" where
  "resolveTtlSeconds_dl handshake =
     (if is_integer_number (getp2 handshake ''grant'' ''ttlSeconds'')
      then num_of_value (getp2 handshake ''grant'' ''ttlSeconds'') else num_of_int DEFAULT_TTL_SECONDS_dl)"

definition isHandshakeStale :: "jsval \<Rightarrow> jsnum \<Rightarrow> bool" where
  "isHandshakeStale handshake nowMs =
     (truthy handshake \<and> getp handshake ''state'' \<noteq> JStr ''released'' \<and>
      num_gt (handshakeAgeSeconds handshake nowMs) (resolveTtlSeconds_dl handshake))"

text \<open>The two modules measure the age of a document alike.\<close>

lemma handshake_stale_eq: "isHandshakeStale d t = isExecutionCellLeaseStale d t"
  by (simp add: isHandshakeStale_def isExecutionCellLeaseStale_def handshakeAgeSeconds_def leaseAgeSeconds_def
      resolveHeartbeatTimestamp_dl_def resolveHeartbeatTimestamp_def resolveTtlSeconds_dl_def resolveTtlSeconds_def
      DEFAULT_TTL_SECONDS_dl_def DEFAULT_TTL_SECONDS_def)

lemma normalizeCapabilities_dl_eq: "normalizeCapabilities_dl v = normalizeCapabilities v"
  by (simp add: normalizeCapabilities_dl_def normalizeCapabilities_def)

section \<open>Decisions and reports\<close>

definition buildGrantDecision_dl :: "jsval \<Rightarrow> operator_profile \<Rightarrow> grant_decision result" where
  "buildGrantDecision_dl handshake profile =
     bindE (normalizeCapabilities_dl (getp2 handshake ''request'' ''capabilities'')) (\<lambda>requestedCapabilities.
       let request = getp handshake ''request'';
           premium = (getp request ''premiumDualLaneRequested'' = JBool True);
           multiplier = (if premium then PREMIUM_RATE_MULTIPLIER_dl else ORDINARY_RATE_MULTIPLIER_dl)
       in Inr \<lparr>gd_reasons =
                 reason_if (DOCKER_LANE_CAPABILITY \<notin> set requestedCapabilities) ''docker-lane-capability-required'' @
                 reason_if (premium \<and> getp request ''agentClass'' \<noteq> JStr ''sagan'') ''premium-sagan-only'' @
                 reason_if (premium \<and> \<not> truthy (toOptionalText (getp request ''operatorAuthorizationRef'')))
                   ''operator-authorization-required'' @
                 reason_if (\<not> is_finite_number (laborRateUsdPerHour profile)) ''operator-cost-rate-unavailable'',
               gd_premium = premium,
               gd_capabilities = requestedCapabilities,
               gd_multiplier = multiplier,
               gd_rate = billable_rate (laborRateUsdPerHour profile) multiplier\<rparr>)"

definition policyDecision_dl :: "grant_decision \<Rightarrow> string" where
  "policyDecision_dl d = (if gd_premium d then ''sagan-premium-dual-lane'' else ''ordinary-docker-lane'')"

definition lane_summary :: "jsval \<Rightarrow> jsnum \<Rightarrow> jsval" where
  "lane_summary handshake nowMs =
     (let request = getp handshake ''request''; grant = getp handshake ''grant''; commit = getp handshake ''commit'';
          host = getp handshake ''host''
      in JObj
        [(''handshakeState'', js_coalesce (getp handshake ''state'') JNull),
         (''leaseId'', toOptionalText (getp grant ''leaseId'')),
         (''holder'', toOptionalText (getp request ''agentId'')),
         (''premiumSaganMode'', JBool (getp grant ''premiumSaganMode'' = JBool True \<or>
                                       getp request ''premiumDualLaneRequested'' = JBool True)),
         (''billableRateMultiplier'', finite_or_null (getp grant ''billableRateMultiplier'')),
         (''billableRateUsdPerHour'', finite_or_null (getp grant ''billableRateUsdPerHour'')),
         (''operatorAuthorizationRef'', toOptionalText (getp request ''operatorAuthorizationRef'')),
         (''isolatedLaneGroupId'', toOptionalText (getp host ''isolatedLaneGroupId'')),
         (''fingerprintSha256'', toOptionalText (getp host ''fingerprintSha256'')),
         (''linkedExecutionCellId'', toOptionalText (getp commit ''executionCellId'')),
         (''linkedExecutionCellLeaseId'', toOptionalText (getp commit ''executionCellLeaseId'')),
         (''isStale'', JBool (isHandshakeStale handshake nowMs)),
         (''ageSeconds'', age_field (handshakeAgeSeconds handshake nowMs)),
         (''ttlSeconds'', if truthy handshake then JNum (resolveTtlSeconds_dl handshake) else JNull),
         (''denialReasons'', JArr []),
         (''observations'', JArr [])])"

definition buildBaseReport_dl :: "string \<Rightarrow> string \<Rightarrow> string \<Rightarrow> string \<Rightarrow> jsval \<Rightarrow> fields \<Rightarrow> jsval" where
  "buildBaseReport_dl action laneId handshakePath generatedAt handshake extras =
     with_fields (JObj
       [(''schema'', JStr DOCKER_LANE_HANDSHAKE_REPORT_SCHEMA),
        (''generatedAt'', JStr generatedAt),
        (''action'', JStr action),
        (''laneId'', JStr laneId),
        (''handshakePath'', JStr handshakePath),
        (''handshake'', handshake),
        (''summary'', lane_summary handshake (date_parse generatedAt))]) extras"

definition append_summary :: "string \<Rightarrow> string list \<Rightarrow> jsval \<Rightarrow> jsval" where
  "append_summary key items report =
     (let summary = getp report ''summary''
      in with_fields report
           [(''summary'', with_fields summary
              [(key, JArr (array_items (getp summary key) @ map JStr (filter (\<lambda>s. s \<noteq> []) items)))])])"

definition withObservations :: "jsval \<Rightarrow> string list \<Rightarrow> jsval" where
  "withObservations report observations = append_summary ''observations'' observations report"

definition withDenialReasons :: "jsval \<Rightarrow> string list \<Rightarrow> jsval" where
  "withDenialReasons report reasons = append_summary ''denialReasons'' reasons report"

section \<open>Links to an execution cell\<close>

definition isWindowsNativeExecutionCellLink :: "jsval \<Rightarrow> bool" where
  "isWindowsNativeExecutionCellLink linked =
     (let harnessKind = normalizeText (getp linked ''harnessKind'');
          planeBinding = to_lower (normalizeText (getp linked ''planeBinding''))
      in harnessKind = ''teststand-compare-harness'' \<and>
         (planeBinding = [] \<or> planeBinding = ''dual-plane-parity'' \<or> starts_with planeBinding ''native-labview-''))"

definition resolveExecutionCellLinkContext :: "jsval \<Rightarrow> jsval" where
  "resolveExecutionCellLinkContext report =
     (let lease = getp report ''lease''; summary = getp report ''summary''
      in if \<not> truthy report \<or> \<not> typeof_object report then JNull
         else if \<not> truthy lease \<or> \<not> typeof_object lease then JNull
         else JObj
           [(''cellId'', js_or (toOptionalText (getp report ''cellId'')) (toOptionalText (getp lease ''cellId''))),
            (''leaseId'', js_or (toOptionalText (getp summary ''leaseId''))
               (toOptionalText (getp2 lease ''grant'' ''leaseId''))),
            (''holder'', js_or (toOptionalText (getp summary ''holder''))
               (toOptionalText (getp2 lease ''request'' ''agentId''))),
            (''isolatedLaneGroupId'', js_or (toOptionalText (getp summary ''isolatedLaneGroupId''))
               (toOptionalText (getp2 lease ''host'' ''isolatedLaneGroupId''))),
            (''fingerprintSha256'', js_or (toOptionalText (getp summary ''fingerprintSha256''))
               (toOptionalText (getp2 lease ''host'' ''fingerprintSha256''))),
            (''planeBinding'', js_or (toOptionalText (getp summary ''planeBinding''))
               (toOptionalText (getp2 lease ''request'' ''planeBinding''))),
            (''harnessKind'', js_or (toOptionalText (getp summary ''harnessKind''))
               (toOptionalText (getp2 lease ''request'' ''harnessKind'')))])"

definition validateExecutionCellLink :: "jsval \<Rightarrow> jsval \<Rightarrow> string list" where
  "validateExecutionCellLink handshake linked =
     (if \<not> truthy linked then [''execution-cell-report-invalid'']
      else
        (let holder = getp linked ''holder'';
             groupId = getp linked ''isolatedLaneGroupId'';
             sha = getp linked ''fingerprintSha256'';
             ownHolder = toOptionalText (getp2 handshake ''request'' ''agentId'');
             ownGroup = toOptionalText (getp2 handshake ''host'' ''isolatedLaneGroupId'');
             ownSha = toOptionalText (getp2 handshake ''host'' ''fingerprintSha256'')
         in reason_if (\<not> truthy (getp linked ''cellId'')) ''execution-cell-id-missing'' @
            reason_if (\<not> truthy (getp linked ''leaseId'')) ''execution-cell-lease-id-missing'' @
            reason_if (\<not> truthy holder) ''execution-cell-holder-missing'' @
            reason_if (\<not> truthy groupId \<or> \<not> truthy sha) ''execution-cell-host-fingerprint-missing'' @
            reason_if (\<not> isWindowsNativeExecutionCellLink linked) ''execution-cell-not-windows-native-teststand'' @
            reason_if (truthy ownHolder \<and> truthy holder \<and> holder \<noteq> ownHolder) ''execution-cell-owner-mismatch'' @
            reason_if (truthy ownGroup \<and> truthy groupId \<and> groupId \<noteq> ownGroup)
              ''execution-cell-isolated-lane-group-mismatch'' @
            reason_if (truthy ownSha \<and> truthy sha \<and> sha \<noteq> ownSha) ''execution-cell-host-fingerprint-mismatch''))"

section \<open>The actions\<close>

record lane_run =
  dl_action :: string
  dl_laneId :: string
  dl_repoRoot :: jsval
  dl_agentId :: string
  dl_agentClass :: string
  dl_path :: string
  dl_generatedAt :: string
  dl_current :: jsval
  dl_hostContext :: host_context
  dl_profile :: operator_profile

definition read_unless :: "jsval \<Rightarrow> process \<Rightarrow> jsval \<Rightarrow> jsval \<Rightarrow> store \<Rightarrow> jsval result" where
  "read_unless given c base p st =
     (if nullish given then bindE (resolve_under c base p) (\<lambda>q. read_doc q st) else Inr given)"

definition prepare_lane_run :: "process \<Rightarrow> int \<Rightarrow> jsval \<Rightarrow> store \<Rightarrow> lane_run result" where
  "prepare_lane_run c now opts st =
     (let laneId = normalizeText (getp opts ''laneId'');
          repoRoot = js_or (getp opts ''repoRoot'') (JStr (moduleRepoRoot c))
      in bindE (defaultHandshakeRoot c repoRoot (getp opts ''handshakeRoot'')) (\<lambda>rootValue.
         bindE (as_text rootValue) (\<lambda>handshakeRoot.
         bindE (read_doc (handshakePathForLane (JStr laneId) handshakeRoot) st) (\<lambda>current.
         bindE (read_unless (getp opts ''hostPlaneReport'') c repoRoot
           (js_or (getp opts ''hostPlaneReportPath'') (JStr DEFAULT_HOST_PLANE_REPORT_PATH_dl)) st) (\<lambda>hostPlaneReport.
         bindE (read_unless (getp opts ''operatorCostProfile'') c repoRoot
           (js_or (getp opts ''operatorCostProfilePath'') (JStr DEFAULT_OPERATOR_COST_PROFILE_PATH_dl)) st) (\<lambda>costProfile.
           Inr \<lparr>dl_action = to_lower (normalizeText (getp opts ''action'')), dl_laneId = laneId,
                dl_repoRoot = repoRoot,
                dl_agentId = js_string (js_or (toOptionalText (getp opts ''agentId'')) (JStr (defaultOwner c))),
                dl_agentClass = normalizeAgentClass_dl (getp opts ''agentClass''),
                dl_path = handshakePathForLane (JStr laneId) handshakeRoot,
                dl_generatedAt = iso_string now, dl_current = current,
                dl_hostContext = buildHostContext hostPlaneReport,
                dl_profile = resolveOperatorProfile costProfile (getp opts ''operatorId'')\<rparr>))))))"

definition lane_policy :: "operator_profile \<Rightarrow> fields" where
  "lane_policy p =
     [(''policy'', JObj [(''operatorId'', operatorId p), (''currency'', currency p),
        (''laborRateUsdPerHour'', laborRateUsdPerHour p),
        (''premiumSaganRateMultiplier'', JNum PREMIUM_RATE_MULTIPLIER_dl)])]"

definition reportWithHost :: "lane_run \<Rightarrow> jsval" where
  "reportWithHost r =
     withObservations (buildBaseReport_dl (dl_action r) (dl_laneId r) (dl_path r) (dl_generatedAt r) (dl_current r)
       (lane_policy (dl_profile r))) (observations_of (dl_hostContext r))"

text \<open>A report without a write: \<^verbatim>\<open>withDenialReasons({ ...reportWithHost, status }, reasons)\<close>.\<close>

definition deny_lane :: "lane_run \<Rightarrow> string \<Rightarrow> string list \<Rightarrow> jsval" where
  "deny_lane r status reasons =
     withDenialReasons (with_fields (reportWithHost r) [(''status'', JStr status)]) reasons"

definition lane_not_found :: "lane_run \<Rightarrow> jsval" where
  "lane_not_found r = with_fields (reportWithHost r) [(''status'', JStr ''not-found''), (''handshake'', JNull)]"

definition buildResultReport :: "lane_run \<Rightarrow> jsval \<Rightarrow> string \<Rightarrow> jsval" where
  "buildResultReport r handshake status =
     with_fields (withObservations (buildBaseReport_dl (dl_action r) (dl_laneId r) (dl_path r) (dl_generatedAt r) handshake
         (lane_policy (dl_profile r))) (observations_of (dl_hostContext r)))
       [(''status'', JStr status), (''handshake'', handshake)]"

definition write_lane :: "process \<Rightarrow> lane_run \<Rightarrow> jsval \<Rightarrow> string \<Rightarrow> store \<Rightarrow> store \<times> jsval result" where
  "write_lane c r handshake status st =
     (write_json_dl c (dl_path r) handshake st, Inr (buildResultReport r handshake status))"

definition buildRequestRecord_dl :: "process \<Rightarrow> int \<Rightarrow> jsval \<Rightarrow> lane_run \<Rightarrow> string list \<Rightarrow> jsval" where
  "buildRequestRecord_dl c now opts r requestedCapabilities =
     (let generatedAt = JStr (iso_string now)
      in JObj
        [(''schema'', JStr DOCKER_LANE_HANDSHAKE_SCHEMA),
         (''generatedAt'', generatedAt),
         (''laneId'', JStr (dl_laneId r)),
         (''resourceKind'', JStr DOCKER_LANE_CAPABILITY),
         (''state'', JStr ''requested''),
         (''sequence'', JInt 1),
         (''heartbeatAt'', generatedAt),
         (''host'', context_of (dl_hostContext r)),
         (''request'', JObj
           [(''requestId'', js_or (getp opts ''requestId'')
               (JStr (uniqueId_dl ''request'' (date_parse (dl_generatedAt r)) (rand c)))),
            (''requestedAt'', generatedAt),
            (''agentId'', JStr (dl_agentId r)),
            (''agentClass'', JStr (dl_agentClass r)),
            (''capabilities'', jstrs requestedCapabilities),
            (''premiumDualLaneRequested'', JBool (isPremiumDualLaneRequest_dl requestedCapabilities)),
            (''operatorId'', toOptionalText (js_or (getp opts ''operatorId'') (operatorId (dl_profile r)))),
            (''operatorAuthorizationRef'', toOptionalText (getp opts ''operatorAuthorizationRef''))]),
         (''grant'', JNull),
         (''commit'', JNull),
         (''release'', JNull)])"

definition cloneForTransition :: "jsval \<Rightarrow> int \<Rightarrow> fields" where
  "cloneForTransition handshake now =
     (let s = getp handshake ''sequence''
      in [(''generatedAt'', JStr (iso_string now)),
          (''sequence'', if is_integer_number s then JNum (num_add (num_of_value s) (Fin 1)) else JInt 1)])"

definition request_lane :: "process \<Rightarrow> int \<Rightarrow> jsval \<Rightarrow> lane_run \<Rightarrow> store \<Rightarrow> store \<times> jsval result" where
  "request_lane c now opts r st =
     (if truthy (dl_current r) \<and> getp (dl_current r) ''state'' \<noteq> JStr ''released'' then
        (if isHandshakeStale (dl_current r) (date_parse (dl_generatedAt r))
         then (st, Inr (deny_lane r ''stale'' [''stale-handshake-present'']))
         else (st, Inr (deny_lane r ''busy'' [''lane-already-held''])))
      else
        (case normalizeCapabilities_dl (getp opts ''capabilities'') of
           Inl e \<Rightarrow> (st, Inl e)
         | Inr caps \<Rightarrow>
             if caps = [] then (st, Inr (deny_lane r ''denied'' [''capabilities-required'']))
             else write_lane c r (buildRequestRecord_dl c now opts r caps) ''requested'' st))"

definition granted_lane :: "process \<Rightarrow> int \<Rightarrow> jsval \<Rightarrow> lane_run \<Rightarrow> grant_decision \<Rightarrow> jsval" where
  "granted_lane c now opts r d =
     with_fields (dl_current r) (cloneForTransition (dl_current r) now @
       [(''state'', JStr ''granted''),
        (''heartbeatAt'', JStr (dl_generatedAt r)),
        (''host'', js_or (context_of (dl_hostContext r)) (js_or (getp (dl_current r) ''host'') JNull)),
        (''grant'', JObj
          [(''grantedAt'', JStr (dl_generatedAt r)),
           (''grantor'', js_or (toOptionalText (getp opts ''grantor'')) (JStr ''sagan-governor'')),
           (''leaseId'', js_or (getp opts ''leaseId'')
              (JStr (uniqueId_dl ''lease'' (date_parse (dl_generatedAt r)) (rand c)))),
           (''ttlSeconds'', if is_integer_number (getp opts ''ttlSeconds'') then getp opts ''ttlSeconds''
                            else JInt DEFAULT_TTL_SECONDS_dl),
           (''grantedCapabilities'', jstrs (gd_capabilities d)),
           (''billableRateMultiplier'', JNum (gd_multiplier d)),
           (''billableRateUsdPerHour'', gd_rate d),
           (''premiumSaganMode'', JBool (gd_premium d)),
           (''policyDecision'', JStr (policyDecision_dl d)),
           (''operatorAuthorizationRef'',
              toOptionalText (getp2 (dl_current r) ''request'' ''operatorAuthorizationRef''))])])"

definition grant_lane :: "process \<Rightarrow> int \<Rightarrow> jsval \<Rightarrow> lane_run \<Rightarrow> store \<Rightarrow> store \<times> jsval result" where
  "grant_lane c now opts r st =
     (if getp (dl_current r) ''state'' \<noteq> JStr ''requested'' then
        (st, Inr (deny_lane r ''invalid-state'' [''grant-requires-requested-state'']))
      else
        (case buildGrantDecision_dl (dl_current r) (dl_profile r) of
           Inl e \<Rightarrow> (st, Inl e)
         | Inr d \<Rightarrow>
             if \<not> gd_allowed d then (st, Inr (deny_lane r ''denied'' (gd_reasons d)))
             else write_lane c r (granted_lane c now opts r d) ''granted'' st))"

definition lane_lease_matches :: "jsval \<Rightarrow> jsval \<Rightarrow> bool" where
  "lane_lease_matches opts current =
     (let leaseId = toOptionalText (getp opts ''leaseId'')
      in \<not> truthy leaseId \<or> JStr (normalizeText (getp2 current ''grant'' ''leaseId'')) = leaseId)"

definition committed_lane :: "int \<Rightarrow> lane_run \<Rightarrow> jsval \<Rightarrow> jsval" where
  "committed_lane now r linked =
     (let commit = getp (dl_current r) ''commit''
      in with_fields (dl_current r) (cloneForTransition (dl_current r) now @
       [(''state'', JStr ''active''),
        (''heartbeatAt'', JStr (dl_generatedAt r)),
        (''commit'', JObj
          [(''committedAt'', JStr (dl_generatedAt r)),
           (''executionCellId'', js_or (getp linked ''cellId'') (toOptionalText (getp commit ''executionCellId''))),
           (''executionCellLeaseId'',
              js_or (getp linked ''leaseId'') (toOptionalText (getp commit ''executionCellLeaseId'')))])]))"

definition load_cell_link :: "process \<Rightarrow> jsval \<Rightarrow> lane_run \<Rightarrow> store \<Rightarrow> jsval result" where
  "load_cell_link c opts r st =
     bindE (resolve_under c (dl_repoRoot r) (getp opts ''executionCellReportPath'')) (\<lambda>p.
     bindE (read_doc p st) (\<lambda>report. Inr (resolveExecutionCellLinkContext report)))"

definition activate_lane :: "process \<Rightarrow> int \<Rightarrow> lane_run \<Rightarrow> jsval \<Rightarrow> store \<Rightarrow> store \<times> jsval result" where
  "activate_lane c now r linked st =
     (let next_doc = committed_lane now r linked;
          report = buildResultReport r next_doc ''committed''
      in (write_json_dl c (dl_path r) next_doc st,
          Inr (if truthy (getp linked ''cellId'')
               then push_summary ''observations'' [''linked-execution-cell-commit''] report else report)))"

definition commit_lane :: "process \<Rightarrow> int \<Rightarrow> jsval \<Rightarrow> lane_run \<Rightarrow> store \<Rightarrow> store \<times> jsval result" where
  "commit_lane c now opts r st =
     (if getp (dl_current r) ''state'' \<noteq> JStr ''granted'' then
        (st, Inr (deny_lane r ''invalid-state'' [''commit-requires-granted-state'']))
      else if truthy (toOptionalText (getp opts ''executionCellReportPath'')) then
        (case load_cell_link c opts r st of
           Inl e \<Rightarrow> (st, Inl e)
         | Inr linked \<Rightarrow>
             (let linkReasons = validateExecutionCellLink (dl_current r) linked
              in if linkReasons \<noteq> [] then (st, Inr (deny_lane r ''mismatch'' linkReasons))
                 else activate_lane c now r linked st))
      else activate_lane c now r JNull st)"

definition heartbeat_lane :: "process \<Rightarrow> int \<Rightarrow> lane_run \<Rightarrow> store \<Rightarrow> store \<times> jsval result" where
  "heartbeat_lane c now r st =
     (if getp (dl_current r) ''state'' \<noteq> JStr ''active'' then
        (st, Inr (deny_lane r ''invalid-state'' [''heartbeat-requires-active-state'']))
      else write_lane c r (with_fields (dl_current r) (cloneForTransition (dl_current r) now @
             [(''heartbeatAt'', JStr (dl_generatedAt r))])) ''renewed'' st)"

definition release_lane :: "process \<Rightarrow> int \<Rightarrow> jsval \<Rightarrow> lane_run \<Rightarrow> store \<Rightarrow> store \<times> jsval result" where
  "release_lane c now opts r st =
     (if getp (dl_current r) ''state'' \<notin> JStr ` set [''requested'', ''granted'', ''active''] then
        (st, Inr (deny_lane r ''invalid-state'' [''release-requires-live-state'']))
      else
        (case normalizeCapabilities_dl (getp opts ''artifactPaths'') of
           Inl e \<Rightarrow> (st, Inl e)
         | Inr paths \<Rightarrow>
             write_lane c r (with_fields (dl_current r) (cloneForTransition (dl_current r) now @
               [(''state'', JStr ''released''),
                (''heartbeatAt'', JStr (dl_generatedAt r)),
                (''release'', JObj
                  [(''releasedAt'', JStr (dl_generatedAt r)),
                   (''finalStatus'', js_or (toOptionalText (getp opts ''finalStatus'')) (JStr ''succeeded'')),
                   (''artifactPaths'', jstrs paths)])])) ''released'' st))"

definition inspect_lane :: "lane_run \<Rightarrow> jsval" where
  "inspect_lane r =
     (if \<not> truthy (dl_current r) then lane_not_found r
      else with_fields (reportWithHost r)
        [(''status'', JStr (if isHandshakeStale (dl_current r) (date_parse (dl_generatedAt r)) then ''stale'' else ''active''))])"

definition same_agent :: "lane_run \<Rightarrow> bool" where
  "same_agent r \<longleftrightarrow> normalizeText (getp2 (dl_current r) ''request'' ''agentId'') = dl_agentId r"

definition run_lane_action :: "process \<Rightarrow> int \<Rightarrow> jsval \<Rightarrow> lane_run \<Rightarrow> store \<Rightarrow> store \<times> jsval result" where
  "run_lane_action c now opts r st =
     (let a = dl_action r
      in if dl_laneId r = [] then (st, Inr (deny_lane r ''invalid-state'' [''lane-id-required'']))
         else if a \<notin> set [''request'', ''grant'', ''commit'', ''heartbeat'', ''release'', ''inspect''] then
           (st, Inr (deny_lane r ''invalid-state'' [''action-invalid'']))
         else if a = ''inspect'' then (st, Inr (inspect_lane r))
         else if a = ''request'' then request_lane c now opts r st
         else if \<not> truthy (dl_current r) then (st, Inr (lane_not_found r))
         else if \<not> same_agent r then (st, Inr (deny_lane r ''mismatch'' [''request-owner-mismatch'']))
         else if a = ''grant'' then grant_lane c now opts r st
         else if \<not> lane_lease_matches opts (dl_current r) then
           (st, Inr (deny_lane r ''mismatch'' [''lease-id-mismatch'']))
         else if a = ''commit'' then commit_lane c now opts r st
         else if a = ''heartbeat'' then heartbeat_lane c now r st
         else release_lane c now opts r st)"

definition runDockerLaneHandshake :: "process \<Rightarrow> int \<Rightarrow> jsval \<Rightarrow> store \<Rightarrow> store \<times> jsval result" where
  "runDockerLaneHandshake c now opts st =
     (case prepare_lane_run c now opts st of
        Inl e \<Rightarrow> (st, Inl e)
      | Inr r \<Rightarrow> run_lane_action c now opts r st)"

section \<open>The command line\<close>

definition exitCodeForStatus :: "jsval \<Rightarrow> nat" where
  "exitCodeForStatus status =
     (if status \<in> JStr ` set [''requested'', ''granted'', ''committed'', ''released'', ''renewed'', ''active''] then 0
      else if status = JStr ''not-found'' then 0 else 1)"

definition lane_text_options :: "(string \<times> string) list" where
  "lane_text_options =
     [(''--action'', ''action''), (''--lane-id'', ''laneId''), (''--output'', ''outputPath''),
      (''--agent-id'', ''agentId''), (''--host-plane-report'', ''hostPlaneReportPath''),
      (''--operator-cost-profile'', ''operatorCostProfilePath''), (''--operator-id'', ''operatorId''),
      (''--operator-authorization-ref'', ''operatorAuthorizationRef''), (''--grantor'', ''grantor''),
      (''--lease-id'', ''leaseId''), (''--execution-cell-report'', ''executionCellReportPath''),
      (''--final-status'', ''finalStatus''), (''--handshake-root'', ''handshakeRoot'')]"

definition missing_value :: "string list \<Rightarrow> bool" where
  "missing_value rest = (case rest of [] \<Rightarrow> True | v # _ \<Rightarrow> v = [] \<or> starts_with v ''-'')"

definition parse_ttl :: "string \<Rightarrow> jsval result" where
  "parse_ttl v =
     (let ttl = parse_int10 v
      in if \<not> num_integer ttl \<or> num_le ttl (Fin 0)
         then Inl (ErrorMsg (''Invalid --ttl-seconds value '' @ [CHR 0x27] @ v @ [CHR 0x27] @ ''.''))
         else Inr (JNum ttl))"

fun parse_lane_args :: "jsval \<Rightarrow> string list \<Rightarrow> jsval result" where
  "parse_lane_args options [] = Inr options"
| "parse_lane_args options (token # rest) =
     (if token = ''--help'' \<or> token = ''-h'' then parse_lane_args (set_field options ''help'' (JBool True)) rest
      else if token = ''--premium-dual-lane'' then
        parse_lane_args (set_field options ''premiumDualLane'' (JBool True)) rest
      else if token \<in> fst ` set lane_text_options \<union>
          set [''--agent-class'', ''--ttl-seconds'', ''--capability'', ''--artifact-path''] then
        (if missing_value rest then Inl (ErrorMsg (''Missing value for '' @ token @ ''.''))
         else
           (case map_of lane_text_options token of
              Some key \<Rightarrow> parse_lane_args (set_field options key (JStr (hd rest))) (tl rest)
            | None \<Rightarrow>
                if token = ''--agent-class'' then
                  parse_lane_args (set_field options ''agentClass'' (JStr (normalizeAgentClass_dl (JStr (hd rest))))) (tl rest)
                else if token = ''--ttl-seconds'' then
                  bindE (parse_ttl (hd rest)) (\<lambda>ttl. parse_lane_args (set_field options ''ttlSeconds'' ttl) (tl rest))
                else if token = ''--capability'' then
                  parse_lane_args (push_field ''capabilities'' [JStr (hd rest)] options) (tl rest)
                else parse_lane_args (push_field ''artifactPaths'' [JStr (hd rest)] options) (tl rest)))
      else Inl (ErrorMsg (''Unknown option: '' @ token)))"

definition lane_defaults :: "process \<Rightarrow> jsval" where
  "lane_defaults c = JObj
     [(''action'', JStr []), (''laneId'', JStr []), (''outputPath'', JStr DEFAULT_OUTPUT_PATH_dl),
      (''agentId'', JStr (defaultOwner c)), (''agentClass'', JStr ''subagent''),
      (''hostPlaneReportPath'', JStr DEFAULT_HOST_PLANE_REPORT_PATH_dl),
      (''operatorCostProfilePath'', JStr DEFAULT_OPERATOR_COST_PROFILE_PATH_dl), (''operatorId'', JStr []),
      (''operatorAuthorizationRef'', JStr []), (''ttlSeconds'', JInt DEFAULT_TTL_SECONDS_dl),
      (''grantor'', JStr ''sagan-governor''), (''leaseId'', JStr []), (''capabilities'', JArr []),
      (''premiumDualLane'', JBool False), (''finalStatus'', JStr ''succeeded''), (''artifactPaths'', JArr []),
      (''handshakeRoot'', JStr []), (''executionCellReportPath'', JStr []), (''help'', JBool False)]"

definition parseArgs_lane :: "process \<Rightarrow> string list \<Rightarrow> jsval result" where
  "parseArgs_lane c args =
     bindE (parse_lane_args (lane_defaults c) args) (\<lambda>options.
       let pushed = (if truthy (getp options ''premiumDualLane'')
                     then push_field ''capabilities'' [JStr DOCKER_LANE_CAPABILITY, JStr NATIVE_LV32_CAPABILITY] options
                     else options)
       in bindE (normalizeCapabilities_dl (getp pushed ''capabilities'')) (\<lambda>caps.
            Inr (set_field pushed ''capabilities'' (jstrs caps))))"

text \<open>\<^verbatim>\<open>main\<close>: the report is written in place, and the exit code tells a refusal from a success.\<close>

definition lane_main :: "process \<Rightarrow> int \<Rightarrow> string list \<Rightarrow> store \<Rightarrow> store \<times> nat result" where
  "lane_main c now args st =
     (case parseArgs_lane c args of
        Inl e \<Rightarrow> (st, Inl e)
      | Inr options \<Rightarrow>
          if truthy (getp options ''help'') then (st, Inr 0)
          else
            (case runDockerLaneHandshake c now (with_fields options [(''repoRoot'', JStr (workingDir c))]) st of
               (st1, Inl e) \<Rightarrow> (st1, Inl e)
             | (st1, Inr report) \<Rightarrow>
                 (case resolve_under c (JStr (workingDir c)) (getp options ''outputPath'') of
                    Inl e \<Rightarrow> (st1, Inl e)
                  | Inr out \<Rightarrow> (st1(out \<mapsto> Doc (json_norm report)), Inr (exitCodeForStatus (getp report ''status''))))))"

section \<open>What a run writes\<close>

inductive lane_writes :: "process \<Rightarrow> int \<Rightarrow> jsval \<Rightarrow> lane_run \<Rightarrow> jsval \<Rightarrow> bool"
  for c now opts r where
  lane_request: "dl_action r = ''request'' \<Longrightarrow>
     \<not> truthy (dl_current r) \<or> getp (dl_current r) ''state'' = JStr ''released'' \<Longrightarrow>
     caps = normalizeCapabilityList xs \<Longrightarrow>
     lane_writes c now opts r (buildRequestRecord_dl c now opts r caps)"
| lane_grant: "dl_action r = ''grant'' \<Longrightarrow> truthy (dl_current r) \<Longrightarrow> same_agent r \<Longrightarrow>
     getp (dl_current r) ''state'' = JStr ''requested'' \<Longrightarrow>
     buildGrantDecision_dl (dl_current r) (dl_profile r) = Inr d \<Longrightarrow> gd_allowed d \<Longrightarrow>
     lane_writes c now opts r (granted_lane c now opts r d)"
| lane_commit: "dl_action r = ''commit'' \<Longrightarrow> truthy (dl_current r) \<Longrightarrow> same_agent r \<Longrightarrow>
     getp (dl_current r) ''state'' = JStr ''granted'' \<Longrightarrow>
     linked = JNull \<or> validateExecutionCellLink (dl_current r) linked = [] \<Longrightarrow>
     lane_writes c now opts r (committed_lane now r linked)"
| lane_heartbeat: "dl_action r = ''heartbeat'' \<Longrightarrow> truthy (dl_current r) \<Longrightarrow> same_agent r \<Longrightarrow>
     getp (dl_current r) ''state'' = JStr ''active'' \<Longrightarrow>
     lane_writes c now opts r (with_fields (dl_current r) (cloneForTransition (dl_current r) now @
       [(''heartbeatAt'', JStr (dl_generatedAt r))]))"
| lane_release: "dl_action r = ''release'' \<Longrightarrow> truthy (dl_current r) \<Longrightarrow> same_agent r \<Longrightarrow>
     getp (dl_current r) ''state'' \<in> JStr ` set [''requested'', ''granted'', ''active''] \<Longrightarrow>
     lane_writes c now opts r (with_fields (dl_current r) (cloneForTransition (dl_current r) now @
       [(''state'', JStr ''released''), (''heartbeatAt'', JStr (dl_generatedAt r)), (''release'', w)]))"

definition lane_outcome :: "process \<Rightarrow> int \<Rightarrow> jsval \<Rightarrow> lane_run \<Rightarrow> store \<Rightarrow> store \<Rightarrow> bool" where
  "lane_outcome c now opts r st st' \<longleftrightarrow>
     st' = st \<or> (\<exists>l. lane_writes c now opts r l \<and> st' = write_json_dl c (dl_path r) l st)"

lemma lane_kept: "lane_outcome c now opts r st st"
  by (simp add: lane_outcome_def)

lemma lane_wrote: "lane_writes c now opts r l \<Longrightarrow> lane_outcome c now opts r st (write_json_dl c (dl_path r) l st)"
  by (auto simp: lane_outcome_def)

lemma normalizeCapabilities_list: "normalizeCapabilities_dl v = Inr caps \<Longrightarrow> \<exists>xs. caps = normalizeCapabilityList xs"
  by (auto simp: normalizeCapabilities_dl_def)

lemma outcome_request_lane:
  "dl_action r = ''request'' \<Longrightarrow> lane_outcome c now opts r st (fst (request_lane c now opts r st))"
  by (auto simp: request_lane_def write_lane_def lane_kept split: sum.split
      dest!: normalizeCapabilities_list intro!: lane_wrote lane_request)

lemma outcome_grant_lane:
  "dl_action r = ''grant'' \<Longrightarrow> truthy (dl_current r) \<Longrightarrow> same_agent r \<Longrightarrow>
     lane_outcome c now opts r st (fst (grant_lane c now opts r st))"
  by (auto simp: grant_lane_def write_lane_def lane_kept split: sum.split intro!: lane_wrote lane_grant)

lemma outcome_activate_lane:
  assumes "dl_action r = ''commit''" "truthy (dl_current r)" "same_agent r"
    "getp (dl_current r) ''state'' = JStr ''granted''"
    "linked = JNull \<or> validateExecutionCellLink (dl_current r) linked = []"
  shows "lane_outcome c now opts r st (fst (activate_lane c now r linked st))"
  using assms by (auto simp: activate_lane_def Let_def intro!: lane_wrote lane_commit)

lemma outcome_commit_lane:
  "dl_action r = ''commit'' \<Longrightarrow> truthy (dl_current r) \<Longrightarrow> same_agent r \<Longrightarrow>
     lane_outcome c now opts r st (fst (commit_lane c now opts r st))"
  by (auto simp: commit_lane_def lane_kept Let_def split: sum.split intro!: outcome_activate_lane)

lemma outcome_heartbeat_lane:
  "dl_action r = ''heartbeat'' \<Longrightarrow> truthy (dl_current r) \<Longrightarrow> same_agent r \<Longrightarrow>
     lane_outcome c now opts r st (fst (heartbeat_lane c now r st))"
  by (auto simp: heartbeat_lane_def write_lane_def lane_kept intro!: lane_wrote lane_heartbeat)

lemma outcome_release_lane:
  "dl_action r = ''release'' \<Longrightarrow> truthy (dl_current r) \<Longrightarrow> same_agent r \<Longrightarrow>
     lane_outcome c now opts r st (fst (release_lane c now opts r st))"
  unfolding release_lane_def write_lane_def
  by (auto simp: lane_kept split: sum.split intro!: lane_wrote lane_release)

lemma outcome_run_lane: "lane_outcome c now opts r st (fst (run_lane_action c now opts r st))"
  by (simp add: run_lane_action_def Let_def lane_kept outcome_request_lane outcome_grant_lane outcome_commit_lane
      outcome_heartbeat_lane outcome_release_lane)

lemma lane_run_effect:
  obtains (wrote) l where "lane_writes c now opts r l"
      "fst (run_lane_action c now opts r st) (dl_path r) = Some (Doc (json_norm l))"
  | (kept) "fst (run_lane_action c now opts r st) = st"
  using outcome_run_lane [of c now opts r st]
  by (auto simp: lane_outcome_def write_json_dl_def atomic_replace_apply)

lemma runDockerLaneHandshake_prepared:
  "prepare_lane_run c now opts st = Inr r \<Longrightarrow> runDockerLaneHandshake c now opts st = run_lane_action c now opts r st"
  by (simp add: runDockerLaneHandshake_def)

lemma lane_prepared_fields:
  assumes "prepare_lane_run c now opts st = Inr r"
  shows "dl_generatedAt r = iso_string now" "read_doc (dl_path r) st = Inr (dl_current r)"
    "\<exists>h. dl_hostContext r = buildHostContext h"
  using assms by (auto simp: prepare_lane_run_def Let_def)

section \<open>The phases of a lane\<close>

definition lane_phase :: "jsval \<Rightarrow> cell_phase" where
  "lane_phase d =
     (if \<not> truthy d then Absent
      else (let s = getp d ''state''
            in if s = JStr ''requested'' then Requested else if s = JStr ''granted'' then Granted
               else if s = JStr ''active'' then Active else if s = JStr ''released'' then Released else Odd))"

inductive lane_step :: "string \<Rightarrow> cell_phase \<Rightarrow> cell_phase \<Rightarrow> bool" where
  step_request: "p \<in> {Absent, Released} \<Longrightarrow> lane_step ''request'' p Requested"
| step_grant: "lane_step ''grant'' Requested Granted"
| step_commit: "lane_step ''commit'' Granted Active"
| step_heartbeat: "lane_step ''heartbeat'' Active Active"
| step_release: "p \<in> {Requested, Granted, Active} \<Longrightarrow> lane_step ''release'' p Released"
| step_stay: "lane_step a p p"

lemma getp_stored_kept:
  "getp base k \<noteq> JUndef \<Longrightarrow> k \<notin> set (map fst upd) \<Longrightarrow>
   getp (json_norm (with_fields base upd)) k = json_norm (getp base k)"
  by (cases base) (auto simp add: getp_json_norm_defined getp_with_fields simp del: json_norm.simps)

lemma lane_state_written:
  assumes "lane_writes c now opts r l"
  shows "getp (json_norm l) ''state'' =
    (if dl_action r = ''request'' then JStr ''requested'' else if dl_action r = ''grant'' then JStr ''granted''
     else if dl_action r = ''release'' then JStr ''released'' else JStr ''active'')"
  using assms
proof cases
  case (lane_request caps xs)
  then show ?thesis
    by (simp add: buildRequestRecord_dl_def Let_def getp_json_norm_defined del: json_norm.simps(7))
next
  case (lane_grant d)
  then show ?thesis
    by (simp add: granted_lane_def cloneForTransition_def Let_def getp_stored_new del: json_norm.simps(7))
next
  case (lane_commit linked)
  then show ?thesis
    by (simp add: committed_lane_def cloneForTransition_def Let_def getp_stored_new del: json_norm.simps(7))
next
  case lane_heartbeat
  then show ?thesis
    by (simp add: cloneForTransition_def Let_def getp_stored_kept del: json_norm.simps(7))
next
  case (lane_release w)
  then show ?thesis
    by (simp add: cloneForTransition_def Let_def getp_stored_new del: json_norm.simps(7))
qed

lemma getp_truthy: "getp v k \<noteq> JUndef \<Longrightarrow> truthy v"
  by (cases v) auto

lemma lane_written_truthy: "lane_writes c now opts r l \<Longrightarrow> truthy (json_norm l)"
  by (rule getp_truthy [of _ "''state''"]) (simp add: lane_state_written)

lemma lane_writes_step:
  assumes "lane_writes c now opts r l"
  shows "lane_step (dl_action r) (lane_phase (dl_current r)) (lane_phase (json_norm l))"
  using assms lane_state_written [OF assms] lane_written_truthy [OF assms]
  by cases (auto simp: lane_phase_def lane_step.simps)

text \<open>
  C11: Every run of the docker-lane handshake is a step of the strict lane protocol: requested
  only from absent or released, granted only from requested, active only from granted, renewed
  only when active, released only from a live state, and otherwise unchanged.
\<close>

theorem lane_phase_simulation:
  assumes "prepare_lane_run c now opts st = Inr r"
    "read_doc (dl_path r) (fst (runDockerLaneHandshake c now opts st)) = Inr d"
  shows "lane_step (dl_action r) (lane_phase (dl_current r)) (lane_phase d)"
proof (cases rule: lane_run_effect [of c now opts r st])
  case (wrote l)
  with assms have "d = json_norm l"
    by (simp add: runDockerLaneHandshake_prepared read_doc_def)
  with wrote(1) show ?thesis by (simp add: lane_writes_step)
next
  case kept
  with assms lane_prepared_fields(2) [OF assms(1)] have "d = dl_current r"
    by (simp add: runDockerLaneHandshake_prepared)
  then show ?thesis by (simp add: lane_step.step_stay)
qed

text \<open>
  C6: While a handshake is not released, a run by any agent other than the one that requested it
  changes no file, whatever the action.
\<close>

theorem lane_owner_only:
  assumes "prepare_lane_run c now opts st = Inr r" "truthy (dl_current r)"
    "getp (dl_current r) ''state'' \<noteq> JStr ''released''" "\<not> same_agent r"
  shows "fst (runDockerLaneHandshake c now opts st) = st"
proof (cases rule: lane_run_effect [of c now opts r st])
  case (wrote l)
  from wrote(1) assms(2-4) show ?thesis by cases auto
qed (use assms(1) in \<open>simp add: runDockerLaneHandshake_prepared\<close>)

text \<open>
  A request on a handshake that is not released reports stale or busy, according to its age,
  and writes nothing.
\<close>

theorem live_lane_not_requested_again:
  assumes "prepare_lane_run c now opts st = Inr r" "dl_action r = ''request''" "dl_laneId r \<noteq> []"
    "truthy (dl_current r)" "getp (dl_current r) ''state'' \<noteq> JStr ''released''" "iso_range now"
  shows "\<exists>rep. runDockerLaneHandshake c now opts st = (st, Inr rep) \<and>
    getp rep ''status'' = JStr (if isHandshakeStale (dl_current r) (num_of_int now) then ''stale'' else ''busy'')"
proof -
  have "getp (deny_lane r s reasons) ''status'' = JStr s" for s reasons
    by (simp add: deny_lane_def withDenialReasons_def append_summary_def getp_with_fields Let_def)
       (simp add: with_fields_def lookup_override [of "spread _"])
  then show ?thesis
    using assms lane_prepared_fields(1) [OF assms(1)]
    by (simp add: runDockerLaneHandshake_prepared run_lane_action_def request_lane_def)
qed

section \<open>Reachable handshakes\<close>

definition lane_grant_conforms :: "jsval \<Rightarrow> bool" where
  "lane_grant_conforms d \<longleftrightarrow>
     (let grant = getp d ''grant''; request = getp d ''request''
      in (\<exists>caps. getp grant ''grantedCapabilities'' = jstrs caps \<and> DOCKER_LANE_CAPABILITY \<in> set caps) \<and>
         is_integer_number (getp grant ''ttlSeconds'') \<and>
         (if getp request ''premiumDualLaneRequested'' = JBool True
          then getp request ''agentClass'' = JStr ''sagan'' \<and>
               truthy (toOptionalText (getp request ''operatorAuthorizationRef'')) \<and>
               getp grant ''billableRateMultiplier'' = JNum PREMIUM_RATE_MULTIPLIER_dl
          else getp grant ''billableRateMultiplier'' = JNum ORDINARY_RATE_MULTIPLIER_dl))"

definition lane_wf :: "jsval \<Rightarrow> bool" where
  "lane_wf d \<longleftrightarrow>
     truthy d \<and> json_norm d = d \<and>
     (\<exists>s \<in> set lease_states. getp d ''state'' = JStr s) \<and>
     (\<exists>n \<ge> 1. getp d ''sequence'' = JInt n) \<and>
     (\<exists>t. iso_range t \<and> getp d ''heartbeatAt'' = JStr (iso_string t)) \<and>
     getp d ''request'' \<noteq> JUndef \<and>
     (getp d ''state'' \<in> {JStr ''granted'', JStr ''active''} \<longrightarrow> lane_grant_conforms d)"

lemma lane_decision_policy:
  assumes "buildGrantDecision_dl h p = Inr d" "gd_allowed d"
  defines "request \<equiv> getp h ''request''"
  shows "gd_premium d \<longleftrightarrow> getp request ''premiumDualLaneRequested'' = JBool True"
    "gd_premium d \<Longrightarrow> getp request ''agentClass'' = JStr ''sagan''"
    "gd_premium d \<Longrightarrow> truthy (toOptionalText (getp request ''operatorAuthorizationRef''))"
    "gd_multiplier d = (if gd_premium d then PREMIUM_RATE_MULTIPLIER_dl else ORDINARY_RATE_MULTIPLIER_dl)"
    "DOCKER_LANE_CAPABILITY \<in> set (gd_capabilities d)"
  using assms(1,2) unfolding request_def
  by (auto simp: buildGrantDecision_dl_def gd_allowed_def Let_def)

lemma lane_transition_stored:
  assumes "json_norm e = e" "getp e ''sequence'' = JInt n" "getp e ''request'' \<noteq> JUndef"
    "{''sequence'', ''request''} \<inter> fst ` set rest = {}"
  shows "getp (json_norm (with_fields e (cloneForTransition e now @ rest))) ''sequence'' = JInt (n + 1)"
    "getp (json_norm (with_fields e (cloneForTransition e now @ rest))) ''request'' = getp e ''request''"
proof -
  have "lookup (override [] (cloneForTransition e now @ rest)) ''sequence'' = lookup (override [] (cloneForTransition e now)) ''sequence''"
    using assms(4) by (simp add: override_def) (simp add: override_def [symmetric] lookup_override_other)
  then show "getp (json_norm (with_fields e (cloneForTransition e now @ rest))) ''sequence'' = JInt (n + 1)"
    using assms(2) by (simp add: getp_stored_new cloneForTransition_def)
  show "getp (json_norm (with_fields e (cloneForTransition e now @ rest))) ''request'' = getp e ''request''"
    by (rule getp_stored_old) (use assms in \<open>auto simp: cloneForTransition_def\<close>)
qed

lemma lane_wf_transition_doc:
  assumes "lane_wf e" "iso_range now" "s \<in> set lease_states"
    "{''sequence'', ''request''} \<inter> fst ` set rest = {}"
    "getp (json_norm (with_fields e (cloneForTransition e now @ rest))) ''state'' = JStr s"
    "getp (json_norm (with_fields e (cloneForTransition e now @ rest))) ''heartbeatAt'' = JStr (iso_string now)"
    "s \<in> {''granted'', ''active''} \<Longrightarrow> lane_grant_conforms (json_norm (with_fields e (cloneForTransition e now @ rest)))"
  shows "lane_wf (json_norm (with_fields e (cloneForTransition e now @ rest)))"
proof -
  obtain n where n: "getp e ''sequence'' = JInt n" "n \<ge> 1" "json_norm e = e" "getp e ''request'' \<noteq> JUndef"
    using assms(1) by (auto simp: lane_wf_def)
  have "\<exists>m \<ge> 1. JInt (n + 1) = JInt m"
    using n(2) by (intro exI [of _ "n + 1"]) simp
  then show ?thesis
    using lane_transition_stored [of e n rest now, OF n(3,1,4) assms(4)] assms(2,3,5-7) n(4)
    by (auto simp: lane_wf_def)
qed

lemma lane_grant_conforms_cong:
  "getp d ''grant'' = getp e ''grant'' \<Longrightarrow> getp d ''request'' = getp e ''request'' \<Longrightarrow>
     lane_grant_conforms d = lane_grant_conforms e"
  by (simp add: lane_grant_conforms_def)

lemma lane_grant_kept:
  assumes "lane_wf e" "getp e ''state'' \<in> {JStr ''granted'', JStr ''active''}"
    "{''sequence'', ''request'', ''grant''} \<inter> fst ` set rest = {}"
  shows "lane_grant_conforms (json_norm (with_fields e (cloneForTransition e now @ rest)))"
proof -
  obtain n where n: "getp e ''sequence'' = JInt n" "json_norm e = e" "getp e ''request'' \<noteq> JUndef" "lane_grant_conforms e"
    using assms(1,2) by (auto simp: lane_wf_def)
  then have "getp e ''grant'' \<noteq> JUndef"
    by (auto simp: lane_grant_conforms_def Let_def jstrs_def)
  then have "getp (json_norm (with_fields e (cloneForTransition e now @ rest))) ''grant'' = getp e ''grant''"
    by (intro getp_stored_old) (use n assms(3) in \<open>auto simp: cloneForTransition_def\<close>)
  moreover have "getp (json_norm (with_fields e (cloneForTransition e now @ rest))) ''request'' = getp e ''request''"
    by (rule lane_transition_stored(2) [OF n(2,1,3)]) (use assms(3) in auto)
  ultimately show ?thesis
    using n(4) lane_grant_conforms_cong by blast
qed

lemma lane_grant_written:
  assumes "lane_wf (dl_current r)" "buildGrantDecision_dl (dl_current r) p = Inr d" "gd_allowed d"
  shows "lane_grant_conforms (json_norm (granted_lane c now opts r d))"
proof -
  let ?d = "json_norm (granted_lane c now opts r d)"
  have "getp ?d ''request'' = getp (dl_current r) ''request''"
    unfolding granted_lane_def
    by (rule getp_stored_old) (use assms(1) in \<open>auto simp: lane_wf_def cloneForTransition_def\<close>)
  moreover have "getp2 ?d ''grant'' ''grantedCapabilities'' = jstrs (gd_capabilities d)"
    "is_integer_number (getp2 ?d ''grant'' ''ttlSeconds'')"
    "getp2 ?d ''grant'' ''billableRateMultiplier'' = JNum (gd_multiplier d)"
    using lane_decision_policy(4) [OF assms(2,3)]
    by (auto simp: granted_lane_def cloneForTransition_def Let_def getp_stored_new getp_json_norm_defined
        PREMIUM_RATE_MULTIPLIER_dl_def ORDINARY_RATE_MULTIPLIER_dl_def
        dest!: is_integer_number_cases simp del: json_norm.simps(7))
  ultimately show ?thesis
    using lane_decision_policy [OF assms(2,3)] by (auto simp: lane_grant_conforms_def Let_def)
qed

lemma lane_wf_request:
  assumes "dl_hostContext r = buildHostContext h" "dl_generatedAt r = iso_string now" "iso_range now"
  shows "lane_wf (json_norm (buildRequestRecord_dl c now opts r caps))"
proof -
  have "getp (json_norm (buildRequestRecord_dl c now opts r caps)) ''state'' = JStr ''requested''"
    "getp (json_norm (buildRequestRecord_dl c now opts r caps)) ''sequence'' = JInt 1"
    "getp (json_norm (buildRequestRecord_dl c now opts r caps)) ''heartbeatAt'' = JStr (iso_string now)"
    "getp (json_norm (buildRequestRecord_dl c now opts r caps)) ''request'' \<noteq> JUndef"
    by (simp_all add: buildRequestRecord_dl_def Let_def getp_json_norm_defined del: json_norm.simps(7))
  then show ?thesis
    using assms(2,3) getp_truthy [of _ "''state''"] by (auto simp: lane_wf_def lease_states_def)
qed

lemma lane_heartbeat_written:
  assumes "lane_writes c now opts r l" "dl_generatedAt r = iso_string now"
  shows "getp (json_norm l) ''heartbeatAt'' = JStr (iso_string now)"
  using assms
  by cases (simp_all add: buildRequestRecord_dl_def granted_lane_def committed_lane_def cloneForTransition_def Let_def
      getp_stored_new getp_json_norm_defined del: json_norm.simps(7))

lemma lane_wf_written:
  assumes "lane_writes c now opts r l" "dl_hostContext r = buildHostContext h" "dl_generatedAt r = iso_string now"
    "iso_range now" "dl_action r \<noteq> ''request'' \<Longrightarrow> lane_wf (dl_current r)"
  shows "lane_wf (json_norm l)"
proof -
  note facts = lane_state_written [OF assms(1)] lane_heartbeat_written [OF assms(1,3)] assms(4,5)
  note trans = lane_wf_transition_doc [of "dl_current r" now]
  from assms(1) show ?thesis
  proof cases
    case (lane_request caps xs)
    then show ?thesis using lane_wf_request assms(2-4) by simp
  next
    case (lane_grant d)
    have "lane_grant_conforms (json_norm l)"
      unfolding lane_grant(1) by (rule lane_grant_written) (use lane_grant assms(5) in auto)
    with facts lane_grant(2) show ?thesis
      unfolding lane_grant(1) granted_lane_def
      by (intro trans [where s = "''granted''"]) (simp_all add: lease_states_def)
  next
    case (lane_commit linked)
    with facts show ?thesis
      unfolding lane_commit(1) committed_lane_def Let_def
      by (intro trans [where s = "''active''"] lane_grant_kept) (simp_all add: lease_states_def)
  next
    case lane_heartbeat
    with facts show ?thesis
      unfolding lane_heartbeat(1)
      by (intro trans [where s = "''active''"] lane_grant_kept) (simp_all add: lease_states_def)
  next
    case (lane_release w)
    with facts show ?thesis
      unfolding lane_release(1)
      by (intro trans [where s = "''released''"]) (simp_all add: lease_states_def)
  qed
qed

inductive lane_system_step :: "string \<Rightarrow> store \<Rightarrow> store \<Rightarrow> bool" for p where
  lane_run: "iso_range now \<Longrightarrow> prepare_lane_run c now opts st = Inr r \<Longrightarrow> dl_path r = p \<Longrightarrow>
     lane_system_step p st (fst (runDockerLaneHandshake c now opts st))"
| lane_elsewhere: "st' p = st p \<Longrightarrow> lane_system_step p st st'"

definition lane_inv :: "string \<Rightarrow> store \<Rightarrow> bool" where
  "lane_inv p st \<longleftrightarrow> st p = None \<or> (\<exists>d. st p = Some (Doc d) \<and> lane_wf d)"

lemma lane_inv_run:
  assumes "lane_inv (dl_path r) st" "iso_range now" "prepare_lane_run c now opts st = Inr r"
  shows "lane_inv (dl_path r) (fst (run_lane_action c now opts r st))"
proof (cases rule: lane_run_effect [of c now opts r st])
  case (wrote l)
  obtain h where h: "dl_hostContext r = buildHostContext h"
    using lane_prepared_fields(3) [OF assms(3)] by blast
  have "lane_wf (dl_current r)" if "dl_action r \<noteq> ''request''"
  proof -
    from wrote(1) that have "truthy (dl_current r)" by cases auto
    with lane_prepared_fields(2) [OF assms(3)] assms(1) show ?thesis
      by (auto simp: lane_inv_def read_doc_def)
  qed
  then have "lane_wf (json_norm l)"
    using lane_wf_written [OF wrote(1) h] lane_prepared_fields(1) [OF assms(3)] assms(2) by blast
  then show ?thesis
    using wrote(2) by (simp add: lane_inv_def)
qed (use assms(1) in simp)

interpretation lane_system: step_system "\<lambda>st. st p = None" "lane_system_step p" "lane_inv p" for p
proof
  show "lane_inv p s" if "s p = None" for s
    using that by (simp add: lane_inv_def)
  show "lane_inv p t" if "lane_inv p s" "lane_system_step p s t" for s t
    using that(2,1)
  proof cases
    case (lane_run now c opts r)
    then show ?thesis
      using lane_inv_run [of r s now c opts] that(1) by (simp add: runDockerLaneHandshake_prepared)
  qed (simp add: lane_inv_def)
qed

text \<open>
  C12: In every store reachable from a missing handshake file, a granted or active lane was
  granted the docker-lane capability, and if it was requested as premium it belongs to a sagan
  agent with an operator authorization and is billed at the premium multiplier.
\<close>

theorem lane_reachable_policy:
  assumes "(lane_system_step p)\<^sup>*\<^sup>* st0 st" "st0 p = None" "st p = Some (Doc d)"
    "getp d ''state'' \<in> {JStr ''granted'', JStr ''active''}"
  shows "(\<exists>caps. getp2 d ''grant'' ''grantedCapabilities'' = jstrs caps \<and> DOCKER_LANE_CAPABILITY \<in> set caps) \<and>
    (getp2 d ''request'' ''premiumDualLaneRequested'' = JBool True \<longrightarrow>
       getp2 d ''request'' ''agentClass'' = JStr ''sagan'' \<and>
       truthy (toOptionalText (getp2 d ''request'' ''operatorAuthorizationRef'')) \<and>
       getp2 d ''grant'' ''billableRateMultiplier'' = JNum (Fin (3 / 2)))"
proof -
  have "lane_grant_conforms d"
    using lane_system.inv_reachable [OF assms(1,2)] assms(3,4) by (auto simp: lane_inv_def lane_wf_def)
  then show ?thesis
    unfolding lane_grant_conforms_def Let_def PREMIUM_RATE_MULTIPLIER_dl_def by presburger
qed

section \<open>Links\<close>

lemma validated_cell_link:
  assumes "validateExecutionCellLink h linked = []"
  shows "truthy linked" "truthy (getp linked ''cellId'')" "truthy (getp linked ''leaseId'')" "truthy (getp linked ''holder'')"
    "truthy (getp linked ''fingerprintSha256'')" "isWindowsNativeExecutionCellLink linked"
    "truthy (toOptionalText (getp2 h ''request'' ''agentId'')) \<Longrightarrow>
       getp linked ''holder'' = toOptionalText (getp2 h ''request'' ''agentId'')"
    "truthy (toOptionalText (getp2 h ''host'' ''fingerprintSha256'')) \<Longrightarrow>
       getp linked ''fingerprintSha256'' = toOptionalText (getp2 h ''host'' ''fingerprintSha256'')"
  using assms by (auto simp: validateExecutionCellLink_def Let_def split: if_splits)

lemma cell_link_json: "json_norm (resolveExecutionCellLinkContext v) = resolveExecutionCellLinkContext v"
  by (simp add: resolveExecutionCellLinkContext_def Let_def js_or_def)

lemma committed_lane_fields:
  "getp2 (json_norm (committed_lane now r linked)) ''commit'' ''executionCellId'' =
      json_norm (js_or (getp linked ''cellId'') (toOptionalText (getp2 (dl_current r) ''commit'' ''executionCellId'')))"
  "getp2 (json_norm (committed_lane now r linked)) ''commit'' ''executionCellLeaseId'' =
      json_norm (js_or (getp linked ''leaseId'') (toOptionalText (getp2 (dl_current r) ''commit'' ''executionCellLeaseId'')))"
  by (simp_all add: committed_lane_def cloneForTransition_def Let_def getp_stored_new
      getp_json_norm_defined or_text_stable del: json_norm.simps(7))

text \<open>
  A commit that names an execution-cell report and changes the handshake recorded the cell
  and lease id of that report, which is held by the same agent and is a Windows-native TestStand
  cell.
\<close>

theorem lane_commit_link_checked:
  assumes "prepare_lane_run c now opts st = Inr r" "dl_action r = ''commit''"
    "truthy (toOptionalText (getp opts ''executionCellReportPath''))"
    "read_doc (dl_path r) (fst (runDockerLaneHandshake c now opts st)) = Inr d" "d \<noteq> dl_current r"
    "toOptionalText (getp2 (dl_current r) ''request'' ''agentId'') = JStr agent"
  shows "\<exists>linked. load_cell_link c opts r st = Inr linked \<and> getp linked ''holder'' = JStr agent \<and>
     isWindowsNativeExecutionCellLink linked \<and>
     getp2 d ''commit'' ''executionCellId'' = getp linked ''cellId'' \<and>
     getp2 d ''commit'' ''executionCellLeaseId'' = getp linked ''leaseId''"
proof -
  have "fst (runDockerLaneHandshake c now opts st) \<noteq> st"
    using assms(4,5) lane_prepared_fields(2) [OF assms(1)] by auto
  then obtain linked where linked: "load_cell_link c opts r st = Inr linked"
    "validateExecutionCellLink (dl_current r) linked = []"
    "runDockerLaneHandshake c now opts st = activate_lane c now r linked st"
    using assms(1-3)
    by (auto simp: runDockerLaneHandshake_prepared run_lane_action_def commit_lane_def Let_def split: if_splits sum.splits)
  have d: "d = json_norm (committed_lane now r linked)"
    using assms(4) by (simp add: linked(3) activate_lane_def Let_def write_json_dl_def read_doc_def atomic_replace_apply)
  have "json_norm linked = linked"
    using linked(1) cell_link_json by (auto simp: load_cell_link_def)
  then have stable: "json_norm (getp linked k) = getp linked k" if "truthy (getp linked k)" for k
    using that by (intro getp_json_stable) auto
  note v = validated_cell_link [OF linked(2)]
  have "getp linked ''holder'' = JStr agent"
    using v(7) assms(6) toOptionalText_eq_JStr [THEN iffD1, OF assms(6)] by simp
  then show ?thesis
    using linked(1) v committed_lane_fields [of now r linked] stable unfolding d by auto
qed

section \<open>A concrete lane\<close>

definition demo_handshake_path :: string where
  "demo_handshake_path = ''/g/docker-lane-handshakes/d1.json''"

definition demo_handshake :: "string \<Rightarrow> jsval" where
  "demo_handshake state = JObj
     [(''state'', JStr state), (''sequence'', JInt 2), (''heartbeatAt'', JStr (iso_string 0)),
      (''request'', JObj [(''agentId'', JStr ''a1''), (''agentClass'', JStr ''sagan''),
         (''capabilities'', jstrs [''docker-lane'']), (''premiumDualLaneRequested'', JBool True),
         (''operatorAuthorizationRef'', JStr ''ref'')]),
      (''grant'', JObj [(''leaseId'', JStr ''L1''), (''ttlSeconds'', JInt 60)])]"

definition lane_opts :: "string \<Rightarrow> string \<Rightarrow> fields \<Rightarrow> jsval" where
  "lane_opts action agent extra =
     JObj ([(''action'', JStr action), (''laneId'', JStr ''d1''), (''agentId'', JStr agent),
            (''hostPlaneReport'', JObj []), (''operatorCostProfile'', demo_profile)] @ extra)"

definition demo_lane_run :: "int \<Rightarrow> string \<Rightarrow> string \<Rightarrow> fields \<Rightarrow> jsval \<Rightarrow> lane_run" where
  "demo_lane_run now action agent extra current =
     \<lparr>dl_action = action, dl_laneId = ''d1'', dl_repoRoot = JStr ''/r'', dl_agentId = agent,
      dl_agentClass = normalizeAgentClass_dl (lookup extra ''agentClass''), dl_path = demo_handshake_path,
      dl_generatedAt = iso_string now, dl_current = current, dl_hostContext = buildHostContext (JObj []),
      dl_profile = resolveOperatorProfile demo_profile JUndef\<rparr>"

definition lane_plain :: "fields \<Rightarrow> bool" where
  "lane_plain extra \<longleftrightarrow> (\<forall>k \<in> set [''handshakeRoot'', ''repoRoot'', ''operatorId'']. lookup extra k = JUndef)"

lemma demo_lane_paths:
  "path_join [''/g'', ''docker-lane-handshakes''] = ''/g/docker-lane-handshakes''"
  "handshakePathForLane (JStr ''d1'') ''/g/docker-lane-handshakes'' = demo_handshake_path"
  by code_simp+

lemma demo_lane_prepared:
  assumes "trimmed action" "to_lower action = action" "trimmed agent" "agent \<noteq> []" "lane_plain extra"
    "read_doc demo_handshake_path st = Inr current"
  shows "prepare_lane_run demo_process now (lane_opts action agent extra) st = Inr (demo_lane_run now action agent extra current)"
proof -
  have d1: "trim ''d1'' = ''d1''"
    by (rule trim_id) (simp add: trimmed_def is_space_def)
  have base: "defaultHandshakeRoot demo_process (JStr ''/r'') JUndef = Inr (JStr ''/g/docker-lane-handshakes'')"
    using demo_lane_paths(1)
    by (simp add: defaultHandshakeRoot_def env_value_def demo_process_def resolveDefaultHandshakeRoot_def Let_def)
  have "moduleRepoRoot demo_process = ''/r''" "\<not> nullish demo_profile"
    by (simp_all add: demo_process_def demo_profile_def)
  then show ?thesis
    using assms base demo_lane_paths(2) d1
    by (simp add: Let_def prepare_lane_run_def demo_lane_run_def lane_opts_def lane_plain_def read_unless_def)
qed

lemma demo_lane_run_simps [simp]:
  "dl_action (demo_lane_run now a g x e) = a" "dl_current (demo_lane_run now a g x e) = e"
  "dl_path (demo_lane_run now a g x e) = demo_handshake_path" "dl_agentId (demo_lane_run now a g x e) = g"
  "dl_laneId (demo_lane_run now a g x e) = ''d1''"
  by (simp_all add: demo_lane_run_def)

lemma demo_handshake_simps [simp]:
  "truthy (demo_handshake s)" "getp (demo_handshake s) ''state'' = JStr s"
  "read_doc p [p \<mapsto> Doc d] = Inr d"
  by (simp_all add: demo_handshake_def read_doc_def)

lemmas lane_text = trimmed_def is_space_def lane_plain_def to_lower_def lower_char_def

lemma demo_release_prepared:
  "prepare_lane_run demo_process 1000 (lane_opts ''release'' ''a1'' []) [demo_handshake_path \<mapsto> Doc (demo_handshake ''granted'')] =
     Inr (demo_lane_run 1000 ''release'' ''a1'' [] (demo_handshake ''granted''))"
  by (rule demo_lane_prepared) (simp_all add: lane_text)

lemma lane_owner_only_witness:
  "fst (runDockerLaneHandshake demo_process 1000 (lane_opts ''release'' ''a2'' [])
     [demo_handshake_path \<mapsto> Doc (demo_handshake ''granted'')]) = [demo_handshake_path \<mapsto> Doc (demo_handshake ''granted'')]"
proof -
  have prep: "prepare_lane_run demo_process 1000 (lane_opts ''release'' ''a2'' []) [demo_handshake_path \<mapsto> Doc (demo_handshake ''granted'')] =
      Inr (demo_lane_run 1000 ''release'' ''a2'' [] (demo_handshake ''granted''))"
    by (rule demo_lane_prepared) (simp_all add: lane_text)
  have "\<not> same_agent (demo_lane_run 1000 ''release'' ''a2'' [] (demo_handshake ''granted''))"
    by (simp add: same_agent_def) (simp add: demo_handshake_def lane_text)
  then show ?thesis
    using lane_owner_only [OF prep] by simp
qed

lemma live_lane_not_requested_again_witness:
  "\<exists>rep. runDockerLaneHandshake demo_process 1000 (lane_opts ''request'' ''a1'' [])
       [demo_handshake_path \<mapsto> Doc (demo_handshake ''granted'')] =
     ([demo_handshake_path \<mapsto> Doc (demo_handshake ''granted'')], Inr rep) \<and> getp rep ''status'' = JStr ''busy''"
proof -
  have prep: "prepare_lane_run demo_process 1000 (lane_opts ''request'' ''a1'' []) [demo_handshake_path \<mapsto> Doc (demo_handshake ''granted'')] =
      Inr (demo_lane_run 1000 ''request'' ''a1'' [] (demo_handshake ''granted''))"
    by (rule demo_lane_prepared) (simp_all add: lane_text)
  have "leaseAgeSeconds (demo_handshake ''granted'') (num_of_int 1000) = Fin 1"
    by (subst leaseAgeSeconds_iso [of _ 0]) (simp_all add: demo_handshake_def)
  then have "\<not> isHandshakeStale (demo_handshake ''granted'') (num_of_int 1000)"
    by (simp add: handshake_stale_eq isExecutionCellLeaseStale_def resolveTtlSeconds_def) (simp add: demo_handshake_def)
  then show ?thesis
    using live_lane_not_requested_again [OF prep] by (simp add: iso_range_def)
qed

lemma demo_lane_release_run:
  "\<exists>l. fst (runDockerLaneHandshake demo_process 1000 (lane_opts ''release'' ''a1'' [])
       [demo_handshake_path \<mapsto> Doc (demo_handshake ''granted'')]) =
     write_json_dl demo_process demo_handshake_path l [demo_handshake_path \<mapsto> Doc (demo_handshake ''granted'')]"
proof -
  have "same_agent (demo_lane_run 1000 ''release'' ''a1'' [] (demo_handshake ''granted''))"
    by (simp add: same_agent_def) (simp add: demo_handshake_def lane_text)
  moreover have "lane_lease_matches (lane_opts ''release'' ''a1'' []) d" for d
    by (simp add: lane_lease_matches_def lane_opts_def)
  moreover have "normalizeCapabilities_dl (getp (lane_opts ''release'' ''a1'' []) ''artifactPaths'') = Inr []"
    by (simp add: lane_opts_def normalizeCapabilities_dl_def normalizeCapabilityList_def)
  ultimately show ?thesis
    by (auto simp: runDockerLaneHandshake_prepared [OF demo_release_prepared] run_lane_action_def release_lane_def
        write_lane_def Let_def)
qed

lemma lane_phase_simulation_witness:
  "\<exists>d. read_doc demo_handshake_path (fst (runDockerLaneHandshake demo_process 1000 (lane_opts ''release'' ''a1'' [])
       [demo_handshake_path \<mapsto> Doc (demo_handshake ''granted'')])) = Inr d \<and>
     lane_step ''release'' Granted (lane_phase d)"
proof -
  obtain d where d: "read_doc demo_handshake_path (fst (runDockerLaneHandshake demo_process 1000 (lane_opts ''release'' ''a1'' [])
       [demo_handshake_path \<mapsto> Doc (demo_handshake ''granted'')])) = Inr d"
    using demo_lane_release_run by (auto simp: write_json_dl_def read_doc_def atomic_replace_apply)
  moreover have "lane_phase (demo_handshake ''granted'') = Granted"
    by (simp add: lane_phase_def)
  ultimately show ?thesis
    using lane_phase_simulation [OF demo_release_prepared] by auto
qed

text \<open>A commit that names the report of an execution cell held by the same agent.\<close>

definition demo_cell_report :: jsval where
  "demo_cell_report = JObj
     [(''cellId'', JStr ''c9''),
      (''summary'', JObj [(''leaseId'', JStr ''L9''), (''holder'', JStr ''a1''), (''isolatedLaneGroupId'', JStr ''grp''),
         (''fingerprintSha256'', JStr ''f00d''), (''harnessKind'', JStr ''teststand-compare-harness'')]),
      (''lease'', JObj [])]"

definition demo_cell_fields :: fields where
  "demo_cell_fields = [(''executionCellReportPath'', JStr ''lane.json'')]"

definition demo_cell_store :: store where
  "demo_cell_store = [demo_handshake_path \<mapsto> Doc (demo_handshake ''granted''), demo_lane_path \<mapsto> Doc demo_cell_report]"

lemma demo_cell_read [simp]:
  "read_doc demo_handshake_path demo_cell_store = Inr (demo_handshake ''granted'')"
  "read_doc demo_lane_path demo_cell_store = Inr demo_cell_report"
  by (simp_all add: demo_cell_store_def read_doc_def demo_handshake_path_def demo_lane_path_def)

lemma demo_cell_prepared:
  "prepare_lane_run demo_process 1000 (lane_opts ''commit'' ''a1'' demo_cell_fields) demo_cell_store =
     Inr (demo_lane_run 1000 ''commit'' ''a1'' demo_cell_fields (demo_handshake ''granted''))"
  by (rule demo_lane_prepared) (simp_all add: lane_text demo_cell_fields_def)

lemma demo_cell_loaded:
  "load_cell_link demo_process (lane_opts ''commit'' ''a1'' demo_cell_fields)
     (demo_lane_run 1000 ''commit'' ''a1'' demo_cell_fields (demo_handshake ''granted'')) demo_cell_store =
   Inr (resolveExecutionCellLinkContext demo_cell_report)"
  using demo_paths(6) by (simp add: load_cell_link_def lane_opts_def demo_cell_fields_def) (simp add: demo_lane_run_def)

lemma demo_cell_valid:
  "validateExecutionCellLink (demo_handshake ''granted'') (resolveExecutionCellLinkContext demo_cell_report) = []"
  by (simp add: validateExecutionCellLink_def resolveExecutionCellLinkContext_def demo_cell_report_def demo_handshake_def
      lane_text typeof_object_def isWindowsNativeExecutionCellLink_def)

lemma demo_cell_commit_run:
  "runDockerLaneHandshake demo_process 1000 (lane_opts ''commit'' ''a1'' demo_cell_fields) demo_cell_store =
     activate_lane demo_process 1000 (demo_lane_run 1000 ''commit'' ''a1'' demo_cell_fields (demo_handshake ''granted''))
       (resolveExecutionCellLinkContext demo_cell_report) demo_cell_store"
proof -
  have "same_agent (demo_lane_run 1000 ''commit'' ''a1'' demo_cell_fields (demo_handshake ''granted''))"
    by (simp add: same_agent_def) (simp add: demo_handshake_def lane_text)
  moreover have "lane_lease_matches (lane_opts ''commit'' ''a1'' demo_cell_fields) d" for d
    by (simp add: lane_lease_matches_def lane_opts_def demo_cell_fields_def)
  moreover have "truthy (toOptionalText (getp (lane_opts ''commit'' ''a1'' demo_cell_fields) ''executionCellReportPath''))"
    by (simp add: lane_opts_def demo_cell_fields_def lane_text)
  ultimately show ?thesis
    by (simp add: runDockerLaneHandshake_prepared [OF demo_cell_prepared] run_lane_action_def commit_lane_def
        demo_cell_loaded demo_cell_valid Let_def)
qed

lemma lane_commit_link_checked_witness:
  "\<exists>d linked. read_doc demo_handshake_path (fst (runDockerLaneHandshake demo_process 1000
       (lane_opts ''commit'' ''a1'' demo_cell_fields) demo_cell_store)) = Inr d \<and>
     getp linked ''holder'' = JStr ''a1'' \<and> getp2 d ''commit'' ''executionCellLeaseId'' = getp linked ''leaseId''"
proof -
  let ?r = "demo_lane_run 1000 ''commit'' ''a1'' demo_cell_fields (demo_handshake ''granted'')"
  let ?d = "json_norm (committed_lane 1000 ?r (resolveExecutionCellLinkContext demo_cell_report))"
  have d: "read_doc demo_handshake_path (fst (runDockerLaneHandshake demo_process 1000
      (lane_opts ''commit'' ''a1'' demo_cell_fields) demo_cell_store)) = Inr ?d"
    by (simp add: demo_cell_commit_run activate_lane_def Let_def write_json_dl_def read_doc_def atomic_replace_apply)
  have "getp ?d ''state'' = JStr ''active''"
    by (simp add: committed_lane_def cloneForTransition_def Let_def getp_stored_new del: json_norm.simps(7))
  then have "?d \<noteq> demo_handshake ''granted''"
    using demo_handshake_simps(2) [of "''granted''"] by auto
  moreover have "toOptionalText (getp2 (demo_handshake ''granted'') ''request'' ''agentId'') = JStr ''a1''"
    by (simp add: demo_handshake_def lane_text)
  moreover have "truthy (toOptionalText (getp (lane_opts ''commit'' ''a1'' demo_cell_fields) ''executionCellReportPath''))"
    by (simp add: lane_opts_def demo_cell_fields_def lane_text)
  ultimately show ?thesis
    using lane_commit_link_checked [OF demo_cell_prepared, where d = ?d and agent = "''a1''"] d by auto
qed

text \<open>A request and a grant from an empty handshake directory.\<close>

definition demo_ask :: fields where
  "demo_ask = [(''capabilities'', jstrs [''docker-lane''])]"

definition demo_asked :: store where
  "demo_asked = fst (runDockerLaneHandshake demo_process 0 (lane_opts ''request'' ''a1'' demo_ask) Map.empty)"

definition demo_lane_granted :: store where
  "demo_lane_granted = fst (runDockerLaneHandshake demo_process 1000 (lane_opts ''grant'' ''a1'' []) demo_asked)"

definition demo_asked_doc :: jsval where
  "demo_asked_doc = json_norm (buildRequestRecord_dl demo_process 0 (lane_opts ''request'' ''a1'' demo_ask)
     (demo_lane_run 0 ''request'' ''a1'' demo_ask JNull) [''docker-lane''])"

lemma demo_ask_caps: "normalizeCapabilities_dl (getp (lane_opts ''request'' ''a1'' demo_ask) ''capabilities'') = Inr [''docker-lane'']"
  by code_simp

lemma demo_ask_prepared:
  "prepare_lane_run demo_process 0 (lane_opts ''request'' ''a1'' demo_ask) Map.empty =
     Inr (demo_lane_run 0 ''request'' ''a1'' demo_ask JNull)"
  by (rule demo_lane_prepared) (simp_all add: lane_text demo_ask_def read_doc_def)

lemma demo_asked_at: "demo_asked demo_handshake_path = Some (Doc demo_asked_doc)"
  by (simp add: demo_asked_def runDockerLaneHandshake_prepared [OF demo_ask_prepared] run_lane_action_def request_lane_def
      demo_ask_caps write_lane_def write_json_dl_def atomic_replace_apply demo_asked_doc_def Let_def)

lemma demo_asked_fields:
  "getp demo_asked_doc ''state'' = JStr ''requested''" "getp2 demo_asked_doc ''request'' ''agentId'' = JStr ''a1''"
  "normalizeCapabilities_dl (getp2 demo_asked_doc ''request'' ''capabilities'') = Inr [''docker-lane'']"
  "getp2 demo_asked_doc ''request'' ''premiumDualLaneRequested'' = JBool False"
proof -
  have "isPremiumDualLaneRequest_dl [''docker-lane''] = False" "normalizeCapabilities_dl (jstrs [''docker-lane'']) = Inr [''docker-lane'']"
    by code_simp+
  then show "getp demo_asked_doc ''state'' = JStr ''requested''" "getp2 demo_asked_doc ''request'' ''agentId'' = JStr ''a1''"
    "normalizeCapabilities_dl (getp2 demo_asked_doc ''request'' ''capabilities'') = Inr [''docker-lane'']"
    "getp2 demo_asked_doc ''request'' ''premiumDualLaneRequested'' = JBool False"
    by (simp_all add: demo_asked_doc_def buildRequestRecord_dl_def Let_def getp_json_norm_defined del: json_norm.simps(7))
qed

lemma demo_grant_lane_prepared:
  "prepare_lane_run demo_process 1000 (lane_opts ''grant'' ''a1'' []) demo_asked =
     Inr (demo_lane_run 1000 ''grant'' ''a1'' [] demo_asked_doc)"
  by (rule demo_lane_prepared) (simp_all add: lane_text read_doc_def demo_asked_at)

lemma demo_lane_granted_at:
  "\<exists>d. demo_lane_granted demo_handshake_path = Some (Doc d) \<and> getp d ''state'' = JStr ''granted''"
proof -
  let ?r = "demo_lane_run 1000 ''grant'' ''a1'' [] demo_asked_doc"
  have agent: "same_agent ?r"
    using demo_asked_fields(2) by (simp add: same_agent_def lane_text)
  have cur: "truthy demo_asked_doc"
    using demo_asked_fields(1) by (intro getp_truthy [of _ "''state''"]) simp
  have "dl_profile ?r = resolveOperatorProfile demo_profile JUndef" by (simp add: demo_lane_run_def)
  then obtain d where d: "buildGrantDecision_dl demo_asked_doc (dl_profile ?r) = Inr d" "gd_allowed d"
    using demo_asked_fields by (simp add: buildGrantDecision_dl_def gd_allowed_def DOCKER_LANE_CAPABILITY_def Let_def)
  then have "lane_writes demo_process 1000 (lane_opts ''grant'' ''a1'' []) ?r
      (granted_lane demo_process 1000 (lane_opts ''grant'' ''a1'' []) ?r d)"
    using demo_asked_fields(1) agent cur by (intro lane_grant) simp_all
  from lane_state_written [OF this] show ?thesis
    using d demo_asked_fields(1) agent cur
    by (simp add: demo_lane_granted_def runDockerLaneHandshake_prepared [OF demo_grant_lane_prepared] run_lane_action_def
        grant_lane_def write_lane_def write_json_dl_def atomic_replace_apply Let_def)
qed

lemma lane_reachable_policy_witness:
  "\<exists>d caps. demo_lane_granted demo_handshake_path = Some (Doc d) \<and>
     getp2 d ''grant'' ''grantedCapabilities'' = jstrs caps \<and> DOCKER_LANE_CAPABILITY \<in> set caps"
proof -
  have "lane_system_step demo_handshake_path Map.empty demo_asked"
    unfolding demo_asked_def by (rule lane_system_step.lane_run [OF _ demo_ask_prepared]) simp_all
  moreover have "lane_system_step demo_handshake_path demo_asked demo_lane_granted"
    unfolding demo_lane_granted_def
    by (rule lane_system_step.lane_run [OF _ demo_grant_lane_prepared]) (simp_all add: iso_range_def)
  ultimately have "(lane_system_step demo_handshake_path)\<^sup>*\<^sup>* Map.empty demo_lane_granted"
    by (meson converse_rtranclp_into_rtranclp r_into_rtranclp)
  moreover obtain d where "demo_lane_granted demo_handshake_path = Some (Doc d)" "getp d ''state'' = JStr ''granted''"
    using demo_lane_granted_at by blast
  ultimately show ?thesis
    using lane_reachable_policy [of demo_handshake_path Map.empty demo_lane_granted d] by auto
qed

end
