(* ===== verification/Bundle.thy ===== *)
theory Bundle
  imports DockerLane
begin

text \<open>
  The execution-cell bundle of \<^verbatim>\<open>tools/priority/execution-cell-bundle.mjs\<close>: one action runs the
  execution-cell lease and the docker-lane handshake one after the other, undoes the half that
  succeeded when the other half does not, and writes one report about both.  A run threads the file
  store through the calls: an exception keeps the store reached so far.
\<close>

section \<open>Helpers\<close>

definition EXECUTION_CELL_BUNDLE_REPORT_SCHEMA :: string where
  "EXECUTION_CELL_BUNDLE_REPORT_SCHEMA = ''priority/execution-cell-bundle-report@v1''"

definition DEFAULT_OUTPUT_PATH_bd :: string where
  "DEFAULT_OUTPUT_PATH_bd = path_join [''tests'', ''results'', ''_agent'', ''runtime'', ''execution-cell-bundle.json'']"

definition SUCCESS_STATUS :: "string list" where
  "SUCCESS_STATUS = [''requested'', ''granted'', ''committed'', ''renewed'', ''released'', ''active'']"

definition normalizeText_bd :: "jsval \<Rightarrow> string" where
  "normalizeText_bd v = (if nullish v then [] else trim (js_string v))"

definition toOptionalText_bd :: "jsval \<Rightarrow> jsval" where
  "toOptionalText_bd v = (let n = normalizeText_bd v in if n = [] then JNull else JStr n)"

definition normalizeCapabilities_bd :: "jsval \<Rightarrow> string list result" where
  "normalizeCapabilities_bd v =
     bindE (iterable v) (\<lambda>xs. Inr (uniq (filter (\<lambda>s. s \<noteq> []) (map normalizeText_bd xs))))"

text \<open>The helpers are the ones of the lease modules.\<close>

lemma bundle_text [simp]: "normalizeText_bd = normalizeText" "toOptionalText_bd = toOptionalText"
  by (simp_all add: fun_eq_iff normalizeText_bd_def normalizeText_def toOptionalText_bd_def toOptionalText_def)

lemma bundle_capabilities [simp]: "normalizeCapabilities_bd = normalizeCapabilities"
  by (simp add: fun_eq_iff normalizeCapabilities_bd_def normalizeCapabilities_def normalizeCapabilityList_def)

definition wantsDockerLane :: "jsval \<Rightarrow> bool result" where
  "wantsDockerLane opts =
     (if truthy (toOptionalText_bd (getp opts ''laneId'')) then Inr True
      else bindE (normalizeCapabilities_bd (getp opts ''capabilities'')) (\<lambda>caps. Inr (DOCKER_LANE_CAPABILITY \<in> set caps)))"

text \<open>\<^verbatim>\<open>set.add(x)\<close> on the members in insertion order.\<close>

definition set_add :: "'a \<Rightarrow> 'a list \<Rightarrow> 'a list" where
  "set_add x xs = (if x \<in> set xs then xs else xs @ [x])"

definition inferBundleCapabilities :: "jsval \<Rightarrow> jsval \<Rightarrow> bool \<Rightarrow> string list result" where
  "inferBundleCapabilities capabilities planeBinding dockerRequested =
     bindE (normalizeCapabilities_bd capabilities) (\<lambda>caps.
       let plane = to_lower (normalizeText_bd planeBinding);
           withLane = (if dockerRequested then set_add DOCKER_LANE_CAPABILITY caps else caps)
       in Inr (if plane = ''native-labview-2026-32'' \<or> plane = ''dual-plane-parity''
               then set_add NATIVE_LV32_CAPABILITY withLane else withLane))"

definition isWindowsNativeTestStand :: "jsval \<Rightarrow> jsval \<Rightarrow> jsval" where
  "isWindowsNativeTestStand planeBinding harnessKind =
     (if \<not> truthy (toOptionalText_bd harnessKind) then JNull
      else if normalizeText_bd harnessKind \<noteq> DEFAULT_HARNESS_KIND then JNull
      else (let plane = to_lower (normalizeText_bd planeBinding)
            in if plane = [] then JBool True
               else JBool (plane = ''dual-plane-parity'' \<or> starts_with plane ''native-labview-'')))"

definition isSuccessfulStatus :: "jsval \<Rightarrow> bool" where
  "isSuccessfulStatus status \<longleftrightarrow> normalizeText_bd status \<in> set SUCCESS_STATUS"

fun firstFailureStatus :: "jsval list \<Rightarrow> string option" where
  "firstFailureStatus [] = None"
| "firstFailureStatus (report # reports) =
     (let status = normalizeText_bd (getp report ''status'')
      in if status \<noteq> [] \<and> \<not> isSuccessfulStatus (JStr status) then Some status else firstFailureStatus reports)"

text \<open>\<^verbatim>\<open>xs.length > 0 ? Math.max(...xs) : null\<close>.\<close>

definition max_or_null :: "jsval list \<Rightarrow> jsval" where
  "max_or_null vs = (if vs = [] then JNull else JNum (foldl num_max NegInf (map num_of_value vs)))"

definition finite_fields :: "jsval list \<Rightarrow> string \<Rightarrow> jsval list" where
  "finite_fields reports key = filter is_finite_number (map (\<lambda>r. getp2 r ''summary'' key) reports)"

definition rate_multiplier :: "jsval list \<Rightarrow> jsval" where
  "rate_multiplier reports = max_or_null (finite_fields reports ''billableRateMultiplier'')"

definition rate_usd :: "jsval list \<Rightarrow> jsval" where
  "rate_usd reports = max_or_null (finite_fields reports ''billableRateUsdPerHour'')"

definition summarizeEffectiveRate :: "jsval list \<Rightarrow> jsval \<times> jsval" where
  "summarizeEffectiveRate reports = (rate_multiplier reports, rate_usd reports)"

definition collectSummaryStrings :: "jsval list \<Rightarrow> string \<Rightarrow> jsval list" where
  "collectSummaryStrings reports field =
     uniq (concat (map (\<lambda>r. filter truthy (array_items (getp2 r ''summary'' field))) reports))"

definition hasReciprocalBundleLink :: "jsval \<Rightarrow> jsval \<Rightarrow> jsval \<Rightarrow> jsval \<Rightarrow> bool" where
  "hasReciprocalBundleLink executionCell dockerLane cellId laneId =
     (let executionSummary = js_coalesce (getp executionCell ''summary'') (JObj []);
          dockerSummary = js_coalesce (getp dockerLane ''summary'') (JObj []);
          executionLeaseId = normalizeText_bd (getp executionSummary ''leaseId'');
          dockerLeaseId = normalizeText_bd (getp dockerSummary ''leaseId'')
      in executionLeaseId \<noteq> [] \<and> dockerLeaseId \<noteq> [] \<and>
         normalizeText_bd (getp executionSummary ''linkedDockerLaneId'') = normalizeText_bd laneId \<and>
         normalizeText_bd (getp executionSummary ''linkedDockerLaneLeaseId'') = dockerLeaseId \<and>
         normalizeText_bd (getp dockerSummary ''linkedExecutionCellId'') = normalizeText_bd cellId \<and>
         normalizeText_bd (getp dockerSummary ''linkedExecutionCellLeaseId'') = executionLeaseId)"

section \<open>The status of a bundle\<close>

definition inspect_bundle_status :: "string \<Rightarrow> string \<Rightarrow> string" where
  "inspect_bundle_status cellStatus laneStatus =
     (if cellStatus = ''stale'' \<or> laneStatus = ''stale'' then ''stale''
      else if cellStatus = ''active'' \<or> laneStatus = ''active'' then ''active''
      else if cellStatus = ''granted'' \<or> laneStatus = ''granted'' then ''granted''
      else if cellStatus = ''requested'' \<or> laneStatus = ''requested'' then ''requested''
      else if cellStatus = ''released'' \<or> laneStatus = ''released'' then ''released''
      else if cellStatus = ''not-found'' \<and> laneStatus = ''not-found'' then ''not-found''
      else ''partial'')"

definition resolveBundleStatus :: "jsval \<Rightarrow> jsval \<Rightarrow> jsval \<Rightarrow> jsval \<Rightarrow> string" where
  "resolveBundleStatus action executionCell dockerLane rollbacks =
     (let cellStatus = normalizeText_bd (getp executionCell ''status'');
          laneStatus = normalizeText_bd (getp dockerLane ''status'')
      in case firstFailureStatus
             [executionCell, dockerLane, getp rollbacks ''executionCell'', getp rollbacks ''dockerLane''] of
           Some failure \<Rightarrow> failure
         | None \<Rightarrow>
             if \<not> truthy dockerLane then (if cellStatus = [] then ''not-found'' else cellStatus)
             else if action = JStr ''inspect'' then inspect_bundle_status cellStatus laneStatus
             else if cellStatus = laneStatus then cellStatus
             else if action = JStr ''release'' \<and> cellStatus \<in> set [''released'', ''not-found''] \<and>
                     laneStatus \<in> set [''released'', ''not-found''] then ''released''
             else ''partial'')"

section \<open>The report\<close>

record bundle_run =
  bn_action :: jsval
  bn_generatedAt :: string
  bn_cellId :: jsval
  bn_laneId :: jsval
  bn_outputPath :: string
  bn_dockerRequested :: bool
  bn_capabilities :: "string list"

text \<open>What the two halves returned; a half that was not run is null.\<close>

record bundle_parts =
  bp_cell :: jsval
  bp_lane :: jsval
  bp_rollbacks :: fields

definition bundle_reports :: "bundle_parts \<Rightarrow> jsval list" where
  "bundle_reports b = filter truthy [bp_cell b, bp_lane b]"

definition rollback_note :: "string \<Rightarrow> jsval \<Rightarrow> jsval list" where
  "rollback_note prefix report =
     (if truthy report then [JStr (prefix @ js_string (getp report ''status''))] else [])"

definition bundle_observations :: "bundle_parts \<Rightarrow> jsval list" where
  "bundle_observations b =
     (let reports = bundle_reports b; rollbacks = JObj (bp_rollbacks b)
      in uniq (filter truthy
           (collectSummaryStrings reports ''observations'' @
            (if length reports > 1 \<and> \<not> nullish (snd (summarizeEffectiveRate reports))
             then [JStr ''agent-billed-once-at-effective-rate''] else []) @
            rollback_note ''execution-cell-rollback-'' (getp rollbacks ''executionCell'') @
            rollback_note ''docker-lane-rollback-'' (getp rollbacks ''dockerLane''))))"

definition bundle_summary :: "bundle_run \<Rightarrow> bundle_parts \<Rightarrow> jsval" where
  "bundle_summary u b =
     (let cell = getp (bp_cell b) ''summary''; lane = getp (bp_lane b) ''summary'';
          rollbacks = JObj (bp_rollbacks b); reports = bundle_reports b;
          rate = summarizeEffectiveRate reports;
          opt = (\<lambda>w k. toOptionalText_bd (getp w k))
      in JObj
        [(''holder'', js_or (opt cell ''holder'') (opt lane ''holder'')),
         (''agentClass'', js_or (opt cell ''agentClass'')
            (opt (getp2 (bp_lane b) ''handshake'' ''request'') ''agentClass'')),
         (''cellClass'', opt cell ''cellClass''),
         (''suiteClass'', opt cell ''suiteClass''),
         (''planeBinding'', opt cell ''planeBinding''),
         (''harnessKind'', opt cell ''harnessKind''),
         (''harnessInstanceId'', opt cell ''harnessInstanceId''),
         (''executionCellLeaseId'', opt cell ''leaseId''),
         (''dockerLaneLeaseId'', opt lane ''leaseId''),
         (''linkedExecutionCellId'', opt lane ''linkedExecutionCellId''),
         (''linkedExecutionCellLeaseId'', opt lane ''linkedExecutionCellLeaseId''),
         (''linkedDockerLaneId'', opt cell ''linkedDockerLaneId''),
         (''linkedDockerLaneLeaseId'', opt cell ''linkedDockerLaneLeaseId''),
         (''reciprocalLinkReady'', JBool (hasReciprocalBundleLink (bp_cell b) (bp_lane b) (bn_cellId u) (bn_laneId u))),
         (''dockerRequested'', JBool (bn_dockerRequested u)),
         (''windowsNativeTestStand'', isWindowsNativeTestStand (getp cell ''planeBinding'') (getp cell ''harnessKind'')),
         (''effectiveBillableRateMultiplier'', fst rate),
         (''effectiveBillableRateUsdPerHour'', snd rate),
         (''premiumSaganMode'', JBool (getp cell ''premiumSaganMode'' = JBool True \<or>
                                       getp lane ''premiumSaganMode'' = JBool True)),
         (''operatorAuthorizationRef'', js_or (opt cell ''operatorAuthorizationRef'') (opt lane ''operatorAuthorizationRef'')),
         (''isolatedLaneGroupId'', js_or (opt cell ''isolatedLaneGroupId'') (opt lane ''isolatedLaneGroupId'')),
         (''fingerprintSha256'', js_or (opt cell ''fingerprintSha256'') (opt lane ''fingerprintSha256'')),
         (''capabilities'', jstrs (bn_capabilities u)),
         (''denialReasons'', JArr (collectSummaryStrings
            (reports @ [getp rollbacks ''executionCell'', getp rollbacks ''dockerLane'']) ''denialReasons'')),
         (''observations'', JArr (bundle_observations b))])"

definition buildReport :: "bundle_run \<Rightarrow> bundle_parts \<Rightarrow> jsval" where
  "buildReport u b =
     (let rollbacks = JObj (bp_rollbacks b)
      in JObj
        [(''schema'', JStr EXECUTION_CELL_BUNDLE_REPORT_SCHEMA),
         (''generatedAt'', JStr (bn_generatedAt u)),
         (''action'', bn_action u),
         (''status'', JStr (resolveBundleStatus (bn_action u) (bp_cell b) (bp_lane b) rollbacks)),
         (''cellId'', bn_cellId u),
         (''laneId'', toOptionalText_bd (bn_laneId u)),
         (''outputPath'', JStr (bn_outputPath u)),
         (''executionCellReportPath'', js_or (getp (bp_cell b) ''leasePath'') JNull),
         (''dockerLaneReportPath'', js_or (getp (bp_lane b) ''handshakePath'') JNull),
         (''executionCell'', bp_cell b),
         (''dockerLane'', js_or (bp_lane b) JNull),
         (''rollbacks'', JObj
           [(''executionCell'', js_or (getp rollbacks ''executionCell'') JNull),
            (''dockerLane'', js_or (getp rollbacks ''dockerLane'') JNull)]),
         (''summary'', bundle_summary u b)])"

definition write_report :: "string \<Rightarrow> jsval \<Rightarrow> store \<Rightarrow> store" where
  "write_report p report st = st(p \<mapsto> Doc (json_norm report))"

section \<open>The two halves and their rollbacks\<close>

text \<open>
  The two modules draw their own random suffixes: \<open>rnd\<close> is the one of the docker lane.
\<close>

definition lane_process :: "process \<Rightarrow> string \<Rightarrow> process" where
  "lane_process c rnd = c\<lparr>rand := rnd\<rparr>"

definition maybeReleaseExecutionCell :: "process \<Rightarrow> int \<Rightarrow> jsval \<Rightarrow> jsval \<Rightarrow> jsval \<Rightarrow> store \<Rightarrow> store \<times> jsval result" where
  "maybeReleaseExecutionCell c now opts outputPath leaseId st =
     runExecutionCellLease c now (JObj
       [(''action'', JStr ''release''),
        (''cellId'', getp opts ''cellId''),
        (''leaseId'', leaseId),
        (''artifactPaths'', JArr []),
        (''hostPlaneReportPath'', getp opts ''hostPlaneReportPath''),
        (''operatorCostProfilePath'', getp opts ''operatorCostProfilePath''),
        (''leaseRoot'', getp opts ''leaseRoot''),
        (''repoRoot'', getp opts ''repoRoot''),
        (''outputPath'', outputPath)]) st"

definition lane_rollback_options :: "jsval \<Rightarrow> string \<Rightarrow> jsval \<Rightarrow> fields" where
  "lane_rollback_options opts action outputPath =
     [(''action'', JStr action),
      (''laneId'', getp opts ''laneId''),
      (''agentId'', getp opts ''agentId''),
      (''agentClass'', getp opts ''agentClass''),
      (''hostPlaneReportPath'', getp opts ''hostPlaneReportPath''),
      (''operatorCostProfilePath'', getp opts ''operatorCostProfilePath''),
      (''handshakeRoot'', getp opts ''handshakeRoot''),
      (''repoRoot'', getp opts ''repoRoot''),
      (''outputPath'', outputPath)]"

definition lane_to_release :: "jsval \<Rightarrow> bool" where
  "lane_to_release inspect \<longleftrightarrow>
     truthy (getp inspect ''handshake'') \<and>
     normalizeText_bd (getp inspect ''status'') \<notin> set [''not-found'', ''released'']"

definition maybeReleaseDockerLane :: "process \<Rightarrow> int \<Rightarrow> jsval \<Rightarrow> jsval \<Rightarrow> store \<Rightarrow> store \<times> jsval result" where
  "maybeReleaseDockerLane c now opts outputPath st =
     runE (runDockerLaneHandshake c now (JObj (lane_rollback_options opts ''inspect'' outputPath)) st) (\<lambda>inspect st1.
       if \<not> lane_to_release inspect then (st1, Inr inspect)
       else runDockerLaneHandshake c now (JObj (lane_rollback_options opts ''release'' outputPath @
              [(''leaseId'', getp2 (getp inspect ''handshake'') ''grant'' ''leaseId''), (''artifactPaths'', JArr [])])) st1)"

section \<open>The actions\<close>

text \<open>What \<^verbatim>\<open>runExecutionCellBundle\<close> computes before the dispatch.\<close>

record bundle_env =
  be_cellOptions :: jsval
  be_laneOptions :: jsval
  be_cellReport :: string
  be_laneReport :: string

text \<open>\<^verbatim>\<open>dockerLane = await runDockerLaneHandshake(opts); await writeReport(dockerLaneReportPath, dockerLane)\<close>.\<close>

definition lane_reported :: "process \<Rightarrow> int \<Rightarrow> string \<Rightarrow> jsval \<Rightarrow> string \<Rightarrow> store \<Rightarrow> store \<times> jsval result" where
  "lane_reported c now rnd opts out st =
     runE (runDockerLaneHandshake (lane_process c rnd) now opts st) (\<lambda>lane st1. (write_report out lane st1, Inr lane))"

definition with_action :: "jsval \<Rightarrow> string \<Rightarrow> jsval" where
  "with_action opts action = with_fields opts [(''action'', JStr action)]"

abbreviation parts_of :: "jsval \<Rightarrow> jsval \<Rightarrow> bundle_parts" where
  "parts_of cell lane \<equiv> \<lparr>bp_cell = cell, bp_lane = lane, bp_rollbacks = []\<rparr>"

definition request_bundle :: "process \<Rightarrow> int \<Rightarrow> string \<Rightarrow> bundle_env \<Rightarrow> store \<Rightarrow> store \<times> bundle_parts result" where
  "request_bundle c now rnd e st =
     runE (runExecutionCellLease c now (be_cellOptions e) st) (\<lambda>cell st1.
       if \<not> truthy (be_laneOptions e) then (st1, Inr (parts_of cell JNull))
       else runE (lane_reported c now rnd (be_laneOptions e) (be_laneReport e) st1) (\<lambda>lane st2.
              (st2, Inr (parts_of cell lane))))"

definition grant_bundle :: "process \<Rightarrow> int \<Rightarrow> string \<Rightarrow> bundle_env \<Rightarrow> store \<Rightarrow> store \<times> bundle_parts result" where
  "grant_bundle c now rnd e st =
     runE (runExecutionCellLease c now (be_cellOptions e) st) (\<lambda>cell st1.
       if \<not> truthy (be_laneOptions e) then (st1, Inr (parts_of cell JNull))
       else if normalizeText_bd (getp cell ''status'') = ''granted'' then
         runE (lane_reported c now rnd (be_laneOptions e) (be_laneReport e) st1) (\<lambda>lane st2.
           if normalizeText_bd (getp lane ''status'') \<noteq> ''granted'' then
             runE (maybeReleaseExecutionCell c now (be_cellOptions e) (JStr (be_cellReport e))
                     (getp2 (getp cell ''lease'') ''grant'' ''leaseId'') st2) (\<lambda>undone st3.
               (st3, Inr \<lparr>bp_cell = cell, bp_lane = lane, bp_rollbacks = [(''executionCell'', undone)]\<rparr>))
           else (st2, Inr (parts_of cell lane)))
       else
         runE (maybeReleaseDockerLane c now (be_laneOptions e) (JStr (be_laneReport e)) st1) (\<lambda>undone st2.
           (st2, Inr \<lparr>bp_cell = cell, bp_lane = JNull, bp_rollbacks = [(''dockerLane'', undone)]\<rparr>)))"

definition commit_bundle :: "process \<Rightarrow> int \<Rightarrow> string \<Rightarrow> bundle_env \<Rightarrow> store \<Rightarrow> store \<times> bundle_parts result" where
  "commit_bundle c now rnd e st =
     (if \<not> truthy (be_laneOptions e) then
        runE (runExecutionCellLease c now (be_cellOptions e) st) (\<lambda>cell st1. (st1, Inr (parts_of cell JNull)))
      else
        runE (lane_reported c now rnd (be_laneOptions e) (be_laneReport e) st) (\<lambda>lane st1.
          if normalizeText_bd (getp lane ''status'') = ''committed'' then
            runE (runExecutionCellLease c now (be_cellOptions e) st1) (\<lambda>cell st2.
              if normalizeText_bd (getp cell ''status'') \<noteq> ''committed'' then
                runE (maybeReleaseDockerLane c now (be_laneOptions e) (JStr (be_laneReport e)) st2) (\<lambda>undone st3.
                  (st3, Inr \<lparr>bp_cell = cell, bp_lane = lane, bp_rollbacks = [(''dockerLane'', undone)]\<rparr>))
              else (st2, Inr (parts_of cell lane)))
          else
            runE (runExecutionCellLease c now (with_action (be_cellOptions e) ''inspect'') st1) (\<lambda>cell st2.
              (st2, Inr (parts_of cell lane)))))"

text \<open>Heartbeat and release run the lane first, then the cell.\<close>

definition lane_then_cell :: "process \<Rightarrow> int \<Rightarrow> string \<Rightarrow> bundle_env \<Rightarrow> store \<Rightarrow> store \<times> bundle_parts result" where
  "lane_then_cell c now rnd e st =
     runE (if truthy (be_laneOptions e) then lane_reported c now rnd (be_laneOptions e) (be_laneReport e) st
           else (st, Inr JNull)) (\<lambda>lane st1.
     runE (runExecutionCellLease c now (be_cellOptions e) st1) (\<lambda>cell st2. (st2, Inr (parts_of cell lane))))"

definition inspect_bundle :: "process \<Rightarrow> int \<Rightarrow> string \<Rightarrow> bundle_env \<Rightarrow> store \<Rightarrow> store \<times> bundle_parts result" where
  "inspect_bundle c now rnd e st =
     runE (runExecutionCellLease c now (with_action (be_cellOptions e) ''inspect'') st) (\<lambda>cell st1.
       if \<not> truthy (be_laneOptions e) then (st1, Inr (parts_of cell JNull))
       else runE (lane_reported c now rnd (with_action (be_laneOptions e) ''inspect'') (be_laneReport e) st1)
              (\<lambda>lane st2. (st2, Inr (parts_of cell lane))))"

definition dispatch_bundle :: "process \<Rightarrow> int \<Rightarrow> string \<Rightarrow> jsval \<Rightarrow> bundle_env \<Rightarrow> store \<Rightarrow> store \<times> bundle_parts result" where
  "dispatch_bundle c now rnd action e st =
     (let a = to_lower (normalizeText_bd action)
      in if a = ''request'' then request_bundle c now rnd e st
         else if a = ''grant'' then grant_bundle c now rnd e st
         else if a = ''commit'' then commit_bundle c now rnd e st
         else if a = ''heartbeat'' \<or> a = ''release'' then lane_then_cell c now rnd e st
         else if a = ''inspect'' then inspect_bundle c now rnd e st
         else (st, Inl (ErrorMsg (''Unsupported action '' @ [CHR 0x27] @ js_string action @ [CHR 0x27]))))"

definition cell_options_of :: "jsval \<Rightarrow> string \<Rightarrow> string list \<Rightarrow> string \<Rightarrow> string \<Rightarrow> jsval" where
  "cell_options_of opts repoRoot capabilities cellReport laneReport = JObj
     [(''action'', getp opts ''action''),
      (''cellId'', getp opts ''cellId''),
      (''agentId'', getp opts ''agentId''),
      (''agentClass'', getp opts ''agentClass''),
      (''cellClass'', getp opts ''cellClass''),
      (''suiteClass'', getp opts ''suiteClass''),
      (''planeBinding'', getp opts ''planeBinding''),
      (''harnessKind'', js_or (getp opts ''harnessKind'') (JStr DEFAULT_HARNESS_KIND)),
      (''capabilities'', jstrs capabilities),
      (''operatorId'', getp opts ''operatorId''),
      (''operatorAuthorizationRef'', getp opts ''operatorAuthorizationRef''),
      (''workingRoot'', getp opts ''workingRoot''),
      (''artifactRoot'', getp opts ''artifactRoot''),
      (''harnessInstanceId'', getp opts ''harnessInstanceId''),
      (''dockerLaneReportPath'', JStr laneReport),
      (''hostPlaneReportPath'', getp opts ''hostPlaneReportPath''),
      (''operatorCostProfilePath'', getp opts ''operatorCostProfilePath''),
      (''leaseRoot'', getp opts ''leaseRoot''),
      (''repoRoot'', JStr repoRoot),
      (''artifactPaths'', getp opts ''artifactPaths''),
      (''outputPath'', JStr cellReport)]"

definition lane_options_of :: "jsval \<Rightarrow> string \<Rightarrow> string list \<Rightarrow> string \<Rightarrow> string \<Rightarrow> jsval" where
  "lane_options_of opts repoRoot capabilities cellReport laneReport = JObj
     [(''action'', getp opts ''action''),
      (''laneId'', getp opts ''laneId''),
      (''agentId'', getp opts ''agentId''),
      (''agentClass'', getp opts ''agentClass''),
      (''capabilities'', jstrs capabilities),
      (''operatorId'', getp opts ''operatorId''),
      (''operatorAuthorizationRef'', getp opts ''operatorAuthorizationRef''),
      (''executionCellReportPath'', JStr cellReport),
      (''hostPlaneReportPath'', getp opts ''hostPlaneReportPath''),
      (''operatorCostProfilePath'', getp opts ''operatorCostProfilePath''),
      (''handshakeRoot'', getp opts ''handshakeRoot''),
      (''repoRoot'', JStr repoRoot),
      (''artifactPaths'', getp opts ''artifactPaths''),
      (''outputPath'', JStr laneReport)]"

text \<open>A refused bundle reports on nothing but itself.\<close>

definition refused_bundle :: "bundle_run \<Rightarrow> string \<Rightarrow> jsval" where
  "refused_bundle u reason =
     (let report = buildReport u (parts_of JNull JNull)
      in set_field (set_field report ''status'' (JStr ''invalid-state''))
           ''summary'' (set_field (getp report ''summary'') ''denialReasons'' (jstrs [reason])))"

text \<open>The paths and capabilities of a bundle, computed before the guards.\<close>

record bundle_setup =
  bs_repoRoot :: string
  bs_outputPath :: string
  bs_dockerRequested :: bool
  bs_capabilities :: "string list"

definition bundle_setup_of :: "process \<Rightarrow> jsval \<Rightarrow> bundle_setup result" where
  "bundle_setup_of c opts =
     bindE (as_text (js_or (getp opts ''repoRoot'') (JStr (moduleRepoRoot c)))) (\<lambda>root.
     let repoRoot = path_resolve (workingDir c) [root]
     in bindE (resolve_under c (JStr repoRoot)
           (js_or (getp opts ''outputPath'') (JStr DEFAULT_OUTPUT_PATH_bd))) (\<lambda>outputPath.
        bindE (wantsDockerLane opts) (\<lambda>dockerRequested.
        bindE (inferBundleCapabilities (getp opts ''capabilities'') (getp opts ''planeBinding'') dockerRequested)
          (\<lambda>capabilities. Inr \<lparr>bs_repoRoot = repoRoot, bs_outputPath = outputPath,
             bs_dockerRequested = dockerRequested, bs_capabilities = capabilities\<rparr>))))"

definition bundle_env_of :: "process \<Rightarrow> jsval \<Rightarrow> bundle_setup \<Rightarrow> bundle_env result" where
  "bundle_env_of c opts s =
     bindE (resolve_under c (JStr (bs_repoRoot s))
       (js_or (getp opts ''executionCellReportPath'') (JStr DEFAULT_OUTPUT_PATH))) (\<lambda>cellReport.
     bindE (resolve_under c (JStr (bs_repoRoot s))
       (js_or (getp opts ''dockerLaneReportPath'') (JStr DEFAULT_OUTPUT_PATH_dl))) (\<lambda>laneReport.
       Inr \<lparr>be_cellOptions = cell_options_of opts (bs_repoRoot s) (bs_capabilities s) cellReport laneReport,
            be_laneOptions = (if bs_dockerRequested s
               then lane_options_of opts (bs_repoRoot s) (bs_capabilities s) cellReport laneReport else JNull),
            be_cellReport = cellReport, be_laneReport = laneReport\<rparr>))"

definition bundle_run_of :: "bundle_setup \<Rightarrow> int \<Rightarrow> jsval \<Rightarrow> jsval \<Rightarrow> jsval \<Rightarrow> bundle_run" where
  "bundle_run_of s now action cellId laneId =
     \<lparr>bn_action = action, bn_generatedAt = iso_string now, bn_cellId = cellId, bn_laneId = laneId,
      bn_outputPath = bs_outputPath s, bn_dockerRequested = bs_dockerRequested s,
      bn_capabilities = bs_capabilities s\<rparr>"

definition finish_bundle :: "string \<Rightarrow> jsval \<Rightarrow> store \<Rightarrow> store \<times> jsval result" where
  "finish_bundle outputPath report st = (write_report outputPath report st, Inr report)"

text \<open>The part of \<^verbatim>\<open>runExecutionCellBundle\<close> after the two guards.\<close>

definition run_bundle :: "process \<Rightarrow> int \<Rightarrow> string \<Rightarrow> jsval \<Rightarrow> bundle_setup \<Rightarrow> store \<Rightarrow> store \<times> jsval result" where
  "run_bundle c now rnd opts s st =
     (case bundle_env_of c opts s of
        Inl x \<Rightarrow> (st, Inl x)
      | Inr e \<Rightarrow>
          runE (dispatch_bundle c now rnd (getp opts ''action'') e st) (\<lambda>b st1.
            finish_bundle (bs_outputPath s)
              (buildReport (bundle_run_of s now (JStr (to_lower (normalizeText_bd (getp opts ''action''))))
                 (getp opts ''cellId'') (getp opts ''laneId'')) b) st1))"

definition runExecutionCellBundle :: "process \<Rightarrow> int \<Rightarrow> string \<Rightarrow> jsval \<Rightarrow> store \<Rightarrow> store \<times> jsval result" where
  "runExecutionCellBundle c now rnd opts st =
     (case bundle_setup_of c opts of
        Inl x \<Rightarrow> (st, Inl x)
      | Inr s \<Rightarrow>
          if \<not> truthy (toOptionalText_bd (getp opts ''cellId'')) then
            finish_bundle (bs_outputPath s)
              (refused_bundle (bundle_run_of s now (getp opts ''action'') (JStr []) (getp opts ''laneId''))
                 ''cell-id-required'') st
          else if bs_dockerRequested s \<and> \<not> truthy (toOptionalText_bd (getp opts ''laneId'')) then
            finish_bundle (bs_outputPath s)
              (refused_bundle (bundle_run_of s now (getp opts ''action'') (getp opts ''cellId'') (JStr []))
                 ''lane-id-required'') st
          else run_bundle c now rnd opts s st)"

section \<open>The command line\<close>

definition bundle_text_options :: "(string \<times> string) list" where
  "bundle_text_options =
     [(''--action'', ''action''), (''--cell-id'', ''cellId''), (''--lane-id'', ''laneId''),
      (''--agent-id'', ''agentId''), (''--agent-class'', ''agentClass''), (''--cell-class'', ''cellClass''),
      (''--suite-class'', ''suiteClass''), (''--plane-binding'', ''planeBinding''),
      (''--harness-kind'', ''harnessKind''), (''--operator-id'', ''operatorId''),
      (''--operator-authorization-ref'', ''operatorAuthorizationRef''), (''--working-root'', ''workingRoot''),
      (''--artifact-root'', ''artifactRoot''), (''--harness-instance-id'', ''harnessInstanceId''),
      (''--host-plane-report'', ''hostPlaneReportPath''), (''--operator-cost-profile'', ''operatorCostProfilePath''),
      (''--execution-cell-report'', ''executionCellReportPath''), (''--docker-lane-report'', ''dockerLaneReportPath''),
      (''--lease-root'', ''leaseRoot''), (''--handshake-root'', ''handshakeRoot''), (''--output'', ''outputPath'')]"

fun parse_bundle_args :: "jsval \<Rightarrow> string list \<Rightarrow> jsval result" where
  "parse_bundle_args options [] = Inr options"
| "parse_bundle_args options (token # rest) =
     (if token = ''--help'' \<or> token = ''-h'' then parse_bundle_args (set_field options ''help'' (JBool True)) rest
      else
        (case map_of bundle_text_options token of
           Some key \<Rightarrow> parse_bundle_args (set_field options key (next_argument rest)) (tl rest)
         | None \<Rightarrow>
             if token = ''--capability'' then
               parse_bundle_args (push_field ''capabilities'' [next_argument rest] options) (tl rest)
             else if token = ''--artifact-path'' then
               parse_bundle_args (push_field ''artifactPaths'' [next_argument rest] options) (tl rest)
             else Inl (ErrorMsg (''Unknown argument '' @ [CHR 0x27] @ token @ [CHR 0x27]))))"

definition parseArgs_bundle :: "string list \<Rightarrow> jsval result" where
  "parseArgs_bundle args = parse_bundle_args (JObj
     [(''action'', JStr []), (''cellId'', JStr []), (''laneId'', JStr []), (''agentId'', JStr []),
      (''agentClass'', JStr []), (''cellClass'', JStr []), (''suiteClass'', JStr []), (''planeBinding'', JStr []),
      (''harnessKind'', JStr DEFAULT_HARNESS_KIND), (''capabilities'', JArr []), (''operatorId'', JStr []),
      (''operatorAuthorizationRef'', JStr []), (''workingRoot'', JStr []), (''artifactRoot'', JStr []),
      (''harnessInstanceId'', JStr []), (''hostPlaneReportPath'', JStr []), (''operatorCostProfilePath'', JStr []),
      (''executionCellReportPath'', JStr []), (''dockerLaneReportPath'', JStr []), (''outputPath'', JStr []),
      (''leaseRoot'', JStr []), (''handshakeRoot'', JStr []), (''artifactPaths'', JArr []), (''help'', JBool False)]) args"

definition exitCodeForStatus_bd :: "jsval \<Rightarrow> nat" where
  "exitCodeForStatus_bd status =
     (if status \<in> JStr ` set [''requested'', ''granted'', ''committed'', ''renewed'', ''released'', ''active''] then 0
      else if status = JStr ''not-found'' then 0 else 1)"

definition bundle_main :: "process \<Rightarrow> int \<Rightarrow> string \<Rightarrow> string list \<Rightarrow> store \<Rightarrow> store \<times> nat result" where
  "bundle_main c now rnd args st =
     (case parseArgs_bundle args of
        Inl e \<Rightarrow> (st, Inl e)
      | Inr options \<Rightarrow>
          if truthy (getp options ''help'') then (st, Inr 0)
          else runE (runExecutionCellBundle c now rnd
                 (with_fields options [(''repoRoot'', JStr (workingDir c))]) st) (\<lambda>report st1.
                 (st1, Inr (exitCodeForStatus_bd (getp report ''status'')))))"

section \<open>The status of a bundle\<close>

lemma firstFailure_None:
  "firstFailureStatus reports = None \<Longrightarrow> r \<in> set reports \<Longrightarrow>
     normalizeText (getp r ''status'') = [] \<or> normalizeText (getp r ''status'') \<in> set SUCCESS_STATUS"
  by (induction reports) (auto simp: isSuccessfulStatus_def Let_def split: if_splits)

lemma firstFailure_Some:
  "firstFailureStatus reports = Some s \<Longrightarrow> s \<notin> set SUCCESS_STATUS"
  by (induction reports) (auto simp: isSuccessfulStatus_def Let_def split: if_splits)

text \<open>
  Outside inspection a bundle reports a success status only when the cell, and the lane if
  there is one, reports that same status.
\<close>

theorem bundle_status_sound:
  assumes "resolveBundleStatus action cell lane rollbacks = s" "s \<in> set SUCCESS_STATUS"
    "action \<noteq> JStr ''inspect''"
  shows "normalizeText (getp cell ''status'') = s \<and> (truthy lane \<longrightarrow> normalizeText (getp lane ''status'') = s)"
proof -
  let ?all = "[cell, lane, getp rollbacks ''executionCell'', getp rollbacks ''dockerLane'']"
  have none: "firstFailureStatus ?all = None"
    using assms(1,2) firstFailure_Some [of ?all] by (cases "firstFailureStatus ?all") (auto simp: resolveBundleStatus_def Let_def simp del: firstFailureStatus.simps)
  have "normalizeText (getp r ''status'') \<noteq> ''not-found''" if "r \<in> set ?all" for r
    using firstFailure_None [OF none that] by (auto simp: SUCCESS_STATUS_def)
  then have found: "normalizeText (getp cell ''status'') \<noteq> ''not-found''" "normalizeText (getp lane ''status'') \<noteq> ''not-found''"
    by simp_all
  have odd: "''not-found'' \<notin> set SUCCESS_STATUS" "''partial'' \<notin> set SUCCESS_STATUS"
    by (simp_all add: SUCCESS_STATUS_def)
  show ?thesis
    using assms odd found by (auto simp: resolveBundleStatus_def none Let_def simp del: firstFailureStatus.simps split: if_splits)
qed

section \<open>What a run leaves alone\<close>

definition lane_file :: "process \<Rightarrow> jsval \<Rightarrow> string result" where
  "lane_file c opts =
     bindE (defaultHandshakeRoot c (js_or (getp opts ''repoRoot'') (JStr (moduleRepoRoot c))) (getp opts ''handshakeRoot''))
       (\<lambda>rootValue. bindE (as_text rootValue) (\<lambda>handshakeRoot.
          Inr (handshakePathForLane (JStr (normalizeText (getp opts ''laneId''))) handshakeRoot)))"

definition cell_file :: "process \<Rightarrow> jsval \<Rightarrow> string result" where
  "cell_file c opts =
     bindE (defaultLeaseRoot c (with_fields opts [(''repoRoot'', js_or (getp opts ''repoRoot'') (JStr (moduleRepoRoot c)))]))
       (\<lambda>leaseRootValue. bindE (as_text leaseRootValue) (\<lambda>leaseRoot.
          Inr (leasePathForCell (toOptionalText (getp opts ''cellId'')) leaseRoot)))"

lemma prepared_lane_file:
  "prepare_lane_run c now opts st = Inr r \<Longrightarrow> lane_file c opts = Inr (dl_path r)"
  by (auto simp: prepare_lane_run_def lane_file_def Let_def)

lemma prepared_cell_file:
  "prepare_cell_run c now opts st = Inr r \<Longrightarrow> cell_file c opts = Inr (ec_leasePath r)"
  by (auto simp: prepare_cell_run_def cell_file_def Let_def split: if_splits)

lemma lane_file_cong:
  "getp opts ''repoRoot'' = getp opts' ''repoRoot'' \<Longrightarrow> getp opts ''handshakeRoot'' = getp opts' ''handshakeRoot'' \<Longrightarrow>
   getp opts ''laneId'' = getp opts' ''laneId'' \<Longrightarrow> lane_file c opts = lane_file c opts'"
  by (simp add: lane_file_def)

lemma lookup_spread [simp]: "is_object w \<and> \<not> is_array w \<Longrightarrow> lookup (spread w) k = getp w k"
  by (cases w) auto

lemma cell_file_cong:
  "getp opts ''repoRoot'' = getp opts' ''repoRoot'' \<Longrightarrow> getp opts ''leaseRoot'' = getp opts' ''leaseRoot'' \<Longrightarrow>
   getp opts ''cellId'' = getp opts' ''cellId'' \<Longrightarrow> is_object opts \<and> \<not> is_array opts \<Longrightarrow>
   is_object opts' \<and> \<not> is_array opts' \<Longrightarrow> cell_file c opts = cell_file c opts'"
  by (simp add: cell_file_def defaultLeaseRoot_def resolveDefaultLeaseRoot_def getp_with_fields Let_def split: option.split)

lemma lane_file_process [simp]: "lane_file (lane_process c rnd) opts = lane_file c opts"
  by (simp add: lane_file_def lane_process_def defaultHandshakeRoot_def resolveDefaultHandshakeRoot_def env_value_def Let_def
      split: option.split)

lemma lane_process_simps [simp]: "pid (lane_process c rnd) = pid c" "clockMs (lane_process c rnd) = clockMs c"
  by (simp_all add: lane_process_def)

lemma run_lane_frame:
  assumes "lane_file c opts = Inr p" "q \<notin> touched_paths (pid c) (clockMs c) p"
  shows "fst (runDockerLaneHandshake c now opts st) q = st q"
proof (cases "prepare_lane_run c now opts st")
  case (Inr r)
  with assms have "q \<notin> touched_paths (pid c) (clockMs c) (dl_path r)"
    using prepared_lane_file [OF Inr] by simp
  then show ?thesis
    using outcome_run_lane [of c now opts r st]
    by (auto simp: runDockerLaneHandshake_prepared [OF Inr] lane_outcome_def write_json_dl_def atomic_replace_apply touched_paths_def)
qed (simp add: runDockerLaneHandshake_def)

lemma lane_reported_frame:
  assumes "lane_file c opts = Inr p" "q \<notin> touched_paths (pid c) (clockMs c) p" "q \<noteq> out"
  shows "fst (lane_reported c now rnd opts out st) q = st q"
proof -
  obtain st1 res where run: "runDockerLaneHandshake (lane_process c rnd) now opts st = (st1, res)"
    by force
  have "st1 q = st q"
    using run_lane_frame [of "lane_process c rnd" opts p q now st] assms run by simp
  then show ?thesis
    using assms(3) run by (cases res) (simp_all add: lane_reported_def write_report_def)
qed


section \<open>Rolling a grant back\<close>

definition cell_out :: "process \<Rightarrow> jsval \<Rightarrow> string result" where
  "cell_out c opts =
     resolve_under c (js_or (getp opts ''repoRoot'') (JStr (moduleRepoRoot c)))
       (js_or (getp opts ''outputPath'') (JStr DEFAULT_OUTPUT_PATH))"

lemma prepared_cell_out: "prepare_cell_run c now opts st = Inr r \<Longrightarrow> cell_out c opts = Inr (ec_outputPath r)"
  by (auto simp: prepare_cell_run_def cell_out_def Let_def split: if_splits)

lemma prepared_cell_action:
  "prepare_cell_run c now opts st = Inr r \<Longrightarrow> trimmed a \<Longrightarrow> a \<noteq> [] \<Longrightarrow> getp opts ''action'' = JStr a \<Longrightarrow> ec_action r = a"
  by (auto simp: prepare_cell_run_def Let_def split: if_splits)

text \<open>The rollback finds the lease the grant has just written, and its lease id matches.\<close>

lemma cell_rollback:
  assumes "prepare_cell_run c now opts st = Inr r" "cell_separated c r" "is_object opts \<and> \<not> is_array opts"
    "st2 (ec_leasePath r) = Some (Doc d)" "truthy d"
    "maybeReleaseExecutionCell c now opts (getp opts ''outputPath'') (getp2 d ''grant'' ''leaseId'') st2 = (st3, Inr undone)"
  shows "\<exists>l. st3 (ec_leasePath r) = Some (Doc l) \<and> getp l ''state'' = JStr ''released''"
    "getp undone ''status'' = JStr ''released''"
proof -
  define ro where "ro = JObj
       [(''action'', JStr ''release''), (''cellId'', getp opts ''cellId''), (''leaseId'', getp2 d ''grant'' ''leaseId''),
        (''artifactPaths'', JArr []), (''hostPlaneReportPath'', getp opts ''hostPlaneReportPath''),
        (''operatorCostProfilePath'', getp opts ''operatorCostProfilePath''), (''leaseRoot'', getp opts ''leaseRoot''),
        (''repoRoot'', getp opts ''repoRoot''), (''outputPath'', getp opts ''outputPath'')]"
  have run: "runExecutionCellLease c now ro st2 = (st3, Inr undone)"
    using assms(6) by (simp add: maybeReleaseExecutionCell_def ro_def)
  then obtain r2 where r2: "prepare_cell_run c now ro st2 = Inr r2"
    by (cases "prepare_cell_run c now ro st2") (auto simp: runExecutionCellLease_def)
  have "cell_file c ro = cell_file c opts" "cell_out c ro = cell_out c opts"
    using assms(3) by (auto simp: ro_def cell_out_def intro!: cell_file_cong)
  then have same: "ec_leasePath r2 = ec_leasePath r" "ec_outputPath r2 = ec_outputPath r"
    using prepared_cell_file [OF r2] prepared_cell_file [OF assms(1)] prepared_cell_out [OF r2] prepared_cell_out [OF assms(1)]
    by simp_all
  have found: "ec_existing r2 = d"
    using prepared_fields(2) [OF r2] assms(4) same by (simp add: read_doc_def)
  have act: "ec_action r2 = ''release''"
    by (rule prepared_cell_action [OF r2]) (simp_all add: ro_def trimmed_def is_space_def)
  have match: "\<not> lease_id_mismatch ro d" "artifact_paths (getp ro ''artifactPaths'') = Inr []"
    by (simp_all add: lease_id_mismatch_def ro_def)
  have "(st3, Inr undone) = commit_lease c r2 (released_lease now r2 []) ''released'' [] st2"
    using run match assms(5) by (simp add: runExecutionCellLease_prepared [OF r2] run_cell_action_def act found release_cell_def)
  moreover have "cell_separated c r2"
    using assms(2) same by (simp add: cell_separated_def)
  ultimately have "st3 (ec_leasePath r) = Some (Doc (json_norm (released_lease now r2 [])))"
      and "getp undone ''status'' = JStr ''released''"
    using at_commit_lease [of c r2 "released_lease now r2 []" "''released''" "[]" st2] same
      status_commit_lease [of c r2 "released_lease now r2 []" "''released''" "[]" st2 undone]
    by (metis fst_conv, metis snd_conv)
  moreover have "getp (json_norm (released_lease now r2 [])) ''state'' = JStr ''released''"
    by (simp add: released_lease_def touch_fields_def getp_stored_new del: json_norm.simps(7))
  ultimately show "\<exists>l. st3 (ec_leasePath r) = Some (Doc l) \<and> getp l ''state'' = JStr ''released''"
      and "getp undone ''status'' = JStr ''released''"
    by blast+
qed

lemma status_refuse_run [simp]: "snd (refuse_run c r s reasons st) = Inr rep \<Longrightarrow> getp rep ''status'' = JStr s"
  by (auto simp: refuse_run_def)

lemma status_missing_cell [simp]: "snd (missing_cell c r st) = Inr rep \<Longrightarrow> getp rep ''status'' = JStr ''not-found''"
  by (auto simp: missing_cell_def)

lemma cell_granted:
  assumes "prepare_cell_run c now opts st = Inr r" "ec_action r = ''grant''"
    "runExecutionCellLease c now opts st = (st1, Inr cell)" "normalizeText (getp cell ''status'') = ''granted''"
  obtains d where "(st1, Inr cell) = commit_lease c r (granted_lease c now opts r d) ''granted'' (observations_of (ec_hostContext r)) st"
proof -
  have trim: "trim ''denied'' = ''denied''" "trim ''busy'' = ''busy''" "trim ''not-found'' = ''not-found''"
    by (simp_all add: trimmed_def is_space_def)
  have run: "(st1, Inr cell) = (if truthy (ec_existing r) then grant_cell c now opts r st else missing_cell c r st)"
    using assms(3) by (simp add: runExecutionCellLease_prepared [OF assms(1)] run_cell_action_def assms(2) Let_def split: if_splits)
  have neq: "snd (missing_cell c r st) \<noteq> Inr cell" "\<And>s reasons. s \<in> {''denied'', ''busy''} \<Longrightarrow> snd (refuse_run c r s reasons st) \<noteq> Inr cell"
    using assms(4) status_missing_cell [of c r st cell] status_refuse_run [of c r _ _ st cell] trim by fastforce+
  have "truthy (ec_existing r)"
    using run neq(1) by (metis snd_conv)
  with run have "(st1, Inr cell) = grant_cell c now opts r st" by simp
  then show ?thesis
    using neq(2) that by (auto simp: grant_cell_def split: sum.splits if_splits dest!: arg_cong [of _ _ snd]) blast+
qed


lemma getp_or_null [simp]: "getp (js_or v JNull) k = getp v k"
  by (cases v) (auto simp: js_or_def)

text \<open>
  The paths of a bundle do not run into each other: the lease file is none of the files the docker
  lane and the reports are written to.
\<close>

definition bundle_apart :: "process \<Rightarrow> bundle_env \<Rightarrow> string \<Rightarrow> string \<Rightarrow> bool" where
  "bundle_apart c e outputPath leasePath \<longleftrightarrow>
     (\<exists>p. lane_file c (be_laneOptions e) = Inr p \<and> leasePath \<notin> touched_paths (pid c) (clockMs c) p) \<and>
     leasePath \<noteq> be_laneReport e \<and> leasePath \<noteq> outputPath"

lemma env_options:
  assumes "bundle_env_of c opts s = Inr e"
  shows "getp (be_cellOptions e) ''outputPath'' = JStr (be_cellReport e)"
    "is_object (be_cellOptions e) \<and> \<not> is_array (be_cellOptions e)"
    "getp (be_cellOptions e) ''action'' = getp opts ''action''"
    "getp (be_cellOptions e) ''dockerLaneReportPath'' = JStr (be_laneReport e)"
    "truthy (be_laneOptions e) \<longleftrightarrow> bs_dockerRequested s"
    "bs_dockerRequested s \<Longrightarrow> getp (be_laneOptions e) ''executionCellReportPath'' = JStr (be_cellReport e)"
    "bs_dockerRequested s \<Longrightarrow> getp (be_laneOptions e) ''action'' = getp opts ''action''"
    "bs_dockerRequested s \<Longrightarrow> getp (be_laneOptions e) ''laneId'' = getp opts ''laneId''"
    "getp (be_cellOptions e) ''cellId'' = getp opts ''cellId''"
  using assms by (auto simp: bundle_env_of_def cell_options_of_def lane_options_of_def split: if_splits)

lemma grant_bundle_atomic:
  assumes "grant_bundle c now rnd e st = (st', Inr b)" "truthy (be_laneOptions e)"
    "prepare_cell_run c now (be_cellOptions e) st = Inr r" "ec_action r = ''grant''" "cell_separated c r"
    "getp (be_cellOptions e) ''outputPath'' = JStr (be_cellReport e)"
    "is_object (be_cellOptions e) \<and> \<not> is_array (be_cellOptions e)"
    "bundle_apart c e out (ec_leasePath r)"
    "normalizeText (getp (bp_cell b) ''status'') = ''granted''"
  shows "normalizeText (getp (bp_lane b) ''status'') = ''granted'' \<and> bp_rollbacks b = [] \<or>
     getp2 (JObj (bp_rollbacks b)) ''executionCell'' ''status'' = JStr ''released'' \<and>
     (\<exists>l. st' (ec_leasePath r) = Some (Doc l) \<and> getp l ''state'' = JStr ''released'')"
proof -
  obtain st1 cell where cell: "runExecutionCellLease c now (be_cellOptions e) st = (st1, Inr cell)"
    and bcell: "bp_cell b = cell"
    using assms(1,2) by (auto simp: grant_bundle_def runE_Inr_iff split: if_splits)
  have gcell: "normalizeText (getp cell ''status'') = ''granted''"
    using assms(9) bcell by simp
  obtain d where wrote: "(st1, Inr cell) = commit_lease c r (granted_lease c now (be_cellOptions e) r d) ''granted''
      (observations_of (ec_hostContext r)) st"
    using cell_granted [OF assms(3,4) cell gcell] by auto
  obtain st2 lane where lane: "lane_reported c now rnd (be_laneOptions e) (be_laneReport e) st1 = (st2, Inr lane)"
    using assms(1,2) by (auto simp: grant_bundle_def runE_Inr_iff cell gcell split: if_splits)
  show ?thesis
  proof (cases "normalizeText (getp lane ''status'') = ''granted''")
    case True
    then have "grant_bundle c now rnd e st = (st2, Inr (parts_of cell lane))"
      using assms(2) by (simp add: grant_bundle_def cell lane gcell)
    with True show ?thesis
      using assms(1) by auto
  next
    case False
    let ?l = "json_norm (granted_lease c now (be_cellOptions e) r d)"
    have doc: "st1 (ec_leasePath r) = Some (Doc ?l)"
      using at_commit_lease [OF assms(5)] wrote by (metis fst_conv)
    have "st2 (ec_leasePath r) = Some (Doc ?l)"
      using assms(8) lane_reported_frame [of c "be_laneOptions e" _ "ec_leasePath r" "be_laneReport e" now rnd st1] lane doc
      by (auto simp: bundle_apart_def)
    moreover have "truthy ?l"
      by (simp add: granted_lease_def)
    moreover have id: "getp2 (getp cell ''lease'') ''grant'' ''leaseId'' = getp2 ?l ''grant'' ''leaseId''"
    proof -
      have "getp cell ''lease'' = granted_lease c now (be_cellOptions e) r d"
        using wrote by (auto simp: commit_lease_def finish_run_def)
      then show ?thesis
        by (simp add: granted_lease_def getp_stored_new getp_with_fields lookup_override [of "spread (ec_existing r)"]
            touch_fields_def getp_json_norm_defined del: json_norm.simps(7))
    qed
    moreover obtain undone where "maybeReleaseExecutionCell c now (be_cellOptions e) (JStr (be_cellReport e))
        (getp2 (getp cell ''lease'') ''grant'' ''leaseId'') st2 = (st', Inr undone)"
      and undone: "bp_rollbacks b = [(''executionCell'', undone)]"
      using False assms(1,2) by (auto simp: grant_bundle_def runE_Inr_iff cell lane gcell)
    ultimately have "\<exists>l. st' (ec_leasePath r) = Some (Doc l) \<and> getp l ''state'' = JStr ''released''"
        "getp undone ''status'' = JStr ''released''"
      using cell_rollback [OF assms(3,5,7), of st2 ?l st' undone] assms(6) by simp_all
    then show ?thesis
      by (simp add: undone)
  qed
qed

text \<open>
  C15: A bundle grant with non-empty cell and lane ids that asks for a docker lane and returns a
  report, and whose cell run granted the cell, either granted the docker lane too or has taken the
  grant of the cell back: the lease file then holds a released lease. The lease file of the cell
  is none of the other files the bundle writes. (A lane half that throws returns no report:
  theorem bundle_throw_keeps_grant shows that the cell then stays granted.)
\<close>

theorem bundle_grant_atomic:
  assumes "runExecutionCellBundle c now rnd opts st = (st', Inr report)"
    "bundle_setup_of c opts = Inr s" "bundle_env_of c opts s = Inr e" "bs_dockerRequested s"
    "getp opts ''action'' = JStr ''grant''" "normalizeText (getp opts ''cellId'') \<noteq> []" "normalizeText (getp opts ''laneId'') \<noteq> []"
    "prepare_cell_run c now (be_cellOptions e) st = Inr r" "cell_separated c r"
    "bundle_apart c e (bs_outputPath s) (ec_leasePath r)"
    "getp2 report ''executionCell'' ''status'' = JStr ''granted''"
  shows "normalizeText (getp2 report ''dockerLane'' ''status'') = ''granted'' \<or>
     getp2 (getp report ''rollbacks'') ''executionCell'' ''status'' = JStr ''released'' \<and>
     (\<exists>l. st' (ec_leasePath r) = Some (Doc l) \<and> getp l ''state'' = JStr ''released'')"
proof -
  have grant: "trim ''grant'' = ''grant''" "to_lower ''grant'' = ''grant''" "trim ''granted'' = ''granted''"
    by (simp_all add: trimmed_def is_space_def) (simp add: to_lower_def lower_char_def)
  obtain st1 b where b: "grant_bundle c now rnd e st = (st1, Inr b)"
    and report: "report = buildReport (bundle_run_of s now (JStr ''grant'') (getp opts ''cellId'') (getp opts ''laneId'')) b"
    and st': "st' = write_report (bs_outputPath s) report st1"
    using assms(1-7) grant
    by (auto simp: runExecutionCellBundle_def run_bundle_def finish_bundle_def dispatch_bundle_def runE_Inr_iff Let_def)
  have action: "ec_action r = ''grant''"
    by (rule prepared_cell_action [OF assms(8)]) (simp_all add: env_options(3) [OF assms(3)] assms(5) trimmed_def is_space_def)
  have "normalizeText (getp (bp_cell b) ''status'') = ''granted''"
    using assms(11) grant by (simp add: report buildReport_def Let_def)
  note atomic = grant_bundle_atomic [OF b _ assms(8) action assms(9) env_options(1,2) [OF assms(3)] assms(10) this]
  have "ec_leasePath r \<noteq> bs_outputPath s"
    using assms(10) by (simp add: bundle_apart_def)
  then show ?thesis
    using atomic assms(4) env_options(5) [OF assms(3)]
    by (auto simp: st' write_report_def report buildReport_def Let_def)
qed

lemma prepared_lane_read: "prepare_lane_run c now opts st = Inr lr \<Longrightarrow> read_doc (dl_path lr) st = Inr (dl_current lr)"
  by (auto simp: prepare_lane_run_def Let_def)

lemma malformed_lane_throws:
  assumes "lane_file c opts = Inr p" "st p = Some Malformed"
  shows "\<exists>err. lane_reported c now rnd opts out st = (st, Inl err)"
proof -
  have "\<exists>err. prepare_lane_run (lane_process c rnd) now opts st = Inl err"
  proof (rule ccontr)
    assume "\<not> ?thesis"
    then obtain lr where "prepare_lane_run (lane_process c rnd) now opts st = Inr lr"
      by (cases "prepare_lane_run (lane_process c rnd) now opts st") auto
    from prepared_lane_read [OF this] prepared_lane_file [OF this] assms show False
      by (simp add: read_doc_def)
  qed
  then show ?thesis
    by (auto simp: lane_reported_def runDockerLaneHandshake_def)
qed

text \<open>
  When the docker-lane half of a grant throws, here on a handshake file that does not parse, nothing
  takes the grant of the cell back: the run throws and the lease file holds the granted lease.
\<close>

theorem bundle_throw_keeps_grant:
  assumes "bundle_setup_of c opts = Inr s" "bundle_env_of c opts s = Inr e" "bs_dockerRequested s"
    "getp opts ''action'' = JStr ''grant''" "normalizeText (getp opts ''cellId'') \<noteq> []" "normalizeText (getp opts ''laneId'') \<noteq> []"
    "prepare_cell_run c now (be_cellOptions e) st = Inr r" "cell_separated c r"
    "runExecutionCellLease c now (be_cellOptions e) st = (st1, Inr cell)"
    "normalizeText (getp cell ''status'') = ''granted''"
    "lane_file c (be_laneOptions e) = Inr p" "st1 p = Some Malformed"
  shows "\<exists>err l. runExecutionCellBundle c now rnd opts st = (st1, Inl err) \<and>
     st1 (ec_leasePath r) = Some (Doc l) \<and> getp l ''state'' = JStr ''granted''"
proof -
  have grant: "trim ''grant'' = ''grant''" "to_lower ''grant'' = ''grant''"
    by (simp_all add: trimmed_def is_space_def) (simp add: to_lower_def lower_char_def)
  have action: "ec_action r = ''grant''"
    by (rule prepared_cell_action [OF assms(7)]) (simp_all add: env_options(3) [OF assms(2)] assms(4) trimmed_def is_space_def)
  obtain dec where wrote: "(st1, Inr cell) = commit_lease c r (granted_lease c now (be_cellOptions e) r dec) ''granted''
      (observations_of (ec_hostContext r)) st"
    using cell_granted [OF assms(7) action assms(9,10)] by auto
  let ?l = "json_norm (granted_lease c now (be_cellOptions e) r dec)"
  have doc: "st1 (ec_leasePath r) = Some (Doc ?l)"
    using at_commit_lease [OF assms(8)] wrote by (metis fst_conv)
  have state: "getp ?l ''state'' = JStr ''granted''"
    by (simp add: granted_lease_def touch_fields_def getp_stored_new getp_json_norm_defined del: json_norm.simps(7))
  obtain err where lane: "lane_reported c now rnd (be_laneOptions e) (be_laneReport e) st1 = (st1, Inl err)"
    using malformed_lane_throws [OF assms(11), where st = st1, OF assms(12)] by blast
  have "truthy (be_laneOptions e)"
    using assms(3) env_options(5) [OF assms(2)] by simp
  then have "grant_bundle c now rnd e st = (st1, Inl err)"
    by (simp add: grant_bundle_def assms(9,10) lane)
  then have "runExecutionCellBundle c now rnd opts st = (st1, Inl err)"
    using assms(1-6) grant by (simp add: runExecutionCellBundle_def run_bundle_def dispatch_bundle_def Let_def)
  with doc state show ?thesis by blast
qed

section \<open>Rolling a lane back\<close>

lemma rollback_release_prepared:
  assumes "prepare_lane_run c now (JObj (lane_rollback_options opts ''inspect'' out)) st = Inr r"
  shows "prepare_lane_run c now (JObj (lane_rollback_options opts ''release'' out @
      [(''leaseId'', v), (''artifactPaths'', JArr [])])) st = Inr (r\<lparr>dl_action := ''release''\<rparr>)"
    and "dl_action r = ''inspect''"
proof -
  have strs: "trim ''inspect'' = ''inspect''" "trim ''release'' = ''release''"
    "to_lower ''inspect'' = ''inspect''" "to_lower ''release'' = ''release''"
    by (simp_all add: trimmed_def is_space_def to_lower_def lower_char_def)
  with assms show "prepare_lane_run c now (JObj (lane_rollback_options opts ''release'' out @
      [(''leaseId'', v), (''artifactPaths'', JArr [])])) st = Inr (r\<lparr>dl_action := ''release''\<rparr>)"
    and "dl_action r = ''inspect''"
    by (auto simp: prepare_lane_run_def lane_rollback_options_def Let_def)
qed

lemma getp_with_fields_object:
  "is_object w \<and> \<not> is_array w \<Longrightarrow> getp (with_fields w upd) k =
     (if k \<in> set (map fst upd) then lookup (override [] upd) k else getp w k)"
  by (simp add: getp_with_fields)

lemma report_is_object [simp]:
  "is_object (with_fields w upd) \<and> \<not> is_array (with_fields w upd)"
  "is_object (reportWithHost r) \<and> \<not> is_array (reportWithHost r)"
  by (simp_all add: with_fields_def reportWithHost_def withObservations_def append_summary_def Let_def)

lemma lane_reported_handshake [simp]:
  "getp (reportWithHost r) ''handshake'' = dl_current r"
  "getp (buildResultReport r d s) ''handshake'' = d" "getp (buildResultReport r d s) ''status'' = JStr s"
  "getp (deny_lane r s reasons) ''status'' = JStr s" "getp (lane_not_found r) ''status'' = JStr ''not-found''"
  by (simp_all add: reportWithHost_def buildResultReport_def deny_lane_def lane_not_found_def buildBaseReport_dl_def
      withObservations_def withDenialReasons_def append_summary_def Let_def lane_policy_def getp_with_fields_object)

lemma inspected_lane:
  assumes "truthy (dl_current r)"
  shows "getp (inspect_lane r) ''handshake'' = dl_current r" "lane_to_release (inspect_lane r)"
proof -
  show "getp (inspect_lane r) ''handshake'' = dl_current r"
    using assms by (simp add: inspect_lane_def getp_with_fields_object)
  moreover have "normalizeText (getp (inspect_lane r) ''status'') \<in> {''stale'', ''active''}"
    using assms by (simp add: inspect_lane_def getp_with_fields_object trimmed_def is_space_def)
  ultimately show "lane_to_release (inspect_lane r)"
    using assms by (auto simp: lane_to_release_def)
qed

lemma lane_rollback:
  assumes "prepare_lane_run c now (JObj (lane_rollback_options opts ''inspect'' out)) st = Inr r"
    "dl_laneId r \<noteq> []" "truthy (dl_current r)" "same_agent r"
    "getp (dl_current r) ''state'' \<in> JStr ` set [''requested'', ''granted'', ''active'']"
  shows "\<exists>d undone. maybeReleaseDockerLane c now opts out st = (write_json_dl c (dl_path r) d st, Inr undone) \<and>
     getp (json_norm d) ''state'' = JStr ''released'' \<and> getp undone ''status'' = JStr ''released''"
proof -
  let ?r = "r\<lparr>dl_action := ''release''\<rparr>" and ?id = "getp2 (dl_current r) ''grant'' ''leaseId''"
  let ?opts = "JObj (lane_rollback_options opts ''release'' out @ [(''leaseId'', ?id), (''artifactPaths'', JArr [])])"
  have inspect: "runDockerLaneHandshake c now (JObj (lane_rollback_options opts ''inspect'' out)) st = (st, Inr (inspect_lane r))"
    using rollback_release_prepared(2) [OF assms(1)] assms(2)
    by (simp add: runDockerLaneHandshake_prepared [OF assms(1)] run_lane_action_def Let_def)
  have fields: "getp ?opts ''leaseId'' = ?id" "getp ?opts ''artifactPaths'' = JArr []"
    by (simp_all add: lane_rollback_options_def)
  note [simp del] = getp.simps(1)
  have "lane_lease_matches ?opts (dl_current r)"
    by (auto simp: lane_lease_matches_def fields toOptionalText_def Let_def)
  moreover have "normalizeCapabilities_dl (JArr []) = Inr []"
    by (simp add: normalizeCapabilities_dl_def normalizeCapabilityList_def)
  moreover have "same_agent ?r"
    using assms(4) by (simp add: same_agent_def)
  ultimately have "runDockerLaneHandshake c now ?opts st = release_lane c now ?opts ?r st"
    using assms(2,3) by (simp add: runDockerLaneHandshake_prepared [OF rollback_release_prepared(1) [OF assms(1)]]
        run_lane_action_def Let_def)
  then have "maybeReleaseDockerLane c now opts out st = release_lane c now ?opts ?r st"
    using inspected_lane [OF assms(3)] by (simp add: maybeReleaseDockerLane_def inspect)
  moreover have "\<exists>d. release_lane c now ?opts ?r st = write_lane c ?r d ''released'' st \<and>
      getp (json_norm d) ''state'' = JStr ''released''"
    using assms(5) \<open>normalizeCapabilities_dl (JArr []) = Inr []\<close>
    by (auto simp: release_lane_def fields cloneForTransition_def Let_def getp_stored_new simp del: json_norm.simps(7))
  ultimately show ?thesis
    by (auto simp: write_lane_def)
qed

text \<open>
  C40: A grant on a bundle whose cell is busy releases the docker lane of the same agent, also
  when the lane is active: repeating the grant of an active bundle reports busy and tears its lane
  down.
\<close>

theorem bundle_regrant_releases_lane:
  assumes "runExecutionCellBundle c now rnd opts st = (st', Inr report)"
    "bundle_setup_of c opts = Inr s" "bundle_env_of c opts s = Inr e" "bs_dockerRequested s"
    "getp opts ''action'' = JStr ''grant''" "normalizeText (getp opts ''cellId'') \<noteq> []"
    "runExecutionCellLease c now (be_cellOptions e) st = (st1, Inr cell)" "getp cell ''status'' = JStr ''busy''"
    "prepare_lane_run c now (JObj (lane_rollback_options (be_laneOptions e) ''inspect'' (JStr (be_laneReport e)))) st1 = Inr r"
    "dl_laneId r \<noteq> []" "truthy (dl_current r)" "same_agent r"
    "getp (dl_current r) ''state'' = JStr ''active''" "dl_path r \<noteq> bs_outputPath s"
  shows "getp report ''status'' = JStr ''busy'' \<and>
     (\<exists>d. st' (dl_path r) = Some (Doc d) \<and> getp d ''state'' = JStr ''released'')"
proof -
  have strs: "trim ''grant'' = ''grant''" "to_lower ''grant'' = ''grant''" "trim ''busy'' = ''busy''"
    by (simp_all add: trimmed_def is_space_def to_lower_def lower_char_def)
  obtain d undone where roll: "maybeReleaseDockerLane c now (be_laneOptions e) (JStr (be_laneReport e)) st1 =
      (write_json_dl c (dl_path r) d st1, Inr undone)" and released: "getp (json_norm d) ''state'' = JStr ''released''"
    using lane_rollback [OF assms(9-12)] assms(13) by auto
  have lane: "normalizeText (getp opts ''laneId'') \<noteq> []"
    using assms(9,10) env_options(8) [OF assms(3,4)]
    by (auto simp: prepare_lane_run_def Let_def lane_rollback_options_def)
  let ?b = "\<lparr>bp_cell = cell, bp_lane = JNull, bp_rollbacks = [(''dockerLane'', undone)]\<rparr>"
  have "grant_bundle c now rnd e st = (write_json_dl c (dl_path r) d st1, Inr ?b)"
    using assms(4,8) env_options(5) [OF assms(3)] strs by (simp add: grant_bundle_def assms(7) roll)
  then have "st' = write_report (bs_outputPath s) report (write_json_dl c (dl_path r) d st1)"
      and "report = buildReport (bundle_run_of s now (JStr ''grant'') (getp opts ''cellId'') (getp opts ''laneId'')) ?b"
    using assms(1-6) strs lane
    by (auto simp: runExecutionCellBundle_def run_bundle_def finish_bundle_def dispatch_bundle_def runE_Inr_iff Let_def)
  moreover have "resolveBundleStatus a cell JNull w = ''busy''" for a w
    using assms(8) strs by (simp add: resolveBundleStatus_def isSuccessfulStatus_def SUCCESS_STATUS_def Let_def)
  ultimately show ?thesis
    using assms(14) released by (auto simp: write_report_def write_json_dl_def atomic_replace_apply buildReport_def Let_def)
qed

lemma resolve_under_again:
  assumes "resolve_under c base p = Inr q"
  shows "resolve_under c base' (JStr q) = Inr q"
proof -
  obtain ps where q: "q = path_resolve (workingDir c) ps"
    using assms by (auto simp: resolve_under_def split: if_splits)
  then have "path_is_absolute q"
    by (simp add: path_resolve_def path_is_absolute_def Let_def)
  then show ?thesis
    by (simp add: resolve_under_def q path_resolve_idem)
qed

lemma env_reports:
  assumes "bundle_env_of c opts s = Inr e"
  shows "resolve_under c base (JStr (be_cellReport e)) = Inr (be_cellReport e)"
    "resolve_under c base (JStr (be_laneReport e)) = Inr (be_laneReport e)"
  using assms by (auto simp: bundle_env_of_def intro: resolve_under_again)

lemma resolved_not_blank:
  assumes "resolve_under c base p = Inr q"
  shows "q \<noteq> [] \<and> trim q \<noteq> []"
proof -
  obtain q' where q: "q = CHR ''/'' # q'"
    using assms by (auto simp: resolve_under_def path_resolve_def Let_def split: if_splits)
  have "trim (CHR ''/'' # q') \<noteq> []"
  proof
    assume "trim (CHR ''/'' # q') = []"
    then have "ltrim (rev (CHR ''/'' # q')) = []"
      by (simp add: trim_def ltrim_def is_space_def)
    then show False
      by (simp add: ltrim_def dropWhile_eq_Nil_conv is_space_def)
  qed
  with q show ?thesis by simp
qed

text \<open>
  A bundle without a docker lane cannot be committed: the commit passes the default
  docker-lane report path to the cell, and with no such report it is refused with mismatch and the
  lease is unchanged.
\<close>

theorem bundle_cell_only_commit_refused:
  assumes "runExecutionCellBundle c now rnd opts st = (st', Inr report)"
    "bundle_setup_of c opts = Inr s" "bundle_env_of c opts s = Inr e" "\<not> bs_dockerRequested s"
    "getp opts ''action'' = JStr ''commit''" "normalizeText (getp opts ''cellId'') \<noteq> []"
    "prepare_cell_run c now (be_cellOptions e) st = Inr r" "cell_separated c r" "ec_leasePath r \<noteq> bs_outputPath s"
    "truthy (ec_existing r)" "toOptionalText (getp (ec_existing r) ''state'') \<in> {JStr ''granted'', JStr ''active''}"
    "st (be_laneReport e) = None"
  shows "getp report ''status'' = JStr ''mismatch'' \<and> st' (ec_leasePath r) = st (ec_leasePath r)"
proof -
  have strs: "trim ''commit'' = ''commit''" "to_lower ''commit'' = ''commit''" "trim ''mismatch'' = ''mismatch''"
    by (simp_all add: trimmed_def is_space_def to_lower_def lower_char_def)
  have action: "ec_action r = ''commit''"
    by (rule prepared_cell_action [OF assms(7)]) (simp_all add: env_options(3) [OF assms(3)] assms(5) trimmed_def is_space_def)
  have "\<not> lease_id_mismatch (be_cellOptions e) (ec_existing r)"
    using assms(3) by (auto simp: lease_id_mismatch_def bundle_env_of_def cell_options_of_def)
  moreover have lane: "getp (be_cellOptions e) ''dockerLaneReportPath'' = JStr (be_laneReport e)"
    by (rule env_options(4) [OF assms(3)])
  moreover have "load_docker_link c (be_cellOptions e) r st = Inr JNull"
    by (simp add: load_docker_link_def lane env_reports(2) [OF assms(3)] read_doc_def assms(12) resolveDockerLaneLinkContext_def)
  moreover have "be_laneReport e \<noteq> [] \<and> trim (be_laneReport e) \<noteq> []"
    using resolved_not_blank [OF env_reports(2) [OF assms(3)]] by auto
  ultimately have "run_cell_action c now (be_cellOptions e) r st =
      refuse_run c r ''mismatch'' [''docker-lane-report-invalid''] st"
    using assms(10,11) by (auto simp: run_cell_action_def action commit_cell_def validateDockerLaneLink_def Let_def)
  then obtain st1 cell where cell: "runExecutionCellLease c now (be_cellOptions e) st = (st1, Inr cell)"
    and mismatch: "getp cell ''status'' = JStr ''mismatch''" and kept: "st1 (ec_leasePath r) = st (ec_leasePath r)"
    using at_finish_run [OF assms(8)] by (simp add: runExecutionCellLease_prepared [OF assms(7)] refuse_run_def finish_run_def)
  have "st' = write_report (bs_outputPath s) report st1"
      and "report = buildReport (bundle_run_of s now (JStr ''commit'') (getp opts ''cellId'') (getp opts ''laneId'')) (parts_of cell JNull)"
    using assms(1-6) strs env_options(5) [OF assms(3)]
    by (auto simp: runExecutionCellBundle_def run_bundle_def finish_bundle_def dispatch_bundle_def commit_bundle_def
        runE_Inr_iff cell Let_def)
  moreover have "resolveBundleStatus a cell JNull w = ''mismatch''" for a w
    using mismatch strs by (simp add: resolveBundleStatus_def isSuccessfulStatus_def SUCCESS_STATUS_def Let_def)
  ultimately show ?thesis
    using kept assms(9) by (simp add: write_report_def buildReport_def Let_def)
qed

section \<open>Committing both halves\<close>

lemma lane_committed:
  assumes "prepare_lane_run c now opts st = Inr r" "dl_action r = ''commit''"
    "truthy (toOptionalText (getp opts ''executionCellReportPath''))"
    "runDockerLaneHandshake c now opts st = (st1, Inr lane)" "normalizeText (getp lane ''status'') = ''committed''"
  obtains linked where "load_cell_link c opts r st = Inr linked" "validateExecutionCellLink (dl_current r) linked = []"
    "activate_lane c now r linked st = (st1, Inr lane)"
proof -
  have ne: "deny_lane r ''invalid-state'' reasons \<noteq> lane" "deny_lane r ''mismatch'' reasons \<noteq> lane"
    "lane_not_found r \<noteq> lane" for reasons
    using assms(5) by (auto simp: trimmed_def is_space_def)
  have "commit_lane c now opts r st = (st1, Inr lane)"
    using assms(4)
    by (simp add: runDockerLaneHandshake_prepared [OF assms(1)] run_lane_action_def assms(2) Let_def ne split: if_splits)
  then show ?thesis
    using that assms(3)
    by (simp add: commit_lane_def Let_def ne split: if_splits sum.splits)
qed

lemma cell_committed:
  assumes "prepare_cell_run c now opts st = Inr r" "ec_action r = ''commit''"
    "truthy (toOptionalText (getp opts ''dockerLaneReportPath''))"
    "runExecutionCellLease c now opts st = (st1, Inr cell)" "normalizeText (getp cell ''status'') = ''committed''"
  obtains linked where "load_docker_link c opts r st = Inr linked" "validateDockerLaneLink (ec_existing r) linked = []"
    "activate_cell c now opts r linked st = (st1, Inr cell)"
proof -
  have "snd (refuse_run c r ''invalid-state'' reasons st) \<noteq> Inr cell"
      "snd (refuse_run c r ''mismatch'' reasons st) \<noteq> Inr cell" "snd (missing_cell c r st) \<noteq> Inr cell" for reasons
    using assms(5) status_refuse_run [of c r _ reasons st cell] status_missing_cell [of c r st cell]
    by (auto simp: trimmed_def is_space_def)
  then have ne: "refuse_run c r ''invalid-state'' reasons st \<noteq> (st1, Inr cell)"
      "refuse_run c r ''mismatch'' reasons st \<noteq> (st1, Inr cell)" "missing_cell c r st \<noteq> (st1, Inr cell)" for reasons
    by (metis snd_conv)+
  have "commit_cell c now opts r st = (st1, Inr cell)"
    using assms(4) by (simp add: runExecutionCellLease_prepared [OF assms(1)] run_cell_action_def assms(2) Let_def ne split: if_splits)
  then show ?thesis
    using that assms(3) by (simp add: commit_cell_def assms(2) Let_def ne split: if_splits sum.splits)
qed

text \<open>A field that a transition does not set is the one of the document it started from.\<close>

lemma getp_kept: "getp base k \<noteq> JUndef \<Longrightarrow> k \<notin> set (map fst upd) \<Longrightarrow> getp (with_fields base upd) k = getp base k"
  by (cases base) (auto simp: getp_with_fields)

lemma getp2_defined: "toOptionalText (getp2 w k k') = JStr x \<Longrightarrow> getp w k \<noteq> JUndef"
  by auto

text \<open>What the two reports say about the links.\<close>

lemma lane_report_shape:
  "is_object (getp (buildResultReport r d s) ''summary'') \<and> \<not> is_array (getp (buildResultReport r d s) ''summary'')"
  "is_object (buildResultReport r d s) \<and> \<not> is_array (buildResultReport r d s)"
  "getp (buildResultReport r d s) ''laneId'' = JStr (dl_laneId r)"
  by (simp_all add: buildResultReport_def withObservations_def append_summary_def buildBaseReport_dl_def Let_def
      lane_policy_def getp_with_fields_object)

lemma lane_report_summary:
  "k \<noteq> ''observations'' \<Longrightarrow> getp2 (buildResultReport r d s) ''summary'' k = getp (lane_summary d (date_parse (dl_generatedAt r))) k"
  by (simp add: buildResultReport_def withObservations_def append_summary_def buildBaseReport_dl_def Let_def
      lane_policy_def getp_with_fields_object lane_summary_def)

lemma lane_pushed_summary:
  "k \<noteq> ''observations'' \<Longrightarrow> getp2 (push_summary ''observations'' items (buildResultReport r d s)) ''summary'' k =
     getp (lane_summary d (date_parse (dl_generatedAt r))) k"
  using lane_report_shape(1,2) [of r d s] lane_report_summary [of k r d s] by (simp add: push_summary_def Let_def)

lemma lane_commit_summary:
  assumes "activate_lane c now r linked st = (st1, Inr lane)"
    "toOptionalText (getp2 (dl_current r) ''grant'' ''leaseId'') = JStr lid"
    "getp linked ''cellId'' = JStr cell" "getp linked ''leaseId'' = JStr clid" "trimmed cell" "trimmed clid"
    "cell \<noteq> []" "clid \<noteq> []"
  shows "getp2 lane ''summary'' ''leaseId'' = JStr lid \<and> getp2 lane ''summary'' ''linkedExecutionCellId'' = JStr cell \<and>
    getp2 lane ''summary'' ''linkedExecutionCellLeaseId'' = JStr clid \<and> getp lane ''laneId'' = JStr (dl_laneId r) \<and>
    (\<exists>kvs. getp lane ''handshake'' = JObj kvs)"
proof -
  let ?d = "committed_lane now r linked"
  have doc: "getp2 ?d ''grant'' ''leaseId'' = getp2 (dl_current r) ''grant'' ''leaseId''"
    using getp2_defined [OF assms(2)]
    by (simp add: committed_lane_def cloneForTransition_def Let_def getp_kept)
  have links: "getp2 ?d ''commit'' ''executionCellId'' = JStr cell" "getp2 ?d ''commit'' ''executionCellLeaseId'' = JStr clid"
    using assms(3,4,7,8) by (simp_all add: committed_lane_def cloneForTransition_def Let_def getp_with_fields)
  have "\<exists>kvs. ?d = JObj kvs"
    by (simp add: committed_lane_def with_fields_def Let_def)
  moreover have "lane = push_summary ''observations'' [''linked-execution-cell-commit''] (buildResultReport r ?d ''committed'')"
    using assms(1,3,7) by (simp add: activate_lane_def Let_def)
  ultimately show ?thesis
    using assms(2,5-8) by (simp add: lane_pushed_summary lane_report_shape lane_summary_def doc links Let_def)
qed

lemma cell_commit_summary:
  assumes "activate_cell c now opts r linked st = (st1, Inr cell)"
    "toOptionalText (getp2 (ec_existing r) ''grant'' ''leaseId'') = JStr lid"
    "getp linked ''laneId'' = JStr lane" "getp linked ''leaseId'' = JStr llid" "trimmed lane" "trimmed llid"
    "lane \<noteq> []" "llid \<noteq> []"
  shows "getp2 cell ''summary'' ''leaseId'' = JStr lid \<and> getp2 cell ''summary'' ''linkedDockerLaneId'' = JStr lane \<and>
    getp2 cell ''summary'' ''linkedDockerLaneLeaseId'' = JStr llid"
proof -
  let ?d = "committed_lease now opts r linked"
  have doc: "getp2 ?d ''grant'' ''leaseId'' = getp2 (ec_existing r) ''grant'' ''leaseId''"
    using getp2_defined [OF assms(2)]
    by (simp add: committed_lease_def touch_fields_def Let_def getp_kept)
  have links: "getp2 ?d ''commit'' ''dockerLaneId'' = JStr lane" "getp2 ?d ''commit'' ''dockerLaneLeaseId'' = JStr llid"
    using assms(3,4,7,8) by (simp_all add: committed_lease_def touch_fields_def Let_def getp_with_fields)
  obtain s obs where cell: "cell = push_summary ''observations'' obs (run_report r ?d s)"
    using assms(1) by (auto simp: activate_cell_def commit_lease_def finish_run_def)
  have obj: "is_object (run_report r ?d s) \<and> \<not> is_array (run_report r ?d s)"
    by (simp add: run_report_def buildBaseReport_def)
  have summary: "getp (run_report r ?d s) ''summary'' = cell_summary ?d (date_parse (ec_generatedAt r))"
    by (simp add: run_report_def buildBaseReport_def getp_with_fields)
  have "getp2 cell ''summary'' k = getp (cell_summary ?d (date_parse (ec_generatedAt r))) k" if "k \<noteq> ''observations''" for k
    using that obj by (simp add: cell push_summary_def Let_def summary) (simp add: cell_summary_def Let_def)
  then show ?thesis
    using assms(2,5-8) by (simp add: cell_summary_def doc links Let_def)
qed


lemma commit_bundle_runs:
  assumes "commit_bundle c now rnd e st = (st', Inr b)" "truthy (be_laneOptions e)"
    "normalizeText (getp (bp_lane b) ''status'') = ''committed''"
  obtains sl st3 where "runDockerLaneHandshake (lane_process c rnd) now (be_laneOptions e) st = (sl, Inr (bp_lane b))"
    "lane_reported c now rnd (be_laneOptions e) (be_laneReport e) st = (write_report (be_laneReport e) (bp_lane b) sl, Inr (bp_lane b))"
    "runExecutionCellLease c now (be_cellOptions e) (write_report (be_laneReport e) (bp_lane b) sl) = (st3, Inr (bp_cell b))"
proof -
  obtain st2 lane where reported: "lane_reported c now rnd (be_laneOptions e) (be_laneReport e) st = (st2, Inr lane)"
    using assms(1,2) by (auto simp: commit_bundle_def runE_Inr_iff)
  have lane: "lane = bp_lane b"
    using assms(1,2) by (auto simp: commit_bundle_def runE_Inr_iff reported split: if_splits)
  have norm: "normalizeText (getp lane ''status'') = ''committed''"
    using assms(3) lane by simp
  have "\<exists>st3. runExecutionCellLease c now (be_cellOptions e) st2 = (st3, Inr (bp_cell b))"
    using assms(1,2) norm by (auto simp: commit_bundle_def runE_Inr_iff reported split: if_splits)
  moreover obtain sl where "runDockerLaneHandshake (lane_process c rnd) now (be_laneOptions e) st = (sl, Inr lane)"
      "st2 = write_report (be_laneReport e) lane sl"
    using reported by (auto simp: lane_reported_def runE_Inr_iff)
  ultimately show ?thesis
    using that lane reported by auto
qed

lemma resolved_cell_link:
  assumes "resolveExecutionCellLinkContext rep = linked" "truthy linked"
    "toOptionalText (getp rep ''cellId'') = JStr cid" "toOptionalText (getp2 rep ''summary'' ''leaseId'') = JStr lid"
  shows "getp linked ''cellId'' = JStr cid" "getp linked ''leaseId'' = JStr lid"
proof -
  have "cid \<noteq> []" "lid \<noteq> []"
    using assms(3,4) by (auto simp: toOptionalText_eq_JStr)
  then show "getp linked ''cellId'' = JStr cid" "getp linked ''leaseId'' = JStr lid"
    using assms by (auto simp: resolveExecutionCellLinkContext_def Let_def split: if_splits)
qed

text \<open>The lane report that was just written is read back as the link of the cell.\<close>

lemma resolved_lane_link:
  assumes "getp lane ''laneId'' = JStr did" "getp2 lane ''summary'' ''leaseId'' = JStr lid"
    "\<exists>kvs. getp lane ''handshake'' = JObj kvs" "trimmed did" "did \<noteq> []" "trimmed lid" "lid \<noteq> []"
  shows "getp (resolveDockerLaneLinkContext (json_norm lane)) ''laneId'' = JStr did"
    "getp (resolveDockerLaneLinkContext (json_norm lane)) ''leaseId'' = JStr lid"
proof -
  obtain kvs where lane: "lane = JObj kvs"
    using assms(1) by (cases lane) auto
  then obtain kvs' where norm: "json_norm lane = JObj kvs'" by auto
  obtain hs where "getp lane ''handshake'' = JObj hs" using assms(3) by blast
  then have "\<exists>hs'. getp (json_norm lane) ''handshake'' = JObj hs'"
    by (subst getp_json_norm_defined) auto
  moreover have "getp (json_norm lane) ''laneId'' = JStr did"
    using assms(1) by (subst getp_json_norm_defined) auto
  moreover have "getp2 lane ''summary'' ''leaseId'' \<noteq> JUndef" "getp lane ''summary'' \<noteq> JUndef"
    using assms(2) by auto
  then have "getp2 (json_norm lane) ''summary'' ''leaseId'' = JStr lid"
    using assms(2) by (simp add: getp_json_norm_defined del: json_norm.simps(7))
  ultimately show "getp (resolveDockerLaneLinkContext (json_norm lane)) ''laneId'' = JStr did"
    "getp (resolveDockerLaneLinkContext (json_norm lane)) ''leaseId'' = JStr lid"
    using assms(4-7) unfolding norm
    by (auto simp: resolveDockerLaneLinkContext_def typeof_object_def Let_def)
qed

lemma summary_coalesce [simp]: "getp (js_coalesce w (JObj [])) k = getp w k"
  by (cases w) auto

lemma prepared_lane_action:
  "prepare_lane_run c now opts st = Inr r \<Longrightarrow> dl_action r = to_lower (normalizeText (getp opts ''action'')) \<and>
     dl_laneId r = normalizeText (getp opts ''laneId'')"
  by (auto simp: prepare_lane_run_def Let_def)

lemma resolve_under_lane_process [simp]: "resolve_under (lane_process c rnd) = resolve_under c"
  by (simp add: fun_eq_iff resolve_under_def lane_process_def cong: if_cong)

lemma committed_lane_links:
  assumes "bundle_env_of c opts s = Inr e" "bs_dockerRequested s" "getp opts ''action'' = JStr ''commit''"
    "normalizeText (getp opts ''laneId'') = laneId"
    "prepare_lane_run (lane_process c rnd) now (be_laneOptions e) st = Inr lr"
    "runDockerLaneHandshake (lane_process c rnd) now (be_laneOptions e) st = (sl, Inr lane)"
    "normalizeText (getp lane ''status'') = ''committed''"
    "toOptionalText (getp2 (dl_current lr) ''grant'' ''leaseId'') = JStr laneLease"
    "read_doc (be_cellReport e) st = Inr cellReport" "toOptionalText (getp cellReport ''cellId'') = JStr cellId"
    "toOptionalText (getp2 cellReport ''summary'' ''leaseId'') = JStr cellLease"
  shows "getp2 lane ''summary'' ''leaseId'' = JStr laneLease \<and> getp2 lane ''summary'' ''linkedExecutionCellId'' = JStr cellId \<and>
    getp2 lane ''summary'' ''linkedExecutionCellLeaseId'' = JStr cellLease \<and> getp lane ''laneId'' = JStr laneId \<and>
    (\<exists>kvs. getp lane ''handshake'' = JObj kvs)"
proof -
  have strs: "trim ''commit'' = ''commit''" "to_lower ''commit'' = ''commit''"
    by (simp_all add: trimmed_def is_space_def to_lower_def lower_char_def)
  have lr: "dl_action lr = ''commit''" "dl_laneId lr = laneId"
    using prepared_lane_action [OF assms(5)] env_options(7,8) [OF assms(1,2)] assms(3,4) strs by simp_all
  have path: "getp (be_laneOptions e) ''executionCellReportPath'' = JStr (be_cellReport e)"
    by (rule env_options(6) [OF assms(1,2)])
  have "truthy (toOptionalText (JStr (be_cellReport e)))"
    using resolved_not_blank [OF env_reports(1) [OF assms(1)]] by simp
  then obtain linked where linked: "load_cell_link (lane_process c rnd) (be_laneOptions e) lr st = Inr linked"
      "validateExecutionCellLink (dl_current lr) linked = []" "activate_lane (lane_process c rnd) now lr linked st = (sl, Inr lane)"
    using lane_committed [OF assms(5) lr(1) _ assms(6,7)] path by auto
  have "resolveExecutionCellLinkContext cellReport = linked"
    using linked(1) assms(9) by (simp add: load_cell_link_def path env_reports(1) [OF assms(1)])
  note resolved = resolved_cell_link [OF this validated_cell_link(1) [OF linked(2)] assms(10,11)]
  show ?thesis
    using lane_commit_summary [OF linked(3) assms(8) resolved] assms(10,11) lr(2)
    by (auto simp: toOptionalText_eq_JStr)
qed

lemma committed_cell_links:
  assumes "bundle_env_of c opts s = Inr e" "getp opts ''action'' = JStr ''commit''"
    "prepare_cell_run c now (be_cellOptions e) st = Inr r" "bundle_apart c e out (ec_leasePath r)"
    "lane_reported c now rnd (be_laneOptions e) (be_laneReport e) st = (write_report (be_laneReport e) lane sl, Inr lane)"
    "runExecutionCellLease c now (be_cellOptions e) (write_report (be_laneReport e) lane sl) = (st3, Inr cell)"
    "normalizeText (getp cell ''status'') = ''committed''"
    "toOptionalText (getp2 (ec_existing r) ''grant'' ''leaseId'') = JStr cellLease"
    "getp lane ''laneId'' = JStr laneId" "getp2 lane ''summary'' ''leaseId'' = JStr laneLease"
    "\<exists>kvs. getp lane ''handshake'' = JObj kvs" "trimmed laneId" "laneId \<noteq> []" "trimmed laneLease" "laneLease \<noteq> []"
  shows "getp2 cell ''summary'' ''leaseId'' = JStr cellLease \<and> getp2 cell ''summary'' ''linkedDockerLaneId'' = JStr laneId \<and>
    getp2 cell ''summary'' ''linkedDockerLaneLeaseId'' = JStr laneLease"
proof -
  let ?st = "write_report (be_laneReport e) lane sl"
  obtain r1 where r1: "prepare_cell_run c now (be_cellOptions e) ?st = Inr r1"
    using assms(6) by (cases "prepare_cell_run c now (be_cellOptions e) ?st") (auto simp: runExecutionCellLease_def)
  have samefile: "ec_leasePath r1 = ec_leasePath r"
    using prepared_cell_file [OF r1] prepared_cell_file [OF assms(3)] by simp
  have "?st (ec_leasePath r) = st (ec_leasePath r)"
    using assms(4,5) lane_reported_frame [of c "be_laneOptions e" _ "ec_leasePath r" "be_laneReport e" now rnd st]
    by (auto simp: bundle_apart_def)
  then have same: "ec_existing r1 = ec_existing r"
    using prepared_fields(2) [OF r1] prepared_fields(2) [OF assms(3)] samefile by (simp add: read_doc_def)
  have action: "ec_action r1 = ''commit''"
    by (rule prepared_cell_action [OF r1]) (simp_all add: env_options(3) [OF assms(1)] assms(2) trimmed_def is_space_def)
  have path: "getp (be_cellOptions e) ''dockerLaneReportPath'' = JStr (be_laneReport e)"
    by (rule env_options(4) [OF assms(1)])
  have "truthy (toOptionalText (JStr (be_laneReport e)))"
    using resolved_not_blank [OF env_reports(2) [OF assms(1)]] by simp
  then obtain linked where linked: "load_docker_link c (be_cellOptions e) r1 ?st = Inr linked"
      "activate_cell c now (be_cellOptions e) r1 linked ?st = (st3, Inr cell)"
    using cell_committed [OF r1 action _ assms(6,7)] path by auto
  have "read_doc (be_laneReport e) ?st = Inr (json_norm lane)"
    by (simp add: write_report_def read_doc_def)
  then have "linked = resolveDockerLaneLinkContext (json_norm lane)"
    using linked(1) by (simp add: load_docker_link_def path env_reports(2) [OF assms(1)])
  then have "getp linked ''laneId'' = JStr laneId" "getp linked ''leaseId'' = JStr laneLease"
    using resolved_lane_link [OF assms(9-15)] by simp_all
  then show ?thesis
    using cell_commit_summary [OF linked(2), of cellLease laneId laneLease] assms(8,12-15) same by simp
qed

text \<open>
  C3: When a bundle commit reports both halves committed, and the execution-cell report on disk is
  the one of the current grant of the cell, the two leases link each other: the report says
  reciprocalLinkReady.
\<close>

theorem bundle_commit_reciprocal:
  assumes "runExecutionCellBundle c now rnd opts st = (st', Inr report)"
    "bundle_setup_of c opts = Inr s" "bundle_env_of c opts s = Inr e" "bs_dockerRequested s"
    "getp opts ''action'' = JStr ''commit''" "normalizeText (getp opts ''cellId'') = cellId" "cellId \<noteq> []"
    "normalizeText (getp opts ''laneId'') = laneId" "laneId \<noteq> []"
    "prepare_lane_run (lane_process c rnd) now (be_laneOptions e) st = Inr lr"
    "prepare_cell_run c now (be_cellOptions e) st = Inr r" "bundle_apart c e (bs_outputPath s) (ec_leasePath r)"
    "toOptionalText (getp2 (dl_current lr) ''grant'' ''leaseId'') = JStr laneLease"
    "toOptionalText (getp2 (ec_existing r) ''grant'' ''leaseId'') = JStr cellLease"
    "read_doc (be_cellReport e) st = Inr cellReport" "toOptionalText (getp cellReport ''cellId'') = JStr cellId"
    "toOptionalText (getp2 cellReport ''summary'' ''leaseId'') = JStr cellLease"
    "getp2 report ''executionCell'' ''status'' = JStr ''committed''" "getp2 report ''dockerLane'' ''status'' = JStr ''committed''"
  shows "getp2 report ''summary'' ''reciprocalLinkReady'' = JBool True"
proof -
  have strs: "trim ''commit'' = ''commit''" "to_lower ''commit'' = ''commit''" "trim ''committed'' = ''committed''"
    by (simp_all add: trimmed_def is_space_def to_lower_def lower_char_def)
  obtain st1 b where b: "commit_bundle c now rnd e st = (st1, Inr b)"
    and report: "report = buildReport (bundle_run_of s now (JStr ''commit'') (getp opts ''cellId'') (getp opts ''laneId'')) b"
    using assms(1-9) strs
    by (auto simp: runExecutionCellBundle_def run_bundle_def finish_bundle_def dispatch_bundle_def runE_Inr_iff Let_def)
  have status: "normalizeText (getp (bp_cell b) ''status'') = ''committed''" "normalizeText (getp (bp_lane b) ''status'') = ''committed''"
    using assms(18,19) strs by (simp_all add: report buildReport_def Let_def)
  have "truthy (be_laneOptions e)" using env_options(5) [OF assms(3)] assms(4) by simp
  then obtain sl st3 where
      lanerun: "runDockerLaneHandshake (lane_process c rnd) now (be_laneOptions e) st = (sl, Inr (bp_lane b))"
    and reported: "lane_reported c now rnd (be_laneOptions e) (be_laneReport e) st = (write_report (be_laneReport e) (bp_lane b) sl, Inr (bp_lane b))"
    and cellrun: "runExecutionCellLease c now (be_cellOptions e) (write_report (be_laneReport e) (bp_lane b) sl) = (st3, Inr (bp_cell b))"
    using commit_bundle_runs [OF b _ status(2)] by blast
  note lane = committed_lane_links [OF assms(3,4,5,8,10) lanerun status(2) assms(13,15-17)]
  have ids: "trimmed laneLease" "laneLease \<noteq> []" "trimmed laneId" "trimmed cellLease" "cellLease \<noteq> []"
    using assms(8,13,14) by (auto simp: toOptionalText_eq_JStr)
  have "getp2 (bp_cell b) ''summary'' ''leaseId'' = JStr cellLease \<and>
      getp2 (bp_cell b) ''summary'' ''linkedDockerLaneId'' = JStr laneId \<and>
      getp2 (bp_cell b) ''summary'' ''linkedDockerLaneLeaseId'' = JStr laneLease"
    using committed_cell_links [OF assms(3,5,11,12) reported cellrun status(1) assms(14), of laneId laneLease] lane ids assms(9)
    by blast
  then have "hasReciprocalBundleLink (bp_cell b) (bp_lane b) (getp opts ''cellId'') (getp opts ''laneId'')"
    using lane ids assms(6,8)
    by (auto simp: hasReciprocalBundleLink_def Let_def)
  then show ?thesis
    by (simp add: report buildReport_def bundle_summary_def bundle_run_of_def Let_def)
qed

section \<open>A concrete bundle\<close>

definition bd_lane_report :: string where
  "bd_lane_report = ''/r/tests/results/_agent/runtime/docker-lane-handshake.json''"

definition bd_report :: string where
  "bd_report = ''/r/tests/results/_agent/runtime/execution-cell-bundle.json''"

definition bd_opts :: "string \<Rightarrow> fields \<Rightarrow> jsval" where
  "bd_opts action extra = JObj ([(''action'', JStr action), (''cellId'', JStr ''c1''), (''agentId'', JStr ''a1'')] @ extra)"

definition bd_lane_fields :: fields where
  "bd_lane_fields = [(''laneId'', JStr ''d1'')]"

definition bd_setup :: "bool \<Rightarrow> bundle_setup" where
  "bd_setup lane = \<lparr>bs_repoRoot = ''/r'', bs_outputPath = bd_report, bs_dockerRequested = lane,
     bs_capabilities = (if lane then [''docker-lane''] else [])\<rparr>"

definition bd_env :: "string \<Rightarrow> bool \<Rightarrow> bundle_env" where
  "bd_env action lane =
     (let opts = bd_opts action (if lane then bd_lane_fields else []); caps = bs_capabilities (bd_setup lane)
      in \<lparr>be_cellOptions = cell_options_of opts ''/r'' caps demo_output_path bd_lane_report,
          be_laneOptions = (if lane then lane_options_of opts ''/r'' caps demo_output_path bd_lane_report else JNull),
          be_cellReport = demo_output_path, be_laneReport = bd_lane_report\<rparr>)"

lemma bd_paths:
  "path_resolve ''/r'' [''/r''] = ''/r''"
  "resolve_under demo_process (JStr ''/r'') (JStr DEFAULT_OUTPUT_PATH_bd) = Inr bd_report"
  "resolve_under demo_process (JStr ''/r'') (JStr DEFAULT_OUTPUT_PATH_dl) = Inr bd_lane_report"
  "resolve_under demo_process (JStr ''/r'') (JStr demo_output_path) = Inr demo_output_path"
  "trim ''d1'' = ''d1''" "trim ''c1'' = ''c1''" "trim ''a1'' = ''a1''" "trim ''docker-lane'' = ''docker-lane''"
  "toOptionalText (JStr ''a1'') = JStr ''a1''"
  by code_simp+

lemma bd_setup_of:
  "bundle_setup_of demo_process (bd_opts action bd_lane_fields) = Inr (bd_setup True)"
  "bundle_setup_of demo_process (bd_opts action []) = Inr (bd_setup False)"
  using bd_paths
  by (simp_all add: bundle_setup_of_def bd_opts_def bd_lane_fields_def bd_setup_def wantsDockerLane_def
      inferBundleCapabilities_def normalizeCapabilities_def normalizeCapabilityList_def set_add_def to_lower_def
      DOCKER_LANE_CAPABILITY_def demo_process_def)

lemma bd_env_of:
  "bundle_env_of demo_process (bd_opts action bd_lane_fields) (bd_setup True) = Inr (bd_env action True)"
  "bundle_env_of demo_process (bd_opts action []) (bd_setup False) = Inr (bd_env action False)"
  using bd_paths demo_paths(3)
  by (simp_all add: bundle_env_of_def bd_env_def Let_def) (simp_all add: bd_setup_def bd_opts_def bd_lane_fields_def)

text \<open>Options that reach the cell with the paths of the bundle.\<close>

definition bd_cell_options :: "jsval \<Rightarrow> string \<Rightarrow> bool" where
  "bd_cell_options opts action \<longleftrightarrow> is_object opts \<and> \<not> is_array opts \<and>
     getp opts ''cellId'' = JStr ''c1'' \<and> getp opts ''action'' = JStr action \<and> getp opts ''repoRoot'' = JStr ''/r'' \<and>
     getp opts ''outputPath'' = JStr demo_output_path \<and>
     (\<forall>k \<in> set [''leaseRoot'', ''hostPlaneReportPath'', ''operatorCostProfilePath'', ''operatorId'', ''agentClass'',
        ''cellClass'']. getp opts k = JUndef)"

lemma bd_cell_prepared:
  assumes "bd_cell_options opts action" "trimmed action" "action \<noteq> []"
    "normalizeCapabilities (getp opts ''capabilities'') = Inr caps"
    "st demo_host_path = None" "st demo_cost_path = Some (Doc demo_profile)" "read_doc demo_cell_path st = Inr existing"
  shows "prepare_cell_run demo_process now opts st = Inr (demo_run now action [] caps existing)"
proof -
  have c1: "toOptionalText (JStr ''c1'') = JStr ''c1''"
    using bd_paths(6) by (simp add: toOptionalText_def)
  have lease_root: "defaultLeaseRoot demo_process (with_fields opts [(''repoRoot'', JStr ''/r'')]) =
      Inr (JStr ''/g/execution-cell-leases'')"
    using assms(1) demo_paths(1)
    by (simp add: defaultLeaseRoot_def getp_with_fields bd_cell_options_def env_value_def demo_process_def
        resolveDefaultLeaseRoot_def Let_def)
  have "demo_output_path \<noteq> []" by (simp add: demo_output_path_def)
  then show ?thesis
    using assms lease_root demo_paths bd_paths(4) c1
    by (simp add: prepare_cell_run_def bd_cell_options_def demo_run_def read_doc_def)
qed

lemma bd_env_cell: "bd_cell_options (be_cellOptions (bd_env action lane)) action"
  "getp (be_cellOptions (bd_env action lane)) ''capabilities'' = jstrs (bs_capabilities (bd_setup lane))"
  by (simp_all add: bd_cell_options_def bd_env_def bd_opts_def bd_lane_fields_def cell_options_of_def Let_def)

definition bd_lane_run :: "string \<Rightarrow> int \<Rightarrow> jsval \<Rightarrow> lane_run" where
  "bd_lane_run action now current =
     \<lparr>dl_action = action, dl_laneId = ''d1'', dl_repoRoot = JStr ''/r'', dl_agentId = ''a1'',
      dl_agentClass = ''subagent'', dl_path = demo_handshake_path, dl_generatedAt = iso_string now, dl_current = current,
      dl_hostContext = buildHostContext JNull, dl_profile = resolveOperatorProfile demo_profile JUndef\<rparr>"

definition bd_lane_options :: "jsval \<Rightarrow> string \<Rightarrow> bool" where
  "bd_lane_options opts action \<longleftrightarrow>
     getp opts ''laneId'' = JStr ''d1'' \<and> getp opts ''action'' = JStr action \<and> getp opts ''repoRoot'' = JStr ''/r'' \<and>
     getp opts ''agentId'' = JStr ''a1'' \<and>
     (\<forall>k \<in> set [''handshakeRoot'', ''hostPlaneReport'', ''hostPlaneReportPath'', ''operatorCostProfile'',
        ''operatorCostProfilePath'', ''operatorId'', ''agentClass'']. getp opts k = JUndef)"

lemma bd_lane_prepared:
  assumes "bd_lane_options opts action" "trimmed action" "to_lower action = action"
    "st demo_host_path = None" "st demo_cost_path = Some (Doc demo_profile)" "read_doc demo_handshake_path st = Inr current"
  shows "prepare_lane_run (lane_process demo_process rnd) now opts st = Inr (bd_lane_run action now current)"
proof -
  have base: "defaultHandshakeRoot (lane_process demo_process rnd) (JStr ''/r'') JUndef = Inr (JStr ''/g/docker-lane-handshakes'')"
    using demo_lane_paths(1)
    by (simp add: defaultHandshakeRoot_def env_value_def demo_process_def resolveDefaultHandshakeRoot_def lane_process_def Let_def)
  have same: "DEFAULT_HOST_PLANE_REPORT_PATH_dl = DEFAULT_HOST_PLANE_REPORT_PATH"
    "DEFAULT_OPERATOR_COST_PROFILE_PATH_dl = DEFAULT_OPERATOR_COST_PROFILE_PATH"
    by (simp_all add: DEFAULT_HOST_PLANE_REPORT_PATH_dl_def DEFAULT_HOST_PLANE_REPORT_PATH_def
        DEFAULT_OPERATOR_COST_PROFILE_PATH_dl_def DEFAULT_OPERATOR_COST_PROFILE_PATH_def)
  show ?thesis
    using assms base demo_lane_paths(2) demo_paths(4,5) bd_paths(5,9)
    by (simp add: Let_def prepare_lane_run_def bd_lane_run_def bd_lane_options_def read_unless_def same read_doc_def
        normalizeAgentClass_dl_def to_lower_def)
qed

lemma bd_env_lane: "bd_lane_options (be_laneOptions (bd_env action True)) action"
  by (simp add: bd_lane_options_def bd_env_def bd_opts_def bd_lane_fields_def lane_options_of_def Let_def)

lemma bundle_status_sound_witness:
  "normalizeText (getp (JObj [(''status'', JStr ''granted'')]) ''status'') = ''granted''"
proof -
  let ?half = "JObj [(''status'', JStr ''granted'')]"
  have "trim ''granted'' = ''granted''" by (simp add: trimmed_def is_space_def)
  then have "resolveBundleStatus (JStr ''grant'') ?half ?half (JObj []) = ''granted''"
    by (simp add: resolveBundleStatus_def isSuccessfulStatus_def SUCCESS_STATUS_def Let_def)
  then show ?thesis
    using bundle_status_sound [of "JStr ''grant''" ?half ?half "JObj []" "''granted''"] by (simp add: SUCCESS_STATUS_def)
qed

lemma bd_decision:
  assumes "demo_premium e"
  obtains d where "buildGrantDecision e (resolveOperatorProfile demo_profile JUndef) (num_of_int now) = Inr d" "gd_allowed d"
proof -
  have native: "isWindowsNativeTestStandPlaneBinding JNull"
    by (simp add: isWindowsNativeTestStandPlaneBinding_def to_lower_def)
  then show ?thesis
    using assms that
    by (auto simp: demo_premium_def buildGrantDecision_def gd_allowed_def demo_text Let_def)
qed

lemma bd_lease_premium: "demo_premium (demo_lease ''requested'')"
  unfolding demo_premium_def by (simp add: demo_lease_simps) (simp add: demo_lease_def)

lemma bd_caps: "normalizeCapabilities (jstrs (bs_capabilities (bd_setup lane))) = Inr (bs_capabilities (bd_setup lane))"
  using bd_paths(8) by (simp add: bd_setup_def normalizeCapabilities_def normalizeCapabilityList_def jstrs_def)

lemma bd_normalized: "normalizeText (getp (bd_opts a x) ''cellId'') = ''c1''" "getp (bd_opts a x) ''action'' = JStr a"
  "normalizeText (getp (bd_opts a bd_lane_fields) ''laneId'') = ''d1''"
  using bd_paths by (simp_all add: bd_opts_def bd_lane_fields_def)

text \<open>A bundle that runs is the dispatched action and the report about it.\<close>

lemma bd_run_lane:
  "runExecutionCellBundle demo_process now rnd (bd_opts action bd_lane_fields) st =
     runE (dispatch_bundle demo_process now rnd (JStr action) (bd_env action True) st) (\<lambda>b st1.
       finish_bundle bd_report (buildReport (bundle_run_of (bd_setup True) now (JStr (to_lower (trim action)))
         (JStr ''c1'') (JStr ''d1'')) b) st1)"
  using bd_paths
  by (simp add: runExecutionCellBundle_def bd_setup_of bd_env_of run_bundle_def) (simp add: bd_opts_def bd_lane_fields_def bd_setup_def)

lemma bd_run_cell:
  "runExecutionCellBundle demo_process now rnd (bd_opts action []) st =
     runE (dispatch_bundle demo_process now rnd (JStr action) (bd_env action False) st) (\<lambda>b st1.
       finish_bundle bd_report (buildReport (bundle_run_of (bd_setup False) now (JStr (to_lower (trim action)))
         (JStr ''c1'') JUndef) b) st1)"
  using bd_paths
  by (simp add: runExecutionCellBundle_def bd_setup_of bd_env_of run_bundle_def) (simp add: bd_opts_def bd_setup_def)

lemma bd_lane_file: "lane_file demo_process (be_laneOptions (bd_env action True)) = Inr demo_handshake_path"
proof -
  have base: "defaultHandshakeRoot demo_process (JStr ''/r'') JUndef = Inr (JStr ''/g/docker-lane-handshakes'')"
    using demo_lane_paths(1)
    by (simp add: defaultHandshakeRoot_def env_value_def demo_process_def resolveDefaultHandshakeRoot_def Let_def)
  then show ?thesis
    using demo_lane_paths(2) bd_paths(5) bd_env_lane [of action] by (simp add: lane_file_def bd_lane_options_def)
qed

lemma bd_apart: "bundle_apart demo_process (bd_env action True) bd_report demo_cell_path"
  using bd_lane_file [of action]
  by (simp add: bundle_apart_def bd_env_def Let_def touched_paths_def temp_path_def demo_cell_path_def
      demo_handshake_path_def bd_report_def bd_lane_report_def)

lemma bd_frame:
  "fst (commit_lease demo_process (demo_run now a x caps e) l s obs st) demo_handshake_path = st demo_handshake_path"
  "fst (finish_run demo_process (demo_run now a x caps e) rep st) demo_handshake_path = st demo_handshake_path"
  "fst (finish_run demo_process (demo_run now a x caps e) rep st) demo_cost_path = st demo_cost_path"
  "fst (finish_run demo_process (demo_run now a x caps e) rep st) demo_host_path = st demo_host_path"
  by (simp_all add: commit_lease_def finish_run_def write_json_def atomic_replace_apply demo_run_def temp_path_def
      demo_cell_path_def demo_handshake_path_def demo_output_path_def demo_cost_path_def demo_host_path_def)

lemma release_returns: "artifact_paths (getp opts ''artifactPaths'') = Inr ps \<Longrightarrow> \<exists>rep. snd (release_cell c now opts r st) = Inr rep"
  by (simp add: release_cell_def refuse_run_def commit_lease_def)

lemma bd_undo:
  assumes "st demo_host_path = None" "st demo_cost_path = Some (Doc demo_profile)" "st demo_cell_path = Some (Doc l)" "truthy l"
  shows "\<exists>undone. snd (maybeReleaseExecutionCell demo_process now (be_cellOptions (bd_env action lane))
     (JStr demo_output_path) leaseId st) = Inr undone"
proof -
  let ?e = "be_cellOptions (bd_env action lane)"
  let ?o = "JObj [(''action'', JStr ''release''), (''cellId'', getp ?e ''cellId''), (''leaseId'', leaseId),
      (''artifactPaths'', JArr []), (''hostPlaneReportPath'', getp ?e ''hostPlaneReportPath''),
      (''operatorCostProfilePath'', getp ?e ''operatorCostProfilePath''), (''leaseRoot'', getp ?e ''leaseRoot''),
      (''repoRoot'', getp ?e ''repoRoot''), (''outputPath'', JStr demo_output_path)]"
  have "bd_cell_options ?o ''release''"
    using bd_env_cell(1) [of action lane] by (simp add: bd_cell_options_def)
  then have "prepare_cell_run demo_process now ?o st = Inr (demo_run now ''release'' [] [] l)"
    by (rule bd_cell_prepared)
      (use assms in \<open>simp_all add: demo_text read_doc_def normalizeCapabilities_def normalizeCapabilityList_def\<close>)
  moreover have "\<exists>rep. snd (release_cell demo_process now ?o (demo_run now ''release'' [] [] l) st) = Inr rep"
    by (rule release_returns [of _ "[]"]) simp
  ultimately show ?thesis
    using assms(4) by (simp add: maybeReleaseExecutionCell_def runExecutionCellLease_prepared run_cell_action_def Let_def)
qed

lemma bd_cell_granted:
  assumes "st demo_host_path = None" "st demo_cost_path = Some (Doc demo_profile)"
    "read_doc demo_cell_path st = Inr (demo_lease ''requested'')"
  obtains st1 cell where
    "runExecutionCellLease demo_process 2000 (be_cellOptions (bd_env ''grant'' True)) st = (st1, Inr cell)"
    "getp cell ''status'' = JStr ''granted''" "st1 demo_handshake_path = st demo_handshake_path"
    "st1 demo_host_path = None" "st1 demo_cost_path = Some (Doc demo_profile)"
    "\<exists>l. st1 demo_cell_path = Some (Doc l) \<and> truthy l"
proof -
  let ?e = "bd_env ''grant'' True" and ?r = "demo_run 2000 ''grant'' [] [''docker-lane''] (demo_lease ''requested'')"
  have prep: "prepare_cell_run demo_process 2000 (be_cellOptions ?e) st = Inr ?r"
    by (rule bd_cell_prepared [OF bd_env_cell(1)])
      (use bd_caps [of True] assms in \<open>simp_all add: demo_text bd_env_cell(2) bd_setup_def\<close>)
  obtain d where "buildGrantDecision (demo_lease ''requested'') (resolveOperatorProfile demo_profile JUndef) (num_of_int 2000) = Inr d"
      "gd_allowed d"
    by (rule bd_decision [OF bd_lease_premium])
  moreover have "ec_profile ?r = resolveOperatorProfile demo_profile JUndef" "truthy (demo_lease ''requested'')"
    using bd_lease_premium by (simp_all add: demo_run_def demo_premium_def)
  ultimately have grant: "runExecutionCellLease demo_process 2000 (be_cellOptions ?e) st =
      commit_lease demo_process ?r (granted_lease demo_process 2000 (be_cellOptions ?e) ?r d) ''granted''
        (observations_of (ec_hostContext ?r)) st"
    by (simp add: runExecutionCellLease_prepared [OF prep] run_cell_action_def grant_cell_def Let_def)
  obtain st1 cell where cell: "runExecutionCellLease demo_process 2000 (be_cellOptions ?e) st = (st1, Inr cell)"
      and status: "getp cell ''status'' = JStr ''granted''"
    by (simp add: grant commit_lease_def finish_run_def)
  then have st1: "st1 = fst (runExecutionCellLease demo_process 2000 (be_cellOptions ?e) st)" by simp
  show ?thesis
  proof (rule that [OF cell status])
    show "st1 demo_handshake_path = st demo_handshake_path" "st1 demo_host_path = None"
        "st1 demo_cost_path = Some (Doc demo_profile)" "\<exists>l. st1 demo_cell_path = Some (Doc l) \<and> truthy l"
      unfolding st1 grant using assms
        at_commit_lease [OF demo_separated, of 2000 "''grant''" "[]" "[''docker-lane'']" "demo_lease ''requested''"]
      by (simp_all add: bd_frame granted_lease_def)
  qed
qed

text \<open>The cell is granted, the lane was never requested: the grant is taken back.\<close>

lemma bd_requested [simp]:
  "demo_store (demo_lease ''requested'') demo_host_path = None"
  "demo_store (demo_lease ''requested'') demo_cost_path = Some (Doc demo_profile)"
  "read_doc demo_cell_path (demo_store (demo_lease ''requested'')) = Inr (demo_lease ''requested'')"
  "demo_store (demo_lease ''requested'') demo_handshake_path = None"
  by (simp_all add: demo_store_def read_doc_def demo_host_path_def demo_cost_path_def demo_cell_path_def
      demo_handshake_path_def)

lemma bd_grant_run:
  "\<exists>st' b. grant_bundle demo_process 2000 ''cd'' (bd_env ''grant'' True) (demo_store (demo_lease ''requested'')) = (st', Inr b) \<and>
     getp (bp_cell b) ''status'' = JStr ''granted''"
proof -
  let ?st = "demo_store (demo_lease ''requested'')" and ?e = "bd_env ''grant'' True"
  obtain st1 cell where cell: "runExecutionCellLease demo_process 2000 (be_cellOptions ?e) ?st = (st1, Inr cell)"
      and status: "getp cell ''status'' = JStr ''granted''"
      and files: "st1 demo_handshake_path = None" "st1 demo_host_path = None" "st1 demo_cost_path = Some (Doc demo_profile)"
      "\<exists>l. st1 demo_cell_path = Some (Doc l) \<and> truthy l"
    using bd_cell_granted [of ?st] by (metis bd_requested)
  have "prepare_lane_run (lane_process demo_process ''cd'') 2000 (be_laneOptions ?e) st1 = Inr (bd_lane_run ''grant'' 2000 JNull)"
    by (rule bd_lane_prepared [OF bd_env_lane]) (simp_all add: lane_text files read_doc_def)
  then have lane: "runDockerLaneHandshake (lane_process demo_process ''cd'') 2000 (be_laneOptions ?e) st1 =
      (st1, Inr (lane_not_found (bd_lane_run ''grant'' 2000 JNull)))"
    by (simp add: runDockerLaneHandshake_prepared run_lane_action_def Let_def) (simp add: bd_lane_run_def)
  let ?st2 = "write_report bd_lane_report (lane_not_found (bd_lane_run ''grant'' 2000 JNull)) st1"
  have kept: "?st2 p = st1 p" if "p \<in> {demo_cell_path, demo_host_path, demo_cost_path}" for p
    using that by (auto simp: write_report_def bd_lane_report_def demo_cell_path_def demo_host_path_def demo_cost_path_def)
  let ?undo = "maybeReleaseExecutionCell demo_process 2000 (be_cellOptions ?e) (JStr demo_output_path)
      (getp2 (getp cell ''lease'') ''grant'' ''leaseId'') ?st2"
  obtain l where "st1 demo_cell_path = Some (Doc l)" "truthy l" using files(4) by blast
  then have "\<exists>undone. snd ?undo = Inr undone"
    by (intro bd_undo [of _ l]) (simp_all add: kept files)
  then obtain st3 undone where "?undo = (st3, Inr undone)" by (metis prod.collapse)
  moreover have "be_cellReport ?e = demo_output_path" "be_laneReport ?e = bd_lane_report" "truthy (be_laneOptions ?e)"
    by (simp_all add: bd_env_def lane_options_of_def Let_def)
  ultimately have "grant_bundle demo_process 2000 ''cd'' ?e ?st = (st3, Inr \<lparr>bp_cell = cell,
      bp_lane = lane_not_found (bd_lane_run ''grant'' 2000 JNull), bp_rollbacks = [(''executionCell'', undone)]\<rparr>)"
    using status by (simp add: grant_bundle_def cell lane_reported_def lane trimmed_def is_space_def)
  with status show ?thesis by auto
qed


lemma bundle_grant_atomic_witness:
  "\<exists>st' report. runExecutionCellBundle demo_process 2000 ''cd'' (bd_opts ''grant'' bd_lane_fields)
       (demo_store (demo_lease ''requested'')) = (st', Inr report) \<and>
     getp2 report ''executionCell'' ''status'' = JStr ''granted'' \<and>
     (normalizeText (getp2 report ''dockerLane'' ''status'') = ''granted'' \<or>
      (\<exists>l. st' demo_cell_path = Some (Doc l) \<and> getp l ''state'' = JStr ''released''))"
proof -
  let ?st = "demo_store (demo_lease ''requested'')"
  have strs: "trim ''grant'' = ''grant''" "to_lower ''grant'' = ''grant''" "trim ''granted'' = ''granted''"
    by (simp_all add: trimmed_def is_space_def to_lower_def lower_char_def)
  obtain st1 b where b: "grant_bundle demo_process 2000 ''cd'' (bd_env ''grant'' True) ?st = (st1, Inr b)"
      "getp (bp_cell b) ''status'' = JStr ''granted''"
    using bd_grant_run by blast
  then obtain st' report where run: "runExecutionCellBundle demo_process 2000 ''cd'' (bd_opts ''grant'' bd_lane_fields) ?st =
      (st', Inr report)" and granted: "getp2 report ''executionCell'' ''status'' = JStr ''granted''"
    using strs by (simp add: bd_run_lane dispatch_bundle_def finish_bundle_def buildReport_def Let_def)
  have prep: "prepare_cell_run demo_process 2000 (be_cellOptions (bd_env ''grant'' True)) ?st =
      Inr (demo_run 2000 ''grant'' [] [''docker-lane''] (demo_lease ''requested''))"
    by (rule bd_cell_prepared [OF bd_env_cell(1)])
      (use bd_caps [of True] in \<open>simp_all add: demo_text bd_env_cell(2) bd_setup_def\<close>)
  have "bs_dockerRequested (bd_setup True)" "bs_outputPath (bd_setup True) = bd_report" by (simp_all add: bd_setup_def)
  with bundle_grant_atomic [OF run bd_setup_of(1) bd_env_of(1) _ _ _ _ prep demo_separated _ granted] bd_apart [of "''grant''"]
  have "normalizeText (getp2 report ''dockerLane'' ''status'') = ''granted'' \<or>
      getp2 (getp report ''rollbacks'') ''executionCell'' ''status'' = JStr ''released'' \<and>
      (\<exists>l. st' demo_cell_path = Some (Doc l) \<and> getp l ''state'' = JStr ''released'')"
    by (simp add: bd_normalized)
  with run granted show ?thesis by blast
qed

text \<open>The handshake file of the lane does not parse; the cell is granted and stays granted.\<close>

definition bd_broken_lane :: store where
  "bd_broken_lane = (demo_store (demo_lease ''requested''))(demo_handshake_path \<mapsto> Malformed)"

lemma bd_broken_lane_simps [simp]:
  "bd_broken_lane demo_host_path = None" "bd_broken_lane demo_cost_path = Some (Doc demo_profile)"
  "read_doc demo_cell_path bd_broken_lane = Inr (demo_lease ''requested'')"
  "bd_broken_lane demo_handshake_path = Some Malformed"
  by (simp_all add: bd_broken_lane_def demo_store_def read_doc_def demo_host_path_def demo_cost_path_def demo_cell_path_def
      demo_handshake_path_def)

lemma bundle_throw_keeps_grant_witness:
  "\<exists>st1 err l. runExecutionCellBundle demo_process 2000 ''cd'' (bd_opts ''grant'' bd_lane_fields) bd_broken_lane = (st1, Inl err) \<and>
     st1 demo_cell_path = Some (Doc l) \<and> getp l ''state'' = JStr ''granted''"
proof -
  let ?e = "bd_env ''grant'' True" and ?r = "demo_run 2000 ''grant'' [] [''docker-lane''] (demo_lease ''requested'')"
  have prep: "prepare_cell_run demo_process 2000 (be_cellOptions ?e) bd_broken_lane = Inr ?r"
    by (rule bd_cell_prepared [OF bd_env_cell(1)])
      (use bd_caps [of True] in \<open>simp_all add: demo_text bd_env_cell(2) bd_setup_def\<close>)
  obtain st1 cell where cell: "runExecutionCellLease demo_process 2000 (be_cellOptions ?e) bd_broken_lane = (st1, Inr cell)"
      and status: "getp cell ''status'' = JStr ''granted''" and broken: "st1 demo_handshake_path = Some Malformed"
    using bd_cell_granted [of bd_broken_lane] by (metis bd_broken_lane_simps)
  have "bs_dockerRequested (bd_setup True)" "trim ''granted'' = ''granted''" by (simp_all add: bd_setup_def trimmed_def is_space_def)
  with bundle_throw_keeps_grant [OF bd_setup_of(1) bd_env_of(1) _ _ _ _ prep demo_separated cell _ bd_lane_file broken] status
  show ?thesis by (fastforce simp: bd_normalized)
qed

text \<open>The cell and the lane are active; the bundle is granted again.\<close>

definition bd_active :: store where
  "bd_active = (demo_store (demo_lease ''active''))(demo_handshake_path \<mapsto> Doc (demo_handshake ''active''))"

lemma bd_active_simps [simp]:
  "bd_active demo_host_path = None" "bd_active demo_cost_path = Some (Doc demo_profile)"
  "read_doc demo_cell_path bd_active = Inr (demo_lease ''active'')"
  "bd_active demo_handshake_path = Some (Doc (demo_handshake ''active''))"
  by (simp_all add: bd_active_def demo_store_def read_doc_def demo_host_path_def demo_cost_path_def demo_cell_path_def
      demo_handshake_path_def)

lemma bd_busy:
  "\<exists>st1 cell. runExecutionCellLease demo_process 1000 (be_cellOptions (bd_env ''grant'' True)) bd_active = (st1, Inr cell) \<and>
     getp cell ''status'' = JStr ''busy'' \<and> st1 demo_host_path = None \<and> st1 demo_cost_path = Some (Doc demo_profile) \<and>
     st1 demo_handshake_path = Some (Doc (demo_handshake ''active''))"
proof -
  let ?r = "demo_run 1000 ''grant'' [] [''docker-lane''] (demo_lease ''active'')" and ?e = "bd_env ''grant'' True"
  have prep: "prepare_cell_run demo_process 1000 (be_cellOptions ?e) bd_active = Inr ?r"
    by (rule bd_cell_prepared [OF bd_env_cell(1)])
      (use bd_caps [of True] in \<open>simp_all add: demo_text bd_env_cell(2) bd_setup_def\<close>)
  have "leaseAgeSeconds (demo_lease ''active'') (num_of_int 1000) = Fin 1"
    by (subst leaseAgeSeconds_iso [of _ 0]) (simp_all add: demo_lease_def)
  then have fresh: "\<not> isExecutionCellLeaseStale (demo_lease ''active'') (num_of_int 1000)"
    by (simp add: isExecutionCellLeaseStale_def resolveTtlSeconds_def) (simp add: demo_lease_def)
  have caps: "normalizeCapabilities (getp2 (demo_lease ''active'') ''request'' ''capabilities'') = Inr []"
    by (simp add: demo_lease_def normalizeCapabilities_def normalizeCapabilityList_def)
  have "toOptionalText (getp (demo_lease ''active'') ''state'') = JStr ''active''"
    by (simp add: demo_lease_def trimmed_def is_space_def)
  then obtain d where d: "buildGrantDecision (demo_lease ''active'') (ec_profile ?r) (num_of_int 1000) = Inr d"
      "''execution-cell-already-active'' \<in> set (gd_reasons d)"
    using fresh caps by (simp add: buildGrantDecision_def reason_if_def Let_def)
  moreover have "truthy (demo_lease ''active'')" by (simp add: demo_lease_def)
  moreover have "\<not> gd_allowed d" using d(2) by (auto simp: gd_allowed_def)
  ultimately have run: "runExecutionCellLease demo_process 1000 (be_cellOptions ?e) bd_active =
      refuse_run demo_process ?r ''busy'' (gd_reasons d) bd_active"
    by (simp add: runExecutionCellLease_prepared [OF prep] run_cell_action_def grant_cell_def Let_def)
  show ?thesis
    unfolding run refuse_run_def
    using bd_frame(2-4) [of 1000 "''grant''" "[]" "[''docker-lane'']" "demo_lease ''active''"]
    by (simp add: finish_run_def)
qed

lemma bundle_regrant_releases_lane_witness:
  "\<exists>st' report d. runExecutionCellBundle demo_process 1000 ''cd'' (bd_opts ''grant'' bd_lane_fields) bd_active = (st', Inr report) \<and>
     getp report ''status'' = JStr ''busy'' \<and>
     st' demo_handshake_path = Some (Doc d) \<and> getp d ''state'' = JStr ''released''"
proof -
  let ?e = "bd_env ''grant'' True" and ?r = "bd_lane_run ''inspect'' 1000 (demo_handshake ''active'')"
  have strs: "trim ''grant'' = ''grant''" "to_lower ''grant'' = ''grant''" "trim ''busy'' = ''busy''"
    by (simp_all add: trimmed_def is_space_def to_lower_def lower_char_def)
  obtain st1 cell where cell: "runExecutionCellLease demo_process 1000 (be_cellOptions ?e) bd_active = (st1, Inr cell)"
    "getp cell ''status'' = JStr ''busy''" and files: "st1 demo_host_path = None" "st1 demo_cost_path = Some (Doc demo_profile)"
    "st1 demo_handshake_path = Some (Doc (demo_handshake ''active''))"
    using bd_busy by blast
  let ?o = "JObj (lane_rollback_options (be_laneOptions ?e) ''inspect'' (JStr (be_laneReport ?e)))"
  have "prepare_lane_run (lane_process demo_process (rand demo_process)) 1000 ?o st1 = Inr ?r"
  proof (rule bd_lane_prepared)
    show "bd_lane_options ?o ''inspect''"
      using bd_env_lane [of "''grant''"] by (simp add: bd_lane_options_def lane_rollback_options_def)
  qed (use files in \<open>simp_all add: lane_text read_doc_def\<close>)
  then have prep: "prepare_lane_run demo_process 1000 ?o st1 = Inr ?r"
    by (simp add: lane_process_def)
  have lane: "dl_laneId ?r \<noteq> []" "truthy (dl_current ?r)" "same_agent ?r" "getp (dl_current ?r) ''state'' = JStr ''active''"
      "dl_path ?r = demo_handshake_path"
    by (simp_all add: bd_lane_run_def same_agent_def) (simp add: demo_handshake_def lane_text)
  obtain d undone where "maybeReleaseDockerLane demo_process 1000 (be_laneOptions ?e) (JStr (be_laneReport ?e)) st1 =
      (d, Inr undone)"
    using lane_rollback [OF prep lane(1-3)] lane(4) by auto
  then have "grant_bundle demo_process 1000 ''cd'' ?e bd_active =
      (d, Inr \<lparr>bp_cell = cell, bp_lane = JNull, bp_rollbacks = [(''dockerLane'', undone)]\<rparr>)"
    using cell strs by (simp add: grant_bundle_def) (simp add: bd_env_def lane_options_of_def Let_def)
  then obtain st' report where run: "runExecutionCellBundle demo_process 1000 ''cd'' (bd_opts ''grant'' bd_lane_fields) bd_active =
      (st', Inr report)"
    using strs by (simp add: bd_run_lane dispatch_bundle_def finish_bundle_def Let_def)
  have "bs_dockerRequested (bd_setup True)" "demo_handshake_path \<noteq> bs_outputPath (bd_setup True)"
    by (simp_all add: bd_setup_def demo_handshake_path_def bd_report_def)
  with bundle_regrant_releases_lane [OF run bd_setup_of(1) bd_env_of(1) _ _ _ cell prep lane(1-4)] lane(5) run show ?thesis
    by (auto simp: bd_normalized)
qed

lemma commit_returns:
  "load_docker_link c opts r st = Inr linked \<Longrightarrow> \<exists>st1 rep. commit_cell c now opts r st = (st1, Inr rep)"
  by (simp add: commit_cell_def refuse_run_def activate_cell_def commit_lease_def finish_run_def Let_def)

text \<open>A granted cell without a lane, committed through the bundle.\<close>

lemma bundle_cell_only_commit_refused_witness:
  "\<exists>st' report. runExecutionCellBundle demo_process 1000 ''cd'' (bd_opts ''commit'' []) (demo_store (demo_lease ''granted'')) =
       (st', Inr report) \<and> getp report ''status'' = JStr ''mismatch'' \<and>
     st' demo_cell_path = Some (Doc (demo_lease ''granted''))"
proof -
  let ?e = "bd_env ''commit'' False" and ?st = "demo_store (demo_lease ''granted'')"
  let ?r = "demo_run 1000 ''commit'' [] [] (demo_lease ''granted'')"
  have strs: "trim ''commit'' = ''commit''" "to_lower ''commit'' = ''commit''"
    by (simp_all add: trimmed_def is_space_def to_lower_def lower_char_def)
  have prep: "prepare_cell_run demo_process 1000 (be_cellOptions ?e) ?st = Inr ?r"
    by (rule bd_cell_prepared [OF bd_env_cell(1)])
      (use bd_caps [of False] in \<open>simp_all add: demo_text bd_env_cell(2) bd_setup_def\<close>)
  have live: "truthy (demo_lease ''granted'')" "toOptionalText (getp (demo_lease ''granted'') ''state'') = JStr ''granted''"
    by (simp_all add: demo_lease_def trimmed_def is_space_def)
  have none: "?st bd_lane_report = None" "be_laneReport ?e = bd_lane_report" "\<not> truthy (be_laneOptions ?e)"
    by (simp_all add: demo_store_def bd_lane_report_def demo_cost_path_def demo_cell_path_def bd_env_def Let_def)
  have path: "getp (be_cellOptions ?e) ''dockerLaneReportPath'' = JStr bd_lane_report"
    using env_options(4) [OF bd_env_of(2) [of "''commit''"]] none by simp
  have "load_docker_link demo_process (be_cellOptions ?e) ?r ?st = Inr JNull"
    using env_reports(2) [OF bd_env_of(2) [of "''commit''"]] none
    by (simp add: load_docker_link_def path read_doc_def resolveDockerLaneLinkContext_def)
  then obtain st1 cell where "runExecutionCellLease demo_process 1000 (be_cellOptions ?e) ?st = (st1, Inr cell)"
    using commit_returns [of demo_process "be_cellOptions ?e" ?r ?st JNull 1000] live(1)
    by (auto simp: runExecutionCellLease_prepared [OF prep] run_cell_action_def Let_def)
  then obtain st' report where run: "runExecutionCellBundle demo_process 1000 ''cd'' (bd_opts ''commit'' []) ?st = (st', Inr report)"
    using strs none(3) by (simp add: bd_run_cell dispatch_bundle_def commit_bundle_def finish_bundle_def Let_def)
  have "\<not> bs_dockerRequested (bd_setup False)" "demo_cell_path \<noteq> bs_outputPath (bd_setup False)"
    by (simp_all add: bd_setup_def demo_cell_path_def bd_report_def)
  with bundle_cell_only_commit_refused [OF run bd_setup_of(2) bd_env_of(2) _ _ _ prep demo_separated] live none run show ?thesis
    by (auto simp: bd_normalized)
qed

text \<open>Both halves granted, the report of the granted cell on disk; the bundle is committed.\<close>

definition bd_handshake :: jsval where
  "bd_handshake = JObj
     [(''state'', JStr ''granted''), (''sequence'', JInt 2), (''heartbeatAt'', JStr (iso_string 0)),
      (''host'', JObj [(''isolatedLaneGroupId'', JStr ''grp''), (''fingerprintSha256'', JStr ''f00d'')]),
      (''request'', JObj [(''agentId'', JStr ''a1'')]),
      (''grant'', JObj [(''leaseId'', JStr ''L7''), (''ttlSeconds'', JInt 60)])]"

definition bd_cell_report :: jsval where
  "bd_cell_report = JObj
     [(''cellId'', JStr ''c1''),
      (''summary'', JObj [(''leaseId'', JStr ''L1''), (''holder'', JStr ''a1''), (''isolatedLaneGroupId'', JStr ''grp''),
         (''fingerprintSha256'', JStr ''f00d''), (''harnessKind'', JStr ''teststand-compare-harness'')]),
      (''lease'', JObj [])]"

definition bd_granted :: store where
  "bd_granted = (demo_store (demo_lease ''granted''))
     (demo_handshake_path \<mapsto> Doc bd_handshake, demo_output_path \<mapsto> Doc bd_cell_report)"

lemma bd_granted_simps [simp]:
  "bd_granted demo_host_path = None" "bd_granted demo_cost_path = Some (Doc demo_profile)"
  "bd_granted demo_cell_path = Some (Doc (demo_lease ''granted''))" "bd_granted demo_handshake_path = Some (Doc bd_handshake)"
  "bd_granted demo_output_path = Some (Doc bd_cell_report)"
  by (simp_all add: bd_granted_def demo_store_def demo_host_path_def demo_cost_path_def demo_cell_path_def
      demo_handshake_path_def demo_output_path_def)

lemma bd_commit_lane:
  obtains linked lane where "runDockerLaneHandshake (lane_process demo_process ''cd'') 1000 (be_laneOptions (bd_env ''commit'' True)) bd_granted =
      (write_json_dl demo_process demo_handshake_path (committed_lane 1000 (bd_lane_run ''commit'' 1000 bd_handshake) linked) bd_granted, Inr lane)"
    "lane = push_summary ''observations'' [''linked-execution-cell-commit'']
       (buildResultReport (bd_lane_run ''commit'' 1000 bd_handshake) (committed_lane 1000 (bd_lane_run ''commit'' 1000 bd_handshake) linked) ''committed'')"
proof -
  let ?r = "bd_lane_run ''commit'' 1000 bd_handshake" and ?o = "be_laneOptions (bd_env ''commit'' True)"
  let ?linked = "resolveExecutionCellLinkContext bd_cell_report"
  have prep: "prepare_lane_run (lane_process demo_process ''cd'') 1000 ?o bd_granted = Inr ?r"
    by (rule bd_lane_prepared [OF bd_env_lane]) (simp_all add: lane_text read_doc_def)
  have opts: "getp ?o ''leaseId'' = JUndef" "getp ?o ''executionCellReportPath'' = JStr demo_output_path"
    by (simp_all add: bd_env_def lane_options_of_def Let_def)
  have report: "be_cellReport (bd_env ''commit'' True) = demo_output_path" by (simp add: bd_env_def Let_def)
  have load: "load_cell_link (lane_process demo_process ''cd'') ?o ?r bd_granted = Inr ?linked"
    using env_reports(1) [OF bd_env_of(1) [of "''commit''"]] report
    by (simp add: load_cell_link_def opts read_doc_def)
  have valid: "validateExecutionCellLink bd_handshake ?linked = []" "truthy (getp ?linked ''cellId'')"
    by (simp_all add: validateExecutionCellLink_def resolveExecutionCellLinkContext_def bd_cell_report_def bd_handshake_def
        lane_text typeof_object_def isWindowsNativeExecutionCellLink_def)
  have "same_agent ?r" "dl_laneId ?r \<noteq> []" "dl_action ?r = ''commit''" "dl_current ?r = bd_handshake" "truthy bd_handshake"
      "getp bd_handshake ''state'' = JStr ''granted''" "dl_path ?r = demo_handshake_path"
    by (simp_all add: same_agent_def bd_lane_run_def) (simp_all add: bd_handshake_def lane_text)
  moreover have "lane_lease_matches ?o bd_handshake" by (simp add: lane_lease_matches_def opts)
  moreover have "normalizeText (JStr demo_output_path) \<noteq> []"
    using resolved_not_blank [OF env_reports(1) [OF bd_env_of(1) [of "''commit''"]]] report by simp
  ultimately have "runDockerLaneHandshake (lane_process demo_process ''cd'') 1000 ?o bd_granted =
      activate_lane (lane_process demo_process ''cd'') 1000 ?r ?linked bd_granted"
    using valid load
    by (simp add: runDockerLaneHandshake_prepared [OF prep] run_lane_action_def commit_lane_def opts Let_def)
  moreover have "write_json_dl (lane_process demo_process ''cd'') = write_json_dl demo_process"
    by (simp add: fun_eq_iff write_json_dl_def)
  ultimately show ?thesis
    using valid(2) \<open>dl_path ?r = demo_handshake_path\<close> by (intro that [of ?linked]) (simp_all add: activate_lane_def Let_def)
qed

lemma json_summary:
  "getp2 rep ''summary'' k = JStr x \<Longrightarrow> getp2 (json_norm rep) ''summary'' k = JStr x"
proof -
  assume *: "getp2 rep ''summary'' k = JStr x"
  then have "getp2 rep ''summary'' k \<noteq> JUndef" "getp rep ''summary'' \<noteq> JUndef" by auto
  with * show ?thesis by (simp add: getp_json_norm_defined del: json_norm.simps(7))
qed

lemma bd_lane_link:
  assumes "lane = push_summary ''observations'' obs (buildResultReport (bd_lane_run a now bd_handshake)
      (committed_lane now (bd_lane_run a now bd_handshake) linked) s)"
  shows "validateDockerLaneLink (demo_lease ''granted'') (resolveDockerLaneLinkContext (json_norm lane)) = []"
    "getp lane ''status'' = JStr s"
proof -
  let ?d = "committed_lane now (bd_lane_run a now bd_handshake) linked"
  have kept: "getp ?d ''request'' = getp bd_handshake ''request''" "getp ?d ''host'' = getp bd_handshake ''host''"
      "getp ?d ''grant'' = getp bd_handshake ''grant''"
    by (simp_all add: committed_lane_def Let_def cloneForTransition_def bd_lane_run_def bd_handshake_def getp_with_fields)
  have "getp2 lane ''summary'' ''leaseId'' = JStr ''L7''" "getp2 lane ''summary'' ''holder'' = JStr ''a1''"
      "getp2 lane ''summary'' ''isolatedLaneGroupId'' = JStr ''grp''" "getp2 lane ''summary'' ''fingerprintSha256'' = JStr ''f00d''"
    unfolding assms
    by (simp_all add: lane_pushed_summary lane_summary_def kept Let_def) (simp_all add: bd_handshake_def lane_text)
  note summary = this [THEN json_summary]
  have top: "getp lane ''laneId'' = JStr ''d1''" "\<exists>kvs. getp lane ''handshake'' = JObj kvs" "getp lane ''status'' = JStr s"
    unfolding assms by (simp_all add: lane_report_shape) (simp_all add: bd_lane_run_def committed_lane_def with_fields_def Let_def)
  then obtain kvs where "getp lane ''handshake'' = JObj kvs" by blast
  then have "\<exists>hs. getp (json_norm lane) ''handshake'' = JObj hs" by (subst getp_json_norm_defined) auto
  moreover have "getp (json_norm lane) ''laneId'' = JStr ''d1''"
    using top(1) by (subst getp_json_norm_defined) auto
  moreover obtain ls where "json_norm lane = JObj ls"
    using top(1) by (cases lane) auto
  ultimately show "validateDockerLaneLink (demo_lease ''granted'') (resolveDockerLaneLinkContext (json_norm lane)) = []"
    using summary by (auto simp: validateDockerLaneLink_def resolveDockerLaneLinkContext_def typeof_object_def demo_lease_def lane_text)
  show "getp lane ''status'' = JStr s" by (rule top(3))
qed

lemma bd_commit_run:
  obtains st' b where "commit_bundle demo_process 1000 ''cd'' (bd_env ''commit'' True) bd_granted = (st', Inr b)"
    "getp (bp_cell b) ''status'' = JStr ''committed''" "getp (bp_lane b) ''status'' = JStr ''committed''"
proof -
  let ?e = "bd_env ''commit'' True" and ?r = "demo_run 1000 ''commit'' [] [''docker-lane''] (demo_lease ''granted'')"
  have strs: "trim ''committed'' = ''committed''" by (simp add: trimmed_def is_space_def)
  obtain linked lane where run: "runDockerLaneHandshake (lane_process demo_process ''cd'') 1000 (be_laneOptions ?e) bd_granted =
      (write_json_dl demo_process demo_handshake_path (committed_lane 1000 (bd_lane_run ''commit'' 1000 bd_handshake) linked) bd_granted, Inr lane)"
    and lane: "lane = push_summary ''observations'' [''linked-execution-cell-commit'']
       (buildResultReport (bd_lane_run ''commit'' 1000 bd_handshake) (committed_lane 1000 (bd_lane_run ''commit'' 1000 bd_handshake) linked) ''committed'')"
    by (rule bd_commit_lane)
  note link = bd_lane_link [OF lane]
  let ?st = "write_report bd_lane_report lane (write_json_dl demo_process demo_handshake_path
      (committed_lane 1000 (bd_lane_run ''commit'' 1000 bd_handshake) linked) bd_granted)"
  have env: "be_laneReport ?e = bd_lane_report" "truthy (be_laneOptions ?e)"
    by (simp_all add: bd_env_def lane_options_of_def Let_def)
  have files: "?st p = bd_granted p" if "p \<in> {demo_host_path, demo_cost_path, demo_cell_path}" for p
    using that by (auto simp: write_report_def write_json_dl_def atomic_replace_apply temp_path_def bd_lane_report_def
        demo_handshake_path_def demo_host_path_def demo_cost_path_def demo_cell_path_def)
  have prep: "prepare_cell_run demo_process 1000 (be_cellOptions ?e) ?st = Inr ?r"
    by (rule bd_cell_prepared [OF bd_env_cell(1)])
      (use bd_caps [of True] in \<open>simp_all add: demo_text bd_env_cell(2) bd_setup_def files read_doc_def\<close>)
  have path: "getp (be_cellOptions ?e) ''dockerLaneReportPath'' = JStr bd_lane_report"
    using env_options(4) [OF bd_env_of(1) [of "''commit''"]] env by simp
  have load: "load_docker_link demo_process (be_cellOptions ?e) ?r ?st = Inr (resolveDockerLaneLinkContext (json_norm lane))"
    using env_reports(2) [OF bd_env_of(1) [of "''commit''"]] env
    by (simp add: load_docker_link_def path read_doc_def write_report_def)
  have "\<not> lease_id_mismatch (be_cellOptions ?e) (demo_lease ''granted'')"
    by (simp add: lease_id_mismatch_def bd_env_def cell_options_of_def Let_def)
  moreover have "truthy (demo_lease ''granted'')" "toOptionalText (getp (demo_lease ''granted'') ''state'') = JStr ''granted''"
    by (simp_all add: demo_lease_def trimmed_def is_space_def)
  ultimately have "runExecutionCellLease demo_process 1000 (be_cellOptions ?e) ?st =
      activate_cell demo_process 1000 (be_cellOptions ?e) ?r
        (if truthy (toOptionalText (JStr bd_lane_report)) then resolveDockerLaneLinkContext (json_norm lane) else JNull) ?st"
    using link(1) load by (simp add: runExecutionCellLease_prepared [OF prep] run_cell_action_def commit_cell_def path Let_def)
  then obtain st3 cell where cell: "runExecutionCellLease demo_process 1000 (be_cellOptions ?e) ?st = (st3, Inr cell)"
      "getp cell ''status'' = JStr ''committed''"
    by (simp add: activate_cell_def commit_lease_def finish_run_def)
  have "commit_bundle demo_process 1000 ''cd'' ?e bd_granted = (st3, Inr (parts_of cell lane))"
    using env strs link(2) cell by (simp add: commit_bundle_def lane_reported_def run)
  then show ?thesis
    using that link(2) cell(2) by simp
qed

lemma bundle_commit_reciprocal_witness:
  "\<exists>st' report. runExecutionCellBundle demo_process 1000 ''cd'' (bd_opts ''commit'' bd_lane_fields) bd_granted = (st', Inr report) \<and>
     getp2 report ''summary'' ''reciprocalLinkReady'' = JBool True"
proof -
  let ?e = "bd_env ''commit'' True"
  have strs: "trim ''commit'' = ''commit''" "to_lower ''commit'' = ''commit''"
    by (simp_all add: trimmed_def is_space_def to_lower_def lower_char_def)
  obtain st1 b where "commit_bundle demo_process 1000 ''cd'' ?e bd_granted = (st1, Inr b)"
    "getp (bp_cell b) ''status'' = JStr ''committed''" "getp (bp_lane b) ''status'' = JStr ''committed''"
    by (rule bd_commit_run)
  then obtain st' report where run: "runExecutionCellBundle demo_process 1000 ''cd'' (bd_opts ''commit'' bd_lane_fields) bd_granted =
      (st', Inr report)" and both: "getp2 report ''executionCell'' ''status'' = JStr ''committed''"
      "getp2 report ''dockerLane'' ''status'' = JStr ''committed''"
    using strs by (simp add: bd_run_lane dispatch_bundle_def finish_bundle_def buildReport_def Let_def)
  have lane: "prepare_lane_run (lane_process demo_process ''cd'') 1000 (be_laneOptions ?e) bd_granted =
      Inr (bd_lane_run ''commit'' 1000 bd_handshake)"
    by (rule bd_lane_prepared [OF bd_env_lane]) (simp_all add: lane_text read_doc_def)
  have cell: "prepare_cell_run demo_process 1000 (be_cellOptions ?e) bd_granted =
      Inr (demo_run 1000 ''commit'' [] [''docker-lane''] (demo_lease ''granted''))"
    by (rule bd_cell_prepared [OF bd_env_cell(1)])
      (use bd_caps [of True] in \<open>simp_all add: demo_text bd_env_cell(2) bd_setup_def read_doc_def\<close>)
  have "read_doc (be_cellReport ?e) bd_granted = Inr bd_cell_report"
    by (simp add: bd_env_def read_doc_def Let_def)
  moreover have "toOptionalText (getp bd_cell_report ''cellId'') = JStr ''c1''"
      "toOptionalText (getp2 bd_cell_report ''summary'' ''leaseId'') = JStr ''L1''"
    by (simp_all add: bd_cell_report_def lane_text)
  moreover have "toOptionalText (getp2 (dl_current (bd_lane_run ''commit'' 1000 bd_handshake)) ''grant'' ''leaseId'') = JStr ''L7''"
      "toOptionalText (getp2 (demo_lease ''granted'') ''grant'' ''leaseId'') = JStr ''L1''"
    by (simp_all add: bd_lane_run_def bd_handshake_def demo_lease_def lane_text)
  moreover have "bs_dockerRequested (bd_setup True)" "bs_outputPath (bd_setup True) = bd_report" by (simp_all add: bd_setup_def)
  ultimately have "getp2 report ''summary'' ''reciprocalLinkReady'' = JBool True"
    using bundle_commit_reciprocal [OF run bd_setup_of(1) bd_env_of(1) _ _ bd_normalized(1) _ bd_normalized(3) _ lane cell
        _ _ _ _ _ _ both] bd_apart [of "''commit''"]
    by (simp add: bd_normalized)
  with run show ?thesis by blast
qed

end
