(* ===== verification/RuntimeHarness.thy ===== *)
theory RuntimeHarness
  imports WriterLease "HOL-Library.AList"
begin

text \<open>
  The portable runtime harness of \<^verbatim>\<open>packages/runtime-harness/index.mjs\<close>: the status, step, stop and
  resume actions over a state document, lane and turn artifacts, a stop request, a blocker note
  and an event log.  A step runs under a writer lease that the adapter's hooks acquire and
  release; their world \<open>'w\<close> is a parameter, and it is the file store of theory WriterLease for the
  adapter of \<^verbatim>\<open>tools/priority/runtime-supervisor.mjs\<close>.  The lease files lie outside the runtime's
  own files, and directories are not part of the state: they are created before they are used.
\<close>

section \<open>Files\<close>

text \<open>
  The files by absolute path, in the order of creation.  \<open>JsonTexts\<close> is a file of JSON texts, one
  per line: it parses exactly when there is one.
\<close>

datatype runtime_file = BlankText | BrokenText | JsonTexts "jsval list"

type_synonym runtime_files = "(string \<times> runtime_file) list"

definition absolute_path :: "process \<Rightarrow> string \<Rightarrow> string" where
  "absolute_path c p = path_resolve (workingDir c) [p]"

definition file_present :: "process \<Rightarrow> string \<Rightarrow> runtime_files \<Rightarrow> bool" where
  "file_present c p fs = (map_of fs (absolute_path c p) \<noteq> None)"

definition writeJson_rt :: "process \<Rightarrow> string \<Rightarrow> jsval \<Rightarrow> runtime_files \<Rightarrow> runtime_files" where
  "writeJson_rt c p payload fs = AList.update (absolute_path c p) (JsonTexts [json_norm payload]) fs"

definition readJson_rt :: "process \<Rightarrow> string \<Rightarrow> runtime_files \<Rightarrow> jsval result" where
  "readJson_rt c p fs =
     (case map_of fs (absolute_path c p) of
        None \<Rightarrow> Inr JNull
      | Some (JsonTexts [v]) \<Rightarrow> Inr v
      | Some _ \<Rightarrow> Inl SyntaxError)"

definition appendNdjson :: "process \<Rightarrow> string \<Rightarrow> jsval \<Rightarrow> runtime_files \<Rightarrow> runtime_files" where
  "appendNdjson c p payload fs =
     (let q = absolute_path c p; line = json_norm payload
      in AList.update q
           (case map_of fs q of
              Some (JsonTexts vs) \<Rightarrow> JsonTexts (vs @ [line])
            | Some BrokenText \<Rightarrow> BrokenText
            | _ \<Rightarrow> JsonTexts [line]) fs)"

definition removeFile_rt :: "process \<Rightarrow> string \<Rightarrow> runtime_files \<Rightarrow> runtime_files" where
  "removeFile_rt c p fs = AList.delete (absolute_path c p) fs"

definition ends_with :: "string \<Rightarrow> string \<Rightarrow> bool" where
  "ends_with s e = starts_with (rev s) (rev e)"

definition json_entry :: "string \<Rightarrow> string \<Rightarrow> bool" where
  "json_entry dir p =
     (path_dirname p = dir \<and> ends_with (to_lower (last (split_on CHR ''/'' p))) ''.json'')"

definition countJsonFiles :: "process \<Rightarrow> string \<Rightarrow> runtime_files \<Rightarrow> nat" where
  "countJsonFiles c dirPath fs = length (filter (json_entry (absolute_path c dirPath)) (map fst fs))"

section \<open>Text and paths\<close>

definition quoted :: "string \<Rightarrow> string" where
  "quoted s = [CHR 0x27] @ s @ [CHR 0x27]"

definition toPositiveInteger :: "jsval \<Rightarrow> string \<Rightarrow> jsval result" where
  "toPositiveInteger v label =
     (if nullish v then Inr JNull
      else
        (let number = js_number v
         in if \<not> num_integer number \<or> num_le number (Fin 0)
            then Inl (ErrorMsg (''Invalid '' @ label @ '' value '' @ quoted (js_string v) @ ''.''))
            else Inr (JNum number)))"

definition resolvePath :: "jsval \<Rightarrow> jsval \<Rightarrow> string result" where
  "resolvePath repoRoot v =
     bindE (as_text v) (\<lambda>p.
       if path_is_absolute p then Inr p else bindE (as_text repoRoot) (\<lambda>r. Inr (path_join [r, p])))"

definition strip_dashes :: "string \<Rightarrow> string" where
  "strip_dashes s =
     rev (dropWhile (\<lambda>ch. ch = CHR ''-'') (rev (dropWhile (\<lambda>ch. ch = CHR ''-'') s)))"

definition sanitizeSegment :: "jsval \<Rightarrow> string" where
  "sanitizeSegment v =
     (let s = strip_dashes (replace_runs safe_name_char ''-'' False (trim (js_string (js_or v (JStr [])))))
      in if s = [] then ''runtime'' else s)"

definition pad_start :: "nat \<Rightarrow> char \<Rightarrow> string \<Rightarrow> string" where
  "pad_start n ch s = replicate (n - length s) ch @ s"

definition makeTurnFileName :: "string \<Rightarrow> jsval \<Rightarrow> string" where
  "makeTurnFileName generatedIso cycle =
     (let stamp = map (\<lambda>ch. if ch = CHR '':'' \<or> ch = CHR ''.'' then CHR ''-'' else ch) generatedIso
      in stamp @ ''-'' @ pad_start 4 (CHR ''0'') (js_string cycle) @ ''.json'')"

definition summarizeLease :: "jsval \<Rightarrow> jsval" where
  "summarizeLease result =
     (if \<not> truthy result then JNull
      else JObj
        [(''action'', js_coalesce (getp result ''action'') JNull),
         (''status'', js_coalesce (getp result ''status'') JNull),
         (''scope'', js_coalesce (getp result ''scope'') JNull),
         (''owner'', js_coalesce (getp result ''owner'') JNull),
         (''leaseId'', js_coalesce (getp2 result ''lease'' ''leaseId'')
            (js_coalesce (getp result ''leaseId'') JNull)),
         (''checkedAt'', js_coalesce (getp result ''checkedAt'') JNull)])"

definition DEFAULT_RUNTIME_DIR :: string where
  "DEFAULT_RUNTIME_DIR = path_join [''tests'', ''results'', ''_agent'', ''runtime'']"

definition DEFAULT_STATE_FILENAME :: string where
  "DEFAULT_STATE_FILENAME = ''delivery-agent-state.json''"

definition LEGACY_STATE_FILENAME :: string where
  "LEGACY_STATE_FILENAME = ''runtime-state.json''"

definition DEFAULT_LEASE_SCOPE :: string where
  "DEFAULT_LEASE_SCOPE = ''workspace''"

record runtime_paths =
  runtimeDir :: string
  statePath :: string
  legacyStatePath :: "string option"
  eventsPath :: string
  lanesDir :: string
  turnsDir :: string
  stopRequestPath :: string
  lastBlockerPath :: string

definition custom_path :: "jsval \<Rightarrow> string \<Rightarrow> jsval \<Rightarrow> string \<Rightarrow> string result" where
  "custom_path repoRoot dir v name =
     (if truthy v then resolvePath repoRoot v else Inr (path_join [dir, name]))"

definition resolveRuntimePaths :: "jsval \<Rightarrow> jsval \<Rightarrow> runtime_paths result" where
  "resolveRuntimePaths repoRoot options =
     bindE (resolvePath repoRoot (js_or (getp options ''runtimeDir'') (JStr DEFAULT_RUNTIME_DIR))) (\<lambda>dir.
     bindE (custom_path repoRoot dir (getp options ''statePath'') DEFAULT_STATE_FILENAME) (\<lambda>state.
     bindE (custom_path repoRoot dir (getp options ''eventsPath'') ''runtime-events.ndjson'') (\<lambda>events.
     bindE (custom_path repoRoot dir (getp options ''lanesDir'') ''lanes'') (\<lambda>lanes.
     bindE (custom_path repoRoot dir (getp options ''turnsDir'') ''turns'') (\<lambda>turns.
     bindE (custom_path repoRoot dir (getp options ''stopRequestPath'') ''stop-request.json'') (\<lambda>stop.
     bindE (custom_path repoRoot dir (getp options ''lastBlockerPath'') ''last-blocker.json'') (\<lambda>blocker.
       Inr \<lparr>runtimeDir = dir, statePath = state,
            legacyStatePath = (if truthy (getp options ''statePath'') then None
                               else Some (path_join [dir, LEGACY_STATE_FILENAME])),
            eventsPath = events, lanesDir = lanes, turnsDir = turns,
            stopRequestPath = stop, lastBlockerPath = blocker\<rparr>)))))))"

section \<open>The command line\<close>

definition ACTIONS :: "string list" where
  "ACTIONS = [''status'', ''step'', ''stop'', ''resume'']"

definition BLOCKER_CLASSES :: "string list" where
  "BLOCKER_CLASSES = [''none'', ''merge'', ''review'', ''ci'', ''scope'', ''helper'', ''auth'']"

definition runtime_text_options :: "(string \<times> string) list" where
  "runtime_text_options =
     [(''--repo'', ''repo''), (''--runtime-dir'', ''runtimeDir''), (''--state-path'', ''statePath''),
      (''--events-path'', ''eventsPath''), (''--lanes-dir'', ''lanesDir''), (''--turns-dir'', ''turnsDir''),
      (''--stop-request-path'', ''stopRequestPath''), (''--last-blocker-path'', ''lastBlockerPath''),
      (''--lane'', ''lane''), (''--fork-remote'', ''forkRemote''), (''--branch'', ''branch''),
      (''--pr-url'', ''prUrl''), (''--lease-root'', ''leaseRoot''), (''--owner'', ''owner'')]"

definition runtime_lower_options :: "(string \<times> string) list" where
  "runtime_lower_options = [(''--action'', ''action''), (''--blocker-class'', ''blockerClass'')]"

definition runtime_int_options :: "(string \<times> string) list" where
  "runtime_int_options = [(''--issue'', ''issue''), (''--epic'', ''epic'')]"

text \<open>The option a token names and the value its argument is stored as; \<open>None\<close> for an unknown token.\<close>

definition runtime_option :: "string \<Rightarrow> string \<Rightarrow> (string \<times> jsval result) option" where
  "runtime_option token next =
     (case map_of runtime_text_options token of
        Some key \<Rightarrow> Some (key, Inr (JStr (normalizeText (JStr next))))
      | None \<Rightarrow>
     (case map_of runtime_lower_options token of
        Some key \<Rightarrow> Some (key, Inr (JStr (to_lower (normalizeText (JStr next)))))
      | None \<Rightarrow>
     (case map_of runtime_int_options token of
        Some key \<Rightarrow> Some (key, toPositiveInteger (JStr next) token)
      | None \<Rightarrow>
          if token = ''--reason'' then Some (''reason'', Inr (JStr next))
          else if token = ''--lease-scope'' then
            Some (''leaseScope'', Inr (js_or (JStr (normalizeText (JStr next))) (JStr DEFAULT_LEASE_SCOPE)))
          else None)))"

fun parse_runtime_args :: "jsval \<Rightarrow> string list \<Rightarrow> jsval result" where
  "parse_runtime_args options [] = Inr options"
| "parse_runtime_args options (token # rest) =
     (if token = ''--help'' \<or> token = ''-h'' then
        parse_runtime_args (set_field options ''help'' (JBool True)) rest
      else if token = ''--quiet'' then
        parse_runtime_args (set_field options ''quiet'' (JBool True)) rest
      else if runtime_option token [] = None then Inl (ErrorMsg (''Unknown option: '' @ token))
      else (case rest of
              [] \<Rightarrow> Inl (ErrorMsg (''Missing value for '' @ token @ ''.''))
            | next # rest' \<Rightarrow>
                if starts_with next ''-'' \<and> token \<noteq> ''--reason''
                then Inl (ErrorMsg (''Missing value for '' @ token @ ''.''))
                else (case runtime_option token next of
                        None \<Rightarrow> Inl (ErrorMsg (''Unknown option: '' @ token))
                      | Some (key, r) \<Rightarrow>
                          bindE r (\<lambda>v. parse_runtime_args (set_field options key v) rest'))))"

definition runtime_defaults :: jsval where
  "runtime_defaults = JObj
     [(''action'', JStr []), (''repo'', JStr []), (''runtimeDir'', JStr DEFAULT_RUNTIME_DIR),
      (''statePath'', JStr []), (''eventsPath'', JStr []), (''lanesDir'', JStr []), (''turnsDir'', JStr []),
      (''stopRequestPath'', JStr []), (''lastBlockerPath'', JStr []), (''lane'', JStr []),
      (''issue'', JNull), (''epic'', JNull), (''forkRemote'', JStr []), (''branch'', JStr []),
      (''prUrl'', JStr []), (''blockerClass'', JStr ''none''), (''reason'', JStr []),
      (''leaseScope'', JStr DEFAULT_LEASE_SCOPE), (''leaseRoot'', JStr []), (''owner'', JStr []),
      (''quiet'', JBool False), (''help'', JBool False)]"

definition parseArgs_rt :: "string list \<Rightarrow> jsval result" where
  "parseArgs_rt argv =
     bindE (parse_runtime_args runtime_defaults argv) (\<lambda>options.
       let action = getp options ''action''; blocker = getp options ''blockerClass''
       in if truthy action \<and> action \<notin> JStr ` set ACTIONS then
            Inl (ErrorMsg (''Unsupported --action '' @ quoted (js_string action) @ ''.''))
          else if truthy blocker \<and> blocker \<notin> JStr ` set BLOCKER_CLASSES then
            Inl (ErrorMsg (''Unsupported --blocker-class '' @ quoted (js_string blocker) @ ''.''))
          else Inr options)"

section \<open>Adapters\<close>

text \<open>A property of the adapter object: missing, some value that is no function, or a function.\<close>

datatype 'f hook = Missing | NotFunction | Function 'f

fun hook_function :: "'f hook \<Rightarrow> 'f option" where
  "hook_function (Function f) = Some f"
| "hook_function h = None"

type_synonym value_hook = "jsval \<Rightarrow> jsval result"
type_synonym 'w world_hook = "jsval \<Rightarrow> 'w \<Rightarrow> 'w \<times> jsval result"

record 'w raw_adapter =
  raw_name :: jsval
  raw_resolveRepoRoot :: "value_hook hook"
  raw_resolveOwner :: "value_hook hook"
  raw_acquireLease :: "'w world_hook hook"
  raw_releaseLease :: "'w world_hook hook"
  raw_planStep :: "'w world_hook hook"
  raw_prepareWorker :: "'w world_hook hook"
  raw_bootstrapWorker :: "'w world_hook hook"
  raw_activateWorker :: "'w world_hook hook"
  raw_buildTaskPacket :: "'w world_hook hook"
  raw_executeTurn :: "'w world_hook hook"
  raw_resolveRepository :: "value_hook hook"

record 'w runtime_adapter =
  adapter_name :: string
  resolveRepoRoot :: value_hook
  resolveOwner :: value_hook
  acquireLease :: "'w world_hook"
  releaseLease :: "'w world_hook"
  planStep :: "'w world_hook option"
  prepareWorker :: "'w world_hook option"
  bootstrapWorker :: "'w world_hook option"
  activateWorker :: "'w world_hook option"
  buildTaskPacket :: "'w world_hook option"
  executeTurn :: "'w world_hook option"
  resolveRepository :: value_hook

definition default_repository :: "process \<Rightarrow> value_hook" where
  "default_repository c options =
     Inr (js_or (JStr (normalizeText (getp options ''repo'')))
       (js_or (env_value c ''GITHUB_REPOSITORY'') (JStr ''unknown/unknown'')))"

definition required_hook :: "string \<Rightarrow> string \<Rightarrow> 'f hook \<Rightarrow> 'f result" where
  "required_hook adapter field h =
     (case hook_function h of
        Some f \<Rightarrow> Inr f
      | None \<Rightarrow> Inl (ErrorMsg (''Runtime adapter '' @ quoted adapter @ '' is missing required hook '' @
                              quoted field @ ''.'')))"

definition createRuntimeAdapter :: "process \<Rightarrow> 'w raw_adapter \<Rightarrow> 'w runtime_adapter result" where
  "createRuntimeAdapter c raw =
     (let nm = (let n = normalizeText (raw_name raw) in if n = [] then ''runtime-adapter'' else n)
      in bindE (required_hook nm ''resolveRepoRoot'' (raw_resolveRepoRoot raw)) (\<lambda>repoRootHook.
         bindE (required_hook nm ''resolveOwner'' (raw_resolveOwner raw)) (\<lambda>ownerHook.
         bindE (required_hook nm ''acquireLease'' (raw_acquireLease raw)) (\<lambda>acquireHook.
         bindE (required_hook nm ''releaseLease'' (raw_releaseLease raw)) (\<lambda>releaseHook.
           Inr \<lparr>adapter_name = nm, resolveRepoRoot = repoRootHook, resolveOwner = ownerHook,
                acquireLease = acquireHook, releaseLease = releaseHook,
                planStep = hook_function (raw_planStep raw),
                prepareWorker = hook_function (raw_prepareWorker raw),
                bootstrapWorker = hook_function (raw_bootstrapWorker raw),
                activateWorker = hook_function (raw_activateWorker raw),
                buildTaskPacket = hook_function (raw_buildTaskPacket raw),
                executeTurn = hook_function (raw_executeTurn raw),
                resolveRepository =
                  (case hook_function (raw_resolveRepository raw) of
                     Some f \<Rightarrow> f
                   | None \<Rightarrow> default_repository c)\<rparr>)))))"

section \<open>Worker, branch and task records\<close>

definition or_null :: "jsval \<Rightarrow> jsval" where
  "or_null v = js_coalesce v JNull"

definition lower_or :: "string \<Rightarrow> jsval \<Rightarrow> string" where
  "lower_or fallback v = (let n = to_lower (normalizeText v) in if n = [] then fallback else n)"

definition text_or :: "string \<Rightarrow> jsval \<Rightarrow> jsval" where
  "text_or fallback v = js_or (JStr (normalizeText v)) (JStr fallback)"

text \<open>\<^verbatim>\<open>v && typeof v === 'object' ? v : {}\<close> and \<^verbatim>\<open>Array.isArray(v) ? v.map(String) : []\<close>.\<close>

definition object_or_empty :: "jsval \<Rightarrow> jsval" where
  "object_or_empty v = (if truthy v \<and> typeof_object v then v else JObj [])"

definition string_items :: "jsval \<Rightarrow> jsval" where
  "string_items v = (if is_array v then jstrs (map js_string (array_items v)) else JArr [])"

definition summarizeWorker :: "jsval \<Rightarrow> jsval" where
  "summarizeWorker w =
     (if \<not> truthy w then JNull
      else JObj
        [(''laneId'', getp w ''laneId''), (''slotId'', or_null (getp w ''slotId'')),
         (''providerId'', or_null (getp w ''providerId'')), (''providerKind'', or_null (getp w ''providerKind'')),
         (''executionPlane'', or_null (getp w ''executionPlane'')),
         (''assignmentMode'', or_null (getp w ''assignmentMode'')),
         (''checkoutPath'', getp w ''checkoutPath''), (''checkoutRoot'', getp w ''checkoutRoot''),
         (''status'', getp w ''status''), (''ref'', getp w ''ref''),
         (''requestedBranch'', getp w ''requestedBranch''), (''preparedAt'', getp w ''preparedAt''),
         (''reused'', JBool (truthy (getp w ''reused'')))])"

definition summarizeWorkerReady :: "jsval \<Rightarrow> jsval" where
  "summarizeWorkerReady w =
     (if \<not> truthy w then JNull
      else JObj
        [(''laneId'', getp w ''laneId''), (''slotId'', or_null (getp w ''slotId'')),
         (''providerId'', or_null (getp w ''providerId'')), (''providerKind'', or_null (getp w ''providerKind'')),
         (''executionPlane'', or_null (getp w ''executionPlane'')),
         (''assignmentMode'', or_null (getp w ''assignmentMode'')),
         (''checkoutPath'', getp w ''checkoutPath''), (''status'', getp w ''status''),
         (''bootstrapCommand'', getp w ''bootstrapCommand''), (''preparedAt'', getp w ''preparedAt''),
         (''readyAt'', getp w ''readyAt''), (''refreshed'', JBool (truthy (getp w ''refreshed'')))])"

definition summarizeWorkerBranch :: "jsval \<Rightarrow> jsval" where
  "summarizeWorkerBranch w =
     (if \<not> truthy w then JNull
      else JObj
        [(''laneId'', getp w ''laneId''), (''slotId'', or_null (getp w ''slotId'')),
         (''providerId'', or_null (getp w ''providerId'')), (''providerKind'', or_null (getp w ''providerKind'')),
         (''executionPlane'', or_null (getp w ''executionPlane'')),
         (''assignmentMode'', or_null (getp w ''assignmentMode'')),
         (''checkoutPath'', getp w ''checkoutPath''), (''branch'', getp w ''branch''),
         (''status'', getp w ''status''), (''trackingRef'', getp w ''trackingRef''),
         (''activatedAt'', getp w ''activatedAt''), (''reused'', JBool (truthy (getp w ''reused'')))])"

definition item_count :: "jsval \<Rightarrow> jsval" where
  "item_count v = JInt (int (length (array_items v)))"

definition summarizeTaskPacket :: "jsval \<Rightarrow> jsval" where
  "summarizeTaskPacket t =
     (if \<not> truthy t then JNull
      else JObj
        [(''laneId'', getp t ''laneId''), (''cycle'', getp t ''cycle''), (''status'', getp t ''status''),
         (''objective'', JObj [(''summary'', or_null (getp2 t ''objective'' ''summary'')),
                               (''source'', or_null (getp2 t ''objective'' ''source''))]),
         (''branch'', JObj [(''name'', or_null (getp2 t ''branch'' ''name'')),
                            (''status'', or_null (getp2 t ''branch'' ''status''))]),
         (''pullRequest'', JObj [(''url'', or_null (getp2 t ''pullRequest'' ''url'')),
                                 (''status'', or_null (getp2 t ''pullRequest'' ''status''))]),
         (''checks'', JObj [(''status'', or_null (getp2 t ''checks'' ''status'')),
                            (''blockerClass'', or_null (getp2 t ''checks'' ''blockerClass''))]),
         (''helperSurface'', JObj [(''preferredCount'', item_count (getp2 t ''helperSurface'' ''preferred'')),
                                   (''fallbackCount'', item_count (getp2 t ''helperSurface'' ''fallbacks''))]),
         (''generatedAt'', or_null (getp t ''generatedAt'')),
         (''artifacts'', js_coalesce (getp t ''artifacts'') (JObj []))])"

definition normalizeWorkerRecord :: "jsval \<Rightarrow> string \<Rightarrow> jsval" where
  "normalizeWorkerRecord w nowIso =
     (if \<not> truthy w \<or> \<not> typeof_object w then JNull
      else
        (let checkoutPath = toOptionalText (getp w ''checkoutPath'');
             checkoutRoot = js_or (JStr (normalizeText (getp w ''checkoutRoot'')))
               (if truthy checkoutPath then JStr (path_dirname (js_string checkoutPath)) else JNull);
             status = lower_or ''prepared'' (getp w ''status'')
         in JObj
           [(''schema'', JStr ''priority/runtime-worker-checkout@v1''),
            (''laneId'', toOptionalText (getp w ''laneId'')), (''checkoutPath'', checkoutPath),
            (''checkoutRoot'', checkoutRoot), (''status'', JStr status),
            (''ref'', toOptionalText (getp w ''ref'')),
            (''requestedBranch'', toOptionalText (getp w ''requestedBranch'')),
            (''source'', toOptionalText (getp w ''source'')), (''reason'', toOptionalText (getp w ''reason'')),
            (''preparedAt'', text_or nowIso (getp w ''preparedAt'')),
            (''reused'', JBool (getp w ''reused'' = JBool True \<or> status = ''reused'')),
            (''artifacts'', object_or_empty (getp w ''artifacts''))]))"

definition normalizeWorkerReadyRecord :: "jsval \<Rightarrow> string \<Rightarrow> jsval" where
  "normalizeWorkerReadyRecord w nowIso =
     (if \<not> truthy w \<or> \<not> typeof_object w then JNull
      else
        (let status = lower_or ''ready'' (getp w ''status'')
         in JObj
           [(''schema'', JStr ''priority/runtime-worker-ready@v1''),
            (''laneId'', toOptionalText (getp w ''laneId'')),
            (''checkoutPath'', toOptionalText (getp w ''checkoutPath'')), (''status'', JStr status),
            (''source'', toOptionalText (getp w ''source'')), (''reason'', toOptionalText (getp w ''reason'')),
            (''bootstrapCommand'', string_items (getp w ''bootstrapCommand'')),
            (''bootstrapExitCode'',
               if is_integer_number (getp w ''bootstrapExitCode'') then getp w ''bootstrapExitCode'' else JInt 0),
            (''preparedAt'', text_or nowIso (getp w ''preparedAt'')),
            (''readyAt'', text_or nowIso (getp w ''readyAt'')),
            (''refreshed'', JBool (getp w ''refreshed'' = JBool True \<or> status = ''reused'')),
            (''artifacts'', object_or_empty (getp w ''artifacts''))]))"

definition normalizeWorkerBranchRecord :: "jsval \<Rightarrow> string \<Rightarrow> jsval" where
  "normalizeWorkerBranchRecord w nowIso =
     (if \<not> truthy w \<or> \<not> typeof_object w then JNull
      else
        (let status = lower_or ''attached'' (getp w ''status'')
         in JObj
           [(''schema'', JStr ''priority/runtime-worker-branch@v1''),
            (''laneId'', toOptionalText (getp w ''laneId'')),
            (''checkoutPath'', toOptionalText (getp w ''checkoutPath'')),
            (''branch'', toOptionalText (getp w ''branch'')),
            (''forkRemote'', toOptionalText (getp w ''forkRemote'')), (''status'', JStr status),
            (''source'', toOptionalText (getp w ''source'')), (''reason'', toOptionalText (getp w ''reason'')),
            (''baseRef'', toOptionalText (getp w ''baseRef'')),
            (''trackingRef'', toOptionalText (getp w ''trackingRef'')),
            (''fetchedRemotes'',
               jstrs (filter (\<lambda>s. s \<noteq> []) (map normalizeText (array_items (getp w ''fetchedRemotes''))))),
            (''readyAt'', toOptionalText (getp w ''readyAt'')),
            (''activatedAt'', text_or nowIso (getp w ''activatedAt'')),
            (''reused'', JBool (getp w ''reused'' = JBool True \<or> status = ''reused'')),
            (''artifacts'', object_or_empty (getp w ''artifacts''))]))"

definition text_fields :: "jsval \<Rightarrow> string list \<Rightarrow> jsval" where
  "text_fields v ks = JObj (map (\<lambda>k. (k, toOptionalText (getp v k))) ks)"

definition normalizeTaskPacketRecord :: "jsval \<Rightarrow> string \<Rightarrow> jsval" where
  "normalizeTaskPacketRecord t nowIso =
     (if \<not> truthy t \<or> \<not> typeof_object t then JNull
      else
        (let objective = object_or_empty (getp t ''objective''); branch = object_or_empty (getp t ''branch'');
             pullRequest = object_or_empty (getp t ''pullRequest''); checks = object_or_empty (getp t ''checks'');
             helperSurface = object_or_empty (getp t ''helperSurface'')
         in JObj
           [(''schema'', JStr ''priority/runtime-worker-task-packet@v1''),
            (''generatedAt'', text_or nowIso (getp t ''generatedAt'')),
            (''cycle'', if is_integer_number (getp t ''cycle'') then getp t ''cycle'' else JNull),
            (''laneId'', toOptionalText (getp t ''laneId'')),
            (''status'', JStr (lower_or ''ready'' (getp t ''status''))),
            (''source'', toOptionalText (getp t ''source'')),
            (''objective'', text_fields objective [''summary'', ''source'']),
            (''branch'', text_fields branch [''name'', ''forkRemote'', ''status'', ''trackingRef'', ''checkoutPath'']),
            (''pullRequest'', text_fields pullRequest [''url'', ''status'']),
            (''checks'', text_fields checks [''status'', ''blockerClass'']),
            (''helperSurface'', JObj [(''preferred'', string_items (getp helperSurface ''preferred'')),
                                      (''fallbacks'', string_items (getp helperSurface ''fallbacks''))]),
            (''recentEvents'', JArr (array_items (getp t ''recentEvents''))),
            (''evidence'', object_or_empty (getp t ''evidence'')),
            (''artifacts'', object_or_empty (getp t ''artifacts''))]))"

definition buildActiveLaneSummary :: "jsval \<Rightarrow> jsval" where
  "buildActiveLaneSummary lane =
     (if \<not> truthy lane then JNull
      else JObj
        [(''laneId'', getp lane ''laneId''), (''issue'', getp lane ''issue''), (''epic'', getp lane ''epic''),
         (''forkRemote'', getp lane ''forkRemote''), (''branch'', getp lane ''branch''),
         (''prUrl'', getp lane ''prUrl''),
         (''blockerClass'', js_coalesce (getp2 lane ''blocker'' ''blockerClass'') (JStr ''none'')),
         (''worker'', summarizeWorker (getp lane ''worker'')),
         (''workerReady'', summarizeWorkerReady (getp lane ''workerReady'')),
         (''workerBranch'', summarizeWorkerBranch (getp lane ''workerBranch'')),
         (''taskPacket'', summarizeTaskPacket (getp lane ''taskPacket'')),
         (''updatedAt'', getp lane ''updatedAt'')])"

definition has_lane_context :: "jsval \<Rightarrow> bool" where
  "has_lane_context options =
     (truthy (getp options ''lane'') \<or> is_integer_number (getp options ''issue'') \<or>
      is_integer_number (getp options ''epic'') \<or> truthy (getp options ''forkRemote'') \<or>
      truthy (getp options ''branch'') \<or> truthy (getp options ''prUrl''))"

definition lane_id_of :: "jsval \<Rightarrow> jsval" where
  "lane_id_of options =
     js_or (getp options ''lane'')
       (js_or (JStr (join_with ''-'' (map js_string
                 (filter truthy [getp options ''forkRemote'', getp options ''issue'']))))
          (JStr (''lane-'' @ sanitizeSegment (js_or (getp options ''branch'') (JStr ''active'')))))"

definition integer_or_null :: "jsval \<Rightarrow> jsval" where
  "integer_or_null v = (if is_integer_number v then v else JNull)"

definition buildLaneRecord :: "jsval \<Rightarrow> string \<Rightarrow> jsval" where
  "buildLaneRecord options nowIso =
     (if \<not> has_lane_context options then JNull
      else
        (let blockerClass = js_or (getp options ''blockerClass'') (JStr ''none'')
         in JObj
           [(''schema'', JStr ''priority/runtime-lane@v1''), (''laneId'', lane_id_of options),
            (''issue'', integer_or_null (getp options ''issue'')),
            (''epic'', integer_or_null (getp options ''epic'')),
            (''forkRemote'', toOptionalText (getp options ''forkRemote'')),
            (''branch'', toOptionalText (getp options ''branch'')),
            (''prUrl'', toOptionalText (getp options ''prUrl'')),
            (''blocker'',
               if blockerClass = JStr ''none'' then JNull
               else JObj [(''schema'', JStr ''priority/runtime-blocker@v1''), (''blockerClass'', blockerClass),
                          (''reason'', toOptionalText (getp options ''reason'')),
                          (''observedAt'', JStr nowIso)]),
            (''worker'', normalizeWorkerRecord (getp options ''worker'') nowIso),
            (''workerReady'', normalizeWorkerReadyRecord (getp options ''workerReady'') nowIso),
            (''workerBranch'', normalizeWorkerBranchRecord (getp options ''workerBranch'') nowIso),
            (''taskPacket'', normalizeTaskPacketRecord (getp options ''taskPacket'') nowIso),
            (''createdAt'', JStr nowIso), (''updatedAt'', JStr nowIso)]))"

section \<open>State\<close>

definition state_artifacts :: "runtime_paths \<Rightarrow> fields" where
  "state_artifacts rp =
     [(''statePath'', JStr (statePath rp)), (''eventsPath'', JStr (eventsPath rp)),
      (''lanesDir'', JStr (lanesDir rp)), (''turnsDir'', JStr (turnsDir rp)),
      (''stopRequestPath'', JStr (stopRequestPath rp)), (''lastBlockerPath'', JStr (lastBlockerPath rp))]"

definition buildEmptyState :: "jsval \<Rightarrow> jsval \<Rightarrow> runtime_paths \<Rightarrow> string \<Rightarrow> jsval \<Rightarrow> string \<Rightarrow> jsval" where
  "buildEmptyState repository repoRoot rp nowIso owner adapterName = JObj
     [(''schema'', JStr ''priority/runtime-supervisor-state@v1''), (''generatedAt'', JStr nowIso),
      (''repository'', repository), (''repoRoot'', repoRoot), (''runtimeDir'', JStr (runtimeDir rp)),
      (''runtimeAdapter'', JStr adapterName),
      (''lifecycle'', JObj [(''status'', JStr ''idle''), (''cycle'', JInt 0), (''startedAt'', JStr nowIso),
                            (''updatedAt'', JStr nowIso), (''lastAction'', JNull),
                            (''stopRequested'', JBool False)]),
      (''owner'', owner), (''activeLane'', JNull),
      (''summary'', JObj [(''trackedLaneCount'', JInt 0), (''blockerPresent'', JBool False)]),
      (''artifacts'', JObj (state_artifacts rp))]"

text \<open>The persisted document, or the one under the legacy name when the state path is the default one.\<close>

definition readPersisted :: "process \<Rightarrow> runtime_paths \<Rightarrow> runtime_files \<Rightarrow> jsval result" where
  "readPersisted c rp fs =
     bindE (readJson_rt c (statePath rp) fs) (\<lambda>existing.
       bindE
         (case legacyStatePath rp of
            None \<Rightarrow> Inr JNull
          | Some legacy \<Rightarrow>
              if truthy existing \<or> legacy = [] \<or> absolute_path c legacy = absolute_path c (statePath rp)
              then Inr JNull else readJson_rt c legacy fs)
         (\<lambda>existingLegacy. Inr (js_coalesce existing existingLegacy)))"

definition loadState ::
  "process \<Rightarrow> jsval \<Rightarrow> jsval \<Rightarrow> runtime_paths \<Rightarrow> string \<Rightarrow> jsval \<Rightarrow> string \<Rightarrow> runtime_files \<Rightarrow> jsval result" where
  "loadState c repository repoRoot rp nowIso owner adapterName fs =
     bindE (readPersisted c rp fs) (\<lambda>persisted.
       if truthy persisted then
         Inr (with_fields persisted
           [(''repository'', js_or (getp persisted ''repository'') repository),
            (''repoRoot'', js_or (getp persisted ''repoRoot'') repoRoot),
            (''runtimeDir'', js_or (getp persisted ''runtimeDir'') (JStr (runtimeDir rp))),
            (''runtimeAdapter'', js_or (getp persisted ''runtimeAdapter'') (JStr adapterName)),
            (''owner'', js_or (getp persisted ''owner'') owner),
            (''artifacts'', with_fields (js_or (getp persisted ''artifacts'') (JObj [])) (state_artifacts rp))])
       else Inr (buildEmptyState repository repoRoot rp nowIso owner adapterName))"

text \<open>
  \<^verbatim>\<open>state.lifecycle.k = v\<close> for each pair: a TypeError unless the lifecycle is an object.  Named
  properties of an array are not part of its JSON text, so an array stays as it is.
\<close>

definition set_lifecycle :: "fields \<Rightarrow> jsval \<Rightarrow> jsval result" where
  "set_lifecycle upd state =
     (let lifecycle = getp state ''lifecycle''
      in if is_object lifecycle
         then Inr (set_field state ''lifecycle'' (fold (\<lambda>(k, v) lc. set_field lc k v) upd lifecycle))
         else Inl (TypeError ''lifecycle''))"

definition finalState :: "process \<Rightarrow> runtime_paths \<Rightarrow> jsval \<Rightarrow> string \<Rightarrow> runtime_files \<Rightarrow> jsval" where
  "finalState c rp state nowIso fs =
     set_field (set_field state ''generatedAt'' (JStr nowIso)) ''summary''
       (JObj [(''trackedLaneCount'', JInt (int (countJsonFiles c (lanesDir rp) fs))),
              (''blockerPresent'', JBool (file_present c (lastBlockerPath rp) fs))])"

definition finalizeState ::
  "process \<Rightarrow> runtime_paths \<Rightarrow> jsval \<Rightarrow> string \<Rightarrow> runtime_files \<Rightarrow> runtime_files \<times> jsval" where
  "finalizeState c rp state nowIso fs =
     (let state' = finalState c rp state nowIso fs
      in (writeJson_rt c (statePath rp) state' fs, state'))"

section \<open>Lane, blocker and turn artifacts\<close>

definition lane_artifact_file :: "runtime_paths \<Rightarrow> jsval \<Rightarrow> string" where
  "lane_artifact_file rp lane = path_join [lanesDir rp, sanitizeSegment (getp lane ''laneId'') @ ''.json'']"

definition writeLaneArtifact ::
  "process \<Rightarrow> runtime_paths \<Rightarrow> jsval \<Rightarrow> runtime_files \<Rightarrow> runtime_files \<times> jsval" where
  "writeLaneArtifact c rp lane fs =
     (if \<not> truthy lane then (fs, JNull)
      else (writeJson_rt c (lane_artifact_file rp lane) lane fs, JStr (lane_artifact_file rp lane)))"

definition writeLastBlocker ::
  "process \<Rightarrow> runtime_paths \<Rightarrow> jsval \<Rightarrow> string \<Rightarrow> runtime_files \<Rightarrow> runtime_files \<times> jsval" where
  "writeLastBlocker c rp lane nowIso fs =
     (let blocker = getp lane ''blocker''; p = lastBlockerPath rp
      in if \<not> truthy blocker then
           (if file_present c p fs then removeFile_rt c p fs else fs, JNull)
         else
           (writeJson_rt c p (JObj
              [(''schema'', JStr ''priority/runtime-blocker@v1''), (''generatedAt'', JStr nowIso),
               (''laneId'', getp lane ''laneId''), (''issue'', getp lane ''issue''),
               (''epic'', getp lane ''epic''), (''forkRemote'', getp lane ''forkRemote''),
               (''branch'', getp lane ''branch''), (''blockerClass'', getp blocker ''blockerClass''),
               (''reason'', getp blocker ''reason'')]) fs, JStr p))"

definition turn_file :: "runtime_paths \<Rightarrow> jsval \<Rightarrow> string" where
  "turn_file rp turn = path_join [turnsDir rp,
     makeTurnFileName (iso_of_num (date_of_value (getp turn ''generatedAt''))) (getp turn ''cycle'')]"

definition writeTurn ::
  "process \<Rightarrow> runtime_paths \<Rightarrow> jsval \<Rightarrow> runtime_files \<Rightarrow> runtime_files \<times> string" where
  "writeTurn c rp turn fs = (writeJson_rt c (turn_file rp turn) turn fs, turn_file rp turn)"

definition recordEvent :: "process \<Rightarrow> runtime_paths \<Rightarrow> jsval \<Rightarrow> runtime_files \<Rightarrow> runtime_files" where
  "recordEvent c rp payload fs = appendNdjson c (eventsPath rp) payload fs"

definition buildBaseReport_rt :: "jsval \<Rightarrow> jsval \<Rightarrow> runtime_paths \<Rightarrow> string \<Rightarrow> string \<Rightarrow> jsval" where
  "buildBaseReport_rt action repository rp nowIso adapterName = JObj
     [(''schema'', JStr ''priority/runtime-supervisor-report@v1''), (''generatedAt'', JStr nowIso),
      (''action'', action), (''repository'', repository), (''runtimeAdapter'', JStr adapterName),
      (''status'', JStr ''pass''),
      (''runtime'', JObj ((''runtimeDir'', JStr (runtimeDir rp)) # state_artifacts rp))]"

section \<open>Actions\<close>

record 'w runtime_world =
  files :: runtime_files
  lease_world :: 'w

record 'w runtime_context =
  cx_options :: jsval
  cx_owner :: jsval
  cx_state :: jsval
  cx_paths :: runtime_paths
  cx_repoRoot :: jsval
  cx_report :: jsval
  cx_acquire :: "'w world_hook"
  cx_release :: "'w world_hook"

definition now_iso :: "process \<Rightarrow> string" where
  "now_iso c = iso_string (clockMs c)"

text \<open>The exit code and the report of an action; an exception leaves the files written before it.\<close>

type_synonym outcome = "(nat \<times> jsval) result"

definition runStatusAction :: "process \<Rightarrow> 'w runtime_context \<Rightarrow> runtime_files \<Rightarrow> runtime_files \<times> outcome" where
  "runStatusAction c cx fs =
     (let rp = cx_paths cx
      in runE (fs, readJson_rt c (stopRequestPath rp) fs) (\<lambda>stopRequest fs.
         runE (fs, set_lifecycle [(''stopRequested'', JBool (truthy stopRequest)),
                                  (''updatedAt'', JStr (now_iso c)), (''lastAction'', JStr ''status'')]
                     (cx_state cx)) (\<lambda>state fs.
           let (fs', state') = finalizeState c rp state (now_iso c) fs
           in (fs', Inr (0, set_field (set_field (cx_report cx) ''outcome'' (JStr ''status'')) ''state'' state')))))"

definition stop_request :: "process \<Rightarrow> 'w runtime_context \<Rightarrow> jsval" where
  "stop_request c cx = JObj
     [(''schema'', JStr ''priority/runtime-stop-request@v1''), (''requestedAt'', JStr (now_iso c)),
      (''requestedBy'', cx_owner cx), (''reason'', text_or ''operator-request'' (getp (cx_options cx) ''reason''))]"

definition runStopAction :: "process \<Rightarrow> 'w runtime_context \<Rightarrow> runtime_files \<Rightarrow> runtime_files \<times> outcome" where
  "runStopAction c cx fs =
     (let rp = cx_paths cx; stopRequest = stop_request c cx;
          fs1 = writeJson_rt c (stopRequestPath rp) stopRequest fs
      in runE (fs1, set_lifecycle [(''stopRequested'', JBool True), (''status'', JStr ''paused''),
                                   (''updatedAt'', JStr (now_iso c)), (''lastAction'', JStr ''stop'')]
                      (cx_state cx)) (\<lambda>state fs.
           let (fs2, state') = finalizeState c rp state (now_iso c) fs;
               fs3 = recordEvent c rp (JObj
                 [(''schema'', JStr ''priority/runtime-event@v1''), (''timestamp'', JStr (now_iso c)),
                  (''action'', JStr ''stop''), (''owner'', cx_owner cx),
                  (''reason'', getp stopRequest ''reason'')]) fs2
           in (fs3, Inr (0, set_field (set_field (set_field (cx_report cx) ''outcome'' (JStr ''stop-requested''))
                              ''stopRequest'' stopRequest) ''state'' state'))))"

definition runResumeAction :: "process \<Rightarrow> 'w runtime_context \<Rightarrow> runtime_files \<Rightarrow> runtime_files \<times> outcome" where
  "runResumeAction c cx fs =
     (let rp = cx_paths cx; fs1 = removeFile_rt c (stopRequestPath rp) fs
      in runE (fs1, set_lifecycle [(''stopRequested'', JBool False), (''status'', JStr ''idle''),
                                   (''updatedAt'', JStr (now_iso c)), (''lastAction'', JStr ''resume'')]
                      (cx_state cx)) (\<lambda>state fs.
           let (fs2, state') = finalizeState c rp state (now_iso c) fs;
               fs3 = recordEvent c rp (JObj
                 [(''schema'', JStr ''priority/runtime-event@v1''), (''timestamp'', JStr (now_iso c)),
                  (''action'', JStr ''resume''), (''owner'', cx_owner cx)]) fs2
           in (fs3, Inr (0, set_field (set_field (cx_report cx) ''outcome'' (JStr ''resumed'')) ''state'' state'))))"

definition isLeaseSuccess :: "jsval \<Rightarrow> bool" where
  "isLeaseSuccess result = (getp result ''status'' \<in> JStr ` set [''acquired'', ''renewed'', ''takeover''])"

definition step_lease_options :: "'w runtime_context \<Rightarrow> fields result" where
  "step_lease_options cx =
     (let options = cx_options cx;
          base = [(''scope'', js_or (getp options ''leaseScope'') (JStr DEFAULT_LEASE_SCOPE)),
                  (''owner'', cx_owner cx)]
      in if truthy (getp options ''leaseRoot'')
         then bindE (resolvePath (cx_repoRoot cx) (getp options ''leaseRoot'')) (\<lambda>p.
                Inr (base @ [(''leaseRoot'', JStr p)]))
         else Inr base)"

definition step_blocked ::
  "process \<Rightarrow> 'w runtime_context \<Rightarrow> jsval \<Rightarrow> jsval \<Rightarrow> runtime_files \<Rightarrow> runtime_files \<times> outcome" where
  "step_blocked c cx acquireResult report fs =
     (let rp = cx_paths cx
      in runE (fs, set_lifecycle [(''status'', JStr ''blocked''), (''updatedAt'', JStr (now_iso c)),
                                  (''lastAction'', JStr ''step'')] (cx_state cx)) (\<lambda>state fs.
         runE (fs, readJson_rt c (stopRequestPath rp) fs) (\<lambda>stopRequest fs.
         runE (fs, set_lifecycle [(''stopRequested'', JBool (truthy stopRequest))] state) (\<lambda>state fs.
           let (fs2, state') = finalizeState c rp state (now_iso c) fs;
               fs3 = recordEvent c rp (JObj
                 [(''schema'', JStr ''priority/runtime-event@v1''), (''timestamp'', JStr (now_iso c)),
                  (''action'', JStr ''step''), (''outcome'', JStr ''lease-blocked''),
                  (''leaseStatus'', or_null (getp acquireResult ''status''))]) fs2
           in (fs3, Inr (10, set_field (set_field (set_field report ''status'' (JStr ''blocked''))
                               ''outcome'' (JStr ''lease-blocked'')) ''state'' state'))))))"

text \<open>What a leased step does to the lane: the outcome, the new state and files, and the two paths.\<close>

definition track_lane ::
  "process \<Rightarrow> runtime_paths \<Rightarrow> jsval \<Rightarrow> jsval \<Rightarrow> jsval \<Rightarrow> runtime_files
     \<Rightarrow> runtime_files \<times> (string \<times> jsval \<times> jsval \<times> jsval) result" where
  "track_lane c rp stopRequest lane state fs =
     (if truthy stopRequest then
        runE (fs, set_lifecycle [(''status'', JStr ''paused'')] state) (\<lambda>state fs.
          (fs, Inr (''stop-requested'', state, JNull, JNull)))
      else if truthy lane then
        runE (fs, set_lifecycle [(''status'', JStr ''running'')] state) (\<lambda>state fs.
          let (fs1, lanePath) = writeLaneArtifact c rp lane fs;
              (fs2, blockerPath) = writeLastBlocker c rp lane (now_iso c) fs1
          in (fs2, Inr (''lane-tracked'', set_field state ''activeLane'' (buildActiveLaneSummary lane),
                        lanePath, blockerPath)))
      else
        runE (fs, set_lifecycle [(''status'', JStr ''idle'')] state) (\<lambda>state fs.
          (fst (writeLastBlocker c rp JNull (now_iso c) fs),
           Inr (''idle'', set_field state ''activeLane'' JNull, JNull, JNull))))"

definition next_cycle :: "jsval \<Rightarrow> jsval" where
  "next_cycle state =
     JNum (num_add (js_number (js_or (getp2 state ''lifecycle'' ''cycle'') (JInt 0))) (Fin 1))"

definition artifact_path :: "jsval \<Rightarrow> string \<Rightarrow> string \<Rightarrow> jsval" where
  "artifact_path lane part key = or_null (getp (getp2 lane part ''artifacts'') key)"

definition build_turn ::
  "process \<Rightarrow> runtime_paths \<Rightarrow> jsval \<Rightarrow> jsval \<Rightarrow> string \<Rightarrow> jsval \<Rightarrow> jsval \<Rightarrow> jsval \<Rightarrow> jsval \<Rightarrow> jsval \<Rightarrow> jsval" where
  "build_turn c rp cycle state outcome stopRequest acquireResult lane lanePath blockerPath = JObj
     [(''schema'', JStr ''priority/runtime-turn@v1''), (''generatedAt'', JStr (now_iso c)),
      (''action'', JStr ''step''), (''cycle'', cycle), (''repository'', getp state ''repository''),
      (''runtimeAdapter'', getp state ''runtimeAdapter''), (''outcome'', JStr outcome),
      (''stopRequested'', JBool (truthy stopRequest)),
      (''lease'', JObj [(''acquire'', summarizeLease acquireResult), (''release'', JNull)]),
      (''activeLane'', buildActiveLaneSummary lane),
      (''artifacts'', JObj
        [(''lanePath'', lanePath), (''blockerPath'', blockerPath),
         (''workerPath'', or_null (getp2 lane ''worker'' ''checkoutPath'')),
         (''workerArtifactPath'', artifact_path lane ''worker'' ''lanePath''),
         (''workerReadyPath'', artifact_path lane ''workerReady'' ''latestPath''),
         (''workerReadyArtifactPath'', artifact_path lane ''workerReady'' ''lanePath''),
         (''workerBranchPath'', artifact_path lane ''workerBranch'' ''latestPath''),
         (''workerBranchArtifactPath'', artifact_path lane ''workerBranch'' ''lanePath''),
         (''taskPacketPath'', artifact_path lane ''taskPacket'' ''latestPath''),
         (''taskPacketHistoryPath'', artifact_path lane ''taskPacket'' ''historyPath''),
         (''statePath'', JStr (statePath rp)), (''eventsPath'', JStr (eventsPath rp))])]"

definition step_event :: "process \<Rightarrow> jsval \<Rightarrow> string \<Rightarrow> jsval \<Rightarrow> jsval \<Rightarrow> jsval" where
  "step_event c cycle outcome stopRequest lane = JObj
     [(''schema'', JStr ''priority/runtime-event@v1''), (''timestamp'', JStr (now_iso c)),
      (''action'', JStr ''step''), (''outcome'', JStr outcome), (''cycle'', cycle),
      (''laneId'', or_null (getp lane ''laneId'')), (''issue'', or_null (getp lane ''issue'')),
      (''epic'', or_null (getp lane ''epic'')),
      (''blockerClass'', js_coalesce (getp2 lane ''blocker'' ''blockerClass'') (JStr ''none'')),
      (''stopRequested'', JBool (truthy stopRequest))]"

text \<open>The body of the \<^verbatim>\<open>try\<close> block of a leased step.\<close>

definition step_body ::
  "process \<Rightarrow> 'w runtime_context \<Rightarrow> jsval \<Rightarrow> jsval \<Rightarrow> runtime_files \<Rightarrow> runtime_files \<times> jsval result" where
  "step_body c cx acquireResult report fs =
     (let rp = cx_paths cx; lane = buildLaneRecord (cx_options cx) (now_iso c);
          cycle = next_cycle (cx_state cx)
      in runE (fs, readJson_rt c (stopRequestPath rp) fs) (\<lambda>stopRequest fs.
         runE (fs, set_lifecycle [(''cycle'', cycle), (''updatedAt'', JStr (now_iso c)),
                                  (''lastAction'', JStr ''step''),
                                  (''stopRequested'', JBool (truthy stopRequest))] (cx_state cx)) (\<lambda>state fs.
         runE (track_lane c rp stopRequest lane state fs) (\<lambda>(outcome, state, lanePath, blockerPath) fs.
           let turn = build_turn c rp cycle state outcome stopRequest acquireResult lane lanePath blockerPath;
               (fs1, state') = finalizeState c rp state (now_iso c) fs;
               (fs2, turnPath) = writeTurn c rp turn fs1;
               fs3 = recordEvent c rp (step_event c cycle outcome stopRequest lane) fs2
           in (fs3, Inr (fold (\<lambda>(k, v) r. set_field r k v)
                [(''outcome'', JStr outcome), (''turnPath'', JStr turnPath),
                 (''worker'', summarizeWorker (getp lane ''worker'')),
                 (''workerReady'', summarizeWorkerReady (getp lane ''workerReady'')),
                 (''workerBranch'', summarizeWorkerBranch (getp lane ''workerBranch'')),
                 (''taskPacket'', summarizeTaskPacket (getp lane ''taskPacket'')),
                 (''state'', state')] report))))))"

text \<open>
  The step: an exception of the body reaches the caller only after the \<^verbatim>\<open>finally\<close> block released
  the lease, and an exception of the release replaces it.
\<close>

definition runStepAction ::
  "process \<Rightarrow> 'w runtime_context \<Rightarrow> 'w runtime_world \<Rightarrow> 'w runtime_world \<times> outcome" where
  "runStepAction c cx wd =
     (case step_lease_options cx of
        Inl e \<Rightarrow> (wd, Inl e)
      | Inr leaseOptions \<Rightarrow>
     (case cx_acquire cx (JObj leaseOptions) (lease_world wd) of
        (lw1, Inl e) \<Rightarrow> (wd\<lparr>lease_world := lw1\<rparr>, Inl e)
      | (lw1, Inr acquireResult) \<Rightarrow>
          let acquire = summarizeLease acquireResult;
              report = set_field (cx_report cx) ''lease''
                         (JObj [(''acquire'', acquire), (''release'', JNull)])
          in if \<not> isLeaseSuccess acquireResult then
               (let (fs, r) = step_blocked c cx acquireResult report (files wd)
                in (\<lparr>files = fs, lease_world = lw1\<rparr>, r))
             else
               (let (fs, body) = step_body c cx acquireResult report (files wd);
                    leaseId = or_null (getp acquire ''leaseId'')
                in case cx_release cx (JObj (leaseOptions @ [(''leaseId'', leaseId)])) lw1 of
                     (lw2, Inl e) \<Rightarrow> (\<lparr>files = fs, lease_world = lw2\<rparr>, Inl e)
                   | (lw2, Inr releaseResult) \<Rightarrow>
                       (\<lparr>files = fs, lease_world = lw2\<rparr>,
                        bindE body (\<lambda>report. Inr (0, set_field report ''lease''
                          (JObj [(''acquire'', acquire), (''release'', summarizeLease releaseResult)])))))))"

section \<open>The supervisor\<close>

text \<open>The overrides a caller may pass beside the adapter; \<open>None\<close> is an absent function.\<close>

record 'w runtime_deps =
  dp_adapter :: "'w raw_adapter"
  dp_repoRoot :: jsval
  dp_resolveRepoRootFn :: "value_hook option"
  dp_resolveRepositoryFn :: "value_hook option"
  dp_resolveOwnerFn :: "value_hook option"
  dp_acquireWriterLeaseFn :: "'w world_hook option"
  dp_releaseWriterLeaseFn :: "'w world_hook option"

definition resolveAdapter :: "process \<Rightarrow> 'w runtime_deps \<Rightarrow> 'w runtime_adapter result" where
  "resolveAdapter c deps = createRuntimeAdapter c (dp_adapter deps)"

definition fn_or :: "'f option \<Rightarrow> 'f \<Rightarrow> 'f" where
  "fn_or f g = (case f of Some h \<Rightarrow> h | None \<Rightarrow> g)"

definition resolve_context ::
  "process \<Rightarrow> jsval \<Rightarrow> 'w runtime_deps \<Rightarrow> runtime_files \<Rightarrow> 'w runtime_context result" where
  "resolve_context c options deps fs =
     bindE (resolveAdapter c deps) (\<lambda>adapter.
     bindE (if nullish (dp_repoRoot deps)
            then fn_or (dp_resolveRepoRootFn deps) (resolveRepoRoot adapter) options
            else Inr (dp_repoRoot deps)) (\<lambda>repoRoot.
     bindE (fn_or (dp_resolveRepositoryFn deps) (resolveRepository adapter) options) (\<lambda>repository.
     bindE (if normalizeText (getp options ''owner'') \<noteq> []
            then Inr (JStr (normalizeText (getp options ''owner'')))
            else fn_or (dp_resolveOwnerFn deps) (resolveOwner adapter) options) (\<lambda>owner.
     bindE (resolveRuntimePaths repoRoot options) (\<lambda>rp.
     bindE (loadState c repository repoRoot rp (now_iso c) owner (adapter_name adapter) fs) (\<lambda>state.
       Inr \<lparr>cx_options = options, cx_owner = owner, cx_state = state, cx_paths = rp, cx_repoRoot = repoRoot,
            cx_report = buildBaseReport_rt (getp options ''action'') repository rp (now_iso c) (adapter_name adapter),
            cx_acquire = fn_or (dp_acquireWriterLeaseFn deps) (acquireLease adapter),
            cx_release = fn_or (dp_releaseWriterLeaseFn deps) (releaseLease adapter)\<rparr>))))))"

definition on_files ::
  "(runtime_files \<Rightarrow> runtime_files \<times> 'a) \<Rightarrow> 'w runtime_world \<Rightarrow> 'w runtime_world \<times> 'a" where
  "on_files act wd = (let (fs, r) = act (files wd) in (wd\<lparr>files := fs\<rparr>, r))"

definition run_action ::
  "process \<Rightarrow> 'w runtime_context \<Rightarrow> 'w runtime_world \<Rightarrow> 'w runtime_world \<times> outcome" where
  "run_action c cx wd =
     (let action = getp (cx_options cx) ''action''
      in if action = JStr ''status'' then on_files (runStatusAction c cx) wd
         else if action = JStr ''stop'' then on_files (runStopAction c cx) wd
         else if action = JStr ''resume'' then on_files (runResumeAction c cx) wd
         else if action = JStr ''step'' then runStepAction c cx wd
         else (wd, Inl (ErrorMsg (''Unsupported action '' @ quoted (js_string action) @ ''.''))))"

definition runRuntimeSupervisor ::
  "process \<Rightarrow> jsval \<Rightarrow> 'w runtime_deps \<Rightarrow> 'w runtime_world \<Rightarrow> 'w runtime_world \<times> outcome" where
  "runRuntimeSupervisor c options deps wd =
     (case resolve_context c options deps (files wd) of
        Inl e \<Rightarrow> (wd, Inl e)
      | Inr cx \<Rightarrow> run_action c cx wd)"

definition runCli_rt ::
  "process \<Rightarrow> string list \<Rightarrow> 'w runtime_deps \<Rightarrow> 'w runtime_world \<Rightarrow> 'w runtime_world \<times> nat result" where
  "runCli_rt c argv deps wd =
     (case parseArgs_rt argv of
        Inl e \<Rightarrow> (wd, Inl e)
      | Inr options \<Rightarrow>
          if truthy (getp options ''help'') \<or> \<not> truthy (getp options ''action'') then (wd, Inr 0)
          else (case runRuntimeSupervisor c options deps wd of
                  (wd', Inl e) \<Rightarrow> (wd', Inl e)
                | (wd', Inr (code, report)) \<Rightarrow> (wd', Inr code)))"

end
