(* ===== verification/RuntimeLaws.thy ===== *)
theory RuntimeLaws
  imports RuntimeHarness
begin

text \<open>
  What the runtime harness keeps: where its files lie, what each action does to them, that a step
  gives its lease back, counts its cycles, respects a stop request, and that the summary in the
  state document is true in every reachable world.  The lease hooks of a step are the locale
  \<open>lease_service\<close>, interpreted on the writer lease.
\<close>

section \<open>Reading back\<close>

lemma map_of_writeJson [store_simps]:
  "map_of (writeJson_rt c p v fs) = (map_of fs)(absolute_path c p \<mapsto> JsonTexts [json_norm v])"
  by (simp add: writeJson_rt_def update_conv')

lemma map_of_remove [store_simps]:
  "map_of (removeFile_rt c p fs) = (map_of fs)(absolute_path c p := None)"
  by (simp add: removeFile_rt_def delete_conv')

lemma map_of_append [store_simps]:
  "map_of (appendNdjson c p v fs) =
     (map_of fs)(absolute_path c p \<mapsto>
        (case map_of fs (absolute_path c p) of
           Some (JsonTexts vs) \<Rightarrow> JsonTexts (vs @ [json_norm v])
         | Some BrokenText \<Rightarrow> BrokenText
         | _ \<Rightarrow> JsonTexts [json_norm v]))"
  by (simp add: appendNdjson_def Let_def update_conv')

lemma count_update:
  "\<not> P q \<Longrightarrow> length (filter (P \<circ> fst) (AList.update q v fs)) = length (filter (P \<circ> fst) fs)"
  by (induction fs) auto

lemma count_delete:
  "\<not> P q \<Longrightarrow> length (filter (P \<circ> fst) (AList.delete q fs)) = length (filter (P \<circ> fst) fs)"
  by (induction fs) (auto simp: AList.delete_eq)

lemma count_frame [store_simps]:
  assumes "path_dirname (absolute_path c p) \<noteq> absolute_path c dir"
  shows "countJsonFiles c dir (writeJson_rt c p v fs) = countJsonFiles c dir fs"
    "countJsonFiles c dir (appendNdjson c p v fs) = countJsonFiles c dir fs"
    "countJsonFiles c dir (removeFile_rt c p fs) = countJsonFiles c dir fs"
  using assms
  by (simp_all add: countJsonFiles_def writeJson_rt_def appendNdjson_def removeFile_rt_def Let_def
      filter_map count_update count_delete json_entry_def)

section \<open>Names of artifacts\<close>

lemma strip_dashes_subset: "set (strip_dashes s) \<subseteq> set s"
  by (auto simp: strip_dashes_def dest!: set_dropWhileD)

lemma sanitizeSegment_safe: "list_all safe_name_char (sanitizeSegment v)"
proof -
  define s where "s = replace_runs safe_name_char ''-'' False (trim (js_string (js_or v (JStr []))))"
  have "list_all safe_name_char s"
    by (simp add: s_def replace_runs_safe safe_name_char_def)
  then have "list_all safe_name_char (strip_dashes s)"
    using strip_dashes_subset [of s] by (auto simp: list_all_iff)
  moreover have "list_all safe_name_char ''runtime''"
    by (simp add: safe_name_char_def)
  ultimately show ?thesis
    by (simp add: sanitizeSegment_def s_def [symmetric] Let_def)
qed

lemma plain_with_suffix: "CHR ''/'' \<notin> set s \<Longrightarrow> plain_segment (s @ ''.json'')"
  by (cases s) (auto simp: plain_segment_def)

lemma lane_name_plain: "plain_segment (sanitizeSegment v @ ''.json'')"
proof -
  have "\<not> safe_name_char CHR ''/''"
    by (simp add: safe_name_char_def)
  then show ?thesis
    using sanitizeSegment_safe [of v] by (intro plain_with_suffix) (auto simp: list_all_iff)
qed

definition no_slash :: "string \<Rightarrow> bool" where
  "no_slash s \<longleftrightarrow> CHR ''/'' \<notin> set s"

lemma no_slash_simps [simp]:
  "no_slash []" "no_slash (a @ b) \<longleftrightarrow> no_slash a \<and> no_slash b"
  "no_slash (ch # s) \<longleftrightarrow> ch \<noteq> CHR ''/'' \<and> no_slash s"
  by (auto simp: no_slash_def)

lemma no_slash_digits: "list_all is_digit s \<Longrightarrow> no_slash s"
  by (induction s) (auto simp: is_digit_def)

lemma no_slash_nat [simp]: "no_slash (show_nat n)" "no_slash (fixed_digits k n)"
  by (simp_all add: no_slash_digits show_nat_digits)

lemma no_slash_iso [simp]: "no_slash (iso_string t)"
  by (simp add: iso_string_def year_text_def Let_def split: prod.split)

lemma no_slash_frac: "0 \<le> x \<Longrightarrow> x < 1 \<Longrightarrow> no_slash (frac_digits k x)"
proof (induction k x rule: frac_digits.induct)
  case (1 x)
  then show ?case by simp
next
  case (2 k x)
  have "nat \<lfloor>10 * x\<rfloor> < 10"
    using 2(3) by linarith
  moreover have "\<not> is_digit CHR ''/''"
    by (simp add: is_digit_def)
  ultimately have "digit_char (nat \<lfloor>10 * x\<rfloor>) \<noteq> CHR ''/''"
    by (metis is_digit_digit_char)
  moreover have "0 \<le> 10 * x - of_int \<lfloor>10 * x\<rfloor>" "10 * x - of_int \<lfloor>10 * x\<rfloor> < 1"
    by linarith+
  ultimately show ?case
    using 2 by simp
qed

lemma no_slash_num: "no_slash (num_to_string n)"
proof (cases n)
  case (Fin x)
  have "no_slash (frac_digits 20 (\<bar>x\<bar> - of_int \<lfloor>\<bar>x\<bar>\<rfloor>))"
    by (rule no_slash_frac) linarith+
  then show ?thesis
    using Fin by (simp add: Let_def)
qed simp_all

lemma turn_name_plain:
  assumes "no_slash s"
  shows "plain_segment (makeTurnFileName s (JNum n))"
proof -
  define stamp where "stamp = map (\<lambda>ch. if ch = CHR '':'' \<or> ch = CHR ''.'' then CHR ''-'' else ch) s"
  have "no_slash (stamp @ ''-'' @ pad_start 4 (CHR ''0'') (num_to_string n))"
    using assms no_slash_num [of n] by (auto simp: stamp_def no_slash_def pad_start_def)
  then have "plain_segment ((stamp @ ''-'' @ pad_start 4 (CHR ''0'') (num_to_string n)) @ ''.json'')"
    by (intro plain_with_suffix) (simp add: no_slash_def)
  then show ?thesis
    by (simp add: makeTurnFileName_def Let_def stamp_def)
qed

section \<open>The layout of the runtime directory\<close>

definition single_files :: "runtime_paths \<Rightarrow> string list" where
  "single_files rp = [statePath rp, eventsPath rp, stopRequestPath rp, lastBlockerPath rp]"

definition separate_layout :: "process \<Rightarrow> runtime_paths \<Rightarrow> bool" where
  "separate_layout c rp \<longleftrightarrow>
     workingDir c \<noteq> [] \<and> lanesDir rp \<noteq> [] \<and> turnsDir rp \<noteq> [] \<and>
     distinct (map (absolute_path c) (single_files rp)) \<and>
     list_all (\<lambda>f. path_dirname (absolute_path c f) \<notin>
       {absolute_path c (lanesDir rp), absolute_path c (turnsDir rp)}) (single_files rp) \<and>
     absolute_path c (lanesDir rp) \<noteq> absolute_path c (turnsDir rp)"

lemma dirname_lane_artifact:
  assumes "separate_layout c rp"
  shows "path_dirname (absolute_path c (lane_artifact_file rp lane)) = absolute_path c (lanesDir rp)"
  using assms file_in_dir(1) lane_name_plain
  by (simp add: absolute_path_def lane_artifact_file_def separate_layout_def)

lemma dirname_turn_file:
  assumes "separate_layout c rp" "getp turn ''cycle'' = JNum n" "no_slash (iso_of_num (date_of_value (getp turn ''generatedAt'')))"
  shows "path_dirname (absolute_path c (turn_file rp turn)) = absolute_path c (turnsDir rp)"
  using assms file_in_dir(1) turn_name_plain
  by (simp add: absolute_path_def turn_file_def separate_layout_def)

text \<open>
  What the runtime's own bookkeeping reads: the state document, the stop request, the blocker
  note, the number of lane files and their contents.
\<close>

definition runtime_view ::
  "process \<Rightarrow> runtime_paths \<Rightarrow> runtime_files
     \<Rightarrow> runtime_file option \<times> runtime_file option \<times> runtime_file option \<times>
        nat \<times> (string \<Rightarrow> runtime_file option)" where
  "runtime_view c rp fs =
     (map_of fs (absolute_path c (statePath rp)), map_of fs (absolute_path c (stopRequestPath rp)),
      map_of fs (absolute_path c (lastBlockerPath rp)), countJsonFiles c (lanesDir rp) fs,
      (\<lambda>q. if path_dirname q = absolute_path c (lanesDir rp) then map_of fs q else None))"

lemma view_event [simp]:
  "separate_layout c rp \<Longrightarrow> runtime_view c rp (recordEvent c rp v fs) = runtime_view c rp fs"
  by (auto simp add: fun_eq_iff runtime_view_def recordEvent_def separate_layout_def single_files_def store_simps)

lemma view_finalize [simp]:
  "separate_layout c rp \<Longrightarrow>
   runtime_view c rp (writeJson_rt c (statePath rp) v fs) =
     (Some (JsonTexts [json_norm v]), snd (runtime_view c rp fs))"
  by (auto simp add: fun_eq_iff runtime_view_def separate_layout_def single_files_def store_simps)

lemma view_turn:
  assumes "separate_layout c rp" "path_dirname (absolute_path c p) = absolute_path c (turnsDir rp)"
  shows "runtime_view c rp (writeJson_rt c p v fs) = runtime_view c rp fs"
  using assms unfolding separate_layout_def single_files_def
  by (auto simp add: fun_eq_iff runtime_view_def store_simps)

lemma view_stop [simp]:
  "separate_layout c rp \<Longrightarrow> runtime_view c rp (writeJson_rt c (stopRequestPath rp) v fs) =
     (case runtime_view c rp fs of (s, _, r) \<Rightarrow> (s, Some (JsonTexts [json_norm v]), r))"
  "separate_layout c rp \<Longrightarrow> runtime_view c rp (removeFile_rt c (stopRequestPath rp) fs) =
     (case runtime_view c rp fs of (s, _, r) \<Rightarrow> (s, None, r))"
  by (auto simp add: fun_eq_iff runtime_view_def separate_layout_def single_files_def store_simps)

lemma lane_view:
  assumes "separate_layout c rp" "path_dirname (absolute_path c p) = absolute_path c (lanesDir rp)"
  shows "map_of (writeJson_rt c p v fs) (absolute_path c (statePath rp)) = map_of fs (absolute_path c (statePath rp))"
    "map_of (writeJson_rt c p v fs) (absolute_path c (stopRequestPath rp)) = map_of fs (absolute_path c (stopRequestPath rp))"
  using assms unfolding separate_layout_def single_files_def
  by (auto simp add: store_simps)

section \<open>The lifecycle of the state\<close>

lemma fold_set_field: "fold (\<lambda>(k, v) lc. set_field lc k v) upd (JObj l) = JObj (override l upd)"
  by (induction upd arbitrary: l) (auto simp: override_def)

lemma set_lifecycle_object:
  "getp st ''lifecycle'' = JObj l \<Longrightarrow>
     set_lifecycle upd st = Inr (set_field st ''lifecycle'' (JObj (override l upd)))"
  by (simp add: set_lifecycle_def fold_set_field)

lemma set_lifecycle_shape:
  "set_lifecycle upd (JObj kvs) = Inr st \<Longrightarrow> \<exists>kvs'. st = JObj kvs' \<and>
     (\<forall>k. k \<noteq> ''lifecycle'' \<longrightarrow> lookup kvs' k = lookup kvs k)"
  by (auto simp: set_lifecycle_def Let_def split: if_splits)

lemma getp_finalState:
  "getp (finalState c rp (JObj kvs) t fs) k =
     (if k = ''summary'' then
        JObj [(''trackedLaneCount'', JInt (int (countJsonFiles c (lanesDir rp) fs))),
              (''blockerPresent'', JBool (file_present c (lastBlockerPath rp) fs))]
      else if k = ''generatedAt'' then JStr t else lookup kvs k)"
  by (simp add: finalState_def)

lemma getp2_json:
  assumes "getp2 v a k \<noteq> JUndef"
  shows "getp2 (json_norm v) a k = json_norm (getp2 v a k)"
proof -
  from assms have "getp v a \<noteq> JUndef" by auto
  with assms show ?thesis by (simp add: getp_json_norm_defined)
qed

section \<open>Every action settles the files or leaves them\<close>

text \<open>
  \<open>settled\<close>: the state document on disk is the one that was finalised over the files as they are.
\<close>

definition accurate :: "process \<Rightarrow> runtime_paths \<Rightarrow> runtime_files \<Rightarrow> bool" where
  "accurate c rp fs \<longleftrightarrow>
     (\<forall>d. map_of fs (absolute_path c (statePath rp)) = Some (JsonTexts [d]) \<longrightarrow>
        getp2 d ''summary'' ''trackedLaneCount'' = JInt (int (countJsonFiles c (lanesDir rp) fs)) \<and>
        getp2 d ''summary'' ''blockerPresent'' = JBool (file_present c (lastBlockerPath rp) fs))"

definition settled :: "process \<Rightarrow> runtime_paths \<Rightarrow> jsval \<Rightarrow> runtime_files \<Rightarrow> runtime_files \<Rightarrow> bool" where
  "settled c rp st fs fs' \<longleftrightarrow>
     runtime_view c rp fs' =
       (Some (JsonTexts [json_norm (finalState c rp st (now_iso c) fs)]), snd (runtime_view c rp fs))"

lemma settled_accurate: "settled c rp (JObj kvs) fs fs' \<Longrightarrow> accurate c rp fs'"
  by (simp add: settled_def accurate_def runtime_view_def getp2_json getp_finalState file_present_def
      del: json_norm.simps(7))

definition same_summary :: "process \<Rightarrow> runtime_paths \<Rightarrow> runtime_files \<Rightarrow> runtime_files \<Rightarrow> bool" where
  "same_summary c rp fs fs' \<longleftrightarrow>
     (\<exists>s q r. runtime_view c rp fs = (s, q, r) \<and> (\<exists>q'. runtime_view c rp fs' = (s, q', r)))"

lemma same_summary_refl [simp]: "same_summary c rp fs fs"
  by (simp add: same_summary_def runtime_view_def)

lemma same_summary_accurate: "same_summary c rp fs fs' \<Longrightarrow> accurate c rp fs \<Longrightarrow> accurate c rp fs'"
  by (auto simp: same_summary_def accurate_def runtime_view_def file_present_def)

lemma settled_finalize [simp]:
  "separate_layout c rp \<Longrightarrow> settled c rp st fs (writeJson_rt c (statePath rp) (finalState c rp st (now_iso c) fs) fs)"
  by (simp add: settled_def)

lemma settled_event [simp]:
  "separate_layout c rp \<Longrightarrow> settled c rp st fs (recordEvent c rp v fs') \<longleftrightarrow> settled c rp st fs fs'"
  by (simp add: settled_def)

lemma no_slash_iso_of_num [simp]: "no_slash (iso_of_num n)"
  by (cases n) (simp_all add: iso_of_num_def)

lemma settled_turn:
  "separate_layout c rp \<Longrightarrow> getp turn ''cycle'' = JNum n \<Longrightarrow> settled c rp st fs fs' \<Longrightarrow>
     settled c rp st fs (writeJson_rt c (turn_file rp turn) turn fs')"
  by (simp add: settled_def view_turn dirname_turn_file)

lemma runE_case: "runE (s, m) f = (case m of Inl e \<Rightarrow> (s, Inl e) | Inr x \<Rightarrow> f x s)"
  by (cases m) auto

lemma status_effect:
  assumes "separate_layout c (cx_paths cx)" "runStatusAction c cx fs = (fs', r)"
  shows "(\<exists>e. r = Inl e \<and> fs' = fs) \<or>
    (\<exists>v st rep. r = Inr (0, rep) \<and> readJson_rt c (stopRequestPath (cx_paths cx)) fs = Inr v \<and>
       set_lifecycle [(''stopRequested'', JBool (truthy v)), (''updatedAt'', JStr (now_iso c)),
                      (''lastAction'', JStr ''status'')] (cx_state cx) = Inr st \<and>
       settled c (cx_paths cx) st fs fs')"
  using assms
  by (auto simp: runStatusAction_def Let_def finalizeState_def runE_case split: sum.splits)

lemma stop_effect:
  assumes "separate_layout c (cx_paths cx)" "runStopAction c cx fs = (fs', r)"
    and "fs1 = writeJson_rt c (stopRequestPath (cx_paths cx)) (stop_request c cx) fs"
  shows "(\<exists>e. r = Inl e \<and> fs' = fs1) \<or>
    (\<exists>st rep. r = Inr (0, rep) \<and>
       set_lifecycle [(''stopRequested'', JBool True), (''status'', JStr ''paused''),
                      (''updatedAt'', JStr (now_iso c)), (''lastAction'', JStr ''stop'')] (cx_state cx) = Inr st \<and>
       settled c (cx_paths cx) st fs1 fs')"
  using assms
  by (auto simp: runStopAction_def Let_def finalizeState_def runE_case split: sum.splits)

lemma resume_effect:
  assumes "separate_layout c (cx_paths cx)" "runResumeAction c cx fs = (fs', r)"
    and "fs1 = removeFile_rt c (stopRequestPath (cx_paths cx)) fs"
  shows "(\<exists>e. r = Inl e \<and> fs' = fs1) \<or>
    (\<exists>st rep. r = Inr (0, rep) \<and>
       set_lifecycle [(''stopRequested'', JBool False), (''status'', JStr ''idle''),
                      (''updatedAt'', JStr (now_iso c)), (''lastAction'', JStr ''resume'')] (cx_state cx) = Inr st \<and>
       settled c (cx_paths cx) st fs1 fs')"
  using assms
  by (auto simp: runResumeAction_def Let_def finalizeState_def runE_case split: sum.splits)

lemma blocked_effect:
  assumes "separate_layout c (cx_paths cx)" "step_blocked c cx a rep fs = (fs', r)"
  shows "(\<exists>e. r = Inl e \<and> fs' = fs) \<or>
    (\<exists>v st0 st rep'. r = Inr (10, rep') \<and> readJson_rt c (stopRequestPath (cx_paths cx)) fs = Inr v \<and>
       set_lifecycle [(''status'', JStr ''blocked''), (''updatedAt'', JStr (now_iso c)),
                      (''lastAction'', JStr ''step'')] (cx_state cx) = Inr st0 \<and>
       set_lifecycle [(''stopRequested'', JBool (truthy v))] st0 = Inr st \<and>
       settled c (cx_paths cx) st fs fs')"
  using assms
  by (auto simp: step_blocked_def Let_def finalizeState_def runE_case split: sum.splits)

text \<open>What tracking a lane changes: only the lane artifacts, the blocker note and the active lane.\<close>

definition tracked ::
  "process \<Rightarrow> runtime_paths \<Rightarrow> jsval \<Rightarrow> jsval \<Rightarrow> runtime_files \<Rightarrow> runtime_files \<Rightarrow> string \<Rightarrow> jsval \<Rightarrow> bool" where
  "tracked c rp stopRequest st fs fs' outcome st' \<longleftrightarrow>
     (\<exists>status s. set_lifecycle [(''status'', JStr status)] st = Inr s \<and>
        (if truthy stopRequest
         then fs' = fs \<and> outcome = ''stop-requested'' \<and> status = ''paused'' \<and> st' = s
         else outcome \<noteq> ''stop-requested'' \<and> (\<exists>a. st' = set_field s ''activeLane'' a))) \<and>
     map_of fs' (absolute_path c (stopRequestPath rp)) = map_of fs (absolute_path c (stopRequestPath rp))"

lemma writeLastBlocker_stop:
  assumes "separate_layout c rp"
  shows "map_of (fst (writeLastBlocker c rp lane t fs)) (absolute_path c (stopRequestPath rp)) =
    map_of fs (absolute_path c (stopRequestPath rp))"
  using assms by (auto simp: writeLastBlocker_def Let_def store_simps separate_layout_def single_files_def)

lemma writeLaneArtifact_stop:
  assumes "separate_layout c rp"
  shows "map_of (fst (writeLaneArtifact c rp lane fs)) (absolute_path c (stopRequestPath rp)) =
    map_of fs (absolute_path c (stopRequestPath rp))"
  using lane_view(2) [OF assms dirname_lane_artifact [OF assms]] by (simp add: writeLaneArtifact_def)

lemma track_effect:
  assumes "separate_layout c rp" "track_lane c rp v lane st fs = (fs', r)"
  shows "(\<exists>e. r = Inl e \<and> fs' = fs) \<or>
    (\<exists>outcome st' lp bp. r = Inr (outcome, st', lp, bp) \<and> tracked c rp v st fs fs' outcome st')"
proof (cases "truthy v")
  case True
  with assms show ?thesis
    by (auto simp: track_lane_def tracked_def runE_case split: sum.splits)
next
  case False
  show ?thesis
  proof (cases "truthy lane")
    case True
    with False assms(2) show ?thesis
      using writeLastBlocker_stop [OF assms(1)] writeLaneArtifact_stop [OF assms(1)]
      by (fastforce simp: track_lane_def tracked_def runE_case split_beta Let_def split: sum.splits)
  next
    case f: False
    with False assms(2) show ?thesis
      using writeLastBlocker_stop [OF assms(1)]
      by (fastforce simp: track_lane_def tracked_def runE_case split_beta Let_def split: sum.splits)
  qed
qed

lemma next_cycle_number: "\<exists>n. next_cycle st = JNum n"
  by (simp add: next_cycle_def)

lemma body_effect:
  assumes "separate_layout c (cx_paths cx)" "step_body c cx a (JObj rep) fs = (fs', r)"
  shows "(\<exists>e. r = Inl e \<and> fs' = fs) \<or>
    (\<exists>v st0 st fs1 oc rep'. r = Inr (JObj rep') \<and> readJson_rt c (stopRequestPath (cx_paths cx)) fs = Inr v \<and>
       set_lifecycle [(''cycle'', next_cycle (cx_state cx)), (''updatedAt'', JStr (now_iso c)),
                      (''lastAction'', JStr ''step''), (''stopRequested'', JBool (truthy v))] (cx_state cx) = Inr st0 \<and>
       tracked c (cx_paths cx) v st0 fs fs1 oc st \<and> lookup rep' ''outcome'' = JStr oc \<and>
       settled c (cx_paths cx) st fs1 fs')"
proof (cases "readJson_rt c (stopRequestPath (cx_paths cx)) fs")
  case (Inl e)
  with assms(2) have "fs' = fs \<and> r = Inl e" by (auto simp: step_body_def)
  then show ?thesis by simp
next
  case v: (Inr v)
  let ?upd = "[(''cycle'', next_cycle (cx_state cx)), (''updatedAt'', JStr (now_iso c)),
               (''lastAction'', JStr ''step''), (''stopRequested'', JBool (truthy v))]"
  let ?lane = "buildLaneRecord (cx_options cx) (now_iso c)"
  show ?thesis
  proof (cases "set_lifecycle ?upd (cx_state cx)")
    case (Inl e)
    with v assms(2) have "fs' = fs \<and> r = Inl e" by (auto simp: step_body_def)
    then show ?thesis by simp
  next
    case st0: (Inr st0)
    obtain fs1 t where t: "track_lane c (cx_paths cx) v ?lane st0 fs = (fs1, t)"
      by fastforce
    from track_effect [OF assms(1) t] show ?thesis
    proof (elim disjE exE conjE)
      fix e assume "t = Inl e" "fs1 = fs"
      with t v st0 assms(2) have "fs' = fs \<and> r = Inl e" by (auto simp: step_body_def)
      then show ?thesis by simp
    next
      fix oc st lp bp assume tr: "t = Inr (oc, st, lp, bp)" "tracked c (cx_paths cx) v st0 fs fs1 oc st"
      define turn where
        "turn = build_turn c (cx_paths cx) (next_cycle (cx_state cx)) st oc v a ?lane lp bp"
      have rep: "\<exists>rep'. r = Inr (JObj rep') \<and> lookup rep' ''outcome'' = JStr oc"
        using t v st0 tr(1) assms(2) by (auto simp: step_body_def finalizeState_def writeTurn_def Let_def)
      have fs': "fs' = recordEvent c (cx_paths cx) (step_event c (next_cycle (cx_state cx)) oc v ?lane)
          (writeJson_rt c (turn_file (cx_paths cx) turn) turn
            (writeJson_rt c (statePath (cx_paths cx)) (finalState c (cx_paths cx) st (now_iso c) fs1) fs1))"
        using t v st0 tr(1) assms(2)
        by (auto simp: step_body_def finalizeState_def writeTurn_def Let_def turn_def)
      obtain n where "next_cycle (cx_state cx) = JNum n"
        using next_cycle_number by blast
      then have "getp turn ''cycle'' = JNum n"
        by (simp add: turn_def build_turn_def)
      then have "settled c (cx_paths cx) st fs1 fs'"
        by (simp add: fs' assms(1) settled_turn)
      with v st0 tr(2) rep show ?thesis by blast
    qed
  qed
qed

section \<open>The lease of a step\<close>


text \<open>
  The adapter of the runtime supervisor hands the lease options to the writer lease.  The release
  may run later, and other processes may act while it runs.
\<close>

definition later :: "int \<Rightarrow> process \<Rightarrow> process" where
  "later t c = c\<lparr>clockMs := t\<rparr>"

definition holds_writer_lease :: "process \<Rightarrow> fields \<Rightarrow> store \<Rightarrow> bool" where
  "holds_writer_lease c opts st \<longleftrightarrow>
     (\<exists>p d. acquire_path c (JObj opts) = Inr p \<and> readLease p st = Inr d \<and> truthy d \<and>
        getp d ''owner'' = lookup opts ''owner'')"

definition writer_lease_gone :: "process \<Rightarrow> fields \<Rightarrow> store \<Rightarrow> bool" where
  "writer_lease_gone c opts st \<longleftrightarrow> (\<forall>p. acquire_path c (JObj opts) = Inr p \<longrightarrow> st p = None)"

definition named_owner :: "fields \<Rightarrow> bool" where
  "named_owner opts \<longleftrightarrow> (\<exists>s. lookup opts ''owner'' = JStr s \<and> s \<noteq> [])"

text \<open>Lease options that name an owner, in a world where others leave the lease's replacing writes alone.\<close>

definition usable_lease :: "lease_world \<Rightarrow> fields \<Rightarrow> bool" where
  "usable_lease w opts \<longleftrightarrow> named_owner opts \<and>
     (\<forall>p. acquire_path (proc_at w 0) (JObj opts) = Inr p \<longrightarrow> respects_write w p)"

lemma acquired_held:
  assumes "usable_lease w opts" "acquireWriterLease w (JObj opts) st = (st', Inr r)" "isLeaseSuccess r"
  shows "holds_writer_lease (proc_at w 0) opts st'"
proof -
  let ?q = "normalizeAcquireOptions (proc_at w 0) (JObj opts)"
  from assms(1) obtain s where s: "lookup opts ''owner'' = JStr s" "s \<noteq> []"
    by (auto simp: usable_lease_def named_owner_def)
  then have own: "wl_owner ?q = JStr s"
    by (simp add: normalizeAcquireOptions_def)
  from assms(2) obtain p where p: "acquire_path (proc_at w 0) (JObj opts) = Inr p"
    and loop: "acquire_loop w ?q (JObj opts)
      (buildBaseResult (proc_at w 0) ''acquire'' (wl_scope ?q) p (wl_owner ?q)) p 0 st = (st', Inr r)"
    by (auto simp: acquireWriterLease_def Let_def split: sum.splits)
  have ok: "getp r ''status'' \<in> acquired_statuses"
    using assms(3) by (auto simp: isLeaseSuccess_def acquired_statuses_def)
  have "st' p = Some (Doc (json_norm (getp r ''lease''))) \<and> getp (getp r ''lease'') ''owner'' = JStr s"
    using loop_success [OF ok owner_defined _ loop] loop_base [OF loop] own assms(1) p
    by (simp add: holds_lease_def usable_lease_def)
  then have "readLease p st' = Inr (json_norm (getp r ''lease''))" "getp (json_norm (getp r ''lease'')) ''owner'' = JStr s"
    by (simp_all add: readLease_def getp_json_norm_defined)
  moreover from this(2) have "truthy (json_norm (getp r ''lease''))"
    by (cases "json_norm (getp r ''lease'')") simp_all
  ultimately show ?thesis
    using p s by (auto simp: holds_writer_lease_def)
qed

lemma later_paths [simp]: "release_path (later t c) opts = acquire_path c opts"
  by (simp add: release_acquire_path acquire_path_def normalizeAcquireOptions_def later_def defaultWriterLeaseRoot_def
      resolveDefaultGitCommonDir_def env_value_def Let_def split: option.split)

lemma acquire_path_lease_id: "acquire_path c (JObj (opts @ [(''leaseId'', i)])) = acquire_path c (JObj opts)"
proof -
  have "lookup (opts @ [(''leaseId'', i)]) k = lookup opts k" if "k \<noteq> ''leaseId''" for k
    using that by (induction opts) auto
  then show ?thesis
    by (simp add: acquire_path_def normalizeAcquireOptions_def)
qed

lemma held_released:
  assumes "named_owner opts" "holds_writer_lease c opts st"
  shows "\<exists>st' r. releaseWriterLease (later t c) gap (JObj (opts @ [(''leaseId'', i)])) st = (st', Inr r) \<and>
    writer_lease_gone c opts st'"
proof -
  let ?opts = "JObj (opts @ [(''leaseId'', i)])"
  from assms obtain s p d where s: "lookup opts ''owner'' = JStr s" "s \<noteq> []"
    and p: "acquire_path c (JObj opts) = Inr p" and d: "readLease p st = Inr d" "truthy d" "getp d ''owner'' = JStr s"
    by (auto simp: named_owner_def holds_writer_lease_def)
  have "lookup (opts @ [(''leaseId'', i)]) ''owner'' = JStr s"
    using s(1) by (induction opts) (auto split: if_splits)
  then have "lease_matches (normalizeReleaseOptions (later t c) ?opts) d"
    using d(3) s(2) by (simp add: lease_matches_def normalizeReleaseOptions_def strict_eq_def)
  moreover have "release_path (later t c) ?opts = Inr p"
    using p by (simp add: acquire_path_lease_id)
  ultimately show ?thesis
    using p d guarded_lease_cases [of "later t c" ?opts p st d]
    by (simp add: releaseWriterLease_def writer_lease_gone_def Let_def)
qed



section \<open>A run and its effect\<close>

definition objects_ready :: "'w runtime_context \<Rightarrow> bool" where
  "objects_ready cx \<longleftrightarrow> (\<exists>kvs. cx_state cx = JObj kvs) \<and> (\<exists>rep. cx_report cx = JObj rep)"

lemma loadState_object: "loadState c a b rp t owner nm fs = Inr st \<Longrightarrow> \<exists>kvs. st = JObj kvs"
  by (auto simp: loadState_def buildEmptyState_def with_fields_def split: if_splits)

lemma context_ready: "resolve_context c options deps fs = Inr cx \<Longrightarrow> objects_ready cx"
  by (auto simp: resolve_context_def objects_ready_def buildBaseReport_rt_def dest!: loadState_object)

lemma context_options: "resolve_context c options deps fs = Inr cx \<Longrightarrow> cx_options cx = options"
  by (auto simp: resolve_context_def)

text \<open>A step ran without a lease, or under one.\<close>

definition blocked_run :: "process \<Rightarrow> 'w runtime_context \<Rightarrow> runtime_files \<Rightarrow> runtime_files \<Rightarrow> bool" where
  "blocked_run c cx fs fs' \<longleftrightarrow>
     (\<exists>v st0 st. readJson_rt c (stopRequestPath (cx_paths cx)) fs = Inr v \<and>
       set_lifecycle [(''status'', JStr ''blocked''), (''updatedAt'', JStr (now_iso c)),
                      (''lastAction'', JStr ''step'')] (cx_state cx) = Inr st0 \<and>
       set_lifecycle [(''stopRequested'', JBool (truthy v))] st0 = Inr st \<and>
       settled c (cx_paths cx) st fs fs')"

definition leased_run ::
  "process \<Rightarrow> 'w runtime_context \<Rightarrow> jsval \<Rightarrow> string \<Rightarrow> runtime_files \<Rightarrow> runtime_files \<Rightarrow> bool" where
  "leased_run c cx v oc fs fs' \<longleftrightarrow>
     (\<exists>st0 st fs1. readJson_rt c (stopRequestPath (cx_paths cx)) fs = Inr v \<and>
       set_lifecycle [(''cycle'', next_cycle (cx_state cx)), (''updatedAt'', JStr (now_iso c)),
                      (''lastAction'', JStr ''step''), (''stopRequested'', JBool (truthy v))] (cx_state cx) = Inr st0 \<and>
       tracked c (cx_paths cx) v st0 fs fs1 oc st \<and> settled c (cx_paths cx) st fs1 fs')"

lemma step_effect:
  assumes "separate_layout c (cx_paths cx)" "objects_ready cx" "runStepAction c cx wd = (wd', r)"
  shows "(\<exists>e. r = Inl e \<and> files wd' = files wd) \<or>
    (\<exists>rep. r = Inr (10, rep) \<and> blocked_run c cx (files wd) (files wd')) \<or>
    (\<exists>v oc. leased_run c cx v oc (files wd) (files wd') \<and>
       ((\<exists>rep. r = Inr (0, JObj rep) \<and> lookup rep ''outcome'' = JStr oc) \<or> (\<exists>e. r = Inl e)))"
proof (cases "step_lease_options cx")
  case (Inl e)
  with assms(3) show ?thesis by (auto simp: runStepAction_def)
next
  case opts: (Inr opts)
  obtain lw1 acq where acq: "cx_acquire cx (JObj opts) (lease_world wd) = (lw1, acq)"
    by fastforce
  obtain rep0 where rep0: "cx_report cx = JObj rep0"
    using assms(2) by (auto simp: objects_ready_def)
  show ?thesis
  proof (cases acq)
    case (Inl e)
    with opts acq assms(3) show ?thesis by (auto simp: runStepAction_def)
  next
    case a: (Inr a)
    let ?rep = "update_fields rep0 ''lease'' (JObj [(''acquire'', summarizeLease a), (''release'', JNull)])"
    show ?thesis
    proof (cases "isLeaseSuccess a")
      case False
      obtain fs r' where b: "step_blocked c cx a (JObj ?rep) (files wd) = (fs, r')"
        by fastforce
      with False opts acq a assms(3) rep0 have "files wd' = fs" "r = r'"
        by (auto simp: runStepAction_def Let_def)
      with blocked_effect [OF assms(1) b] show ?thesis
        by (auto simp: blocked_run_def)
    next
      case True
      obtain fs body where b: "step_body c cx a (JObj ?rep) (files wd) = (fs, body)"
        by fastforce
      obtain lw2 rel where rel: "cx_release cx (JObj (opts @ [(''leaseId'', or_null (getp (summarizeLease a) ''leaseId''))])) lw1 = (lw2, rel)"
        by fastforce
      have wd': "files wd' = fs" and r: "r = (case rel of Inl e \<Rightarrow> Inl e | Inr x \<Rightarrow>
          bindE body (\<lambda>report. Inr (0, set_field report ''lease''
            (JObj [(''acquire'', summarizeLease a), (''release'', summarizeLease x)]))))"
        using True opts acq a assms(3) rep0 b rel
        by (auto simp: runStepAction_def Let_def split: sum.splits)
      from body_effect [OF assms(1) b] show ?thesis
      proof
        assume "\<exists>e. body = Inl e \<and> fs = files wd"
        with wd' r show ?thesis by (auto split: sum.splits)
      next
        assume "\<exists>v st0 st fs1 oc rep'. body = Inr (JObj rep') \<and>
          readJson_rt c (stopRequestPath (cx_paths cx)) (files wd) = Inr v \<and>
          set_lifecycle [(''cycle'', next_cycle (cx_state cx)), (''updatedAt'', JStr (now_iso c)),
            (''lastAction'', JStr ''step''), (''stopRequested'', JBool (truthy v))] (cx_state cx) = Inr st0 \<and>
          tracked c (cx_paths cx) v st0 (files wd) fs1 oc st \<and> lookup rep' ''outcome'' = JStr oc \<and>
          settled c (cx_paths cx) st fs1 fs"
        then obtain v oc rep' where "leased_run c cx v oc (files wd) fs" "body = Inr (JObj rep')" "lookup rep' ''outcome'' = JStr oc"
          unfolding leased_run_def by blast
        with wd' r show ?thesis
          by (cases rel) (fastforce+)
      qed
    qed
  qed
qed

text \<open>Every run leaves the summary of the state document true of the files.\<close>

definition summary_kept :: "process \<Rightarrow> runtime_paths \<Rightarrow> runtime_files \<Rightarrow> runtime_files \<Rightarrow> bool" where
  "summary_kept c rp fs fs' \<longleftrightarrow> same_summary c rp fs fs' \<or> (\<exists>kvs fs1. settled c rp (JObj kvs) fs1 fs')"

lemma summary_kept_stop:
  "separate_layout c rp \<Longrightarrow> summary_kept c rp fs (writeJson_rt c (stopRequestPath rp) v fs)"
  "separate_layout c rp \<Longrightarrow> summary_kept c rp fs (removeFile_rt c (stopRequestPath rp) fs)"
  by (simp_all add: summary_kept_def same_summary_def split: prod.split)

lemma summary_kept_refl [simp]: "summary_kept c rp fs fs"
  by (simp add: summary_kept_def)

lemma summary_kept_accurate: "summary_kept c rp fs fs' \<Longrightarrow> accurate c rp fs \<Longrightarrow> accurate c rp fs'"
  by (auto simp: summary_kept_def same_summary_accurate settled_accurate)

lemma set_lifecycle_settles:
  "cx_state cx = JObj kvs \<Longrightarrow> set_lifecycle upd (cx_state cx) = Inr st \<Longrightarrow> settled c rp st fs1 fs' \<Longrightarrow>
     summary_kept c rp fs fs'"
  by (auto simp: summary_kept_def dest!: set_lifecycle_shape)

lemma tracked_object:
  "tracked c rp v (JObj kvs) fs fs' oc st \<Longrightarrow> \<exists>kvs'. st = JObj kvs'"
  by (auto simp: tracked_def dest!: set_lifecycle_shape split: if_splits)

lemma leased_summary: "leased_run c cx v oc fs fs' \<Longrightarrow> objects_ready cx \<Longrightarrow> summary_kept c (cx_paths cx) fs fs'"
  by (auto simp: leased_run_def objects_ready_def summary_kept_def dest!: set_lifecycle_shape tracked_object)

lemma blocked_summary: "blocked_run c cx fs fs' \<Longrightarrow> objects_ready cx \<Longrightarrow> summary_kept c (cx_paths cx) fs fs'"
  by (auto simp: blocked_run_def objects_ready_def summary_kept_def dest!: set_lifecycle_shape)

lemma run_action_summary:
  assumes "separate_layout c (cx_paths cx)" "objects_ready cx" "run_action c cx wd = (wd', r)"
  shows "summary_kept c (cx_paths cx) (files wd) (files wd')"
proof -
  obtain kvs where st: "cx_state cx = JObj kvs"
    using assms(2) by (auto simp: objects_ready_def)
  note same = summary_kept_stop [OF assms(1)]
  consider "files wd' = files wd" | "runStatusAction c cx (files wd) = (files wd', r)"
    | "runStopAction c cx (files wd) = (files wd', r)" | "runResumeAction c cx (files wd) = (files wd', r)"
    | "runStepAction c cx wd = (wd', r)"
    using assms(3) by (auto simp: run_action_def on_files_def Let_def split: if_splits prod.splits)
  then show ?thesis
  proof cases
    case 1
    then show ?thesis by (simp add: same)
  next
    case 2
    from status_effect [OF assms(1) this] show ?thesis
      using set_lifecycle_settles [OF st] by (auto simp: same)
  next
    case 3
    from stop_effect [OF assms(1) this refl] show ?thesis
      using set_lifecycle_settles [OF st] by (auto simp: same)
  next
    case 4
    from resume_effect [OF assms(1) this refl] show ?thesis
      using set_lifecycle_settles [OF st] by (auto simp: same)
  next
    case 5
    from step_effect [OF assms(1,2) this] show ?thesis
      using leased_summary [OF _ assms(2)] blocked_summary [OF _ assms(2)] by (auto simp: same)
  qed
qed

section \<open>Reachable worlds\<close>

text \<open>
  A run in the same working directory whose paths are \<open>rp\<close>, with any options, hooks and clock; and
  whatever happens to the world of the lease between runs.
\<close>

inductive runtime_step ::
  "string \<Rightarrow> runtime_paths \<Rightarrow> string list \<Rightarrow> 'w runtime_world \<Rightarrow> 'w runtime_world \<Rightarrow> bool"
  for cwd rp actions where
  run: "workingDir c = cwd \<Longrightarrow> getp options ''action'' \<in> JStr ` set actions \<Longrightarrow>
    resolve_context c options deps (files wd) = Inr cx \<Longrightarrow> cx_paths cx = rp \<Longrightarrow>
    runRuntimeSupervisor c options deps wd = (wd', r) \<Longrightarrow> runtime_step cwd rp actions wd wd'"
| lease_only: "runtime_step cwd rp actions wd (wd\<lparr>lease_world := lw\<rparr>)"

definition in_dir :: "string \<Rightarrow> process" where
  "in_dir cwd = \<lparr>env = Map.empty, gitCommonDir = None, moduleRepoRoot = [], workingDir = cwd, pid = 0,
     clockMs = 0, rand = [], hostName = []\<rparr>"

lemma same_dir:
  assumes "workingDir c = workingDir c'"
  shows "absolute_path c = absolute_path c'" "separate_layout c = separate_layout c'"
    "readJson_rt c = readJson_rt c'" "file_present c = file_present c'" "countJsonFiles c = countJsonFiles c'"
    "accurate c = accurate c'" "runtime_view c = runtime_view c'"
proof -
  show ab: "absolute_path c = absolute_path c'"
    using assms by (simp add: fun_eq_iff absolute_path_def)
  show counts: "countJsonFiles c = countJsonFiles c'" and present: "file_present c = file_present c'"
    by (simp_all add: fun_eq_iff ab countJsonFiles_def file_present_def)
  show "separate_layout c = separate_layout c'" "readJson_rt c = readJson_rt c'"
    "accurate c = accurate c'" "runtime_view c = runtime_view c'"
    using assms by (simp_all add: fun_eq_iff separate_layout_def readJson_rt_def accurate_def runtime_view_def
        ab counts present)
qed

definition runtime_inv :: "string \<Rightarrow> runtime_paths \<Rightarrow> 'w runtime_world \<Rightarrow> bool" where
  "runtime_inv cwd rp wd \<longleftrightarrow> (separate_layout (in_dir cwd) rp \<longrightarrow> accurate (in_dir cwd) rp (files wd))"

lemma runtime_inv_step:
  "runtime_step cwd rp actions wd wd' \<Longrightarrow> runtime_inv cwd rp wd \<Longrightarrow> runtime_inv cwd rp wd'"
proof (induction rule: runtime_step.induct)
  case (run c options deps wd cx wd' r)
  have dir: "workingDir c = workingDir (in_dir cwd)"
    using run(1) by (simp add: in_dir_def)
  have "run_action c cx wd = (wd', r)"
    using run(3,5) by (simp add: runRuntimeSupervisor_def)
  from run_action_summary [OF _ context_ready [OF run(3)] this] show ?case
    using run(4,6) summary_kept_accurate by (auto simp: runtime_inv_def same_dir [OF dir, symmetric])
qed (simp add: runtime_inv_def)

interpretation runtime_system: step_system
  "\<lambda>wd. map_of (files wd) (absolute_path (in_dir cwd) (statePath rp)) = None"
  "runtime_step cwd rp actions" "runtime_inv cwd rp" for cwd rp actions
  by unfold_locales (simp add: runtime_inv_def accurate_def, rule runtime_inv_step)

text \<open>
  C16: In every world reachable by runtime runs from one without a state document, with any hooks,
  options and failures, the summary of the state document counts the lane files on disk and says
  whether a blocker note is there.
\<close>

theorem runtime_summary_accurate:
  assumes "separate_layout c rp" "map_of (files s) (absolute_path c (statePath rp)) = None"
    "(runtime_step (workingDir c) rp ACTIONS)\<^sup>*\<^sup>* s t" "map_of (files t) (absolute_path c (statePath rp)) = Some (JsonTexts [d])"
  shows "getp2 d ''summary'' ''trackedLaneCount'' = JInt (int (countJsonFiles c (lanesDir rp) (files t))) \<and>
    getp2 d ''summary'' ''blockerPresent'' = JBool (file_present c (lastBlockerPath rp) (files t))"
proof -
  have dir: "workingDir c = workingDir (in_dir (workingDir c))"
    by (simp add: in_dir_def)
  have "runtime_inv (workingDir c) rp t"
    using runtime_system.inv_reachable [OF assms(3)] assms(2) by (simp add: same_dir(1) [OF dir, symmetric])
  with assms(1,4) show ?thesis
    by (auto simp: runtime_inv_def same_dir(1,2,6) [OF dir, symmetric] accurate_def)
qed

section \<open>The cycle counter\<close>

definition has_cycle :: "jsval \<Rightarrow> int \<Rightarrow> bool" where
  "has_cycle st n \<longleftrightarrow>
     (\<exists>kvs l. st = JObj kvs \<and> lookup kvs ''lifecycle'' = JObj l \<and> lookup l ''cycle'' = JInt n)"

lemma has_cycle_set:
  "has_cycle st n \<Longrightarrow> set_lifecycle upd st = Inr st' \<Longrightarrow> ''cycle'' \<notin> set (map fst upd) \<Longrightarrow> has_cycle st' n"
  by (auto simp: has_cycle_def set_lifecycle_def fold_set_field lookup_override_other)

lemma has_cycle_new:
  "has_cycle st n \<Longrightarrow> set_lifecycle ((''cycle'', JInt m) # upd) st = Inr st' \<Longrightarrow> ''cycle'' \<notin> set (map fst upd) \<Longrightarrow>
     has_cycle st' m"
  by (auto simp: has_cycle_def set_lifecycle_def fold_set_field lookup_override_other override_def [symmetric])

lemma has_cycle_active [simp]: "has_cycle (set_field st ''activeLane'' a) n \<longleftrightarrow> has_cycle st n"
  by (cases st) (auto simp: has_cycle_def)

lemma has_cycle_tracked: "tracked c rp v st fs fs' oc st' \<Longrightarrow> has_cycle st n \<Longrightarrow> has_cycle st' n"
  by (auto simp: tracked_def dest: has_cycle_set split: if_splits)

lemma has_cycle_next: "has_cycle st n \<Longrightarrow> next_cycle st = JInt (n + 1)"
  by (auto simp: has_cycle_def next_cycle_def js_or_def)

lemma settled_read:
  "settled c rp st fs fs' \<Longrightarrow>
     readJson_rt c (statePath rp) fs' = Inr (json_norm (finalState c rp st (now_iso c) fs))"
  by (simp add: settled_def runtime_view_def readJson_rt_def)

lemma settled_cycle:
  assumes "settled c rp st fs fs'" "has_cycle st n"
  shows "\<exists>d. readJson_rt c (statePath rp) fs' = Inr d \<and> getp2 d ''lifecycle'' ''cycle'' = JInt n"
proof -
  from assms(2) have "getp2 (finalState c rp st (now_iso c) fs) ''lifecycle'' ''cycle'' = JInt n"
    by (auto simp: has_cycle_def getp_finalState)
  then show ?thesis
    using settled_read [OF assms(1)] by (simp add: getp2_json del: json_norm.simps(7))
qed

lemma persisted_state:
  assumes "readJson_rt c (statePath rp) fs = Inr d" "truthy d" "loadState c a b rp t owner nm fs = Inr st"
  shows "\<exists>kvs. st = JObj kvs \<and> (\<forall>k. k \<notin> set [''repository'', ''repoRoot'', ''runtimeDir'', ''runtimeAdapter'', ''owner'', ''artifacts''] \<longrightarrow>
    lookup kvs k = lookup (spread d) k)"
proof -
  from assms(1,2) have "readPersisted c rp fs = Inr d"
    by (cases d) (auto simp: readPersisted_def split: option.splits)
  with assms(2,3) show ?thesis
    by (auto simp: loadState_def with_fields_def)
qed

lemma context_state:
  assumes "resolve_context c options deps fs = Inr cx" "readJson_rt c (statePath (cx_paths cx)) fs = Inr d" "truthy d"
  shows "\<exists>kvs. cx_state cx = JObj kvs \<and> (\<forall>k. k \<notin> set [''repository'', ''repoRoot'', ''runtimeDir'', ''runtimeAdapter'', ''owner'', ''artifacts''] \<longrightarrow>
    lookup kvs k = lookup (spread d) k)"
  using assms by (auto simp: resolve_context_def dest!: persisted_state)

lemma context_field:
  assumes "resolve_context c options deps fs = Inr cx" "readJson_rt c (statePath (cx_paths cx)) fs = Inr (JObj ds)"
    "k \<notin> set [''repository'', ''repoRoot'', ''runtimeDir'', ''runtimeAdapter'', ''owner'', ''artifacts'']"
  shows "\<exists>kvs. cx_state cx = JObj kvs \<and> lookup kvs k = lookup ds k"
  using context_state [OF assms(1,2)] assms(3) by auto

lemma object_of_field: "getp d k \<noteq> JUndef \<Longrightarrow> \<exists>ds. d = JObj ds"
  by (cases d) auto

lemma context_cycle:
  assumes "resolve_context c options deps fs = Inr cx" "readJson_rt c (statePath (cx_paths cx)) fs = Inr d"
    "getp2 d ''lifecycle'' ''cycle'' = JInt n"
  shows "has_cycle (cx_state cx) n"
proof -
  have "getp d ''lifecycle'' \<noteq> JUndef"
    using assms(3) by auto
  then obtain ds where d: "d = JObj ds"
    using object_of_field by blast
  from assms(3) obtain l where l: "lookup ds ''lifecycle'' = JObj l"
    using object_of_field [of "getp d ''lifecycle''" "''cycle''"] by (auto simp: d)
  obtain kvs where "cx_state cx = JObj kvs" "lookup kvs ''lifecycle'' = lookup ds ''lifecycle''"
    using context_field [OF assms(1), of ds "''lifecycle''"] assms(2) by (auto simp: d)
  then show ?thesis
    using assms(3) by (simp add: has_cycle_def d l)
qed

lemma settled_set_cycle:
  "set_lifecycle upd st = Inr st' \<Longrightarrow> settled c rp st' fs fs' \<Longrightarrow> has_cycle st n \<Longrightarrow> ''cycle'' \<notin> set (map fst upd) \<Longrightarrow>
     \<exists>d. readJson_rt c (statePath rp) fs' = Inr d \<and> getp2 d ''lifecycle'' ''cycle'' = JInt n"
  by (rule settled_cycle [OF _ has_cycle_set])

lemma leased_cycle:
  assumes "leased_run c cx v oc fs fs'" "has_cycle (cx_state cx) n"
  shows "\<exists>d. readJson_rt c (statePath (cx_paths cx)) fs' = Inr d \<and> getp2 d ''lifecycle'' ''cycle'' = JInt (n + 1)"
proof -
  from assms(1) obtain st0 st fs1 where st0: "set_lifecycle [(''cycle'', JInt (n + 1)), (''updatedAt'', JStr (now_iso c)),
      (''lastAction'', JStr ''step''), (''stopRequested'', JBool (truthy v))] (cx_state cx) = Inr st0"
    and st: "tracked c (cx_paths cx) v st0 fs fs1 oc st" "settled c (cx_paths cx) st fs1 fs'"
    unfolding leased_run_def has_cycle_next [OF assms(2)] by blast
  from has_cycle_new [OF assms(2) st0] have "has_cycle st0 (n + 1)"
    by simp
  from settled_cycle [OF st(2) has_cycle_tracked [OF st(1) this]] show ?thesis .
qed

lemma blocked_cycle:
  assumes "blocked_run c cx fs fs'" "has_cycle (cx_state cx) n"
  shows "\<exists>d. readJson_rt c (statePath (cx_paths cx)) fs' = Inr d \<and> getp2 d ''lifecycle'' ''cycle'' = JInt n"
proof -
  from assms(1) obtain v st0 st where st0: "set_lifecycle [(''status'', JStr ''blocked''), (''updatedAt'', JStr (now_iso c)),
      (''lastAction'', JStr ''step'')] (cx_state cx) = Inr st0"
    and st: "set_lifecycle [(''stopRequested'', JBool (truthy v))] st0 = Inr st" "settled c (cx_paths cx) st fs fs'"
    unfolding blocked_run_def by blast
  from has_cycle_set [OF assms(2) st0] have "has_cycle st0 n"
    by simp
  from settled_set_cycle [OF st this] show ?thesis
    by simp
qed

text \<open>
  C27: The cycle number in the state document rises by exactly one at every step that got the
  lease, and stays the same at every other run that returns: status, stop, resume and a blocked
  step.
\<close>

theorem cycle_counts_leased_steps:
  assumes "resolve_context c options deps (files wd) = Inr cx" "separate_layout c (cx_paths cx)"
    "readJson_rt c (statePath (cx_paths cx)) (files wd) = Inr d" "getp2 d ''lifecycle'' ''cycle'' = JInt n"
    "runRuntimeSupervisor c options deps wd = (wd', Inr (code, rep))"
  shows "\<exists>d'. readJson_rt c (statePath (cx_paths cx)) (files wd') = Inr d' \<and>
    getp2 d' ''lifecycle'' ''cycle'' =
      JInt (if getp options ''action'' = JStr ''step'' \<and> code = 0 then n + 1 else n)"
proof -
  have cyc: "has_cycle (cx_state cx) n"
    using context_cycle [OF assms(1,3,4)] .
  have act: "run_action c cx wd = (wd', Inr (code, rep))" "cx_options cx = options"
    using assms(1,5) by (simp_all add: runRuntimeSupervisor_def context_options)
  then consider "getp options ''action'' = JStr ''status''" "runStatusAction c cx (files wd) = (files wd', Inr (code, rep))"
    | "getp options ''action'' = JStr ''stop''" "runStopAction c cx (files wd) = (files wd', Inr (code, rep))"
    | "getp options ''action'' = JStr ''resume''" "runResumeAction c cx (files wd) = (files wd', Inr (code, rep))"
    | "getp options ''action'' = JStr ''step''" "runStepAction c cx wd = (wd', Inr (code, rep))"
    by (auto simp: run_action_def on_files_def Let_def split: if_splits prod.splits)
  then show ?thesis
  proof cases
    case 1
    from status_effect [OF assms(2) 1(2)] 1(1) cyc show ?thesis
      by (auto dest: settled_set_cycle)
  next
    case 2
    from stop_effect [OF assms(2) 2(2) refl] 2(1) cyc show ?thesis
      by (auto dest: settled_set_cycle)
  next
    case 3
    from resume_effect [OF assms(2) 3(2) refl] 3(1) cyc show ?thesis
      by (auto dest: settled_set_cycle)
  next
    case 4
    from step_effect [OF assms(2) context_ready [OF assms(1)] 4(2)] show ?thesis
      using 4(1) leased_cycle [OF _ cyc] blocked_cycle [OF _ cyc] by auto
  qed
qed

section \<open>The stop request\<close>

definition stop_pending :: "process \<Rightarrow> runtime_paths \<Rightarrow> runtime_files \<Rightarrow> bool" where
  "stop_pending c rp fs \<longleftrightarrow> (\<exists>v. readJson_rt c (stopRequestPath rp) fs = Inr v \<and> truthy v)"

lemma stop_pending_view:
  "snd (runtime_view c rp fs') = snd (runtime_view c rp fs) \<Longrightarrow> stop_pending c rp fs' = stop_pending c rp fs"
  by (simp add: runtime_view_def stop_pending_def readJson_rt_def)

lemma stop_pending_settled: "settled c rp st fs fs' \<Longrightarrow> stop_pending c rp fs' = stop_pending c rp fs"
  by (rule stop_pending_view) (simp add: settled_def)

lemma stop_pending_written:
  "stop_pending c (cx_paths cx) (writeJson_rt c (stopRequestPath (cx_paths cx)) (stop_request c cx) fs)"
  by (simp add: stop_pending_def readJson_rt_def stop_request_def store_simps)

lemma stop_pending_tracked: "tracked c rp v st fs fs' oc st' \<Longrightarrow> stop_pending c rp fs' = stop_pending c rp fs"
  by (simp add: tracked_def stop_pending_def readJson_rt_def)

lemma stop_pending_step:
  assumes "separate_layout c (cx_paths cx)" "objects_ready cx" "runStepAction c cx wd = (wd', r)"
  shows "stop_pending c (cx_paths cx) (files wd') = stop_pending c (cx_paths cx) (files wd)"
  using step_effect [OF assms]
  by (auto simp: blocked_run_def leased_run_def stop_pending_settled stop_pending_tracked)

text \<open>Only a resume takes the request away.\<close>

definition quiet_actions :: "string list" where
  "quiet_actions = [''status'', ''step'', ''stop'']"

lemma stop_pending_run:
  assumes "separate_layout c (cx_paths cx)" "objects_ready cx" "run_action c cx wd = (wd', r)"
    "getp (cx_options cx) ''action'' \<noteq> JStr ''resume''" "stop_pending c (cx_paths cx) (files wd)"
  shows "stop_pending c (cx_paths cx) (files wd')"
proof -
  consider "files wd' = files wd" | "runStatusAction c cx (files wd) = (files wd', r)"
    | "runStopAction c cx (files wd) = (files wd', r)" | "runStepAction c cx wd = (wd', r)"
    using assms(3,4) by (auto simp: run_action_def on_files_def Let_def split: if_splits prod.splits)
  then show ?thesis
  proof cases
    case 1
    with assms(5) show ?thesis by simp
  next
    case 2
    from status_effect [OF assms(1) this] assms(5) show ?thesis
      by (auto simp: stop_pending_settled)
  next
    case 3
    from stop_effect [OF assms(1) this refl] show ?thesis
      by (auto simp: stop_pending_settled stop_pending_written)
  next
    case 4
    from stop_pending_step [OF assms(1,2) this] assms(5) show ?thesis by simp
  qed
qed

definition stop_inv :: "string \<Rightarrow> runtime_paths \<Rightarrow> 'w runtime_world \<Rightarrow> bool" where
  "stop_inv cwd rp wd \<longleftrightarrow> (separate_layout (in_dir cwd) rp \<longrightarrow> stop_pending (in_dir cwd) rp (files wd))"

lemma stop_inv_step:
  "runtime_step cwd rp quiet_actions wd wd' \<Longrightarrow> stop_inv cwd rp wd \<Longrightarrow> stop_inv cwd rp wd'"
proof (induction rule: runtime_step.induct)
  case (run c options deps wd cx wd' r)
  have dir: "workingDir c = workingDir (in_dir cwd)"
    using run(1) by (simp add: in_dir_def)
  have sp: "stop_pending (in_dir cwd) = stop_pending c"
    by (simp add: fun_eq_iff stop_pending_def same_dir [OF dir])
  have act: "run_action c cx wd = (wd', r)"
    using run(3,5) by (simp add: runRuntimeSupervisor_def)
  have "getp (cx_options cx) ''action'' \<noteq> JStr ''resume''"
    using run(2) context_options [OF run(3)] by (auto simp: quiet_actions_def)
  from stop_pending_run [OF _ context_ready [OF run(3)] act this] show ?case
    using run(4,6) by (simp add: stop_inv_def same_dir(2) [OF dir, symmetric] sp)
qed (simp add: stop_inv_def)

interpretation stop_system: step_system "\<lambda>wd. stop_pending (in_dir cwd) rp (files wd)"
  "runtime_step cwd rp quiet_actions" "stop_inv cwd rp" for cwd rp
  by unfold_locales (simp add: stop_inv_def, rule stop_inv_step)

lemma stop_reachable:
  assumes "separate_layout c rp" "stop_pending c rp (files s)"
    "(runtime_step (workingDir c) rp quiet_actions)\<^sup>*\<^sup>* s t"
  shows "stop_pending c rp (files t)"
proof -
  have dir: "workingDir c = workingDir (in_dir (workingDir c))"
    by (simp add: in_dir_def)
  have "stop_pending (in_dir (workingDir c)) = stop_pending c"
    by (simp add: fun_eq_iff stop_pending_def same_dir [OF dir, symmetric])
  then show ?thesis
    using stop_system.inv_reachable [OF assms(3)] assms(1,2)
    by (simp add: stop_inv_def same_dir(2) [OF dir, symmetric])
qed

text \<open>What the lanes look like: every lane file and the blocker note.\<close>

definition lane_view_of :: "process \<Rightarrow> runtime_paths \<Rightarrow> runtime_files \<Rightarrow> runtime_file option \<times> (string \<Rightarrow> runtime_file option)" where
  "lane_view_of c rp fs =
     (map_of fs (absolute_path c (lastBlockerPath rp)),
      (\<lambda>q. if path_dirname q = absolute_path c (lanesDir rp) then map_of fs q else None))"

lemma settled_lanes: "settled c rp st fs fs' \<Longrightarrow> lane_view_of c rp fs' = lane_view_of c rp fs"
  by (simp add: settled_def runtime_view_def lane_view_of_def)

text \<open>
  C10: Once a stop was requested, after any number of status, step and stop runs a leased step
  still reports stop-requested and leaves every lane file and the blocker note as they are: only a
  resume takes the request away.
\<close>

theorem stop_blocks_lanes:
  assumes "separate_layout c rp" "stop_pending c rp (files s)"
    "(runtime_step (workingDir c) rp quiet_actions)\<^sup>*\<^sup>* s t"
    "resolve_context c options deps (files t) = Inr cx" "cx_paths cx = rp" "getp options ''action'' = JStr ''step''"
    "runRuntimeSupervisor c options deps t = (u, Inr (0, rep))"
  shows "getp rep ''outcome'' = JStr ''stop-requested'' \<and> lane_view_of c rp (files u) = lane_view_of c rp (files t) \<and>
    stop_pending c rp (files u)"
proof -
  have sep: "separate_layout c (cx_paths cx)" and pending: "stop_pending c rp (files t)"
    using assms(1,5) stop_reachable [OF assms(1-3)] by simp_all
  have run: "runStepAction c cx t = (u, Inr (0, rep))"
    using assms(4,6,7) by (simp add: runRuntimeSupervisor_def run_action_def context_options [OF assms(4)])
  from step_effect [OF sep context_ready [OF assms(4)] run]
  obtain v oc kvs where l: "leased_run c cx v oc (files t) (files u)" "rep = JObj kvs" "lookup kvs ''outcome'' = JStr oc"
    by auto
  then obtain st0 st fs1 where tr: "tracked c rp v st0 (files t) fs1 oc st" and s: "settled c rp st fs1 (files u)"
    and v: "readJson_rt c (stopRequestPath rp) (files t) = Inr v"
    unfolding leased_run_def assms(5) by blast
  from pending v have "truthy v"
    by (auto simp: stop_pending_def)
  with tr have "fs1 = files t" "oc = ''stop-requested''"
    by (auto simp: tracked_def)
  then show ?thesis
    using l(2,3) settled_lanes [OF s] stop_pending_settled [OF s] pending by simp
qed

text \<open>A stop and then a resume.\<close>

lemma settled_field:
  assumes "settled c rp (JObj kvs) fs fs'" "k \<notin> set [''summary'', ''generatedAt'']" "lookup kvs k \<noteq> JUndef"
  shows "\<exists>d. readJson_rt c (statePath rp) fs' = Inr (JObj d) \<and> lookup d k = json_norm (lookup kvs k)"
proof -
  let ?s = "finalState c rp (JObj kvs) (now_iso c) fs"
  obtain d where d: "json_norm ?s = JObj d"
    using json_norm_JObj by (simp add: finalState_def)
  have "getp ?s k = lookup kvs k"
    using assms(2) by (simp add: getp_finalState)
  then have "lookup d k = json_norm (lookup kvs k)"
    using getp_json_norm_defined [of ?s k] assms(3) d by simp
  then show ?thesis
    using settled_read [OF assms(1)] d by simp
qed

definition rewritten_fields :: "string list" where
  "rewritten_fields = [''lifecycle'', ''summary'', ''generatedAt'', ''repository'', ''repoRoot'', ''runtimeDir'',
     ''runtimeAdapter'', ''owner'', ''artifacts'']"

lemma settled_keeps:
  assumes "resolve_context c options deps fs = Inr cx" "readJson_rt c (statePath (cx_paths cx)) fs = Inr (JObj ds)"
    "set_lifecycle upd (cx_state cx) = Inr st" "settled c (cx_paths cx) st fs1 fs'"
    "k \<notin> set rewritten_fields" "lookup ds k \<noteq> JUndef"
  shows "\<exists>d. readJson_rt c (statePath (cx_paths cx)) fs' = Inr (JObj d) \<and> lookup d k = json_norm (lookup ds k)"
proof -
  obtain kvs where kvs: "cx_state cx = JObj kvs" "lookup kvs k = lookup ds k"
    using context_field [OF assms(1,2), of k] assms(5) by (auto simp: rewritten_fields_def)
  obtain kvs' where kvs': "st = JObj kvs'" "lookup kvs' k = lookup ds k"
    using set_lifecycle_shape [of upd kvs st] assms(3,5) kvs by (auto simp: rewritten_fields_def)
  show ?thesis
    using settled_field [of c "cx_paths cx" kvs' fs1 fs' k] assms(4-6) kvs' by (auto simp: rewritten_fields_def)
qed

lemma settled_lifecycle:
  assumes "has_cycle st n" "set_lifecycle upd st = Inr st'" "settled c rp st' fs fs'"
    "(k, JStr s) \<in> set upd" "distinct (map fst upd)"
  shows "\<exists>d. readJson_rt c (statePath rp) fs' = Inr d \<and> getp2 d ''lifecycle'' k = JStr s"
proof -
  have look: "lookup (override l upd) k = JStr s" for l
    using assms(4,5) by (induction upd arbitrary: l) (auto simp: lookup_override_other)
  from assms(1,2) have "getp2 (finalState c rp st' (now_iso c) fs) ''lifecycle'' k = JStr s"
    by (auto simp: has_cycle_def set_lifecycle_def fold_set_field getp_finalState look)
  then show ?thesis
    using settled_read [OF assms(3)] by (simp add: getp2_json del: json_norm.simps(7))
qed

lemma stop_run:
  assumes "resolve_context c options deps (files wd) = Inr cx" "separate_layout c (cx_paths cx)"
    "getp options ''action'' = JStr ''stop''" "runRuntimeSupervisor c options deps wd = (wd', Inr r)"
  shows "\<exists>fs1 upd st. set_lifecycle upd (cx_state cx) = Inr st \<and> settled c (cx_paths cx) st fs1 (files wd') \<and>
    ''cycle'' \<notin> set (map fst upd) \<and> stop_pending c (cx_paths cx) (files wd') \<and>
    lane_view_of c (cx_paths cx) (files wd') = lane_view_of c (cx_paths cx) (files wd)"
proof -
  let ?fs1 = "writeJson_rt c (stopRequestPath (cx_paths cx)) (stop_request c cx) (files wd)"
  have run: "runStopAction c cx (files wd) = (files wd', Inr r)"
    using assms(1,3,4) context_options [OF assms(1)]
    by (auto simp: runRuntimeSupervisor_def run_action_def on_files_def split: prod.splits)
  have lanes: "lane_view_of c (cx_paths cx) ?fs1 = lane_view_of c (cx_paths cx) (files wd)"
    using view_stop(1) [OF assms(2), of "stop_request c cx" "files wd"]
    by (simp add: runtime_view_def lane_view_of_def)
  from stop_effect [OF assms(2) run refl] obtain st
    where st: "set_lifecycle [(''stopRequested'', JBool True), (''status'', JStr ''paused''),
        (''updatedAt'', JStr (now_iso c)), (''lastAction'', JStr ''stop'')] (cx_state cx) = Inr st"
      "settled c (cx_paths cx) st ?fs1 (files wd')"
    by auto
  have "''cycle'' \<notin> set (map fst [(''stopRequested'', JBool True), (''status'', JStr ''paused''),
        (''updatedAt'', JStr (now_iso c)), (''lastAction'', JStr ''stop'')])"
    by simp
  with st show ?thesis
    using settled_lanes [OF st(2)] lanes stop_pending_settled [OF st(2)] stop_pending_written by metis
qed

lemma resume_run:
  assumes "resolve_context c options deps (files wd) = Inr cx" "separate_layout c (cx_paths cx)"
    "getp options ''action'' = JStr ''resume''" "runRuntimeSupervisor c options deps wd = (wd', Inr r)"
  shows "\<exists>fs1 upd st. set_lifecycle upd (cx_state cx) = Inr st \<and> settled c (cx_paths cx) st fs1 (files wd') \<and>
    ''cycle'' \<notin> set (map fst upd) \<and> (''status'', JStr ''idle'') \<in> set upd \<and> distinct (map fst upd) \<and>
    map_of (files wd') (absolute_path c (stopRequestPath (cx_paths cx))) = None \<and>
    lane_view_of c (cx_paths cx) (files wd') = lane_view_of c (cx_paths cx) (files wd)"
proof -
  let ?fs1 = "removeFile_rt c (stopRequestPath (cx_paths cx)) (files wd)"
  let ?upd = "[(''stopRequested'', JBool False), (''status'', JStr ''idle''),
        (''updatedAt'', JStr (now_iso c)), (''lastAction'', JStr ''resume'')]"
  have run: "runResumeAction c cx (files wd) = (files wd', Inr r)"
    using assms(1,3,4) context_options [OF assms(1)]
    by (auto simp: runRuntimeSupervisor_def run_action_def on_files_def split: prod.splits)
  have lanes: "lane_view_of c (cx_paths cx) ?fs1 = lane_view_of c (cx_paths cx) (files wd)"
    using view_stop(2) [OF assms(2), of "files wd"] by (simp add: runtime_view_def lane_view_of_def)
  from resume_effect [OF assms(2) run refl] obtain st
    where st: "set_lifecycle ?upd (cx_state cx) = Inr st" "settled c (cx_paths cx) st ?fs1 (files wd')"
    by auto
  have "map_of (files wd') (absolute_path c (stopRequestPath (cx_paths cx))) = None"
    using st(2) by (simp add: settled_def runtime_view_def store_simps)
  moreover have "''cycle'' \<notin> set (map fst ?upd)" "(''status'', JStr ''idle'') \<in> set ?upd" "distinct (map fst ?upd)"
    by simp_all
  ultimately show ?thesis
    using st settled_lanes [OF st(2)] lanes by metis
qed

text \<open>
  C36: A stop followed by a resume takes the stop request away again, leaves the lifecycle idle
  with the same cycle number, and keeps the lane files, the blocker note and every field of the
  state document that is not recomputed by each run.
\<close>

theorem stop_resume_roundtrip:
  assumes "separate_layout c rp" "readJson_rt c (statePath rp) (files wd) = Inr (JObj ds)"
    "getp2 (JObj ds) ''lifecycle'' ''cycle'' = JInt n"
    "resolve_context c o1 deps1 (files wd) = Inr cx1" "cx_paths cx1 = rp" "getp o1 ''action'' = JStr ''stop''"
    "runRuntimeSupervisor c o1 deps1 wd = (wd1, Inr r1)"
    "workingDir c2 = workingDir c" "resolve_context c2 o2 deps2 (files wd1) = Inr cx2" "cx_paths cx2 = rp"
    "getp o2 ''action'' = JStr ''resume''" "runRuntimeSupervisor c2 o2 deps2 wd1 = (wd2, Inr r2)"
  shows "stop_pending c rp (files wd1) \<and> map_of (files wd2) (absolute_path c (stopRequestPath rp)) = None \<and>
    lane_view_of c rp (files wd2) = lane_view_of c rp (files wd) \<and>
    (\<exists>d2. readJson_rt c (statePath rp) (files wd2) = Inr (JObj d2) \<and>
       getp2 (JObj d2) ''lifecycle'' ''status'' = JStr ''idle'' \<and> getp2 (JObj d2) ''lifecycle'' ''cycle'' = JInt n \<and>
       (\<forall>k. k \<notin> set rewritten_fields \<and> lookup ds k \<noteq> JUndef \<longrightarrow> lookup d2 k = json_norm (lookup ds k)))"
proof -
  have dir: "workingDir c2 = workingDir c" and lv: "lane_view_of c2 = lane_view_of c"
    using assms(8) same_dir(1) [OF assms(8)] by (simp_all add: fun_eq_iff lane_view_of_def)
  obtain f1 u1 st1 where s1: "set_lifecycle u1 (cx_state cx1) = Inr st1" "settled c rp st1 f1 (files wd1)"
      "''cycle'' \<notin> set (map fst u1)" "stop_pending c rp (files wd1)" "lane_view_of c rp (files wd1) = lane_view_of c rp (files wd)"
    using stop_run [OF assms(4) _ assms(6,7)] assms(1,5) by blast
  have c1: "has_cycle (cx_state cx1) n"
    using context_cycle [OF assms(4)] assms(2,3,5) by simp
  obtain d1 where d1: "readJson_rt c (statePath rp) (files wd1) = Inr d1" "getp2 d1 ''lifecycle'' ''cycle'' = JInt n"
    using settled_set_cycle [OF s1(1,2) c1 s1(3)] by blast
  obtain e1 where e1: "d1 = JObj e1"
    using object_of_field [of d1 "''lifecycle''"] d1(2) by fastforce
  have k1: "lookup e1 k = json_norm (lookup ds k)" if "k \<notin> set rewritten_fields" "lookup ds k \<noteq> JUndef" for k
    using settled_keeps [OF assms(4) _ s1(1) _ that] assms(2,5) s1(2) d1(1) e1 by fastforce
  obtain f2 u2 st2 where s2: "set_lifecycle u2 (cx_state cx2) = Inr st2" "settled c2 rp st2 f2 (files wd2)"
      "''cycle'' \<notin> set (map fst u2)" "(''status'', JStr ''idle'') \<in> set u2" "distinct (map fst u2)"
      "map_of (files wd2) (absolute_path c (stopRequestPath rp)) = None"
      "lane_view_of c rp (files wd2) = lane_view_of c rp (files wd1)"
    using resume_run [OF assms(9) _ assms(11,12)] assms(1,10) lv same_dir(1,2) [OF dir] by metis
  have c2: "has_cycle (cx_state cx2) n"
    using context_cycle [OF assms(9)] d1 assms(10) by (simp add: same_dir(3) [OF dir])
  obtain d2 where d2: "readJson_rt c (statePath rp) (files wd2) = Inr d2" "getp2 d2 ''lifecycle'' ''cycle'' = JInt n"
    using settled_set_cycle [OF s2(1,2) c2 s2(3)] by (auto simp: same_dir(3) [OF dir])
  have st: "getp2 d2 ''lifecycle'' ''status'' = JStr ''idle''"
    using settled_lifecycle [OF c2 s2(1,2,4,5)] d2(1) by (auto simp: same_dir(3) [OF dir])
  obtain e2 where e2: "d2 = JObj e2"
    using object_of_field [of d2 "''lifecycle''"] d2(2) by fastforce
  have "lookup e2 k = json_norm (lookup ds k)" if k: "k \<notin> set rewritten_fields" "lookup ds k \<noteq> JUndef" for k
  proof -
    have "readJson_rt c2 (statePath (cx_paths cx2)) (files wd1) = Inr (JObj e1)" "lookup e1 k \<noteq> JUndef"
      using d1(1) e1 assms(10) k1 [OF k] by (simp_all add: same_dir(3) [OF dir])
    from settled_keeps [OF assms(9) this(1) s2(1) _ k(1) this(2), of f2 "files wd2"] show ?thesis
      using s2(2) assms(10) d2(1) e2 k1 [OF k] by (simp add: same_dir(3) [OF dir])
  qed
  then show ?thesis
    using s1(4,5) s2(6,7) d2 st e2 by auto
qed

section \<open>Worker slots and the command line\<close>

text \<open>The slot and provider fields that the summaries print.\<close>

definition slot_fields :: "string list" where
  "slot_fields = [''slotId'', ''providerId'', ''providerKind'', ''executionPlane'', ''assignmentMode'']"

lemma slots_of_summary_Worker:
  "k \<in> set slot_fields \<Longrightarrow> getp (summarizeWorker r) k = (if truthy r then or_null (getp r k) else JUndef)"
  unfolding slot_fields_def by (simp only: list.set insert_iff empty_iff) (elim disjE; simp add: summarizeWorker_def)

lemma slots_of_record_Worker:
  "k \<in> set slot_fields \<Longrightarrow> getp (normalizeWorkerRecord w t) k = JUndef"
  unfolding slot_fields_def by (simp only: list.set insert_iff empty_iff) (elim disjE; simp add: normalizeWorkerRecord_def Let_def)

lemma slots_of_summary_WorkerReady:
  "k \<in> set slot_fields \<Longrightarrow> getp (summarizeWorkerReady r) k = (if truthy r then or_null (getp r k) else JUndef)"
  unfolding slot_fields_def by (simp only: list.set insert_iff empty_iff) (elim disjE; simp add: summarizeWorkerReady_def)

lemma slots_of_record_WorkerReady:
  "k \<in> set slot_fields \<Longrightarrow> getp (normalizeWorkerReadyRecord w t) k = JUndef"
  unfolding slot_fields_def by (simp only: list.set insert_iff empty_iff) (elim disjE; simp add: normalizeWorkerReadyRecord_def Let_def)

lemma slots_of_summary_WorkerBranch:
  "k \<in> set slot_fields \<Longrightarrow> getp (summarizeWorkerBranch r) k = (if truthy r then or_null (getp r k) else JUndef)"
  unfolding slot_fields_def by (simp only: list.set insert_iff empty_iff) (elim disjE; simp add: summarizeWorkerBranch_def)

lemma slots_of_record_WorkerBranch:
  "k \<in> set slot_fields \<Longrightarrow> getp (normalizeWorkerBranchRecord w t) k = JUndef"
  unfolding slot_fields_def by (simp only: list.set insert_iff empty_iff) (elim disjE; simp add: normalizeWorkerBranchRecord_def Let_def)

lemmas slots_of = slots_of_summary_Worker slots_of_summary_WorkerReady slots_of_summary_WorkerBranch
  slots_of_record_Worker slots_of_record_WorkerReady slots_of_record_WorkerBranch

lemma lane_record_parts:
  "getp (buildLaneRecord options t) ''worker'' =
     (if has_lane_context options then normalizeWorkerRecord (getp options ''worker'') t else JUndef)"
  "getp (buildLaneRecord options t) ''workerReady'' =
     (if has_lane_context options then normalizeWorkerReadyRecord (getp options ''workerReady'') t else JUndef)"
  "getp (buildLaneRecord options t) ''workerBranch'' =
     (if has_lane_context options then normalizeWorkerBranchRecord (getp options ''workerBranch'') t else JUndef)"
  by (simp_all add: buildLaneRecord_def Let_def)

lemma lane_summary_parts:
  "getp (buildActiveLaneSummary lane) ''worker'' = (if truthy lane then summarizeWorker (getp lane ''worker'') else JUndef)"
  "getp (buildActiveLaneSummary lane) ''workerReady'' =
     (if truthy lane then summarizeWorkerReady (getp lane ''workerReady'') else JUndef)"
  "getp (buildActiveLaneSummary lane) ''workerBranch'' =
     (if truthy lane then summarizeWorkerBranch (getp lane ''workerBranch'') else JUndef)"
  by (simp_all add: buildActiveLaneSummary_def)

lemma truthy_summaries:
  "truthy (summarizeWorker r) = truthy r" "truthy (summarizeWorkerReady r) = truthy r"
  "truthy (summarizeWorkerBranch r) = truthy r"
  by (simp_all add: summarizeWorker_def summarizeWorkerReady_def summarizeWorkerBranch_def)

text \<open>
  The lane summary prints null for the slot id, the provider and the plane of every worker
  record, whatever the worker passed: normalising the record drops the five fields the summary
  reads.
\<close>

theorem worker_slots_dropped:
  assumes "k \<in> set slot_fields" "w \<in> set [''worker'', ''workerReady'', ''workerBranch'']"
  shows "getp2 (buildActiveLaneSummary (buildLaneRecord options t)) w k =
    (if truthy (getp (buildActiveLaneSummary (buildLaneRecord options t)) w) then JNull else JUndef)"
  using assms(2)
  by (cases "truthy (buildLaneRecord options t)"; cases "has_lane_context options")
    (auto simp: lane_summary_parts lane_record_parts slots_of [OF assms(1)]
      truthy_summaries or_null_def)

definition issue_number :: "jsval \<Rightarrow> bool" where
  "issue_number v \<longleftrightarrow> v = JNull \<or> (\<exists>n > 0. v = JInt n)"

lemma toPositiveInteger_number: "toPositiveInteger v label = Inr x \<Longrightarrow> issue_number x"
proof -
  assume a: "toPositiveInteger v label = Inr x"
  show ?thesis
  proof (cases "nullish v")
    case True
    with a show ?thesis by (simp add: toPositiveInteger_def issue_number_def)
  next
    case False
    with a have x: "x = JNum (js_number v)" "num_integer (js_number v)" "\<not> num_le (js_number v) (Fin 0)"
      by (auto simp: toPositiveInteger_def Let_def split: if_splits)
    then obtain i where "js_number v = num_of_int i"
      using is_integer_number_cases [of x] by auto
    with x show ?thesis by (auto simp: issue_number_def)
  qed
qed

text \<open>Every option of the command line by its kind: two numbers, two flags, the rest texts.\<close>

definition runtime_text_keys :: "string list" where
  "runtime_text_keys =
     [''action'', ''repo'', ''runtimeDir'', ''statePath'', ''eventsPath'', ''lanesDir'', ''turnsDir'',
      ''stopRequestPath'', ''lastBlockerPath'', ''lane'', ''forkRemote'', ''branch'', ''prUrl'', ''blockerClass'',
      ''reason'', ''leaseScope'', ''leaseRoot'', ''owner'']"

definition option_kind :: "string \<Rightarrow> jsval \<Rightarrow> bool" where
  "option_kind key v \<longleftrightarrow>
     (if key \<in> set runtime_text_keys then (\<exists>s. v = JStr s \<and> (key = ''leaseScope'' \<longrightarrow> s \<noteq> []))
      else if key \<in> set [''issue'', ''epic''] then issue_number v
      else if key \<in> set [''quiet'', ''help''] then v = JBool True \<or> v = JBool False
      else v = JUndef)"

definition options_typed :: "jsval \<Rightarrow> bool" where
  "options_typed options \<longleftrightarrow> (\<exists>kvs. options = JObj kvs) \<and> (\<forall>key. option_kind key (getp options key))"

lemma typed_text:
  assumes "options_typed options" "key \<in> set runtime_text_keys"
  shows "\<exists>s. getp options key = JStr s"
proof -
  have "option_kind key (getp options key)"
    using assms(1) unfolding options_typed_def by blast
  with assms(2) show ?thesis
    unfolding option_kind_def by auto
qed

lemma text_key [simp]: "''reason'' \<in> set runtime_text_keys" "''leaseScope'' \<in> set runtime_text_keys"
  by (simp_all add: runtime_text_keys_def)

lemma runtime_option_kind:
  assumes "runtime_option token next = Some (key, Inr v)"
  shows "option_kind key v"
proof (cases "map_of runtime_text_options token")
  case (Some k)
  then have "k \<in> set runtime_text_keys \<and> k \<noteq> ''leaseScope''"
    by (auto simp: runtime_text_options_def runtime_text_keys_def split: if_splits)
  with Some assms show ?thesis by (auto simp: runtime_option_def option_kind_def)
next
  case t: None
  show ?thesis
  proof (cases "map_of runtime_lower_options token")
    case (Some k)
    then have "k \<in> set runtime_text_keys \<and> k \<noteq> ''leaseScope''"
      by (auto simp: runtime_lower_options_def runtime_text_keys_def split: if_splits)
    with t Some assms show ?thesis by (auto simp: runtime_option_def option_kind_def)
  next
    case None
    show ?thesis
    proof (cases "map_of runtime_int_options token")
      case (Some k)
      then have "k \<in> set [''issue'', ''epic''] \<and> k \<notin> set runtime_text_keys"
        by (auto simp: runtime_int_options_def runtime_text_keys_def split: if_splits)
      with t None Some assms show ?thesis
        by (auto simp: runtime_option_def option_kind_def dest: toPositiveInteger_number)
    next
      case n: None
      with t None assms have "key = ''reason'' \<and> v = JStr next \<or>
          key = ''leaseScope'' \<and> v = js_or (JStr (normalizeText (JStr next))) (JStr DEFAULT_LEASE_SCOPE)"
        by (auto simp: runtime_option_def split: if_splits)
      moreover have "\<exists>s. js_or (JStr a) (JStr DEFAULT_LEASE_SCOPE) = JStr s \<and> s \<noteq> []" for a
        by (auto simp: js_or_def DEFAULT_LEASE_SCOPE_def)
      ultimately show ?thesis
        unfolding option_kind_def by (elim disjE conjE) simp_all
    qed
  qed
qed

lemma options_typed_set:
  "options_typed options \<Longrightarrow> option_kind key v \<Longrightarrow> options_typed (set_field options key v)"
  by (auto simp: options_typed_def)

lemma parse_runtime_typed:
  "parse_runtime_args options argv = Inr r \<Longrightarrow> options_typed options \<Longrightarrow> options_typed r"
proof (induction options argv rule: parse_runtime_args.induct)
  case (1 options)
  then show ?case by simp
next
  case (2 options token rest)
  have flag1: "options_typed (set_field options ''help'' (JBool True))"
    and flag2: "options_typed (set_field options ''quiet'' (JBool True))"
    by (simp_all add: options_typed_set [OF "2.prems"(2)] option_kind_def runtime_text_keys_def)
  show ?case
  proof (cases "token = ''--help'' \<or> token = ''-h'' \<or> token = ''--quiet''")
    case True
    then show ?thesis
      using 2 flag1 flag2 by (auto split: if_splits)
  next
    case False
    then obtain kr0 where known: "runtime_option token [] = Some kr0"
      using "2.prems"(1) by (cases "runtime_option token []") simp_all
    show ?thesis
    proof (cases rest)
      case Nil
      then show ?thesis using "2.prems"(1) False known by simp
    next
      case (Cons next' rest')
      show ?thesis
      proof (cases "starts_with next' ''-'' \<and> token \<noteq> ''--reason''")
        case True
        then show ?thesis using "2.prems"(1) False known Cons by simp
      next
        case ok: False
        show ?thesis
        proof (cases "runtime_option token next'")
          case None
          then show ?thesis using "2.prems"(1) False known Cons ok by (simp split: if_splits)
        next
          case (Some kr)
          then obtain key v where v: "runtime_option token next' = Some (key, Inr v)"
              "parse_runtime_args (set_field options key v) rest' = Inr r"
            using "2.prems"(1) False known Cons ok by (cases kr; cases "snd kr") (simp_all split: if_splits)
          have "options_typed (set_field options key v)"
            using options_typed_set [OF "2.prems"(2) runtime_option_kind [OF v(1)]] .
          then show ?thesis
            using "2.IH"(3) False known Cons ok v "2.prems"(2) by auto
        qed
      qed
    qed
  qed
qed

lemma lookup_absent: "k \<notin> fst ` set kvs \<Longrightarrow> lookup kvs k = JUndef"
  by (induction kvs) auto

lemma runtime_defaults_typed: "options_typed runtime_defaults"
proof -
  obtain kvs where kvs: "runtime_defaults = JObj kvs"
    by (simp add: runtime_defaults_def)
  have "set runtime_text_keys \<union> set [''issue'', ''epic'', ''quiet'', ''help''] \<subseteq> fst ` set kvs"
    using kvs [symmetric] by (simp add: runtime_defaults_def runtime_text_keys_def)
  then have "option_kind key (lookup kvs key)" if "key \<notin> fst ` set kvs" for key
    using that lookup_absent [OF that] by (auto simp: option_kind_def)
  moreover have "\<forall>key \<in> fst ` set kvs. option_kind key (lookup kvs key)"
    using kvs [symmetric] by (simp add: runtime_defaults_def option_kind_def runtime_text_keys_def issue_number_def DEFAULT_LEASE_SCOPE_def)
  ultimately show ?thesis
    unfolding options_typed_def kvs by (metis getp.simps(1))
qed

text \<open>
  C37: A command line that parses yields exactly the options of parseArgs, each of its kind: every
  text option (repository, the paths, lane, fork remote, branch, pull-request URL, reason, owner,
  lease scope and root, and the rest) is a string and the lease scope is not empty, issue and epic
  are null or positive integers, the flags are booleans, and the action and blocker class are
  empty or one of the listed values.
\<close>

theorem runtime_args_typed:
  assumes "parseArgs_rt argv = Inr options"
  shows "options_typed options \<and> getp options ''action'' \<in> JStr ` set ([] # ACTIONS) \<and>
    getp options ''blockerClass'' \<in> JStr ` set ([] # BLOCKER_CLASSES)"
proof -
  from assms runtime_defaults_typed have typed: "options_typed options"
    by (auto simp: parseArgs_rt_def Let_def dest: parse_runtime_typed split: if_splits)
  then obtain a b where "getp options ''action'' = JStr a" "getp options ''blockerClass'' = JStr b"
    using typed_text [OF typed, of "''action''"] typed_text [OF typed, of "''blockerClass''"]
    by (auto simp: runtime_text_keys_def)
  with assms typed show ?thesis
    by (auto simp: parseArgs_rt_def Let_def image_iff split: if_splits)
qed

section \<open>Runs that return\<close>

definition lifecycle_object :: "jsval \<Rightarrow> bool" where
  "lifecycle_object st \<longleftrightarrow> (\<exists>kvs l. st = JObj kvs \<and> lookup kvs ''lifecycle'' = JObj l)"

lemma set_lifecycle_total:
  "lifecycle_object st \<Longrightarrow> \<exists>st'. set_lifecycle upd st = Inr st' \<and> lifecycle_object st'"
  by (auto simp: lifecycle_object_def set_lifecycle_def fold_set_field)

lemma status_returns:
  "readJson_rt c (stopRequestPath (cx_paths cx)) fs = Inr v \<Longrightarrow> lifecycle_object (cx_state cx) \<Longrightarrow>
     \<exists>fs' rep. runStatusAction c cx fs = (fs', Inr (0, rep))"
  by (auto simp: lifecycle_object_def runStatusAction_def set_lifecycle_def fold_set_field finalizeState_def Let_def)

lemma stop_returns:
  "lifecycle_object (cx_state cx) \<Longrightarrow> \<exists>fs' rep. runStopAction c cx fs = (fs', Inr (0, rep))"
  by (auto simp: lifecycle_object_def runStopAction_def set_lifecycle_def fold_set_field finalizeState_def Let_def)

lemma resume_returns:
  "lifecycle_object (cx_state cx) \<Longrightarrow> \<exists>fs' rep. runResumeAction c cx fs = (fs', Inr (0, rep))"
  by (auto simp: lifecycle_object_def runResumeAction_def set_lifecycle_def fold_set_field finalizeState_def Let_def)

lemma track_returns:
  "lifecycle_object st \<Longrightarrow> \<exists>fs' x. track_lane c rp v lane st fs = (fs', Inr x)"
  by (auto simp: lifecycle_object_def track_lane_def set_lifecycle_def fold_set_field split_beta Let_def)

lemma body_returns:
  assumes "readJson_rt c (stopRequestPath (cx_paths cx)) fs = Inr v" "lifecycle_object (cx_state cx)"
  shows "\<exists>fs' rep'. step_body c cx a rep fs = (fs', Inr rep')"
proof -
  let ?lane = "buildLaneRecord (cx_options cx) (now_iso c)"
  obtain st where st: "set_lifecycle [(''cycle'', next_cycle (cx_state cx)), (''updatedAt'', JStr (now_iso c)),
      (''lastAction'', JStr ''step''), (''stopRequested'', JBool (truthy v))] (cx_state cx) = Inr st" "lifecycle_object st"
    using set_lifecycle_total [OF assms(2)] by blast
  obtain fs1 oc st1 lp bp where "track_lane c (cx_paths cx) v ?lane st fs = (fs1, Inr (oc, st1, lp, bp))"
    using track_returns [OF st(2)] by (metis prod_cases4)
  with assms(1) st(1) show ?thesis
    by (simp add: step_body_def finalizeState_def writeTurn_def Let_def)
qed

lemma blocked_returns:
  assumes "readJson_rt c (stopRequestPath (cx_paths cx)) fs = Inr v" "lifecycle_object (cx_state cx)"
  shows "\<exists>fs' rep'. step_blocked c cx a rep fs = (fs', Inr (10, rep'))"
proof -
  obtain st where st: "set_lifecycle [(''status'', JStr ''blocked''), (''updatedAt'', JStr (now_iso c)),
      (''lastAction'', JStr ''step'')] (cx_state cx) = Inr st" "lifecycle_object st"
    using set_lifecycle_total [OF assms(2)] by blast
  obtain st1 where "set_lifecycle [(''stopRequested'', JBool (truthy v))] st = Inr st1"
    using set_lifecycle_total [OF st(2)] by blast
  with assms(1) st(1) show ?thesis
    by (simp add: step_blocked_def finalizeState_def Let_def)
qed

lemma step_returns:
  assumes "readJson_rt c (stopRequestPath (cx_paths cx)) (files wd) = Inr v" "lifecycle_object (cx_state cx)"
    "step_lease_options cx = Inr opts" "cx_acquire cx (JObj opts) (lease_world wd) = (lw, Inr a)"
    "\<And>i. \<exists>lw' b. cx_release cx (JObj (opts @ [(''leaseId'', i)])) lw = (lw', Inr b)"
  shows "\<exists>wd' rep. runStepAction c cx wd = (wd', Inr (if isLeaseSuccess a then 0 else 10, rep))"
proof -
  let ?rep = "set_field (cx_report cx) ''lease'' (JObj [(''acquire'', summarizeLease a), (''release'', JNull)])"
  show ?thesis
  proof (cases "isLeaseSuccess a")
    case True
    obtain fs rep where b: "step_body c cx a ?rep (files wd) = (fs, Inr rep)"
      using body_returns [OF assms(1,2)] by blast
    obtain lw2 x where "cx_release cx (JObj (opts @ [(''leaseId'', or_null (getp (summarizeLease a) ''leaseId''))])) lw = (lw2, Inr x)"
      using assms(5) by blast
    with True assms(3,4) b show ?thesis by (simp add: runStepAction_def Let_def)
  next
    case False
    obtain fs rep where "step_blocked c cx a ?rep (files wd) = (fs, Inr (10, rep))"
      using blocked_returns [OF assms(1,2)] by blast
    with False assms(3,4) show ?thesis by (simp add: runStepAction_def Let_def)
  qed
qed

lemma fresh_state_object:
  assumes "loadState c a b rp t owner nm fs = Inr st" "readPersisted c rp fs = Inr d"
    "truthy d \<longrightarrow> (\<exists>l. getp d ''lifecycle'' = JObj l)"
  shows "lifecycle_object st"
proof (cases "truthy d")
  case True
  then obtain l where "getp d ''lifecycle'' = JObj l"
    using assms(3) by blast
  then show ?thesis
    using True assms(1,2) object_of_field [of d "''lifecycle''"]
    by (auto simp: loadState_def lifecycle_object_def with_fields_def)
next
  case False
  with assms(1,2) show ?thesis
    by (auto simp: loadState_def lifecycle_object_def buildEmptyState_def)
qed

lemma action_returns:
  assumes "lifecycle_object (cx_state cx)" "getp (cx_options cx) ''action'' \<in> JStr ` set ACTIONS"
    "readJson_rt c (stopRequestPath (cx_paths cx)) (files wd) = Inr v" "step_lease_options cx = Inr opts"
    "cx_acquire cx (JObj opts) (lease_world wd) = (lw, Inr a)"
    "\<And>i. \<exists>lw' b. cx_release cx (JObj (opts @ [(''leaseId'', i)])) lw = (lw', Inr b)"
  shows "\<exists>wd' rep. run_action c cx wd =
    (wd', Inr (if getp (cx_options cx) ''action'' = JStr ''step'' \<and> \<not> isLeaseSuccess a then 10 else 0, rep))"
proof -
  from assms(2) consider "getp (cx_options cx) ''action'' = JStr ''status''" | "getp (cx_options cx) ''action'' = JStr ''stop''"
    | "getp (cx_options cx) ''action'' = JStr ''resume''" | "getp (cx_options cx) ''action'' = JStr ''step''"
    by (auto simp: ACTIONS_def)
  then show ?thesis
  proof cases
    case 1
    with status_returns [OF assms(3,1)] show ?thesis
      by (auto simp: run_action_def on_files_def)
  next
    case 2
    with stop_returns [OF assms(1), of c "files wd"] show ?thesis
      by (auto simp: run_action_def on_files_def)
  next
    case 3
    with resume_returns [OF assms(1), of c "files wd"] show ?thesis
      by (auto simp: run_action_def on_files_def)
  next
    case 4
    with step_returns [OF assms(3,1,4-6)] show ?thesis
      by (auto simp: run_action_def)
  qed
qed

lemma context_object:
  assumes "resolve_context c options deps fs = Inr cx" "readPersisted c (cx_paths cx) fs = Inr d"
    "truthy d \<longrightarrow> (\<exists>l. getp d ''lifecycle'' = JObj l)"
  shows "lifecycle_object (cx_state cx)"
proof -
  obtain a0 b0 t0 o0 n0 where "loadState c a0 b0 (cx_paths cx) t0 o0 n0 fs = Inr (cx_state cx)"
    using assms(1) by (auto simp: resolve_context_def)
  then show ?thesis
    using assms(2,3) by (rule fresh_state_object)
qed

text \<open>
  What a run needs from outside: an accepted adapter whose hooks answer, files that parse, and
  lease hooks that return on the lease options of the step.
\<close>

definition adapter_answers :: "process \<Rightarrow> jsval \<Rightarrow> 'w runtime_deps \<Rightarrow> string \<Rightarrow> bool" where
  "adapter_answers c options deps dir \<longleftrightarrow>
     (\<exists>adapter. resolveAdapter c deps = Inr adapter \<and>
        (if nullish (dp_repoRoot deps) then fn_or (dp_resolveRepoRootFn deps) (resolveRepoRoot adapter) options
         else Inr (dp_repoRoot deps)) = Inr (JStr dir) \<and>
        (\<exists>repository. fn_or (dp_resolveRepositoryFn deps) (resolveRepository adapter) options = Inr repository) \<and>
        (normalizeText (getp options ''owner'') = [] \<longrightarrow>
           (\<exists>owner. fn_or (dp_resolveOwnerFn deps) (resolveOwner adapter) options = Inr owner)))"

definition path_keys :: "string list" where
  "path_keys = [''runtimeDir'', ''statePath'', ''eventsPath'', ''lanesDir'', ''turnsDir'', ''stopRequestPath'',
     ''lastBlockerPath'', ''leaseRoot'']"

definition paths_given :: "jsval \<Rightarrow> bool" where
  "paths_given options \<longleftrightarrow> (\<forall>key \<in> set path_keys. getp options key \<in> {JUndef, JNull} \<union> range JStr)"

definition files_readable :: "process \<Rightarrow> string \<Rightarrow> jsval \<Rightarrow> runtime_files \<Rightarrow> bool" where
  "files_readable c dir options fs \<longleftrightarrow>
     (\<forall>rp. resolveRuntimePaths (JStr dir) options = Inr rp \<longrightarrow>
        (\<exists>d. readPersisted c rp fs = Inr d \<and> (truthy d \<longrightarrow> (\<exists>l. getp d ''lifecycle'' = JObj l))) \<and>
        (\<exists>v. readJson_rt c (stopRequestPath rp) fs = Inr v))"

definition lease_hooks_return :: "process \<Rightarrow> jsval \<Rightarrow> 'w runtime_deps \<Rightarrow> 'w runtime_world \<Rightarrow> bool" where
  "lease_hooks_return c options deps wd \<longleftrightarrow>
     (\<forall>cx opts. resolve_context c options deps (files wd) = Inr cx \<longrightarrow> step_lease_options cx = Inr opts \<longrightarrow>
        (\<exists>lw a. cx_acquire cx (JObj opts) (lease_world wd) = (lw, Inr a) \<and>
           (\<forall>i. \<exists>lw' b. cx_release cx (JObj (opts @ [(''leaseId'', i)])) lw = (lw', Inr b))))"

lemma typed_paths:
  assumes "options_typed options"
  shows "paths_given options"
  unfolding paths_given_def
proof
  fix key assume "key \<in> set path_keys"
  then have "key \<in> set runtime_text_keys"
    by (auto simp: path_keys_def runtime_text_keys_def)
  with typed_text [OF assms] show "getp options key \<in> {JUndef, JNull} \<union> range JStr"
    by fastforce
qed

lemma resolvePath_text:
  assumes "v \<in> range JStr"
  shows "\<exists>p. resolvePath (JStr dir) v = Inr p"
proof -
  obtain p where "v = JStr p" using assms by blast
  then show ?thesis by (cases "path_is_absolute p") (simp_all add: resolvePath_def)
qed

lemma runtime_paths_exist:
  assumes "paths_given options"
  shows "\<exists>rp. resolveRuntimePaths (JStr dir) options = Inr rp"
proof -
  have given: "getp options key \<in> {JUndef, JNull} \<union> range JStr" if "key \<in> set path_keys" for key
    using assms that by (auto simp: paths_given_def)
  define f where "f d key name = projr (custom_path (JStr dir) d (getp options key) name)" for d key name
  have "\<exists>p. custom_path (JStr dir) d (getp options key) name = Inr p" if "key \<in> set path_keys" for d key name
    using given [OF that] resolvePath_text [of "getp options key" dir] by (auto simp: custom_path_def)
  then have f: "custom_path (JStr dir) d (getp options key) name = Inr (f d key name)" if "key \<in> set path_keys" for d key name
    using that by (metis f_def sum.sel(2))
  have "js_or (getp options ''runtimeDir'') (JStr DEFAULT_RUNTIME_DIR) \<in> range JStr"
    using given [of "''runtimeDir''"] by (auto simp: js_or_def path_keys_def)
  from resolvePath_text [OF this, of dir] obtain p where
    "resolvePath (JStr dir) (js_or (getp options ''runtimeDir'') (JStr DEFAULT_RUNTIME_DIR)) = Inr p" by blast
  then show ?thesis
    by (simp add: resolveRuntimePaths_def f path_keys_def)
qed

lemma context_exists:
  assumes "adapter_answers c options deps dir" "paths_given options" "files_readable c dir options fs"
  shows "\<exists>cx opts d v. resolve_context c options deps fs = Inr cx \<and> step_lease_options cx = Inr opts \<and>
    readPersisted c (cx_paths cx) fs = Inr d \<and> (truthy d \<longrightarrow> (\<exists>l. getp d ''lifecycle'' = JObj l)) \<and>
    readJson_rt c (stopRequestPath (cx_paths cx)) fs = Inr v"
proof -
  obtain rp where rp: "resolveRuntimePaths (JStr dir) options = Inr rp"
    using runtime_paths_exist [OF assms(2)] by blast
  with assms(3) obtain d v where d: "readPersisted c rp fs = Inr d" "truthy d \<longrightarrow> (\<exists>l. getp d ''lifecycle'' = JObj l)"
      and v: "readJson_rt c (stopRequestPath rp) fs = Inr v"
    unfolding files_readable_def by blast
  obtain adapter repository where a: "resolveAdapter c deps = Inr adapter"
      "(if nullish (dp_repoRoot deps) then fn_or (dp_resolveRepoRootFn deps) (resolveRepoRoot adapter) options
        else Inr (dp_repoRoot deps)) = Inr (JStr dir)"
      "fn_or (dp_resolveRepositoryFn deps) (resolveRepository adapter) options = Inr repository"
      "normalizeText (getp options ''owner'') = [] \<longrightarrow>
         (\<exists>owner. fn_or (dp_resolveOwnerFn deps) (resolveOwner adapter) options = Inr owner)"
    using assms(1) unfolding adapter_answers_def by blast
  obtain owner where ow: "(if normalizeText (getp options ''owner'') \<noteq> []
      then Inr (JStr (normalizeText (getp options ''owner'')))
      else fn_or (dp_resolveOwnerFn deps) (resolveOwner adapter) options) = Inr owner"
    using a(4) by (cases "normalizeText (getp options ''owner'') = []") auto
  obtain st where st: "loadState c repository (JStr dir) rp (now_iso c) owner (adapter_name adapter) fs = Inr st"
    using d(1) by (cases "truthy d") (simp_all add: loadState_def)
  have "\<exists>cx. resolve_context c options deps fs = Inr cx \<and> cx_paths cx = rp \<and> cx_repoRoot cx = JStr dir"
    by (simp add: resolve_context_def a(1-3) ow rp st)
  then obtain cx where cx: "resolve_context c options deps fs = Inr cx" "cx_paths cx = rp" "cx_repoRoot cx = JStr dir"
    by blast
  have "getp options ''leaseRoot'' \<in> {JUndef, JNull} \<union> range JStr"
    using assms(2) by (simp add: paths_given_def path_keys_def)
  then have "\<exists>opts. step_lease_options cx = Inr opts"
    using resolvePath_text [of _ dir] by (auto simp: step_lease_options_def context_options [OF cx(1)] cx(3) Let_def)
  with cx d v show ?thesis by blast
qed

text \<open>
  C26: With an adapter resolveAdapter accepts, whose repo-root hook answers with a text and whose
  repository and owner hooks return, path options that are texts or absent, a persisted state that
  is absent or has a lifecycle object, a stop request that parses or is absent, and lease hooks
  that return on the options the step hands them, each of the four actions returns a report: with
  exit code 10 exactly for a step that did not get the lease, and 0 otherwise.
\<close>

theorem supervisor_returns:
  assumes "adapter_answers c options deps dir" "paths_given options" "files_readable c dir options (files wd)"
    "lease_hooks_return c options deps wd" "getp options ''action'' \<in> JStr ` set ACTIONS"
  shows "\<exists>cx opts lw a wd' rep. resolve_context c options deps (files wd) = Inr cx \<and> step_lease_options cx = Inr opts \<and>
    cx_acquire cx (JObj opts) (lease_world wd) = (lw, Inr a) \<and>
    runRuntimeSupervisor c options deps wd =
      (wd', Inr (if getp options ''action'' = JStr ''step'' \<and> \<not> isLeaseSuccess a then 10 else 0, rep))"
proof -
  obtain cx opts d v where cx: "resolve_context c options deps (files wd) = Inr cx" "step_lease_options cx = Inr opts"
      and d: "readPersisted c (cx_paths cx) (files wd) = Inr d" "truthy d \<longrightarrow> (\<exists>l. getp d ''lifecycle'' = JObj l)"
      and v: "readJson_rt c (stopRequestPath (cx_paths cx)) (files wd) = Inr v"
    using context_exists [OF assms(1-3)] by blast
  obtain lw a where acq: "cx_acquire cx (JObj opts) (lease_world wd) = (lw, Inr a)"
      and rel: "\<forall>i. \<exists>lw' b. cx_release cx (JObj (opts @ [(''leaseId'', i)])) lw = (lw', Inr b)"
    using assms(4) cx unfolding lease_hooks_return_def by blast
  have "getp (cx_options cx) ''action'' \<in> JStr ` set ACTIONS"
    using assms(5) by (simp add: context_options [OF cx(1)])
  from action_returns [OF context_object [OF cx(1) d] this v cx(2) acq] rel obtain wd' rep where
    "run_action c cx wd = (wd', Inr (if getp options ''action'' = JStr ''step'' \<and> \<not> isLeaseSuccess a then 10 else 0, rep))"
    by (auto simp: context_options [OF cx(1)])
  then show ?thesis
    using cx acq by (auto simp: runRuntimeSupervisor_def)
qed

section \<open>Concrete runs\<close>

definition demo_rt_options :: "string \<Rightarrow> jsval" where
  "demo_rt_options a = JObj [(''action'', JStr a), (''owner'', JStr ''a''), (''repo'', JStr ''o/r''),
     (''runtimeDir'', JStr ''/rt''), (''leaseRoot'', JStr ''/l'')]"

definition demo_rt_adapter :: "store raw_adapter" where
  "demo_rt_adapter = \<lparr>raw_name = JUndef, raw_resolveRepoRoot = Function (\<lambda>_. Inr (JStr ''/r'')),
     raw_resolveOwner = Function (\<lambda>_. Inr (JStr ''a'')),
     raw_acquireLease = Function (acquireWriterLease (demo_world 0 (\<lambda>s. s))),
     raw_releaseLease = Function (releaseWriterLease (later 5 (demo_clock 0)) (\<lambda>s. s)),
     raw_planStep = Missing, raw_prepareWorker = Missing, raw_bootstrapWorker = Missing,
     raw_activateWorker = Missing, raw_buildTaskPacket = Missing, raw_executeTurn = NotFunction,
     raw_resolveRepository = Missing\<rparr>"

definition demo_rt_deps :: "store runtime_deps" where
  "demo_rt_deps = \<lparr>dp_adapter = demo_rt_adapter, dp_repoRoot = JUndef, dp_resolveRepoRootFn = None,
     dp_resolveRepositoryFn = None, dp_resolveOwnerFn = None, dp_acquireWriterLeaseFn = None,
     dp_releaseWriterLeaseFn = None\<rparr>"

definition demo_rt_paths :: runtime_paths where
  "demo_rt_paths = \<lparr>runtimeDir = ''/rt'', statePath = ''/rt/delivery-agent-state.json'',
     legacyStatePath = Some ''/rt/runtime-state.json'', eventsPath = ''/rt/runtime-events.ndjson'',
     lanesDir = ''/rt/lanes'', turnsDir = ''/rt/turns'', stopRequestPath = ''/rt/stop-request.json'',
     lastBlockerPath = ''/rt/last-blocker.json''\<rparr>"

lemma demo_rt_resolve: "resolveRuntimePaths (JStr ''/r'') (demo_rt_options a) = Inr demo_rt_paths"
proof -
  have "map (\<lambda>n. path_join [''/rt'', n]) [DEFAULT_STATE_FILENAME, LEGACY_STATE_FILENAME, ''runtime-events.ndjson'',
      ''lanes'', ''turns'', ''stop-request.json'', ''last-blocker.json''] =
    [''/rt/delivery-agent-state.json'', ''/rt/runtime-state.json'', ''/rt/runtime-events.ndjson'', ''/rt/lanes'',
      ''/rt/turns'', ''/rt/stop-request.json'', ''/rt/last-blocker.json'']"
    by code_simp
  then show ?thesis
    by (simp add: resolveRuntimePaths_def demo_rt_options_def custom_path_def resolvePath_def path_is_absolute_def
        demo_rt_paths_def)
qed

lemma demo_rt_absolute:
  "map (\<lambda>p. path_resolve ''/r'' [p]) [''/rt/delivery-agent-state.json'', ''/rt/runtime-state.json'',
      ''/rt/runtime-events.ndjson'', ''/rt/lanes'', ''/rt/turns'', ''/rt/stop-request.json'', ''/rt/last-blocker.json''] =
    [''/rt/delivery-agent-state.json'', ''/rt/runtime-state.json'', ''/rt/runtime-events.ndjson'', ''/rt/lanes'',
      ''/rt/turns'', ''/rt/stop-request.json'', ''/rt/last-blocker.json'']"
  by code_simp

lemma demo_rt_files [simp]:
  "absolute_path (demo_clock t) ''/rt/delivery-agent-state.json'' = ''/rt/delivery-agent-state.json''"
  "absolute_path (demo_clock t) ''/rt/runtime-state.json'' = ''/rt/runtime-state.json''"
  "absolute_path (demo_clock t) ''/rt/runtime-events.ndjson'' = ''/rt/runtime-events.ndjson''"
  "absolute_path (demo_clock t) ''/rt/lanes'' = ''/rt/lanes''"
  "absolute_path (demo_clock t) ''/rt/turns'' = ''/rt/turns''"
  "absolute_path (demo_clock t) ''/rt/stop-request.json'' = ''/rt/stop-request.json''"
  "absolute_path (demo_clock t) ''/rt/last-blocker.json'' = ''/rt/last-blocker.json''"
  using demo_rt_absolute by (simp_all add: absolute_path_def demo_clock_def)

lemma demo_rt_layout: "separate_layout (demo_clock t) demo_rt_paths"
proof -
  have "list_all (\<lambda>p. path_dirname p = ''/rt'') [''/rt/delivery-agent-state.json'', ''/rt/runtime-events.ndjson'',
      ''/rt/stop-request.json'', ''/rt/last-blocker.json'']"
    by code_simp
  then show ?thesis
    by (simp add: separate_layout_def single_files_def demo_rt_paths_def) (simp add: demo_clock_def)
qed

lemma demo_repository: "normalizeText (JStr ''o/r'') = ''o/r''" "normalizeText (JStr ''a'') = ''a''"
  "normalizeText JUndef = []"
  by (code_simp+)

text \<open>The context of a demo run, up to the state that was loaded.\<close>

lemma demo_rt_context:
  assumes "loadState (demo_clock t) (JStr ''o/r'') (JStr ''/r'') demo_rt_paths (now_iso (demo_clock t)) (JStr ''a'')
      ''runtime-adapter'' fs = Inr st"
  shows "\<exists>cx. resolve_context (demo_clock t) (demo_rt_options a) demo_rt_deps fs = Inr cx \<and> cx_paths cx = demo_rt_paths \<and>
    cx_state cx = st \<and> cx_options cx = demo_rt_options a \<and> cx_owner cx = JStr ''a'' \<and> cx_repoRoot cx = JStr ''/r'' \<and>
    cx_acquire cx = acquireWriterLease (demo_world 0 (\<lambda>s. s)) \<and>
    cx_release cx = releaseWriterLease (later 5 (demo_clock 0)) (\<lambda>s. s)"
proof -
  have opts: "getp (demo_rt_options a) ''repo'' = JStr ''o/r''" "getp (demo_rt_options a) ''owner'' = JStr ''a''"
    by (simp_all add: demo_rt_options_def)
  show ?thesis
    using assms
    by (simp add: resolve_context_def resolveAdapter_def createRuntimeAdapter_def demo_rt_deps_def demo_rt_adapter_def
        required_hook_def fn_or_def default_repository_def opts demo_repository demo_rt_resolve Let_def
        del: normalizeText_JStr)
qed

definition demo_lease_fields :: fields where
  "demo_lease_fields = [(''scope'', JStr ''workspace''), (''owner'', JStr ''a''), (''leaseRoot'', JStr ''/l'')]"

lemma demo_step_lease:
  assumes "cx_options cx = demo_rt_options a" "cx_owner cx = JStr ''a''"
  shows "step_lease_options cx = Inr demo_lease_fields"
  using assms
  by (simp add: step_lease_options_def demo_rt_options_def demo_lease_fields_def resolvePath_def path_is_absolute_def
      DEFAULT_LEASE_SCOPE_def)

lemma demo_lease_fields_path: "acquire_path (demo_clock t) (JObj demo_lease_fields) = Inr demo_lease_path"
proof -
  have "leasePathForScope (JStr ''workspace'') ''/l'' = demo_lease_path"
    by code_simp
  then show ?thesis
    by (simp add: acquire_path_def normalizeAcquireOptions_def demo_lease_fields_def)
qed

lemma demo_lease_acquired:
  "\<exists>lw r. acquireWriterLease (demo_world 0 (\<lambda>s. s)) (JObj demo_lease_fields) Map.empty = (lw, Inr r) \<and> isLeaseSuccess r"
  by (simp add: acquireWriterLease_def acquire_loop_Done acquire_attempt_def writeJson_create_def demo_lease_fields_path
      isLeaseSuccess_def Let_def)

lemma demo_lease_owner: "named_owner demo_lease_fields"
  by (simp add: named_owner_def demo_lease_fields_def)

lemma demo_usable_lease: "usable_lease (demo_world t gap) demo_lease_fields"
  by (simp add: usable_lease_def demo_lease_owner)

definition demo_state_doc :: jsval where
  "demo_state_doc = JObj [(''lifecycle'', JObj [(''status'', JStr ''running''), (''cycle'', JInt 4)]),
     (''activeLane'', JStr ''L'')]"

definition demo_state_files :: runtime_files where
  "demo_state_files = [(''/rt/delivery-agent-state.json'', JsonTexts [demo_state_doc])]"

definition demo_stop_files :: runtime_files where
  "demo_stop_files = [(''/rt/stop-request.json'', JsonTexts [JObj [(''reason'', JStr ''r'')]])]"

lemma demo_state_read [simp]:
  "readJson_rt (demo_clock t) ''/rt/delivery-agent-state.json'' demo_state_files = Inr demo_state_doc"
  "readJson_rt (demo_clock t) ''/rt/stop-request.json'' demo_state_files = Inr JNull"
  "readJson_rt (demo_clock t) ''/rt/stop-request.json'' demo_stop_files = Inr (JObj [(''reason'', JStr ''r'')])"
  by (simp_all add: readJson_rt_def demo_state_files_def demo_stop_files_def)

lemma demo_persisted:
  "readPersisted (demo_clock t) demo_rt_paths demo_state_files = Inr demo_state_doc"
  "readPersisted (demo_clock t) demo_rt_paths demo_stop_files = Inr JNull"
  "readPersisted (demo_clock t) demo_rt_paths [] = Inr JNull"
  by (simp_all add: readPersisted_def readJson_rt_def demo_state_files_def demo_stop_files_def demo_rt_paths_def
      demo_state_doc_def)

text \<open>A demo run of any action over files whose state and stop request are as the action needs them.\<close>

lemma demo_context_ready:
  assumes "readPersisted (demo_clock t) demo_rt_paths fs = Inr d" "truthy d \<longrightarrow> (\<exists>l. getp d ''lifecycle'' = JObj l)"
  shows "\<exists>cx. resolve_context (demo_clock t) (demo_rt_options a) demo_rt_deps fs = Inr cx \<and> cx_paths cx = demo_rt_paths \<and>
    lifecycle_object (cx_state cx) \<and> cx_options cx = demo_rt_options a \<and> step_lease_options cx = Inr demo_lease_fields \<and>
    cx_owner cx = JStr ''a'' \<and> cx_acquire cx = acquireWriterLease (demo_world 0 (\<lambda>s. s)) \<and>
    cx_release cx = releaseWriterLease (later 5 (demo_clock 0)) (\<lambda>s. s)"
proof -
  obtain st where st: "loadState (demo_clock t) (JStr ''o/r'') (JStr ''/r'') demo_rt_paths (now_iso (demo_clock t))
      (JStr ''a'') ''runtime-adapter'' fs = Inr st"
    using assms(1) by (cases "truthy d") (simp_all add: loadState_def)
  from demo_rt_context [OF st, of a] obtain cx where
    "resolve_context (demo_clock t) (demo_rt_options a) demo_rt_deps fs = Inr cx" "cx_paths cx = demo_rt_paths"
    "cx_options cx = demo_rt_options a" "cx_owner cx = JStr ''a''"
    "cx_acquire cx = acquireWriterLease (demo_world 0 (\<lambda>s. s))"
    "cx_release cx = releaseWriterLease (later 5 (demo_clock 0)) (\<lambda>s. s)"
    by blast
  moreover from this(1,2) have "lifecycle_object (cx_state cx)"
    using context_object assms by metis
  ultimately show ?thesis
    using demo_step_lease by blast
qed

lemma demo_release_returns:
  assumes "acquireWriterLease (demo_world 0 (\<lambda>s. s)) (JObj demo_lease_fields) Map.empty = (lw, Inr r)" "isLeaseSuccess r"
  shows "\<exists>lw' b. releaseWriterLease (later 5 (demo_clock 0)) (\<lambda>s. s) (JObj (demo_lease_fields @ [(''leaseId'', i)])) lw = (lw', Inr b)"
  using held_released [OF demo_lease_owner acquired_held [OF demo_usable_lease assms]] by simp blast

lemma demo_run_returns:
  assumes "readPersisted (demo_clock t) demo_rt_paths fs = Inr d" "truthy d \<longrightarrow> (\<exists>l. getp d ''lifecycle'' = JObj l)"
    "readJson_rt (demo_clock t) ''/rt/stop-request.json'' fs = Inr v" "a \<in> set ACTIONS"
  shows "\<exists>wd' rep. runRuntimeSupervisor (demo_clock t) (demo_rt_options a) demo_rt_deps
    \<lparr>files = fs, lease_world = Map.empty\<rparr> = (wd', Inr (0, rep))"
proof -
  obtain cx where cx: "resolve_context (demo_clock t) (demo_rt_options a) demo_rt_deps fs = Inr cx" "cx_paths cx = demo_rt_paths"
    "lifecycle_object (cx_state cx)" "cx_options cx = demo_rt_options a" "step_lease_options cx = Inr demo_lease_fields"
    "cx_acquire cx = acquireWriterLease (demo_world 0 (\<lambda>s. s))"
    "cx_release cx = releaseWriterLease (later 5 (demo_clock 0)) (\<lambda>s. s)"
    using demo_context_ready [OF assms(1,2)] by blast
  obtain lw r where r: "acquireWriterLease (demo_world 0 (\<lambda>s. s)) (JObj demo_lease_fields) Map.empty = (lw, Inr r)" "isLeaseSuccess r"
    using demo_lease_acquired by blast
  have "\<exists>wd' rep. run_action (demo_clock t) cx \<lparr>files = fs, lease_world = Map.empty\<rparr> =
    (wd', Inr (if getp (cx_options cx) ''action'' = JStr ''step'' \<and> \<not> isLeaseSuccess r then 10 else 0, rep))"
    using assms(3,4) cx r demo_release_returns [OF r]
    by (intro action_returns [of cx _ _ v demo_lease_fields lw]) (auto simp: demo_rt_options_def demo_rt_paths_def)
  then show ?thesis
    using cx(1) r(2) by (simp add: runRuntimeSupervisor_def)
qed

lemma supervisor_returns_witness:
  "\<exists>wd' code rep. runRuntimeSupervisor (demo_clock 0) (demo_rt_options ''step'') demo_rt_deps
    \<lparr>files = demo_state_files, lease_world = Map.empty\<rparr> = (wd', Inr (code, rep))"
proof -
  have d: "truthy demo_state_doc \<longrightarrow> (\<exists>l. getp demo_state_doc ''lifecycle'' = JObj l)"
    by (simp add: demo_state_doc_def)
  obtain cx where cx: "resolve_context (demo_clock 0) (demo_rt_options ''step'') demo_rt_deps demo_state_files = Inr cx"
    "cx_paths cx = demo_rt_paths" "step_lease_options cx = Inr demo_lease_fields"
    "cx_acquire cx = acquireWriterLease (demo_world 0 (\<lambda>s. s))"
    "cx_release cx = releaseWriterLease (later 5 (demo_clock 0)) (\<lambda>s. s)"
    using demo_context_ready [OF demo_persisted(1) d] by blast
  obtain lw r where r: "acquireWriterLease (demo_world 0 (\<lambda>s. s)) (JObj demo_lease_fields) Map.empty = (lw, Inr r)" "isLeaseSuccess r"
    using demo_lease_acquired by blast
  let ?wd = "\<lparr>files = demo_state_files, lease_world = Map.empty\<rparr> :: store runtime_world"
  have "lease_hooks_return (demo_clock 0) (demo_rt_options ''step'') demo_rt_deps ?wd"
    using cx r demo_release_returns [OF r] by (simp add: lease_hooks_return_def)
  moreover have "files_readable (demo_clock 0) ''/r'' (demo_rt_options ''step'') demo_state_files"
    using demo_persisted(1) d demo_rt_resolve by (simp add: files_readable_def demo_rt_paths_def)
  moreover have "adapter_answers (demo_clock 0) (demo_rt_options ''step'') demo_rt_deps ''/r''"
    using demo_repository
    by (simp add: adapter_answers_def resolveAdapter_def createRuntimeAdapter_def demo_rt_deps_def demo_rt_adapter_def
        required_hook_def fn_or_def default_repository_def demo_rt_options_def Let_def del: normalizeText_JStr)
  moreover have "paths_given (demo_rt_options ''step'')" "getp (demo_rt_options ''step'') ''action'' \<in> JStr ` set ACTIONS"
    by (simp_all add: paths_given_def path_keys_def demo_rt_options_def ACTIONS_def)
  ultimately show ?thesis
    using supervisor_returns [of "demo_clock 0" "demo_rt_options ''step''" demo_rt_deps "''/r''" ?wd] by auto
qed


lemma cycle_counts_leased_steps_witness:
  "\<exists>wd' rep d'. runRuntimeSupervisor (demo_clock 0) (demo_rt_options ''step'') demo_rt_deps
      \<lparr>files = demo_state_files, lease_world = Map.empty\<rparr> = (wd', Inr (0, rep)) \<and>
    readJson_rt (demo_clock 0) (statePath demo_rt_paths) (files wd') = Inr d' \<and> getp2 d' ''lifecycle'' ''cycle'' = JInt 5"
proof -
  have d: "truthy demo_state_doc \<longrightarrow> (\<exists>l. getp demo_state_doc ''lifecycle'' = JObj l)"
    by (simp add: demo_state_doc_def)
  obtain cx where cx: "resolve_context (demo_clock 0) (demo_rt_options ''step'') demo_rt_deps demo_state_files = Inr cx"
    "cx_paths cx = demo_rt_paths"
    using demo_context_ready [OF demo_persisted(1) d] by blast
  obtain wd' rep where run: "runRuntimeSupervisor (demo_clock 0) (demo_rt_options ''step'') demo_rt_deps
      \<lparr>files = demo_state_files, lease_world = Map.empty\<rparr> = (wd', Inr (0, rep))"
    using demo_run_returns [of 0 demo_state_files demo_state_doc JNull "''step''"] d demo_persisted(1) by (auto simp: ACTIONS_def)
  have "getp2 demo_state_doc ''lifecycle'' ''cycle'' = JInt 4" "getp (demo_rt_options ''step'') ''action'' = JStr ''step''"
    "readJson_rt (demo_clock 0) (statePath demo_rt_paths) demo_state_files = Inr demo_state_doc"
    by (simp_all add: demo_state_doc_def demo_rt_options_def demo_rt_paths_def)
  then show ?thesis
    using cycle_counts_leased_steps [of "demo_clock 0" "demo_rt_options ''step''" demo_rt_deps
        "\<lparr>files = demo_state_files, lease_world = Map.empty\<rparr>" cx demo_state_doc 4 wd' 0 rep]
      cx run demo_rt_layout by simp
qed

lemma runtime_summary_accurate_witness:
  "\<exists>wd' d. runtime_step ''/r'' demo_rt_paths ACTIONS \<lparr>files = [], lease_world = Map.empty :: store\<rparr> wd' \<and>
    readJson_rt (demo_clock 0) (statePath demo_rt_paths) (files wd') = Inr d \<and>
    getp2 d ''summary'' ''blockerPresent'' = JBool (file_present (demo_clock 0) (lastBlockerPath demo_rt_paths) (files wd'))"
proof -
  obtain cx where cx: "resolve_context (demo_clock 0) (demo_rt_options ''stop'') demo_rt_deps [] = Inr cx"
    "cx_paths cx = demo_rt_paths" "lifecycle_object (cx_state cx)" "cx_options cx = demo_rt_options ''stop''"
    using demo_context_ready [OF demo_persisted(3), of 0 "''stop''"] by auto
  define wd where "wd = \<lparr>files = [], lease_world = Map.empty :: store\<rparr>"
  obtain wd' rep where run: "runRuntimeSupervisor (demo_clock 0) (demo_rt_options ''stop'') demo_rt_deps wd = (wd', Inr (0, rep))"
    using demo_run_returns [of 0 "[]" JNull JNull "''stop''"] demo_persisted(3)
    by (auto simp: ACTIONS_def wd_def readJson_rt_def)
  have dir: "workingDir (demo_clock 0) = ''/r''"
    by (simp add: demo_clock_def)
  have act: "getp (demo_rt_options ''stop'') ''action'' = JStr ''stop''"
    by (simp add: demo_rt_options_def)
  have step: "runtime_step ''/r'' demo_rt_paths ACTIONS wd wd'"
    using runtime_step.run [OF dir _ _ cx(2) run] cx(1) act by (simp add: ACTIONS_def wd_def)
  obtain fs1 upd st where st: "settled (demo_clock 0) demo_rt_paths st fs1 (files wd')"
    using stop_run [OF _ _ act run, of cx] cx(1,2) demo_rt_layout by (auto simp: wd_def)
  define d where "d = json_norm (finalState (demo_clock 0) demo_rt_paths st (now_iso (demo_clock 0)) fs1)"
  have d: "map_of (files wd') (absolute_path (demo_clock 0) (statePath demo_rt_paths)) = Some (JsonTexts [d])"
    using st by (simp add: settled_def runtime_view_def d_def)
  have "map_of (files wd) (absolute_path (demo_clock 0) (statePath demo_rt_paths)) = None"
    by (simp add: wd_def)
  moreover have "(runtime_step (workingDir (demo_clock 0)) demo_rt_paths ACTIONS)\<^sup>*\<^sup>* wd wd'"
    using step by (simp add: dir)
  ultimately have "getp2 d ''summary'' ''blockerPresent'' = JBool (file_present (demo_clock 0) (lastBlockerPath demo_rt_paths) (files wd'))"
    using runtime_summary_accurate [OF demo_rt_layout _ _ d] by blast
  moreover have "readJson_rt (demo_clock 0) (statePath demo_rt_paths) (files wd') = Inr d"
    using d by (simp add: readJson_rt_def)
  ultimately show ?thesis
    using step unfolding wd_def by blast
qed

lemma stop_blocks_lanes_witness:
  "\<exists>wd' rep. runRuntimeSupervisor (demo_clock 0) (demo_rt_options ''step'') demo_rt_deps
      \<lparr>files = demo_stop_files, lease_world = Map.empty\<rparr> = (wd', Inr (0, rep)) \<and>
    getp rep ''outcome'' = JStr ''stop-requested'' \<and> stop_pending (demo_clock 0) demo_rt_paths (files wd')"
proof -
  define wd where "wd = \<lparr>files = demo_stop_files, lease_world = Map.empty :: store\<rparr>"
  obtain cx where cx: "resolve_context (demo_clock 0) (demo_rt_options ''step'') demo_rt_deps (files wd) = Inr cx"
    "cx_paths cx = demo_rt_paths"
    using demo_context_ready [OF demo_persisted(2), of 0 "''step''"] by (auto simp: wd_def)
  obtain wd' rep where run: "runRuntimeSupervisor (demo_clock 0) (demo_rt_options ''step'') demo_rt_deps wd = (wd', Inr (0, rep))"
    using demo_run_returns [of 0 demo_stop_files JNull _ "''step''"] demo_persisted(2) demo_state_read(3)
    by (auto simp: ACTIONS_def wd_def)
  have "stop_pending (demo_clock 0) demo_rt_paths (files wd)"
    using demo_state_read(3) by (simp add: stop_pending_def demo_rt_paths_def wd_def)
  from stop_blocks_lanes [OF demo_rt_layout this rtranclp.rtrancl_refl cx _ run] run show ?thesis
    by (auto simp: demo_rt_options_def wd_def)
qed

lemma stop_resume_roundtrip_witness:
  "\<exists>wd1 wd2 r1 r2 d2. runRuntimeSupervisor (demo_clock 0) (demo_rt_options ''stop'') demo_rt_deps
      \<lparr>files = demo_state_files, lease_world = Map.empty\<rparr> = (wd1, Inr r1) \<and>
    runRuntimeSupervisor (demo_clock 7) (demo_rt_options ''resume'') demo_rt_deps wd1 = (wd2, Inr r2) \<and>
    readJson_rt (demo_clock 0) (statePath demo_rt_paths) (files wd2) = Inr (JObj d2) \<and>
    getp2 (JObj d2) ''lifecycle'' ''cycle'' = JInt 4 \<and> lookup d2 ''activeLane'' = JStr ''L''"
proof -
  define wd where "wd = \<lparr>files = demo_state_files, lease_world = Map.empty :: store\<rparr>"
  obtain ds where ds: "demo_state_doc = JObj ds" "lookup ds ''activeLane'' = JStr ''L''"
    by (simp add: demo_state_doc_def)
  have d: "truthy demo_state_doc \<longrightarrow> (\<exists>l. getp demo_state_doc ''lifecycle'' = JObj l)"
    by (simp add: demo_state_doc_def)
  have read: "readJson_rt (demo_clock 0) (statePath demo_rt_paths) (files wd) = Inr (JObj ds)"
    using ds(1) demo_state_read(1) by (simp add: wd_def demo_rt_paths_def)
  have cyc: "getp2 (JObj ds) ''lifecycle'' ''cycle'' = JInt 4"
    using ds(1) by (auto simp: demo_state_doc_def)
  obtain cx1 where cx1: "resolve_context (demo_clock 0) (demo_rt_options ''stop'') demo_rt_deps (files wd) = Inr cx1"
    "cx_paths cx1 = demo_rt_paths"
    using demo_context_ready [OF demo_persisted(1) d, of 0 "''stop''"] by (auto simp: wd_def)
  obtain wd1 r1 where run1: "runRuntimeSupervisor (demo_clock 0) (demo_rt_options ''stop'') demo_rt_deps wd = (wd1, Inr r1)"
    using demo_run_returns [of 0 demo_state_files demo_state_doc JNull "''stop''"] demo_persisted(1) d
    by (auto simp: ACTIONS_def wd_def)
  have stop: "getp (demo_rt_options ''stop'') ''action'' = JStr ''stop''"
    and resume: "getp (demo_rt_options ''resume'') ''action'' = JStr ''resume''"
    by (simp_all add: demo_rt_options_def)
  have dir: "workingDir (demo_clock 7) = workingDir (demo_clock 0)"
    by (simp add: demo_clock_def)
  obtain fs1 upd st where st: "set_lifecycle upd (cx_state cx1) = Inr st" "''cycle'' \<notin> set (map fst upd)"
      "settled (demo_clock 0) demo_rt_paths st fs1 (files wd1)"
    using stop_run [OF cx1(1) _ stop run1] cx1(2) demo_rt_layout by auto
  obtain d1 where d1: "readJson_rt (demo_clock 0) (statePath demo_rt_paths) (files wd1) = Inr d1"
      "getp2 d1 ''lifecycle'' ''cycle'' = JInt 4"
    using settled_set_cycle [OF st(1,3) _ st(2)] context_cycle [OF cx1(1)] read cyc cx1(2) by metis
  obtain e1 where e1: "d1 = JObj e1" "\<exists>l. getp d1 ''lifecycle'' = JObj l"
    using object_of_field [of d1 "''lifecycle''"] object_of_field [of "getp d1 ''lifecycle''" "''cycle''"] d1(2) by fastforce
  then have "readPersisted (demo_clock 7) demo_rt_paths (files wd1) = Inr d1"
    using d1(1) by (simp add: readPersisted_def same_dir(3) [OF dir] demo_rt_paths_def)
  with e1 obtain cx2 where cx2: "resolve_context (demo_clock 7) (demo_rt_options ''resume'') demo_rt_deps (files wd1) = Inr cx2"
    "cx_paths cx2 = demo_rt_paths" "lifecycle_object (cx_state cx2)" "cx_options cx2 = demo_rt_options ''resume''"
    using demo_context_ready by blast
  obtain wd2 r2 where run2: "runRuntimeSupervisor (demo_clock 7) (demo_rt_options ''resume'') demo_rt_deps wd1 = (wd2, Inr r2)"
    using resume_returns [OF cx2(3), of "demo_clock 7" "files wd1"] cx2(1,4) resume
    by (auto simp: runRuntimeSupervisor_def run_action_def on_files_def)
  obtain d2 where d2: "readJson_rt (demo_clock 0) (statePath demo_rt_paths) (files wd2) = Inr (JObj d2)"
      "getp2 (JObj d2) ''lifecycle'' ''cycle'' = JInt 4"
      "\<forall>k. k \<notin> set rewritten_fields \<and> lookup ds k \<noteq> JUndef \<longrightarrow> lookup d2 k = json_norm (lookup ds k)"
    using stop_resume_roundtrip [OF demo_rt_layout read cyc cx1 stop run1 dir cx2(1,2) resume run2] by blast
  have "''activeLane'' \<notin> set rewritten_fields"
    by (simp add: rewritten_fields_def)
  then have "lookup d2 ''activeLane'' = JStr ''L''"
    using d2(3) ds(2) by simp
  then show ?thesis
    using d2(1,2) run1 run2 unfolding wd_def by blast
qed

lemma worker_slots_dropped_witness:
  "getp2 (buildActiveLaneSummary (buildLaneRecord (JObj [(''lane'', JStr ''l''),
      (''worker'', JObj [(''slotId'', JStr ''worker-slot-1'')])]) [])) ''worker'' ''slotId'' \<in> {JNull, JUndef}"
  using worker_slots_dropped [of "''slotId''" "''worker''"] by (simp add: slot_fields_def)

lemma runtime_args_typed_witness:
  "\<exists>options. parseArgs_rt [''--action'', ''step'', ''--quiet''] = Inr options \<and> options_typed options"
proof -
  have "to_lower (normalizeText (JStr ''step'')) = ''step''" "to_lower (normalizeText (JStr [])) = []"
    by (code_simp+)
  then have "runtime_option ''--action'' ''step'' = Some (''action'', Inr (JStr ''step''))"
    "runtime_option ''--action'' [] = Some (''action'', Inr (JStr []))"
    by (simp_all add: runtime_option_def runtime_text_options_def runtime_lower_options_def del: normalizeText_JStr)
  then obtain options where "parseArgs_rt [''--action'', ''step'', ''--quiet''] = Inr options"
    by (simp add: parseArgs_rt_def runtime_defaults_def ACTIONS_def BLOCKER_CLASSES_def)
  then show ?thesis
    using runtime_args_typed by blast
qed

end
