(* ===== verification/IdleAuthority.thy ===== *)
theory IdleAuthority
  imports LaneHelpers
begin

text \<open>
  Whether the current cycle is idle (\<^verbatim>\<open>tools/priority/lib/current-cycle-idle-authority.mjs\<close>): the state
  document of the delivery agent, the heartbeat of the observer, or both say that the queue is empty
  and nothing runs, and they are fresh.  A \<^verbatim>\<open>Date\<close> is its time value.
\<close>

section \<open>Times\<close>

definition DEFAULT_IDLE_AUTHORITY_FRESH_SECONDS :: jsnum where
  "DEFAULT_IDLE_AUTHORITY_FRESH_SECONDS = Fin (6 * 60 * 60)"

definition asOptional :: "jsval \<Rightarrow> jsval" where
  "asOptional v =
     (if nullish v then JNull else let normalized = trim (js_string v) in if normalized \<noteq> [] then JStr normalized else JNull)"

definition parseDate :: "jsval \<Rightarrow> jsnum option" where
  "parseDate v =
     (case v of
        JStr s \<Rightarrow> (let parsed = date_parse s in if s \<noteq> [] \<and> num_finite parsed then Some parsed else None)
      | _ \<Rightarrow> None)"

definition newestDate :: "jsnum option list \<Rightarrow> jsnum option" where
  "newestDate vs =
     (case sort_by (\<lambda>l r. \<not> num_gt (num_sub r l) (Fin 0)) (map the (filter (\<lambda>v. v \<noteq> None) vs)) of
        [] \<Rightarrow> None
      | t # _ \<Rightarrow> Some t)"

definition toIso :: "jsnum option \<Rightarrow> jsval" where
  "toIso t = (case t of None \<Rightarrow> JNull | Some x \<Rightarrow> JStr (iso_of_num x))"

text \<open>\<^verbatim>\<open>Math.round\<close>: the nearest integer, halves upwards.\<close>

definition num_round :: "jsnum \<Rightarrow> jsnum" where
  "num_round n = num_floor (num_add n (Fin (1 / 2)))"

definition ageSeconds_ia :: "jsnum option \<Rightarrow> int \<Rightarrow> jsnum option" where
  "ageSeconds_ia referenceDate now =
     (case referenceDate of
        None \<Rightarrow> None
      | Some t \<Rightarrow> Some (num_max (Fin 0) (num_round (num_div (num_sub (num_of_int now) t) (Fin 1000)))))"

definition fresh_within :: "jsnum \<Rightarrow> jsnum option \<Rightarrow> bool" where
  "fresh_within threshold age = (case age of None \<Rightarrow> False | Some a \<Rightarrow> num_le a threshold)"

section \<open>The two signals\<close>

record idle_signal =
  ig_observedAt :: "jsnum option"
  ig_ageSeconds :: "jsnum option"
  ig_fresh :: bool
  ig_qualifies :: bool
  ig_nextWakeCondition :: jsval
  ig_syntheticIdle :: bool

definition object_or_null :: "jsval \<Rightarrow> jsval" where
  "object_or_null v = (if truthy v \<and> typeof_object v then v else JNull)"

definition says :: "jsval \<Rightarrow> string \<Rightarrow> bool" where
  "says v s \<longleftrightarrow> asOptional v = JStr s"

definition normalizeDeliveryIdleSignal :: "jsval \<Rightarrow> int \<Rightarrow> jsnum \<Rightarrow> idle_signal" where
  "normalizeDeliveryIdleSignal deliveryRuntimeState now threshold =
     (let payload = object_or_null deliveryRuntimeState;
          activeLane = object_or_null (getp payload ''activeLane'');
          observedAt = newestDate [parseDate (getp payload ''generatedAt''), parseDate (getp activeLane ''generatedAt''),
            parseDate (getp2 payload ''lifecycle'' ''updatedAt'')];
          age = ageSeconds_ia observedAt now;
          queueEmpty =
            (getp payload ''derivedFromQueueEmptyState'' = JBool True \<or>
             says (getp2 payload ''queueState'' ''status'') ''queue-empty'' \<or>
             says (getp2 payload ''queueState'' ''reason'') ''queue-empty'' \<or>
             says (getp activeLane ''outcome'') ''queue-empty'' \<or>
             says (getp activeLane ''reason'') ''queue-empty'' \<or>
             says (getp activeLane ''actionType'') ''monitoring-idle'' \<or>
             says (getp activeLane ''laneId'') ''queue-empty-monitoring'');
          idle = (says (getp payload ''status'') ''idle'' \<and> says (getp payload ''laneLifecycle'') ''idle'')
      in \<lparr>ig_observedAt = observedAt, ig_ageSeconds = age, ig_fresh = fresh_within threshold age,
          ig_qualifies = (queueEmpty \<and> idle), ig_nextWakeCondition = asOptional (getp activeLane ''nextWakeCondition''),
          ig_syntheticIdle = (getp payload ''derivedFromQueueEmptyState'' = JBool True \<or>
            getp activeLane ''syntheticIdle'' = JBool True)\<rparr>)"

definition normalizeObserverIdleSignal :: "jsval \<Rightarrow> int \<Rightarrow> jsnum \<Rightarrow> idle_signal" where
  "normalizeObserverIdleSignal observerHeartbeat now threshold =
     (let payload = object_or_null observerHeartbeat;
          activeLane = object_or_null (getp payload ''activeLane'');
          details = object_or_null (getp2 activeLane ''execution'' ''details'');
          observedAt = newestDate [parseDate (getp payload ''generatedAt''), parseDate (getp activeLane ''generatedAt''),
            parseDate (getp2 activeLane ''execution'' ''generatedAt'')];
          age = ageSeconds_ia observedAt now;
          queueEmpty =
            (says (getp payload ''outcome'') ''queue-empty'' \<or>
             says (getp details ''actionType'') ''monitoring-idle'' \<or>
             (says (getp details ''laneLifecycle'') ''idle'' \<and> says (getp details ''blockerClass'') ''none'' \<and>
              activeLane = JNull));
          idle = (says (getp payload ''outcome'') ''queue-empty'' \<or> activeLane = JNull \<or>
             says (getp details ''laneLifecycle'') ''idle'')
      in \<lparr>ig_observedAt = observedAt, ig_ageSeconds = age, ig_fresh = fresh_within threshold age,
          ig_qualifies = (queueEmpty \<and> idle),
          ig_nextWakeCondition = js_or (asOptional (getp activeLane ''nextWakeCondition''))
            (asOptional (getp details ''nextWakeCondition'')),
          ig_syntheticIdle = (activeLane = JNull)\<rparr>)"

section \<open>The verdict\<close>

definition signal_observed :: "idle_signal \<Rightarrow> bool" where
  "signal_observed s \<longleftrightarrow> ig_qualifies s \<and> ig_fresh s"

definition idle_source :: "bool \<Rightarrow> bool \<Rightarrow> jsval" where
  "idle_source deliveryObserved observerObserved =
     (if deliveryObserved \<and> observerObserved then JStr ''delivery-and-observer''
      else if deliveryObserved then JStr ''delivery-agent-state''
      else if observerObserved then JStr ''observer-heartbeat'' else JNull)"

definition deriveCurrentCycleIdleAuthority :: "jsval \<Rightarrow> jsval \<Rightarrow> int \<Rightarrow> jsnum \<Rightarrow> jsval" where
  "deriveCurrentCycleIdleAuthority deliveryRuntimeState observerHeartbeat now threshold =
     (let delivery = normalizeDeliveryIdleSignal deliveryRuntimeState now threshold;
          observer = normalizeObserverIdleSignal observerHeartbeat now threshold;
          deliveryObserved = signal_observed delivery;
          observerObserved = signal_observed observer;
          observed = (deliveryObserved \<or> observerObserved)
      in JObj [(''status'', JStr (if observed then ''observed'' else ''missing'')),
           (''source'', idle_source deliveryObserved observerObserved),
           (''observedAt'', toIso (newestDate [if deliveryObserved then ig_observedAt delivery else None,
              if observerObserved then ig_observedAt observer else None])),
           (''fresh'', JBool observed), (''freshnessThresholdSeconds'', JNum threshold),
           (''nextWakeCondition'', js_or (if deliveryObserved then ig_nextWakeCondition delivery else JNull)
              (if observerObserved then ig_nextWakeCondition observer else JNull)),
           (''syntheticIdle'', JBool (ig_syntheticIdle delivery \<or> ig_syntheticIdle observer)),
           (''queueState'', if observed then JStr ''queue-empty'' else JNull),
           (''deliveryStateObservedAt'', toIso (ig_observedAt delivery)),
           (''deliveryStateFresh'', JBool (ig_fresh delivery)),
           (''observerHeartbeatObservedAt'', toIso (ig_observedAt observer)),
           (''observerHeartbeatFresh'', JBool (ig_fresh observer))])"

section \<open>What an observed idle cycle rests on\<close>

lemma newest_member: "newestDate vs = Some t \<Longrightarrow> Some t \<in> set vs"
proof -
  assume n: "newestDate vs = Some t"
  let ?order = "\<lambda>l r. \<not> num_gt (num_sub r l) (Fin 0)"
  let ?ts = "map the (filter (\<lambda>v. v \<noteq> None) vs)"
  from n obtain ts where "sort_by ?order ?ts = t # ts"
    by (auto simp: newestDate_def split: list.splits)
  then have "t \<in> set (sort_by ?order ?ts)"
    by (metis list.set_intros(1))
  then show ?thesis
    by auto
qed

lemma fresh_age:
  assumes "fresh_within (Fin threshold) (ageSeconds_ia (Some (Fin r)) now)"
  shows "of_int now - r < (threshold + 1 / 2) * 1000"
proof -
  let ?age = "(of_int now - r) / 1000 + 1 / 2"
  define f where "f = \<lfloor>?age\<rfloor>"
  have "ageSeconds_ia (Some (Fin r)) now = Some (num_max (Fin 0) (Fin (of_int f)))"
    by (simp add: ageSeconds_ia_def num_round_def num_sub_def f_def)
  with assms have "of_int f \<le> threshold"
    by (auto simp: fresh_within_def num_le_def num_max_def split: if_splits)
  then have "?age < threshold + 1"
    unfolding f_def by linarith
  then show ?thesis
    by (simp add: field_simps)
qed

lemma parseDate_finite: "parseDate v = Some t \<Longrightarrow> \<exists>r. t = Fin r"
  by (cases t) (auto simp: parseDate_def Let_def split: jsval.splits if_splits)

text \<open>The stamps a delivery signal may take its time from.\<close>

definition idle_stamps :: "jsval \<Rightarrow> jsnum option set" where
  "idle_stamps doc = {parseDate (getp doc ''generatedAt''), parseDate (getp2 doc ''activeLane'' ''generatedAt''),
     parseDate (getp2 doc ''lifecycle'' ''updatedAt'')}"

lemma object_or_null_cases: "object_or_null v = v \<or> object_or_null v = JNull"
  by (simp add: object_or_null_def)

lemma getp_object_or_null: "getp (object_or_null v) k = getp v k"
  by (cases v) (auto simp: object_or_null_def typeof_object_def)

lemma observer_silent: "\<not> ig_qualifies (normalizeObserverIdleSignal JNull now threshold)"
  by (simp add: normalizeObserverIdleSignal_def object_or_null_def says_def asOptional_def Let_def)

text \<open>Without a heartbeat the cycle is idle only when the state document says so and is fresh.\<close>

lemma delivery_observed:
  assumes "getp (deriveCurrentCycleIdleAuthority doc JNull now (Fin threshold)) ''status'' = JStr ''observed''"
  shows "says (getp doc ''status'') ''idle'' \<and> says (getp doc ''laneLifecycle'') ''idle'' \<and>
    (\<exists>r. Some (Fin r) \<in> idle_stamps doc \<and> of_int now - r < (threshold + 1 / 2) * 1000)"
proof -
  let ?s = "normalizeDeliveryIdleSignal doc now (Fin threshold)"
  have s: "ig_qualifies ?s" "ig_fresh ?s"
    using assms observer_silent [of now "Fin threshold"]
    by (auto simp: deriveCurrentCycleIdleAuthority_def Let_def signal_observed_def split: if_splits)
  obtain t where t: "ig_observedAt ?s = Some t" "fresh_within (Fin threshold) (ageSeconds_ia (Some t) now)"
    using s(2) by (auto simp: normalizeDeliveryIdleSignal_def Let_def fresh_within_def ageSeconds_ia_def split: option.splits)
  have "Some t \<in> idle_stamps doc"
    using t(1) newest_member
    by (fastforce simp: normalizeDeliveryIdleSignal_def Let_def idle_stamps_def getp_object_or_null)
  moreover from this obtain r where "t = Fin r"
    using parseDate_finite by (fastforce simp: idle_stamps_def)
  ultimately show ?thesis
    using s(1) t(2) fresh_age
    by (auto simp: normalizeDeliveryIdleSignal_def Let_def getp_object_or_null)
qed

end
