(* ===== verification/RuntimeObserver.thy ===== *)
theory RuntimeObserver
  imports RuntimeHarness
begin

text \<open>
  The observer daemon of \<^verbatim>\<open>packages/runtime-harness/observer.mjs\<close>: a loop that asks the scheduler for
  a lane, lets the adapter prepare a worker for it, runs one leased step of the harness (theory
  RuntimeHarness), optionally executes the turn, and writes a heartbeat.  The adapter's hooks are
  parameters: they get their context as a value and act on the leases' world, and an override given
  beside the adapter may act on the runtime files as well.
\<close>

section \<open>Text, paths and the event log\<close>

definition OBSERVER_REPORT_SCHEMA :: string where
  "OBSERVER_REPORT_SCHEMA = ''priority/runtime-observer-report@v1''"

definition OBSERVER_HEARTBEAT_SCHEMA :: string where
  "OBSERVER_HEARTBEAT_SCHEMA = ''priority/runtime-observer-heartbeat@v1''"

definition DEFAULT_POLL_INTERVAL_SECONDS :: jsnum where
  "DEFAULT_POLL_INTERVAL_SECONDS = Fin 60"

definition SCHEDULER_DECISION_OUTCOMES :: "string list" where
  "SCHEDULER_DECISION_OUTCOMES = [''selected'', ''idle'', ''blocked'']"

definition SCHEDULER_STEP_OPTION_KEYS :: "string list" where
  "SCHEDULER_STEP_OPTION_KEYS =
     [''lane'', ''issue'', ''epic'', ''forkRemote'', ''branch'', ''prUrl'', ''blockerClass'', ''reason'']"

definition toPositiveInteger_ob :: "jsval \<Rightarrow> string \<Rightarrow> bool \<Rightarrow> jsval result" where
  "toPositiveInteger_ob v label allowZero =
     (if nullish v then Inr JNull
      else
        (let number = js_number v; minimum = (if allowZero then Fin 0 else Fin 1)
         in if \<not> num_integer number \<or> num_lt number minimum
            then Inl (ErrorMsg (''Invalid '' @ label @ '' value '' @ quoted (js_string v) @ ''.''))
            else Inr (JNum number)))"

definition coercePositiveInteger :: "jsval \<Rightarrow> jsval" where
  "coercePositiveInteger v =
     (if nullish v \<or> v = JStr [] then JNull
      else if num_integer (js_number v) \<and> num_gt (js_number v) (Fin 0) then JNum (js_number v) else JNull)"

text \<open>A valid ISO text, an integer cycle: the name of a history file.\<close>

definition makeDecisionFileName :: "string \<Rightarrow> jsval \<Rightarrow> string" where
  "makeDecisionFileName stampIso cycle =
     map (\<lambda>ch. if ch = CHR '':'' \<or> ch = CHR ''.'' then CHR ''-'' else ch) stampIso @
     ''-'' @ pad_start 4 (CHR ''0'') (js_string cycle) @ ''.json''"

record observer_paths =
  op_heartbeat :: string
  op_runtimeDir :: string
  op_schedulerLatest :: string
  op_schedulerHistory :: string
  op_workerLatest :: string
  op_workersDir :: string
  op_readyLatest :: string
  op_readyDir :: string
  op_branchLatest :: string
  op_branchDir :: string
  op_packetLatest :: string
  op_packetHistory :: string
  op_executionLatest :: string
  op_executionHistory :: string

definition resolveObserverPaths :: "jsval \<Rightarrow> jsval \<Rightarrow> observer_paths result" where
  "resolveObserverPaths options repoRoot =
     bindE (resolvePath repoRoot (js_or (getp options ''runtimeDir'') (JStr DEFAULT_RUNTIME_DIR))) (\<lambda>dir.
     bindE (custom_path repoRoot dir (getp options ''heartbeatPath'') ''observer-heartbeat.json'') (\<lambda>heartbeat.
     bindE (custom_path repoRoot dir (getp options ''schedulerDecisionPath'') ''scheduler-decision.json'') (\<lambda>decision.
     bindE (custom_path repoRoot dir (getp options ''schedulerDecisionsDir'') ''scheduler-decisions'') (\<lambda>decisions.
       Inr \<lparr>op_heartbeat = heartbeat, op_runtimeDir = dir,
            op_schedulerLatest = decision, op_schedulerHistory = decisions,
            op_workerLatest = path_join [dir, ''worker-checkout.json''], op_workersDir = path_join [dir, ''workers''],
            op_readyLatest = path_join [dir, ''worker-ready.json''], op_readyDir = path_join [dir, ''workers-ready''],
            op_branchLatest = path_join [dir, ''worker-branch.json''], op_branchDir = path_join [dir, ''workers-branch''],
            op_packetLatest = path_join [dir, ''task-packet.json''], op_packetHistory = path_join [dir, ''task-packets''],
            op_executionLatest = path_join [dir, ''execution-receipt.json''],
            op_executionHistory = path_join [dir, ''execution-receipts'']\<rparr>))))"

text \<open>Where the observer looks for the harness's own files: always under the runtime directory.\<close>

definition ob_statePath :: "observer_paths \<Rightarrow> string" where
  "ob_statePath op = path_join [op_runtimeDir op, DEFAULT_STATE_FILENAME]"

definition ob_eventsPath :: "observer_paths \<Rightarrow> string" where
  "ob_eventsPath op = path_join [op_runtimeDir op, ''runtime-events.ndjson'']"

definition ob_stopRequestPath :: "observer_paths \<Rightarrow> string" where
  "ob_stopRequestPath op = path_join [op_runtimeDir op, ''stop-request.json'']"

text \<open>\<^verbatim>\<open>JSON.stringify\<close> without indentation, and the number of bytes of a text in UTF-8.\<close>

definition hex_digit :: "nat \<Rightarrow> char" where
  "hex_digit n = (if n < 10 then char_of (48 + n) else char_of (87 + n))"

definition json_char :: "char \<Rightarrow> string" where
  "json_char ch =
     (let n = of_char ch :: nat; back = CHR 0x5C
      in if n = 34 \<or> n = 92 then [back, ch]
         else if n = 8 then [back, CHR ''b''] else if n = 9 then [back, CHR ''t'']
         else if n = 10 then [back, CHR ''n''] else if n = 12 then [back, CHR ''f'']
         else if n = 13 then [back, CHR ''r'']
         else if n < 32 then [back, CHR ''u'', CHR ''0'', CHR ''0'', hex_digit (n div 16), hex_digit (n mod 16)]
         else [ch])"

definition json_string :: "string \<Rightarrow> string" where
  "json_string s = [CHR 0x22] @ concat (map json_char s) @ [CHR 0x22]"

fun json_text :: "jsval \<Rightarrow> string" where
  "json_text JUndef = ''null''"
| "json_text JNull = ''null''"
| "json_text (JBool b) = (if b then ''true'' else ''false'')"
| "json_text (JNum n) = (if num_finite n then num_to_string n else ''null'')"
| "json_text (JStr s) = json_string s"
| "json_text (JArr xs) = ''['' @ join_with '','' (map json_text xs) @ '']''"
| "json_text (JObj kvs) =
     ''{'' @ join_with '','' (map (\<lambda>(k, v). json_string k @ '':'' @ json_text v) (filter (\<lambda>(k, v). v \<noteq> JUndef) kvs)) @ ''}''"

definition utf8_length :: "string \<Rightarrow> nat" where
  "utf8_length s = sum_list (map (\<lambda>ch. if (of_char ch :: nat) < 128 then 1 else 2) s)"

definition line_bytes :: "jsval \<Rightarrow> nat" where
  "line_bytes v = utf8_length (json_text v) + 1"

definition log_bytes :: "jsval list \<Rightarrow> nat" where
  "log_bytes vs = sum_list (map line_bytes vs)"

definition DEFAULT_RECENT_EVENTS_LIMIT :: nat where
  "DEFAULT_RECENT_EVENTS_LIMIT = 5"

definition MAX_RECENT_EVENTS_BYTES :: nat where
  "MAX_RECENT_EVENTS_BYTES = 64 * 1024"

text \<open>
  The last events of the log.  A log of more bytes than the window is read from its end, and the
  text before the first line break of the window is dropped, so a line survives when the break
  before it lies within the window.  The log is one JSON text per line, as \<^verbatim>\<open>appendNdjson\<close> leaves it.
\<close>

definition whole_lines :: "nat \<Rightarrow> jsval list \<Rightarrow> jsval list" where
  "whole_lines window vs =
     (if log_bytes vs \<le> window then vs
      else hd (filter (\<lambda>ws. ws = [] \<or> log_bytes ws < window)
                 (map (\<lambda>n. drop n vs) [0..<Suc (length vs)])))"

definition readRecentEvents :: "process \<Rightarrow> string \<Rightarrow> nat \<Rightarrow> runtime_files \<Rightarrow> jsval list" where
  "readRecentEvents c p limit fs =
     (case map_of fs (absolute_path c p) of
        Some (JsonTexts vs) \<Rightarrow>
          (let events = whole_lines MAX_RECENT_EVENTS_BYTES vs in drop (length events - limit) events)
      | _ \<Rightarrow> [])"

section \<open>Step options and scheduler decisions\<close>

definition text_entry :: "jsval \<Rightarrow> string \<Rightarrow> fields" where
  "text_entry v k = (let n = normalizeText (getp v k) in if n = [] then [] else [(k, JStr n)])"

definition integer_entry :: "jsval \<Rightarrow> string \<Rightarrow> fields" where
  "integer_entry v k = (let n = coercePositiveInteger (getp v k) in if n = JNull then [] else [(k, n)])"

definition normalizeStepOptions :: "jsval \<Rightarrow> jsval" where
  "normalizeStepOptions v =
     (let blockerClass = to_lower (normalizeText (getp v ''blockerClass''))
      in JObj (text_entry v ''lane'' @ integer_entry v ''issue'' @ integer_entry v ''epic'' @
           text_entry v ''forkRemote'' @ text_entry v ''branch'' @ text_entry v ''prUrl'' @
           (if blockerClass \<in> set BLOCKER_CLASSES then [(''blockerClass'', JStr blockerClass)] else []) @
           (if nullish (getp v ''reason'') then [] else [(''reason'', JStr (js_string (getp v ''reason'')))])))"

definition hasStepContext :: "jsval \<Rightarrow> bool" where
  "hasStepContext v =
     (normalizeText (getp v ''lane'') \<noteq> [] \<or> coercePositiveInteger (getp v ''issue'') \<noteq> JNull \<or>
      coercePositiveInteger (getp v ''epic'') \<noteq> JNull \<or> normalizeText (getp v ''forkRemote'') \<noteq> [] \<or>
      normalizeText (getp v ''branch'') \<noteq> [] \<or> normalizeText (getp v ''prUrl'') \<noteq> [])"

definition summarizeStepOptions :: "jsval \<Rightarrow> jsval" where
  "summarizeStepOptions v =
     (if \<not> hasStepContext v then JNull
      else
        (let issue = coercePositiveInteger (getp v ''issue''); forkRemote = toOptionalText (getp v ''forkRemote'');
             laneId = js_or (JStr (normalizeText (getp v ''lane'')))
               (js_or (JStr (join_with ''-'' (map js_string (filter truthy [forkRemote, issue]))))
                  (JStr (''lane-'' @ sanitizeSegment (js_or (getp v ''branch'') (JStr ''active'')))))
         in JObj
           [(''laneId'', laneId), (''issue'', issue), (''epic'', coercePositiveInteger (getp v ''epic'')),
            (''forkRemote'', forkRemote), (''branch'', toOptionalText (getp v ''branch'')),
            (''prUrl'', toOptionalText (getp v ''prUrl'')),
            (''blockerClass'', JStr (lower_or ''none'' (getp v ''blockerClass'')))]))"

definition extractExplicitStepOptions :: "jsval \<Rightarrow> jsval" where
  "extractExplicitStepOptions options =
     normalizeStepOptions (JObj (map (\<lambda>k. (k, getp options k)) SCHEDULER_STEP_OPTION_KEYS))"

definition decision_outcome :: "jsval \<Rightarrow> jsval \<Rightarrow> string" where
  "decision_outcome rawDecision stepOptions =
     (let asked = to_lower (normalizeText (getp rawDecision ''outcome''));
          outcome = (if asked \<notin> set SCHEDULER_DECISION_OUTCOMES
                     then (if hasStepContext stepOptions then ''selected'' else ''idle'') else asked)
      in if outcome = ''selected'' \<and> \<not> hasStepContext stepOptions then ''idle'' else outcome)"

definition buildSchedulerDecision :: "jsval \<Rightarrow> string \<Rightarrow> nat \<Rightarrow> string \<Rightarrow> jsval \<Rightarrow> jsval" where
  "buildSchedulerDecision rawDecision nowIso cycle adapterName repository =
     (let stepOptions = normalizeStepOptions (js_or (getp rawDecision ''stepOptions'') (JObj []))
      in JObj
        [(''schema'', JStr ''priority/runtime-scheduler-decision@v1''), (''generatedAt'', JStr nowIso),
         (''cycle'', JInt (int cycle)), (''runtimeAdapter'', JStr adapterName), (''repository'', repository),
         (''source'', text_or ''runtime-harness'' (getp rawDecision ''source'')),
         (''outcome'', JStr (decision_outcome rawDecision stepOptions)),
         (''reason'', toOptionalText (getp rawDecision ''reason'')),
         (''stepOptions'', if hasStepContext stepOptions then stepOptions else JNull),
         (''activeLane'', summarizeStepOptions stepOptions),
         (''artifacts'', object_or_empty (getp rawDecision ''artifacts''))])"

text \<open>The decision without a scheduler: the lane of the command line, if it names one.\<close>

definition manual_decision :: "jsval \<Rightarrow> jsval" where
  "manual_decision explicitStepOptions =
     (let given = hasStepContext explicitStepOptions
      in JObj
        [(''source'', JStr ''manual''), (''outcome'', JStr (if given then ''selected'' else ''idle'')),
         (''reason'', JStr (if given then ''using explicit observer lane input''
                            else ''no scheduler hook and no explicit observer lane input'')),
         (''stepOptions'', explicitStepOptions)])"

definition buildWorkerStepOptions :: "jsval \<Rightarrow> jsval \<Rightarrow> fields" where
  "buildWorkerStepOptions options decision =
     (let kept = filter (\<lambda>(k, v). k \<notin> set SCHEDULER_STEP_OPTION_KEYS) (spread options)
      in if truthy (getp decision ''stepOptions'') then override kept (spread (getp decision ''stepOptions'')) else kept)"

type_synonym stored_paths = "jsval \<times> jsval"

abbreviation no_artifacts :: stored_paths where
  "no_artifacts \<equiv> (JNull, JNull)"

definition buildDecisionSummary :: "jsval \<Rightarrow> stored_paths \<Rightarrow> jsval" where
  "buildDecisionSummary decision artifacts = JObj
     [(''source'', getp decision ''source''), (''outcome'', getp decision ''outcome''),
      (''reason'', getp decision ''reason''), (''activeLane'', getp decision ''activeLane''),
      (''latestPath'', fst artifacts), (''historyPath'', snd artifacts)]"

definition history_file :: "string \<Rightarrow> jsval \<Rightarrow> jsval \<Rightarrow> string" where
  "history_file dir generatedAt cycle =
     path_join [dir, makeDecisionFileName (iso_of_num (date_of_value generatedAt)) cycle]"

definition writeSchedulerDecision ::
  "process \<Rightarrow> observer_paths \<Rightarrow> jsval \<Rightarrow> runtime_files \<Rightarrow> runtime_files \<times> stored_paths" where
  "writeSchedulerDecision c op decision fs =
     (let historyPath = history_file (op_schedulerHistory op) (getp decision ''generatedAt'') (getp decision ''cycle'')
      in (writeJson_rt c historyPath decision (writeJson_rt c (op_schedulerLatest op) decision fs),
          (JStr (op_schedulerLatest op), JStr historyPath)))"

section \<open>Worker records\<close>

abbreviation lane_part :: "jsval \<Rightarrow> string \<Rightarrow> jsval" where
  "lane_part decision k \<equiv> getp2 decision ''activeLane'' k"

text \<open>\<^verbatim>\<open>normalizeText(v) || fallback || null\<close>.\<close>

definition text_else :: "jsval \<Rightarrow> jsval \<Rightarrow> jsval" where
  "text_else v fallback = js_or (JStr (normalizeText v)) (js_or fallback JNull)"

definition lane_identity :: "jsval \<Rightarrow> jsval \<Rightarrow> fields" where
  "lane_identity w before =
     map (\<lambda>k. (k, text_else (getp w k) (getp before k)))
       [''slotId'', ''providerId'', ''providerKind'', ''executionPlane'', ''assignmentMode'']"

definition record_head :: "string \<Rightarrow> string \<Rightarrow> string \<Rightarrow> jsval \<Rightarrow> fields" where
  "record_head schema nowIso adapterName repository =
     [(''schema'', JStr schema), (''generatedAt'', JStr nowIso), (''runtimeAdapter'', JStr adapterName),
      (''repository'', repository)]"

definition normalizeWorkerCheckout :: "jsval \<Rightarrow> jsval \<Rightarrow> string \<Rightarrow> string \<Rightarrow> jsval \<Rightarrow> jsval" where
  "normalizeWorkerCheckout raw decision nowIso adapterName repository =
     (if \<not> truthy raw \<or> \<not> typeof_object raw then JNull
      else
        (let checkoutPath = toOptionalText (getp raw ''checkoutPath'');
             checkoutRoot = js_or (JStr (normalizeText (getp raw ''checkoutRoot'')))
               (if truthy checkoutPath then JStr (path_dirname (js_string checkoutPath)) else JNull);
             status = lower_or ''prepared'' (getp raw ''status'')
         in JObj
           (record_head ''priority/runtime-worker-checkout@v1'' nowIso adapterName repository @
            [(''laneId'', text_else (getp raw ''laneId'') (lane_part decision ''laneId''))] @
            lane_identity raw JNull @
            [(''issue'', or_null (lane_part decision ''issue'')), (''epic'', or_null (lane_part decision ''epic'')),
             (''forkRemote'', or_null (lane_part decision ''forkRemote'')),
             (''branch'', or_null (lane_part decision ''branch'')),
             (''checkoutPath'', checkoutPath), (''checkoutRoot'', checkoutRoot), (''status'', JStr status),
             (''ref'', toOptionalText (getp raw ''ref'')),
             (''requestedBranch'', text_else (getp raw ''requestedBranch'') (lane_part decision ''branch'')),
             (''reason'', toOptionalText (getp raw ''reason'')), (''source'', text_or adapterName (getp raw ''source'')),
             (''reused'', JBool (getp raw ''reused'' = JBool True \<or> status = ''reused''))])))"

definition normalizeWorkerReady :: "jsval \<Rightarrow> jsval \<Rightarrow> jsval \<Rightarrow> string \<Rightarrow> string \<Rightarrow> jsval \<Rightarrow> jsval" where
  "normalizeWorkerReady raw decision workerCheckout nowIso adapterName repository =
     (if \<not> truthy raw \<or> \<not> typeof_object raw then JNull
      else
        (let status = lower_or ''ready'' (getp raw ''status'')
         in JObj
           (record_head ''priority/runtime-worker-ready@v1'' nowIso adapterName repository @
            [(''laneId'', text_else (getp raw ''laneId'')
                (js_or (getp workerCheckout ''laneId'') (lane_part decision ''laneId'')))] @
            lane_identity raw workerCheckout @
            [(''issue'', or_null (lane_part decision ''issue'')), (''epic'', or_null (lane_part decision ''epic'')),
             (''forkRemote'', or_null (lane_part decision ''forkRemote'')),
             (''branch'', or_null (lane_part decision ''branch'')),
             (''checkoutPath'', text_else (getp raw ''checkoutPath'') (getp workerCheckout ''checkoutPath'')),
             (''status'', JStr status), (''source'', text_or adapterName (getp raw ''source'')),
             (''reason'', toOptionalText (getp raw ''reason'')),
             (''bootstrapCommand'', string_items (getp raw ''bootstrapCommand'')),
             (''bootstrapExitCode'',
                if is_integer_number (getp raw ''bootstrapExitCode'') then getp raw ''bootstrapExitCode'' else JInt 0),
             (''preparedAt'', js_or (JStr (normalizeText (getp raw ''preparedAt'')))
                (js_or (getp workerCheckout ''generatedAt'') (JStr nowIso))),
             (''readyAt'', text_or nowIso (getp raw ''readyAt'')),
             (''refreshed'', JBool (getp raw ''refreshed'' = JBool True \<or> status = ''reused''))])))"

definition normalizeWorkerBranch :: "jsval \<Rightarrow> jsval \<Rightarrow> jsval \<Rightarrow> string \<Rightarrow> string \<Rightarrow> jsval \<Rightarrow> jsval" where
  "normalizeWorkerBranch raw decision workerReady nowIso adapterName repository =
     (if \<not> truthy raw \<or> \<not> typeof_object raw then JNull
      else
        (let status = lower_or ''attached'' (getp raw ''status'')
         in JObj
           (record_head ''priority/runtime-worker-branch@v1'' nowIso adapterName repository @
            [(''laneId'', text_else (getp raw ''laneId'')
                (js_or (getp workerReady ''laneId'') (lane_part decision ''laneId'')))] @
            lane_identity raw workerReady @
            [(''issue'', or_null (lane_part decision ''issue'')), (''epic'', or_null (lane_part decision ''epic'')),
             (''forkRemote'', text_else (getp raw ''forkRemote'') (lane_part decision ''forkRemote'')),
             (''branch'', text_else (getp raw ''branch'') (lane_part decision ''branch'')),
             (''checkoutPath'', text_else (getp raw ''checkoutPath'') (getp workerReady ''checkoutPath'')),
             (''status'', JStr status), (''source'', text_or adapterName (getp raw ''source'')),
             (''reason'', toOptionalText (getp raw ''reason'')), (''baseRef'', toOptionalText (getp raw ''baseRef'')),
             (''trackingRef'', toOptionalText (getp raw ''trackingRef'')),
             (''fetchedRemotes'', string_items (getp raw ''fetchedRemotes'')),
             (''readyAt'', text_else (getp raw ''readyAt'') (getp workerReady ''readyAt'')),
             (''activatedAt'', text_or nowIso (getp raw ''activatedAt'')),
             (''reused'', JBool (getp raw ''reused'' = JBool True \<or> status = ''reused''))])))"

text \<open>A record is written under its latest path and under the name of its lane.\<close>

definition write_lane_record ::
  "process \<Rightarrow> string \<Rightarrow> string \<Rightarrow> jsval \<Rightarrow> runtime_files \<Rightarrow> runtime_files \<times> stored_paths" where
  "write_lane_record c latestPath dir w fs =
     (let lanePath = path_join [dir, sanitizeSegment (js_or (getp w ''laneId'') (JStr ''runtime'')) @ ''.json'']
      in (writeJson_rt c lanePath w (writeJson_rt c latestPath w fs), (JStr latestPath, JStr lanePath)))"

definition writeWorkerCheckout ::
  "process \<Rightarrow> observer_paths \<Rightarrow> jsval \<Rightarrow> runtime_files \<Rightarrow> runtime_files \<times> stored_paths" where
  "writeWorkerCheckout c op = write_lane_record c (op_workerLatest op) (op_workersDir op)"

definition writeWorkerReady ::
  "process \<Rightarrow> observer_paths \<Rightarrow> jsval \<Rightarrow> runtime_files \<Rightarrow> runtime_files \<times> stored_paths" where
  "writeWorkerReady c op = write_lane_record c (op_readyLatest op) (op_readyDir op)"

definition writeWorkerBranch ::
  "process \<Rightarrow> observer_paths \<Rightarrow> jsval \<Rightarrow> runtime_files \<Rightarrow> runtime_files \<times> stored_paths" where
  "writeWorkerBranch c op = write_lane_record c (op_branchLatest op) (op_branchDir op)"

definition with_artifacts :: "jsval \<Rightarrow> stored_paths \<Rightarrow> jsval" where
  "with_artifacts w ps = set_field w ''artifacts'' (JObj [(''latestPath'', fst ps), (''lanePath'', snd ps)])"

section \<open>The adapter, the overrides and the state of the loop\<close>

text \<open>
  \<open>od_nowFactory n\<close> is the time of the \<open>n\<close>-th reading of the clock; \<open>od_message\<close> is the engine's text of
  an exception.
\<close>

record 'w observer_deps =
  od_runtime :: "'w runtime_deps"
  od_platform :: string
  od_nowFactory :: "nat \<Rightarrow> int"
  od_message :: "js_error \<Rightarrow> string"
  od_resolveScheduledStepFn :: "'w runtime_world world_hook option"
  od_prepareWorkerFn :: "'w runtime_world world_hook option"
  od_bootstrapWorkerFn :: "'w runtime_world world_hook option"
  od_activateWorkerFn :: "'w runtime_world world_hook option"
  od_buildTaskPacketFn :: "'w runtime_world world_hook option"
  od_executeTurnFn :: "'w runtime_world world_hook option"

record observer_report =
  or_status :: string
  or_outcome :: jsval
  or_cycles :: nat
  or_lastDecision :: jsval
  or_lastStep :: jsval
  or_message :: "string option"

record 'w observer_setup =
  os_options :: jsval
  os_repoRoot :: jsval
  os_repository :: jsval
  os_adapter :: "'w runtime_adapter"
  os_paths :: observer_paths
  os_deps :: "'w observer_deps"
  os_generatedAt :: string

record 'w observer_state =
  ob_world :: "'w runtime_world"
  ob_readings :: nat
  ob_slept :: "jsnum list"
  ob_report :: observer_report
  ob_previousDecision :: jsval
  ob_previousStep :: jsval

definition lift_hook :: "'w world_hook \<Rightarrow> 'w runtime_world world_hook" where
  "lift_hook h cx wd = (let (w, r) = h cx (lease_world wd) in (wd\<lparr>lease_world := w\<rparr>, r))"

text \<open>\<^verbatim>\<open>typeof deps.f === 'function' ? deps.f : (typeof adapter.f === 'function' ? ... : null)\<close>.\<close>

definition hook_or ::
  "'w runtime_world world_hook option \<Rightarrow> 'w world_hook option \<Rightarrow> 'w runtime_world world_hook option" where
  "hook_or given own = (case given of Some f \<Rightarrow> Some f | None \<Rightarrow> map_option lift_hook own)"

definition planner_of :: "'w observer_setup \<Rightarrow> 'w runtime_world world_hook option" where
  "planner_of su = hook_or (od_resolveScheduledStepFn (os_deps su)) (planStep (os_adapter su))"

definition prepare_of :: "'w observer_setup \<Rightarrow> 'w runtime_world world_hook option" where
  "prepare_of su = hook_or (od_prepareWorkerFn (os_deps su)) (prepareWorker (os_adapter su))"

definition bootstrap_of :: "'w observer_setup \<Rightarrow> 'w runtime_world world_hook option" where
  "bootstrap_of su = hook_or (od_bootstrapWorkerFn (os_deps su)) (bootstrapWorker (os_adapter su))"

definition activate_of :: "'w observer_setup \<Rightarrow> 'w runtime_world world_hook option" where
  "activate_of su = hook_or (od_activateWorkerFn (os_deps su)) (activateWorker (os_adapter su))"

definition packet_of :: "'w observer_setup \<Rightarrow> 'w runtime_world world_hook option" where
  "packet_of su = hook_or (od_buildTaskPacketFn (os_deps su)) (buildTaskPacket (os_adapter su))"

definition execute_of :: "'w observer_setup \<Rightarrow> 'w runtime_world world_hook option" where
  "execute_of su =
     (if truthy (getp (os_options su) ''executeTurn'')
      then hook_or (od_executeTurnFn (os_deps su)) (executeTurn (os_adapter su)) else None)"

text \<open>What a cycle has at hand when it calls a hook or writes a document.\<close>

record observer_cycle =
  oc_cycle :: nat
  oc_now :: int
  oc_decision :: jsval
  oc_decisionPaths :: stored_paths
  oc_worker :: jsval
  oc_workerPaths :: stored_paths
  oc_ready :: jsval
  oc_readyPaths :: stored_paths
  oc_branch :: jsval
  oc_branchPaths :: stored_paths
  oc_packet :: jsval
  oc_packetPaths :: stored_paths
  oc_receipt :: jsval
  oc_receiptPaths :: stored_paths

definition new_cycle :: "nat \<Rightarrow> int \<Rightarrow> observer_cycle" where
  "new_cycle cycle now =
     \<lparr>oc_cycle = cycle, oc_now = now, oc_decision = JNull, oc_decisionPaths = no_artifacts,
      oc_worker = JNull, oc_workerPaths = no_artifacts, oc_ready = JNull, oc_readyPaths = no_artifacts,
      oc_branch = JNull, oc_branchPaths = no_artifacts, oc_packet = JNull, oc_packetPaths = no_artifacts,
      oc_receipt = JNull, oc_receiptPaths = no_artifacts\<rparr>"

definition paths_object :: "string \<Rightarrow> stored_paths \<Rightarrow> jsval" where
  "paths_object second ps = JObj [(''latestPath'', fst ps), (second, snd ps)]"

text \<open>The data of a hook's context; the functions among its fields are the parameters themselves.\<close>

definition hook_context :: "'w observer_setup \<Rightarrow> 'w observer_state \<Rightarrow> observer_cycle \<Rightarrow> fields \<Rightarrow> jsval" where
  "hook_context su st oc extra = JObj
     ([(''options'', os_options su), (''repoRoot'', os_repoRoot su), (''repository'', os_repository su),
       (''cycle'', JInt (int (oc_cycle oc))), (''heartbeatPath'', JStr (op_heartbeat (os_paths su))),
       (''previousDecision'', ob_previousDecision st), (''previousStep'', ob_previousStep st)] @ extra)"

definition scheduler_paths :: "observer_paths \<Rightarrow> jsval" where
  "scheduler_paths op = JObj [(''latestPath'', JStr (op_schedulerLatest op)), (''historyDir'', JStr (op_schedulerHistory op))]"

definition worker_paths :: "observer_paths \<Rightarrow> jsval" where
  "worker_paths op = JObj
     [(''latestPath'', JStr (op_workerLatest op)), (''workersDir'', JStr (op_workersDir op)),
      (''readyLatestPath'', JStr (op_readyLatest op)), (''readyDir'', JStr (op_readyDir op)),
      (''branchLatestPath'', JStr (op_branchLatest op)), (''branchDir'', JStr (op_branchDir op))]"

definition packet_paths :: "observer_paths \<Rightarrow> jsval" where
  "packet_paths op = JObj [(''latestPath'', JStr (op_packetLatest op)), (''historyDir'', JStr (op_packetHistory op))]"

definition execution_paths :: "observer_paths \<Rightarrow> jsval" where
  "execution_paths op = JObj [(''latestPath'', JStr (op_executionLatest op)), (''historyDir'', JStr (op_executionHistory op))]"

definition runtime_artifact_paths :: "observer_paths \<Rightarrow> jsval" where
  "runtime_artifact_paths op = JObj
     [(''runtimeDir'', JStr (op_runtimeDir op)), (''statePath'', JStr (ob_statePath op)),
      (''eventsPath'', JStr (ob_eventsPath op)), (''stopRequestPath'', JStr (ob_stopRequestPath op))]"

section \<open>The task packet\<close>

definition determineTaskPacketStatus :: "observer_cycle \<Rightarrow> string" where
  "determineTaskPacketStatus oc =
     (if JStr ''blocked'' \<in> set [getp (oc_worker oc) ''status'', getp (oc_ready oc) ''status'',
           getp (oc_branch oc) ''status'', getp (oc_decision oc) ''outcome''] then ''blocked''
      else if getp (oc_decision oc) ''outcome'' = JStr ''idle'' then ''idle''
      else if truthy (getp (oc_branch oc) ''status'') then ''ready''
      else if truthy (getp (oc_ready oc) ''status'') then ''prepared''
      else if truthy (getp (oc_worker oc) ''status'') then ''selected''
      else js_string (text_or ''idle'' (getp (oc_decision oc) ''outcome'')))"

definition buildDefaultTaskObjective :: "jsval \<Rightarrow> jsval" where
  "buildDefaultTaskObjective decision =
     (let activeLane = or_null (getp decision ''activeLane''); issue = getp activeLane ''issue'';
          source = text_or ''runtime-harness'' (getp decision ''source'')
      in if is_integer_number issue then
           (let laneTarget = js_or (JStr (normalizeText (getp activeLane ''branch'')))
                  (js_or (JStr (normalizeText (getp activeLane ''laneId''))) (JStr (''issue-'' @ js_string issue)))
            in JObj [(''summary'', JStr (''Advance issue #'' @ js_string issue @ '' on '' @ js_string laneTarget)),
                     (''source'', source)])
         else JObj [(''summary'', text_or ''No active lane selected for this worker cycle.'' (getp decision ''reason'')),
                    (''source'', source)])"

definition normalizeHelperCommands :: "jsval \<Rightarrow> jsval" where
  "normalizeHelperCommands v = jstrs (filter (\<lambda>s. s \<noteq> []) (map normalizeText (array_items v)))"

text \<open>\<^verbatim>\<open>normalizeText(a) || normalizeText(b) || ...\<close>, null when every text is empty.\<close>

fun first_text :: "jsval list \<Rightarrow> jsval" where
  "first_text [] = JNull"
| "first_text (v # vs) = js_or (JStr (normalizeText v)) (first_text vs)"

definition default_packet ::
  "process \<Rightarrow> 'w observer_setup \<Rightarrow> observer_cycle \<Rightarrow> jsval list \<Rightarrow> jsval" where
  "default_packet c su oc recentEvents =
     (let decision = oc_decision oc; activeLane = or_null (getp decision ''activeLane'');
          worker = oc_worker oc; ready = oc_ready oc; branch = oc_branch oc; op = os_paths su;
          prUrl = normalizeText (getp activeLane ''prUrl'')
      in JObj
        [(''schema'', JStr ''priority/runtime-worker-task-packet@v1''), (''generatedAt'', JStr (iso_string (oc_now oc))),
         (''cycle'', JInt (int (oc_cycle oc))), (''runtimeAdapter'', JStr (adapter_name (os_adapter su))),
         (''repository'', os_repository su), (''laneId'', or_null (getp activeLane ''laneId'')),
         (''status'', JStr (determineTaskPacketStatus oc)),
         (''source'', text_or (adapter_name (os_adapter su)) (getp decision ''source'')),
         (''objective'', buildDefaultTaskObjective decision),
         (''branch'', JObj
           [(''name'', first_text [getp branch ''branch'', getp activeLane ''branch'']),
            (''forkRemote'', first_text [getp branch ''forkRemote'', getp activeLane ''forkRemote'']),
            (''status'', js_or (first_text [getp branch ''status'', getp ready ''status'', getp worker ''status''])
               (JStr (if truthy activeLane then ''selected'' else ''idle''))),
            (''trackingRef'', toOptionalText (getp branch ''trackingRef'')),
            (''checkoutPath'', first_text [getp branch ''checkoutPath'', getp ready ''checkoutPath'', getp worker ''checkoutPath''])]),
         (''pullRequest'', JObj
           [(''url'', toOptionalText (getp activeLane ''prUrl'')),
            (''status'', JStr (if prUrl \<noteq> [] then ''linked'' else ''none''))]),
         (''checks'', JObj
           [(''status'', JStr (if getp activeLane ''blockerClass'' = JStr ''ci'' then ''blocked''
                               else if prUrl \<noteq> [] then ''pending-or-unknown'' else ''not-linked'')),
            (''blockerClass'', text_or ''none'' (getp activeLane ''blockerClass''))]),
         (''helperSurface'', JObj [(''preferred'', JArr []), (''fallbacks'', JArr [])]),
         (''recentEvents'', JArr recentEvents),
         (''evidence'', JObj
           [(''runtime'', JObj
              [(''runtimeDir'', JStr (op_runtimeDir op)), (''heartbeatPath'', JStr (op_heartbeat op)),
               (''statePath'', JStr (ob_statePath op)), (''eventsPath'', JStr (ob_eventsPath op)),
               (''stopRequestPath'', JStr (ob_stopRequestPath op))]),
            (''scheduler'', JObj
              [(''latestPath'', fst (oc_decisionPaths oc)), (''historyPath'', snd (oc_decisionPaths oc)),
               (''sourceArtifacts'', js_coalesce (getp decision ''artifacts'') (JObj []))]),
            (''worker'', JObj
              [(''checkoutPath'', fst (oc_workerPaths oc)), (''checkoutLanePath'', snd (oc_workerPaths oc)),
               (''readyPath'', fst (oc_readyPaths oc)), (''readyLanePath'', snd (oc_readyPaths oc)),
               (''branchPath'', fst (oc_branchPaths oc)), (''branchLanePath'', snd (oc_branchPaths oc))])]),
         (''artifacts'', JObj [])])"

text \<open>\<^verbatim>\<open>k: normalizeText(given.k) || own.k\<close> for each key.\<close>

definition refined :: "jsval \<Rightarrow> jsval \<Rightarrow> string list \<Rightarrow> fields" where
  "refined given own ks = map (\<lambda>k. (k, js_or (JStr (normalizeText (getp given k))) (getp own k))) ks"

text \<open>What the adapter's packet replaces in the default one.\<close>

definition merge_packet :: "jsval \<Rightarrow> jsval \<Rightarrow> jsval" where
  "merge_packet adapterPacket packet =
     (if \<not> truthy adapterPacket \<or> \<not> typeof_object adapterPacket then packet
      else
        (let part = (\<lambda>k. object_or_empty (getp adapterPacket k))
         in fold (\<lambda>(k, v) p. set_field p k v)
           [(''source'', js_or (JStr (normalizeText (getp adapterPacket ''source''))) (getp packet ''source'')),
            (''status'', js_or (JStr (to_lower (normalizeText (getp adapterPacket ''status'')))) (getp packet ''status'')),
            (''objective'', JObj (refined (part ''objective'') (getp packet ''objective'') [''summary'', ''source''])),
            (''branch'', with_fields (getp packet ''branch'') (refined (part ''branch'') (getp packet ''branch'')
               [''name'', ''forkRemote'', ''status'', ''trackingRef'', ''checkoutPath''])),
            (''pullRequest'', JObj (refined (part ''pullRequest'') (getp packet ''pullRequest'') [''url'', ''status''])),
            (''checks'', JObj (refined (part ''checks'') (getp packet ''checks'') [''status'', ''blockerClass''])),
            (''helperSurface'', JObj
               [(''preferred'', normalizeHelperCommands (getp2 adapterPacket ''helperSurface'' ''preferred'')),
                (''fallbacks'', normalizeHelperCommands (getp2 adapterPacket ''helperSurface'' ''fallbacks''))]),
            (''recentEvents'', if is_array (getp adapterPacket ''recentEvents'') then getp adapterPacket ''recentEvents''
                               else getp packet ''recentEvents''),
            (''evidence'', with_fields (getp packet ''evidence'') (spread (part ''evidence'')))] packet))"

definition files_of :: "'w observer_state \<Rightarrow> runtime_files" where
  "files_of st = files (ob_world st)"

definition with_files :: "runtime_files \<Rightarrow> 'w observer_state \<Rightarrow> 'w observer_state" where
  "with_files fs st = st\<lparr>ob_world := (ob_world st)\<lparr>files := fs\<rparr>\<rparr>"

definition call_hook ::
  "'w runtime_world world_hook \<Rightarrow> jsval \<Rightarrow> 'w observer_state \<Rightarrow> 'w observer_state \<times> jsval result" where
  "call_hook h cx st = (let (wd, r) = h cx (ob_world st) in (st\<lparr>ob_world := wd\<rparr>, r))"

definition read_clock :: "'w observer_setup \<Rightarrow> 'w observer_state \<Rightarrow> int \<times> 'w observer_state" where
  "read_clock su st = (od_nowFactory (os_deps su) (ob_readings st), st\<lparr>ob_readings := Suc (ob_readings st)\<rparr>)"

definition worker_fields :: "observer_cycle \<Rightarrow> fields" where
  "worker_fields oc = [(''preparedWorker'', oc_worker oc), (''workerReady'', oc_ready oc), (''workerBranch'', oc_branch oc)]"

definition buildTaskPacket_ob ::
  "process \<Rightarrow> 'w observer_setup \<Rightarrow> observer_cycle \<Rightarrow> 'w observer_state \<Rightarrow> 'w observer_state \<times> jsval result" where
  "buildTaskPacket_ob c su oc st =
     (let op = os_paths su; recentEvents = readRecentEvents c (ob_eventsPath op) 5 (files_of st);
          packet = default_packet c su oc recentEvents
      in case packet_of su of
           None \<Rightarrow> (st, Inr packet)
         | Some h \<Rightarrow>
             (case call_hook h (hook_context su st oc
                ([(''runtimeArtifactPaths'', runtime_artifact_paths op),
                  (''schedulerArtifacts'', paths_object ''historyPath'' (oc_decisionPaths oc)),
                  (''taskPacketPaths'', packet_paths op), (''schedulerDecision'', oc_decision oc)] @ worker_fields oc @
                 [(''workerArtifacts'', paths_object ''lanePath'' (oc_workerPaths oc)),
                  (''workerReadyArtifacts'', paths_object ''lanePath'' (oc_readyPaths oc)),
                  (''workerBranchArtifacts'', paths_object ''lanePath'' (oc_branchPaths oc)),
                  (''recentEvents'', JArr recentEvents)])) st of
                (st', Inl e) \<Rightarrow> (st', Inl e)
              | (st', Inr adapterPacket) \<Rightarrow> (st', Inr (merge_packet adapterPacket packet))))"

definition with_history :: "jsval \<Rightarrow> string \<Rightarrow> string \<Rightarrow> jsval" where
  "with_history doc latestPath historyPath =
     with_fields doc [(''artifacts'', with_fields (js_coalesce (getp doc ''artifacts'') (JObj []))
       [(''latestPath'', JStr latestPath), (''historyPath'', JStr historyPath)])]"

definition writeTaskPacket ::
  "process \<Rightarrow> observer_paths \<Rightarrow> jsval \<Rightarrow> runtime_files \<Rightarrow> runtime_files \<times> jsval \<times> stored_paths" where
  "writeTaskPacket c op packet fs =
     (let historyPath = history_file (op_packetHistory op) (getp packet ''generatedAt'')
            (js_coalesce (getp packet ''cycle'') (JInt 0));
          doc = with_history packet (op_packetLatest op) historyPath
      in (writeJson_rt c historyPath doc (writeJson_rt c (op_packetLatest op) doc fs), doc,
          (JStr (op_packetLatest op), JStr historyPath)))"

section \<open>Execution receipts\<close>

definition summarizeExecutionReceipt :: "jsval \<Rightarrow> jsval" where
  "summarizeExecutionReceipt r =
     (if \<not> truthy r then JNull
      else JObj
        [(''cycle'', or_null (getp r ''cycle'')), (''status'', or_null (getp r ''status'')),
         (''outcome'', or_null (getp r ''outcome'')), (''generatedAt'', or_null (getp r ''generatedAt'')),
         (''stopLoop'', JBool (getp r ''stopLoop'' = JBool True)),
         (''details'', js_coalesce (getp r ''details'') (JObj [])),
         (''artifacts'', js_coalesce (getp r ''artifacts'') (JObj []))])"

definition normalizeExecutionReceipt :: "jsval \<Rightarrow> string \<Rightarrow> string \<Rightarrow> jsval \<Rightarrow> nat \<Rightarrow> jsval \<Rightarrow> jsval" where
  "normalizeExecutionReceipt r nowIso adapterName repository cycle decision =
     (if \<not> truthy r \<or> \<not> typeof_object r then JNull
      else JObj
        [(''schema'', JStr ''priority/runtime-execution-receipt@v1''),
         (''generatedAt'', text_or nowIso (getp r ''generatedAt'')),
         (''cycle'', if is_integer_number (getp r ''cycle'') then getp r ''cycle'' else JInt (int cycle)),
         (''runtimeAdapter'', JStr adapterName), (''repository'', repository),
         (''laneId'', text_else (getp r ''laneId'') (lane_part decision ''laneId'')),
         (''issue'', js_coalesce (coercePositiveInteger (getp r ''issue''))
            (coercePositiveInteger (lane_part decision ''issue''))),
         (''status'', JStr (lower_or ''completed'' (getp r ''status''))),
         (''outcome'', text_or ''completed'' (getp r ''outcome'')), (''reason'', toOptionalText (getp r ''reason'')),
         (''source'', text_or adapterName (getp r ''source'')),
         (''stopLoop'', JBool (getp r ''stopLoop'' = JBool True)),
         (''details'', object_or_empty (getp r ''details'')), (''artifacts'', object_or_empty (getp r ''artifacts''))])"

definition resolvePollIntervalSeconds :: "jsval \<Rightarrow> jsval \<Rightarrow> jsnum" where
  "resolvePollIntervalSeconds options receipt =
     (let configured = getp options ''pollIntervalSeconds'';
          defaultSeconds =
            (if is_integer_number configured \<and> num_gt (js_number configured) (Fin 0)
             then js_number configured else DEFAULT_POLL_INTERVAL_SECONDS);
          hinted = js_number (getp2 receipt ''details'' ''pollIntervalSecondsHint'')
      in if \<not> num_finite hinted \<or> num_le hinted (Fin 0) then defaultSeconds
         else num_min defaultSeconds (num_max (Fin 1) (num_floor hinted)))"

text \<open>\<^verbatim>\<open>toISOString\<close> of an invalid date throws before anything is written.\<close>

definition writeExecutionReceipt ::
  "process \<Rightarrow> observer_paths \<Rightarrow> jsval \<Rightarrow> runtime_files \<Rightarrow> runtime_files \<times> (jsval \<times> stored_paths) result" where
  "writeExecutionReceipt c op r fs =
     (if date_of_value (getp r ''generatedAt'') = NaN then (fs, Inl (RangeError ''Invalid time value''))
      else
        (let historyPath = history_file (op_executionHistory op) (getp r ''generatedAt'')
               (js_coalesce (getp r ''cycle'') (JInt 0));
             doc = with_history r (op_executionLatest op) historyPath
         in (writeJson_rt c historyPath doc (writeJson_rt c (op_executionLatest op) doc fs),
             Inr (doc, (JStr (op_executionLatest op), JStr historyPath)))))"

section \<open>The heartbeat\<close>

definition packet_digest :: "jsval \<Rightarrow> jsval" where
  "packet_digest packet = JObj
     [(''cycle'', getp packet ''cycle''), (''status'', getp packet ''status''), (''objective'', getp packet ''objective''),
      (''generatedAt'', getp packet ''generatedAt''), (''artifacts'', js_coalesce (getp packet ''artifacts'') (JObj []))]"

definition buildObservedActiveLane :: "jsval \<Rightarrow> jsval \<Rightarrow> jsval \<Rightarrow> jsval \<Rightarrow> jsval \<Rightarrow> jsval \<Rightarrow> jsval" where
  "buildObservedActiveLane decision worker ready branch packet receipt =
     (if \<not> truthy (getp decision ''activeLane'') then JNull
      else with_fields (getp decision ''activeLane'')
        ((if truthy worker then [(''worker'', worker)] else []) @
         (if truthy ready then [(''workerReady'', ready)] else []) @
         (if truthy branch then [(''workerBranch'', branch)] else []) @
         (if truthy packet then [(''taskPacket'', packet_digest packet)] else []) @
         (if truthy receipt then [(''execution'', summarizeExecutionReceipt receipt)] else [])))"

definition buildObserverArtifacts :: "observer_paths \<Rightarrow> observer_cycle \<Rightarrow> bool \<Rightarrow> jsval" where
  "buildObserverArtifacts op oc includeRuntimeState =
     (let own = (\<lambda>p. if includeRuntimeState then JStr p else JNull)
      in JObj
        [(''statePath'', own (ob_statePath op)), (''eventsPath'', own (ob_eventsPath op)),
         (''stopRequestPath'', own (ob_stopRequestPath op)),
         (''workerCheckoutPath'', fst (oc_workerPaths oc)), (''workerLanePath'', snd (oc_workerPaths oc)),
         (''workerReadyPath'', fst (oc_readyPaths oc)), (''workerReadyLanePath'', snd (oc_readyPaths oc)),
         (''workerBranchPath'', fst (oc_branchPaths oc)), (''workerBranchLanePath'', snd (oc_branchPaths oc)),
         (''schedulerDecisionPath'', fst (oc_decisionPaths oc)),
         (''schedulerDecisionHistoryPath'', snd (oc_decisionPaths oc)),
         (''taskPacketPath'', fst (oc_packetPaths oc)), (''taskPacketHistoryPath'', snd (oc_packetPaths oc)),
         (''executionReceiptPath'', fst (oc_receiptPaths oc)),
         (''executionReceiptHistoryPath'', snd (oc_receiptPaths oc))])"

text \<open>The shorter list of a cycle that stops before its step; a failed bootstrap names no branch.\<close>

definition early_artifacts :: "observer_cycle \<Rightarrow> bool \<Rightarrow> jsval" where
  "early_artifacts oc withBranch = JObj
     ([(''statePath'', JNull), (''eventsPath'', JNull), (''stopRequestPath'', JNull),
       (''workerCheckoutPath'', fst (oc_workerPaths oc)), (''workerLanePath'', snd (oc_workerPaths oc)),
       (''workerReadyPath'', fst (oc_readyPaths oc)), (''workerReadyLanePath'', snd (oc_readyPaths oc))] @
      (if withBranch then [(''workerBranchPath'', JNull), (''workerBranchLanePath'', JNull)] else []) @
      [(''schedulerDecisionPath'', fst (oc_decisionPaths oc)),
       (''schedulerDecisionHistoryPath'', snd (oc_decisionPaths oc))])"

definition heartbeat ::
  "'w observer_setup \<Rightarrow> 'w observer_state \<Rightarrow> int \<Rightarrow> jsval \<Rightarrow> bool \<Rightarrow> jsval \<Rightarrow> jsval \<Rightarrow> jsval" where
  "heartbeat su st now outcome stopRequested activeLane artifacts = JObj
     [(''schema'', JStr OBSERVER_HEARTBEAT_SCHEMA), (''generatedAt'', JStr (iso_string now)),
      (''runtimeAdapter'', JStr (adapter_name (os_adapter su))), (''repository'', os_repository su),
      (''platform'', JStr (od_platform (os_deps su))), (''cyclesCompleted'', JInt (int (or_cycles (ob_report st)))),
      (''outcome'', outcome), (''stopRequested'', JBool stopRequested), (''activeLane'', activeLane),
      (''schedulerDecision'', or_lastDecision (ob_report st)), (''artifacts'', artifacts)]"

definition write_heartbeat ::
  "process \<Rightarrow> 'w observer_setup \<Rightarrow> jsval \<Rightarrow> bool \<Rightarrow> jsval \<Rightarrow> jsval \<Rightarrow> 'w observer_state \<Rightarrow> 'w observer_state" where
  "write_heartbeat c su outcome stopRequested activeLane artifacts st =
     (let (now, st') = read_clock su st
      in with_files (writeJson_rt c (op_heartbeat (os_paths su))
           (heartbeat su st' now outcome stopRequested activeLane artifacts) (files_of st')) st')"

section \<open>A cycle\<close>

text \<open>
  A stage goes on, ends the loop with an exit code, or lets an exception out of it: the loop's caller
  then gets neither the report nor an exit code.
\<close>

datatype 'a control = Go 'a | Exit nat | Throw js_error

fun andThen :: "'s \<times> 'a control \<Rightarrow> ('a \<Rightarrow> 's \<Rightarrow> 's \<times> 'b control) \<Rightarrow> 's \<times> 'b control" where
  "andThen (st, Go x) f = f x st"
| "andThen (st, Exit code) f = (st, Exit code)"
| "andThen (st, Throw e) f = (st, Throw e)"

definition end_report :: "string \<Rightarrow> jsval \<Rightarrow> 'w observer_state \<Rightarrow> 'w observer_state" where
  "end_report status outcome st =
     st\<lparr>ob_report := (ob_report st)\<lparr>or_status := status, or_outcome := outcome\<rparr>\<rparr>"

definition last_step :: "jsval \<Rightarrow> 'w observer_state \<Rightarrow> 'w observer_state" where
  "last_step v st = st\<lparr>ob_report := (ob_report st)\<lparr>or_lastStep := v\<rparr>\<rparr>"

text \<open>\<^verbatim>\<open>report.status = 'blocked'\<close> with the message of an exception.\<close>

definition failed_report :: "'w observer_setup \<Rightarrow> string \<Rightarrow> js_error \<Rightarrow> 'w observer_state \<Rightarrow> 'w observer_state" where
  "failed_report su outcome e st =
     (end_report ''blocked'' (JStr outcome) st)\<lparr>ob_report :=
        (ob_report (end_report ''blocked'' (JStr outcome) st))\<lparr>or_message := Some (od_message (os_deps su) e)\<rparr>\<rparr>"

definition step_summary :: "nat \<Rightarrow> string \<Rightarrow> fields \<Rightarrow> jsval" where
  "step_summary code outcome extra = JObj
     ([(''exitCode'', JInt (int code)), (''outcome'', JStr outcome), (''statePath'', JNull), (''turnPath'', JNull)] @ extra)"

definition outcome_of :: "observer_cycle \<Rightarrow> jsval" where
  "outcome_of oc = getp (oc_decision oc) ''outcome''"

definition adapter_of :: "'w observer_setup \<Rightarrow> string" where
  "adapter_of su = adapter_name (os_adapter su)"

definition resolveSchedulerDecision ::
  "process \<Rightarrow> 'w observer_setup \<Rightarrow> observer_cycle \<Rightarrow> 'w observer_state \<Rightarrow> 'w observer_state \<times> jsval result" where
  "resolveSchedulerDecision c su oc st =
     (let explicitStepOptions = extractExplicitStepOptions (os_options su);
          built = (\<lambda>raw. buildSchedulerDecision raw (iso_string (oc_now oc)) (oc_cycle oc) (adapter_of su) (os_repository su))
      in case planner_of su of
           None \<Rightarrow> (st, Inr (built (manual_decision explicitStepOptions)))
         | Some planner \<Rightarrow>
             (case call_hook planner (hook_context su st oc
                [(''schedulerPaths'', scheduler_paths (os_paths su)), (''explicitStepOptions'', explicitStepOptions)]) st of
                (st', Inl e) \<Rightarrow> (st', Inl e)
              | (st', Inr raw) \<Rightarrow> (st', Inr (built raw))))"

definition schedule_stage ::
  "process \<Rightarrow> 'w observer_setup \<Rightarrow> 'w observer_state \<Rightarrow> 'w observer_state \<times> observer_cycle control" where
  "schedule_stage c su st =
     (let (now, st1) = read_clock su st; oc = new_cycle (Suc (or_cycles (ob_report st))) now
      in case resolveSchedulerDecision c su oc st1 of
           (st2, Inl e) \<Rightarrow> (failed_report su ''scheduler-failed'' e st2, Exit 11)
         | (st2, Inr decision) \<Rightarrow>
             let (fs, ps) = writeSchedulerDecision c (os_paths su) decision (files_of st2);
                 st3 = with_files fs st2
             in (st3\<lparr>ob_report := (ob_report st3)\<lparr>or_lastDecision := buildDecisionSummary decision ps\<rparr>\<rparr>,
                 Go (oc\<lparr>oc_decision := decision, oc_decisionPaths := ps\<rparr>)))"

definition packet_stage ::
  "process \<Rightarrow> 'w observer_setup \<Rightarrow> observer_cycle \<Rightarrow> 'w observer_state \<Rightarrow> 'w observer_state \<times> observer_cycle control" where
  "packet_stage c su oc st =
     (case buildTaskPacket_ob c su oc st of
        (st1, Inl e) \<Rightarrow> (st1, Throw e)
      | (st1, Inr packet) \<Rightarrow>
          let (fs, doc, ps) = writeTaskPacket c (os_paths su) packet (files_of st1)
          in (with_files fs st1, Go (oc\<lparr>oc_packet := doc, oc_packetPaths := ps\<rparr>)))"

definition observed_lane :: "observer_cycle \<Rightarrow> jsval" where
  "observed_lane oc =
     buildObservedActiveLane (oc_decision oc) (oc_worker oc) (oc_ready oc) (oc_branch oc) (oc_packet oc) JNull"

definition unselected_stage ::
  "process \<Rightarrow> 'w observer_setup \<Rightarrow> observer_cycle \<Rightarrow> 'w observer_state \<Rightarrow> 'w observer_state \<times> observer_cycle control" where
  "unselected_stage c su oc st =
     (if outcome_of oc = JStr ''selected'' then (st, Go oc)
      else andThen (packet_stage c su oc st) (\<lambda>oc st.
        let artifacts = buildObserverArtifacts (os_paths su) oc False
        in if truthy (getp (os_options su) ''stopOnIdle'') \<and> outcome_of oc = JStr ''idle'' then
             (end_report (or_status (ob_report st)) (JStr ''idle-stop'')
                (write_heartbeat c su (JStr ''idle-stop'') False (observed_lane oc) artifacts
                  (last_step (step_summary 0 ''idle'' [(''taskPacket'', oc_packet oc)]) st)), Exit 0)
           else if outcome_of oc = JStr ''blocked'' then
             (last_step (step_summary 12 ''scheduler-blocked'' [(''taskPacket'', oc_packet oc)])
                (end_report ''blocked'' (JStr ''scheduler-blocked'')
                  (write_heartbeat c su (JStr ''scheduler-blocked'') False (observed_lane oc) artifacts st)), Exit 12)
           else (st, Go oc)))"

definition lane_with :: "observer_cycle \<Rightarrow> fields \<Rightarrow> jsval" where
  "lane_with oc extra = with_fields (getp (oc_decision oc) ''activeLane'') extra"

definition prepare_stage ::
  "process \<Rightarrow> 'w observer_setup \<Rightarrow> observer_cycle \<Rightarrow> 'w observer_state \<Rightarrow> 'w observer_state \<times> observer_cycle control" where
  "prepare_stage c su oc st =
     (case prepare_of su of
        None \<Rightarrow> (st, Go oc)
      | Some h \<Rightarrow>
     if outcome_of oc \<noteq> JStr ''selected'' then (st, Go oc)
     else (case call_hook h (hook_context su st oc
             [(''schedulerPaths'', scheduler_paths (os_paths su)), (''workerPaths'', worker_paths (os_paths su)),
              (''schedulerDecision'', oc_decision oc)]) st of
        (st1, Inl e) \<Rightarrow> (failed_report su ''worker-prepare-failed'' e st1, Exit 13)
      | (st1, Inr raw) \<Rightarrow>
          let w = normalizeWorkerCheckout raw (oc_decision oc) (iso_string (oc_now oc)) (adapter_of su) (os_repository su)
          in if \<not> truthy w then (st1, Go oc)
             else
               (let (fs, ps) = writeWorkerCheckout c (os_paths su) w (files_of st1); st2 = with_files fs st1;
                    worker = with_artifacts w ps; oc1 = oc\<lparr>oc_worker := worker, oc_workerPaths := ps\<rparr>
                in if getp worker ''status'' = JStr ''blocked'' then
                     (last_step (step_summary 13 ''worker-blocked'' [(''worker'', worker)])
                        (end_report ''blocked'' (JStr ''worker-blocked'')
                          (write_heartbeat c su (JStr ''worker-blocked'') False
                            (lane_with oc1 [(''worker'', worker)]) (early_artifacts oc1 True) st2)), Exit 13)
                   else (st2, Go oc1))))"

definition bootstrap_stage ::
  "process \<Rightarrow> 'w observer_setup \<Rightarrow> observer_cycle \<Rightarrow> 'w observer_state \<Rightarrow> 'w observer_state \<times> observer_cycle control" where
  "bootstrap_stage c su oc st =
     (let worker = oc_worker oc; status = getp worker ''status''
      in case bootstrap_of su of
        None \<Rightarrow> (st, Go oc)
      | Some h \<Rightarrow>
     if \<not> truthy status \<or> status = JStr ''blocked'' then (st, Go oc)
     else (case call_hook h (hook_context su st oc
             [(''schedulerPaths'', scheduler_paths (os_paths su)), (''workerPaths'', worker_paths (os_paths su)),
              (''schedulerDecision'', oc_decision oc), (''preparedWorker'', worker)]) st of
        (st1, Inl e) \<Rightarrow>
          (last_step (step_summary 14 ''worker-bootstrap-failed'' [(''worker'', worker), (''workerReady'', JNull)])
             (failed_report su ''worker-bootstrap-failed'' e
               (write_heartbeat c su (JStr ''worker-bootstrap-failed'') False
                 (lane_with oc [(''worker'', worker)]) (early_artifacts oc False) st1)), Exit 14)
      | (st1, Inr raw) \<Rightarrow>
          let w = normalizeWorkerReady raw (oc_decision oc) worker (iso_string (oc_now oc)) (adapter_of su) (os_repository su)
          in if \<not> truthy w then (st1, Go oc)
             else
               (let (fs, ps) = writeWorkerReady c (os_paths su) w (files_of st1); st2 = with_files fs st1;
                    ready = with_artifacts w ps; oc1 = oc\<lparr>oc_ready := ready, oc_readyPaths := ps\<rparr>
                in if getp ready ''status'' = JStr ''blocked'' then
                     (last_step (step_summary 14 ''worker-ready-blocked'' [(''worker'', worker), (''workerReady'', ready)])
                        (end_report ''blocked'' (JStr ''worker-ready-blocked'')
                          (write_heartbeat c su (JStr ''worker-ready-blocked'') False
                            (lane_with oc1 [(''worker'', worker), (''workerReady'', ready)])
                            (early_artifacts oc1 True) st2)), Exit 14)
                   else (st2, Go oc1))))"

definition activate_stage ::
  "process \<Rightarrow> 'w observer_setup \<Rightarrow> observer_cycle \<Rightarrow> 'w observer_state \<Rightarrow> 'w observer_state \<times> observer_cycle control" where
  "activate_stage c su oc st =
     (let status = getp (oc_ready oc) ''status''
      in case activate_of su of
        None \<Rightarrow> (st, Go oc)
      | Some h \<Rightarrow>
     if \<not> truthy status \<or> status = JStr ''blocked'' then (st, Go oc)
     else (case call_hook h (hook_context su st oc
             [(''schedulerPaths'', scheduler_paths (os_paths su)), (''workerPaths'', worker_paths (os_paths su)),
              (''schedulerDecision'', oc_decision oc), (''preparedWorker'', oc_worker oc),
              (''workerReady'', oc_ready oc)]) st of
        (st1, Inl e) \<Rightarrow> (failed_report su ''worker-activate-failed'' e st1, Exit 15)
      | (st1, Inr raw) \<Rightarrow>
          let w = normalizeWorkerBranch raw (oc_decision oc) (oc_ready oc) (iso_string (oc_now oc)) (adapter_of su) (os_repository su)
          in if \<not> truthy w then (st1, Go oc)
             else
               (let (fs, ps) = writeWorkerBranch c (os_paths su) w (files_of st1)
                in (with_files fs st1, Go (oc\<lparr>oc_branch := with_artifacts w ps, oc_branchPaths := ps\<rparr>)))))"

definition selected_stage ::
  "process \<Rightarrow> 'w observer_setup \<Rightarrow> observer_cycle \<Rightarrow> 'w observer_state \<Rightarrow> 'w observer_state \<times> observer_cycle control" where
  "selected_stage c su oc st =
     andThen (if outcome_of oc = JStr ''selected'' then packet_stage c su oc st else (st, Go oc)) (\<lambda>oc st.
       if getp (oc_branch oc) ''status'' = JStr ''blocked'' then
         (last_step (step_summary 15 ''worker-branch-blocked'' [(''worker'', oc_worker oc), (''workerReady'', oc_ready oc),
              (''workerBranch'', oc_branch oc), (''taskPacket'', oc_packet oc)])
            (end_report ''blocked'' (JStr ''worker-branch-blocked'')
              (write_heartbeat c su (JStr ''worker-branch-blocked'') False (observed_lane oc)
                (buildObserverArtifacts (os_paths su) oc False) st)), Exit 15)
       else (st, Go oc))"

text \<open>The adapter of the loop, handed to the supervisor as the object \<^verbatim>\<open>createRuntimeAdapter\<close> made.\<close>

definition optional_hook :: "'f option \<Rightarrow> 'f hook" where
  "optional_hook h = (case h of Some f \<Rightarrow> Function f | None \<Rightarrow> NotFunction)"

definition adapter_object :: "'w runtime_adapter \<Rightarrow> 'w raw_adapter" where
  "adapter_object a =
     \<lparr>raw_name = JStr (adapter_name a), raw_resolveRepoRoot = Function (resolveRepoRoot a),
      raw_resolveOwner = Function (resolveOwner a), raw_acquireLease = Function (acquireLease a),
      raw_releaseLease = Function (releaseLease a), raw_planStep = optional_hook (planStep a),
      raw_prepareWorker = optional_hook (prepareWorker a), raw_bootstrapWorker = optional_hook (bootstrapWorker a),
      raw_activateWorker = optional_hook (activateWorker a), raw_buildTaskPacket = optional_hook (buildTaskPacket a),
      raw_executeTurn = optional_hook (executeTurn a), raw_resolveRepository = Function (resolveRepository a)\<rparr>"

definition runRuntimeWorkerStep ::
  "process \<Rightarrow> fields \<Rightarrow> 'w runtime_deps \<Rightarrow> 'w runtime_world \<Rightarrow> 'w runtime_world \<times> outcome" where
  "runRuntimeWorkerStep c options deps wd =
     runRuntimeSupervisor c (JObj (override options [(''action'', JStr ''step'')])) deps wd"

definition step_options :: "'w observer_setup \<Rightarrow> observer_cycle \<Rightarrow> fields" where
  "step_options su oc =
     override (buildWorkerStepOptions (os_options su) (oc_decision oc))
       [(''worker'', oc_worker oc), (''workerReady'', oc_ready oc), (''workerBranch'', oc_branch oc),
        (''taskPacket'', oc_packet oc)]"

definition step_deps :: "'w observer_setup \<Rightarrow> 'w runtime_deps" where
  "step_deps su = (od_runtime (os_deps su))\<lparr>dp_adapter := adapter_object (os_adapter su), dp_repoRoot := os_repoRoot su\<rparr>"

text \<open>What the step reports of a worker record, the cycle's own one when it reports none.\<close>

definition reported :: "jsval \<Rightarrow> string \<Rightarrow> jsval \<Rightarrow> jsval" where
  "reported stepReport k own = js_coalesce (getp stepReport k) own"

definition step_fields :: "jsval \<Rightarrow> observer_cycle \<Rightarrow> fields" where
  "step_fields stepReport oc =
     [(''worker'', reported stepReport ''worker'' (oc_worker oc)),
      (''workerReady'', reported stepReport ''workerReady'' (oc_ready oc)),
      (''workerBranch'', reported stepReport ''workerBranch'' (oc_branch oc)),
      (''taskPacket'', reported stepReport ''taskPacket'' (oc_packet oc))]"

definition step_stage ::
  "process \<Rightarrow> 'w observer_setup \<Rightarrow> observer_cycle \<Rightarrow> 'w observer_state \<Rightarrow> 'w observer_state \<times> (nat \<times> jsval) control" where
  "step_stage c su oc st =
     (case runRuntimeWorkerStep (c\<lparr>clockMs := oc_now oc\<rparr>) (step_options su oc) (step_deps su) (ob_world st) of
        (wd, Inl e) \<Rightarrow> (st\<lparr>ob_world := wd\<rparr>, Throw e)
      | (wd, Inr (code, stepReport)) \<Rightarrow>
          (st\<lparr>ob_world := wd,
              ob_report := (ob_report st)\<lparr>or_cycles := Suc (or_cycles (ob_report st)),
                or_lastStep := JObj
                  ([(''exitCode'', JInt (int code)), (''outcome'', getp stepReport ''outcome''),
                    (''statePath'', or_null (getp2 stepReport ''runtime'' ''statePath'')),
                    (''turnPath'', or_null (getp stepReport ''turnPath''))] @ step_fields stepReport oc)\<rparr>\<rparr>,
           Go (code, stepReport)))"

definition stop_seen :: "jsval \<Rightarrow> bool" where
  "stop_seen stepReport = truthy (getp (getp2 stepReport ''state'' ''lifecycle'') ''stopRequested'')"

text \<open>The heartbeat after a step.\<close>

definition step_heartbeat ::
  "process \<Rightarrow> 'w observer_setup \<Rightarrow> observer_cycle \<Rightarrow> jsval \<Rightarrow> jsval \<Rightarrow> 'w observer_state \<Rightarrow> 'w observer_state" where
  "step_heartbeat c su oc stepReport outcome =
     write_heartbeat c su (js_or (getp (oc_receipt oc) ''outcome'') outcome) (stop_seen stepReport)
       (js_coalesce
          (buildObservedActiveLane (oc_decision oc) (reported stepReport ''worker'' (oc_worker oc))
             (reported stepReport ''workerReady'' (oc_ready oc)) (reported stepReport ''workerBranch'' (oc_branch oc))
             (reported stepReport ''taskPacket'' (oc_packet oc)) (oc_receipt oc))
          (or_null (getp2 stepReport ''state'' ''activeLane'')))
       (buildObserverArtifacts (os_paths su) oc True)"

definition receipt_of :: "'w observer_setup \<Rightarrow> observer_cycle \<Rightarrow> jsval \<Rightarrow> jsval" where
  "receipt_of su oc raw =
     normalizeExecutionReceipt raw (iso_string (oc_now oc)) (adapter_of su) (os_repository su) (oc_cycle oc) (oc_decision oc)"

text \<open>A receipt is written, and becomes part of the report; \<open>Inl\<close> when its date is invalid.\<close>

definition keep_receipt ::
  "process \<Rightarrow> 'w observer_setup \<Rightarrow> observer_cycle \<Rightarrow> 'w observer_state \<Rightarrow> 'w observer_state \<times> observer_cycle result" where
  "keep_receipt c su oc st =
     (case writeExecutionReceipt c (os_paths su) (oc_receipt oc) (files_of st) of
        (fs, Inl e) \<Rightarrow> (with_files fs st, Inl e)
      | (fs, Inr (doc, ps)) \<Rightarrow>
          (last_step (set_field (or_lastStep (ob_report st)) ''execution'' (summarizeExecutionReceipt doc)) (with_files fs st),
           Inr (oc\<lparr>oc_receipt := doc, oc_receiptPaths := ps\<rparr>)))"

definition failed_receipt :: "string \<Rightarrow> jsval" where
  "failed_receipt message = JObj
     [(''status'', JStr ''blocked''), (''outcome'', JStr ''execution-failed''), (''reason'', JStr message)]"

text \<open>An exception of the turn: the receipt and the heartbeat are written as far as they can be.\<close>

definition execution_failed ::
  "process \<Rightarrow> 'w observer_setup \<Rightarrow> observer_cycle \<Rightarrow> jsval \<Rightarrow> js_error \<Rightarrow> 'w observer_state \<Rightarrow> 'w observer_state" where
  "execution_failed c su oc stepReport e st =
     (let st1 = failed_report su ''execution-failed'' e st;
          oc1 = oc\<lparr>oc_receipt := receipt_of su oc (failed_receipt (od_message (os_deps su) e))\<rparr>
      in case keep_receipt c su oc1 st1 of
           (st2, Inl _) \<Rightarrow> step_heartbeat c su oc1 stepReport (or_outcome (ob_report st2)) st2
         | (st2, Inr oc2) \<Rightarrow> step_heartbeat c su oc2 stepReport (or_outcome (ob_report st2)) st2)"

definition execute_stage ::
  "process \<Rightarrow> 'w observer_setup \<Rightarrow> nat \<Rightarrow> jsval \<Rightarrow> observer_cycle \<Rightarrow> 'w observer_state \<Rightarrow> 'w observer_state \<times> observer_cycle control" where
  "execute_stage c su code stepReport oc st =
     (case execute_of su of
        None \<Rightarrow> (st, Go oc)
      | Some h \<Rightarrow>
     if code \<noteq> 0 then (st, Go oc)
     else (case call_hook h (hook_context su st oc
             ([(''runtimeArtifactPaths'', runtime_artifact_paths (os_paths su)),
               (''schedulerPaths'', scheduler_paths (os_paths su)), (''workerPaths'', worker_paths (os_paths su)),
               (''taskPacketPaths'', packet_paths (os_paths su)), (''executionPaths'', execution_paths (os_paths su)),
               (''schedulerDecision'', oc_decision oc),
               (''schedulerArtifacts'', paths_object ''historyPath'' (oc_decisionPaths oc))] @ worker_fields oc @
              [(''taskPacket'', oc_packet oc), (''taskPacketArtifacts'', paths_object ''historyPath'' (oc_packetPaths oc)),
               (''stepResult'', JObj [(''exitCode'', JInt (int code)), (''report'', stepReport)])])) st of
        (st1, Inl e) \<Rightarrow> (execution_failed c su oc stepReport e st1, Exit 16)
      | (st1, Inr raw) \<Rightarrow>
          let r = receipt_of su oc raw
          in if \<not> truthy r then (st1, Go oc)
             else (case keep_receipt c su (oc\<lparr>oc_receipt := r\<rparr>) st1 of
                     (st2, Inl e) \<Rightarrow> (st2, Throw e)
                   | (st2, Inr oc1) \<Rightarrow> (st2, Go oc1))))"

text \<open>After the heartbeat: the exits in their order, or a pause before the next cycle.\<close>

definition finish_stage ::
  "process \<Rightarrow> 'w observer_setup \<Rightarrow> nat \<Rightarrow> jsval \<Rightarrow> observer_cycle \<Rightarrow> 'w observer_state \<Rightarrow> 'w observer_state \<times> unit control" where
  "finish_stage c su code stepReport oc st =
     (let st1 = step_heartbeat c su oc stepReport (getp stepReport ''outcome'')
            (st\<lparr>ob_previousDecision := oc_decision oc, ob_previousStep := or_lastStep (ob_report st)\<rparr>);
          receipt = oc_receipt oc; same = or_status (ob_report st1);
          maxCycles = js_number (getp (os_options su) ''maxCycles'')
      in if code \<noteq> 0 then (end_report ''blocked'' (JStr ''worker-failed'') st1, Exit code)
         else if stop_seen stepReport then (end_report same (JStr ''stop-requested'') st1, Exit 0)
         else if getp receipt ''status'' = JStr ''blocked'' then
           (end_report ''blocked'' (js_or (getp receipt ''outcome'') (JStr ''execution-blocked'')) st1, Exit 16)
         else if truthy (getp receipt ''stopLoop'') then
           (end_report same (js_or (getp receipt ''outcome'') (JStr ''execution-stop'')) st1, Exit 0)
         else if num_gt maxCycles (Fin 0) \<and> num_ge (num_of_int (int (or_cycles (ob_report st1)))) maxCycles then
           (end_report same (JStr ''max-cycles-reached'') st1, Exit 0)
         else (st1\<lparr>ob_slept := ob_slept st1 @ [num_mul (resolvePollIntervalSeconds (os_options su) receipt) (Fin 1000)]\<rparr>,
               Go ()))"

definition observer_cycle_run ::
  "process \<Rightarrow> 'w observer_setup \<Rightarrow> 'w observer_state \<Rightarrow> 'w observer_state \<times> unit control" where
  "observer_cycle_run c su st =
     andThen (schedule_stage c su st) (\<lambda>oc st.
     andThen (unselected_stage c su oc st) (\<lambda>oc st.
     andThen (prepare_stage c su oc st) (\<lambda>oc st.
     andThen (bootstrap_stage c su oc st) (\<lambda>oc st.
     andThen (activate_stage c su oc st) (\<lambda>oc st.
     andThen (selected_stage c su oc st) (\<lambda>oc st.
     andThen (step_stage c su oc st) (\<lambda>(code, stepReport) st.
     andThen (execute_stage c su code stepReport oc st) (\<lambda>oc st.
       finish_stage c su code stepReport oc st))))))))"

section \<open>The loop\<close>

text \<open>\<open>None\<close> is a loop that never returns.\<close>

partial_function (option) observer_loop ::
  "process \<Rightarrow> 'w observer_setup \<Rightarrow> 'w observer_state \<Rightarrow> ('w observer_state \<times> nat result) option" where
  "observer_loop c su st =
     (case observer_cycle_run c su st of
        (st', Go _) \<Rightarrow> observer_loop c su st'
      | (st', Exit code) \<Rightarrow> Some (st', Inr code)
      | (st', Throw e) \<Rightarrow> Some (st', Inl e))"

definition observer_repoRoot :: "jsval \<Rightarrow> 'w observer_deps \<Rightarrow> 'w runtime_adapter \<Rightarrow> jsval result" where
  "observer_repoRoot options deps adapter =
     (if truthy (dp_repoRoot (od_runtime deps)) then Inr (dp_repoRoot (od_runtime deps))
      else fn_or (dp_resolveRepoRootFn (od_runtime deps)) (resolveRepoRoot adapter) options)"

definition observer_setup_of :: "process \<Rightarrow> jsval \<Rightarrow> 'w observer_deps \<Rightarrow> 'w observer_setup result" where
  "observer_setup_of c options deps =
     bindE (createRuntimeAdapter c (dp_adapter (od_runtime deps))) (\<lambda>adapter.
     bindE (observer_repoRoot options deps adapter) (\<lambda>repoRoot.
     bindE (resolveObserverPaths options repoRoot) (\<lambda>op.
     bindE (resolveRepository adapter options) (\<lambda>repository.
       Inr \<lparr>os_options = options, os_repoRoot = repoRoot, os_repository = repository, os_adapter = adapter,
            os_paths = op, os_deps = deps, os_generatedAt = iso_string (od_nowFactory deps 0)\<rparr>))))"

definition observer_start :: "'w runtime_world \<Rightarrow> 'w observer_state" where
  "observer_start wd =
     \<lparr>ob_world = wd, ob_readings = 1, ob_slept = [],
      ob_report = \<lparr>or_status = ''pass'', or_outcome = JStr ''idle'', or_cycles = 0, or_lastDecision = JNull,
                   or_lastStep = JNull, or_message = None\<rparr>,
      ob_previousDecision = JNull, ob_previousStep = JNull\<rparr>"

definition observer_report_json :: "'w observer_setup \<Rightarrow> observer_report \<Rightarrow> jsval" where
  "observer_report_json su r =
     (let op = os_paths su
      in JObj
        ([(''schema'', JStr OBSERVER_REPORT_SCHEMA), (''generatedAt'', JStr (os_generatedAt su)),
          (''runtimeAdapter'', JStr (adapter_of su)), (''repository'', os_repository su),
          (''heartbeatPath'', JStr (op_heartbeat op)), (''scheduler'', scheduler_paths op), (''worker'', worker_paths op),
          (''taskPackets'', packet_paths op), (''execution'', execution_paths op),
          (''status'', JStr (or_status r)), (''outcome'', or_outcome r), (''cyclesCompleted'', JInt (int (or_cycles r))),
          (''lastDecision'', or_lastDecision r), (''lastStep'', or_lastStep r)] @
         (case or_message r of None \<Rightarrow> [] | Some m \<Rightarrow> [(''message'', JStr m)])))"

text \<open>The state after the loop, with its exit code and report; an exception has neither.\<close>

definition runRuntimeObserverLoop ::
  "process \<Rightarrow> jsval \<Rightarrow> 'w observer_deps \<Rightarrow> 'w runtime_world \<Rightarrow> ('w observer_state \<times> (nat \<times> jsval) result) option" where
  "runRuntimeObserverLoop c options deps wd =
     (case observer_setup_of c options deps of
        Inl e \<Rightarrow> Some (observer_start wd, Inl e)
      | Inr su \<Rightarrow>
          let st = observer_start wd
          in if od_platform deps \<noteq> ''linux'' then
               (let st' = end_report ''blocked'' (JStr ''linux-only'') st;
                    st'' = st'\<lparr>ob_report := (ob_report st')\<lparr>or_message :=
                             Some ''Observer daemon mode is supported only on Linux.''\<rparr>\<rparr>
                in Some (st'', Inr (2, observer_report_json su (ob_report st''))))
             else map_option (\<lambda>(st', r). (st', bindE r (\<lambda>code. Inr (code, observer_report_json su (ob_report st')))))
                    (observer_loop c su st))"

section \<open>The command line\<close>

definition observer_flags :: "(string \<times> string) list" where
  "observer_flags =
     [(''--help'', ''help''), (''-h'', ''help''), (''--quiet'', ''quiet''), (''--stop-on-idle'', ''stopOnIdle''),
      (''--execute-turn'', ''executeTurn'')]"

definition observer_text_options :: "(string \<times> string) list" where
  "observer_text_options =
     [(''--repo'', ''repo''), (''--runtime-dir'', ''runtimeDir''), (''--heartbeat-path'', ''heartbeatPath''),
      (''--scheduler-decision-path'', ''schedulerDecisionPath''),
      (''--scheduler-decisions-dir'', ''schedulerDecisionsDir''), (''--lane'', ''lane''),
      (''--fork-remote'', ''forkRemote''), (''--branch'', ''branch''), (''--pr-url'', ''prUrl''),
      (''--lease-root'', ''leaseRoot''), (''--owner'', ''owner'')]"

definition observer_int_options :: "(string \<times> string \<times> bool) list" where
  "observer_int_options =
     [(''--issue'', ''issue'', False), (''--epic'', ''epic'', False),
      (''--poll-interval-seconds'', ''pollIntervalSeconds'', True), (''--max-cycles'', ''maxCycles'', True)]"

definition observer_option :: "string \<Rightarrow> string \<Rightarrow> (string \<times> jsval result) option" where
  "observer_option token next =
     (case map_of observer_text_options token of
        Some key \<Rightarrow> Some (key, Inr (JStr (normalizeText (JStr next))))
      | None \<Rightarrow>
     (case map_of observer_int_options token of
        Some (key, allowZero) \<Rightarrow> Some (key, toPositiveInteger_ob (JStr next) token allowZero)
      | None \<Rightarrow>
          if token = ''--blocker-class'' then Some (''blockerClass'', Inr (JStr (to_lower (normalizeText (JStr next)))))
          else if token = ''--reason'' then Some (''reason'', Inr (JStr next))
          else if token = ''--lease-scope'' then
            Some (''leaseScope'', Inr (js_or (JStr (normalizeText (JStr next))) (JStr ''workspace'')))
          else None))"

fun parse_observer_args :: "jsval \<Rightarrow> string list \<Rightarrow> jsval result" where
  "parse_observer_args options [] = Inr options"
| "parse_observer_args options (token # rest) =
     (case map_of observer_flags token of
        Some key \<Rightarrow> parse_observer_args (set_field options key (JBool True)) rest
      | None \<Rightarrow>
          if observer_option token [] = None then Inl (ErrorMsg (''Unknown option: '' @ token))
          else (case rest of
                  [] \<Rightarrow> Inl (ErrorMsg (''Missing value for '' @ token @ ''.''))
                | next # rest' \<Rightarrow>
                    if starts_with next ''-'' \<and> token \<noteq> ''--reason''
                    then Inl (ErrorMsg (''Missing value for '' @ token @ ''.''))
                    else (case observer_option token next of
                            None \<Rightarrow> Inl (ErrorMsg (''Unknown option: '' @ token))
                          | Some (key, r) \<Rightarrow>
                              bindE r (\<lambda>v. parse_observer_args (set_field options key v) rest'))))"

definition observer_defaults :: jsval where
  "observer_defaults = JObj
     [(''repo'', JStr []), (''runtimeDir'', JStr DEFAULT_RUNTIME_DIR), (''heartbeatPath'', JStr []),
      (''schedulerDecisionPath'', JStr []), (''schedulerDecisionsDir'', JStr []), (''lane'', JStr []),
      (''issue'', JNull), (''epic'', JNull), (''forkRemote'', JStr []), (''branch'', JStr []), (''prUrl'', JStr []),
      (''blockerClass'', JStr ''none''), (''reason'', JStr []), (''leaseScope'', JStr ''workspace''),
      (''leaseRoot'', JStr []), (''owner'', JStr []), (''pollIntervalSeconds'', JNum DEFAULT_POLL_INTERVAL_SECONDS),
      (''maxCycles'', JInt 0), (''stopOnIdle'', JBool False), (''executeTurn'', JBool False),
      (''quiet'', JBool False), (''help'', JBool False)]"

definition parseObserverArgs :: "string list \<Rightarrow> jsval result" where
  "parseObserverArgs argv =
     bindE (parse_observer_args observer_defaults argv) (\<lambda>options.
       let blocker = getp options ''blockerClass''
       in if truthy blocker \<and> blocker \<notin> JStr ` set BLOCKER_CLASSES then
            Inl (ErrorMsg (''Unsupported --blocker-class '' @ quoted (js_string blocker) @ ''.''))
          else Inr options)"

text \<open>The exit code and the printed report; a printed usage has no report.\<close>

definition runObserverCli ::
  "process \<Rightarrow> string list \<Rightarrow> 'w observer_deps \<Rightarrow> 'w runtime_world
     \<Rightarrow> ('w observer_state \<times> (nat \<times> jsval option) result) option" where
  "runObserverCli c argv deps wd =
     (case parseObserverArgs argv of
        Inl e \<Rightarrow> Some (observer_start wd, Inl e)
      | Inr options \<Rightarrow>
          if truthy (getp options ''help'') then Some (observer_start wd, Inr (0, None))
          else map_option (\<lambda>(st, r). (st, bindE r (\<lambda>(code, report).
                 Inr (code, if truthy (getp options ''quiet'') then None else Some report))))
                 (runRuntimeObserverLoop c options deps wd))"

end
