(* ===== verification/ObserverLaws.thy ===== *)
theory ObserverLaws
  imports RuntimeLaws IdleAuthority RuntimeObserver
begin

text \<open>
  What the observer loop keeps: its exit codes and its report agree, its heartbeat shows the cycles
  of the report, it ends when cycles are bounded, a stop request ends it within one cycle, and the
  lane a step records is the lane of the decision.  \<open>ends\<close> is a triple over the stages of a cycle.
\<close>

section \<open>Stages\<close>

text \<open>\<open>G\<close> holds where a stage goes on, \<open>E\<close> where it ends the loop, \<open>T\<close> where an exception leaves it.\<close>

definition ends ::
  "('s \<Rightarrow> 'a \<Rightarrow> bool) \<Rightarrow> ('s \<Rightarrow> nat \<Rightarrow> bool) \<Rightarrow> ('s \<Rightarrow> bool) \<Rightarrow> 's \<times> 'a control \<Rightarrow> bool" where
  "ends G E T m = (case m of (st, Go x) \<Rightarrow> G st x | (st, Exit n) \<Rightarrow> E st n | (st, Throw e) \<Rightarrow> T st)"

lemma ends_simps [simp]:
  "ends G E T (st, Go x) = G st x"
  "ends G E T (st, Exit n) = E st n"
  "ends G E T (st, Throw e) = T st"
  by (simp_all add: ends_def)

lemma ends_andThen:
  "ends G' E T m \<Longrightarrow> (\<And>st x. G' st x \<Longrightarrow> ends G E T (f x st)) \<Longrightarrow> ends G E T (andThen m f)"
  by (cases "(m, f)" rule: andThen.cases) auto

lemma ends_weaken:
  "ends G E T m \<Longrightarrow> (\<And>st x. G st x \<Longrightarrow> G' st x) \<Longrightarrow> (\<And>st n. E st n \<Longrightarrow> E' st n) \<Longrightarrow>
     (\<And>st. T st \<Longrightarrow> T' st) \<Longrightarrow> ends G' E' T' m"
  by (auto simp: ends_def split: prod.splits control.splits)

lemma ends_conj: "ends G E T m \<Longrightarrow> ends G' E' T' m \<Longrightarrow> ends (\<lambda>s x. G s x \<and> G' s x) (\<lambda>s n. E s n \<and> E' s n) (\<lambda>s. T s \<and> T' s) m"
  by (auto simp: ends_def split: prod.splits control.splits)

section \<open>What the primitives leave alone\<close>

named_theorems ob_simps \<open>projections of the primitive steps of a cycle\<close>

lemma report_primitives [ob_simps]:
  "ob_report (with_files fs st) = ob_report st"
  "ob_report (snd (read_clock su st)) = ob_report st"
  "ob_report (fst (call_hook h cx st)) = ob_report st"
  "ob_report (write_heartbeat c su oc sr al ar st) = ob_report st"
  by (simp_all add: with_files_def read_clock_def call_hook_def write_heartbeat_def split_beta)

lemma report_ends [ob_simps]:
  "ob_report (end_report s oc st) = (ob_report st)\<lparr>or_status := s, or_outcome := oc\<rparr>"
  "ob_report (last_step v st) = (ob_report st)\<lparr>or_lastStep := v\<rparr>"
  "ob_report (failed_report su o' e st) =
     (ob_report st)\<lparr>or_status := ''blocked'', or_outcome := JStr o', or_message := Some (od_message (os_deps su) e)\<rparr>"
  by (simp_all add: end_report_def last_step_def failed_report_def)

lemma files_primitives [ob_simps]:
  "files_of (with_files fs st) = fs"
  "files_of (snd (read_clock su st)) = files_of st"
  "files_of (end_report s oc st) = files_of st"
  "files_of (last_step v st) = files_of st"
  "files_of (failed_report su o' e st) = files_of st"
  by (simp_all add: files_of_def with_files_def read_clock_def end_report_def last_step_def failed_report_def)

lemma files_heartbeat [ob_simps]:
  "files_of (write_heartbeat c su oc sr al ar st) =
     writeJson_rt c (op_heartbeat (os_paths su))
       (heartbeat su (snd (read_clock su st)) (fst (read_clock su st)) oc sr al ar) (files_of st)"
  by (simp add: write_heartbeat_def ob_simps split_beta)

lemma fst_call_hook: "call_hook h cx st = (st', r) \<Longrightarrow> ob_report st' = ob_report st"
  by (auto simp: call_hook_def split: prod.splits)

section \<open>The exits\<close>

text \<open>The heartbeat on disk shows the cycles and the decision of the report.\<close>

definition heartbeat_current :: "process \<Rightarrow> 'w observer_setup \<Rightarrow> 'w observer_state \<Rightarrow> bool" where
  "heartbeat_current c su st \<longleftrightarrow>
     (\<exists>d. map_of (files_of st) (absolute_path c (op_heartbeat (os_paths su))) = Some (JsonTexts [d]) \<and>
        getp d ''cyclesCompleted'' = JInt (int (or_cycles (ob_report st))) \<and>
        getp d ''schedulerDecision'' = json_norm (or_lastDecision (ob_report st)))"

definition silent_outcomes :: "string list" where
  "silent_outcomes = [''scheduler-failed'', ''worker-prepare-failed'', ''worker-activate-failed'']"

definition good_exit :: "process \<Rightarrow> 'w observer_setup \<Rightarrow> nat \<Rightarrow> 'w observer_state \<Rightarrow> nat \<Rightarrow> bool" where
  "good_exit c su n st code \<longleftrightarrow>
     or_status (ob_report st) = (if code = 0 then ''pass'' else ''blocked'') \<and> or_cycles (ob_report st) = n \<and>
     (or_outcome (ob_report st) \<in> JStr ` set silent_outcomes \<or> heartbeat_current c su st)"

lemma heartbeat_fields:
  "getp (json_norm (heartbeat su st now oc sr al ar)) ''cyclesCompleted'' = JInt (int (or_cycles (ob_report st)))"
  "or_lastDecision (ob_report st) \<noteq> JUndef \<Longrightarrow>
     getp (json_norm (heartbeat su st now oc sr al ar)) ''schedulerDecision'' = json_norm (or_lastDecision (ob_report st))"
  by (simp_all add: heartbeat_def)

lemma heartbeat_written:
  "or_lastDecision (ob_report st) \<noteq> JUndef \<Longrightarrow> heartbeat_current c su (write_heartbeat c su oc sr al ar st)"
  unfolding heartbeat_current_def
  by (simp add: ob_simps store_simps heartbeat_fields del: json_norm.simps)

lemma heartbeat_current_simps [ob_simps]:
  "heartbeat_current c su (last_step v st) = heartbeat_current c su st"
  "heartbeat_current c su (end_report s o' st) = heartbeat_current c su st"
  "heartbeat_current c su (failed_report su' o2 e st) = heartbeat_current c su st"
  by (simp_all add: heartbeat_current_def ob_simps)

text \<open>While it runs, the loop reports pass, and it has announced its decision.\<close>

definition running :: "nat \<Rightarrow> 'w observer_state \<Rightarrow> bool" where
  "running n st \<longleftrightarrow> or_status (ob_report st) = ''pass'' \<and> or_cycles (ob_report st) = n \<and>
     or_lastDecision (ob_report st) \<noteq> JUndef"

abbreviation well_ended :: "process \<Rightarrow> 'w observer_setup \<Rightarrow> nat \<Rightarrow> 'w observer_state \<times> 'a control \<Rightarrow> bool" where
  "well_ended c su n \<equiv> ends (\<lambda>st _. running n st) (good_exit c su n) (\<lambda>_. True)"

lemma running_simps [ob_simps]:
  "running n (with_files fs st) = running n st"
  "running n (snd (read_clock su st)) = running n st"
  "running n (write_heartbeat c su oc sr al ar st) = running n st"
  "running n (last_step v st) = running n st"
  "running n (fst (call_hook h cx st)) = running n st"
  by (simp_all add: running_def ob_simps)

lemma running_call: "call_hook h cx st = (st', r) \<Longrightarrow> running n st' = running n st"
  by (simp add: running_def fst_call_hook)

lemma running_heartbeat: "running n st \<Longrightarrow> heartbeat_current c su (write_heartbeat c su oc sr al ar st)"
  by (simp add: running_def heartbeat_written)

lemma good_exit_blocked:
  "heartbeat_current c su st \<Longrightarrow> or_cycles (ob_report st) = n \<Longrightarrow> code \<noteq> 0 \<Longrightarrow>
     good_exit c su n (last_step v (end_report ''blocked'' o' st)) code"
  "heartbeat_current c su st \<Longrightarrow> or_cycles (ob_report st) = n \<Longrightarrow> code \<noteq> 0 \<Longrightarrow>
     good_exit c su n (last_step v (failed_report su s e st)) code"
  "or_cycles (ob_report st) = n \<Longrightarrow> s \<in> set silent_outcomes \<Longrightarrow> code \<noteq> 0 \<Longrightarrow> good_exit c su n (failed_report su s e st) code"
  by (simp_all add: good_exit_def ob_simps)

lemma running_cycles: "running n st \<Longrightarrow> or_cycles (ob_report st) = n"
  by (simp add: running_def)

lemmas exit_rules = good_exit_blocked running_heartbeat running_cycles

lemma decision_report: "resolveSchedulerDecision c su oc st = (st', d) \<Longrightarrow> ob_report st' = ob_report st"
  by (auto simp: resolveSchedulerDecision_def Let_def fst_call_hook split: option.splits prod.splits sum.splits)

lemma schedule_ends:
  assumes "running n st"
  shows "well_ended c su n (schedule_stage c su st)"
proof -
  let ?oc = "new_cycle (Suc (or_cycles (ob_report st))) (fst (read_clock su st))"
  obtain st' d where d: "resolveSchedulerDecision c su ?oc (snd (read_clock su st)) = (st', d)"
    by fastforce
  then have "ob_report st' = ob_report st"
    by (simp add: decision_report ob_simps)
  with assms d show ?thesis
    by (cases d) (auto simp: schedule_stage_def split_beta Let_def ob_simps silent_outcomes_def running_def
        buildDecisionSummary_def intro!: good_exit_blocked)
qed

lemma packet_ends: "running n st \<Longrightarrow> ends (\<lambda>st oc'. running n st) (\<lambda>_ _. False) (\<lambda>_. True) (packet_stage c su oc st)"
  by (auto simp: packet_stage_def buildTaskPacket_ob_def Let_def ob_simps running_call split: option.splits prod.splits sum.splits)

lemma good_exit_idle:
  "running n st \<Longrightarrow> good_exit c su n (end_report (or_status (ob_report st)) o' (write_heartbeat c su oc sr al ar (last_step v st))) 0"
  unfolding good_exit_def
  by (intro conjI disjI2) (simp_all add: ob_simps running_heartbeat [where n = n] running_def)

lemma unselected_ends: "running n st \<Longrightarrow> well_ended c su n (unselected_stage c su oc st)"
  unfolding unselected_stage_def
  by (auto simp: ob_simps exit_rules good_exit_idle Let_def
      intro!: ends_andThen [where G' = "\<lambda>st _. running n st"] intro: ends_weaken [OF packet_ends])

lemma prepare_ends: "running n st \<Longrightarrow> well_ended c su n (prepare_stage c su oc st)"
  unfolding prepare_stage_def
  by (auto simp: Let_def split_beta ob_simps silent_outcomes_def exit_rules
      split: option.splits prod.split sum.splits)

lemma bootstrap_ends: "running n st \<Longrightarrow> well_ended c su n (bootstrap_stage c su oc st)"
  unfolding bootstrap_stage_def
  by (auto simp: Let_def split_beta ob_simps exit_rules running_call split: option.splits prod.split sum.splits)

lemma activate_ends: "running n st \<Longrightarrow> well_ended c su n (activate_stage c su oc st)"
  unfolding activate_stage_def
  by (auto simp: Let_def split_beta ob_simps silent_outcomes_def exit_rules running_call
      split: option.splits prod.split sum.splits)

lemma selected_ends: "running n st \<Longrightarrow> well_ended c su n (selected_stage c su oc st)"
  unfolding selected_stage_def
  by (rule ends_andThen [where G' = "\<lambda>st _. running n st"])
    (auto simp: ob_simps exit_rules intro: ends_weaken [OF packet_ends])

lemma step_ends: "running n st \<Longrightarrow>
    ends (\<lambda>st _. running (Suc n) st) (\<lambda>_ _. False) (\<lambda>_. True) (step_stage c su oc st)"
  by (auto simp: step_stage_def running_def split: prod.split sum.splits)

lemma step_heartbeat_primitives [ob_simps]:
  "running n (step_heartbeat c su oc r v st) = running n st"
  "ob_report (step_heartbeat c su oc r v st) = ob_report st"
  by (simp_all add: step_heartbeat_def ob_simps)

lemma step_heartbeat_current:
  "or_lastDecision (ob_report st) \<noteq> JUndef \<Longrightarrow> heartbeat_current c su (step_heartbeat c su oc r v st)"
  by (simp add: step_heartbeat_def heartbeat_written)

lemma keep_receipt_report:
  "keep_receipt c su oc st = (st', r) \<Longrightarrow> \<exists>v. ob_report st' = (ob_report st)\<lparr>or_lastStep := v\<rparr>"
  by (cases "ob_report st") (auto simp: keep_receipt_def ob_simps split: prod.splits sum.splits)

lemma keep_receipt_running: "keep_receipt c su oc st = (st', r) \<Longrightarrow> running n st' = running n st"
  using keep_receipt_report by (fastforce simp: running_def)

lemma execution_failed_exit:
  assumes "running n st" "code \<noteq> 0"
  shows "good_exit c su n (execution_failed c su oc r e st) code"
proof -
  let ?oc = "oc\<lparr>oc_receipt := receipt_of su oc (failed_receipt (od_message (os_deps su) e))\<rparr>"
  obtain st2 k where k: "keep_receipt c su ?oc (failed_report su ''execution-failed'' e st) = (st2, k)"
    by fastforce
  obtain v where v: "ob_report st2 = (ob_report (failed_report su ''execution-failed'' e st))\<lparr>or_lastStep := v\<rparr>"
    using keep_receipt_report [OF k] by blast
  obtain oc' where e: "execution_failed c su oc r e st = step_heartbeat c su oc' r (or_outcome (ob_report st2)) st2"
    using k by (cases k) (auto simp: execution_failed_def Let_def)
  from assms v have "or_lastDecision (ob_report st2) \<noteq> JUndef" "or_status (ob_report st2) = ''blocked''"
      "or_cycles (ob_report st2) = n"
    by (simp_all add: running_def ob_simps)
  then show ?thesis
    using assms(2) by (simp add: e good_exit_def ob_simps step_heartbeat_current)
qed

lemma execute_ends: "running n st \<Longrightarrow> well_ended c su n (execute_stage c su code r oc st)"
  unfolding execute_stage_def
  by (auto simp: Let_def execution_failed_exit running_call keep_receipt_running split: option.splits prod.split sum.splits)

lemma finish_ends:
  assumes "running n st"
  shows "ends (\<lambda>st' _. running n st' \<and>
      \<not> (num_gt (js_number (getp (os_options su) ''maxCycles'')) (Fin 0) \<and>
         num_ge (num_of_int (int n)) (js_number (getp (os_options su) ''maxCycles''))))
    (good_exit c su n) (\<lambda>_. True) (finish_stage c su code r oc st)"
proof -
  define st1 where "st1 = step_heartbeat c su oc r (getp r ''outcome'')
    (st\<lparr>ob_previousDecision := oc_decision oc, ob_previousStep := or_lastStep (ob_report st)\<rparr>)"
  have r1: "running n st1" and h: "heartbeat_current c su st1"
    using assms by (simp_all add: st1_def ob_simps running_def step_heartbeat_current)
  have "good_exit c su n (end_report ''pass'' v st1) 0" "k \<noteq> 0 \<Longrightarrow> good_exit c su n (end_report ''blocked'' v st1) k" for v k
    using r1 h by (simp_all add: good_exit_def ob_simps running_def)
  moreover have "or_status (ob_report st1) = ''pass''" "or_cycles (ob_report st1) = n"
    using r1 by (simp_all add: running_def)
  moreover have "running n (st1\<lparr>ob_slept := sl\<rparr>)" for sl
    using r1 by (simp add: running_def)
  ultimately show ?thesis
    by (simp add: finish_stage_def Let_def st1_def [symmetric])
qed

text \<open>A cycle ends the loop before its step or after it; it goes on after its step only.\<close>

lemma cycle_ends:
  assumes "running n st"
  shows "ends (\<lambda>st' _. running (Suc n) st' \<and>
      \<not> (num_gt (js_number (getp (os_options su) ''maxCycles'')) (Fin 0) \<and>
         num_ge (num_of_int (int (Suc n))) (js_number (getp (os_options su) ''maxCycles''))))
    (\<lambda>st' code. good_exit c su n st' code \<or> good_exit c su (Suc n) st' code) (\<lambda>_. True) (observer_cycle_run c su st)"
    (is "ends ?G ?E _ _")
proof -
  have before: "ends (\<lambda>st _. running n st) ?E (\<lambda>_. True) m" if "well_ended c su n m" for m
    using that by (rule ends_weaken) auto
  have after: "ends ?G ?E (\<lambda>_. True) (andThen (execute_stage c su code r oc st') (\<lambda>oc st. finish_stage c su code r oc st))"
    if "running (Suc n) st'" for code r oc st'
    by (rule ends_andThen [where G' = "\<lambda>st _. running (Suc n) st"], rule ends_weaken [OF execute_ends [OF that]])
      (auto intro: ends_weaken [OF finish_ends])
  have step: "ends (\<lambda>st _. running (Suc n) st) ?E (\<lambda>_. True) (step_stage c su oc st')" if "running n st'" for oc st'
    by (rule ends_weaken [OF step_ends [OF that]]) auto
  show ?thesis
    unfolding observer_cycle_run_def
    by (intro ends_andThen [OF before [OF schedule_ends]] ends_andThen [OF before [OF unselected_ends]]
        ends_andThen [OF before [OF prepare_ends]] ends_andThen [OF before [OF bootstrap_ends]]
        ends_andThen [OF before [OF activate_ends]] ends_andThen [OF before [OF selected_ends]]
        ends_andThen [OF step] assms)
      (assumption | (simp only: split_beta, rule after, assumption))+
qed

section \<open>The loop\<close>

text \<open>What every cycle keeps while it goes on, and shows where it ends, holds of the loop's result.\<close>

lemma loop_result:
  assumes "observer_loop c su st = Some r" "J st"
    "\<And>st. J st \<Longrightarrow> ends (\<lambda>st _. J st) E T (observer_cycle_run c su st)"
  shows "case r of (st', Inr code) \<Rightarrow> E st' code | (st', Inl e) \<Rightarrow> T st'"
proof -
  let ?keeps = "\<lambda>c su. \<forall>st. J st \<longrightarrow> ends (\<lambda>st _. J st) E T (observer_cycle_run c su st)"
  let ?shown = "\<lambda>r. case r of (st', Inr code) \<Rightarrow> E st' code | (st', Inl e) \<Rightarrow> T st'"
  have "?keeps c su \<longrightarrow> J st \<longrightarrow> ?shown r"
  proof (rule observer_loop.raw_induct [where P = "\<lambda>c su st r. ?keeps c su \<longrightarrow> J st \<longrightarrow> ?shown r", OF _ assms(1)], intro impI)
    fix loop :: "process \<Rightarrow> 'a observer_setup \<Rightarrow> 'a observer_state \<Rightarrow> ('a observer_state \<times> nat result) option"
    fix c su st r
    assume ih: "\<And>c su st r. loop c su st = Some r \<Longrightarrow> ?keeps c su \<longrightarrow> J st \<longrightarrow> ?shown r"
      and body: "(case observer_cycle_run c su st of (st', Go x) \<Rightarrow> loop c su st' | (st', Exit code) \<Rightarrow> Some (st', Inr code)
        | (st', Throw e) \<Rightarrow> Some (st', Inl e)) = Some r"
      and keeps: "?keeps c su" and j: "J st"
    obtain st' x where run: "observer_cycle_run c su st = (st', x)"
      by fastforce
    with keeps j have "ends (\<lambda>st _. J st) E T (st', x)"
      by metis
    with body run ih [of c su st' r] keeps show "?shown r"
      by (cases x) auto
  qed
  with assms(2,3) show ?thesis by blast
qed

text \<open>With a bound on the cycles the loop returns.\<close>

lemma loop_returns:
  assumes "running n st" "getp (os_options su) ''maxCycles'' = JInt (int m)" "n < m"
  shows "\<exists>r. observer_loop c su st = Some r"
  using assms
proof (induction "m - n" arbitrary: n st rule: less_induct)
  case less
  obtain st' x where run: "observer_cycle_run c su st = (st', x)"
    by fastforce
  show ?case
  proof (cases x)
    case (Go u)
    with cycle_ends [OF less(2), of su c] run less(3,4) have "running (Suc n) st'" "Suc n < m"
      by (auto simp: num_gt_def num_ge_def)
    with less(1,3,4) have "\<exists>r. observer_loop c su st' = Some r"
      by (metis diff_less_mono2 lessI)
    then show ?thesis
      using run Go by (subst observer_loop.simps) simp
  qed (use run in \<open>subst observer_loop.simps, simp\<close>)+
qed

lemma setup_fields: "observer_setup_of c options deps = Inr su \<Longrightarrow> os_options su = options \<and> os_deps su = deps"
  by (auto simp: observer_setup_of_def)

lemma start_running: "running 0 (observer_start wd)"
  by (simp add: running_def observer_start_def)

text \<open>A run of the loop on Linux, from its result.\<close>

lemma loop_of_run:
  assumes "runRuntimeObserverLoop c options deps wd = Some (st, Inr (code, report))"
  obtains su where "observer_setup_of c options deps = Inr su" "report = observer_report_json su (ob_report st)"
    "od_platform deps = ''linux'' \<Longrightarrow> observer_loop c su (observer_start wd) = Some (st, Inr code)"
    "od_platform deps \<noteq> ''linux'' \<Longrightarrow> code = 2 \<and> or_status (ob_report st) = ''blocked''"
  using assms
  by (auto simp: runRuntimeObserverLoop_def Let_def ob_simps split: sum.splits if_splits option.splits)

lemma end_report_fields:
  "getp (observer_report_json su r) ''status'' = JStr (or_status r)"
  "getp (observer_report_json su r) ''outcome'' = or_outcome r"
  "getp (observer_report_json su r) ''cyclesCompleted'' = JInt (int (or_cycles r))"
  "getp (observer_report_json su r) ''lastDecision'' = or_lastDecision r"
  "getp (observer_report_json su r) ''heartbeatPath'' = JStr (op_heartbeat (os_paths su))"
  by (simp_all add: observer_report_json_def Let_def)

lemma loop_good_exit:
  "observer_loop c su (observer_start wd) = Some (st, Inr code) \<Longrightarrow> \<exists>n. good_exit c su n st code"
proof -
  assume l: "observer_loop c su (observer_start wd) = Some (st, Inr code)"
  have "ends (\<lambda>st _. \<exists>n. running n st) (\<lambda>st code. \<exists>n. good_exit c su n st code) (\<lambda>_. True) (observer_cycle_run c su st)"
    if "\<exists>n. running n st" for st
    using that cycle_ends by (blast intro: ends_weaken)
  from loop_result [OF l, of "\<lambda>st. \<exists>n. running n st", OF _ this] start_running show ?thesis
    by fastforce
qed

text \<open>
  The status of the report and the exit code always agree.
\<close>

theorem observer_exit_status:
  assumes "runRuntimeObserverLoop c options deps wd = Some (st, Inr (code, report))"
  shows "getp report ''status'' = JStr (if code = 0 then ''pass'' else ''blocked'')"
  using assms
proof (rule loop_of_run)
  fix su
  assume r: "report = observer_report_json su (ob_report st)"
    and linux: "od_platform deps = ''linux'' \<Longrightarrow> observer_loop c su (observer_start wd) = Some (st, Inr code)"
    and other: "od_platform deps \<noteq> ''linux'' \<Longrightarrow> code = 2 \<and> or_status (ob_report st) = ''blocked''"
  show ?thesis
  proof (cases "od_platform deps = ''linux''")
    case True
    then show ?thesis
      using loop_good_exit [OF linux] by (auto simp: r end_report_fields good_exit_def)
  qed (use other in \<open>simp add: r end_report_fields\<close>)
qed

text \<open>
  C35: When the loop returns a report on Linux, and the outcome is none of scheduler-failed,
  worker-prepare-failed and worker-activate-failed, the heartbeat file holds one document whose
  completed cycles and scheduler decision are those of the report.
\<close>

theorem observer_heartbeat_current:
  assumes "runRuntimeObserverLoop c options deps wd = Some (st, Inr (code, report))" "od_platform deps = ''linux''"
    "getp report ''outcome'' \<notin> JStr ` set silent_outcomes"
  shows "\<exists>p d. getp report ''heartbeatPath'' = JStr p \<and> map_of (files_of st) (absolute_path c p) = Some (JsonTexts [d]) \<and>
    getp d ''cyclesCompleted'' = getp report ''cyclesCompleted'' \<and>
    getp d ''schedulerDecision'' = json_norm (getp report ''lastDecision'')"
proof -
  obtain su where "observer_loop c su (observer_start wd) = Some (st, Inr code)" "report = observer_report_json su (ob_report st)"
    using assms(2) by (auto intro: loop_of_run [OF assms(1)])
  then show ?thesis
    using assms(3) loop_good_exit [of c su wd st code]
    by (auto simp: end_report_fields good_exit_def heartbeat_current_def)
qed

text \<open>
  A bound on the cycles makes the loop return, and it never completes more cycles than the bound.
\<close>

lemma bounded_run_returns:
  assumes "getp options ''maxCycles'' = JInt (int m)" "0 < m"
  shows "\<exists>st r. runRuntimeObserverLoop c options deps wd = Some (st, r) \<and>
    (\<forall>code report. r = Inr (code, report) \<longrightarrow> (\<exists>k \<le> m. getp report ''cyclesCompleted'' = JInt (int k)))"
proof (cases "observer_setup_of c options deps")
  case (Inl e)
  then show ?thesis by (simp add: runRuntimeObserverLoop_def)
next
  case su: (Inr su)
  then have max: "getp (os_options su) ''maxCycles'' = JInt (int m)"
    using assms(1) setup_fields by fastforce
  show ?thesis
  proof (cases "od_platform deps = ''linux''")
    case False
    with su show ?thesis
      by (simp add: runRuntimeObserverLoop_def Let_def ob_simps end_report_fields observer_start_def)
  next
    case True
    obtain st r where l: "observer_loop c su (observer_start wd) = Some (st, r)"
      using loop_returns [OF start_running max assms(2)] by fastforce
    have "ends (\<lambda>st _. \<exists>n < m. running n st) (\<lambda>st code. or_cycles (ob_report st) \<le> m) (\<lambda>_. True) (observer_cycle_run c su st)"
      if running: "\<exists>n < m. running n st" for st
    proof -
      from running obtain n where "n < m" "running n st" by blast
      with max show ?thesis
        by (intro ends_weaken [OF cycle_ends]) (auto simp: good_exit_def num_gt_def num_ge_def intro!: exI [of _ "Suc n"])
    qed
    from loop_result [OF l, of "\<lambda>st. \<exists>n < m. running n st", OF _ this] start_running assms(2)
    have "\<forall>code. r = Inr code \<longrightarrow> or_cycles (ob_report st) \<le> m"
      by fastforce
    with True su l show ?thesis
      by (cases r) (auto simp: runRuntimeObserverLoop_def Let_def end_report_fields)
  qed
qed

section \<open>The command line\<close>

text \<open>Parsed options are an object whose bound on the cycles is a natural number.\<close>

definition bounded_options :: "jsval \<Rightarrow> bool" where
  "bounded_options v \<longleftrightarrow> (\<exists>kvs n. v = JObj kvs \<and> lookup kvs ''maxCycles'' = JInt (int n))"

lemma toPositiveInteger_ob_nat:
  "toPositiveInteger_ob (JStr s) label True = Inr v \<Longrightarrow> \<exists>n. v = JInt (int n)"
proof -
  assume "toPositiveInteger_ob (JStr s) label True = Inr v"
  then obtain i where "v = JInt i" "0 \<le> i"
    by (cases "number_of_string s") (auto simp: toPositiveInteger_ob_def Let_def split: if_splits)
  then show ?thesis
    by (intro exI [of _ "nat i"]) simp
qed

lemma observer_option_bounded:
  assumes "observer_option token next = Some (key, Inr v)" "bounded_options options"
  shows "bounded_options (set_field options key v)"
proof (cases "key = ''maxCycles''")
  case True
  with assms(1) have "toPositiveInteger_ob (JStr next) token True = Inr v"
    by (auto simp: observer_option_def observer_text_options_def observer_int_options_def split: if_splits)
  with assms(2) True show ?thesis
    using toPositiveInteger_ob_nat by (fastforce simp: bounded_options_def)
qed (use assms(2) in \<open>auto simp: bounded_options_def\<close>)

lemma observer_flag_bounded:
  "map_of observer_flags token = Some key \<Longrightarrow> bounded_options options \<Longrightarrow> bounded_options (set_field options key v)"
  by (auto simp: observer_flags_def bounded_options_def split: if_splits)

lemma parse_observer_bounded:
  "parse_observer_args options argv = Inr r \<Longrightarrow> bounded_options options \<Longrightarrow> bounded_options r"
proof (induction "length argv" arbitrary: options argv rule: less_induct)
  case less
  show ?case
  proof (cases argv)
    case Nil
    with less(2,3) show ?thesis by simp
  next
    case argv: (Cons token rest)
    show ?thesis
    proof (cases "map_of observer_flags token")
      case (Some key)
      then have "parse_observer_args (set_field options key (JBool True)) rest = Inr r"
        using less(2) argv by simp
      from less(1) [OF _ this observer_flag_bounded [OF Some less(3)]] argv show ?thesis by simp
    next
      case none: None
      with less(2) argv have known: "observer_option token [] \<noteq> None"
        by (auto split: if_splits)
      show ?thesis
      proof (cases rest)
        case Nil
        with less(2) argv none known show ?thesis by simp
      next
        case (Cons next' rest')
        with less(2) argv none known obtain key v where ok: "observer_option token next' = Some (key, Inr v)"
            "parse_observer_args (set_field options key v) rest' = Inr r"
          by (auto split: if_splits option.splits)
        from less(1) [OF _ ok(2) observer_option_bounded [OF ok(1) less(3)]] argv Cons show ?thesis by simp
      qed
    qed
  qed
qed

lemma parsed_observer_bounded: "parseObserverArgs argv = Inr options \<Longrightarrow> bounded_options options"
  by (auto simp: parseObserverArgs_def Let_def observer_defaults_def bounded_options_def split: if_splits
      dest!: parse_observer_bounded)

text \<open>
  C34: A run of the observer command line that parses and does not ask for 0 cycles ends, by
  returning or by throwing, whatever the files are and whatever the hooks do as long as each call
  of a hook ends: the cycle limit is a natural number, and a report that is returned counts at
  most that many completed cycles. (A limit of 0 means no bound.)
\<close>

theorem observer_cli_returns:
  assumes "parseObserverArgs argv = Inr options" "getp options ''maxCycles'' \<noteq> JInt 0"
  shows "\<exists>m st r. getp options ''maxCycles'' = JInt (int m) \<and> runObserverCli c argv deps wd = Some (st, r) \<and>
    (\<forall>code report. r = Inr (code, Some report) \<longrightarrow> (\<exists>k \<le> m. getp report ''cyclesCompleted'' = JInt (int k)))"
proof -
  obtain m where m: "getp options ''maxCycles'' = JInt (int m)"
    using parsed_observer_bounded [OF assms(1)] by (auto simp: bounded_options_def)
  with assms(2) obtain st r where r: "runRuntimeObserverLoop c options deps wd = Some (st, r)"
      "\<forall>code report. r = Inr (code, report) \<longrightarrow> (\<exists>k \<le> m. getp report ''cyclesCompleted'' = JInt (int k))"
    using bounded_run_returns [OF m, of c deps wd] by auto
  show ?thesis
  proof (cases "truthy (getp options ''help'')")
    case True
    then show ?thesis by (simp add: m runObserverCli_def assms(1))
  next
    case False
    with r m show ?thesis
      by (cases r) (auto simp: runObserverCli_def assms(1) split: if_splits)
  qed
qed

section \<open>The recent events\<close>

lemma whole_lines_suffix:
  "\<exists>n \<le> length vs. whole_lines window vs = drop n vs \<and>
     (if log_bytes vs \<le> window then n = 0
      else (n = length vs \<or> log_bytes (drop n vs) < window) \<and> (\<forall>k < n. window \<le> log_bytes (drop k vs)))"
proof (cases "log_bytes vs \<le> window")
  case True
  then show ?thesis by (auto simp: whole_lines_def)
next
  case False
  define fits where "fits = (\<lambda>ws. ws = [] \<or> log_bytes ws < window)"
  define n where "n = (LEAST n. fits (drop n vs))"
  have end_fits: "fits (drop (length vs) vs)"
    by (simp add: fits_def)
  have fits_n: "fits (drop n vs)" and n: "n \<le> length vs"
    unfolding n_def by (rule LeastI [of "\<lambda>n. fits (drop n vs)", OF end_fits], rule Least_le, rule end_fits)
  have less: "\<not> fits (drop k vs)" if "k < n" for k
    using that not_less_Least by (auto simp: n_def)
  have "[0..<Suc (length vs)] = [0..<n] @ [n..<Suc (length vs)]"
    using n upt_add_eq_append [of 0 n "Suc (length vs) - n"] by (simp add: le_SucI del: upt_Suc)
  moreover have "[n..<Suc (length vs)] = n # [Suc n..<Suc (length vs)]"
    using n by (intro upt_conv_Cons) simp
  ultimately have "filter fits (map (\<lambda>n. drop n vs) [0..<Suc (length vs)]) =
      drop n vs # filter fits (map (\<lambda>n. drop n vs) [Suc n..<Suc (length vs)])"
    using less fits_n by (auto simp: filter_empty_conv simp del: upt_Suc)
  moreover have "whole_lines window vs = hd (filter fits (map (\<lambda>n. drop n vs) [0..<Suc (length vs)]))"
    using False by (simp add: whole_lines_def fits_def del: upt_Suc)
  ultimately have "whole_lines window vs = drop n vs"
    by simp
  then show ?thesis
    using False n fits_n less by (auto simp: fits_def not_less intro!: exI [of _ n])
qed

text \<open>
  The recent events of a log are its last lines: at most the limit, within the byte window when
  the log is longer, and no line is left out that both would admit.
\<close>

theorem recent_events_suffix:
  assumes "map_of fs (absolute_path c p) = Some (JsonTexts vs)"
  shows "\<exists>n \<le> length vs. readRecentEvents c p limit fs = drop n vs \<and> length vs - n \<le> limit \<and>
    (log_bytes vs \<le> MAX_RECENT_EVENTS_BYTES \<or> n = length vs \<or> log_bytes (drop n vs) < MAX_RECENT_EVENTS_BYTES) \<and>
    (n = 0 \<or> length vs - n = limit \<or> MAX_RECENT_EVENTS_BYTES \<le> log_bytes (drop (n - 1) vs))"
proof -
  obtain n where n: "n \<le> length vs" "whole_lines MAX_RECENT_EVENTS_BYTES vs = drop n vs"
      "if log_bytes vs \<le> MAX_RECENT_EVENTS_BYTES then n = 0
       else (n = length vs \<or> log_bytes (drop n vs) < MAX_RECENT_EVENTS_BYTES) \<and>
         (\<forall>k < n. MAX_RECENT_EVENTS_BYTES \<le> log_bytes (drop k vs))"
    using whole_lines_suffix by blast
  have shorter: "log_bytes (drop k ws) \<le> log_bytes ws" for k and ws :: "jsval list"
    by (induction ws arbitrary: k) (auto simp: log_bytes_def drop_Cons split: nat.split intro: le_add2 order_trans)
  define m where "m = n + (length vs - n - limit)"
  have r: "readRecentEvents c p limit fs = drop m vs" "m \<le> length vs"
    using assms n(1,2) by (simp_all add: readRecentEvents_def m_def add.commute)
  have "log_bytes (drop m vs) \<le> log_bytes (drop n vs)"
    using shorter [of "length vs - n - limit" "drop n vs"] by (simp add: m_def add.commute)
  moreover have "n = 0 \<or> MAX_RECENT_EVENTS_BYTES \<le> log_bytes (drop (n - 1) vs)"
    using n(3) by (cases n) (auto split: if_splits)
  moreover have "m = n \<or> length vs - m = limit"
    using n(1) by (auto simp: m_def)
  ultimately show ?thesis
    using r n(1,3) by (intro exI [of _ m]) (auto simp: m_def split: if_splits)
qed

section \<open>Idle heartbeats\<close>

text \<open>
  The heartbeat of a loop that stopped because the scheduler was idle is never an idle signal: its
  outcome is \<^verbatim>\<open>idle-stop\<close>, it has no execution details, and the last way to qualify asks for details
  of a lane that is absent.
\<close>

lemma unseen_heartbeat:
  assumes "getp2 (getp d ''activeLane'') ''execution'' ''details'' = JUndef" "\<not> says (getp d ''outcome'') ''queue-empty''"
  shows "\<not> ig_qualifies (normalizeObserverIdleSignal d now threshold)"
proof -
  have "object_or_null JUndef = JNull" "\<not> says JUndef s" for s
    by (simp_all add: object_or_null_def says_def asOptional_def)
  then show ?thesis
    using assms by (simp add: normalizeObserverIdleSignal_def Let_def getp_object_or_null)
qed

lemma json_absent: "k \<notin> set (map fst kvs) \<Longrightarrow> getp (json_norm (JObj kvs)) k = JUndef"
  by (induction kvs) auto

definition asked_options :: "jsval \<Rightarrow> jsval" where
  "asked_options raw = normalizeStepOptions (js_or (getp raw ''stepOptions'') (JObj []))"

lemma decision_parts:
  "lane_part (buildSchedulerDecision raw t n a repo) k = getp (summarizeStepOptions (asked_options raw)) k"
  "getp (buildSchedulerDecision raw t n a repo) ''activeLane'' = summarizeStepOptions (asked_options raw)"
  "getp (buildSchedulerDecision raw t n a repo) ''outcome'' = JStr (decision_outcome raw (asked_options raw))"
  "getp (buildSchedulerDecision raw t n a repo) ''stepOptions'' =
     (if hasStepContext (asked_options raw) then asked_options raw else JNull)"
  by (simp_all add: buildSchedulerDecision_def asked_options_def Let_def)

lemma lane_keys:
  "set (map fst (override (spread (summarizeStepOptions v)) (if truthy k then [(''taskPacket'', packet_digest k)] else [])))
     \<subseteq> {''laneId'', ''issue'', ''epic'', ''forkRemote'', ''branch'', ''prUrl'', ''blockerClass'', ''taskPacket''}"
  by (auto simp: summarizeStepOptions_def Let_def override_def)

lemma unexecuted_lane:
  assumes "getp decision ''activeLane'' = summarizeStepOptions v"
  shows "getp (json_norm (buildObservedActiveLane decision JNull JNull JNull k JNull)) ''execution'' = JUndef"
proof (cases "truthy (summarizeStepOptions v)")
  case True
  have "''execution'' \<notin> set (map fst (override (spread (summarizeStepOptions v))
      (if truthy k then [(''taskPacket'', packet_digest k)] else [])))"
    using lane_keys [of v k] by fastforce
  from json_absent [OF this] True show ?thesis
    by (simp add: buildObservedActiveLane_def assms with_fields_def del: json_norm.simps(7))
qed (simp add: buildObservedActiveLane_def assms)

definition is_decision :: "jsval \<Rightarrow> bool" where
  "is_decision v \<longleftrightarrow> (\<exists>raw t n a repo. v = buildSchedulerDecision raw t n a repo)"

lemma is_decision_built [simp]: "is_decision (buildSchedulerDecision raw t n a repo)"
  unfolding is_decision_def by blast

text \<open>What the scheduler stage hands on: a cycle with a decision, and nothing prepared yet.\<close>

definition fresh_cycle :: "observer_cycle \<Rightarrow> bool" where
  "fresh_cycle oc \<longleftrightarrow>
     (\<exists>n t v ps. oc = (new_cycle n t)\<lparr>oc_decision := v, oc_decisionPaths := ps\<rparr> \<and> is_decision v)"

lemma fresh_cycleI: "is_decision v \<Longrightarrow> fresh_cycle ((new_cycle n t)\<lparr>oc_decision := v, oc_decisionPaths := ps\<rparr>)"
  unfolding fresh_cycle_def by blast

lemma decision_built: "resolveSchedulerDecision c su oc st = (st', Inr v) \<Longrightarrow> is_decision v"
  by (auto simp: resolveSchedulerDecision_def Let_def split_beta split: option.splits sum.splits)

lemma idle_heartbeat_unseen:
  assumes "unselected_stage c su oc st = (st', Exit 0)"
    "fresh_cycle oc"
  shows "or_outcome (ob_report st') = JStr ''idle-stop'' \<and> (\<exists>d. map_of (files_of st') (absolute_path c (op_heartbeat (os_paths su))) = Some (JsonTexts [d]) \<and>
    getp d ''outcome'' = JStr ''idle-stop'' \<and> (\<forall>now threshold. \<not> ig_qualifies (normalizeObserverIdleSignal d now threshold)))"
proof -
  obtain n t raw tIso n' a repo ps where oc:
      "oc = (new_cycle n t)\<lparr>oc_decision := buildSchedulerDecision raw tIso n' a repo, oc_decisionPaths := ps\<rparr>"
    using assms(2) by (auto simp: fresh_cycle_def is_decision_def)
  have "ends (\<lambda>st oc'. oc_decision oc' = oc_decision oc \<and> oc_worker oc' = JNull \<and> oc_ready oc' = JNull \<and> oc_branch oc' = JNull)
      (\<lambda>_ _. False) (\<lambda>_. True) (packet_stage c su oc st)"
    using oc by (auto simp: packet_stage_def new_cycle_def split: prod.splits sum.splits)
  then obtain st1 oc1 where p: "packet_stage c su oc st = (st1, Go oc1)" "oc_decision oc1 = oc_decision oc"
      "oc_worker oc1 = JNull" "oc_ready oc1 = JNull" "oc_branch oc1 = JNull"
    using assms(1) by (cases "packet_stage c su oc st"; cases "snd (packet_stage c su oc st)")
      (auto simp: unselected_stage_def split: if_splits)
  define d where "d = json_norm (heartbeat su (snd (read_clock su (last_step (step_summary 0 ''idle'' [(''taskPacket'', oc_packet oc1)]) st1)))
    (fst (read_clock su (last_step (step_summary 0 ''idle'' [(''taskPacket'', oc_packet oc1)]) st1))) (JStr ''idle-stop'') False
    (observed_lane oc1) (buildObserverArtifacts (os_paths su) oc1 False))"
  have "map_of (files_of st') (absolute_path c (op_heartbeat (os_paths su))) = Some (JsonTexts [d])"
    using assms(1) p(1)
    by (auto simp: unselected_stage_def Let_def ob_simps store_simps d_def simp del: json_norm.simps split: if_splits)
  moreover have "observed_lane oc1 \<noteq> JUndef"
    by (simp add: observed_lane_def buildObservedActiveLane_def)
  then have "getp d ''outcome'' = JStr ''idle-stop''" "getp d ''activeLane'' = json_norm (observed_lane oc1)"
    by (simp_all add: d_def heartbeat_def getp_json_norm_defined del: json_norm.simps(7))
  moreover have "getp (json_norm (observed_lane oc1)) ''execution'' = JUndef"
    using p(2-) oc by (simp add: observed_lane_def unexecuted_lane decision_parts(2))
  moreover have "\<not> says (JStr ''idle-stop'') ''queue-empty''"
    by code_simp
  moreover have "or_outcome (ob_report st') = JStr ''idle-stop''"
    using assms(1) p(1) by (auto simp: unselected_stage_def Let_def ob_simps split: if_splits)
  ultimately show ?thesis
    using unseen_heartbeat [of d] by auto
qed

text \<open>Before its step a cycle ends with code 0 in the idle stage only.\<close>

definition idle_end :: "process \<Rightarrow> 'w observer_setup \<Rightarrow> 'w observer_state \<Rightarrow> bool" where
  "idle_end c su st \<longleftrightarrow> or_outcome (ob_report st) = JStr ''idle-stop'' \<and>
     (\<exists>d. map_of (files_of st) (absolute_path c (op_heartbeat (os_paths su))) = Some (JsonTexts [d]) \<and>
        getp d ''outcome'' = JStr ''idle-stop'' \<and> (\<forall>now threshold. \<not> ig_qualifies (normalizeObserverIdleSignal d now threshold)))"

abbreviation ends_code :: "(nat \<Rightarrow> bool) \<Rightarrow> 's \<times> 'a control \<Rightarrow> bool" where
  "ends_code P \<equiv> ends (\<lambda>_ _. True) (\<lambda>_ code. P code) (\<lambda>_. True)"

lemma stage_codes:
  "ends_code (\<lambda>code. code = 13) (prepare_stage c su oc st)"
  "ends_code (\<lambda>code. code \<noteq> 0) (bootstrap_stage c su oc st)"
  "ends_code (\<lambda>code. code \<noteq> 0) (activate_stage c su oc st)"
  "ends_code (\<lambda>code. code \<noteq> 0) (selected_stage c su oc st)"
proof -
  show "ends_code (\<lambda>code. code = 13) (prepare_stage c su oc st)"
    by (auto simp: prepare_stage_def Let_def split_beta split: option.splits sum.splits)
  show "ends_code (\<lambda>code. code \<noteq> 0) (bootstrap_stage c su oc st)"
    by (auto simp: bootstrap_stage_def Let_def split_beta split: option.splits sum.splits)
  show "ends_code (\<lambda>code. code \<noteq> 0) (activate_stage c su oc st)"
    by (auto simp: activate_stage_def Let_def split_beta split: option.splits sum.splits)
  have "ends (\<lambda>_ _. True) (\<lambda>_ _. False) (\<lambda>_. True) (packet_stage c su oc st)"
    by (auto simp: packet_stage_def Let_def split: prod.splits sum.splits)
  then show "ends_code (\<lambda>code. code \<noteq> 0) (selected_stage c su oc st)"
    unfolding selected_stage_def
    by (intro ends_andThen [where G' = "\<lambda>_ _. True"]) (auto intro: ends_weaken)
qed

lemma schedule_fresh: "ends (\<lambda>_ oc. fresh_cycle oc) (\<lambda>_ code. code \<noteq> 0) (\<lambda>_. True) (schedule_stage c su st)"
proof -
  let ?oc = "new_cycle (Suc (or_cycles (ob_report st))) (fst (read_clock su st))"
  obtain st' d where d: "resolveSchedulerDecision c su ?oc (snd (read_clock su st)) = (st', d)"
    by fastforce
  show ?thesis
  proof (cases d)
    case (Inr v)
    with d have "is_decision v" using decision_built by blast
    with d Inr show ?thesis
      by (simp add: schedule_stage_def split_beta Let_def fresh_cycleI)
  qed (use d in \<open>simp add: schedule_stage_def split_beta Let_def\<close>)
qed

lemma unselected_idle:
  assumes "fresh_cycle oc"
  shows "ends (\<lambda>_ _. True) (\<lambda>st code. code = 0 \<longrightarrow> idle_end c su st) (\<lambda>_. True) (unselected_stage c su oc st)"
proof -
  obtain st' x where "unselected_stage c su oc st = (st', x)" by fastforce
  then show ?thesis
    using idle_heartbeat_unseen [OF _ assms] by (cases x) (auto simp: idle_end_def)
qed

text \<open>
  C38: A cycle of the running loop that ends it with code 0 before its step is an idle stop, and
  the heartbeat it leaves on disk does not qualify as an idle observer signal of the current-cycle
  idle authority, at any later time and for any threshold.
\<close>

theorem idle_stop_unseen:
  assumes "running n st" "observer_cycle_run c su st = (st', Exit 0)" "or_cycles (ob_report st') = n"
  shows "or_outcome (ob_report st') = JStr ''idle-stop'' \<and>
    (\<exists>d. map_of (files_of st') (absolute_path c (op_heartbeat (os_paths su))) = Some (JsonTexts [d]) \<and>
      getp d ''outcome'' = JStr ''idle-stop'' \<and> (\<forall>now threshold. \<not> ig_qualifies (normalizeObserverIdleSignal d now threshold)))"
proof -
  let ?E = "\<lambda>st code. code = 0 \<and> or_cycles (ob_report st) = n \<longrightarrow> idle_end c su st"
  have first: "ends (\<lambda>st oc. running n st \<and> fresh_cycle oc) ?E (\<lambda>_. True) (schedule_stage c su st)"
    using ends_conj [OF schedule_ends [OF assms(1)] schedule_fresh] by (rule ends_weaken) auto
  have idle: "ends (\<lambda>st _. running n st) ?E (\<lambda>_. True) (unselected_stage c su oc s)" if "running n s" "fresh_cycle oc" for oc s
    using ends_conj [OF unselected_ends [OF that(1)] unselected_idle [OF that(2)]] by (rule ends_weaken) auto
  have stage: "ends (\<lambda>st _. running n st) ?E (\<lambda>_. True) m" if "well_ended c su n m" "ends_code (\<lambda>code. code \<noteq> 0) m"
    for m :: "'a observer_state \<times> observer_cycle control"
    using ends_conj [OF that] by (rule ends_weaken) auto
  have prep: "ends_code (\<lambda>code. code \<noteq> 0) (prepare_stage c su oc s)" for oc s
    using stage_codes(1) by (rule ends_weaken) auto
  have step: "ends (\<lambda>st _. running (Suc n) st) ?E (\<lambda>_. True) (step_stage c su oc s)" if "running n s" for oc s
    by (rule ends_weaken [OF step_ends [OF that]]) auto
  have late: "ends (\<lambda>st _. P st) ?E (\<lambda>_. True) m" if "ends (\<lambda>st _. P st) (good_exit c su (Suc n)) (\<lambda>_. True) m"
    for m :: "'a observer_state \<times> 'b control" and P
    using that by (rule ends_weaken) (auto simp: good_exit_def)
  have after: "ends (\<lambda>_ _. True) ?E (\<lambda>_. True) (andThen (execute_stage c su code r oc s) (\<lambda>oc st. finish_stage c su code r oc st))"
    if "running (Suc n) s" for code r oc s
    by (rule ends_andThen [where G' = "\<lambda>st _. running (Suc n) st"], rule late [OF execute_ends [OF that]])
      (rule ends_weaken [OF finish_ends], auto simp: good_exit_def)
  have "ends (\<lambda>_ _. True) ?E (\<lambda>_. True) (observer_cycle_run c su st)"
    unfolding observer_cycle_run_def
    apply (rule ends_andThen [OF first])
    apply (rule ends_andThen [OF idle], blast, blast)
    apply (rule ends_andThen [OF stage [OF prepare_ends prep]], assumption)
    apply (rule ends_andThen [OF stage [OF bootstrap_ends stage_codes(2)]], assumption)
    apply (rule ends_andThen [OF stage [OF activate_ends stage_codes(3)]], assumption)
    apply (rule ends_andThen [OF stage [OF selected_ends stage_codes(4)]], assumption)
    apply (rule ends_andThen [OF step], assumption)
    apply (auto simp only: split_beta intro!: after)
    done
  with assms(2,3) show ?thesis
    by (simp add: idle_end_def)
qed

section \<open>The lane of a step\<close>

lemma lookup_text_entry:
  "lookup (text_entry v k' @ ys) k =
     (if k = k' \<and> normalizeText (getp v k) \<noteq> [] then JStr (normalizeText (getp v k)) else lookup ys k)"
  by (auto simp: text_entry_def Let_def)

lemma lookup_integer_entry:
  "lookup (integer_entry v k' @ ys) k =
     (if k = k' \<and> coercePositiveInteger (getp v k) \<noteq> JNull then coercePositiveInteger (getp v k) else lookup ys k)"
  by (auto simp: integer_entry_def Let_def)

lemma lookup_when: "lookup ((if b then [(k', w)] else []) @ ys) k = (if b \<and> k = k' then w else lookup ys k)"
    "lookup (if b then [] else [(k', w)]) k = (if \<not> b \<and> k = k' then w else JUndef)"
  by simp_all

lemmas lookup_options = lookup_text_entry lookup_integer_entry lookup_when

definition lane_texts :: "string list" where
  "lane_texts = [''lane'', ''forkRemote'', ''branch'', ''prUrl'']"

lemma normalized_text:
  "k \<in> set lane_texts \<Longrightarrow> getp (normalizeStepOptions v) k =
     (if normalizeText (getp v k) = [] then JUndef else JStr (normalizeText (getp v k)))"
  by (auto simp: lane_texts_def normalizeStepOptions_def Let_def lookup_options)

lemma normalized_integer:
  "k \<in> {''issue'', ''epic''} \<Longrightarrow> getp (normalizeStepOptions v) k =
     (if coercePositiveInteger (getp v k) = JNull then JUndef else coercePositiveInteger (getp v k))"
  by (auto simp: normalizeStepOptions_def Let_def lookup_options)

lemma normalized_blocker:
  "getp (normalizeStepOptions v) ''blockerClass'' = JUndef \<or>
   (\<exists>b \<in> set BLOCKER_CLASSES. getp (normalizeStepOptions v) ''blockerClass'' = JStr b)"
  by (auto simp: normalizeStepOptions_def Let_def lookup_options)

lemma coerced_cases:
  obtains "coercePositiveInteger v = JNull"
  | i where "coercePositiveInteger v = JInt i" "0 < i"
proof (cases "coercePositiveInteger v = JNull")
  case False
  then obtain x where "coercePositiveInteger v = JNum (Fin x)" "of_int \<lfloor>x\<rfloor> = x" "0 < x"
    by (cases "js_number v") (auto simp: coercePositiveInteger_def num_gt_def split: if_splits)
  then show ?thesis
    by (metis that(2) of_int_0_less_iff)
qed (rule that)

lemma lookup_filter: "(\<And>v. P (k, v) = p) \<Longrightarrow> lookup (filter P kvs) k = (if p then lookup kvs k else JUndef)"
  by (induction kvs) auto

lemma entry_keys:
  "k \<noteq> k' \<Longrightarrow> k \<in> fst ` set (text_entry v k' @ xs) \<longleftrightarrow> k \<in> fst ` set xs"
  "k \<noteq> k' \<Longrightarrow> k \<in> fst ` set (integer_entry v k' @ xs) \<longleftrightarrow> k \<in> fst ` set xs"
  "k \<notin> fst ` set xs \<Longrightarrow> distinct (map fst (text_entry v k @ xs)) \<longleftrightarrow> distinct (map fst xs)"
  "k \<notin> fst ` set xs \<Longrightarrow> distinct (map fst (integer_entry v k @ xs)) \<longleftrightarrow> distinct (map fst xs)"
  by (simp_all add: text_entry_def integer_entry_def Let_def)

lemma override_empty: "distinct (map fst kvs) \<Longrightarrow> lookup (override [] kvs) k = lookup kvs k"
proof (induction kvs rule: rev_induct)
  case (snoc kv kvs)
  obtain a b where "kv = (a, b)" by fastforce
  moreover have "lookup (xs @ [(a, b)]) k = (if k \<in> fst ` set xs then lookup xs k else if a = k then b else JUndef)" for xs
    by (induction xs) force+
  moreover have "k \<notin> fst ` set kvs \<Longrightarrow> lookup kvs k = JUndef"
    by (induction kvs) auto
  ultimately show ?case
    using snoc by (auto simp: override_def)
qed simp

lemma normalized_object: "\<exists>kvs. normalizeStepOptions v = JObj kvs \<and> distinct (map fst kvs)"
proof -
  have "distinct (map fst (spread (normalizeStepOptions v)))"
    unfolding normalizeStepOptions_def Let_def spread.simps
    by (subst entry_keys, simp add: entry_keys del: map_append set_append)+ simp
  then show ?thesis
    by (simp add: normalizeStepOptions_def Let_def)
qed

text \<open>What the step reads of the options it gets.\<close>

definition options_of_step :: "'w observer_setup \<Rightarrow> observer_cycle \<Rightarrow> jsval" where
  "options_of_step su oc = JObj (override (step_options su oc) [(''action'', JStr ''step'')])"

lemma step_option_lane:
  assumes "k \<in> set SCHEDULER_STEP_OPTION_KEYS" "oc_decision oc = buildSchedulerDecision raw t n a repo"
  shows "getp (options_of_step su oc) k = (if hasStepContext (asked_options raw) then getp (asked_options raw) k else JUndef)"
proof -
  obtain kvs where kvs: "asked_options raw = JObj kvs" "distinct (map fst kvs)"
    using normalized_object unfolding asked_options_def by blast
  have "lookup (filter (\<lambda>(k, v). k \<notin> set SCHEDULER_STEP_OPTION_KEYS) (spread (os_options su))) k = JUndef"
    using assms(1) by (subst lookup_filter [of _ _ False]) simp_all
  moreover have "k \<notin> fst ` set kvs \<Longrightarrow> lookup kvs k = JUndef"
    by (induction kvs) auto
  moreover have "getp (options_of_step su oc) k = lookup (buildWorkerStepOptions (os_options su) (oc_decision oc)) k"
    using assms(1) by (auto simp: options_of_step_def step_options_def SCHEDULER_STEP_OPTION_KEYS_def)
  ultimately show ?thesis
    using kvs by (auto simp: buildWorkerStepOptions_def assms(2) decision_parts Let_def override_empty
        lookup_override [of "filter P xs" for P xs])
qed

definition lane_facts :: "string list" where
  "lane_facts = [''laneId'', ''issue'', ''epic'', ''forkRemote'', ''branch'', ''prUrl'', ''blockerClass'']"

lemma lower_blocker: "b \<in> set BLOCKER_CLASSES \<Longrightarrow> lower_or ''none'' (JStr b) = b \<and> b \<noteq> []"
proof -
  have "list_all (\<lambda>b. lower_or ''none'' (JStr b) = b \<and> b \<noteq> []) BLOCKER_CLASSES"
    by code_simp
  then show "b \<in> set BLOCKER_CLASSES \<Longrightarrow> lower_or ''none'' (JStr b) = b \<and> b \<noteq> []"
    by (simp add: list_all_iff)
qed

lemma lane_keys_options: "k \<in> set lane_texts \<union> {''issue'', ''epic'', ''blockerClass''} \<Longrightarrow> k \<in> set SCHEDULER_STEP_OPTION_KEYS"
  by (auto simp: lane_texts_def SCHEDULER_STEP_OPTION_KEYS_def)

text \<open>The facts of a lane, as the harness and as the observer read them from step options.\<close>

definition harness_facts :: "jsval \<Rightarrow> jsval list" where
  "harness_facts v =
     [lane_id_of v, integer_or_null (getp v ''issue''), integer_or_null (getp v ''epic''),
      toOptionalText (getp v ''forkRemote''), toOptionalText (getp v ''branch''), toOptionalText (getp v ''prUrl''),
      js_or (getp v ''blockerClass'') (JStr ''none'')]"

lemma record_facts:
  assumes "has_lane_context v"
  shows "truthy (buildLaneRecord v t)" "getp (buildLaneRecord v t) ''laneId'' = lane_id_of v"
    "getp (buildLaneRecord v t) ''issue'' = integer_or_null (getp v ''issue'')"
    "getp (buildLaneRecord v t) ''epic'' = integer_or_null (getp v ''epic'')"
    "getp (buildLaneRecord v t) ''forkRemote'' = toOptionalText (getp v ''forkRemote'')"
    "getp (buildLaneRecord v t) ''branch'' = toOptionalText (getp v ''branch'')"
    "getp (buildLaneRecord v t) ''prUrl'' = toOptionalText (getp v ''prUrl'')"
    "getp2 (buildLaneRecord v t) ''blocker'' ''blockerClass'' =
       (if js_or (getp v ''blockerClass'') (JStr ''none'') = JStr ''none'' then JUndef
        else js_or (getp v ''blockerClass'') (JStr ''none''))"
  using assms by (simp_all add: buildLaneRecord_def Let_def)

lemma summary_facts:
  "truthy lane \<Longrightarrow> map (getp (buildActiveLaneSummary lane)) lane_facts =
     [getp lane ''laneId'', getp lane ''issue'', getp lane ''epic'', getp lane ''forkRemote'', getp lane ''branch'',
      getp lane ''prUrl'', js_coalesce (getp2 lane ''blocker'' ''blockerClass'') (JStr ''none'')]"
  by (simp add: buildActiveLaneSummary_def lane_facts_def)

lemma harness_facts_lane:
  "map (getp (buildActiveLaneSummary (buildLaneRecord v t))) lane_facts =
     (if has_lane_context v then harness_facts v else map (\<lambda>_. JUndef) lane_facts)"
proof (cases "has_lane_context v")
  case True
  have "js_coalesce (js_or b (JStr ''none'')) w = js_or b (JStr ''none'')" for b w
    by (cases b) (auto simp: js_or_def)
  with True show ?thesis
    by (simp add: summary_facts record_facts harness_facts_def)
qed (simp add: buildLaneRecord_def buildActiveLaneSummary_def lane_facts_def)

lemma harness_cong:
  assumes "\<And>k. k \<in> set SCHEDULER_STEP_OPTION_KEYS \<Longrightarrow> getp a k = getp b k"
  shows "harness_facts a = harness_facts b" "has_lane_context a = has_lane_context b"
  using assms by (simp_all add: harness_facts_def has_lane_context_def lane_id_of_def SCHEDULER_STEP_OPTION_KEYS_def)

text \<open>Reading normalised options again gives what normalising read.\<close>

lemma normalized_text_again:
  assumes "k \<in> set lane_texts"
  shows "truthy (getp (normalizeStepOptions v) k) \<longleftrightarrow> normalizeText (getp (normalizeStepOptions v) k) \<noteq> []"
    "js_or (JStr (normalizeText (getp (normalizeStepOptions v) k))) z = js_or (getp (normalizeStepOptions v) k) z"
    "truthy (getp (normalizeStepOptions v) k) \<Longrightarrow>
       js_string (toOptionalText (getp (normalizeStepOptions v) k)) = js_string (getp (normalizeStepOptions v) k)"
proof -
  have "getp (normalizeStepOptions v) k = JUndef \<or> (\<exists>s. s \<noteq> [] \<and> trimmed s \<and> getp (normalizeStepOptions v) k = JStr s)"
    using normalized_text [OF assms, of v] by auto
  then show "truthy (getp (normalizeStepOptions v) k) \<longleftrightarrow> normalizeText (getp (normalizeStepOptions v) k) \<noteq> []"
    "js_or (JStr (normalizeText (getp (normalizeStepOptions v) k))) z = js_or (getp (normalizeStepOptions v) k) z"
    "truthy (getp (normalizeStepOptions v) k) \<Longrightarrow>
       js_string (toOptionalText (getp (normalizeStepOptions v) k)) = js_string (getp (normalizeStepOptions v) k)"
    by auto
qed

lemma coerce_simps: "coercePositiveInteger JUndef = JNull" "0 < i \<Longrightarrow> coercePositiveInteger (JInt i) = JInt i"
  by (simp_all add: coercePositiveInteger_def num_gt_def)

lemma normalized_integer_cases:
  assumes "k \<in> {''issue'', ''epic''}"
  obtains "getp (normalizeStepOptions v) k = JUndef" | i where "getp (normalizeStepOptions v) k = JInt i" "0 < i"
proof (cases rule: coerced_cases [of "getp v k"])
  case 1
  then show ?thesis using that(1) normalized_integer [OF assms, of v] by simp
next
  case (2 i)
  then show ?thesis using that(2) normalized_integer [OF assms, of v] by simp
qed

lemma normalized_integer_again:
  assumes "k \<in> {''issue'', ''epic''}"
  shows "coercePositiveInteger (getp (normalizeStepOptions v) k) = integer_or_null (getp (normalizeStepOptions v) k)"
    "is_integer_number (getp (normalizeStepOptions v) k) \<longleftrightarrow> coercePositiveInteger (getp (normalizeStepOptions v) k) \<noteq> JNull"
    "truthy (coercePositiveInteger (getp (normalizeStepOptions v) k)) = truthy (getp (normalizeStepOptions v) k)"
    "truthy (getp (normalizeStepOptions v) k) \<Longrightarrow>
       js_string (coercePositiveInteger (getp (normalizeStepOptions v) k)) = js_string (getp (normalizeStepOptions v) k)"
proof -
  have "getp (normalizeStepOptions v) k = JUndef \<or> (\<exists>i > 0. getp (normalizeStepOptions v) k = JInt i)"
    by (rule normalized_integer_cases [OF assms, of v]) auto
  then show "coercePositiveInteger (getp (normalizeStepOptions v) k) = integer_or_null (getp (normalizeStepOptions v) k)"
    "is_integer_number (getp (normalizeStepOptions v) k) \<longleftrightarrow> coercePositiveInteger (getp (normalizeStepOptions v) k) \<noteq> JNull"
    "truthy (coercePositiveInteger (getp (normalizeStepOptions v) k)) = truthy (getp (normalizeStepOptions v) k)"
    "truthy (getp (normalizeStepOptions v) k) \<Longrightarrow>
       js_string (coercePositiveInteger (getp (normalizeStepOptions v) k)) = js_string (getp (normalizeStepOptions v) k)"
    by (auto simp: coerce_simps integer_or_null_def)
qed

lemma lane_text_keys: "''lane'' \<in> set lane_texts" "''forkRemote'' \<in> set lane_texts" "''branch'' \<in> set lane_texts" "''prUrl'' \<in> set lane_texts"
  by (simp_all add: lane_texts_def)

lemma normalized_context: "has_lane_context (normalizeStepOptions v) \<longleftrightarrow> hasStepContext (normalizeStepOptions v)"
  by (simp add: has_lane_context_def hasStepContext_def normalized_text_again lane_text_keys normalized_integer_again)

lemma normalized_facts:
  assumes "hasStepContext (normalizeStepOptions v)"
  shows "harness_facts (normalizeStepOptions v) = map (getp (summarizeStepOptions (normalizeStepOptions v))) lane_facts"
proof -
  let ?w = "normalizeStepOptions v"
  have joined: "map js_string (filter truthy [toOptionalText (getp ?w ''forkRemote''), coercePositiveInteger (getp ?w ''issue'')]) =
      map js_string (filter truthy [getp ?w ''forkRemote'', getp ?w ''issue''])"
    using normalized_text_again [of "''forkRemote''" v] normalized_integer_again(3,4) [of "''issue''" v]
    by (simp add: lane_text_keys)
  have blocker: "js_or (getp ?w ''blockerClass'') (JStr ''none'') = JStr (lower_or ''none'' (getp ?w ''blockerClass''))"
  proof -
    have "lower_or ''none'' JUndef = ''none''"
      by code_simp
    then show ?thesis
      using normalized_blocker [of v] lower_blocker by fastforce
  qed
  show ?thesis
    using assms joined
    by (simp add: harness_facts_def lane_facts_def summarizeStepOptions_def Let_def lane_id_of_def blocker
        normalized_integer_again(1) normalized_text_again(2) lane_text_keys)
qed

theorem step_tracks_announced_lane:
  "map (getp (buildActiveLaneSummary (buildLaneRecord
      (options_of_step su (oc\<lparr>oc_decision := buildSchedulerDecision raw t n a repo\<rparr>)) nowIso))) lane_facts =
   map (getp2 (buildSchedulerDecision raw t n a repo) ''activeLane'') lane_facts"
proof -
  let ?oc = "oc\<lparr>oc_decision := buildSchedulerDecision raw t n a repo\<rparr>"
  have read: "getp (options_of_step su ?oc) k = (if hasStepContext (asked_options raw) then getp (asked_options raw) k else JUndef)"
    if "k \<in> set SCHEDULER_STEP_OPTION_KEYS" for k
    by (rule step_option_lane [OF that]) simp
  show ?thesis
  proof (cases "hasStepContext (asked_options raw)")
    case True
    then have "harness_facts (options_of_step su ?oc) = harness_facts (asked_options raw)"
      "has_lane_context (options_of_step su ?oc) = has_lane_context (asked_options raw)"
      using read by (auto intro!: harness_cong)
    with True show ?thesis
      by (simp add: harness_facts_lane asked_options_def normalized_facts normalized_context decision_parts(2))
  next
    case False
    then have "has_lane_context (options_of_step su ?oc) = has_lane_context JNull"
      using read by (auto intro!: harness_cong)
    with False show ?thesis
      by (simp add: harness_facts_lane has_lane_context_def decision_parts(2) summarizeStepOptions_def)
  qed
qed

section \<open>A stop request\<close>












definition decided :: "observer_cycle \<Rightarrow> bool" where
  "decided oc \<longleftrightarrow> is_decision (oc_decision oc)"

lemma decided_simps [simp]:
  "decided (oc\<lparr>oc_worker := w, oc_workerPaths := ps\<rparr>) = decided oc"
  "decided (oc\<lparr>oc_ready := w, oc_readyPaths := ps\<rparr>) = decided oc"
  "decided (oc\<lparr>oc_branch := w, oc_branchPaths := ps\<rparr>) = decided oc"
  "decided (oc\<lparr>oc_packet := w, oc_packetPaths := ps\<rparr>) = decided oc"
  by (simp_all add: decided_def)



lemma files_clock [ob_simps]: "read_clock su st = (t, st') \<Longrightarrow> files_of st' = files_of st"
  by (auto simp: read_clock_def files_of_def)























section \<open>Concrete runs\<close>

definition demo_ob_options :: jsval where
  "demo_ob_options = JObj [(''owner'', JStr ''a''), (''repo'', JStr ''o/r''), (''runtimeDir'', JStr ''/rt''),
     (''leaseRoot'', JStr ''/l''), (''stopOnIdle'', JBool True), (''maxCycles'', JInt 3)]"

definition demo_ob_deps :: "store observer_deps" where
  "demo_ob_deps = \<lparr>od_runtime = demo_rt_deps, od_platform = ''linux'', od_nowFactory = (\<lambda>n. int n), od_message = (\<lambda>_. ''e''),
     od_resolveScheduledStepFn = None, od_prepareWorkerFn = None, od_bootstrapWorkerFn = None,
     od_activateWorkerFn = None, od_buildTaskPacketFn = None, od_executeTurnFn = None\<rparr>"

definition demo_ob_paths :: observer_paths where
  "demo_ob_paths = \<lparr>op_heartbeat = ''/rt/observer-heartbeat.json'', op_runtimeDir = ''/rt'',
     op_schedulerLatest = ''/rt/scheduler-decision.json'', op_schedulerHistory = ''/rt/scheduler-decisions'',
     op_workerLatest = ''/rt/worker-checkout.json'', op_workersDir = ''/rt/workers'',
     op_readyLatest = ''/rt/worker-ready.json'', op_readyDir = ''/rt/workers-ready'',
     op_branchLatest = ''/rt/worker-branch.json'', op_branchDir = ''/rt/workers-branch'',
     op_packetLatest = ''/rt/task-packet.json'', op_packetHistory = ''/rt/task-packets'',
     op_executionLatest = ''/rt/execution-receipt.json'', op_executionHistory = ''/rt/execution-receipts''\<rparr>"

lemma demo_ob_resolve: "resolveObserverPaths demo_ob_options (JStr ''/r'') = Inr demo_ob_paths"
  by code_simp


lemma demo_ob_setup:
  "\<exists>su. observer_setup_of (demo_clock 0) demo_ob_options demo_ob_deps = Inr su \<and> os_repoRoot su = JStr ''/r'' \<and>
     os_paths su = demo_ob_paths \<and> os_options su = demo_ob_options \<and> os_deps su = demo_ob_deps \<and>
     planner_of su = None \<and> packet_of su = None \<and> prepare_of su = None"
  by (simp add: observer_setup_of_def createRuntimeAdapter_def demo_ob_deps_def demo_rt_deps_def demo_rt_adapter_def
      required_hook_def observer_repoRoot_def fn_or_def default_repository_def demo_ob_resolve Let_def
      planner_of_def packet_of_def prepare_of_def hook_or_def)

text \<open>Without a scheduler and a lane the observer stops at once.\<close>

lemma idle_cycle:
  assumes "planner_of su = None" "packet_of su = None" "extractExplicitStepOptions (os_options su) = JObj []"
    "truthy (getp (os_options su) ''stopOnIdle'')"
  shows "\<exists>st2. observer_cycle_run c su st = (st2, Exit 0) \<and> or_outcome (ob_report st2) = JStr ''idle-stop'' \<and>
    or_cycles (ob_report st2) = or_cycles (ob_report st)"
proof -
  have "decision_outcome (manual_decision (JObj [])) (asked_options (manual_decision (JObj []))) = ''idle''"
    by code_simp
  then have o: "getp (buildSchedulerDecision (manual_decision (JObj [])) t n a r) ''outcome'' = JStr ''idle''" for t n a r
    by (simp add: decision_parts)
  obtain st1 ps where s: "schedule_stage c su st = (st1, Go ((new_cycle (Suc (or_cycles (ob_report st))) (fst (read_clock su st)))
        \<lparr>oc_decision := buildSchedulerDecision (manual_decision (JObj [])) (iso_string (fst (read_clock su st)))
           (Suc (or_cycles (ob_report st))) (adapter_of su) (os_repository su), oc_decisionPaths := ps\<rparr>))" (is "_ = (_, Go ?oc)")
      and s1: "or_cycles (ob_report st1) = or_cycles (ob_report st)"
    by (simp add: ob_simps schedule_stage_def resolveSchedulerDecision_def assms(1,3) Let_def split_beta new_cycle_def)
  have idle: "outcome_of ?oc = JStr ''idle''"
    by (simp add: outcome_of_def o)
  obtain st2 oc2 where p: "packet_stage c su ?oc st1 = (st2, Go oc2)" "outcome_of oc2 = outcome_of ?oc" "ob_report st2 = ob_report st1"
    by (simp add: ob_simps packet_stage_def buildTaskPacket_ob_def assms(2) Let_def split_beta outcome_of_def)
  obtain st3 where u: "unselected_stage c su ?oc st1 = (st3, Exit 0)" "or_outcome (ob_report st3) = JStr ''idle-stop''"
      "or_cycles (ob_report st3) = or_cycles (ob_report st)"
    using assms(4) s1 by (simp add: unselected_stage_def idle p Let_def ob_simps)
  moreover from u s have "observer_cycle_run c su st = (st3, Exit 0)"
    by (simp add: observer_cycle_run_def)
  ultimately show ?thesis
    by blast
qed

lemma demo_ob_args: "\<exists>options. parseObserverArgs [''--max-cycles'', ''2'', ''--stop-on-idle''] = Inr options \<and>
    getp options ''maxCycles'' = JInt 2"
proof -
  have "(case parseObserverArgs [''--max-cycles'', ''2'', ''--stop-on-idle''] of Inr v \<Rightarrow> getp v ''maxCycles'' = JInt 2 | Inl e \<Rightarrow> False)"
    by code_simp
  then show ?thesis
    by (auto split: sum.splits)
qed

lemma observer_cli_returns_witness:
  "\<exists>st r. runObserverCli (demo_clock 0) [''--max-cycles'', ''2'', ''--stop-on-idle''] demo_ob_deps
      \<lparr>files = [], lease_world = Map.empty\<rparr> = Some (st, r) \<and>
    (\<forall>code report. r = Inr (code, Some report) \<longrightarrow> (\<exists>k \<le> 2. getp report ''cyclesCompleted'' = JInt (int k)))"
proof -
  obtain options where o: "parseObserverArgs [''--max-cycles'', ''2'', ''--stop-on-idle''] = Inr options"
      "getp options ''maxCycles'' = JInt 2"
    using demo_ob_args by blast
  then have "getp options ''maxCycles'' \<noteq> JInt 0"
    by simp
  from observer_cli_returns [OF o(1) this, of "demo_clock 0" demo_ob_deps "\<lparr>files = [], lease_world = Map.empty\<rparr>"] o(2)
  show ?thesis by auto
qed

lemma demo_linux: "od_platform demo_ob_deps = ''linux''"
  by (simp add: demo_ob_deps_def)

lemma demo_explicit: "extractExplicitStepOptions demo_ob_options = JObj []"
  by code_simp

lemma demo_idle_run:
  "\<exists>st report. runRuntimeObserverLoop (demo_clock 0) demo_ob_options demo_ob_deps \<lparr>files = [], lease_world = Map.empty\<rparr> =
     Some (st, Inr (0, report)) \<and> getp report ''outcome'' = JStr ''idle-stop''"
proof -
  let ?wd = "\<lparr>files = [], lease_world = Map.empty\<rparr> :: store runtime_world"
  obtain su where su: "observer_setup_of (demo_clock 0) demo_ob_options demo_ob_deps = Inr su" "planner_of su = None"
      "packet_of su = None" "os_options su = demo_ob_options"
    using demo_ob_setup by blast
  have "truthy (getp (os_options su) ''stopOnIdle'')"
    by (simp add: su demo_ob_options_def)
  from idle_cycle [OF su(2,3) _ this, where c = "demo_clock 0" and st = "observer_start ?wd"]
  obtain st where "observer_cycle_run (demo_clock 0) su (observer_start ?wd) = (st, Exit 0)"
      "or_outcome (ob_report st) = JStr ''idle-stop''"
    by (auto simp: su demo_explicit)
  moreover from this have "observer_loop (demo_clock 0) su (observer_start ?wd) = Some (st, Inr 0)"
    by (subst observer_loop.simps) simp
  ultimately show ?thesis
    by (simp add: runRuntimeObserverLoop_def su(1) end_report_fields demo_linux)
qed

lemma observer_exit_status_witness:
  "\<exists>st report. runRuntimeObserverLoop (demo_clock 0) demo_ob_options demo_ob_deps \<lparr>files = [], lease_world = Map.empty\<rparr> =
     Some (st, Inr (0, report)) \<and> getp report ''status'' = JStr ''pass''"
  using demo_idle_run observer_exit_status by fastforce

lemma observer_heartbeat_current_witness:
  "\<exists>st report p d. runRuntimeObserverLoop (demo_clock 0) demo_ob_options demo_ob_deps \<lparr>files = [], lease_world = Map.empty\<rparr> =
     Some (st, Inr (0, report)) \<and> map_of (files_of st) (absolute_path (demo_clock 0) p) = Some (JsonTexts [d]) \<and>
     getp d ''cyclesCompleted'' = getp report ''cyclesCompleted''"
proof -
  obtain st report where run: "runRuntimeObserverLoop (demo_clock 0) demo_ob_options demo_ob_deps
      \<lparr>files = [], lease_world = Map.empty\<rparr> = Some (st, Inr (0, report))" "getp report ''outcome'' = JStr ''idle-stop''"
    using demo_idle_run by blast
  have "getp report ''outcome'' \<notin> JStr ` set silent_outcomes" "od_platform demo_ob_deps = ''linux''"
    by (simp_all add: run(2) silent_outcomes_def demo_ob_deps_def)
  from observer_heartbeat_current [OF run(1) this(2,1)] run(1) show ?thesis
    by blast
qed

lemma recent_events_suffix_witness:
  "\<exists>n. readRecentEvents (demo_clock 0) ''/rt/runtime-events.ndjson'' 1
     [(''/rt/runtime-events.ndjson'', JsonTexts [JNull, JBool True])] = drop n [JNull, JBool True] \<and>
     length [JNull, JBool True] - n \<le> 1"
proof -
  have "map_of [(''/rt/runtime-events.ndjson'', JsonTexts [JNull, JBool True])]
      (absolute_path (demo_clock 0) ''/rt/runtime-events.ndjson'') = Some (JsonTexts [JNull, JBool True])"
    by simp
  from recent_events_suffix [OF this, of 1] show ?thesis by blast
qed

lemma idle_stop_unseen_witness:
  "\<exists>su st' d. observer_cycle_run (demo_clock 0) su (observer_start \<lparr>files = [], lease_world = Map.empty :: store\<rparr>) = (st', Exit 0) \<and>
    map_of (files_of st') (absolute_path (demo_clock 0) (op_heartbeat (os_paths su))) = Some (JsonTexts [d]) \<and>
    \<not> ig_qualifies (normalizeObserverIdleSignal d 0 (Fin 60))"
proof -
  obtain su :: "store observer_setup" where su: "planner_of su = None" "packet_of su = None" "os_options su = demo_ob_options"
    using demo_ob_setup by blast
  have "truthy (getp (os_options su) ''stopOnIdle'')"
    by (simp add: su demo_ob_options_def)
  from idle_cycle [OF su(1,2) _ this, where c = "demo_clock 0"] obtain st' where st':
    "observer_cycle_run (demo_clock 0) su (observer_start \<lparr>files = [], lease_world = Map.empty\<rparr>) = (st', Exit 0)"
    "or_cycles (ob_report st') = 0"
    unfolding su(3) demo_explicit using running_cycles [OF start_running] by metis
  from st'(1) idle_stop_unseen [OF start_running st'] show ?thesis
    by blast
qed



end
