(* ===== verification/QueueOrder.thy ===== *)
theory QueueOrder
  imports LaneHelpers "HOL-Library.AList"
begin

text \<open>
  Which open pull requests the queue supervisor takes, and in which order
  (\<^verbatim>\<open>tools/priority/queue-supervisor.mjs\<close>): the fields parsed out of a pull request, the verdict on
  its required checks, and the topological order of the eligible ones by priority.  A \<^verbatim>\<open>Map\<close> is the
  list of its entries in insertion order; its keys are numbers or strings.
\<close>

section \<open>Text fields\<close>

definition js_text :: "jsval \<Rightarrow> string" where
  "js_text v = js_string (js_coalesce v (JStr []))"

definition slice_from :: "nat \<Rightarrow> string \<Rightarrow> string" where
  "slice_from n s = drop n s"

definition normalizeLabelName :: "jsval \<Rightarrow> string" where
  "normalizeLabelName label =
     (if \<not> truthy label then []
      else case label of
             JStr s \<Rightarrow> to_lower (trim s)
           | _ \<Rightarrow> (case getp label ''name'' of JStr s \<Rightarrow> to_lower (trim s) | _ \<Rightarrow> []))"

definition normalizeOwner :: "jsval \<Rightarrow> string" where
  "normalizeOwner v =
     (if \<not> truthy v then []
      else case v of
             JStr s \<Rightarrow> to_lower (trim s)
           | _ \<Rightarrow> (case getp v ''login'' of JStr s \<Rightarrow> to_lower (trim s) | _ \<Rightarrow> []))"

definition normalizeIso :: "jsval \<Rightarrow> jsval" where
  "normalizeIso v =
     (if \<not> truthy v then JNull
      else (let date = date_of_value v in if date = NaN then JNull else JStr (iso_of_num date)))"

text \<open>\<^verbatim>\<open>new Date(t).toISOString()\<close> raises when \<open>t\<close> is beyond the range of dates.\<close>

definition date_iso :: "int \<Rightarrow> string result" where
  "date_iso t = (if time_clip t = NaN then Inl (RangeError ''Invalid time value'') else Inr (iso_string t))"

definition normalizeBaseBranch :: "jsval \<Rightarrow> string" where
  "normalizeBaseBranch v =
     (if \<not> truthy v then []
      else
        (let normalized = to_lower (trim (js_string v))
         in if starts_with normalized ''refs/heads/''
            then slice_from (length ''refs/heads/'') normalized else normalized))"

text \<open>\<^verbatim>\<open>/\[P(\d+)\]/i\<close>: the digits of the first match.\<close>

fun priority_digits :: "string \<Rightarrow> string option" where
  "priority_digits [] = None"
| "priority_digits (ch # s) =
     (let (d, r) = span_digits (tl s)
      in if ch = CHR ''['' \<and> s \<noteq> [] \<and> lower_char (hd s) = CHR ''p'' \<and> d \<noteq> [] \<and> starts_with r '']''
         then Some d else priority_digits s)"

definition priorityFromTitle :: "jsval \<Rightarrow> nat" where
  "priorityFromTitle title =
     (case priority_digits (js_string title) of None \<Rightarrow> 9 | Some d \<Rightarrow> read_nat d)"

text \<open>
  The places where \<^verbatim>\<open>^\<close> matches with the flag \<^verbatim>\<open>m\<close>: the start of the text and after every line
  break.
\<close>

definition line_break :: "char \<Rightarrow> bool" where
  "line_break ch \<longleftrightarrow> ch = CHR 0x0A \<or> ch = CHR 0x0D"

fun line_starts :: "string \<Rightarrow> string list" where
  "line_starts [] = []"
| "line_starts (ch # s) = (if line_break ch then s # line_starts s else line_starts s)"

text \<open>\<^verbatim>\<open>\s*key\s*:\s*\<close> without case: the rest of the text after it.\<close>

definition after_key :: "string \<Rightarrow> string \<Rightarrow> string option" where
  "after_key key s =
     (let s1 = ltrim s
      in if starts_with (to_lower s1) key then
           (let s2 = ltrim (drop (length key) s1)
            in if starts_with s2 '':'' then Some (ltrim (tl s2)) else None)
         else None)"

text \<open>\<^verbatim>\<open>\s*$\<close>: white space that reaches a line break or the end.\<close>

definition blank_to_line_end :: "string \<Rightarrow> bool" where
  "blank_to_line_end s \<longleftrightarrow> dropWhile is_space s = [] \<or> (\<exists>ch \<in> set (takeWhile is_space s). line_break ch)"

definition coupling_at :: "string \<Rightarrow> string option" where
  "coupling_at s =
     (case after_key ''coupling'' s of
        None \<Rightarrow> None
      | Some r \<Rightarrow>
          find_first (\<lambda>v. starts_with (to_lower r) v \<and> blank_to_line_end (drop (length v) r))
            [''independent'', ''soft'', ''hard''])"

fun first_match :: "(string \<Rightarrow> 'a option) \<Rightarrow> string list \<Rightarrow> 'a option" where
  "first_match f [] = None"
| "first_match f (s # ss) = (case f s of Some x \<Rightarrow> Some x | None \<Rightarrow> first_match f ss)"

definition parseCoupling :: "jsval \<Rightarrow> string" where
  "parseCoupling body =
     (let text = js_string body
      in case first_match coupling_at (text # line_starts text) of
           Some v \<Rightarrow> v
         | None \<Rightarrow> ''independent'')"

text \<open>The rest of the line after \<^verbatim>\<open>Depends-On:\<close>, when it is not empty.\<close>

definition depends_at :: "string \<Rightarrow> string option" where
  "depends_at s =
     (case after_key ''depends-on'' s of
        None \<Rightarrow> None
      | Some r \<Rightarrow> (let deps = takeWhile (\<lambda>ch. \<not> line_break ch) r in if deps = [] then None else Some deps))"

text \<open>\<^verbatim>\<open>/#(\d+)/\<close>: the digits after the first hash that has some.\<close>

fun hash_digits :: "string \<Rightarrow> string option" where
  "hash_digits [] = None"
| "hash_digits (ch # s) =
     (let d = fst (span_digits s) in if ch = CHR ''#'' \<and> d \<noteq> [] then Some d else hash_digits s)"

definition dependency_number :: "string \<Rightarrow> nat list" where
  "dependency_number token =
     (case hash_digits token of
        None \<Rightarrow> []
      | Some d \<Rightarrow> (if read_nat d > 0 then [read_nat d] else []))"

definition parseDependsOn :: "jsval \<Rightarrow> jsnum list" where
  "parseDependsOn body =
     (let text = js_string body
      in case first_match depends_at (text # line_starts text) of
           None \<Rightarrow> []
         | Some deps \<Rightarrow>
             map (\<lambda>n. num_of_int (int n))
               (sort_by le_nat (uniq (concat (map dependency_number (split_on CHR '','' deps))))))"

section \<open>Required checks\<close>

record check_state =
  success :: bool
  failure :: bool
  raw :: "jsval list"

type_synonym check_states = "(string \<times> check_state) list"

text \<open>\<^verbatim>\<open>v?.trim()\<close>: undefined for null, a TypeError for a value that is no string.\<close>

fun opt_trim :: "jsval \<Rightarrow> string result" where
  "opt_trim JUndef = Inr []"
| "opt_trim JNull = Inr []"
| "opt_trim (JStr s) = Inr (trim s)"
| "opt_trim v = Inl (TypeError ''trim'')"

definition record_check :: "string \<Rightarrow> bool \<Rightarrow> bool \<Rightarrow> jsval \<Rightarrow> check_states \<Rightarrow> check_states" where
  "record_check context isSuccess isFailure entry states =
     (let previous = (case map_of states context of
                        Some p \<Rightarrow> p
                      | None \<Rightarrow> \<lparr>success = False, failure = False, raw = []\<rparr>)
      in AList.update context
           \<lparr>success = (success previous \<or> isSuccess), failure = (failure previous \<or> isFailure),
            raw = raw previous @ [entry]\<rparr> states)"

definition upper_text :: "jsval \<Rightarrow> string" where
  "upper_text v = to_upper (js_text v)"

definition check_run_success :: "jsval \<Rightarrow> bool" where
  "check_run_success entry \<longleftrightarrow>
     upper_text (getp entry ''status'') = ''COMPLETED'' \<and> upper_text (getp entry ''conclusion'') = ''SUCCESS''"

definition check_run_failure :: "jsval \<Rightarrow> bool" where
  "check_run_failure entry \<longleftrightarrow>
     upper_text (getp entry ''status'') \<noteq> ''COMPLETED'' \<or>
     upper_text (getp entry ''conclusion'') \<notin> set [[], ''SUCCESS'', ''NEUTRAL'', ''SKIPPED'']"

definition add_check :: "jsval \<Rightarrow> check_states \<Rightarrow> check_states result" where
  "add_check entry states =
     (let typename = js_coalesce (getp entry ''__typename'') (JStr [])
      in if \<not> truthy entry then Inr states
         else if typename = JStr ''CheckRun'' then
           bindE (opt_trim (getp entry ''name'')) (\<lambda>context.
             if context = [] then Inr states
             else Inr (record_check context (check_run_success entry) (check_run_failure entry)
               (JObj [(''typename'', typename), (''status'', JStr (upper_text (getp entry ''status''))),
                      (''conclusion'', JStr (upper_text (getp entry ''conclusion'')))]) states))
         else if typename = JStr ''StatusContext'' then
           bindE (opt_trim (getp entry ''context'')) (\<lambda>context.
             if context = [] then Inr states
             else
               (let state = upper_text (getp entry ''state'')
                in Inr (record_check context (state = ''SUCCESS'') (state \<noteq> ''SUCCESS'')
                     (JObj [(''typename'', typename), (''state'', JStr state)]) states)))
         else Inr states)"

fun add_checks :: "jsval list \<Rightarrow> check_states \<Rightarrow> check_states result" where
  "add_checks [] states = Inr states"
| "add_checks (entry # rollup) states = bindE (add_check entry states) (add_checks rollup)"

definition checkRollupToMap :: "jsval list \<Rightarrow> check_states result" where
  "checkRollupToMap rollup = add_checks rollup []"

record check_verdict =
  ok :: bool
  missing :: "jsval list"
  failing :: "jsval list"

definition state_of_check :: "check_states \<Rightarrow> jsval \<Rightarrow> check_state option" where
  "state_of_check states context = (case context of JStr s \<Rightarrow> map_of states s | _ \<Rightarrow> None)"

definition check_failing :: "check_states \<Rightarrow> jsval \<Rightarrow> bool" where
  "check_failing states context =
     (case state_of_check states context of
        None \<Rightarrow> False
      | Some entry \<Rightarrow> \<not> success entry \<or> failure entry)"

definition evaluateRequiredChecks :: "jsval \<Rightarrow> jsval list \<Rightarrow> check_verdict result" where
  "evaluateRequiredChecks requiredChecks rollup =
     (let required = array_items requiredChecks
      in if required = [] then Inr \<lparr>ok = True, missing = [], failing = []\<rparr>
         else bindE (checkRollupToMap rollup) (\<lambda>states.
           let missing = filter (\<lambda>context. state_of_check states context = None) required;
               failing = filter (check_failing states) required
           in Inr \<lparr>ok = (missing = [] \<and> failing = []), missing = missing, failing = failing\<rparr>))"

section \<open>Candidates and their order\<close>

record open_pr =
  number :: jsnum
  title :: jsval
  url :: jsval
  updatedAt :: string
  baseRefName :: string
  headRefName :: jsval
  headRepositoryOwner :: string
  isCrossRepository :: bool
  isDraft :: bool
  mergeStateStatus :: string
  mergeable :: string
  isInMergeQueue :: bool
  labels :: "string list"
  autoMergeEnabled :: bool
  coupling :: string
  dependsOn :: "jsnum list"
  pr_priority :: nat
  couplingOrder :: nat
  statusCheckRollup :: "jsval list"

definition date_or_zero :: "string \<Rightarrow> jsnum" where
  "date_or_zero s = (let d = date_parse s in if truthy (JNum d) then d else Fin 0)"

definition compareCandidates :: "'a open_pr_scheme \<Rightarrow> 'a open_pr_scheme \<Rightarrow> jsnum" where
  "compareCandidates a b =
     (if pr_priority a \<noteq> pr_priority b then num_of_int (int (pr_priority a) - int (pr_priority b))
      else if couplingOrder a \<noteq> couplingOrder b then num_of_int (int (couplingOrder a) - int (couplingOrder b))
      else
        (let aTime = date_or_zero (updatedAt a); bTime = date_or_zero (updatedAt b)
         in if aTime \<noteq> bTime then num_sub aTime bTime else num_sub (number a) (number b)))"

text \<open>The sort keeps \<open>a\<close> before \<open>b\<close> unless the comparison is positive.\<close>

definition not_after :: "'a open_pr_scheme \<Rightarrow> 'a open_pr_scheme \<Rightarrow> bool" where
  "not_after a b \<longleftrightarrow> \<not> num_gt (compareCandidates a b) (Fin 0)"

definition get_or :: "'v \<Rightarrow> ('k \<times> 'v) list \<Rightarrow> 'k \<Rightarrow> 'v" where
  "get_or d m k = (case map_of m k of Some v \<Rightarrow> v | None \<Rightarrow> d)"

type_synonym degrees = "(jsnum \<times> int) list"
type_synonym edge_map = "(jsnum \<times> jsnum list) list"

definition node_map :: "'a open_pr_scheme list \<Rightarrow> (jsnum \<times> 'a open_pr_scheme) list" where
  "node_map candidates = fold (\<lambda>c m. AList.update (number c) c m) candidates []"

definition add_dependency ::
  "(jsnum \<times> 'a open_pr_scheme) list \<Rightarrow> jsnum \<Rightarrow> jsnum \<Rightarrow> degrees \<times> edge_map \<Rightarrow> degrees \<times> edge_map" where
  "add_dependency nodes n dep g =
     (case g of (indegree, edges) \<Rightarrow>
        if map_of nodes dep = None then (indegree, edges)
        else (AList.update n (get_or 0 indegree n + 1) indegree,
              AList.update dep (get_or [] edges dep @ [n]) edges))"

definition dependency_graph :: "'a open_pr_scheme list \<Rightarrow> degrees \<times> edge_map" where
  "dependency_graph candidates =
     (let nodes = node_map candidates;
          indegree = fold (\<lambda>c m. AList.update (number c) 0 m) candidates [];
          edges = fold (\<lambda>c m. AList.update (number c) [] m) candidates []
      in fold (\<lambda>c. fold (add_dependency nodes (number c)) (dependsOn c)) candidates (indegree, edges))"

text \<open>
  One edge of the released node: a target whose last dependency it was becomes ready.  Every
  target is a candidate, so \<^verbatim>\<open>nodes.get(target)\<close> is never undefined.
\<close>

definition release_target ::
  "(jsnum \<times> 'a open_pr_scheme) list \<Rightarrow> jsnum \<Rightarrow> degrees \<times> 'a open_pr_scheme list
     \<Rightarrow> degrees \<times> 'a open_pr_scheme list" where
  "release_target nodes target g =
     (case g of (indegree, ready) \<Rightarrow>
        let n = get_or 0 indegree target - 1;
            indegree' = AList.update target n indegree
        in if n = 0 then
             (case map_of nodes target of
                Some c \<Rightarrow> (indegree', sort_by not_after (ready @ [c]))
              | None \<Rightarrow> (indegree', ready))
           else (indegree', ready))"

definition all_targets :: "edge_map \<Rightarrow> jsnum list" where
  "all_targets edges = remdups (concat (map snd edges))"

definition waiting :: "edge_map \<Rightarrow> degrees \<Rightarrow> nat" where
  "waiting edges indegree = length (filter (\<lambda>t. get_or 0 indegree t > 0) (all_targets edges))"

lemma get_or_update [simp]: "get_or d (AList.update k v m) k' = (if k' = k then v else get_or d m k')"
  by (simp add: get_or_def update_conv')

lemma waiting_update:
  assumes "t \<in> set (all_targets edges)"
  shows "waiting edges (AList.update t n indegree) + (if get_or 0 indegree t > 0 then 1 else 0) =
    waiting edges indegree + (if n > 0 then 1 else 0)"
proof -
  have d: "distinct (all_targets edges)"
    by (simp add: all_targets_def)
  have "length (filter (\<lambda>x. (if x = t then n else get_or 0 indegree x) > 0) xs) + (if get_or 0 indegree t > 0 then 1 else 0) =
      length (filter (\<lambda>x. get_or 0 indegree x > 0) xs) + (if n > 0 then 1 else 0)"
    if "distinct xs" "t \<in> set xs" for xs
    using that
  proof (induction xs)
    case Nil
    then show ?case by simp
  next
    case (Cons x xs)
    show ?case
    proof (cases "x = t")
      case True
      with Cons.prems have "filter (\<lambda>x. (if x = t then n else get_or 0 indegree x) > 0) xs =
          filter (\<lambda>x. get_or 0 indegree x > 0) xs"
        by (intro filter_cong) auto
      with True show ?thesis by simp
    next
      case False
      with Cons show ?thesis by auto
    qed
  qed
  from this [OF d assms] show ?thesis
    by (simp add: waiting_def)
qed

lemma release_target_measure:
  assumes "t \<in> set (all_targets edges)" "release_target nodes t (indegree, ready) = (indegree', ready')"
  shows "length ready' + waiting edges indegree' \<le> length ready + waiting edges indegree"
  using assms(2) waiting_update [OF assms(1), of "get_or 0 indegree t - 1" indegree]
  by (auto simp: release_target_def Let_def split: if_splits option.splits)

lemma release_targets_measure:
  "set ts \<subseteq> set (all_targets edges) \<Longrightarrow> fold (release_target nodes) ts (indegree, ready) = (indegree', ready') \<Longrightarrow>
     length ready' + waiting edges indegree' \<le> length ready + waiting edges indegree"
proof (induction ts arbitrary: indegree ready)
  case Nil
  then show ?case by simp
next
  case (Cons t ts)
  obtain i1 r1 where r1: "release_target nodes t (indegree, ready) = (i1, r1)"
    by fastforce
  have "length r1 + waiting edges i1 \<le> length ready + waiting edges indegree"
    using release_target_measure [OF _ r1] Cons.prems(1) by simp
  moreover have "length ready' + waiting edges indegree' \<le> length r1 + waiting edges i1"
    using Cons r1 by simp
  ultimately show ?case by simp
qed

lemma edge_targets: "set (get_or [] edges n) \<subseteq> set (all_targets edges)"
  by (cases "map_of edges n") (auto simp: get_or_def all_targets_def dest!: map_of_SomeD intro: bexI [rotated])

function topo_loop ::
  "(jsnum \<times> 'a open_pr_scheme) list \<Rightarrow> edge_map \<Rightarrow> degrees \<Rightarrow> 'a open_pr_scheme list
     \<Rightarrow> 'a open_pr_scheme list \<Rightarrow> 'a open_pr_scheme list" where
  "topo_loop nodes edges indegree [] order = order"
| "topo_loop nodes edges indegree (next # ready) order =
     (case fold (release_target nodes) (get_or [] edges (number next)) (indegree, ready) of
        (indegree', ready') \<Rightarrow> topo_loop nodes edges indegree' ready' (order @ [next]))"
  by pat_completeness auto
termination
  apply (relation "measure (\<lambda>(nodes, edges, indegree, ready, order). length ready + waiting edges indegree)")
   apply simp
  subgoal for nodes edges indegree n ready order indegree' ready'
    using release_targets_measure [OF edge_targets, of nodes edges "number n" indegree ready indegree' ready'] by simp
  done

text \<open>\<^verbatim>\<open>a === b\<close> of two numbers: no number that is not one equals itself.\<close>

definition same_number :: "jsnum \<Rightarrow> jsnum \<Rightarrow> bool" where
  "same_number a b \<longleftrightarrow> a = b \<and> a \<noteq> NaN"

record 'a topo_result =
  ordered :: "'a list"
  cycleDetected :: bool

definition toTopoOrder :: "'a open_pr_scheme list \<Rightarrow> 'a open_pr_scheme topo_result" where
  "toTopoOrder candidates =
     (let nodes = node_map candidates;
          (indegree, edges) = dependency_graph candidates;
          ready = sort_by not_after (filter (\<lambda>c. get_or 0 indegree (number c) = 0) candidates);
          order = topo_loop nodes edges indegree ready []
      in if length order = length candidates then \<lparr>ordered = order, cycleDetected = False\<rparr>
         else
           (let unresolved = sort_by not_after
                  (filter (\<lambda>c. \<not> list_ex (\<lambda>selected. same_number (number selected) (number c)) order) candidates)
            in \<lparr>ordered = order @ unresolved, cycleDetected = True\<rparr>))"

section \<open>Classification\<close>

definition COUPLING_PRIORITY :: "(string \<times> nat) list" where
  "COUPLING_PRIORITY = [(''independent'', 0), (''soft'', 1), (''hard'', 2)]"

definition EXCLUDED_LABELS :: "string list" where
  "EXCLUDED_LABELS = [''queue-blocked'', ''do-not-queue'']"

text \<open>\<^verbatim>\<open>(v ?? []).map(...)\<close>: a TypeError when \<open>v\<close> has no \<^verbatim>\<open>map\<close>.\<close>

fun mappable :: "jsval \<Rightarrow> jsval list result" where
  "mappable JUndef = Inr []"
| "mappable JNull = Inr []"
| "mappable (JArr xs) = Inr xs"
| "mappable v = Inl (TypeError ''map'')"

definition parse_pull_request :: "jsval \<Rightarrow> open_pr result" where
  "parse_pull_request pr =
     bindE (dot pr ''labels'') (\<lambda>rawLabels.
     bindE (mappable rawLabels) (\<lambda>labelItems.
       let body = js_coalesce (getp pr ''body'') (JStr []); c = parseCoupling body
       in Inr
         \<lparr>number = js_number (getp pr ''number''), title = js_coalesce (getp pr ''title'') (JStr []),
          url = js_coalesce (getp pr ''url'') JNull,
          updatedAt = js_string (js_coalesce (normalizeIso (getp pr ''updatedAt'')) (JStr (iso_string 0))),
          baseRefName = normalizeBaseBranch (getp pr ''baseRefName''),
          headRefName = js_coalesce (getp pr ''headRefName'') JNull,
          headRepositoryOwner = normalizeOwner (getp pr ''headRepositoryOwner''),
          isCrossRepository = truthy (getp pr ''isCrossRepository''), isDraft = truthy (getp pr ''isDraft''),
          mergeStateStatus = upper_text (getp pr ''mergeStateStatus''),
          mergeable = upper_text (getp pr ''mergeable''),
          isInMergeQueue = (getp pr ''isInMergeQueue'' = JBool True),
          labels = filter (\<lambda>l. l \<noteq> []) (map normalizeLabelName labelItems),
          autoMergeEnabled = truthy (getp pr ''autoMergeRequest''), coupling = c,
          dependsOn = parseDependsOn body,
          pr_priority = priorityFromTitle (js_coalesce (getp pr ''title'') (JStr [])),
          couplingOrder = get_or 0 COUPLING_PRIORITY c,
          statusCheckRollup = array_items (getp pr ''statusCheckRollup'')\<rparr>))"

record candidate = open_pr +
  requiredChecks :: jsval
  checks :: check_verdict
  eligible :: bool
  reasons :: "string list"
  unresolvedOpenDependencies :: "jsnum list option"

definition block_reasons :: "string list \<Rightarrow> string list \<Rightarrow> open_pr \<Rightarrow> check_verdict \<Rightarrow> string list" where
  "block_reasons queueManaged excluded pr verdict =
     (if baseRefName pr \<notin> set queueManaged then [''base-branch-not-queue-managed''] else []) @
     (if isDraft pr then [''draft''] else []) @
     (if mergeStateStatus pr = ''DIRTY'' \<or> mergeable pr = ''CONFLICTING'' then [''merge-conflict''] else []) @
     (if list_ex (\<lambda>l. l \<in> set excluded) (labels pr) then [''queue-label-blocked''] else []) @
     (if \<not> ok verdict then
        (if missing verdict \<noteq> [] then [''required-checks-missing''] else []) @
        (if failing verdict \<noteq> [] then [''required-checks-failing''] else [])
      else [])"

definition to_candidate :: "open_pr \<Rightarrow> jsval \<Rightarrow> check_verdict \<Rightarrow> string list \<Rightarrow> candidate" where
  "to_candidate pr required verdict rs =
     open_pr.extend pr \<lparr>requiredChecks = required, checks = verdict, eligible = (rs = []), reasons = rs,
       unresolvedOpenDependencies = None\<rparr>"

definition classify_pull_request ::
  "string list \<Rightarrow> string list \<Rightarrow> jsval \<Rightarrow> open_pr \<Rightarrow> candidate result" where
  "classify_pull_request queueManaged excluded requiredByBranch pr =
     bindE (dot requiredByBranch (baseRefName pr)) (\<lambda>configured.
       let required = js_coalesce configured (JArr [])
       in bindE (evaluateRequiredChecks required (statusCheckRollup pr)) (\<lambda>verdict.
            Inr (to_candidate pr required verdict (block_reasons queueManaged excluded pr verdict))))"

text \<open>The dependencies of an eligible candidate that are open and were not eligible themselves.\<close>

definition check_dependencies :: "jsnum list \<Rightarrow> jsnum list \<Rightarrow> candidate \<Rightarrow> candidate" where
  "check_dependencies allOpen eligibleSet c =
     (if \<not> eligible c then c
      else
        (let unresolved = filter (\<lambda>dep. dep \<in> set allOpen \<and> dep \<notin> set eligibleSet) (dependsOn c)
         in if unresolved \<noteq> []
            then c\<lparr>eligible := False, reasons := reasons c @ [''dependency-open-not-eligible''],
                   unresolvedOpenDependencies := Some unresolved\<rparr>
            else c\<lparr>unresolvedOpenDependencies := Some []\<rparr>))"

record classification =
  cl_allOpen :: "open_pr list"
  cl_candidates :: "candidate list"
  cl_orderedEligible :: "candidate list"
  cl_cycleDetected :: bool

definition classifyOpenPullRequests ::
  "jsval \<Rightarrow> jsval \<Rightarrow> string list \<Rightarrow> string list \<Rightarrow> classification result" where
  "classifyOpenPullRequests pullRequests requiredByBranch queueManaged excluded =
     bindE (iterable (js_coalesce pullRequests (JArr []))) (\<lambda>items.
     bindE (mapE parse_pull_request items) (\<lambda>normalized.
     bindE (mapE (classify_pull_request queueManaged excluded requiredByBranch) normalized) (\<lambda>cs.
       let eligibleSet = map number (filter eligible cs);
           candidates = map (check_dependencies (map number normalized) eligibleSet) cs;
           topo = toTopoOrder (filter eligible candidates)
       in Inr \<lparr>cl_allOpen = normalized, cl_candidates = candidates,
               cl_orderedEligible = ordered topo, cl_cycleDetected = cycleDetected topo\<rparr>)))"

end
