(* ===== verification/QueueHealth.thy ===== *)
theory QueueHealth
  imports QueueOrder
begin

text \<open>
  The health of the trunk and of the workflow fleet, as the queue supervisor judges it from the runs it
  fetched (\<^verbatim>\<open>evaluateHealthGate\<close>, \<^verbatim>\<open>evaluateRuntimeFleetHealth\<close> of
  \<^verbatim>\<open>tools/priority/queue-supervisor.mjs\<close>).  \<open>now\<close> is the time value of the \<^verbatim>\<open>Date\<close> passed in.
\<close>

definition lower_text :: "jsval \<Rightarrow> string" where
  "lower_text v = to_lower (js_text v)"

text \<open>\<^verbatim>\<open>a.k1 ?? a.k2\<close> of an entry that is neither null nor undefined.\<close>

definition either_field :: "jsval \<Rightarrow> string \<Rightarrow> string \<Rightarrow> jsval" where
  "either_field v k1 k2 = js_coalesce (getp v k1) (getp v k2)"

text \<open>The entries of every workflow in the order of the workflows, each one made with its workflow's name.\<close>

definition collect_runs :: "(string \<Rightarrow> jsval \<Rightarrow> 'r result) \<Rightarrow> fields \<Rightarrow> 'r list result" where
  "collect_runs f entries =
     bindE (mapE (\<lambda>(workflow, runs). bindE (iterable (js_coalesce runs (JArr []))) (mapE (f workflow))) entries)
       (\<lambda>runs. Inr (concat runs))"

section \<open>The trunk\<close>

record health_run =
  hr_workflow :: string
  hr_conclusion :: string
  hr_status :: string
  hr_createdAt :: jsval
  hr_updatedAt :: jsval
  hr_url :: jsval

definition health_run_of :: "string \<Rightarrow> jsval \<Rightarrow> health_run result" where
  "health_run_of workflow run =
     bindE (dot run ''conclusion'') (\<lambda>conclusion. Inr
       \<lparr>hr_workflow = workflow, hr_conclusion = lower_text conclusion, hr_status = lower_text (getp run ''status''),
        hr_createdAt = normalizeIso (either_field run ''created_at'' ''createdAt''),
        hr_updatedAt = normalizeIso (either_field run ''updated_at'' ''updatedAt''),
        hr_url = js_coalesce (either_field run ''html_url'' ''url'') JNull\<rparr>)"

text \<open>
  \<^verbatim>\<open>Date.parse(run.createdAt || 0)\<close>.  The text \<^verbatim>\<open>0\<close> is no ISO date, so its value \<open>undated\<close> is the
  engine's choice.
\<close>

definition created_ms :: "jsnum \<Rightarrow> health_run \<Rightarrow> jsnum" where
  "created_ms undated run =
     (if truthy (hr_createdAt run) then date_parse (js_string (hr_createdAt run)) else undated)"

definition newer_first :: "jsnum \<Rightarrow> health_run \<Rightarrow> health_run \<Rightarrow> bool" where
  "newer_first undated a b \<longleftrightarrow> \<not> num_gt (num_sub (created_ms undated b) (created_ms undated a)) (Fin 0)"

record health_gate =
  hg_paused :: bool
  hg_reasons :: "string list"
  hg_sampleSize :: nat
  hg_successful :: nat
  hg_successRate :: jsnum
  hg_redMinutes :: jsnum
  hg_minSuccessRate :: jsnum
  hg_maxRedMinutes :: jsnum
  hg_latest :: "health_run option"

definition DEFAULT_HEALTH_MIN_SUCCESS_RATE :: jsnum where
  "DEFAULT_HEALTH_MIN_SUCCESS_RATE = Fin (8 / 10)"

definition DEFAULT_HEALTH_MAX_RED_MINUTES :: jsnum where
  "DEFAULT_HEALTH_MAX_RED_MINUTES = Fin 30"

definition succeeded_run :: "health_run \<Rightarrow> bool" where
  "succeeded_run run \<longleftrightarrow> hr_conclusion run = ''success''"

definition success_rate :: "health_run list \<Rightarrow> jsnum" where
  "success_rate runs =
     (if runs = [] then Fin 0
      else num_div (Fin (of_nat (length (filter succeeded_run runs)))) (Fin (of_nat (length runs))))"

definition red_minutes :: "int \<Rightarrow> health_run list \<Rightarrow> jsnum" where
  "red_minutes now runs =
     (case runs of
        [] \<Rightarrow> Fin 0
      | latest # _ \<Rightarrow>
          if succeeded_run latest then Fin 0
          else (case find_first succeeded_run runs of
                  None \<Rightarrow> PosInf
                | Some lastSuccess \<Rightarrow>
                    if \<not> truthy (hr_updatedAt lastSuccess) then PosInf
                    else num_div (num_sub (num_of_int now) (date_parse (js_string (hr_updatedAt lastSuccess)))) (Fin 60000)))"

definition round_minutes :: "jsnum \<Rightarrow> jsnum" where
  "round_minutes n = (if num_finite n then num_toFixed 2 n else n)"

definition evaluateHealthGate :: "jsnum \<Rightarrow> jsval \<Rightarrow> int \<Rightarrow> jsnum \<Rightarrow> jsnum \<Rightarrow> health_gate result" where
  "evaluateHealthGate undated workflowRunsByName now minSuccessRate maxRedMinutes =
     bindE (collect_runs health_run_of (spread (js_coalesce workflowRunsByName (JObj [])))) (\<lambda>collected.
       let runs = sort_by (newer_first undated) collected;
           successRate = success_rate runs;
           redMinutes = red_minutes now runs;
           reasons =
             (if length runs = 0 then [''insufficient-health-data''] else []) @
             (if num_lt successRate minSuccessRate then [''success-rate-below-threshold''] else []) @
             (if num_gt redMinutes maxRedMinutes then [''trunk-red-window-exceeded''] else [])
       in Inr \<lparr>hg_paused = (reasons \<noteq> []), hg_reasons = reasons, hg_sampleSize = length runs,
               hg_successful = length (filter succeeded_run runs), hg_successRate = successRate,
               hg_redMinutes = round_minutes redMinutes, hg_minSuccessRate = minSuccessRate,
               hg_maxRedMinutes = maxRedMinutes, hg_latest = (case runs of [] \<Rightarrow> None | r # _ \<Rightarrow> Some r)\<rparr>)"

section \<open>The workflow fleet\<close>

definition normalizeRunStatus :: "jsval \<Rightarrow> string" where
  "normalizeRunStatus v = to_lower (trim (js_text v))"

definition normalizeRunConclusion :: "jsval \<Rightarrow> string" where
  "normalizeRunConclusion v = to_lower (trim (js_text v))"

record fleet_run =
  fr_workflow :: string
  fr_id :: jsval
  fr_status :: string
  fr_conclusion :: string
  fr_createdAt :: jsval
  fr_updatedAt :: jsval
  fr_branch :: string
  fr_url :: jsval

definition fleet_run_of :: "string \<Rightarrow> jsval \<Rightarrow> fleet_run result" where
  "fleet_run_of workflow run =
     bindE (dot run ''id'') (\<lambda>ident. Inr
       \<lparr>fr_workflow = workflow, fr_id = js_coalesce (js_coalesce ident (getp run ''run_id'')) JNull,
        fr_status = normalizeRunStatus (getp run ''status''),
        fr_conclusion = normalizeRunConclusion (getp run ''conclusion''),
        fr_createdAt = normalizeIso (either_field run ''created_at'' ''createdAt''),
        fr_updatedAt = normalizeIso (either_field run ''updated_at'' ''updatedAt''),
        fr_branch = normalizeBaseBranch (js_coalesce (either_field run ''head_branch'' ''headBranch'') (JStr [])),
        fr_url = js_coalesce (either_field run ''html_url'' ''url'') JNull\<rparr>)"

definition toRuntimeFleetRuns :: "jsval \<Rightarrow> fleet_run list result" where
  "toRuntimeFleetRuns workflowRunsByName =
     (if workflowRunsByName = JNull then Inl (TypeError ''entries'')
      else collect_runs fleet_run_of (spread workflowRunsByName))"

definition runTimestampMs :: "fleet_run \<Rightarrow> jsnum" where
  "runTimestampMs run =
     (let updated = date_parse (js_text (fr_updatedAt run)); created = date_parse (js_text (fr_createdAt run))
      in if num_finite updated then updated else if num_finite created then created else NaN)"

definition runAgeMinutes :: "fleet_run \<Rightarrow> int \<Rightarrow> jsnum" where
  "runAgeMinutes run now =
     (let stamp = runTimestampMs run
      in if \<not> num_finite stamp then PosInf
         else num_max (Fin 0) (num_div (num_sub (num_of_int now) stamp) (Fin 60000)))"

definition queuedStatuses :: "string list" where
  "queuedStatuses = [''queued'', ''requested'', ''waiting'', ''pending'']"

definition inProgressStatuses :: "string list" where
  "inProgressStatuses = [''in_progress'']"

record aged_run = fleet_run +
  ageMinutes :: jsnum

definition with_age :: "fleet_run \<Rightarrow> int \<Rightarrow> aged_run" where
  "with_age run now = fleet_run.extend run \<lparr>ageMinutes = round_minutes (runAgeMinutes run now)\<rparr>"

definition num_or_zero :: "jsnum \<Rightarrow> jsnum" where
  "num_or_zero n = (if truthy (JNum n) then n else Fin 0)"

definition older_first :: "aged_run \<Rightarrow> aged_run \<Rightarrow> bool" where
  "older_first a b \<longleftrightarrow> \<not> num_gt (num_sub (num_or_zero (ageMinutes b)) (num_or_zero (ageMinutes a))) (Fin 0)"

record fleet_health =
  fl_paused :: bool
  fl_reasons :: "string list"
  fl_queued :: nat
  fl_inProgress :: nat
  fl_active :: nat
  fl_stalled :: nat
  fl_maxQueuedRuns :: jsnum
  fl_maxInProgressRuns :: jsnum
  fl_stallThresholdMinutes :: jsnum
  fl_stalledRuns :: "aged_run list"

definition evaluateRuntimeFleetHealth :: "jsval \<Rightarrow> int \<Rightarrow> jsnum \<Rightarrow> jsnum \<Rightarrow> jsnum \<Rightarrow> fleet_health result" where
  "evaluateRuntimeFleetHealth workflowRunsByName now maxQueuedRuns maxInProgressRuns stallThresholdMinutes =
     bindE (toRuntimeFleetRuns workflowRunsByName) (\<lambda>runs.
       let queuedRuns = filter (\<lambda>r. fr_status r \<in> set queuedStatuses) runs;
           inProgressRuns = filter (\<lambda>r. fr_status r \<notin> set queuedStatuses \<and> fr_status r \<in> set inProgressStatuses) runs;
           stalled = filter (\<lambda>r. (fr_status r \<in> set queuedStatuses \<or> fr_status r \<in> set inProgressStatuses) \<and>
                               num_gt (runAgeMinutes r now) stallThresholdMinutes) runs;
           stalledRuns = sort_by older_first (map (\<lambda>r. with_age r now) stalled);
           reasons =
             (if num_gt (Fin (of_nat (length queuedRuns))) maxQueuedRuns then [''queued-runs-threshold-exceeded''] else []) @
             (if num_gt (Fin (of_nat (length inProgressRuns))) maxInProgressRuns
              then [''in-progress-runs-threshold-exceeded''] else []) @
             (if length stalledRuns > 0 then [''stalled-runs-detected''] else [])
       in Inr \<lparr>fl_paused = (reasons \<noteq> []), fl_reasons = reasons, fl_queued = length queuedRuns,
               fl_inProgress = length inProgressRuns, fl_active = length queuedRuns + length inProgressRuns,
               fl_stalled = length stalledRuns, fl_maxQueuedRuns = maxQueuedRuns,
               fl_maxInProgressRuns = maxInProgressRuns, fl_stallThresholdMinutes = stallThresholdMinutes,
               fl_stalledRuns = stalledRuns\<rparr>)"

end
