(* ===== verification/QueueControl.thy ===== *)
theory QueueControl
  imports QueueHealth
begin

text \<open>
  The throughput controller of the queue supervisor (\<^verbatim>\<open>tools/priority/queue-supervisor.mjs\<close>): the mode and
  its hysteresis, the caps, the burst window, the retry history, and the controller document a run
  leaves for the next one.
\<close>

section \<open>Numbers from values\<close>

definition parseIntStrict :: "jsval \<Rightarrow> string \<Rightarrow> jsnum result" where
  "parseIntStrict v lab =
     (let parsed = js_number v
      in if \<not> num_integer parsed \<or> num_lt parsed (Fin 0)
         then Inl (ErrorMsg (''Invalid '' @ lab @ '' value '' @ [CHR 0x27] @ js_string v @ [CHR 0x27] @ ''.''))
         else Inr parsed)"

definition toFiniteNumber :: "jsval \<Rightarrow> jsnum \<Rightarrow> jsnum" where
  "toFiniteNumber v fallback = (let numeric = js_number v in if num_finite numeric then numeric else fallback)"

definition normalizeRatio :: "jsval \<Rightarrow> jsnum" where
  "normalizeRatio v =
     (let numeric = toFiniteNumber v (Fin 0) in if num_lt numeric (Fin 0) then Fin 0 else num_toFixed 3 numeric)"

section \<open>Modes\<close>

definition normalizeControllerMode :: "jsval \<Rightarrow> jsval" where
  "normalizeControllerMode v =
     (let normalized = to_lower (trim (js_text v))
      in if normalized \<in> set [''healthy'', ''guarded'', ''stabilize'', ''fixed''] then JStr normalized else JNull)"

definition modeRank :: "string \<Rightarrow> int" where
  "modeRank mode =
     (if mode = ''stabilize'' then 0 else if mode = ''guarded'' then 1 else if mode = ''healthy'' then 2 else -1)"

definition modeFromRank :: "int \<Rightarrow> string" where
  "modeFromRank rank = (if rank \<le> 0 then ''stabilize'' else if rank = 1 then ''guarded'' else ''healthy'')"

record mode_caps =
  mc_healthy :: jsnum
  mc_guarded :: jsnum
  mc_stabilize :: jsnum

definition deriveModeCaps :: "jsnum \<Rightarrow> jsnum \<Rightarrow> mode_caps" where
  "deriveModeCaps configuredMax configuredMin =
     \<lparr>mc_healthy = configuredMax,
      mc_guarded = num_max configuredMin (num_min configuredMax (num_sub configuredMax (Fin 2))),
      mc_stabilize = configuredMin\<rparr>"

definition cap_of_mode :: "mode_caps \<Rightarrow> string \<Rightarrow> jsnum \<Rightarrow> jsnum" where
  "cap_of_mode caps mode fallback =
     (if mode = ''healthy'' then mc_healthy caps else if mode = ''guarded'' then mc_guarded caps
      else if mode = ''stabilize'' then mc_stabilize caps else fallback)"

record controller_thresholds =
  severeSuccessRate :: jsnum
  warningSuccessRate :: jsnum
  warningSaturation :: jsnum
  severeSaturation :: jsnum
  warningRetryRatio :: jsnum
  severeRetryRatio :: jsnum
  warningQuarantineRatio :: jsnum
  severeQuarantineRatio :: jsnum

definition CONTROLLER_THRESHOLDS :: controller_thresholds where
  "CONTROLLER_THRESHOLDS =
     \<lparr>severeSuccessRate = Fin (8 / 10), warningSuccessRate = Fin (9 / 10), warningSaturation = Fin (75 / 100),
      severeSaturation = Fin 1, warningRetryRatio = Fin (2 / 10), severeRetryRatio = Fin (35 / 100),
      warningQuarantineRatio = Fin (1 / 10), severeQuarantineRatio = Fin (2 / 10)\<rparr>"

definition when_reason :: "bool \<Rightarrow> string \<Rightarrow> string list" where
  "when_reason b reason = (if b then [reason] else [])"

definition evaluateDesiredControllerMode ::
  "controller_thresholds \<Rightarrow> jsnum \<Rightarrow> jsnum \<Rightarrow> jsnum \<Rightarrow> jsnum \<Rightarrow> jsnum \<Rightarrow> string \<times> string list" where
  "evaluateDesiredControllerMode th successRate saturation stalled retryRatio quarantineRatio =
     (let severeReasons =
            when_reason (num_lt successRate (severeSuccessRate th)) ''success-rate-severe'' @
            when_reason (num_ge saturation (severeSaturation th)) ''runtime-saturation-severe'' @
            when_reason (num_gt stalled (Fin 0)) ''stalled-runs-detected'' @
            when_reason (num_ge retryRatio (severeRetryRatio th)) ''retry-ratio-severe'' @
            when_reason (num_ge quarantineRatio (severeQuarantineRatio th)) ''quarantine-ratio-severe'';
          warningReasons =
            when_reason (num_lt successRate (warningSuccessRate th)) ''success-rate-warning'' @
            when_reason (num_ge saturation (warningSaturation th)) ''runtime-saturation-warning'' @
            when_reason (num_ge retryRatio (warningRetryRatio th)) ''retry-ratio-warning'' @
            when_reason (num_ge quarantineRatio (warningQuarantineRatio th)) ''quarantine-ratio-warning''
      in if severeReasons \<noteq> [] then (''stabilize'', severeReasons)
         else (if warningReasons \<noteq> [] then ''guarded'' else ''healthy'', warningReasons))"

definition CONTROLLER_REQUIRED_UPGRADE_STREAK :: jsnum where
  "CONTROLLER_REQUIRED_UPGRADE_STREAK = Fin 2"

record hysteresis =
  h_mode :: string
  h_desiredMode :: string
  h_transition :: string
  h_upgradeStreak :: jsnum

definition applyControllerHysteresis :: "string \<Rightarrow> jsval \<Rightarrow> jsval \<Rightarrow> jsnum \<Rightarrow> hysteresis" where
  "applyControllerHysteresis desired previousMode previousUpgradeStreak requiredUpgradeStreak =
     (case normalizeControllerMode previousMode of
        JStr previous \<Rightarrow>
          if previous = ''fixed'' then
            \<lparr>h_mode = desired, h_desiredMode = desired, h_transition = ''initialized'', h_upgradeStreak = Fin 0\<rparr>
          else
            (let previousRank = modeRank previous;
                 desiredRank = (if modeRank desired > previousRank + 1 then previousRank + 1 else modeRank desired);
                 capped = modeFromRank desiredRank;
                 streak = num_add (num_max (Fin 0) (num_or_zero (js_number previousUpgradeStreak))) (Fin 1)
             in if desiredRank < previousRank then
                  \<lparr>h_mode = capped, h_desiredMode = capped, h_transition = ''downgrade-applied'', h_upgradeStreak = Fin 0\<rparr>
                else if desiredRank = previousRank then
                  \<lparr>h_mode = capped, h_desiredMode = capped, h_transition = ''unchanged'', h_upgradeStreak = Fin 0\<rparr>
                else if num_ge streak requiredUpgradeStreak then
                  \<lparr>h_mode = capped, h_desiredMode = capped, h_transition = ''upgrade-applied'', h_upgradeStreak = Fin 0\<rparr>
                else
                  \<lparr>h_mode = previous, h_desiredMode = capped, h_transition = ''upgrade-pending'', h_upgradeStreak = streak\<rparr>)
      | _ \<Rightarrow>
          \<lparr>h_mode = desired, h_desiredMode = desired, h_transition = ''initialized'', h_upgradeStreak = Fin 0\<rparr>)"

section \<open>The adaptive cap\<close>

record controller_metrics =
  cm_successRate :: jsnum
  cm_saturation :: jsnum
  cm_queued :: jsnum
  cm_inProgress :: jsnum
  cm_stalled :: jsnum
  cm_retryRatio :: jsnum
  cm_quarantineRatio :: jsnum

record adaptive_inflight =
  ai_enabled :: bool
  ai_configuredMaxInflight :: jsnum
  ai_minInflight :: jsnum
  ai_effectiveMaxInflight :: jsnum
  ai_tier :: string
  ai_mode :: string
  ai_desiredMode :: string
  ai_capByMode :: mode_caps
  ai_reasons :: "string list"
  ai_metrics :: controller_metrics
  ai_thresholds :: controller_thresholds
  ai_previousMode :: jsval
  ai_transition :: string
  ai_upgradeStreak :: jsnum
  ai_requiredUpgradeStreak :: jsnum

definition DEFAULT_MAX_QUEUED_RUNS :: jsnum where
  "DEFAULT_MAX_QUEUED_RUNS = Fin 6"

definition DEFAULT_MAX_IN_PROGRESS_RUNS :: jsnum where
  "DEFAULT_MAX_IN_PROGRESS_RUNS = Fin 8"

definition evaluateAdaptiveInflight ::
  "jsval \<Rightarrow> jsval \<Rightarrow> bool \<Rightarrow> jsval \<Rightarrow> jsval \<Rightarrow> jsval \<Rightarrow> jsval \<Rightarrow> adaptive_inflight result" where
  "evaluateAdaptiveInflight maxInflight minInflight adaptiveCap health runtimeFleet retryPressure previousControllerState =
     bindE (parseIntStrict maxInflight ''maxInflight'') (\<lambda>configuredMax.
     bindE (parseIntStrict minInflight ''minInflight'') (\<lambda>configuredMin.
       if num_gt configuredMin configuredMax then
         Inl (ErrorMsg (''Adaptive inflight floor ('' @ num_to_string configuredMin @
                        '') cannot exceed max inflight ('' @ num_to_string configuredMax @ '').''))
       else
         (let caps = deriveModeCaps configuredMax configuredMin;
              successRate = toFiniteNumber (getp health ''successRate'') (Fin 0);
              totals = getp runtimeFleet ''totals'';
              queued = toFiniteNumber (getp totals ''queued'') (Fin 0);
              inProgress = toFiniteNumber (getp totals ''inProgress'') (Fin 0);
              stalled = toFiniteNumber (getp totals ''stalled'') (Fin 0);
              maxQueued = num_max (Fin 1)
                (toFiniteNumber (getp2 runtimeFleet ''thresholds'' ''maxQueuedRuns'') DEFAULT_MAX_QUEUED_RUNS);
              maxInProgress = num_max (Fin 1)
                (toFiniteNumber (getp2 runtimeFleet ''thresholds'' ''maxInProgressRuns'') DEFAULT_MAX_IN_PROGRESS_RUNS);
              saturation = num_max (num_div queued maxQueued) (num_div inProgress maxInProgress);
              retryRatio = normalizeRatio (getp retryPressure ''retryRatio'');
              quarantineRatio = normalizeRatio (getp retryPressure ''quarantineRatio'');
              metrics = \<lparr>cm_successRate = normalizeRatio (JNum successRate), cm_saturation = normalizeRatio (JNum saturation),
                cm_queued = queued, cm_inProgress = inProgress, cm_stalled = stalled,
                cm_retryRatio = retryRatio, cm_quarantineRatio = quarantineRatio\<rparr>;
              previous = normalizeControllerMode (getp previousControllerState ''mode'')
          in if \<not> adaptiveCap then
               Inr \<lparr>ai_enabled = False, ai_configuredMaxInflight = configuredMax, ai_minInflight = configuredMin,
                    ai_effectiveMaxInflight = configuredMax, ai_tier = ''fixed'', ai_mode = ''fixed'',
                    ai_desiredMode = ''fixed'', ai_capByMode = caps, ai_reasons = [], ai_metrics = metrics,
                    ai_thresholds = CONTROLLER_THRESHOLDS, ai_previousMode = previous,
                    ai_transition = ''fixed-cap-disabled'', ai_upgradeStreak = Fin 0,
                    ai_requiredUpgradeStreak = CONTROLLER_REQUIRED_UPGRADE_STREAK\<rparr>
             else
               (let (desired, reasons) = evaluateDesiredControllerMode CONTROLLER_THRESHOLDS successRate saturation
                      stalled retryRatio quarantineRatio;
                    h = applyControllerHysteresis desired (getp previousControllerState ''mode'')
                      (getp previousControllerState ''upgradeStreak'') CONTROLLER_REQUIRED_UPGRADE_STREAK
                in Inr \<lparr>ai_enabled = True, ai_configuredMaxInflight = configuredMax, ai_minInflight = configuredMin,
                        ai_effectiveMaxInflight = cap_of_mode caps (h_mode h) configuredMin,
                        ai_tier = h_mode h, ai_mode = h_mode h, ai_desiredMode = h_desiredMode h, ai_capByMode = caps,
                        ai_reasons = uniq reasons, ai_metrics = metrics, ai_thresholds = CONTROLLER_THRESHOLDS,
                        ai_previousMode = previous, ai_transition = h_transition h,
                        ai_upgradeStreak = h_upgradeStreak h,
                        ai_requiredUpgradeStreak = CONTROLLER_REQUIRED_UPGRADE_STREAK\<rparr>))))"

section \<open>The burst window\<close>

definition BURST_BACKOFF_MINUTES :: int where
  "BURST_BACKOFF_MINUTES = 30"

definition BURST_MODES :: "string list" where
  "BURST_MODES = [''auto'', ''on'', ''off'']"

definition parseBurstMode :: "jsval \<Rightarrow> string \<Rightarrow> string result" where
  "parseBurstMode v lab =
     (let normalized = to_lower (trim (js_text v))
      in if normalized \<notin> set BURST_MODES
         then Inl (ErrorMsg (''Invalid '' @ lab @ '' value '' @ [CHR 0x27] @ js_string v @ [CHR 0x27] @
                ''. Expected one of: auto,on,off.''))
         else Inr normalized)"

text \<open>\<^verbatim>\<open>some\<close> stops at the first item that satisfies the test, or raises.\<close>

fun someE :: "('a \<Rightarrow> bool result) \<Rightarrow> 'a list \<Rightarrow> bool result" where
  "someE f [] = Inr False"
| "someE f (x # xs) = bindE (f x) (\<lambda>b. if b then Inr True else someE f xs)"

definition hasReleaseBranchPullRequest :: "jsval \<Rightarrow> bool result" where
  "hasReleaseBranchPullRequest pullRequests =
     bindE (mappable pullRequests) (\<lambda>prs. Inr (list_ex (\<lambda>pr.
       starts_with (to_lower (trim (js_text (getp pr ''headRefName'')))) ''release/'' \<or>
       starts_with (normalizeBaseBranch (getp pr ''baseRefName'')) ''release/'') prs))"

definition hasReleaseBurstLabel :: "jsval \<Rightarrow> bool result" where
  "hasReleaseBurstLabel pullRequests =
     bindE (mappable pullRequests) (someE (\<lambda>pr.
       bindE (mappable (getp pr ''labels'')) (\<lambda>ls.
         Inr (list_ex (\<lambda>l. normalizeLabelName l = ''release-burst'') ls))))"

definition RELEASE_WINDOW_DAY_UTC :: int where
  "RELEASE_WINDOW_DAY_UTC = 3"

definition RELEASE_WINDOW_MAX_DAY_OF_MONTH :: int where
  "RELEASE_WINDOW_MAX_DAY_OF_MONTH = 7"

definition RELEASE_WINDOW_HOUR_UTC :: int where
  "RELEASE_WINDOW_HOUR_UTC = 18"

text \<open>1970-01-01 was a Thursday, day 4 of the week.\<close>

definition isReleaseWindow :: "int \<Rightarrow> bool" where
  "isReleaseWindow now =
     (let utcDay = (now div ms_per_day + 4) mod 7;
          (y, m, utcDate) = civil_of_day (now div ms_per_day + epoch_day);
          utcHour = now mod ms_per_day div 3600000
      in utcDay = RELEASE_WINDOW_DAY_UTC \<and> utcDate \<le> RELEASE_WINDOW_MAX_DAY_OF_MONTH \<and>
         utcHour = RELEASE_WINDOW_HOUR_UTC)"

record burst_window =
  bw_mode :: string
  bw_active :: bool
  bw_configuredRefillCycles :: jsnum
  bw_refillCyclesRemaining :: jsnum
  bw_backoffMinutes :: int
  bw_backoffUntil :: jsval
  bw_backoffActive :: bool
  bw_releaseWindow :: bool
  bw_releaseBranchPullRequest :: bool
  bw_releaseBurstLabel :: bool
  bw_triggerReasons :: "string list"
  bw_reasons :: "string list"
  bw_stabilized :: bool

definition refill_cycles :: "string \<Rightarrow> bool \<Rightarrow> jsnum \<Rightarrow> jsnum \<Rightarrow> jsnum" where
  "refill_cycles mode triggerActive configured previous =
     (if mode = ''auto'' then
        (if triggerActive then configured
         else if num_gt previous (Fin 0) then num_sub previous (Fin 1) else Fin 0)
      else if mode = ''on'' then configured else Fin 0)"

definition burst_verdict :: "string \<Rightarrow> bool \<Rightarrow> string list \<Rightarrow> jsnum \<Rightarrow> bool \<times> string list" where
  "burst_verdict mode backoffActive triggerReasons refill =
     (if mode = ''off'' then (False, [''burst-mode-off''])
      else if backoffActive then (False, [''stabilize-backoff''])
      else if mode = ''on'' then (True, [''burst-mode-on''])
      else if triggerReasons \<noteq> [] then (True, triggerReasons)
      else if num_gt refill (Fin 0) then (True, [''refill-cycles''])
      else (False, [''no-burst-trigger'']))"

definition evaluateBurstWindow ::
  "jsval \<Rightarrow> jsval \<Rightarrow> jsval \<Rightarrow> jsval \<Rightarrow> jsval \<Rightarrow> int \<Rightarrow> burst_window result" where
  "evaluateBurstWindow burstMode burstRefillCycles pullRequests previousBurst controllerMode now =
     bindE (parseBurstMode burstMode ''burstMode'') (\<lambda>mode.
     bindE (parseIntStrict burstRefillCycles ''burstRefillCycles'') (\<lambda>configured.
       let previousBackoffUntil = normalizeIso (getp previousBurst ''backoffUntil'');
           waiting = truthy previousBackoffUntil \<and> num_gt (date_parse (js_string previousBackoffUntil)) (num_of_int now);
           stabilized = (normalizeControllerMode controllerMode = JStr ''stabilize'')
       in bindE (if stabilized then bindE (date_iso (now + BURST_BACKOFF_MINUTES * 60 * 1000)) (\<lambda>t. Inr (JStr t, True))
                 else Inr (previousBackoffUntil, waiting)) (\<lambda>(backoffUntil, backoffActive).
          bindE (hasReleaseBranchPullRequest pullRequests) (\<lambda>branchPr.
          bindE (hasReleaseBurstLabel pullRequests) (\<lambda>burstLabel.
            let window = isReleaseWindow now;
                triggerReasons = when_reason window ''release-window'' @ when_reason branchPr ''open-release-branch-pr'' @
                  when_reason burstLabel ''release-burst-label'';
                previousRefill = num_max (Fin 0) (num_or_zero (js_number (getp previousBurst ''refillCyclesRemaining'')));
                refill = refill_cycles mode (triggerReasons \<noteq> []) configured previousRefill;
                (active, reasons) = burst_verdict mode backoffActive triggerReasons refill
            in Inr \<lparr>bw_mode = mode, bw_active = active, bw_configuredRefillCycles = configured,
                    bw_refillCyclesRemaining = refill, bw_backoffMinutes = BURST_BACKOFF_MINUTES,
                    bw_backoffUntil = backoffUntil, bw_backoffActive = backoffActive, bw_releaseWindow = window,
                    bw_releaseBranchPullRequest = branchPr, bw_releaseBurstLabel = burstLabel,
                    bw_triggerReasons = triggerReasons, bw_reasons = uniq reasons, bw_stabilized = stabilized\<rparr>)))))"

section \<open>The retry history\<close>

definition RETRY_WINDOW_HOURS :: int where
  "RETRY_WINDOW_HOURS = 24"

text \<open>\<^verbatim>\<open>Date.parse\<close> of a value: of its text.\<close>

definition value_ms :: "jsval \<Rightarrow> jsnum" where
  "value_ms v = date_parse (js_string v)"

definition failures_of :: "jsval \<Rightarrow> jsval list" where
  "failures_of entry = array_items (getp entry ''failures'')"

definition cutoff_ms :: "string \<Rightarrow> int \<Rightarrow> jsnum" where
  "cutoff_ms nowIso windowHours = num_sub (date_parse nowIso) (num_of_int (windowHours * 60 * 60 * 1000))"

record retry_pressure =
  rp_failureEvents :: nat
  rp_activeFailurePrs :: nat
  rp_quarantinedPrs :: nat
  rp_retryRatio :: jsnum
  rp_quarantineRatio :: jsnum

definition computeRetryPressure :: "fields \<Rightarrow> nat \<Rightarrow> retry_pressure" where
  "computeRetryPressure retryHistory candidateCount =
     (let failing = filter (\<lambda>fs. fs \<noteq> []) (map (\<lambda>(k, entry). failures_of entry) retryHistory);
          failureEvents = sum_list (map length failing);
          active = length failing;
          quarantined = length (filter (\<lambda>fs. length fs \<ge> 2) failing)
      in \<lparr>rp_failureEvents = failureEvents, rp_activeFailurePrs = active, rp_quarantinedPrs = quarantined,
          rp_retryRatio = normalizeRatio (JNum (num_div (Fin (of_nat failureEvents)) (Fin (of_nat (max 1 candidateCount))))),
          rp_quarantineRatio = normalizeRatio (JNum (num_div (Fin (of_nat quarantined)) (Fin (of_nat (max 1 active)))))\<rparr>)"

definition pruneRetryHistory :: "fields \<Rightarrow> string \<Rightarrow> int \<Rightarrow> fields" where
  "pruneRetryHistory retryHistory nowIso windowHours =
     fold (\<lambda>(key, entry) normalized.
         let retained = filter (\<lambda>v. num_finite (value_ms v) \<and> num_ge (value_ms v) (cutoff_ms nowIso windowHours))
               (failures_of entry)
         in if retained \<noteq> [] then update_fields normalized key (JObj [(''failures'', JArr retained)]) else normalized)
       retryHistory []"

definition reportRetryState :: "fields \<Rightarrow> jsnum \<Rightarrow> jsval list" where
  "reportRetryState history n = failures_of (lookup history (num_to_string n))"

definition appendFailure :: "fields \<Rightarrow> jsnum \<Rightarrow> string \<Rightarrow> int \<Rightarrow> fields \<times> nat" where
  "appendFailure history n atIso windowHours =
     (let existing = reportRetryState history n;
          retained = filter (\<lambda>v. num_ge (value_ms v) (cutoff_ms atIso windowHours)) existing @ [JStr atIso]
      in (update_fields history (num_to_string n) (JObj [(''failures'', JArr retained)]), length retained))"

definition clearFailure :: "fields \<Rightarrow> jsnum \<Rightarrow> fields" where
  "clearFailure history n =
     (let key = num_to_string n
      in if truthy (lookup history key) then filter (\<lambda>(k, v). k \<noteq> key) history else history)"

section \<open>The governor\<close>

definition normalizeGovernorMode :: "jsval \<Rightarrow> string" where
  "normalizeGovernorMode v =
     (let normalized = to_lower (trim (js_text v))
      in if normalized \<in> set [''normal'', ''stabilize'', ''pause''] then normalized else ''normal'')"

definition envelope_has :: "jsval \<Rightarrow> string \<Rightarrow> bool" where
  "envelope_has envelope k \<longleftrightarrow> truthy envelope \<and> is_object envelope \<and> has_key envelope k"

definition envelope_payload :: "jsval \<Rightarrow> jsval" where
  "envelope_payload envelope = (if envelope_has envelope ''payload'' then getp envelope ''payload'' else envelope)"

definition envelope_exists :: "jsval \<Rightarrow> bool" where
  "envelope_exists envelope =
     (if envelope_has envelope ''exists'' then truthy (getp envelope ''exists'') else truthy (envelope_payload envelope))"

definition envelope_error :: "jsval \<Rightarrow> jsval" where
  "envelope_error envelope = (if envelope_has envelope ''error'' then getp envelope ''error'' else JNull)"

definition text_or_null :: "jsval \<Rightarrow> jsval" where
  "text_or_null v = (case v of JStr s \<Rightarrow> JStr s | _ \<Rightarrow> JNull)"

record state_envelope =
  se_path :: string
  se_exists :: bool
  se_error :: jsval
  se_status :: jsval
  se_generatedAt :: jsval
  se_sourceSchema :: jsval

definition projectOptionalStateEnvelope :: "jsval \<Rightarrow> string \<Rightarrow> string list option \<Rightarrow> state_envelope" where
  "projectOptionalStateEnvelope envelope statePath allowedStatuses =
     (let payload = envelope_payload envelope; rawStatus = text_or_null (getp payload ''status'')
      in \<lparr>se_path = statePath, se_exists = envelope_exists envelope, se_error = envelope_error envelope,
          se_status = (case allowedStatuses of
                         None \<Rightarrow> rawStatus
                       | Some allowed \<Rightarrow> if rawStatus \<in> JStr ` set allowed then rawStatus else JNull),
          se_generatedAt = normalizeIso (getp payload ''generatedAt''),
          se_sourceSchema = text_or_null (getp payload ''schema'')\<rparr>)"

record governor_state =
  gv_path :: string
  gv_exists :: bool
  gv_error :: jsval
  gv_mode :: string
  gv_desiredMode :: string
  gv_reasons :: "jsval list"
  gv_generatedAt :: jsval
  gv_sourceSchema :: jsval

definition governor_state_of :: "jsval \<Rightarrow> string \<Rightarrow> governor_state" where
  "governor_state_of envelope statePath =
     (let payload = envelope_payload envelope
      in \<lparr>gv_path = statePath, gv_exists = envelope_exists envelope, gv_error = envelope_error envelope,
          gv_mode = normalizeGovernorMode (js_coalesce (getp payload ''mode'') (getp payload ''intent'')),
          gv_desiredMode = normalizeGovernorMode (js_coalesce (getp payload ''desiredMode'') (getp payload ''mode'')),
          gv_reasons = array_items (getp payload ''reasons''),
          gv_generatedAt = normalizeIso (getp payload ''generatedAt''),
          gv_sourceSchema = text_or_null (getp payload ''schema'')\<rparr>)"

section \<open>The cap of one run and the document it leaves\<close>

record run_cap =
  rc_burstCapApplied :: bool
  rc_effectiveMaxInflight :: jsnum
  rc_governorCapApplied :: bool
  rc_governorCapLimit :: jsval

definition effective_cap :: "jsnum \<Rightarrow> jsnum \<Rightarrow> jsnum \<Rightarrow> bool \<Rightarrow> string \<Rightarrow> run_cap" where
  "effective_cap maxInflight minInflight adaptiveMax burstActive governorMode =
     (let burstCapApplied = (burstActive \<and> num_gt maxInflight adaptiveMax);
          cap = (if burstCapApplied then maxInflight else adaptiveMax);
          stabilizeCap = num_max (Fin 0) (num_min minInflight cap)
      in if governorMode = ''pause'' then \<lparr>rc_burstCapApplied = burstCapApplied, rc_effectiveMaxInflight = Fin 0,
              rc_governorCapApplied = True, rc_governorCapLimit = JNum (Fin 0)\<rparr>
         else if governorMode = ''stabilize'' \<and> num_lt stabilizeCap cap then
           \<lparr>rc_burstCapApplied = burstCapApplied, rc_effectiveMaxInflight = stabilizeCap,
            rc_governorCapApplied = True, rc_governorCapLimit = JNum stabilizeCap\<rparr>
         else \<lparr>rc_burstCapApplied = burstCapApplied, rc_effectiveMaxInflight = cap,
               rc_governorCapApplied = False, rc_governorCapLimit = JNull\<rparr>)"

definition mode_caps_value :: "mode_caps \<Rightarrow> jsval" where
  "mode_caps_value c = JObj [(''healthy'', JNum (mc_healthy c)), (''guarded'', JNum (mc_guarded c)),
     (''stabilize'', JNum (mc_stabilize c))]"

definition metrics_value :: "controller_metrics \<Rightarrow> jsval" where
  "metrics_value m = JObj [(''successRate'', JNum (cm_successRate m)), (''saturation'', JNum (cm_saturation m)),
     (''queued'', JNum (cm_queued m)), (''inProgress'', JNum (cm_inProgress m)), (''stalled'', JNum (cm_stalled m)),
     (''retryRatio'', JNum (cm_retryRatio m)), (''quarantineRatio'', JNum (cm_quarantineRatio m))]"

definition thresholds_value :: "controller_thresholds \<Rightarrow> jsval" where
  "thresholds_value t = JObj [(''severeSuccessRate'', JNum (severeSuccessRate t)),
     (''warningSuccessRate'', JNum (warningSuccessRate t)), (''warningSaturation'', JNum (warningSaturation t)),
     (''severeSaturation'', JNum (severeSaturation t)), (''warningRetryRatio'', JNum (warningRetryRatio t)),
     (''severeRetryRatio'', JNum (severeRetryRatio t)), (''warningQuarantineRatio'', JNum (warningQuarantineRatio t)),
     (''severeQuarantineRatio'', JNum (severeQuarantineRatio t))]"

definition hysteresis_value :: "adaptive_inflight \<Rightarrow> jsval" where
  "hysteresis_value a = JObj [(''previousMode'', ai_previousMode a), (''transition'', JStr (ai_transition a)),
     (''upgradeStreak'', JNum (ai_upgradeStreak a)), (''requiredUpgradeStreak'', JNum (ai_requiredUpgradeStreak a))]"

definition retry_value :: "retry_pressure \<Rightarrow> jsval" where
  "retry_value r = JObj [(''failureEvents'', JNum (Fin (of_nat (rp_failureEvents r)))),
     (''activeFailurePrs'', JNum (Fin (of_nat (rp_activeFailurePrs r)))),
     (''quarantinedPrs'', JNum (Fin (of_nat (rp_quarantinedPrs r)))),
     (''retryRatio'', JNum (rp_retryRatio r)), (''quarantineRatio'', JNum (rp_quarantineRatio r))]"

definition THROUGHPUT_CONTROLLER_SCHEMA :: string where
  "THROUGHPUT_CONTROLLER_SCHEMA = ''ops-throughput-controller-state@v1''"

definition throughputControllerState ::
  "string \<Rightarrow> string \<Rightarrow> adaptive_inflight \<Rightarrow> burst_window \<Rightarrow> governor_state \<Rightarrow> run_cap \<Rightarrow> retry_pressure \<Rightarrow> string list \<Rightarrow> jsval" where
  "throughputControllerState nowIso repository adaptive burst governor cap pressure pausedReasons =
     JObj [(''schema'', JStr THROUGHPUT_CONTROLLER_SCHEMA), (''generatedAt'', JStr nowIso),
       (''repository'', JStr repository), (''mode'', JStr (ai_mode adaptive)),
       (''desiredMode'', JStr (ai_desiredMode adaptive)), (''targetCap'', JNum (rc_effectiveMaxInflight cap)),
       (''capByMode'', mode_caps_value (ai_capByMode adaptive)), (''adaptiveEnabled'', JBool (ai_enabled adaptive)),
       (''burstMode'', JStr (bw_mode burst)), (''burstActive'', JBool (bw_active burst)),
       (''burstCapApplied'', JBool (rc_burstCapApplied cap)), (''governorMode'', JStr (gv_mode governor)),
       (''governorDesiredMode'', JStr (gv_desiredMode governor)),
       (''governorCapApplied'', JBool (rc_governorCapApplied cap)), (''governorCapLimit'', rc_governorCapLimit cap),
       (''reasons'', jstrs (ai_reasons adaptive)), (''metrics'', metrics_value (ai_metrics adaptive)),
       (''thresholds'', thresholds_value (ai_thresholds adaptive)), (''hysteresis'', hysteresis_value adaptive),
       (''retryPressure'', retry_value pressure), (''paused'', JBool (pausedReasons \<noteq> [])),
       (''pausedReasons'', jstrs pausedReasons)]"

end
