(* ===== verification/QueueReadiness.thy ===== *)
theory QueueReadiness
  imports QueueOrder
begin

text \<open>
  The readiness report of the queue (\<^verbatim>\<open>tools/priority/queue-readiness.mjs\<close>): the score of every candidate and
  the ready set in dependency order.  Candidates are values: the supervisor passes its own, the command
  line reads them from the supervisor's report.
\<close>

section \<open>Weights\<close>

record score_weights =
  sw_readinessBase :: rat
  sw_checksGreen :: rat
  sw_dependencyReady :: rat
  sw_priorityScale :: rat
  sw_priorityBase :: rat
  sw_coupling :: "(string \<times> rat) list"
  sw_riskClass :: "(string \<times> rat) list"
  sw_flakyExposure :: "(string \<times> rat) list"
  sw_ageMaxBonus :: rat
  sw_ageHoursPerPoint :: rat

definition SCORE_WEIGHTS :: score_weights where
  "SCORE_WEIGHTS =
     \<lparr>sw_readinessBase = 30, sw_checksGreen = 20, sw_dependencyReady = 15, sw_priorityScale = 8, sw_priorityBase = 40,
      sw_coupling = [(''independent'', 20), (''soft'', 10), (''hard'', 0)],
      sw_riskClass = [(''low'', 10), (''medium'', 0), (''high'', -10)],
      sw_flakyExposure = [(''none'', 0), (''medium'', -10), (''high'', -20)],
      sw_ageMaxBonus = 12, sw_ageHoursPerPoint = 6\<rparr>"

section \<open>Fields of a candidate\<close>

definition normalizeText_qr :: "jsval \<Rightarrow> string" where
  "normalizeText_qr v = (if nullish v then [] else trim (js_string v))"

definition normalizeLower :: "jsval \<Rightarrow> string" where
  "normalizeLower v = to_lower (normalizeText_qr v)"

definition normalizeIso_qr :: "jsval \<Rightarrow> jsval" where
  "normalizeIso_qr v = (let date = date_of_value v in if date = NaN then JNull else JStr (iso_of_num date))"

definition parseLabelNames :: "jsval \<Rightarrow> string list result" where
  "parseLabelNames labelled =
     bindE (iterable labelled) (\<lambda>items.
       Inr (uniq (filter (\<lambda>s. s \<noteq> [])
         (map (\<lambda>l. normalizeLower (case l of JStr s \<Rightarrow> JStr s | _ \<Rightarrow> getp l ''name'')) items))))"

text \<open>\<^verbatim>\<open>/^\s*key\s*:\s*(v1|v2|...)\s*$/im\<close> at one line start.\<close>

definition option_at :: "string \<Rightarrow> string list \<Rightarrow> string \<Rightarrow> string option" where
  "option_at key options s =
     (case after_key key s of
        None \<Rightarrow> None
      | Some r \<Rightarrow> find_first (\<lambda>v. starts_with (to_lower r) v \<and> blank_to_line_end (drop (length v) r)) options)"

definition body_option :: "string \<Rightarrow> string list \<Rightarrow> jsval \<Rightarrow> string option" where
  "body_option key options body =
     (let text = js_string body in first_match (option_at key options) (text # line_starts text))"

definition parseRiskClass :: "jsval \<Rightarrow> jsval \<Rightarrow> string result" where
  "parseRiskClass body labelled =
     (case body_option ''risk-class'' [''low'', ''medium'', ''high''] body of
        Some v \<Rightarrow> Inr v
      | None \<Rightarrow> bindE (parseLabelNames labelled) (\<lambda>labelNames.
          Inr (if ''risk-low'' \<in> set labelNames then ''low''
               else if ''risk-high'' \<in> set labelNames then ''high'' else ''medium'')))"

definition parseFlakyExposure :: "jsval \<Rightarrow> jsval \<Rightarrow> string result" where
  "parseFlakyExposure body labelled =
     (case body_option ''flaky-exposure'' [''none'', ''medium'', ''high''] body of
        Some v \<Rightarrow> Inr v
      | None \<Rightarrow> bindE (parseLabelNames labelled) (\<lambda>labelNames.
          Inr (if ''flaky-risk-high'' \<in> set labelNames then ''high''
               else if ''flaky-risk-medium'' \<in> set labelNames then ''medium'' else ''none'')))"

definition ageHours :: "jsval \<Rightarrow> int \<Rightarrow> jsnum" where
  "ageHours updated now =
     (let updatedMs = date_parse (js_string (js_or updated (JStr [])))
      in if \<not> num_finite updatedMs then Fin 0
         else num_max (Fin 0) (num_div (num_sub (num_of_int now) updatedMs) (Fin 3600000)))"

definition normalizeCoupling :: "jsval \<Rightarrow> string" where
  "normalizeCoupling v =
     (let c = normalizeLower v in if c = ''soft'' \<or> c = ''hard'' then c else ''independent'')"

definition parsePriority :: "jsval \<Rightarrow> jsnum" where
  "parsePriority v =
     (let numeric = js_number v in if \<not> num_integer numeric \<or> num_lt numeric (Fin 0) then Fin 9 else numeric)"

text \<open>\<^verbatim>\<open>v?.length ?? 0\<close> compared with 0: texts, arrays and objects with a property \<^verbatim>\<open>length\<close> have one.\<close>

definition no_length :: "jsval \<Rightarrow> bool" where
  "no_length v \<longleftrightarrow>
     (case v of
        JStr s \<Rightarrow> s = []
      | JArr xs \<Rightarrow> xs = []
      | _ \<Rightarrow> js_coalesce (getp v ''length'') (JNum (Fin 0)) = JNum (Fin 0))"

record score_components =
  sc_readinessBase :: rat
  sc_checksGreen :: rat
  sc_dependencyReady :: rat
  sc_priority :: jsnum
  sc_coupling :: rat
  sc_riskClass :: rat
  sc_flakyExposure :: rat
  sc_age :: jsnum

record scored =
  sr_score :: jsnum
  sr_components :: score_components
  sr_priority :: jsnum
  sr_coupling :: string
  sr_riskClass :: string
  sr_flakyExposure :: string
  sr_checksOk :: bool
  sr_dependencyReady :: bool
  sr_ageHours :: jsnum

text \<open>\<^verbatim>\<open>Object.values(components).reduce(...)\<close>.\<close>

definition component_sum :: "score_components \<Rightarrow> jsnum" where
  "component_sum c =
     fold (\<lambda>v sum. num_add sum (if truthy (JNum v) then v else Fin 0))
       [Fin (sc_readinessBase c), Fin (sc_checksGreen c), Fin (sc_dependencyReady c), sc_priority c,
        Fin (sc_coupling c), Fin (sc_riskClass c), Fin (sc_flakyExposure c), sc_age c] (Fin 0)"

definition buildScoreComponents :: "jsval \<Rightarrow> int \<Rightarrow> scored result" where
  "buildScoreComponents c now =
     (let priority = parsePriority (getp c ''priority'');
          coupling = normalizeCoupling (getp c ''coupling'');
          body = js_coalesce (getp c ''body'') (JStr []);
          labels = js_coalesce (getp c ''labels'') (JArr []);
          checksOk = truthy (getp2 c ''checks'' ''ok'');
          dependencyReady = no_length (getp c ''unresolvedOpenDependencies'');
          age = ageHours (getp c ''updatedAt'') now;
          ageBonus = num_min (Fin (sw_ageMaxBonus SCORE_WEIGHTS))
            (num_floor (num_div age (Fin (max 1 (sw_ageHoursPerPoint SCORE_WEIGHTS)))));
          priorityScore = num_max (Fin 0)
            (num_sub (Fin (sw_priorityBase SCORE_WEIGHTS)) (num_mul priority (Fin (sw_priorityScale SCORE_WEIGHTS))))
      in bindE (parseRiskClass body labels) (\<lambda>riskClass.
         bindE (parseFlakyExposure body labels) (\<lambda>flakyExposure.
           let components =
             \<lparr>sc_readinessBase = (if truthy (getp c ''eligible'') then sw_readinessBase SCORE_WEIGHTS else - sw_readinessBase SCORE_WEIGHTS),
              sc_checksGreen = (if checksOk then sw_checksGreen SCORE_WEIGHTS else - sw_checksGreen SCORE_WEIGHTS),
              sc_dependencyReady = (if dependencyReady then sw_dependencyReady SCORE_WEIGHTS else - sw_dependencyReady SCORE_WEIGHTS),
              sc_priority = priorityScore,
              sc_coupling = get_or 0 (sw_coupling SCORE_WEIGHTS) coupling,
              sc_riskClass = get_or 0 (sw_riskClass SCORE_WEIGHTS) riskClass,
              sc_flakyExposure = get_or 0 (sw_flakyExposure SCORE_WEIGHTS) flakyExposure,
              sc_age = ageBonus\<rparr>
           in Inr \<lparr>sr_score = component_sum components, sr_components = components, sr_priority = priority,
                   sr_coupling = coupling, sr_riskClass = riskClass, sr_flakyExposure = flakyExposure,
                   sr_checksOk = checksOk, sr_dependencyReady = dependencyReady, sr_ageHours = num_toFixed 2 age\<rparr>)))"

section \<open>The report\<close>

definition MAX_SAFE_INTEGER :: jsnum where
  "MAX_SAFE_INTEGER = Fin 9007199254740991"

record ready_entry =
  re_number :: jsnum
  re_title :: jsval
  re_url :: jsval
  re_updatedAt :: string
  re_eligible :: bool
  re_reasons :: "jsval list"
  re_priority :: jsnum
  re_coupling :: string
  re_riskClass :: string
  re_flakyExposure :: string
  re_dependencyReady :: bool
  re_checksOk :: bool
  re_dependencyRank :: jsnum
  re_ageHours :: jsnum
  re_score :: jsnum
  re_scoreComponents :: score_components

text \<open>The comparison of two numbers \<^verbatim>\<open>a - b\<close> when \<^verbatim>\<open>a !== b\<close>, the next criterion otherwise.\<close>

definition by_number :: "jsnum \<Rightarrow> jsnum \<Rightarrow> jsnum \<Rightarrow> jsnum" where
  "by_number a b rest = (if same_number a b then rest else num_sub a b)"

definition compareReadySet :: "ready_entry \<Rightarrow> ready_entry \<Rightarrow> jsnum" where
  "compareReadySet a b =
     by_number (re_dependencyRank a) (re_dependencyRank b)
       (by_number (re_score b) (re_score a)
         (by_number (re_priority a) (re_priority b)
           (by_number (date_or_zero (re_updatedAt a)) (date_or_zero (re_updatedAt b))
             (num_sub (re_number a) (re_number b)))))"

definition ready_before :: "ready_entry \<Rightarrow> ready_entry \<Rightarrow> bool" where
  "ready_before a b \<longleftrightarrow> \<not> num_gt (compareReadySet a b) (Fin 0)"

text \<open>\<^verbatim>\<open>new Map(orderedEligible.map((number, index) => [Number(number), index]))\<close>.\<close>

definition eligible_order :: "jsval list \<Rightarrow> (jsnum \<times> nat) list" where
  "eligible_order orderedEligible =
     fold (\<lambda>(n, i) m. AList.update (js_number n) i m) (zip orderedEligible [0..<length orderedEligible]) []"

text \<open>\<^verbatim>\<open>[...reasons].sort()\<close>: by text.\<close>

fun text_le :: "string \<Rightarrow> string \<Rightarrow> bool" where
  "text_le [] t = True"
| "text_le (a # s) [] = False"
| "text_le (a # s) (b # t) =
     (if a = b then text_le s t else (of_char a :: nat) < of_char b)"

definition value_text_le :: "jsval \<Rightarrow> jsval \<Rightarrow> bool" where
  "value_text_le a b \<longleftrightarrow> b = JUndef \<or> (a \<noteq> JUndef \<and> text_le (js_string a) (js_string b))"

definition ready_entry_of :: "(jsnum \<times> nat) list \<Rightarrow> int \<Rightarrow> jsval \<Rightarrow> ready_entry result" where
  "ready_entry_of order now c =
     bindE (buildScoreComponents c now) (\<lambda>s.
       let n = js_number (getp c ''number'')
       in Inr \<lparr>re_number = n, re_title = js_coalesce (getp c ''title'') (JStr []),
          re_url = js_coalesce (getp c ''url'') JNull,
          re_updatedAt = js_string (js_coalesce (normalizeIso_qr (getp c ''updatedAt'')) (JStr (iso_string 0))),
          re_eligible = truthy (getp c ''eligible''),
          re_reasons = sort_by value_text_le (array_items (getp c ''reasons'')),
          re_priority = sr_priority s, re_coupling = sr_coupling s, re_riskClass = sr_riskClass s,
          re_flakyExposure = sr_flakyExposure s, re_dependencyReady = sr_dependencyReady s,
          re_checksOk = sr_checksOk s,
          re_dependencyRank = (case map_of order n of Some i \<Rightarrow> Fin (of_nat i) | None \<Rightarrow> MAX_SAFE_INTEGER),
          re_ageHours = sr_ageHours s, re_score = sr_score s, re_scoreComponents = sr_components s\<rparr>)"

record readiness_report =
  rr_generatedAt :: string
  rr_repository :: jsval
  rr_candidateCount :: nat
  rr_readyCount :: nat
  rr_ineligibleCount :: nat
  rr_readySet :: "ready_entry list"
  rr_candidates :: "ready_entry list"

definition buildQueueReadinessReport :: "jsval \<Rightarrow> jsval list \<Rightarrow> jsval list \<Rightarrow> int \<Rightarrow> readiness_report result" where
  "buildQueueReadinessReport repository candidates orderedEligible now =
     bindE (mapE (ready_entry_of (eligible_order orderedEligible) now) candidates) (\<lambda>entries.
       let readySet = sort_by ready_before (filter re_eligible entries)
       in bindE (date_iso now) (\<lambda>generatedAt.
          Inr \<lparr>rr_generatedAt = generatedAt, rr_repository = repository, rr_candidateCount = length entries,
               rr_readyCount = length readySet, rr_ineligibleCount = length entries - length readySet,
               rr_readySet = readySet,
               rr_candidates = sort_by (\<lambda>a b. \<not> num_gt (num_sub (re_number a) (re_number b)) (Fin 0)) entries\<rparr>))"

end
