(* ===== verification/QueueRun.thy ===== *)
theory QueueRun
  imports QueueControl QueueReadiness
begin

text \<open>
  One run of the queue supervisor (\<^verbatim>\<open>runQueueSupervisor\<close> of \<^verbatim>\<open>tools/priority/queue-supervisor.mjs\<close>): what it
  reads, the plan it makes, and the loop that hands planned requests to the merge script.  The
  functions it is given (\<^verbatim>\<open>options.runGhJsonFn\<close>, \<^verbatim>\<open>options.runCommandFn\<close>, ...) are the fields of an
  environment over an arbitrary world; the commands of the loop are recorded in order beside it.
\<close>

section \<open>The environment\<close>

record command_result =
  cr_status :: jsnum
  cr_stderr :: string

record 'w queue_env =
  qe_runGhJson :: "string list \<Rightarrow> 'w \<Rightarrow> 'w \<times> jsval result"
  qe_runGhGraphql :: "(string \<Rightarrow> string \<Rightarrow> string \<Rightarrow> 'w \<Rightarrow> 'w \<times> jsval result) option"
  qe_runCommand :: "string \<Rightarrow> string list \<Rightarrow> 'w \<Rightarrow> 'w \<times> command_result"
  qe_readJsonFile :: "string \<Rightarrow> 'w \<Rightarrow> jsval result"
  qe_readOptionalJson :: "string \<Rightarrow> 'w \<Rightarrow> jsval"
  qe_writeReport :: "string \<Rightarrow> jsval \<Rightarrow> 'w \<Rightarrow> 'w \<times> string result"
  qe_readdir :: "string \<Rightarrow> 'w \<Rightarrow> (string \<times> bool) list option result"
  qe_reconcile :: "string \<Rightarrow> jsval \<Rightarrow> 'w \<Rightarrow> 'w \<times> jsval result"
  qe_message :: "js_error \<Rightarrow> string"
  qe_undated :: jsnum

type_synonym command = "string \<times> string list"

type_synonym 'w run_state = "'w \<times> command list"

definition run_command :: "'w queue_env \<Rightarrow> string \<Rightarrow> string list \<Rightarrow> 'w run_state \<Rightarrow> 'w run_state \<times> command_result" where
  "run_command qe cmd args st =
     (case st of (w, cmds) \<Rightarrow>
        (case qe_runCommand qe cmd args w of (w', r) \<Rightarrow> ((w', cmds @ [(cmd, args)]), r)))"

text \<open>The options of a parsed command line, with every default applied.\<close>

record supervisor_args =
  qa_apply :: bool
  qa_dryRun :: bool
  qa_reportPath :: string
  qa_controllerStatePath :: string
  qa_readinessReportPath :: string
  qa_governorStatePath :: string
  qa_securityIntakeReportPath :: string
  qa_maxInflight :: jsnum
  qa_minInflight :: jsnum
  qa_adaptiveCap :: bool
  qa_baseBranches :: "string list"
  qa_healthBranch :: string
  qa_maxQueuedRuns :: jsnum
  qa_maxInProgressRuns :: jsnum
  qa_stallThresholdMinutes :: jsnum
  qa_burstMode :: string
  qa_burstRefillCycles :: jsnum

section \<open>Managed branches\<close>

text \<open>\<^verbatim>\<open>/^refs\/heads\/(.+)$/i\<close>: a dot matches no line break.\<close>

definition included_branch :: "jsval \<Rightarrow> string option" where
  "included_branch inc =
     (let s = js_string inc; branch = drop (length ''refs/heads/'') s
      in if starts_with (to_lower s) ''refs/heads/'' \<and> branch \<noteq> [] \<and> list_all (\<lambda>ch. \<not> line_break ch) branch
         then Some branch else None)"

definition ruleset_branches :: "jsval \<Rightarrow> string list result" where
  "ruleset_branches ruleset =
     (if \<not> truthy (getp ruleset ''merge_queue'') then Inr []
      else bindE (iterable (js_coalesce (getp ruleset ''includes'') (JArr []))) (\<lambda>includes.
        Inr (concat (map (\<lambda>inc. case included_branch inc of
                 None \<Rightarrow> []
               | Some b \<Rightarrow> (let branch = normalizeBaseBranch (JStr b)
                            in if CHR ''*'' \<in> set branch then [] else [branch])) includes))))"

definition parseQueueManagedBranches :: "jsval \<Rightarrow> string list \<Rightarrow> string list result" where
  "parseQueueManagedBranches policy fallbackBranches =
     bindE (mapE ruleset_branches (map snd (spread (js_coalesce (getp policy ''rulesets'') (JObj []))))) (\<lambda>found.
       let queueManaged = uniq (concat found)
       in Inr (if queueManaged = [] then uniq (map (\<lambda>b. normalizeBaseBranch (JStr b)) fallbackBranches)
               else queueManaged))"

section \<open>Queue states\<close>

definition NEWLINE :: string where
  "NEWLINE = [CHR 0x0A]"

definition buildPullRequestQueueStateQuery :: "jsnum list \<Rightarrow> string" where
  "buildPullRequestQueueStateQuery numbers =
     join_with NEWLINE
       [''query($owner:String!, $repo:String!) {'',
        ''  repository(owner:$owner, name:$repo) {'',
        join_with NEWLINE (map (\<lambda>n. join_with NEWLINE
          [''      pr_'' @ num_to_string n @ '': pullRequest(number:'' @ num_to_string n @ '') {'',
           ''        number'', ''        state'', ''        mergeStateStatus'', ''        isInMergeQueue'',
           ''        autoMergeRequest {'', ''          enabledAt'', ''        }'', ''      }'']) numbers),
        ''  }'', ''}'']"

record queue_states =
  qs_states :: "(jsnum \<times> jsval) list"
  qs_attempted :: bool
  qs_error :: jsval

definition no_queue_states :: "bool \<Rightarrow> jsval \<Rightarrow> queue_states" where
  "no_queue_states attempted err = \<lparr>qs_states = [], qs_attempted = attempted, qs_error = err\<rparr>"

definition parseRepositorySlug :: "string \<Rightarrow> (string \<times> string) result" where
  "parseRepositorySlug s =
     (case filter (\<lambda>part. part \<noteq> []) (map trim (split_on CHR ''/'' s)) of
        [owner, repo] \<Rightarrow> Inr (owner, repo)
      | _ \<Rightarrow> Inl (ErrorMsg (''Invalid repository slug '' @ [CHR 0x27] @ s @ [CHR 0x27] @ ''. Expected owner/repo.'')))"

definition queue_state_numbers :: "jsnum list \<Rightarrow> jsnum list" where
  "queue_state_numbers pullRequestNumbers =
     sort_by (\<lambda>a b. \<not> num_gt (num_sub a b) (Fin 0))
       (uniq (filter (\<lambda>n. num_integer n \<and> num_gt n (Fin 0)) pullRequestNumbers))"

definition states_of_payload :: "jsnum list \<Rightarrow> jsval \<Rightarrow> (jsnum \<times> jsval) list" where
  "states_of_payload numbers payload =
     (let repositoryNode = js_coalesce (getp2 payload ''data'' ''repository'') (JObj [])
      in fold (\<lambda>n states.
            let node = getp repositoryNode (''pr_'' @ num_to_string n)
            in if truthy (getp node ''number'') then AList.update (js_number (getp node ''number'')) node states else states)
          numbers [])"

definition readPullRequestQueueStates ::
  "'w queue_env \<Rightarrow> string \<Rightarrow> jsnum list \<Rightarrow> 'w run_state \<Rightarrow> 'w run_state \<times> queue_states result" where
  "readPullRequestQueueStates qe repository pullRequestNumbers st =
     (let numbers = queue_state_numbers pullRequestNumbers
      in if numbers = [] then (st, Inr (no_queue_states False JNull))
         else (case qe_runGhGraphql qe of
                 None \<Rightarrow> (st, Inr (no_queue_states False JNull))
               | Some graphql \<Rightarrow>
                   (case parseRepositorySlug repository of
                      Inl e \<Rightarrow> (st, Inl e)
                    | Inr (owner, repo) \<Rightarrow>
                        (case st of (w, cmds) \<Rightarrow>
                           (case graphql (buildPullRequestQueueStateQuery numbers) owner repo w of
                              (w', Inl e) \<Rightarrow> ((w', cmds), Inr (no_queue_states True (JStr (qe_message qe e))))
                            | (w', Inr payload) \<Rightarrow>
                                ((w', cmds), Inr \<lparr>qs_states = states_of_payload numbers payload,
                                                qs_attempted = True, qs_error = JNull\<rparr>))))))"

definition enrich :: "(jsnum \<times> jsval) list \<Rightarrow> jsval \<Rightarrow> jsval" where
  "enrich states pr =
     (case map_of states (js_number (getp pr ''number'')) of
        None \<Rightarrow> pr
      | Some queueState \<Rightarrow>
          with_fields pr
            [(''state'', js_coalesce (getp queueState ''state'') (getp pr ''state'')),
             (''mergeStateStatus'', js_coalesce (getp queueState ''mergeStateStatus'') (getp pr ''mergeStateStatus'')),
             (''isInMergeQueue'', JBool (getp queueState ''isInMergeQueue'' = JBool True)),
             (''autoMergeRequest'', js_coalesce (getp queueState ''autoMergeRequest'') (getp pr ''autoMergeRequest''))])"

section \<open>Workflow runs\<close>

definition HEALTH_WORKFLOW_SPECS :: "(string \<times> string) list" where
  "HEALTH_WORKFLOW_SPECS =
     [(''Validate'', ''validate.yml''), (''Policy Guard (Upstream)'', ''policy-guard-upstream.yml''),
      (''Fixture Drift Validation'', ''fixture-drift.yml''), (''commit-integrity'', ''commit-integrity.yml'')]"

definition uri_unreserved :: "char \<Rightarrow> bool" where
  "uri_unreserved ch \<longleftrightarrow>
     is_digit ch \<or> (97 \<le> (of_char (lower_char ch) :: nat) \<and> (of_char (lower_char ch) :: nat) \<le> 122) \<or> ch \<in> set ''-_.!~*()'' \<or> ch = CHR 0x27"

definition hex_char :: "nat \<Rightarrow> char" where
  "hex_char d = (if d < 10 then digit_char d else char_of (55 + d))"

text \<open>\<^verbatim>\<open>encodeURIComponent\<close> of an ASCII text.\<close>

definition encodeURIComponent :: "string \<Rightarrow> string" where
  "encodeURIComponent s =
     concat (map (\<lambda>ch. if uri_unreserved ch then [ch]
                       else [CHR ''%'', hex_char (of_char ch div 16), hex_char (of_char ch mod 16)]) s)"

definition workflow_endpoint :: "string \<Rightarrow> string \<Rightarrow> string \<Rightarrow> string" where
  "workflow_endpoint repository healthBranch spec_file =
     ''repos/'' @ repository @ ''/actions/workflows/'' @ spec_file @ ''/runs?branch='' @
       encodeURIComponent healthBranch @ ''&per_page='' @ show_nat 10"

text \<open>The runs of every workflow, and the errors of those that could not be fetched.\<close>

fun fetchWorkflowRuns ::
  "'w queue_env \<Rightarrow> string \<Rightarrow> string \<Rightarrow> (string \<times> string) list \<Rightarrow> 'w run_state
     \<Rightarrow> 'w run_state \<times> fields \<times> jsval list" where
  "fetchWorkflowRuns qe repository healthBranch [] st = (st, [], [])"
| "fetchWorkflowRuns qe repository healthBranch ((name, spec_file) # specs) (w, cmds) =
     (case qe_runGhJson qe [''api'', workflow_endpoint repository healthBranch spec_file] w of
        (w', Inl e) \<Rightarrow>
          (case fetchWorkflowRuns qe repository healthBranch specs (w', cmds) of (st', runs, errors) \<Rightarrow>
             (st', (name, JArr []) # runs,
              JObj [(''workflow'', JStr name), (''file'', JStr spec_file), (''message'', JStr (qe_message qe e))] # errors))
      | (w', Inr response) \<Rightarrow>
          (case fetchWorkflowRuns qe repository healthBranch specs (w', cmds) of (st', runs, errors) \<Rightarrow>
             (st', (name, JArr (array_items (getp response ''workflow_runs''))) # runs, errors)))"

definition fetchWorkflowRunsByName ::
  "'w queue_env \<Rightarrow> string \<Rightarrow> string \<Rightarrow> 'w run_state \<Rightarrow> 'w run_state \<times> fields \<times> jsval list" where
  "fetchWorkflowRunsByName qe repository healthBranch st =
     fetchWorkflowRuns qe repository healthBranch HEALTH_WORKFLOW_SPECS st"

section \<open>Merge receipts\<close>

definition isMaterializedMergeSyncSummary :: "jsval \<Rightarrow> bool" where
  "isMaterializedMergeSyncSummary summary = truthy (getp2 summary ''promotion'' ''materialized'')"

definition summarizeMergeSyncSummary :: "jsval \<Rightarrow> string \<Rightarrow> jsval" where
  "summarizeMergeSyncSummary summary summaryPath =
     JObj [(''path'', JStr summaryPath), (''finalMode'', js_coalesce (getp summary ''finalMode'') JNull),
       (''finalReason'', js_coalesce (getp summary ''finalReason'') JNull),
       (''promotionStatus'', js_coalesce (getp2 summary ''promotion'' ''status'') JNull),
       (''materialized'', JBool (isMaterializedMergeSyncSummary summary)),
       (''branchCleanupRequested'', JBool (truthy (getp2 summary ''branchCleanup'' ''requested''))),
       (''branchCleanupStatus'', js_coalesce (getp2 summary ''branchCleanup'' ''status'') JNull),
       (''branchCleanupReason'', js_coalesce (getp2 summary ''branchCleanup'' ''reason'') JNull)]"

definition queue_results_dir :: string where
  "queue_results_dir = ''tests/results/_agent/queue''"

text \<open>\<^verbatim>\<open>path.resolve(repoRoot, p)\<close> for an absolute root: an absolute \<open>p\<close> stays.\<close>

definition resolve_in :: "string \<Rightarrow> string \<Rightarrow> string" where
  "resolve_in repoRoot p = path_resolve repoRoot [p]"

text \<open>\<^verbatim>\<open>/^merge-sync-\d+\.json$/u\<close>.\<close>

definition summary_name :: "string \<Rightarrow> bool" where
  "summary_name s \<longleftrightarrow>
     starts_with s ''merge-sync-'' \<and>
     (case span_digits (drop (length ''merge-sync-'') s) of (d, r) \<Rightarrow> d \<noteq> [] \<and> r = ''.json'')"

definition listMergeSyncSummaryPaths :: "'w queue_env \<Rightarrow> string \<Rightarrow> 'w run_state \<Rightarrow> string list result" where
  "listMergeSyncSummaryPaths qe repoRoot st =
     (let queueResultsRoot = resolve_in repoRoot queue_results_dir
      in bindE (qe_readdir qe queueResultsRoot (fst st)) (\<lambda>entries.
           Inr (case entries of
                  None \<Rightarrow> []
                | Some es \<Rightarrow> sort_by text_le
                    (map (\<lambda>(name, isFile). queueResultsRoot @ ''/'' @ name)
                      (filter (\<lambda>(name, isFile). isFile \<and> summary_name name) es)))))"

definition lower_or_empty :: "jsval \<Rightarrow> string" where
  "lower_or_empty v = (case v of JStr s \<Rightarrow> to_lower s | _ \<Rightarrow> [])"

definition hasDeferredPostMergeBranchCleanup :: "jsval \<Rightarrow> bool" where
  "hasDeferredPostMergeBranchCleanup summary \<longleftrightarrow>
     (let cleanup = getp summary ''branchCleanup''
      in truthy (getp cleanup ''requested'') \<and> lower_or_empty (getp cleanup ''status'') = ''deferred'' \<and>
         (truthy (getp cleanup ''postMergeDelete'') \<or>
          lower_or_empty (getp summary ''finalMode'') = ''auto'' \<and> \<not> truthy (getp cleanup ''inlineDeleteBranch'')))"

text \<open>The fields of an action on one receipt; \<open>result\<close> is what the reconciliation returned, if it ran.\<close>

definition cleanup_action :: "string \<Rightarrow> jsval \<Rightarrow> jsval \<Rightarrow> bool \<Rightarrow> jsval \<Rightarrow> fields" where
  "cleanup_action summaryPath summary status changed result =
     [(''path'', JStr summaryPath), (''pr'', js_coalesce (getp summary ''pr'') JNull),
      (''repo'', js_coalesce (getp summary ''repo'') JNull), (''status'', status), (''changed'', JBool changed),
      (''promotionStatus'', js_coalesce (js_coalesce (getp2 result ''promotion'' ''status'')
         (getp2 summary ''promotion'' ''status'')) JNull),
      (''branchCleanupStatus'', js_coalesce (js_coalesce (getp (getp2 result ''summary'' ''branchCleanup'') ''status'')
         (getp2 summary ''branchCleanup'' ''status'')) JNull),
      (''branchCleanupReason'', js_coalesce (js_coalesce (getp (getp2 result ''summary'' ''branchCleanup'') ''reason'')
         (getp2 summary ''branchCleanup'' ''reason'')) JNull)]"

text \<open>
  One receipt.  \<^verbatim>\<open>try\<close> covers the reconciliation and the write of its result: either failure becomes an action.
\<close>

definition reconcile_receipt ::
  "'w queue_env \<Rightarrow> string \<Rightarrow> string \<Rightarrow> jsval \<Rightarrow> 'w run_state \<Rightarrow> 'w run_state \<times> jsval" where
  "reconcile_receipt qe repoRoot summaryPath summary st =
     (case st of (w, cmds) \<Rightarrow>
        (case qe_reconcile qe repoRoot summary w of
           (w', Inl e) \<Rightarrow> ((w', cmds),
             JObj (cleanup_action summaryPath summary (JStr ''failed'') False JUndef @ [(''error'', JStr (qe_message qe e))]))
         | (w', Inr result) \<Rightarrow>
             (case (if truthy (getp result ''changed'') then qe_writeReport qe summaryPath (getp result ''summary'') w'
                    else (w', Inr [])) of
                (w'', Inl e) \<Rightarrow> ((w'', cmds),
                  JObj (cleanup_action summaryPath summary (JStr ''failed'') False JUndef @ [(''error'', JStr (qe_message qe e))]))
              | (w'', Inr written) \<Rightarrow> ((w'', cmds),
                  JObj (cleanup_action summaryPath summary (js_coalesce (getp result ''status'') (JStr ''pending''))
                    (truthy (getp result ''changed'')) result)))))"

fun reconcile_receipts ::
  "'w queue_env \<Rightarrow> string \<Rightarrow> bool \<Rightarrow> string list \<Rightarrow> 'w run_state \<Rightarrow> 'w run_state \<times> jsval list" where
  "reconcile_receipts qe repoRoot applyMutations [] st = (st, [])"
| "reconcile_receipts qe repoRoot applyMutations (summaryPath # paths) st =
     (let summary = qe_readOptionalJson qe summaryPath (fst st)
      in if \<not> hasDeferredPostMergeBranchCleanup summary then reconcile_receipts qe repoRoot applyMutations paths st
         else
           (let (st1, action) =
                  (if \<not> applyMutations
                   then (st, JObj (cleanup_action summaryPath summary (JStr ''pending'') False JUndef))
                   else reconcile_receipt qe repoRoot summaryPath summary st);
                (st2, actions) = reconcile_receipts qe repoRoot applyMutations paths st1
            in (st2, action # actions)))"

definition count_status :: "string list \<Rightarrow> jsval list \<Rightarrow> jsval" where
  "count_status ss actions =
     JNum (Fin (of_nat (length (filter (\<lambda>a. getp a ''status'' \<in> JStr ` set ss) actions))))"

definition reconcileDeferredBranchCleanupReceipts ::
  "'w queue_env \<Rightarrow> string \<Rightarrow> bool \<Rightarrow> 'w run_state \<Rightarrow> 'w run_state \<times> jsval result" where
  "reconcileDeferredBranchCleanupReceipts qe repoRoot applyMutations st =
     (case listMergeSyncSummaryPaths qe repoRoot st of
        Inl e \<Rightarrow> (st, Inl e)
      | Inr paths \<Rightarrow>
          (let (st', actions) = reconcile_receipts qe repoRoot applyMutations paths st
           in (st', Inr (JObj
                [(''summary'', JObj [(''totalCount'', JNum (Fin (of_nat (length actions)))),
                    (''pendingCount'', count_status [''pending'', ''deferred''] actions),
                    (''completedCount'', count_status [''completed''] actions),
                    (''dryRunCount'', count_status [''dry-run''] actions),
                    (''failedCount'', count_status [''failed''] actions)]),
                 (''actions'', JArr actions)]))))"

section \<open>The merge of one request\<close>

definition merge_summary_path :: "jsnum \<Rightarrow> string" where
  "merge_summary_path n = queue_results_dir @ ''/merge-sync-'' @ num_to_string n @ ''.json''"

definition merge_args :: "string \<Rightarrow> jsnum \<Rightarrow> string list" where
  "merge_args repository n =
     [''tools/priority/merge-sync-pr.mjs'', ''--pr'', num_to_string n, ''--repo'', repository,
      ''--summary-path'', merge_summary_path n]"

definition edit_label :: "string \<Rightarrow> jsnum \<Rightarrow> string \<Rightarrow> string \<Rightarrow> string list" where
  "edit_label repository n change label_name =
     [''pr'', ''edit'', num_to_string n, ''--repo'', repository, change, label_name]"

definition attempt_value :: "string \<Rightarrow> command_result \<Rightarrow> jsval" where
  "attempt_value kind r = JObj [(''type'', JStr kind), (''status'', JNum (cr_status r)), (''stderr'', JStr (cr_stderr r))]"

record merge_outcome =
  mo_merged :: bool
  mo_attempts :: "jsval list"
  mo_summary :: jsval
  mo_retried :: bool

definition merge_attempt ::
  "'w queue_env \<Rightarrow> string \<Rightarrow> string \<Rightarrow> string \<Rightarrow> jsnum \<Rightarrow> jsval list \<Rightarrow> bool \<Rightarrow> 'w run_state \<Rightarrow> 'w run_state \<times> merge_outcome" where
  "merge_attempt qe repoRoot repository kind n before retried st =
     (let (st1, r) = run_command qe ''node'' (merge_args repository n) st;
          summary = qe_readOptionalJson qe (resolve_in repoRoot (merge_summary_path n)) (fst st1)
      in (st1, \<lparr>mo_merged = (cr_status r = Fin 0 \<and> isMaterializedMergeSyncSummary summary),
               mo_attempts = before @ [attempt_value kind r],
               mo_summary = summarizeMergeSyncSummary summary (merge_summary_path n), mo_retried = retried\<rparr>))"

definition merge_request ::
  "'w queue_env \<Rightarrow> string \<Rightarrow> string \<Rightarrow> candidate \<Rightarrow> 'w run_state \<Rightarrow> 'w run_state \<times> merge_outcome" where
  "merge_request qe repoRoot repository c st =
     (let (st1, m) = merge_attempt qe repoRoot repository ''merge-sync'' (number c) [] False st
      in if mo_merged m \<or> mergeStateStatus c \<noteq> ''BEHIND'' then (st1, m)
         else
           (let (st2, u) = run_command qe ''gh''
                  [''pr'', ''update-branch'', num_to_string (number c), ''--repo'', repository] st1;
                attempts = mo_attempts m @ [attempt_value ''update-branch'' u]
            in if cr_status u = Fin 0
               then merge_attempt qe repoRoot repository ''merge-sync-retry'' (number c) attempts True st2
               else (st2, m\<lparr>mo_attempts := attempts, mo_retried := True\<rparr>)))"

record progress =
  pg_history :: fields
  pg_actions :: "jsval list"
  pg_enqueued :: nat
  pg_quarantined :: nat

definition action_value :: "candidate \<Rightarrow> merge_outcome \<Rightarrow> string \<Rightarrow> bool \<Rightarrow> fields \<Rightarrow> jsval" where
  "action_value c m status quarantined extra =
     JObj ([(''number'', JNum (number c)), (''url'', url c), (''baseRefName'', JStr (baseRefName c)),
       (''status'', JStr status), (''attempts'', JArr (mo_attempts m)), (''quarantined'', JBool quarantined),
       (''retriedUpdateBranch'', JBool (mo_retried m)), (''mergeSummary'', mo_summary m)] @ extra)"

definition err_or_null :: "command_result \<Rightarrow> jsval" where
  "err_or_null r = (if cr_stderr r = [] then JNull else JStr (cr_stderr r))"

definition process_candidate ::
  "'w queue_env \<Rightarrow> string \<Rightarrow> string \<Rightarrow> string \<Rightarrow> candidate \<Rightarrow> 'w run_state \<Rightarrow> progress \<Rightarrow> 'w run_state \<times> progress" where
  "process_candidate qe repoRoot repository nowIso c st p =
     (let (st1, m) = merge_request qe repoRoot repository c st; n = number c
      in if mo_merged m then
           (let (st2, r) = run_command qe ''gh'' (edit_label repository n ''--remove-label'' ''queue-blocked'') st1
            in (st2, p\<lparr>pg_history := clearFailure (pg_history p) n,
                       pg_actions := pg_actions p @ [action_value c m ''enqueued'' False
                         [(''queueBlockedCleared'', JBool (cr_status r = Fin 0))]],
                       pg_enqueued := pg_enqueued p + 1\<rparr>))
         else
           (let (history, failures) = appendFailure (pg_history p) n nowIso RETRY_WINDOW_HOURS;
                failureCount = (''failureCount24h'', JNum (Fin (of_nat failures)))
            in if failures \<ge> 2 then
                 (let (st2, r) = run_command qe ''gh'' (edit_label repository n ''--add-label'' ''queue-quarantine'') st1;
                      quarantined = (cr_status r = Fin 0)
                  in (st2, p\<lparr>pg_history := history,
                             pg_actions := pg_actions p @ [action_value c m ''failed'' quarantined
                               [failureCount, (''quarantineStatus'', JNum (cr_status r)),
                                (''quarantineError'', err_or_null r)]],
                             pg_quarantined := pg_quarantined p + (if quarantined then 1 else 0)\<rparr>))
               else
                 (let (st2, r) = run_command qe ''gh'' (edit_label repository n ''--add-label'' ''queue-blocked'') st1
                  in (st2, p\<lparr>pg_history := history,
                             pg_actions := pg_actions p @ [action_value c m ''failed'' False
                               [failureCount, (''queueBlockedApplied'', JBool (cr_status r = Fin 0)),
                                (''queueBlockedError'', err_or_null r)]]\<rparr>))))"

fun process_candidates ::
  "'w queue_env \<Rightarrow> string \<Rightarrow> string \<Rightarrow> string \<Rightarrow> candidate list \<Rightarrow> 'w run_state \<Rightarrow> progress \<Rightarrow> 'w run_state \<times> progress" where
  "process_candidates qe repoRoot repository nowIso [] st p = (st, p)"
| "process_candidates qe repoRoot repository nowIso (c # cs) st p =
     (let (st', p') = process_candidate qe repoRoot repository nowIso c st p
      in process_candidates qe repoRoot repository nowIso cs st' p')"

end
