(* ===== verification/QueueSupervisor.thy ===== *)
theory QueueSupervisor
  imports QueueRun IdleAuthority
begin

text \<open>
  The plan of a run and the run itself (\<^verbatim>\<open>runQueueSupervisor\<close> of \<^verbatim>\<open>tools/priority/queue-supervisor.mjs\<close>).
\<close>

section \<open>Values of the documents\<close>

definition num_of_nat :: "nat \<Rightarrow> jsval" where
  "num_of_nat n = JNum (Fin (of_nat n))"

definition candidate_value :: "candidate \<Rightarrow> jsval" where
  "candidate_value c =
     JObj ([(''number'', JNum (number c)), (''title'', title c), (''url'', url c), (''updatedAt'', JStr (updatedAt c)),
       (''baseRefName'', JStr (baseRefName c)), (''headRefName'', headRefName c),
       (''headRepositoryOwner'', JStr (headRepositoryOwner c)), (''isCrossRepository'', JBool (isCrossRepository c)),
       (''isDraft'', JBool (isDraft c)), (''mergeStateStatus'', JStr (mergeStateStatus c)),
       (''mergeable'', JStr (mergeable c)), (''isInMergeQueue'', JBool (isInMergeQueue c)),
       (''labels'', jstrs (labels c)), (''autoMergeEnabled'', JBool (autoMergeEnabled c)),
       (''coupling'', JStr (coupling c)), (''dependsOn'', JArr (map JNum (dependsOn c))),
       (''priority'', num_of_nat (pr_priority c)), (''couplingOrder'', num_of_nat (couplingOrder c)),
       (''statusCheckRollup'', JArr (statusCheckRollup c)), (''requiredChecks'', requiredChecks c),
       (''checks'', JObj [(''ok'', JBool (ok (checks c))), (''missing'', JArr (missing (checks c))),
          (''failing'', JArr (failing (checks c)))]),
       (''eligible'', JBool (eligible c)), (''reasons'', jstrs (reasons c))] @
      (case unresolvedOpenDependencies c of
         None \<Rightarrow> []
       | Some deps \<Rightarrow> [(''unresolvedOpenDependencies'', JArr (map JNum deps))]))"

definition health_run_value :: "health_run \<Rightarrow> jsval" where
  "health_run_value r = JObj [(''workflow'', JStr (hr_workflow r)), (''conclusion'', JStr (hr_conclusion r)),
     (''status'', JStr (hr_status r)), (''createdAt'', hr_createdAt r), (''updatedAt'', hr_updatedAt r), (''url'', hr_url r)]"

definition health_value :: "health_gate \<Rightarrow> jsval" where
  "health_value h = JObj [(''paused'', JBool (hg_paused h)), (''reasons'', jstrs (hg_reasons h)),
     (''sampleSize'', num_of_nat (hg_sampleSize h)), (''successful'', num_of_nat (hg_successful h)),
     (''successRate'', JNum (hg_successRate h)), (''redMinutes'', JNum (hg_redMinutes h)),
     (''minSuccessRate'', JNum (hg_minSuccessRate h)), (''maxRedMinutes'', JNum (hg_maxRedMinutes h)),
     (''latest'', case hg_latest h of None \<Rightarrow> JNull | Some r \<Rightarrow> health_run_value r)]"

definition aged_run_value :: "aged_run \<Rightarrow> jsval" where
  "aged_run_value r = JObj [(''workflow'', JStr (fr_workflow r)), (''id'', fr_id r), (''status'', JStr (fr_status r)),
     (''conclusion'', JStr (fr_conclusion r)), (''createdAt'', fr_createdAt r), (''updatedAt'', fr_updatedAt r),
     (''branch'', JStr (fr_branch r)), (''url'', fr_url r), (''ageMinutes'', JNum (ageMinutes r))]"

definition fleet_value :: "fleet_health \<Rightarrow> jsval" where
  "fleet_value f = JObj [(''paused'', JBool (fl_paused f)), (''reasons'', jstrs (fl_reasons f)),
     (''totals'', JObj [(''queued'', num_of_nat (fl_queued f)), (''inProgress'', num_of_nat (fl_inProgress f)),
        (''active'', num_of_nat (fl_active f)), (''stalled'', num_of_nat (fl_stalled f))]),
     (''thresholds'', JObj [(''maxQueuedRuns'', JNum (fl_maxQueuedRuns f)),
        (''maxInProgressRuns'', JNum (fl_maxInProgressRuns f)),
        (''stallThresholdMinutes'', JNum (fl_stallThresholdMinutes f))]),
     (''stalledRuns'', JArr (map aged_run_value (fl_stalledRuns f)))]"

definition adaptive_value :: "adaptive_inflight \<Rightarrow> jsval" where
  "adaptive_value a = JObj [(''enabled'', JBool (ai_enabled a)),
     (''configuredMaxInflight'', JNum (ai_configuredMaxInflight a)), (''minInflight'', JNum (ai_minInflight a)),
     (''effectiveMaxInflight'', JNum (ai_effectiveMaxInflight a)), (''tier'', JStr (ai_tier a)),
     (''mode'', JStr (ai_mode a)), (''desiredMode'', JStr (ai_desiredMode a)),
     (''capByMode'', mode_caps_value (ai_capByMode a)), (''reasons'', jstrs (ai_reasons a)),
     (''metrics'', metrics_value (ai_metrics a)), (''thresholds'', thresholds_value (ai_thresholds a)),
     (''hysteresis'', hysteresis_value a)]"

definition burst_value :: "burst_window \<Rightarrow> jsval" where
  "burst_value b = JObj [(''mode'', JStr (bw_mode b)), (''active'', JBool (bw_active b)),
     (''configuredRefillCycles'', JNum (bw_configuredRefillCycles b)),
     (''refillCyclesRemaining'', JNum (bw_refillCyclesRemaining b)), (''backoffMinutes'', JInt (bw_backoffMinutes b)),
     (''backoffUntil'', bw_backoffUntil b), (''backoffActive'', JBool (bw_backoffActive b)),
     (''triggerSignals'', JObj [(''releaseWindow'', JBool (bw_releaseWindow b)),
        (''releaseBranchPullRequest'', JBool (bw_releaseBranchPullRequest b)),
        (''releaseBurstLabel'', JBool (bw_releaseBurstLabel b))]),
     (''triggerReasons'', jstrs (bw_triggerReasons b)), (''reasons'', jstrs (bw_reasons b)),
     (''stabilized'', JBool (bw_stabilized b))]"

definition governor_value :: "governor_state \<Rightarrow> run_cap \<Rightarrow> jsval" where
  "governor_value g cap = JObj [(''path'', JStr (gv_path g)), (''exists'', JBool (gv_exists g)), (''error'', gv_error g),
     (''mode'', JStr (gv_mode g)), (''desiredMode'', JStr (gv_desiredMode g)), (''reasons'', JArr (gv_reasons g)),
     (''generatedAt'', gv_generatedAt g), (''sourceSchema'', gv_sourceSchema g),
     (''capApplied'', JBool (rc_governorCapApplied cap)), (''capLimit'', rc_governorCapLimit cap)]"

definition envelope_value :: "state_envelope \<Rightarrow> jsval" where
  "envelope_value s = JObj [(''path'', JStr (se_path s)), (''exists'', JBool (se_exists s)), (''error'', se_error s),
     (''status'', se_status s), (''generatedAt'', se_generatedAt s), (''sourceSchema'', se_sourceSchema s)]"

definition components_value :: "score_components \<Rightarrow> jsval" where
  "components_value c = JObj [(''readinessBase'', JNum (Fin (sc_readinessBase c))),
     (''checksGreen'', JNum (Fin (sc_checksGreen c))), (''dependencyReady'', JNum (Fin (sc_dependencyReady c))),
     (''priority'', JNum (sc_priority c)), (''coupling'', JNum (Fin (sc_coupling c))),
     (''riskClass'', JNum (Fin (sc_riskClass c))), (''flakyExposure'', JNum (Fin (sc_flakyExposure c))),
     (''age'', JNum (sc_age c))]"

definition ready_entry_value :: "ready_entry \<Rightarrow> jsval" where
  "ready_entry_value r = JObj [(''number'', JNum (re_number r)), (''title'', re_title r), (''url'', re_url r),
     (''updatedAt'', JStr (re_updatedAt r)), (''eligible'', JBool (re_eligible r)), (''reasons'', JArr (re_reasons r)),
     (''priority'', JNum (re_priority r)), (''coupling'', JStr (re_coupling r)), (''riskClass'', JStr (re_riskClass r)),
     (''flakyExposure'', JStr (re_flakyExposure r)), (''dependencyReady'', JBool (re_dependencyReady r)),
     (''checksOk'', JBool (re_checksOk r)), (''dependencyRank'', JNum (re_dependencyRank r)),
     (''ageHours'', JNum (re_ageHours r)), (''score'', JNum (re_score r)),
     (''scoreComponents'', components_value (re_scoreComponents r))]"

definition rational_fields :: "(string \<times> rat) list \<Rightarrow> jsval" where
  "rational_fields kvs = JObj (map (\<lambda>(k, v). (k, JNum (Fin v))) kvs)"

definition weights_value :: "score_weights \<Rightarrow> jsval" where
  "weights_value w = JObj [(''readinessBase'', JNum (Fin (sw_readinessBase w))),
     (''checksGreen'', JNum (Fin (sw_checksGreen w))), (''dependencyReady'', JNum (Fin (sw_dependencyReady w))),
     (''priorityScale'', JNum (Fin (sw_priorityScale w))), (''priorityBase'', JNum (Fin (sw_priorityBase w))),
     (''coupling'', rational_fields (sw_coupling w)), (''riskClass'', rational_fields (sw_riskClass w)),
     (''flakyExposure'', rational_fields (sw_flakyExposure w)), (''ageMaxBonus'', JNum (Fin (sw_ageMaxBonus w))),
     (''ageHoursPerPoint'', JNum (Fin (sw_ageHoursPerPoint w)))]"

definition readiness_summary :: "readiness_report \<Rightarrow> jsval" where
  "readiness_summary r = JObj [(''candidateCount'', num_of_nat (rr_candidateCount r)),
     (''readyCount'', num_of_nat (rr_readyCount r)), (''ineligibleCount'', num_of_nat (rr_ineligibleCount r))]"

definition readiness_value :: "readiness_report \<Rightarrow> jsval" where
  "readiness_value r = JObj [(''schema'', JStr ''priority/queue-readiness-report@v1''),
     (''generatedAt'', JStr (rr_generatedAt r)), (''repository'', rr_repository r),
     (''scoring'', JObj [(''weights'', weights_value SCORE_WEIGHTS)]), (''summary'', readiness_summary r),
     (''readySet'', JArr (map ready_entry_value (rr_readySet r))),
     (''candidates'', JArr (map ready_entry_value (rr_candidates r)))]"

section \<open>The worker pool\<close>

definition normalizeCount :: "jsval \<Rightarrow> jsnum" where
  "normalizeCount v = num_max (Fin 0) (num_trunc (toFiniteNumber v (Fin 0)))"

definition buildWorkerOccupancySummary :: "jsval \<Rightarrow> string \<Rightarrow> jsval \<Rightarrow> jsval" where
  "buildWorkerOccupancySummary runtimeState runtimeStatePath authority =
     (let pool = getp runtimeState ''workerPool'';
          workerPool = (if truthy pool \<and> is_object pool \<and> \<not> is_array pool then pool else JNull);
          idle = (getp authority ''status'' = JStr ''observed'');
          targetSlotCount = normalizeCount (getp workerPool ''targetSlotCount'');
          suppressed = (idle \<and> (num_gt (normalizeCount (getp workerPool ''occupiedSlotCount'')) (Fin 0) \<or>
            num_gt (normalizeCount (getp runtimeState ''activeCodingLanes'')) (Fin 0)))
      in JObj [(''runtimeStatePath'', JStr runtimeStatePath), (''available'', JBool (truthy workerPool)),
        (''authoritySource'', JStr (if idle then ''current-cycle-idle'' else ''delivery-runtime'')),
        (''targetSlotCount'', JNum targetSlotCount),
        (''occupiedSlotCount'', JNum (if idle then Fin 0 else normalizeCount (getp workerPool ''occupiedSlotCount''))),
        (''availableSlotCount'', JNum (if idle then targetSlotCount else normalizeCount (getp workerPool ''availableSlotCount''))),
        (''releasedLaneCount'', JNum (if idle then Fin 0 else normalizeCount (getp workerPool ''releasedLaneCount''))),
        (''utilizationRatio'', JNum (if idle then Fin 0 else normalizeRatio (getp workerPool ''utilizationRatio''))),
        (''activeCodingLanes'', JNum (if idle then Fin 0 else normalizeCount (getp runtimeState ''activeCodingLanes''))),
        (''staleRuntimeSuppressed'', JBool suppressed),
        (''currentCycleIdleAuthority'', JObj [(''status'', js_coalesce (getp authority ''status'') (JStr ''missing'')),
           (''source'', js_coalesce (getp authority ''source'') JNull),
           (''observedAt'', js_coalesce (getp authority ''observedAt'') JNull),
           (''nextWakeCondition'', js_coalesce (getp authority ''nextWakeCondition'') JNull)])])"

section \<open>The plan\<close>

definition isQueuedCandidate :: "candidate \<Rightarrow> bool" where
  "isQueuedCandidate c \<longleftrightarrow> isInMergeQueue c \<or> autoMergeEnabled c"

definition countInflight :: "candidate list \<Rightarrow> nat" where
  "countInflight cs = length (filter isQueuedCandidate cs)"

text \<open>What the run has read when it decides.\<close>

record run_inputs =
  in_repository :: string
  in_now :: int
  in_process :: "string \<Rightarrow> jsval"
  in_managed :: "string list"
  in_required :: jsval
  in_prs :: "jsval list"
  in_states :: queue_states
  in_classified :: classification
  in_fetchErrors :: "jsval list"
  in_health :: health_gate
  in_fleet :: fleet_health
  in_previousReport :: jsval
  in_controllerState :: jsval
  in_runtimeState :: jsval
  in_runtimeStatePath :: string
  in_idleAuthority :: jsval
  in_governor :: governor_state
  in_security :: state_envelope

record run_plan =
  pl_retryHistory :: fields
  pl_retryPressure :: retry_pressure
  pl_pausedReasons :: "string list"
  pl_adaptive :: adaptive_inflight
  pl_burst :: burst_window
  pl_cap :: run_cap
  pl_inflight :: nat
  pl_capacity :: jsnum
  pl_controllerState :: jsval
  pl_readiness :: readiness_report
  pl_ready :: "candidate list"
  pl_toProcess :: "candidate list"

definition paused_reasons :: "(string \<Rightarrow> jsval) \<Rightarrow> governor_state \<Rightarrow> health_gate \<Rightarrow> fleet_health \<Rightarrow> jsval list \<Rightarrow> string list" where
  "paused_reasons proc governor health fleet fetchErrors =
     uniq (when_reason (trim (js_text (proc ''QUEUE_AUTOPILOT_PAUSED'')) = ''1'') ''paused-by-variable'' @
           when_reason (gv_mode governor = ''pause'') ''governor-pause'' @
           (if hg_paused health then hg_reasons health else []) @
           (if fl_paused fleet then fl_reasons fleet else []) @
           when_reason (fetchErrors \<noteq> []) ''health-workflow-fetch-errors'')"

text \<open>\<^verbatim>\<open>xs.slice(0, n)\<close> for a number that is not negative.\<close>

definition slice_to :: "jsnum \<Rightarrow> 'a list \<Rightarrow> 'a list" where
  "slice_to n xs =
     (case n of
        Fin x \<Rightarrow> take (nat \<lfloor>x\<rfloor>) xs
      | PosInf \<Rightarrow> xs
      | _ \<Rightarrow> [])"

definition ready_candidates :: "candidate list \<Rightarrow> readiness_report \<Rightarrow> candidate list" where
  "ready_candidates cs readiness =
     concat (map (\<lambda>e. case map_of (rev (map (\<lambda>c. (number c, c)) cs)) (re_number e) of
                        None \<Rightarrow> [] | Some c \<Rightarrow> [c]) (rr_readySet readiness))"

definition previous_retry_history :: "jsval \<Rightarrow> fields" where
  "previous_retry_history previousReport =
     (let h = getp previousReport ''retryHistory'' in if truthy h \<and> typeof_object h then spread h else [])"

definition plan_run :: "supervisor_args \<Rightarrow> run_inputs \<Rightarrow> run_plan result" where
  "plan_run args inp =
     (let cs = cl_candidates (in_classified inp);
          nowIso = iso_string (in_now inp);
          retryHistory = pruneRetryHistory (previous_retry_history (in_previousReport inp)) nowIso RETRY_WINDOW_HOURS;
          retryPressure = computeRetryPressure retryHistory (length cs);
          pausedReasons = paused_reasons (in_process inp) (in_governor inp) (in_health inp) (in_fleet inp) (in_fetchErrors inp)
      in bindE (evaluateAdaptiveInflight (JNum (qa_maxInflight args)) (JNum (qa_minInflight args)) (qa_adaptiveCap args)
           (health_value (in_health inp)) (fleet_value (in_fleet inp)) (retry_value retryPressure)
           (in_controllerState inp)) (\<lambda>adaptive.
         bindE (evaluateBurstWindow (JStr (qa_burstMode args)) (JNum (qa_burstRefillCycles args)) (JArr (in_prs inp))
           (getp (in_previousReport inp) ''burst'') (JStr (ai_mode adaptive)) (in_now inp)) (\<lambda>burst.
         let cap = effective_cap (qa_maxInflight args) (qa_minInflight args) (ai_effectiveMaxInflight adaptive)
               (bw_active burst) (gv_mode (in_governor inp));
             inflight = countInflight (filter (\<lambda>c. baseRefName c \<in> set (in_managed inp)) cs);
             capacity = num_max (Fin 0) (num_sub (rc_effectiveMaxInflight cap) (Fin (of_nat inflight)))
         in bindE (buildQueueReadinessReport (JStr (in_repository inp)) (map candidate_value cs)
              (map (\<lambda>c. JNum (number c)) (cl_orderedEligible (in_classified inp))) (in_now inp)) (\<lambda>readiness.
            let ready = ready_candidates cs readiness
            in Inr \<lparr>pl_retryHistory = retryHistory, pl_retryPressure = retryPressure, pl_pausedReasons = pausedReasons,
                    pl_adaptive = adaptive, pl_burst = burst, pl_cap = cap, pl_inflight = inflight,
                    pl_capacity = capacity,
                    pl_controllerState = throughputControllerState nowIso (in_repository inp) adaptive burst
                      (in_governor inp) cap retryPressure pausedReasons,
                    pl_readiness = readiness, pl_ready = ready,
                    pl_toProcess = slice_to capacity (filter (\<lambda>c. \<not> isQueuedCandidate c) ready)\<rparr>))))"

section \<open>The report\<close>

definition REPORT_SCHEMA :: string where
  "REPORT_SCHEMA = ''priority/queue-supervisor-report@v1''"

definition control_value :: "(string \<Rightarrow> jsval) \<Rightarrow> string \<Rightarrow> jsval" where
  "control_value proc name = js_coalesce (proc name) JNull"

definition controls_value :: "(string \<Rightarrow> jsval) \<Rightarrow> string \<Rightarrow> jsval" where
  "controls_value proc repository =
     JObj [(''pausedByVariable'', JBool (trim (js_text (proc ''QUEUE_AUTOPILOT_PAUSED'')) = ''1'')),
       (''queueAutopilotPaused'', control_value proc ''QUEUE_AUTOPILOT_PAUSED''),
       (''queueAutopilotMaxInflight'', control_value proc ''QUEUE_AUTOPILOT_MAX_INFLIGHT''),
       (''queueAutopilotMinInflight'', control_value proc ''QUEUE_AUTOPILOT_MIN_INFLIGHT''),
       (''queueAutopilotAdaptiveCap'', control_value proc ''QUEUE_AUTOPILOT_ADAPTIVE_CAP''),
       (''queueAutopilotMaxQueuedRuns'', control_value proc ''QUEUE_AUTOPILOT_MAX_QUEUED_RUNS''),
       (''queueAutopilotMaxInProgressRuns'', control_value proc ''QUEUE_AUTOPILOT_MAX_IN_PROGRESS_RUNS''),
       (''queueAutopilotStallThresholdMinutes'', control_value proc ''QUEUE_AUTOPILOT_STALL_THRESHOLD_MINUTES''),
       (''queueBurstMode'', control_value proc ''QUEUE_BURST_MODE''),
       (''queueBurstRefillCycles'', control_value proc ''QUEUE_BURST_REFILL_CYCLES''),
       (''queueGovernorStatePath'', control_value proc ''QUEUE_GOVERNOR_STATE_PATH''),
       (''repositoryOwner'', JStr (to_lower (trim (hd (split_on CHR ''/'' repository)))))]"

definition report_candidate :: "candidate \<Rightarrow> jsval" where
  "report_candidate c =
     JObj [(''number'', JNum (number c)), (''title'', title c), (''url'', url c), (''baseRefName'', JStr (baseRefName c)),
       (''headRefName'', headRefName c),
       (''headRepositoryOwner'', if headRepositoryOwner c = [] then JNull else JStr (headRepositoryOwner c)),
       (''isCrossRepository'', JBool (isCrossRepository c)), (''updatedAt'', JStr (updatedAt c)),
       (''priority'', num_of_nat (pr_priority c)), (''coupling'', JStr (coupling c)),
       (''dependsOn'', JArr (map JNum (dependsOn c))),
       (''unresolvedOpenDependencies'', JArr (map JNum (case unresolvedOpenDependencies c of None \<Rightarrow> [] | Some d \<Rightarrow> d))),
       (''mergeStateStatus'', JStr (mergeStateStatus c)), (''mergeable'', JStr (mergeable c)),
       (''isInMergeQueue'', JBool (isInMergeQueue c)), (''autoMergeEnabled'', JBool (autoMergeEnabled c)),
       (''eligible'', JBool (eligible c)), (''reasons'', jstrs (sort_by text_le (reasons c))),
       (''checks'', JObj [(''ok'', JBool (ok (checks c))), (''missing'', JArr (missing (checks c))),
          (''failing'', JArr (failing (checks c)))])]"

record inventory =
  iv_queueManagedOpenCount :: nat
  iv_readyPrInventory :: nat
  iv_blockedPrInventory :: nat
  iv_readyQueuedCount :: nat
  iv_readyUnqueuedCount :: nat
  iv_mergeQueueOccupancy :: nat
  iv_targetCapacity :: jsnum
  iv_availableCapacity :: jsnum

definition queue_inventory :: "run_inputs \<Rightarrow> run_plan \<Rightarrow> inventory" where
  "queue_inventory inp pl =
     (let managed = length (filter (\<lambda>c. baseRefName c \<in> set (in_managed inp)) (cl_candidates (in_classified inp)));
          ready = length (pl_ready pl); queued = length (filter isQueuedCandidate (pl_ready pl))
      in \<lparr>iv_queueManagedOpenCount = managed, iv_readyPrInventory = ready, iv_blockedPrInventory = managed - ready,
          iv_readyQueuedCount = queued, iv_readyUnqueuedCount = ready - queued,
          iv_mergeQueueOccupancy = pl_inflight pl, iv_targetCapacity = rc_effectiveMaxInflight (pl_cap pl),
          iv_availableCapacity = pl_capacity pl\<rparr>)"

definition inventory_fields :: "inventory \<Rightarrow> fields" where
  "inventory_fields iv =
     [(''readyPrInventory'', num_of_nat (iv_readyPrInventory iv)),
      (''blockedPrInventory'', num_of_nat (iv_blockedPrInventory iv)),
      (''readyQueuedCount'', num_of_nat (iv_readyQueuedCount iv)),
      (''readyUnqueuedCount'', num_of_nat (iv_readyUnqueuedCount iv)),
      (''mergeQueueOccupancy'', num_of_nat (iv_mergeQueueOccupancy iv)),
      (''mergeQueueTargetCapacity'', JNum (iv_targetCapacity iv)),
      (''mergeQueueAvailableCapacity'', JNum (iv_availableCapacity iv))]"

definition summary_value :: "run_inputs \<Rightarrow> run_plan \<Rightarrow> progress \<Rightarrow> jsval" where
  "summary_value inp pl p =
     (let cl = in_classified inp; iv = queue_inventory inp pl
      in JObj ([(''openCount'', num_of_nat (length (cl_allOpen cl))),
          (''candidateCount'', num_of_nat (length (cl_candidates cl))),
          (''eligibleCount'', num_of_nat (length (cl_orderedEligible cl))),
          (''cycleDetected'', JBool (cl_cycleDetected cl)),
          (''queueManagedOpenCount'', num_of_nat (iv_queueManagedOpenCount iv))] @
         inventory_fields iv @
         [(''plannedCount'', num_of_nat (length (pl_toProcess pl))), (''enqueuedCount'', num_of_nat (pg_enqueued p)),
          (''quarantinedCount'', num_of_nat (pg_quarantined p)),
          (''securityIntakeStatus'', se_status (in_security inp))]))"

definition readiness_section :: "supervisor_args \<Rightarrow> readiness_report \<Rightarrow> jsval" where
  "readiness_section args r =
     JObj [(''reportPath'', JStr (qa_readinessReportPath args)), (''summary'', readiness_summary r),
       (''readySet'', JArr (map (\<lambda>e. JObj [(''number'', JNum (re_number e)), (''score'', JNum (re_score e)),
          (''dependencyRank'', JNum (re_dependencyRank e))]) (rr_readySet r)))]"

definition report_value :: "supervisor_args \<Rightarrow> run_inputs \<Rightarrow> run_plan \<Rightarrow> jsval \<Rightarrow> progress \<Rightarrow> jsval" where
  "report_value args inp pl cleanup p =
     JObj [(''schema'', JStr REPORT_SCHEMA), (''generatedAt'', JStr (iso_string (in_now inp))),
       (''repository'', JStr (in_repository inp)),
       (''mode'', JObj [(''apply'', JBool (qa_apply args)), (''dryRun'', JBool (qa_dryRun args))]),
       (''controls'', controls_value (in_process inp) (in_repository inp)),
       (''queueManagedBranches'', jstrs (sort_by text_le (in_managed inp))),
       (''queueStateEnrichment'', JObj [(''attempted'', JBool (qs_attempted (in_states inp))),
          (''queuedStateCount'', num_of_nat (length (qs_states (in_states inp)))), (''error'', qs_error (in_states inp))]),
       (''maxInflight'', JNum (qa_maxInflight args)), (''minInflight'', JNum (qa_minInflight args)),
       (''effectiveMaxInflight'', JNum (rc_effectiveMaxInflight (pl_cap pl))),
       (''adaptiveInflight'', adaptive_value (pl_adaptive pl)), (''burst'', burst_value (pl_burst pl)),
       (''burstCapApplied'', JBool (rc_burstCapApplied (pl_cap pl))),
       (''governor'', governor_value (in_governor inp) (pl_cap pl)),
       (''securityIntake'', envelope_value (in_security inp)), (''inflight'', num_of_nat (pl_inflight pl)),
       (''capacity'', JNum (pl_capacity pl)), (''health'', health_value (in_health inp)),
       (''runtimeFleet'', fleet_value (in_fleet inp)),
       (''workerOccupancy'', buildWorkerOccupancySummary (in_runtimeState inp) (in_runtimeStatePath inp) (in_idleAuthority inp)),
       (''workflowFetchErrors'', JArr (in_fetchErrors inp)), (''paused'', JBool (pl_pausedReasons pl \<noteq> [])),
       (''pausedReasons'', jstrs (pl_pausedReasons pl)), (''throughputController'', pl_controllerState pl),
       (''queueInventory'', JObj ((''queueManagedOpenCount'', num_of_nat (iv_queueManagedOpenCount (queue_inventory inp pl))) #
          inventory_fields (queue_inventory inp pl))),
       (''readiness'', readiness_section args (pl_readiness pl)), (''summary'', summary_value inp pl p),
       (''candidates'', JArr (map report_candidate (sort_by (\<lambda>a b. \<not> num_gt (num_sub (number a) (number b)) (Fin 0))
          (cl_candidates (in_classified inp))))),
       (''orderedEligible'', JArr (map (\<lambda>c. JNum (number c)) (cl_orderedEligible (in_classified inp)))),
       (''actions'', JArr (pg_actions p)), (''retryHistory'', JObj (pg_history p)),
       (''deferredBranchCleanup'', cleanup)]"

section \<open>The run\<close>

definition DEFAULT_RUNTIME_STATE_PATH :: string where
  "DEFAULT_RUNTIME_STATE_PATH = ''tests/results/_agent/runtime/delivery-agent-state.json''"

definition LEGACY_RUNTIME_STATE_PATH :: string where
  "LEGACY_RUNTIME_STATE_PATH = ''tests/results/_agent/runtime/runtime-state.json''"

definition SECURITY_INTAKE_STATUSES :: "string list" where
  "SECURITY_INTAKE_STATUSES = [''pass'', ''breach'', ''overridden'', ''platform-stale'', ''skip'', ''error'']"

definition pr_list_args :: "string \<Rightarrow> string list" where
  "pr_list_args repository =
     [''pr'', ''list'', ''--repo'', repository, ''--state'', ''open'', ''--limit'', ''200'', ''--json'',
      ''number,title,body,baseRefName,headRefName,headRepositoryOwner,isCrossRepository,isDraft,updatedAt,url,labels,'' @
      ''statusCheckRollup,mergeStateStatus,mergeable,autoMergeRequest'']"

definition gh_json :: "'w queue_env \<Rightarrow> string list \<Rightarrow> 'w run_state \<Rightarrow> 'w run_state \<times> jsval result" where
  "gh_json qe args st = (case st of (w, cmds) \<Rightarrow> (case qe_runGhJson qe args w of (w', r) \<Rightarrow> ((w', cmds), r)))"

definition write_doc :: "'w queue_env \<Rightarrow> string \<Rightarrow> jsval \<Rightarrow> 'w run_state \<Rightarrow> 'w run_state \<times> string result" where
  "write_doc qe p doc st = (case st of (w, cmds) \<Rightarrow> (case qe_writeReport qe p doc w of (w', r) \<Rightarrow> ((w', cmds), r)))"

text \<open>The state document of the delivery agent, or the older one.\<close>

definition read_runtime_state :: "'w queue_env \<Rightarrow> string \<Rightarrow> 'w \<Rightarrow> jsval \<times> string" where
  "read_runtime_state qe repoRoot w =
     (let runtimeState = qe_readOptionalJson qe (resolve_in repoRoot DEFAULT_RUNTIME_STATE_PATH) w;
          legacy = qe_readOptionalJson qe (resolve_in repoRoot LEGACY_RUNTIME_STATE_PATH) w
      in if nullish runtimeState \<and> \<not> nullish legacy then (legacy, LEGACY_RUNTIME_STATE_PATH)
         else (runtimeState, DEFAULT_RUNTIME_STATE_PATH))"

text \<open>Everything up to the last document read.\<close>

definition collect_inputs ::
  "'w queue_env \<Rightarrow> supervisor_args \<Rightarrow> string \<Rightarrow> string \<Rightarrow> int \<Rightarrow> (string \<Rightarrow> jsval) \<Rightarrow> 'w run_state \<Rightarrow> 'w run_state \<times> run_inputs result" where
  "collect_inputs qe args repoRoot repository now proc st =
     runE (st, qe_readJsonFile qe (resolve_in repoRoot ''tools/policy/branch-required-checks.json'') (fst st)) (\<lambda>branchRequired st.
     runE (st, qe_readJsonFile qe (resolve_in repoRoot ''tools/priority/policy.json'') (fst st)) (\<lambda>policy st.
     runE (st, parseQueueManagedBranches policy (qa_baseBranches args)) (\<lambda>managed st.
     runE (gh_json qe (pr_list_args repository) st) (\<lambda>listed st.
     runE (st, mappable listed) (\<lambda>allOpenPrs st.
     runE (st, mapE (\<lambda>pr. dot pr ''baseRefName'') allOpenPrs) (\<lambda>bases st.
     runE (readPullRequestQueueStates qe repository
             (map (\<lambda>pr. js_number (getp pr ''number''))
               (filter (\<lambda>pr. normalizeBaseBranch (getp pr ''baseRefName'') \<in> set managed) allOpenPrs)) st) (\<lambda>states st.
     (let prs = map (enrich (qs_states states)) allOpenPrs;
          required = js_coalesce (getp branchRequired ''branches'') (JObj [])
      in runE (st, classifyOpenPullRequests (JArr prs) required managed EXCLUDED_LABELS) (\<lambda>classified st.
         (case fetchWorkflowRunsByName qe repository (qa_healthBranch args) st of (st, runs, fetchErrors) \<Rightarrow>
            runE (st, evaluateHealthGate (qe_undated qe) (JObj runs) now DEFAULT_HEALTH_MIN_SUCCESS_RATE
                    DEFAULT_HEALTH_MAX_RED_MINUTES) (\<lambda>health st.
            runE (st, evaluateRuntimeFleetHealth (JObj runs) now (qa_maxQueuedRuns args) (qa_maxInProgressRuns args)
                    (qa_stallThresholdMinutes args)) (\<lambda>fleet st.
            runE (st, date_iso now) (\<lambda>nowIso st.
              (let w = fst st; (runtimeState, runtimePath) = read_runtime_state qe repoRoot w
               in (st, Inr
                 \<lparr>in_repository = repository, in_now = now, in_process = proc, in_managed = managed, in_required = required, in_prs = prs,
                  in_states = states, in_classified = classified, in_fetchErrors = fetchErrors, in_health = health,
                  in_fleet = fleet,
                  in_previousReport = qe_readOptionalJson qe (resolve_in repoRoot (qa_reportPath args)) w,
                  in_controllerState = qe_readOptionalJson qe (resolve_in repoRoot (qa_controllerStatePath args)) w,
                  in_runtimeState = runtimeState, in_runtimeStatePath = runtimePath,
                  in_idleAuthority = deriveCurrentCycleIdleAuthority runtimeState JNull now DEFAULT_IDLE_AUTHORITY_FRESH_SECONDS,
                  in_governor = governor_state_of
                    (qe_readOptionalJson qe (resolve_in repoRoot (qa_governorStatePath args)) w) (qa_governorStatePath args),
                  in_security = projectOptionalStateEnvelope
                    (qe_readOptionalJson qe (resolve_in repoRoot (qa_securityIntakeReportPath args)) w)
                    (qa_securityIntakeReportPath args) (Some SECURITY_INTAKE_STATUSES)\<rparr>)))))))))))))))"

record run_outcome =
  ro_inputs :: run_inputs
  ro_plan :: run_plan
  ro_report :: jsval
  ro_progress :: progress

definition write_documents ::
  "'w queue_env \<Rightarrow> supervisor_args \<Rightarrow> run_inputs \<Rightarrow> run_plan \<Rightarrow> jsval \<Rightarrow> progress \<Rightarrow> 'w run_state \<Rightarrow> 'w run_state \<times> run_outcome result" where
  "write_documents qe args inp pl cleanup p st =
     (let report = report_value args inp pl cleanup p
      in runE (write_doc qe (qa_reportPath args) report st) (\<lambda>written st.
         runE (write_doc qe (qa_controllerStatePath args) (pl_controllerState pl) st) (\<lambda>written st.
         runE (write_doc qe (qa_readinessReportPath args) (readiness_value (pl_readiness pl)) st) (\<lambda>written st.
           (st, Inr \<lparr>ro_inputs = inp, ro_plan = pl, ro_report = report, ro_progress = p\<rparr>)))))"

definition runQueueSupervisor ::
  "'w queue_env \<Rightarrow> supervisor_args \<Rightarrow> string \<Rightarrow> string \<Rightarrow> int \<Rightarrow> (string \<Rightarrow> jsval) \<Rightarrow> 'w run_state \<Rightarrow> 'w run_state \<times> run_outcome result" where
  "runQueueSupervisor qe args repoRoot repository now proc st =
     runE (collect_inputs qe args repoRoot repository now proc st) (\<lambda>inp st.
     runE (st, plan_run args inp) (\<lambda>pl st.
     runE (reconcileDeferredBranchCleanupReceipts qe repoRoot (qa_apply args \<and> \<not> qa_dryRun args) st) (\<lambda>cleanup st.
       let start = \<lparr>pg_history = pl_retryHistory pl, pg_actions = [], pg_enqueued = 0, pg_quarantined = 0\<rparr>
       in if pl_pausedReasons pl \<noteq> [] \<or> qa_dryRun args \<or> \<not> qa_apply args
          then write_documents qe args inp pl cleanup start st
          else (case process_candidates qe repoRoot repository (iso_string now) (pl_toProcess pl) st start of (st, p) \<Rightarrow>
            write_documents qe args inp pl cleanup p st))))"

end
