(* ===== verification/QueueCli.thy ===== *)
theory QueueCli
  imports QueueSupervisor
begin

text \<open>
  The command lines around the queue: the options and the repository of \<^verbatim>\<open>tools/priority/queue-supervisor.mjs\<close>
  with its \<^verbatim>\<open>main\<close>, \<^verbatim>\<open>parseRemoteUrl\<close> of \<^verbatim>\<open>lib/remote-utils.mjs\<close>, and the readiness report that
  \<^verbatim>\<open>queue-readiness.mjs\<close> rebuilds from the supervisor's report on disk.
\<close>

section \<open>The options of the supervisor\<close>

definition queue_file :: "string \<Rightarrow> string \<Rightarrow> string" where
  "queue_file folder name = path_join [''tests'', ''results'', ''_agent'', folder, name]"

definition DEFAULT_REPORT_PATH :: string where
  "DEFAULT_REPORT_PATH = queue_file ''queue'' ''queue-supervisor-report.json''"

definition DEFAULT_CONTROLLER_STATE_PATH :: string where
  "DEFAULT_CONTROLLER_STATE_PATH = queue_file ''queue'' ''throughput-controller-state.json''"

definition DEFAULT_READINESS_REPORT_PATH :: string where
  "DEFAULT_READINESS_REPORT_PATH = queue_file ''queue'' ''queue-readiness-report.json''"

definition DEFAULT_GOVERNOR_STATE_PATH :: string where
  "DEFAULT_GOVERNOR_STATE_PATH = queue_file ''slo'' ''ops-governor-state.json''"

definition DEFAULT_SECURITY_INTAKE_REPORT_PATH :: string where
  "DEFAULT_SECURITY_INTAKE_REPORT_PATH = queue_file ''security'' ''security-intake-report.json''"

definition DEFAULT_MAX_INFLIGHT :: jsnum where
  "DEFAULT_MAX_INFLIGHT = Fin 5"

definition DEFAULT_MIN_INFLIGHT :: jsnum where
  "DEFAULT_MIN_INFLIGHT = Fin 2"

definition DEFAULT_STALL_THRESHOLD_MINUTES :: jsnum where
  "DEFAULT_STALL_THRESHOLD_MINUTES = Fin 45"

definition DEFAULT_BURST_MODE :: string where
  "DEFAULT_BURST_MODE = ''auto''"

definition DEFAULT_BURST_REFILL_CYCLES :: jsnum where
  "DEFAULT_BURST_REFILL_CYCLES = Fin 3"

definition DEFAULT_BASE_BRANCHES :: "string list" where
  "DEFAULT_BASE_BRANCHES = [''develop'', ''main'']"

definition quote_text :: "string \<Rightarrow> string" where
  "quote_text s = [CHR 0x27] @ s @ [CHR 0x27]"

definition parseBooleanStrict :: "jsval \<Rightarrow> string \<Rightarrow> bool result" where
  "parseBooleanStrict v lab =
     (let normalized = to_lower (trim (js_text v))
      in if normalized \<in> set [''1'', ''true'', ''yes'', ''on''] then Inr True
         else if normalized \<in> set [''0'', ''false'', ''no'', ''off''] then Inr False
         else Inl (ErrorMsg (''Invalid '' @ lab @ '' value '' @ quote_text (js_string v) @
                ''. Expected one of: 1,true,yes,on,0,false,no,off.'')))"

definition parseCsv :: "string \<Rightarrow> string list" where
  "parseCsv v = filter (\<lambda>s. s \<noteq> []) (map trim (split_on CHR '','' v))"

text \<open>The options while the command line is read; \<open>None\<close> is the null of an option that was not given.\<close>

record queue_options =
  qo_apply :: bool
  qo_dryRun :: bool
  qo_reportPath :: string
  qo_controllerStatePath :: string
  qo_readinessReportPath :: string
  qo_governorStatePath :: string
  qo_securityIntakeReportPath :: string
  qo_maxInflight :: "jsnum option"
  qo_minInflight :: "jsnum option"
  qo_adaptiveCap :: "bool option"
  qo_repo :: "string option"
  qo_baseBranches :: "string list"
  qo_healthBranch :: string
  qo_maxQueuedRuns :: "jsnum option"
  qo_maxInProgressRuns :: "jsnum option"
  qo_stallThresholdMinutes :: "jsnum option"
  qo_burstMode :: "string option"
  qo_burstRefillCycles :: "jsnum option"
  qo_help :: bool

definition queue_defaults :: queue_options where
  "queue_defaults =
     \<lparr>qo_apply = False, qo_dryRun = True, qo_reportPath = DEFAULT_REPORT_PATH,
      qo_controllerStatePath = DEFAULT_CONTROLLER_STATE_PATH, qo_readinessReportPath = DEFAULT_READINESS_REPORT_PATH,
      qo_governorStatePath = DEFAULT_GOVERNOR_STATE_PATH,
      qo_securityIntakeReportPath = DEFAULT_SECURITY_INTAKE_REPORT_PATH, qo_maxInflight = None, qo_minInflight = None,
      qo_adaptiveCap = None, qo_repo = None, qo_baseBranches = DEFAULT_BASE_BRANCHES, qo_healthBranch = ''develop'',
      qo_maxQueuedRuns = None, qo_maxInProgressRuns = None, qo_stallThresholdMinutes = None, qo_burstMode = None,
      qo_burstRefillCycles = None, qo_help = False\<rparr>"

definition int_option :: "string \<Rightarrow> string \<Rightarrow> (jsnum option \<Rightarrow> queue_options) \<Rightarrow> queue_options result" where
  "int_option arg next_arg f = bindE (parseIntStrict (JStr next_arg) arg) (\<lambda>n. Inr (f (Some n)))"

definition set_base_branches :: "string \<Rightarrow> queue_options \<Rightarrow> queue_options result" where
  "set_base_branches next_arg opts =
     (let parsed = parseCsv next_arg
      in if parsed = [] then Inl (ErrorMsg ''Expected at least one branch in --base-branches.'')
         else Inr (opts\<lparr>qo_baseBranches := map to_lower parsed\<rparr>))"

definition set_repo :: "string \<Rightarrow> queue_options \<Rightarrow> queue_options result" where
  "set_repo next_arg opts =
     (if CHR ''/'' \<notin> set next_arg then Inl (ErrorMsg (''Invalid --repo '' @ quote_text next_arg @ '', expected owner/repo.''))
      else Inr (opts\<lparr>qo_repo := Some next_arg\<rparr>))"

text \<open>The options that take a value, with what they do to the options read so far.\<close>

definition value_options :: "(string \<times> (string \<Rightarrow> queue_options \<Rightarrow> queue_options result)) list" where
  "value_options =
     [(''--report'', \<lambda>v opts. Inr (opts\<lparr>qo_reportPath := v\<rparr>)),
      (''--controller-state'', \<lambda>v opts. Inr (opts\<lparr>qo_controllerStatePath := v\<rparr>)),
      (''--readiness-report'', \<lambda>v opts. Inr (opts\<lparr>qo_readinessReportPath := v\<rparr>)),
      (''--governor-state'', \<lambda>v opts. Inr (opts\<lparr>qo_governorStatePath := v\<rparr>)),
      (''--security-intake-report'', \<lambda>v opts. Inr (opts\<lparr>qo_securityIntakeReportPath := v\<rparr>)),
      (''--max-inflight'', \<lambda>v opts. int_option ''--max-inflight'' v (\<lambda>n. opts\<lparr>qo_maxInflight := n\<rparr>)),
      (''--min-inflight'', \<lambda>v opts. int_option ''--min-inflight'' v (\<lambda>n. opts\<lparr>qo_minInflight := n\<rparr>)),
      (''--repo'', set_repo), (''--base-branches'', set_base_branches),
      (''--health-branch'', \<lambda>v opts. Inr (opts\<lparr>qo_healthBranch := to_lower (trim v)\<rparr>)),
      (''--max-queued-runs'', \<lambda>v opts. int_option ''--max-queued-runs'' v (\<lambda>n. opts\<lparr>qo_maxQueuedRuns := n\<rparr>)),
      (''--max-in-progress-runs'',
         \<lambda>v opts. int_option ''--max-in-progress-runs'' v (\<lambda>n. opts\<lparr>qo_maxInProgressRuns := n\<rparr>)),
      (''--stall-threshold-minutes'',
         \<lambda>v opts. int_option ''--stall-threshold-minutes'' v (\<lambda>n. opts\<lparr>qo_stallThresholdMinutes := n\<rparr>)),
      (''--burst-mode'',
         \<lambda>v opts. bindE (parseBurstMode (JStr v) ''--burst-mode'') (\<lambda>m. Inr (opts\<lparr>qo_burstMode := Some m\<rparr>))),
      (''--burst-refill-cycles'',
         \<lambda>v opts. int_option ''--burst-refill-cycles'' v (\<lambda>n. opts\<lparr>qo_burstRefillCycles := n\<rparr>))]"

definition no_option_value :: "string \<Rightarrow> 'a result" where
  "no_option_value arg = Inl (ErrorMsg (''Missing value for '' @ arg @ ''.''))"

definition no_value :: "string \<Rightarrow> bool" where
  "no_value s \<longleftrightarrow> s = [] \<or> starts_with s ''-''"

fun parse_queue_args :: "queue_options \<Rightarrow> string list \<Rightarrow> queue_options result" where
  "parse_queue_args opts [] = Inr opts"
| "parse_queue_args opts (arg # rest) =
     (if arg = ''--apply'' then parse_queue_args (opts\<lparr>qo_apply := True, qo_dryRun := False\<rparr>) rest
      else if arg = ''--dry-run'' then parse_queue_args (opts\<lparr>qo_apply := False, qo_dryRun := True\<rparr>) rest
      else if arg = ''--help'' \<or> arg = ''-h'' then parse_queue_args (opts\<lparr>qo_help := True\<rparr>) rest
      else case map_of value_options arg of
        Some setter \<Rightarrow>
          (case rest of
             [] \<Rightarrow> no_option_value arg
           | v # rest' \<Rightarrow>
               if no_value v then no_option_value arg
               else bindE (setter v opts) (\<lambda>opts'. parse_queue_args opts' rest'))
      | None \<Rightarrow>
          if arg = ''--adaptive-cap'' then parse_queue_args (opts\<lparr>qo_adaptiveCap := Some True\<rparr>) rest
          else if arg = ''--no-adaptive-cap'' then parse_queue_args (opts\<lparr>qo_adaptiveCap := Some False\<rparr>) rest
          else Inl (ErrorMsg (''Unknown option: '' @ arg)))"

text \<open>An option, or else its environment variable when that holds more than blanks, or else its default.\<close>

definition option_or_env ::
  "(string \<Rightarrow> jsval) \<Rightarrow> string \<Rightarrow> (jsval \<Rightarrow> string \<Rightarrow> 'a result) \<Rightarrow> 'a option \<Rightarrow> 'a \<Rightarrow> 'a result" where
  "option_or_env proc name parse given fallback =
     (case given of
        Some x \<Rightarrow> Inr x
      | None \<Rightarrow>
          if truthy (proc name) \<and> trim (js_string (proc name)) \<noteq> [] then parse (proc name) name else Inr fallback)"

definition resolve_queue_options :: "(string \<Rightarrow> jsval) \<Rightarrow> queue_options \<Rightarrow> supervisor_args result" where
  "resolve_queue_options proc opts =
     bindE (option_or_env proc ''QUEUE_AUTOPILOT_MAX_INFLIGHT'' parseIntStrict (qo_maxInflight opts) DEFAULT_MAX_INFLIGHT) (\<lambda>maxInflight.
     bindE (option_or_env proc ''QUEUE_AUTOPILOT_ADAPTIVE_CAP'' parseBooleanStrict (qo_adaptiveCap opts) True) (\<lambda>adaptiveCap.
     bindE (option_or_env proc ''QUEUE_AUTOPILOT_MIN_INFLIGHT'' parseIntStrict (qo_minInflight opts) DEFAULT_MIN_INFLIGHT) (\<lambda>minInflight.
       if num_gt minInflight maxInflight then
         Inl (ErrorMsg (''Invalid inflight bounds: min-inflight ('' @ num_to_string minInflight @
           '') cannot exceed max-inflight ('' @ num_to_string maxInflight @ '').''))
       else
     bindE (option_or_env proc ''QUEUE_AUTOPILOT_MAX_QUEUED_RUNS'' parseIntStrict (qo_maxQueuedRuns opts) DEFAULT_MAX_QUEUED_RUNS) (\<lambda>maxQueuedRuns.
     bindE (option_or_env proc ''QUEUE_AUTOPILOT_MAX_IN_PROGRESS_RUNS'' parseIntStrict (qo_maxInProgressRuns opts)
              DEFAULT_MAX_IN_PROGRESS_RUNS) (\<lambda>maxInProgressRuns.
     bindE (option_or_env proc ''QUEUE_AUTOPILOT_STALL_THRESHOLD_MINUTES'' parseIntStrict (qo_stallThresholdMinutes opts)
              DEFAULT_STALL_THRESHOLD_MINUTES) (\<lambda>stallThresholdMinutes.
     bindE (option_or_env proc ''QUEUE_BURST_MODE'' parseBurstMode (qo_burstMode opts) DEFAULT_BURST_MODE) (\<lambda>burstMode.
     bindE (option_or_env proc ''QUEUE_BURST_REFILL_CYCLES'' parseIntStrict (qo_burstRefillCycles opts)
              DEFAULT_BURST_REFILL_CYCLES) (\<lambda>burstRefillCycles.
       Inr \<lparr>qa_apply = qo_apply opts, qa_dryRun = qo_dryRun opts, qa_reportPath = qo_reportPath opts,
         qa_controllerStatePath = qo_controllerStatePath opts, qa_readinessReportPath = qo_readinessReportPath opts,
         qa_governorStatePath = qo_governorStatePath opts,
         qa_securityIntakeReportPath = qo_securityIntakeReportPath opts, qa_maxInflight = maxInflight,
         qa_minInflight = minInflight, qa_adaptiveCap = adaptiveCap, qa_baseBranches = qo_baseBranches opts,
         qa_healthBranch = qo_healthBranch opts, qa_maxQueuedRuns = maxQueuedRuns,
         qa_maxInProgressRuns = maxInProgressRuns, qa_stallThresholdMinutes = stallThresholdMinutes,
         qa_burstMode = burstMode, qa_burstRefillCycles = burstRefillCycles\<rparr>))))))))"

record parsed_args =
  pa_args :: supervisor_args
  pa_repo :: "string option"
  pa_help :: bool

definition parseArgs_qs :: "(string \<Rightarrow> jsval) \<Rightarrow> string list \<Rightarrow> parsed_args result" where
  "parseArgs_qs proc argv =
     bindE (parse_queue_args queue_defaults (drop 2 argv)) (\<lambda>opts.
     bindE (resolve_queue_options proc opts) (\<lambda>args.
       Inr \<lparr>pa_args = args, pa_repo = qo_repo opts, pa_help = qo_help opts\<rparr>))"

section \<open>The repository\<close>

text \<open>What follows each occurrence of a text, from left to right.\<close>

fun rests_after :: "string \<Rightarrow> string \<Rightarrow> string list" where
  "rests_after p [] = []"
| "rests_after p (c # s) =
     (if starts_with (c # s) p then [drop (length p) (c # s)] else []) @ rests_after p s"

text \<open>\<^verbatim>\<open>([^/]+\/[^/]+)(?:\.git)?$\<close>: the greedy second part takes an ending \<^verbatim>\<open>.git\<close> along.\<close>

definition repo_path :: "string \<Rightarrow> (string \<times> string) option" where
  "repo_path s =
     (case split_on CHR ''/'' s of
        [owner, repo] \<Rightarrow> if owner \<noteq> [] \<and> repo \<noteq> [] then Some (owner, repo) else None
      | _ \<Rightarrow> None)"

definition ends_in :: "string \<Rightarrow> string \<Rightarrow> bool" where
  "ends_in s e \<longleftrightarrow> length e \<le> length s \<and> drop (length s - length e) s = e"

definition parseRemoteUrl :: "string \<Rightarrow> (string \<times> string) option" where
  "parseRemoteUrl remote =
     (case (case first_match repo_path (rests_after '':'' remote) of
              Some path \<Rightarrow> Some path
            | None \<Rightarrow> first_match repo_path (rests_after ''github.com/'' remote)) of
        None \<Rightarrow> None
      | Some (owner, repoRaw) \<Rightarrow>
          Some (owner, if ends_in repoRaw ''.git'' then take (length repoRaw - 4) repoRaw else repoRaw))"

text \<open>\<open>git_config key\<close> is what \<^verbatim>\<open>git config --get key\<close> prints, \<open>None\<close> when it fails.\<close>

definition parseRemoteRepository :: "(string \<Rightarrow> string option) \<Rightarrow> string \<Rightarrow> (string \<times> string) option" where
  "parseRemoteRepository git_config remoteName =
     (case git_config (''remote.'' @ remoteName @ ''.url'') of
        None \<Rightarrow> None
      | Some out \<Rightarrow> parseRemoteUrl (trim out))"

definition slug_of :: "string \<times> string \<Rightarrow> string" where
  "slug_of r = fst r @ ''/'' @ snd r"

definition resolveRepositorySlug ::
  "(string \<Rightarrow> jsval) \<Rightarrow> (string \<Rightarrow> string option) \<Rightarrow> string option \<Rightarrow> string result" where
  "resolveRepositorySlug proc git_config explicit =
     (let given = (case explicit of Some s \<Rightarrow> s | None \<Rightarrow> []);
          envRepo = (case proc ''GITHUB_REPOSITORY'' of JStr s \<Rightarrow> s | _ \<Rightarrow> [])
      in if given \<noteq> [] then Inr given
         else if envRepo \<noteq> [] \<and> CHR ''/'' \<in> set envRepo then Inr (trim envRepo)
         else (case parseRemoteRepository git_config ''upstream'' of
                 Some r \<Rightarrow> Inr (slug_of r)
               | None \<Rightarrow>
                   (case parseRemoteRepository git_config ''origin'' of
                      Some r \<Rightarrow> Inr (slug_of r)
                    | None \<Rightarrow> Inl (ErrorMsg ''Unable to resolve target repository. Use --repo owner/repo.''))))"

text \<open>\<^verbatim>\<open>main\<close>: the exit code; what it prints is not modelled.\<close>

definition queue_main ::
  "'w queue_env \<Rightarrow> (string \<Rightarrow> string option) \<Rightarrow> string \<Rightarrow> int \<Rightarrow> (string \<Rightarrow> jsval) \<Rightarrow> string list \<Rightarrow> 'w run_state
     \<Rightarrow> 'w run_state \<times> nat result" where
  "queue_main qe git_config repoRoot now proc argv st =
     runE (st, parseArgs_qs proc argv) (\<lambda>parsed st.
       if pa_help parsed then (st, Inr 0)
       else
         runE (st, resolveRepositorySlug proc git_config (pa_repo parsed)) (\<lambda>repository st.
         runE (runQueueSupervisor qe (pa_args parsed) repoRoot repository now proc st) (\<lambda>out st. (st, Inr 0))))"

section \<open>The readiness report from disk\<close>

definition DEFAULT_SUPERVISOR_REPORT_PATH :: string where
  "DEFAULT_SUPERVISOR_REPORT_PATH = queue_file ''queue'' ''queue-supervisor-report.json''"

record readiness_options =
  rdo_supervisorReportPath :: string
  rdo_reportPath :: string
  rdo_help :: bool

fun parse_readiness_args :: "readiness_options \<Rightarrow> string list \<Rightarrow> readiness_options result" where
  "parse_readiness_args opts [] = Inr opts"
| "parse_readiness_args opts (arg # rest) =
     (if arg = ''-h'' \<or> arg = ''--help'' then parse_readiness_args (opts\<lparr>rdo_help := True\<rparr>) rest
      else if arg = ''--supervisor-report'' \<or> arg = ''--report'' then
        (case rest of
           [] \<Rightarrow> no_option_value arg
         | v # rest' \<Rightarrow>
             if no_value v then no_option_value arg
             else parse_readiness_args
               (if arg = ''--supervisor-report'' then opts\<lparr>rdo_supervisorReportPath := v\<rparr> else opts\<lparr>rdo_reportPath := v\<rparr>) rest')
      else Inl (ErrorMsg (''Unknown option: '' @ arg)))"

definition parseArgs_qr :: "string list \<Rightarrow> readiness_options result" where
  "parseArgs_qr argv =
     parse_readiness_args \<lparr>rdo_supervisorReportPath = DEFAULT_SUPERVISOR_REPORT_PATH,
       rdo_reportPath = DEFAULT_READINESS_REPORT_PATH, rdo_help = False\<rparr> (drop 2 argv)"

definition readJson_qr :: "string \<Rightarrow> string \<Rightarrow> store \<Rightarrow> jsval result" where
  "readJson_qr cwd p st =
     (case st (path_resolve cwd [p]) of
        None \<Rightarrow> Inl (IoError ''ENOENT'')
      | Some (Doc v) \<Rightarrow> Inr v
      | Some _ \<Rightarrow> Inl SyntaxError)"

definition writeJson_qr :: "string \<Rightarrow> string \<Rightarrow> jsval \<Rightarrow> store \<Rightarrow> store" where
  "writeJson_qr cwd p v st = st(path_resolve cwd [p] \<mapsto> Doc (json_norm v))"

text \<open>\<^verbatim>\<open>(v ?? []).map(f)\<close> on what is no array raises.\<close>

definition runQueueReadiness ::
  "string \<Rightarrow> int \<Rightarrow> (string \<Rightarrow> jsval) \<Rightarrow> readiness_options \<Rightarrow> store \<Rightarrow> store \<times> readiness_report result" where
  "runQueueReadiness cwd now proc parsed st =
     runE (st, readJson_qr cwd (rdo_supervisorReportPath parsed) st) (\<lambda>source st.
     runE (st, mappable (js_coalesce (getp source ''orderedEligible'') (JArr []))) (\<lambda>orderedEligible st.
     runE (st, mappable (js_coalesce (getp source ''candidates'') (JArr []))) (\<lambda>candidates st.
     runE (st, buildQueueReadinessReport
             (js_coalesce (getp source ''repository'') (js_coalesce (proc ''GITHUB_REPOSITORY'') (JStr ''unknown/unknown'')))
             candidates orderedEligible now) (\<lambda>report st.
       (writeJson_qr cwd (rdo_reportPath parsed) (readiness_value report) st, Inr report)))))"

definition readiness_main :: "string \<Rightarrow> int \<Rightarrow> (string \<Rightarrow> jsval) \<Rightarrow> string list \<Rightarrow> store \<Rightarrow> store \<times> nat result" where
  "readiness_main cwd now proc argv st =
     runE (st, parseArgs_qr argv) (\<lambda>parsed st.
       if rdo_help parsed then (st, Inr 0)
       else runE (runQueueReadiness cwd now proc parsed st) (\<lambda>report st. (st, Inr 0)))"

end
