(* ===== verification/QueueControlLaws.thy ===== *)
theory QueueControlLaws
  imports QueueSupervisor
begin

text \<open>
  The laws of the throughput controller: the caps stay within their bounds, the mode moves by the rules
  of the hysteresis, a burst waits for the end of its backoff, and the retry history forgets what is old.
\<close>

section \<open>Caps\<close>

lemma parseIntStrict_Inr:
  "parseIntStrict v lab = Inr n \<longleftrightarrow> js_number v = n \<and> num_integer n \<and> \<not> num_lt n (Fin 0)"
  by (auto simp: parseIntStrict_def Let_def)

definition count_num :: "jsnum \<Rightarrow> bool" where
  "count_num n \<longleftrightarrow> num_integer n \<and> \<not> num_lt n (Fin 0)"

lemma count_num_nat: "count_num n \<longleftrightarrow> (\<exists>k. n = Fin (of_nat k))"
proof
  assume n: "count_num n"
  then obtain i :: int where x: "n = Fin (of_int i)" "0 \<le> i"
    by (cases n) (auto simp: count_num_def elim!: Ints_cases)
  then have "n = Fin (of_nat (nat i))"
    by simp
  then show "\<exists>k. n = Fin (of_nat k)" ..
qed (auto simp: count_num_def)

lemma caps_nat:
  assumes "m \<le> M"
  shows "\<exists>c. cap_of_mode (deriveModeCaps (Fin (of_nat M)) (Fin (of_nat m))) mode (Fin (of_nat m)) = Fin (of_nat c) \<and> m \<le> c \<and> c \<le> M"
proof -
  have "num_min (Fin (of_nat M)) (num_sub (Fin (of_nat M)) (Fin 2)) = Fin (of_nat M - 2)"
    by simp
  moreover have "max (rat_of_nat m) (of_nat M - 2) = of_nat (max m (M - 2))"
    by (cases "2 \<le> M") (auto simp: of_nat_diff max_def)
  ultimately have "mc_guarded (deriveModeCaps (Fin (of_nat M)) (Fin (of_nat m))) = Fin (of_nat (max m (M - 2)))"
    by (simp add: deriveModeCaps_def)
  moreover have "m \<le> max m (M - 2) \<and> max m (M - 2) \<le> M"
    using assms by simp
  ultimately show ?thesis
    using assms by (auto simp: cap_of_mode_def deriveModeCaps_def)
qed

lemma adaptive_cap_bounds:
  assumes "evaluateAdaptiveInflight maxInflight minInflight adaptiveCap health fleet pressure previous = Inr a"
  shows "\<exists>M m c. js_number maxInflight = Fin (of_nat M) \<and> js_number minInflight = Fin (of_nat m) \<and>
    ai_effectiveMaxInflight a = Fin (of_nat c) \<and> m \<le> c \<and> c \<le> M"
proof -
  from assms obtain x y where xy: "js_number maxInflight = x" "count_num x" "js_number minInflight = y" "count_num y" "\<not> num_gt y x"
    by (auto simp: evaluateAdaptiveInflight_def parseIntStrict_Inr count_num_def Let_def split: if_splits)
  from xy(2,4,5) obtain M m where Mm: "x = Fin (of_nat M)" "y = Fin (of_nat m)" "m \<le> M"
    by (auto simp: count_num_nat)
  note caps = caps_nat [OF Mm(3)]
  show ?thesis
  proof (cases adaptiveCap)
    case False
    with assms xy Mm have "ai_effectiveMaxInflight a = Fin (of_nat M)"
      by (auto simp: evaluateAdaptiveInflight_def parseIntStrict_Inr Let_def)
    with xy Mm show ?thesis
      by blast
  next
    case True
    with assms xy Mm obtain mode where
      "ai_effectiveMaxInflight a = cap_of_mode (deriveModeCaps (Fin (of_nat M)) (Fin (of_nat m))) mode (Fin (of_nat m))"
      by (auto simp: evaluateAdaptiveInflight_def parseIntStrict_Inr Let_def split: prod.splits)
    with caps [of mode] xy Mm show ?thesis
      by auto
  qed
qed

lemma effective_cap_bounds:
  assumes "c \<le> M" "m \<le> c"
  shows "\<exists>k. rc_effectiveMaxInflight (effective_cap (Fin (of_nat M)) (Fin (of_nat m)) (Fin (of_nat c)) burst mode) = Fin (of_nat k) \<and>
    k \<le> M \<and> (mode = ''pause'' \<longrightarrow> k = 0) \<and> (mode = ''stabilize'' \<longrightarrow> k \<le> m)"
proof -
  have "min (rat_of_nat a) (of_nat b) = of_nat (min a b)" for a b
    by (simp add: min_def)
  moreover have "max 0 (rat_of_nat a) = of_nat a" for a
    by simp
  ultimately show ?thesis
    using assms by (auto simp: effective_cap_def Let_def)
qed

section \<open>The mode\<close>

definition controller_modes :: "string list" where
  "controller_modes = [''stabilize'', ''guarded'', ''healthy'']"

lemma desired_mode: "fst (evaluateDesiredControllerMode th a b c d e) \<in> set controller_modes"
  by (simp add: evaluateDesiredControllerMode_def controller_modes_def Let_def)

lemma normalize_modes:
  "s \<in> set controller_modes \<Longrightarrow> normalizeControllerMode (JStr s) = JStr s"
  by (auto simp: controller_modes_def) (code_simp)+

lemma modeFromRank_modes: "modeFromRank r \<in> set controller_modes"
  by (simp add: modeFromRank_def controller_modes_def)

lemma modeRank_FromRank: "0 \<le> r \<Longrightarrow> r \<le> 2 \<Longrightarrow> modeRank (modeFromRank r) = r"
  by (auto simp: modeRank_def modeFromRank_def)

lemma modeRank_bounds: "s \<in> set controller_modes \<Longrightarrow> 0 \<le> modeRank s \<and> modeRank s \<le> 2"
  by (auto simp: controller_modes_def modeRank_def)

lemma hysteresis_step:
  assumes "desired \<in> set controller_modes" "previous \<in> set controller_modes"
    "h = applyControllerHysteresis desired (JStr previous) streak (Fin 2)"
  shows "h_mode h \<in> set controller_modes \<and>
    modeRank (h_mode h) \<le> modeRank previous + 1 \<and>
    (modeRank desired < modeRank previous \<longrightarrow> h_mode h = desired) \<and>
    (modeRank (h_mode h) > modeRank previous \<longrightarrow> modeRank desired > modeRank previous \<and>
       num_ge (num_or_zero (js_number streak)) (Fin 1))"
proof -
  have p: "normalizeControllerMode (JStr previous) = JStr previous" "previous \<noteq> ''fixed''"
    using normalize_modes [OF assms(2)] assms(2) by (auto simp: controller_modes_def)
  have d: "modeFromRank (modeRank desired) = desired"
    using assms(1) by (auto simp: controller_modes_def modeRank_def modeFromRank_def)
  have up: "num_ge (num_or_zero (js_number streak)) (Fin 1)"
    if "num_ge (num_add (num_max (Fin 0) (num_or_zero (js_number streak))) (Fin 1)) (Fin 2)"
    using that by (cases "num_or_zero (js_number streak)") (auto simp: num_ge_def num_max_def split: if_splits)
  note b = modeRank_bounds [OF assms(1)] modeRank_bounds [OF assms(2)]
  show ?thesis
    using b up assms(1,2) p(2) unfolding assms(3) applyControllerHysteresis_def p(1) Let_def
    by (auto simp: modeRank_FromRank modeFromRank_modes d)
qed

text \<open>
  The controller document one run reads and the one it writes, with the adaptive cap on: the file holds
  the JSON text of the value.
\<close>

definition controller_run :: "jsval \<Rightarrow> jsval \<Rightarrow> bool" where
  "controller_run doc doc' \<longleftrightarrow>
     (\<exists>args inp pl. qa_adaptiveCap args \<and> in_controllerState inp = doc \<and> plan_run args inp = Inr pl \<and>
        doc' = json_norm (pl_controllerState pl))"

definition controller_mode :: "jsval \<Rightarrow> string" where
  "controller_mode doc = (case getp doc ''mode'' of JStr s \<Rightarrow> s | _ \<Rightarrow> [])"

lemma controller_state_fields:
  "getp (json_norm (throughputControllerState nowIso repository a b g cap pressure paused)) ''mode'' = JStr (ai_mode a)"
  "getp (json_norm (throughputControllerState nowIso repository a b g cap pressure paused)) ''upgradeStreak'' = JUndef"
  by (simp_all add: throughputControllerState_def getp_json_norm del: json_norm.simps(7))

lemma adaptive_mode:
  assumes "evaluateAdaptiveInflight maxInflight minInflight True health fleet pressure previous = Inr a"
  obtains desired where "desired \<in> set controller_modes"
    "ai_mode a = h_mode (applyControllerHysteresis desired (getp previous ''mode'') (getp previous ''upgradeStreak'') (Fin 2))"
proof -
  from assms obtain x1 x2 x3 x4 x5 reasons desired where
    d: "evaluateDesiredControllerMode CONTROLLER_THRESHOLDS x1 x2 x3 x4 x5 = (desired, reasons)" and
    m: "ai_mode a = h_mode (applyControllerHysteresis desired (getp previous ''mode'') (getp previous ''upgradeStreak'') (Fin 2))"
    by (auto simp: evaluateAdaptiveInflight_def Let_def CONTROLLER_REQUIRED_UPGRADE_STREAK_def split: prod.splits if_splits)
  from desired_mode [of CONTROLLER_THRESHOLDS x1 x2 x3 x4 x5] d have "desired \<in> set controller_modes"
    by simp
  with m that show thesis
    by blast
qed

lemma plan_run_parts:
  assumes "plan_run args inp = Inr pl"
  shows "evaluateAdaptiveInflight (JNum (qa_maxInflight args)) (JNum (qa_minInflight args)) (qa_adaptiveCap args)
      (health_value (in_health inp)) (fleet_value (in_fleet inp)) (retry_value (pl_retryPressure pl))
      (in_controllerState inp) = Inr (pl_adaptive pl)"
    and "evaluateBurstWindow (JStr (qa_burstMode args)) (JNum (qa_burstRefillCycles args)) (JArr (in_prs inp))
      (getp (in_previousReport inp) ''burst'') (JStr (ai_mode (pl_adaptive pl))) (in_now inp) = Inr (pl_burst pl)"
    and "buildQueueReadinessReport (JStr (in_repository inp)) (map candidate_value (cl_candidates (in_classified inp)))
      (map (\<lambda>c. JNum (number c)) (cl_orderedEligible (in_classified inp))) (in_now inp) = Inr (pl_readiness pl)"
    and "pl_pausedReasons pl = paused_reasons (in_process inp) (in_governor inp) (in_health inp) (in_fleet inp) (in_fetchErrors inp)"
    and "pl_cap pl = effective_cap (qa_maxInflight args) (qa_minInflight args) (ai_effectiveMaxInflight (pl_adaptive pl))
      (bw_active (pl_burst pl)) (gv_mode (in_governor inp))"
    and "pl_capacity pl = num_max (Fin 0) (num_sub (rc_effectiveMaxInflight (pl_cap pl)) (Fin (of_nat (pl_inflight pl))))"
    and "pl_controllerState pl = throughputControllerState (iso_string (in_now inp)) (in_repository inp) (pl_adaptive pl)
      (pl_burst pl) (in_governor inp) (pl_cap pl) (pl_retryPressure pl) (pl_pausedReasons pl)"
    and "pl_ready pl = ready_candidates (cl_candidates (in_classified inp)) (pl_readiness pl)"
    and "pl_toProcess pl = slice_to (pl_capacity pl) (filter (\<lambda>c. \<not> isQueuedCandidate c) (pl_ready pl))"
  using assms by (auto simp: plan_run_def Let_def)

lemma normalized_cases:
  obtains "normalizeControllerMode v = JNull" | "normalizeControllerMode v = JStr ''fixed''"
  | s where "normalizeControllerMode v = JStr s" "s \<in> set controller_modes"
proof (cases "to_lower (trim (js_text v)) \<in> set [''healthy'', ''guarded'', ''stabilize'', ''fixed'']")
  case True
  then have "normalizeControllerMode v = JStr (to_lower (trim (js_text v)))"
    by (simp only: normalizeControllerMode_def Let_def if_True)
  moreover from True have "to_lower (trim (js_text v)) = ''fixed'' \<or> to_lower (trim (js_text v)) \<in> set controller_modes"
    by (simp only: controller_modes_def list.set insert_iff empty_iff) blast
  ultimately show thesis
    using that(2,3) by metis
next
  case False
  then have "normalizeControllerMode v = JNull"
    by (simp only: normalizeControllerMode_def Let_def if_False)
  then show thesis
    by (rule that(1))
qed

lemma hysteresis_modes:
  assumes "desired \<in> set controller_modes"
  shows "h_mode (applyControllerHysteresis desired previous streak required) \<in> set controller_modes"
proof (cases rule: normalized_cases [of previous])
  case (3 s)
  then show ?thesis
    by (auto simp: applyControllerHysteresis_def Let_def modeFromRank_modes assms)
qed (simp_all add: applyControllerHysteresis_def assms)

lemma controller_run_adaptive:
  assumes "controller_run doc doc'"
  obtains mx mn h f p a where "evaluateAdaptiveInflight mx mn True h f p doc = Inr a"
    "getp doc' ''mode'' = JStr (ai_mode a)" "getp doc' ''upgradeStreak'' = JUndef"
proof -
  from assms obtain args inp pl where r: "qa_adaptiveCap args" "in_controllerState inp = doc"
      "plan_run args inp = Inr pl" "doc' = json_norm (pl_controllerState pl)"
    by (auto simp: controller_run_def)
  note parts = plan_run_parts [OF r(3)]
  have "evaluateAdaptiveInflight (JNum (qa_maxInflight args)) (JNum (qa_minInflight args)) True
      (health_value (in_health inp)) (fleet_value (in_fleet inp)) (retry_value (pl_retryPressure pl)) doc = Inr (pl_adaptive pl)"
    using parts(1) r(1,2) by simp
  moreover have "getp doc' ''mode'' = JStr (ai_mode (pl_adaptive pl))" "getp doc' ''upgradeStreak'' = JUndef"
    by (simp_all only: r(4) parts(7) controller_state_fields)
  ultimately show thesis
    by (rule that)
qed

lemma controller_run_mode:
  assumes "controller_run doc doc'"
  shows "controller_mode doc' \<in> set controller_modes" "getp doc' ''mode'' = JStr (controller_mode doc')"
    "getp doc' ''upgradeStreak'' = JUndef"
proof -
  obtain mx mn h f p a where a: "evaluateAdaptiveInflight mx mn True h f p doc = Inr a"
    "getp doc' ''mode'' = JStr (ai_mode a)" "getp doc' ''upgradeStreak'' = JUndef"
    using assms by (rule controller_run_adaptive)
  have "ai_mode a \<in> set controller_modes"
    using a(1) by (rule adaptive_mode) (simp add: hysteresis_modes)
  with a(2,3) show "controller_mode doc' \<in> set controller_modes" "getp doc' ''mode'' = JStr (controller_mode doc')"
    "getp doc' ''upgradeStreak'' = JUndef"
    by (simp_all add: controller_mode_def)
qed

text \<open>The next run never finds the streak, so an upgrade stays pending for ever.\<close>

lemma controller_run_rank:
  assumes "controller_run doc0 doc" "controller_run doc doc'"
  shows "modeRank (controller_mode doc') \<le> modeRank (controller_mode doc)"
proof -
  note prev = controller_run_mode [OF assms(1)]
  obtain mx mn h f p a where a: "evaluateAdaptiveInflight mx mn True h f p doc = Inr a"
    "getp doc' ''mode'' = JStr (ai_mode a)"
    using assms(2) by (rule controller_run_adaptive)
  from a(1) obtain desired where desired: "desired \<in> set controller_modes"
      "ai_mode a = h_mode (applyControllerHysteresis desired (JStr (controller_mode doc)) JUndef (Fin 2))"
    unfolding prev(2,3) [symmetric] by (rule adaptive_mode)
  note step = hysteresis_step [OF desired(1) prev(1) refl, of JUndef]
  have "\<not> num_ge (num_or_zero (js_number JUndef)) (Fin 1)"
    by (simp add: num_or_zero_def)
  with step desired(2) a(2) show ?thesis
    by (auto simp: controller_mode_def)
qed

lemma controller_stuck:
  assumes "controller_run doc0 doc" "controller_run\<^sup>*\<^sup>* doc doc'"
  shows "modeRank (controller_mode doc') \<le> modeRank (controller_mode doc) \<and> (\<exists>d. controller_run d doc')"
  using assms(2)
proof (induction rule: rtranclp_induct)
  case base
  then show ?case using assms(1) by auto
next
  case (step d1 d2)
  then obtain d where "controller_run d d1"
    by auto
  from controller_run_rank [OF this step.hyps(2)] step show ?case
    by auto
qed

section \<open>Bursts\<close>

text \<open>A run leaves the value of its burst window in the report; the next run reads it back from the file.\<close>

definition burst_run :: "int \<Rightarrow> jsval \<Rightarrow> jsval \<Rightarrow> bool" where
  "burst_run now previous next' \<longleftrightarrow>
     (\<exists>mode cycles prs controllerMode b. evaluateBurstWindow mode cycles prs previous controllerMode now = Inr b \<and>
        next' = json_norm (burst_value b))"

definition holds_until :: "int \<Rightarrow> jsval \<Rightarrow> bool" where
  "holds_until T burst \<longleftrightarrow> (\<exists>t. T \<le> t \<and> iso_range t \<and> getp burst ''backoffUntil'' = JStr (iso_string t))"

lemma burst_fields:
  "getp (json_norm (burst_value b)) ''active'' = JBool (bw_active b)"
  "bw_backoffUntil b = JStr s \<Longrightarrow> getp (json_norm (burst_value b)) ''backoffUntil'' = JStr s"
  by (simp_all add: burst_value_def getp_json_norm del: json_norm.simps(7))

lemma normalizeIso_iso: "iso_range t \<Longrightarrow> normalizeIso (JStr (iso_string t)) = JStr (iso_string t)"
  by (simp add: normalizeIso_def Let_def)

lemma burst_window_parts:
  assumes "evaluateBurstWindow mode cycles prs previous controllerMode now = Inr b"
  shows "bw_active b = fst (burst_verdict (bw_mode b) (bw_backoffActive b) (bw_triggerReasons b) (bw_refillCyclesRemaining b))"
    and "normalizeControllerMode controllerMode = JStr ''stabilize'' \<Longrightarrow>
      bw_backoffActive b \<and> bw_backoffUntil b = JStr (iso_string (now + 1800000))"
    and "normalizeControllerMode controllerMode \<noteq> JStr ''stabilize'' \<Longrightarrow>
      bw_backoffUntil b = normalizeIso (getp previous ''backoffUntil'') \<and>
      bw_backoffActive b = (truthy (bw_backoffUntil b) \<and> num_gt (date_parse (js_string (bw_backoffUntil b))) (num_of_int now))"
    and "bw_stabilized b = (normalizeControllerMode controllerMode = JStr ''stabilize'')"
    and "parseBurstMode mode ''burstMode'' = Inr (bw_mode b)"
  using assms
  by (auto simp: evaluateBurstWindow_def Let_def date_iso_def BURST_BACKOFF_MINUTES_def case_prod_beta split: if_splits)

lemma burst_inactive_step:
  assumes "evaluateBurstWindow mode cycles prs previous controllerMode now = Inr b"
    "holds_until T previous" "now < T" "T \<le> now + 1800000" "iso_range (now + 1800000)"
  shows "\<not> bw_active b \<and> holds_until T (json_norm (burst_value b))"
proof -
  from assms(2) obtain t where t: "T \<le> t" "iso_range t" "getp previous ''backoffUntil'' = JStr (iso_string t)"
    by (auto simp: holds_until_def)
  note parts = burst_window_parts [OF assms(1), unfolded t(3) normalizeIso_iso [OF t(2)]]
  have waiting: "num_gt (date_parse (iso_string t)) (num_of_int now)"
    using t assms(3) by simp
  have b: "bw_backoffActive b" "bw_backoffUntil b = JStr (iso_string t) \<or> bw_backoffUntil b = JStr (iso_string (now + 1800000))"
    using parts(2,3) waiting by (cases "normalizeControllerMode controllerMode = JStr ''stabilize''"; simp)+
  have "\<not> bw_active b"
    using parts(1) b(1) by (simp add: burst_verdict_def)
  moreover have "holds_until T (json_norm (burst_value b))"
    using b(2) t assms(4,5) by (auto simp: holds_until_def burst_fields)
  ultimately show ?thesis
    by simp
qed

lemma burst_starts_backoff:
  assumes "evaluateBurstWindow mode cycles prs previous controllerMode now = Inr b" "bw_stabilized b"
    "iso_range (now + 1800000)"
  shows "\<not> bw_active b \<and> holds_until (now + 1800000) (json_norm (burst_value b))"
proof -
  note parts = burst_window_parts [OF assms(1)]
  have b: "bw_backoffActive b" "bw_backoffUntil b = JStr (iso_string (now + 1800000))"
    using parts(2,4) assms(2) by auto
  with parts(1) assms(3) show ?thesis
    by (auto simp: holds_until_def burst_fields burst_verdict_def split: if_splits)
qed

section \<open>The plan\<close>

lemma slice_to_length: "length (slice_to (num_max (Fin 0) (num_sub (Fin (of_nat k)) (Fin (of_nat n)))) xs) \<le> k - n"
proof -
  have "max 0 (rat_of_nat k - of_nat n) = of_nat (k - n)"
    by (cases "n \<le> k") (auto simp: of_nat_diff)
  then show ?thesis
    by (simp add: slice_to_def)
qed

lemma plan_cap:
  assumes "plan_run args inp = Inr pl"
  shows "\<exists>M m k. qa_maxInflight args = Fin (of_nat M) \<and> qa_minInflight args = Fin (of_nat m) \<and>
    rc_effectiveMaxInflight (pl_cap pl) = Fin (of_nat k) \<and> k \<le> M \<and>
    (gv_mode (in_governor inp) = ''pause'' \<longrightarrow> k = 0) \<and> (gv_mode (in_governor inp) = ''stabilize'' \<longrightarrow> k \<le> m) \<and>
    length (pl_toProcess pl) \<le> k - pl_inflight pl"
proof -
  note parts = plan_run_parts [OF assms]
  obtain M m c where b: "qa_maxInflight args = Fin (of_nat M)" "qa_minInflight args = Fin (of_nat m)"
      "ai_effectiveMaxInflight (pl_adaptive pl) = Fin (of_nat c)" "m \<le> c" "c \<le> M"
    using adaptive_cap_bounds [OF parts(1)] by auto
  obtain k where k: "rc_effectiveMaxInflight (pl_cap pl) = Fin (of_nat k)" "k \<le> M"
      "gv_mode (in_governor inp) = ''pause'' \<longrightarrow> k = 0" "gv_mode (in_governor inp) = ''stabilize'' \<longrightarrow> k \<le> m"
    using effective_cap_bounds [OF b(5,4), of "bw_active (pl_burst pl)" "gv_mode (in_governor inp)"]
    by (auto simp: parts(5) b(1-3))
  have "length (pl_toProcess pl) \<le> k - pl_inflight pl"
    unfolding parts(9,6) k(1) by (rule slice_to_length)
  with b(1,2) k show ?thesis
    by blast
qed

section \<open>Properties\<close>

definition demo_args :: supervisor_args where
  "demo_args =
     \<lparr>qa_apply = True, qa_dryRun = False, qa_reportPath = ''report.json'', qa_controllerStatePath = ''controller.json'',
      qa_readinessReportPath = ''readiness.json'', qa_governorStatePath = ''governor.json'',
      qa_securityIntakeReportPath = ''security.json'', qa_maxInflight = Fin 5, qa_minInflight = Fin 2,
      qa_adaptiveCap = True, qa_baseBranches = [''develop''], qa_healthBranch = ''develop'', qa_maxQueuedRuns = Fin 6,
      qa_maxInProgressRuns = Fin 8, qa_stallThresholdMinutes = Fin 45, qa_burstMode = ''off'',
      qa_burstRefillCycles = Fin 3\<rparr>"

definition demo_health :: "jsnum \<Rightarrow> health_gate" where
  "demo_health rate =
     \<lparr>hg_paused = False, hg_reasons = [], hg_sampleSize = 10, hg_successful = 0, hg_successRate = rate,
      hg_redMinutes = Fin 0, hg_minSuccessRate = Fin (8 / 10), hg_maxRedMinutes = Fin 30, hg_latest = None\<rparr>"

definition demo_fleet :: fleet_health where
  "demo_fleet =
     \<lparr>fl_paused = False, fl_reasons = [], fl_queued = 0, fl_inProgress = 0, fl_active = 0, fl_stalled = 0,
      fl_maxQueuedRuns = Fin 6, fl_maxInProgressRuns = Fin 8, fl_stallThresholdMinutes = Fin 45, fl_stalledRuns = []\<rparr>"

definition demo_inputs :: "candidate list \<Rightarrow> jsnum \<Rightarrow> jsval \<Rightarrow> run_inputs" where
  "demo_inputs cs rate previous =
     \<lparr>in_repository = ''owner/repo'', in_now = 0, in_process = (\<lambda>_. JUndef), in_managed = [''develop''],
      in_required = JObj [], in_prs = [], in_states = no_queue_states False JNull,
      in_classified = \<lparr>cl_allOpen = [], cl_candidates = cs, cl_orderedEligible = cs, cl_cycleDetected = False\<rparr>,
      in_fetchErrors = [], in_health = demo_health rate, in_fleet = demo_fleet, in_previousReport = JNull,
      in_controllerState = previous, in_runtimeState = JNull, in_runtimeStatePath = [], in_idleAuthority = JNull,
      in_governor = governor_state_of JNull [], in_security = projectOptionalStateEnvelope JNull [] None\<rparr>"

lemma demo_burst:
  "\<exists>b. evaluateBurstWindow (JStr ''off'') (JNum (Fin 3)) (JArr []) JUndef controllerMode 0 = Inr b"
proof -
  have "parseBurstMode (JStr ''off'') ''burstMode'' = Inr ''off''"
    by code_simp
  then show ?thesis
    by (auto simp: evaluateBurstWindow_def parseIntStrict_def date_iso_def time_clip_def BURST_BACKOFF_MINUTES_def
        hasReleaseBranchPullRequest_def hasReleaseBurstLabel_def burst_verdict_def Let_def)
qed

lemma demo_adaptive:
  "\<exists>a. evaluateAdaptiveInflight (JNum (Fin 5)) (JNum (Fin 2)) True h f p previous = Inr a"
  by (simp add: evaluateAdaptiveInflight_def parseIntStrict_def Let_def case_prod_beta)

lemma demo_readiness: "\<exists>r. buildQueueReadinessReport repo [] [] 0 = Inr r"
  by (simp add: buildQueueReadinessReport_def date_iso_def time_clip_def Let_def)

lemma demo_plan:
  "\<exists>pl. plan_run demo_args (demo_inputs [] rate previous) = Inr pl"
proof -
  obtain a where a: "evaluateAdaptiveInflight (JNum (Fin 5)) (JNum (Fin 2)) True (health_value (demo_health rate))
      (fleet_value demo_fleet) (retry_value (computeRetryPressure [] 0)) previous = Inr a"
    using demo_adaptive by blast
  obtain b where b: "evaluateBurstWindow (JStr ''off'') (JNum (Fin 3)) (JArr []) JUndef (JStr (ai_mode a)) 0 = Inr b"
    using demo_burst by blast
  obtain r where r: "buildQueueReadinessReport (JStr ''owner/repo'') [] [] 0 = Inr r"
    using demo_readiness by blast
  show ?thesis
    by (simp add: plan_run_def demo_args_def demo_inputs_def previous_retry_history_def pruneRetryHistory_def a b r Let_def)
qed

lemma demo_unhealthy:
  assumes "evaluateAdaptiveInflight (JNum (Fin 5)) (JNum (Fin 2)) True (health_value (demo_health (Fin (1 / 2)))) f p JNull = Inr a"
  shows "ai_mode a = ''stabilize''"
proof -
  have "fst (evaluateDesiredControllerMode CONTROLLER_THRESHOLDS (Fin (1 / 2)) x1 x2 x3 x4) = ''stabilize''" for x1 x2 x3 x4
    by (simp add: evaluateDesiredControllerMode_def CONTROLLER_THRESHOLDS_def when_reason_def Let_def)
  moreover have "normalizeControllerMode JUndef = JNull"
    by code_simp
  ultimately show ?thesis
    using assms
    by (auto simp: evaluateAdaptiveInflight_def parseIntStrict_def Let_def case_prod_beta health_value_def demo_health_def
        toFiniteNumber_def applyControllerHysteresis_def)
qed

lemma demo_controller_run: "\<exists>d. controller_run previous d"
proof -
  obtain pl where "plan_run demo_args (demo_inputs [] (Fin 1) previous) = Inr pl"
    using demo_plan by blast
  then show ?thesis
    unfolding controller_run_def
    by (intro exI [of _ "json_norm (pl_controllerState pl)"] exI [of _ demo_args]
        exI [of _ "demo_inputs [] (Fin 1) previous"] exI [of _ pl])
      (simp add: demo_args_def demo_inputs_def)
qed

lemma demo_stabilized: "\<exists>d. controller_run JNull d \<and> controller_mode d = ''stabilize''"
proof -
  let ?inp = "demo_inputs [] (Fin (1 / 2)) JNull"
  obtain pl where pl: "plan_run demo_args ?inp = Inr pl"
    using demo_plan by blast
  note parts = plan_run_parts [OF pl]
  have "ai_mode (pl_adaptive pl) = ''stabilize''"
    using demo_unhealthy parts(1) by (simp add: demo_args_def demo_inputs_def)
  then have "controller_mode (json_norm (pl_controllerState pl)) = ''stabilize''"
    by (simp only: parts(7) controller_mode_def controller_state_fields jsval.case)
  moreover have "controller_run JNull (json_norm (pl_controllerState pl))"
    unfolding controller_run_def
    by (intro exI [of _ demo_args] exI [of _ ?inp] exI [of _ pl]) (simp add: pl, simp add: demo_args_def demo_inputs_def)
  ultimately show ?thesis
    by blast
qed

text \<open>
  C9: Fed with the documents of its own previous runs, the adaptive controller never raises its
  mode: the streak of an upgrade starts at zero in every run, because the document keeps it under
  hysteresis and the next run reads it at the top level.
\<close>

theorem controller_never_recovers:
  assumes "controller_run doc0 doc" "controller_run\<^sup>*\<^sup>* doc doc'"
  shows "modeRank (controller_mode doc') \<le> modeRank (controller_mode doc)"
  using controller_stuck [OF assms] by simp

theorem controller_never_recovers_witness:
  "\<exists>doc doc'. controller_run JNull doc \<and> controller_mode doc = ''stabilize'' \<and> controller_run doc doc' \<and>
     modeRank (controller_mode doc') \<le> 0"
proof -
  obtain doc where doc: "controller_run JNull doc" "controller_mode doc = ''stabilize''"
    using demo_stabilized by blast
  obtain doc' where doc': "controller_run doc doc'"
    using demo_controller_run by blast
  have "modeRank (controller_mode doc') \<le> modeRank (controller_mode doc)"
    using controller_never_recovers [OF doc(1) r_into_rtranclp [of controller_run, OF doc']] .
  then have "modeRank (controller_mode doc') \<le> 0"
    by (simp add: doc(2) modeRank_def)
  with doc doc' show ?thesis
    by blast
qed

text \<open>
  C25: While the backoff that a stabilize run recorded has not run out, no burst is active,
  whatever triggers it.
\<close>

theorem burst_waits_for_backoff:
  assumes "evaluateBurstWindow mode cycles prs previous controllerMode now = Inr b" "bw_stabilized b"
    "iso_range now" "iso_range (now + 3600000)"
    "(\<lambda>x y. \<exists>t. now \<le> t \<and> t < now + BURST_BACKOFF_MINUTES * 60000 \<and> burst_run t x y)\<^sup>*\<^sup>* (json_norm (burst_value b)) report"
  shows "getp report ''active'' = JBool False"
proof -
  let ?T = "now + 1800000"
  have range: "iso_range (t + 1800000)" if "now \<le> t" "t < ?T" for t
    using assms(3,4) that by (simp add: iso_range_def)
  note start = burst_starts_backoff [OF assms(1,2) range [of now]]
  have "holds_until ?T report \<and> getp report ''active'' = JBool False"
    using assms(5)
  proof (induction rule: rtranclp_induct)
    case base
    then show ?case
      using start by (simp add: burst_fields)
  next
    case (step x y)
    then obtain t where t: "now \<le> t" "t < ?T" "burst_run t x y"
      by (auto simp: BURST_BACKOFF_MINUTES_def)
    then obtain mode cycles prs controllerMode b where b:
        "evaluateBurstWindow mode cycles prs x controllerMode t = Inr b" "y = json_norm (burst_value b)"
      by (auto simp: burst_run_def)
    have "holds_until ?T x"
      using step.IH by simp
    from burst_inactive_step [OF b(1) this t(2) _ range [OF t(1,2)]] t(1) show ?case
      by (simp add: b(2) burst_fields)
  qed
  then show ?thesis
    by simp
qed

theorem burst_waits_for_backoff_witness:
  "\<exists>b c. evaluateBurstWindow (JStr ''off'') (JNum (Fin 3)) (JArr []) JUndef (JStr ''stabilize'') 0 = Inr b \<and>
     burst_run 60000 (json_norm (burst_value b)) (json_norm (burst_value c)) \<and> \<not> bw_active c"
proof -
  obtain b where b: "evaluateBurstWindow (JStr ''off'') (JNum (Fin 3)) (JArr []) JUndef (JStr ''stabilize'') 0 = Inr b"
    using demo_burst by blast
  have st: "normalizeControllerMode (JStr ''stabilize'') = JStr ''stabilize''"
    by (rule normalize_modes) (simp add: controller_modes_def)
  have on: "parseBurstMode (JStr ''on'') ''burstMode'' = Inr ''on''"
    by code_simp
  have nm: "normalizeControllerMode JUndef = JNull"
    by code_simp
  have "\<exists>c. evaluateBurstWindow (JStr ''on'') (JNum (Fin 3)) (JArr []) (json_norm (burst_value b)) JUndef 60000 = Inr c"
    by (auto simp: evaluateBurstWindow_def on nm parseIntStrict_def hasReleaseBranchPullRequest_def
        hasReleaseBurstLabel_def Let_def case_prod_beta)
  then obtain c where c: "evaluateBurstWindow (JStr ''on'') (JNum (Fin 3)) (JArr []) (json_norm (burst_value b)) JUndef 60000 = Inr c"
    by blast
  then have run: "burst_run 60000 (json_norm (burst_value b)) (json_norm (burst_value c))"
    unfolding burst_run_def by blast
  have "(\<lambda>x y. \<exists>t. 0 \<le> t \<and> t < 0 + BURST_BACKOFF_MINUTES * 60000 \<and> burst_run t x y)\<^sup>*\<^sup>*
      (json_norm (burst_value b)) (json_norm (burst_value c))"
    by (rule r_into_rtranclp) (rule exI [of _ 60000], simp add: run BURST_BACKOFF_MINUTES_def)
  from burst_waits_for_backoff [OF b _ _ _ this] burst_window_parts(4) [OF b] st run b
  show ?thesis
    by (auto simp: iso_range_def burst_fields)
qed

text \<open>
  C24: A plan holds at most as many requests as the effective cap leaves room for beside the
  requests in flight, and the cap is between zero and the configured maximum.
\<close>

theorem plan_within_cap:
  assumes "plan_run args inp = Inr pl"
  shows "\<exists>M m k. qa_maxInflight args = Fin (of_nat M) \<and> qa_minInflight args = Fin (of_nat m) \<and>
    rc_effectiveMaxInflight (pl_cap pl) = Fin (of_nat k) \<and> k \<le> M \<and>
    (gv_mode (in_governor inp) = ''pause'' \<longrightarrow> k = 0) \<and> (gv_mode (in_governor inp) = ''stabilize'' \<longrightarrow> k \<le> m) \<and>
    length (pl_toProcess pl) \<le> k - countInflight
      (filter (\<lambda>c. baseRefName c \<in> set (in_managed inp)) (cl_candidates (in_classified inp)))"
proof -
  have "pl_inflight pl = countInflight
      (filter (\<lambda>c. baseRefName c \<in> set (in_managed inp)) (cl_candidates (in_classified inp)))"
    using assms by (auto simp: plan_run_def Let_def)
  with plan_cap [OF assms] show ?thesis
    by simp
qed

theorem plan_within_cap_witness:
  "\<exists>pl k. plan_run demo_args (demo_inputs [] (Fin 1) JNull) = Inr pl \<and>
     rc_effectiveMaxInflight (pl_cap pl) = Fin (of_nat k) \<and> k \<le> 5"
proof -
  obtain pl where pl: "plan_run demo_args (demo_inputs [] (Fin 1) JNull) = Inr pl"
    using demo_plan by blast
  from plan_within_cap [OF pl] obtain M k where k: "qa_maxInflight demo_args = Fin (of_nat M)"
      "rc_effectiveMaxInflight (pl_cap pl) = Fin (of_nat k)" "k \<le> M"
    by blast
  from k(1) have "M = 5"
    by (simp add: demo_args_def)
  with pl k show ?thesis
    by blast
qed

end
