(* ===== verification/QueueLaws.thy ===== *)
theory QueueLaws
  imports QueueOrder "HOL-Library.Product_Lexorder" "HOL-Library.Multiset"
begin

text \<open>
  The laws of the queue order: the comparison of candidates is a total preorder, the topological
  order is a greedy one and misses no candidate, and a cycle is reported exactly when there is one.
\<close>

section \<open>The comparison\<close>

fun num_rat :: "jsnum \<Rightarrow> rat" where
  "num_rat (Fin r) = r"
| "num_rat _ = 0"

definition sort_key :: "'a open_pr_scheme \<Rightarrow> nat \<times> nat \<times> rat \<times> rat" where
  "sort_key c = (pr_priority c, couplingOrder c, num_rat (date_or_zero (updatedAt c)), num_rat (number c))"

definition numbered :: "'a open_pr_scheme \<Rightarrow> bool" where
  "numbered c \<longleftrightarrow> num_finite (number c)"

lemma num_finite_Fin: "num_finite x \<longleftrightarrow> (\<exists>r. x = Fin r)"
  by (cases x) auto

lemma date_or_zero_Fin: "\<exists>r. date_or_zero s = Fin r"
  by (auto simp: date_or_zero_def Let_def date_parse_def time_clip_def split: option.splits)

lemma not_after_key:
  assumes "numbered a" "numbered b"
  shows "not_after a b \<longleftrightarrow> sort_key a \<le> sort_key b"
proof -
  obtain ta tb where t: "date_or_zero (updatedAt a) = Fin ta" "date_or_zero (updatedAt b) = Fin tb"
    using date_or_zero_Fin by blast
  obtain na nb where n: "number a = Fin na" "number b = Fin nb"
    using assms by (auto simp: numbered_def num_finite_Fin)
  show ?thesis
    by (auto simp: not_after_def compareCandidates_def sort_key_def t n Let_def)
qed

interpretation candidate_order: comparison_order not_after numbered
  by unfold_locales (auto simp: not_after_key)

lemma not_after_refl: "numbered c \<Longrightarrow> not_after c c"
  by (simp add: not_after_key)

section \<open>The dependency graph\<close>

definition numbers :: "'a open_pr_scheme list \<Rightarrow> jsnum set" where
  "numbers cs = number ` set cs"

text \<open>The dependencies of a candidate among the candidates.\<close>

definition inner_deps :: "'a open_pr_scheme list \<Rightarrow> 'a open_pr_scheme \<Rightarrow> jsnum list" where
  "inner_deps cs c = filter (\<lambda>d. d \<in> numbers cs) (dependsOn c)"

definition depends_rel :: "'a open_pr_scheme list \<Rightarrow> (jsnum \<times> jsnum) set" where
  "depends_rel cs = {(d, number c) | d c. c \<in> set cs \<and> d \<in> set (inner_deps cs c)}"

lemma map_of_update [simp]: "map_of (AList.update k v m) k' = (if k' = k then Some v else map_of m k')"
  by (simp add: update_conv')

lemma fold_update_get:
  "map_of (fold (\<lambda>c m. AList.update (number c) (f c) m) cs m) n =
     (case find (\<lambda>c. number c = n) (rev cs) of Some c \<Rightarrow> Some (f c) | None \<Rightarrow> map_of m n)"
proof (induction cs rule: rev_induct)
  case Nil
  then show ?case by simp
next
  case (snoc c cs)
  then show ?case by auto
qed

lemma find_number_in: "find (\<lambda>c. number c = n) xs = Some c \<Longrightarrow> c \<in> set xs \<and> number c = n"
  by (auto simp: find_Some_iff)

lemma node_map_Some: "map_of (node_map cs) n = Some c \<Longrightarrow> c \<in> set cs \<and> number c = n"
  using find_number_in [of n "rev cs" c]
  by (auto simp: node_map_def fold_update_get split: option.splits)

lemma node_map_None: "map_of (node_map cs) n = None \<longleftrightarrow> n \<notin> numbers cs"
proof (cases "find (\<lambda>c. number c = n) (rev cs)")
  case None
  then have "n \<notin> numbers cs"
    by (auto simp: numbers_def find_None_iff)
  with None show ?thesis
    by (simp add: node_map_def fold_update_get)
next
  case (Some c)
  then have "n \<in> numbers cs"
    using find_number_in [OF Some] by (auto simp: numbers_def)
  with Some show ?thesis
    by (simp add: node_map_def fold_update_get)
qed

lemma node_map_candidate:
  assumes "distinct (map number cs)" "c \<in> set cs"
  shows "map_of (node_map cs) (number c) = Some c"
proof (cases "map_of (node_map cs) (number c)")
  case None
  with assms(2) show ?thesis
    by (auto simp: node_map_None numbers_def)
next
  case (Some c')
  with node_map_Some [OF Some] assms show ?thesis
    by (auto simp: distinct_map dest: inj_onD)
qed

lemma get_init: "get_or d (fold (\<lambda>c m. AList.update (number c) d m) cs []) n = d"
  by (auto simp: get_or_def fold_update_get split: option.splits)

lemma add_dependencies:
  "fold (add_dependency nodes n) ds (indegree, edges) = (indegree', edges') \<Longrightarrow>
     get_or 0 indegree' m = get_or 0 indegree m +
       (if m = n then int (length (filter (\<lambda>d. map_of nodes d \<noteq> None) ds)) else 0) \<and>
     count_list (get_or [] edges' d) m = count_list (get_or [] edges d) m +
       (if m = n \<and> map_of nodes d \<noteq> None then count_list ds d else 0)"
proof (induction ds arbitrary: indegree edges)
  case Nil
  then show ?case by simp
next
  case (Cons x ds)
  obtain i1 e1 where step: "add_dependency nodes n x (indegree, edges) = (i1, e1)"
    by fastforce
  have i1: "get_or 0 i1 m = get_or 0 indegree m + (if m = n \<and> map_of nodes x \<noteq> None then 1 else 0)"
    and e1: "get_or [] e1 d = get_or [] edges d @ (if d = x \<and> map_of nodes x \<noteq> None then [n] else [])"
    using step by (auto simp: add_dependency_def split: if_splits)
  have "fold (add_dependency nodes n) ds (i1, e1) = (indegree', edges')"
    using Cons.prems step by simp
  note IH = Cons.IH [OF this]
  from IH show ?case
    by (auto simp: i1 e1)
qed

lemma dependency_fold:
  "fold (\<lambda>c. fold (add_dependency nodes (number c)) (dependsOn c)) cs (indegree, edges) = (indegree', edges') \<Longrightarrow>
   distinct (map number cs) \<Longrightarrow>
     (\<forall>c \<in> set cs. get_or 0 indegree' (number c) = get_or 0 indegree (number c) +
           int (length (filter (\<lambda>d. map_of nodes d \<noteq> None) (dependsOn c))) \<and>
         count_list (get_or [] edges' d) (number c) = count_list (get_or [] edges d) (number c) +
           (if map_of nodes d \<noteq> None then count_list (dependsOn c) d else 0)) \<and>
     (\<forall>n. n \<notin> number ` set cs \<longrightarrow> get_or 0 indegree' n = get_or 0 indegree n \<and>
         count_list (get_or [] edges' d) n = count_list (get_or [] edges d) n)"
proof (induction cs arbitrary: indegree edges)
  case Nil
  then show ?case by simp
next
  case (Cons c cs)
  obtain i1 e1 where step: "fold (add_dependency nodes (number c)) (dependsOn c) (indegree, edges) = (i1, e1)"
    by fastforce
  have "fold (\<lambda>c. fold (add_dependency nodes (number c)) (dependsOn c)) cs (i1, e1) = (indegree', edges')"
    using Cons.prems(1) step by simp
  note IH = Cons.IH [OF this]
  from IH Cons.prems(2) show ?case
    by (auto simp: add_dependencies [OF step] image_iff)
qed

lemma count_filter: "count_list (filter P xs) x = (if P x then count_list xs x else 0)"
  by (induction xs) auto

lemma dependency_graph_correct:
  assumes "dependency_graph cs = (indegree, edges)" "distinct (map number cs)"
  shows "c \<in> set cs \<Longrightarrow> get_or 0 indegree (number c) = int (length (inner_deps cs c))"
    and "c \<in> set cs \<Longrightarrow> d \<in> numbers cs \<Longrightarrow>
           count_list (get_or [] edges d) (number c) = count_list (inner_deps cs c) d"
    and "set (get_or [] edges d) \<subseteq> numbers cs"
proof -
  have nodes: "(map_of (node_map cs) d \<noteq> None) = (d \<in> numbers cs)" for d
    by (simp only: node_map_None not_not)
  note graph = dependency_fold [OF assms(1) [unfolded dependency_graph_def Let_def] assms(2), of d,
      unfolded get_init nodes]
  show "c \<in> set cs \<Longrightarrow> get_or 0 indegree (number c) = int (length (inner_deps cs c))"
    and "c \<in> set cs \<Longrightarrow> d \<in> numbers cs \<Longrightarrow>
           count_list (get_or [] edges d) (number c) = count_list (inner_deps cs c) d"
    using graph by (simp_all add: inner_deps_def count_filter)
  show "set (get_or [] edges d) \<subseteq> numbers cs"
  proof
    fix n
    assume "n \<in> set (get_or [] edges d)"
    then have "count_list (get_or [] edges d) n \<noteq> 0"
      by (simp add: count_list_0_iff)
    with graph show "n \<in> numbers cs"
      by (auto simp: numbers_def)
  qed
qed

section \<open>The loop\<close>

text \<open>
  With the targets \<open>ts\<close> of the last released node still to be visited: the degree of a candidate counts
  its dependencies that were not released and its places in \<open>ts\<close>; exactly the candidates of degree 0 are
  ready or released.
\<close>

definition loop_inv ::
  "'a open_pr_scheme list \<Rightarrow> jsnum list \<Rightarrow> degrees \<Rightarrow> 'a open_pr_scheme list \<Rightarrow> 'a open_pr_scheme list \<Rightarrow> bool" where
  "loop_inv cs ts indegree ready order \<longleftrightarrow>
     (\<forall>c \<in> set cs. get_or 0 indegree (number c) =
        int (length (filter (\<lambda>d. d \<notin> numbers order) (inner_deps cs c)) + count_list ts (number c))) \<and>
     set ready \<union> set order \<subseteq> set cs \<and> distinct (map number (ready @ order)) \<and>
     (\<forall>c \<in> set cs. number c \<in> numbers (ready @ order) \<longleftrightarrow> get_or 0 indegree (number c) = 0)"

definition greedy_at :: "'a open_pr_scheme list \<Rightarrow> jsnum set \<Rightarrow> 'a open_pr_scheme \<Rightarrow> bool" where
  "greedy_at cs earlier c \<longleftrightarrow>
     set (inner_deps cs c) \<subseteq> earlier \<and>
     (\<forall>c' \<in> set cs. number c' \<notin> earlier \<longrightarrow> set (inner_deps cs c') \<subseteq> earlier \<longrightarrow> not_after c c')"

definition greedy_order :: "'a open_pr_scheme list \<Rightarrow> 'a open_pr_scheme list \<Rightarrow> bool" where
  "greedy_order cs order \<longleftrightarrow> (\<forall>i < length order. greedy_at cs (numbers (take i order)) (order ! i))"

lemma numbers_simps [simp]:
  "numbers [] = {}"
  "numbers (c # cs) = insert (number c) (numbers cs)"
  "numbers (xs @ ys) = numbers xs \<union> numbers ys"
  "numbers (sort_by le xs) = numbers xs"
  by (auto simp: numbers_def)

lemma number_in_numbers: "c \<in> set cs \<Longrightarrow> number c \<in> numbers cs"
  by (simp add: numbers_def)

lemma numbers_map: "set (map number cs) = numbers cs"
  by (simp add: numbers_def)

lemma greedy_order_snoc:
  "greedy_order cs order \<Longrightarrow> greedy_at cs (numbers order) c \<Longrightarrow> greedy_order cs (order @ [c])"
  by (auto simp: greedy_order_def nth_append less_Suc_eq)

lemma distinct_number_eq:
  "distinct (map number cs) \<Longrightarrow> a \<in> set cs \<Longrightarrow> b \<in> set cs \<Longrightarrow> number a = number b \<Longrightarrow> a = b"
  by (auto simp: distinct_map dest: inj_onD)

lemma release_target_inv:
  assumes inv: "loop_inv cs (t # ts) indegree ready order" and t: "t \<in> numbers cs"
    and d: "distinct (map number cs)"
    and step: "release_target (node_map cs) t (indegree, ready) = (indegree', ready')"
  shows "loop_inv cs ts indegree' ready' order \<and>
    ((\<forall>c \<in> set cs. numbered c) \<longrightarrow> sorted_wrt not_after ready \<longrightarrow> sorted_wrt not_after ready')"
proof -
  obtain c where c: "c \<in> set cs" "number c = t"
    using t by (auto simp: numbers_def)
  have node: "map_of (node_map cs) t = Some c"
    using node_map_candidate [OF d c(1)] c(2) by simp
  have pos: "get_or 0 indegree t > 0" and out: "t \<notin> numbers (ready @ order)"
    using inv c by (force simp: loop_inv_def)+
  have i': "get_or 0 indegree' m = (if m = t then get_or 0 indegree t - 1 else get_or 0 indegree m)" for m
    using step by (auto simp: release_target_def Let_def node split: if_splits)
  have r': "ready' = (if get_or 0 indegree t = 1 then sort_by not_after (ready @ [c]) else ready)"
    using step by (auto simp: release_target_def Let_def node split: if_splits)
  have degrees: "\<forall>x \<in> set cs. get_or 0 indegree' (number x) =
      int (length (filter (\<lambda>d. d \<notin> numbers order) (inner_deps cs x)) + count_list ts (number x))"
    using inv by (auto simp: loop_inv_def i')
  have subset: "set ready' \<union> set order \<subseteq> set cs"
    using inv c by (auto simp: loop_inv_def r')
  have dist: "distinct (map number (ready' @ order))"
    using inv out c by (auto simp: loop_inv_def r' numbers_def)
  have zero: "\<forall>x \<in> set cs. number x \<in> numbers (ready' @ order) \<longleftrightarrow> get_or 0 indegree' (number x) = 0"
    using inv out c pos by (auto simp: loop_inv_def i' r')
  have sorted: "sorted_wrt not_after ready'"
    if "\<forall>c \<in> set cs. numbered c" "sorted_wrt not_after ready"
  proof -
    have "\<forall>x \<in> set (ready @ [c]). numbered x"
      using that(1) inv c(1) by (auto simp: loop_inv_def)
    from candidate_order.sort_by_ordered [OF this] that(2) show ?thesis
      by (simp add: r')
  qed
  from degrees subset dist zero sorted show ?thesis
    by (auto simp only: loop_inv_def)
qed

lemma release_targets_inv:
  assumes "loop_inv cs ts indegree ready order" "set ts \<subseteq> numbers cs" "distinct (map number cs)"
    "fold (release_target (node_map cs)) ts (indegree, ready) = (indegree', ready')"
  shows "loop_inv cs [] indegree' ready' order \<and>
    ((\<forall>c \<in> set cs. numbered c) \<longrightarrow> sorted_wrt not_after ready \<longrightarrow> sorted_wrt not_after ready')"
  using assms
proof (induction ts arbitrary: indegree ready)
  case Nil
  then show ?case by simp
next
  case (Cons t ts)
  obtain i1 r1 where step: "release_target (node_map cs) t (indegree, ready) = (i1, r1)"
    by fastforce
  from Cons.prems(2) have t: "t \<in> numbers cs" "set ts \<subseteq> numbers cs"
    by auto
  note one = release_target_inv [OF Cons.prems(1) t(1) Cons.prems(3) step]
  have "fold (release_target (node_map cs)) ts (i1, r1) = (indegree', ready')"
    using Cons.prems(4) step by simp
  with Cons.IH [OF conjunct1 [OF one] t(2) Cons.prems(3)] one show ?case
    by blast
qed

lemma filter_count:
  "x \<notin> A \<Longrightarrow> length (filter (\<lambda>d. d \<notin> A) xs) = length (filter (\<lambda>d. d \<notin> insert x A) xs) + count_list xs x"
  by (induction xs) auto

definition edges_ok :: "'a open_pr_scheme list \<Rightarrow> edge_map \<Rightarrow> bool" where
  "edges_ok cs edges \<longleftrightarrow>
     (\<forall>d \<in> numbers cs. set (get_or [] edges d) \<subseteq> numbers cs \<and>
        (\<forall>c \<in> set cs. count_list (get_or [] edges d) (number c) = count_list (inner_deps cs c) d))"

lemma degree_zero:
  assumes "loop_inv cs [] indegree ready order" "c \<in> set cs"
  shows "number c \<in> numbers (ready @ order) \<longleftrightarrow> set (inner_deps cs c) \<subseteq> numbers order"
  using assms by (auto simp: loop_inv_def filter_empty_conv)

lemma shift_inv:
  assumes inv: "loop_inv cs [] indegree (c # ready) order" and e: "edges_ok cs edges"
  shows "loop_inv cs (get_or [] edges (number c)) indegree ready (order @ [c])"
proof -
  have c: "c \<in> set cs" "number c \<notin> numbers order"
    using inv by (auto simp: loop_inv_def numbers_def)
  have "length (filter (\<lambda>d. d \<notin> numbers order) (inner_deps cs x)) =
      length (filter (\<lambda>d. d \<notin> numbers (order @ [c])) (inner_deps cs x)) +
      count_list (get_or [] edges (number c)) (number x)" if "x \<in> set cs" for x
    using filter_count [OF c(2), of "inner_deps cs x"] e that number_in_numbers [OF c(1)]
    by (simp add: edges_ok_def)
  with inv show ?thesis
    by (auto simp: loop_inv_def)
qed

lemma next_greedy:
  assumes inv: "loop_inv cs [] indegree (c # ready) order" and d: "distinct (map number cs)"
    and n: "\<forall>x \<in> set cs. numbered x" and sorted: "sorted_wrt not_after (c # ready)"
  shows "greedy_at cs (numbers order) c"
proof -
  have c: "c \<in> set cs"
    using inv by (simp add: loop_inv_def)
  have "not_after c x"
    if x: "x \<in> set cs" "number x \<notin> numbers order" "set (inner_deps cs x) \<subseteq> numbers order" for x
  proof -
    have "number x \<in> numbers (c # ready)"
      using degree_zero [OF inv x(1)] x(2,3) by auto
    then obtain y where y: "y \<in> set (c # ready)" "number y = number x"
      unfolding numbers_def by (elim imageE) (simp only: )
    have "y \<in> set cs"
      using inv y(1) by (auto simp: loop_inv_def)
    then have "y = x"
      using distinct_number_eq [OF d _ x(1)] y(2) by simp
    with y(1) sorted not_after_refl n c show ?thesis
      by auto
  qed
  with degree_zero [OF inv c] show ?thesis
    by (auto simp: greedy_at_def)
qed

lemma topo_loop_correct:
  assumes "loop_inv cs [] indegree ready order" "greedy_order cs order" "sorted_wrt not_after ready"
    "edges_ok cs edges" "distinct (map number cs)" "\<forall>c \<in> set cs. numbered c"
  shows "(\<exists>indegree'. loop_inv cs [] indegree' [] (topo_loop (node_map cs) edges indegree ready order)) \<and>
    greedy_order cs (topo_loop (node_map cs) edges indegree ready order)"
  using assms
proof (induction "node_map cs" edges indegree ready order rule: topo_loop.induct)
  case (1 edges indegree order)
  then show ?case by auto
next
  case (2 edges indegree c ready order)
  obtain i' r' where step: "fold (release_target (node_map cs)) (get_or [] edges (number c)) (indegree, ready) = (i', r')"
    by fastforce
  have c: "c \<in> set cs"
    using 2 by (simp add: loop_inv_def)
  have targets: "set (get_or [] edges (number c)) \<subseteq> numbers cs"
    using 2 number_in_numbers [OF c] by (simp add: edges_ok_def)
  note inv = release_targets_inv [OF shift_inv [OF 2(2,5)] targets 2(6) step]
  have greedy: "greedy_order cs (order @ [c])"
    using next_greedy [OF 2(2,6,7,4)] greedy_order_snoc 2(3) by blast
  have "sorted_wrt not_after r'"
    using inv 2 by simp
  with 2(1) [OF step [symmetric]] inv greedy 2 step show ?case
    by simp
qed

text \<open>The released candidates, when the loop ends.\<close>

definition released :: "'a open_pr_scheme list \<Rightarrow> 'a open_pr_scheme list" where
  "released cs =
     (case dependency_graph cs of (indegree, edges) \<Rightarrow>
        topo_loop (node_map cs) edges indegree
          (sort_by not_after (filter (\<lambda>c. get_or 0 indegree (number c) = 0) cs)) [])"

lemma toTopoOrder_released:
  "toTopoOrder cs =
     (if length (released cs) = length cs then \<lparr>ordered = released cs, cycleDetected = False\<rparr>
      else \<lparr>ordered = released cs @ sort_by not_after
             (filter (\<lambda>c. \<not> list_ex (\<lambda>selected. same_number (number selected) (number c)) (released cs)) cs),
           cycleDetected = True\<rparr>)"
  by (simp add: toTopoOrder_def released_def Let_def split: prod.splits)

lemma released_correct:
  assumes d: "distinct (map number cs)" and n: "\<forall>c \<in> set cs. numbered c"
  shows "\<exists>indegree. loop_inv cs [] indegree [] (released cs)" "greedy_order cs (released cs)"
proof -
  obtain indegree edges where g: "dependency_graph cs = (indegree, edges)"
    by fastforce
  let ?ready = "sort_by not_after (filter (\<lambda>c. get_or 0 indegree (number c) = 0) cs)"
  note graph = dependency_graph_correct [OF g d]
  have inv: "loop_inv cs [] indegree ?ready []"
    using d by (auto simp: loop_inv_def graph(1) distinct_map_filter numbers_def dest: distinct_number_eq [OF d])
  have sorted: "sorted_wrt not_after ?ready"
    using n by (intro candidate_order.sort_by_ordered) auto
  have edges: "edges_ok cs edges"
    using graph(2,3) by (auto simp: edges_ok_def)
  have greedy: "greedy_order cs []"
    by (simp add: greedy_order_def)
  from topo_loop_correct [OF inv greedy sorted edges d n]
  show "\<exists>indegree. loop_inv cs [] indegree [] (released cs)" "greedy_order cs (released cs)"
    by (auto simp: released_def g)
qed

lemma released_subset:
  assumes "distinct (map number cs)" "\<forall>c \<in> set cs. numbered c"
  shows "set (released cs) \<subseteq> set cs" "distinct (map number (released cs))" "distinct (released cs)"
  using released_correct(1) [OF assms] by (auto simp: loop_inv_def distinct_map)

lemma released_all:
  assumes "distinct (map number cs)" "\<forall>c \<in> set cs. numbered c"
  shows "length (released cs) = length cs \<longleftrightarrow> set (released cs) = set cs"
proof -
  have "distinct cs"
    using assms(1) by (simp add: distinct_map)
  moreover note r = released_subset [OF assms]
  ultimately show ?thesis
    by (metis List.finite_set card_subset_eq distinct_card)
qed

lemma unresolved_eq:
  assumes d: "distinct (map number cs)" and n: "\<forall>c \<in> set cs. numbered c"
  shows "filter (\<lambda>c. \<not> list_ex (\<lambda>selected. same_number (number selected) (number c)) (released cs)) cs =
    filter (\<lambda>c. c \<notin> set (released cs)) cs"
proof (rule filter_cong [OF refl])
  fix c
  assume c: "c \<in> set cs"
  then have "number c \<noteq> NaN"
    using n by (auto simp: numbered_def)
  moreover have "number x = number c \<longleftrightarrow> x = c" if "x \<in> set (released cs)" for x
    using distinct_number_eq [OF d _ c] released_subset(1) [OF d n] that by auto
  ultimately show "(\<not> list_ex (\<lambda>selected. same_number (number selected) (number c)) (released cs)) = (c \<notin> set (released cs))"
    by (auto simp: same_number_def list_ex_iff)
qed

lemma mset_insert_by [simp]: "mset (insert_by le x xs) = add_mset x (mset xs)"
  by (induction xs) auto

lemma mset_sort_by [simp]: "mset (sort_by le xs) = mset xs"
  by (induction xs) auto

lemma ordered_mset:
  assumes d: "distinct (map number cs)" and n: "\<forall>c \<in> set cs. numbered c"
  shows "mset (ordered (toTopoOrder cs)) = mset cs"
proof -
  have dc: "distinct cs"
    using d by (simp add: distinct_map)
  note r = released_subset [OF d n]
  have "distinct (released cs @ filter (\<lambda>c. c \<notin> set (released cs)) cs)"
    using r(3) dc by auto
  moreover have "set (released cs @ filter (\<lambda>c. c \<notin> set (released cs)) cs) = set cs"
    using r(1) by auto
  ultimately have "mset (released cs @ filter (\<lambda>c. c \<notin> set (released cs)) cs) = mset cs"
    using dc set_eq_iff_mset_eq_distinct by blast
  moreover have "mset (released cs) = mset cs" if "length (released cs) = length cs"
    using that released_all [OF d n] r(3) dc set_eq_iff_mset_eq_distinct by blast
  ultimately show ?thesis
    by (simp add: toTopoOrder_released unresolved_eq [OF d n])
qed

lemma released_acyclic:
  assumes d: "distinct (map number cs)" and n: "\<forall>c \<in> set cs. numbered c"
    and all: "set (released cs) = set cs"
  shows "acyclic (depends_rel cs)"
proof -
  define pos where "pos m = length (takeWhile (\<lambda>c. number c \<noteq> m) (released cs))" for m
  have "pos x < pos (number c)" if c: "c \<in> set cs" and x: "x \<in> set (inner_deps cs c)" for c x
  proof -
    obtain i where i: "i < length (released cs)" "released cs ! i = c"
      using c all by (metis in_set_conv_nth)
    have "x \<in> numbers (take i (released cs))"
      using released_correct(2) [OF d n] i x by (auto simp: greedy_order_def greedy_at_def)
    then obtain j where j: "j < i" "number (released cs ! j) = x"
      using i(1) by (auto simp: numbers_def in_set_conv_nth)
    have "pos x \<le> j"
    proof (rule ccontr)
      assume "\<not> pos x \<le> j"
      then have "j < length (takeWhile (\<lambda>c. number c \<noteq> x) (released cs))"
        by (simp add: pos_def)
      from nth_mem [OF this] takeWhile_nth [OF this] j(2) show False
        by (auto dest: set_takeWhileD)
    qed
    moreover have "i \<le> pos (number c)"
      unfolding pos_def
    proof (rule length_takeWhile_less_P_nth)
      show "number (released cs ! k) \<noteq> number c" if "k < i" for k
        using that i released_subset(2) [OF d n] by (auto simp: distinct_conv_nth)
      show "i \<le> length (released cs)"
        using i(1) by simp
    qed
    ultimately show ?thesis
      using j(1) by simp
  qed
  then have "depends_rel cs \<subseteq> measure pos"
    by (auto simp: depends_rel_def)
  then show ?thesis
    using acyclic_subset wf_acyclic wf_measure by blast
qed

lemma acyclic_released:
  assumes d: "distinct (map number cs)" and n: "\<forall>c \<in> set cs. numbered c"
    and ac: "acyclic (depends_rel cs)"
  shows "set (released cs) = set cs"
proof (rule ccontr)
  assume "set (released cs) \<noteq> set cs"
  then obtain c where c: "c \<in> set cs" "c \<notin> set (released cs)"
    using released_subset(1) [OF d n] by auto
  obtain indegree where inv: "loop_inv cs [] indegree [] (released cs)"
    using released_correct(1) [OF d n] by blast
  have out: "number x \<notin> numbers (released cs)" if "x \<in> set cs" "x \<notin> set (released cs)" for x
  proof
    assume "number x \<in> numbers (released cs)"
    then obtain y where y: "y \<in> set (released cs)" "number y = number x"
      unfolding numbers_def by (elim imageE) (simp only: )
    with released_subset(1) [OF d n] have "y = x"
      using distinct_number_eq [OF d _ that(1)] by blast
    with y(1) that(2) show False
      by simp
  qed
  have "finite (depends_rel cs)"
  proof (rule finite_subset)
    show "depends_rel cs \<subseteq> numbers cs \<times> numbers cs"
      by (auto simp: depends_rel_def inner_deps_def numbers_def)
  qed (simp add: numbers_def)
  then have "wf (depends_rel cs)"
    using ac by (rule finite_acyclic_wf)
  moreover have "number c \<in> numbers cs - numbers (released cs)"
    using c out number_in_numbers by blast
  ultimately obtain m where m: "m \<in> numbers cs - numbers (released cs)"
      "\<And>x. (x, m) \<in> depends_rel cs \<Longrightarrow> x \<notin> numbers cs - numbers (released cs)"
    by (rule wfE_min) blast
  then obtain x where x: "x \<in> set cs" "m = number x"
    by (auto simp: numbers_def)
  with m(1) degree_zero [OF inv x(1)] obtain y where "y \<in> set (inner_deps cs x)" "y \<notin> numbers (released cs)"
    by auto
  with m(2) [of y] x show False
    by (auto simp: depends_rel_def inner_deps_def)
qed

lemma cycle_iff:
  assumes "distinct (map number cs)" "\<forall>c \<in> set cs. numbered c"
  shows "cycleDetected (toTopoOrder cs) \<longleftrightarrow> \<not> acyclic (depends_rel cs)"
  using released_all [OF assms] released_acyclic [OF assms] acyclic_released [OF assms]
  by (auto simp: toTopoOrder_released)

section \<open>Required checks\<close>

text \<open>The entry of a status rollup reports on the check \<open>s\<close>; it counts as a success, as a failure.\<close>

definition reports :: "jsval \<Rightarrow> string \<Rightarrow> bool" where
  "reports entry s \<longleftrightarrow> truthy entry \<and> s \<noteq> [] \<and>
     (getp entry ''__typename'' = JStr ''CheckRun'' \<and> opt_trim (getp entry ''name'') = Inr s \<or>
      getp entry ''__typename'' = JStr ''StatusContext'' \<and> opt_trim (getp entry ''context'') = Inr s)"

definition succeeded :: "jsval \<Rightarrow> bool" where
  "succeeded entry \<longleftrightarrow>
     (if getp entry ''__typename'' = JStr ''CheckRun'' then check_run_success entry
      else upper_text (getp entry ''state'') = ''SUCCESS'')"

definition failed :: "jsval \<Rightarrow> bool" where
  "failed entry \<longleftrightarrow>
     (if getp entry ''__typename'' = JStr ''CheckRun'' then check_run_failure entry
      else upper_text (getp entry ''state'') \<noteq> ''SUCCESS'')"

definition check_passed :: "jsval list \<Rightarrow> string \<Rightarrow> bool" where
  "check_passed rollup s \<longleftrightarrow>
     (\<exists>e \<in> set rollup. reports e s \<and> succeeded e) \<and> (\<forall>e \<in> set rollup. reports e s \<longrightarrow> \<not> failed e)"

definition flag_of :: "(check_state \<Rightarrow> bool) \<Rightarrow> check_states \<Rightarrow> string \<Rightarrow> bool" where
  "flag_of f states s \<longleftrightarrow> (case map_of states s of Some e \<Rightarrow> f e | None \<Rightarrow> False)"

lemma record_check_flags:
  "map_of (record_check context a b entry states) s = None \<longleftrightarrow> s \<noteq> context \<and> map_of states s = None"
  "flag_of success (record_check context a b entry states) s \<longleftrightarrow> flag_of success states s \<or> s = context \<and> a"
  "flag_of failure (record_check context a b entry states) s \<longleftrightarrow> flag_of failure states s \<or> s = context \<and> b"
  by (auto simp: record_check_def flag_of_def Let_def split: option.splits)

lemma coalesce_str: "js_coalesce v (JStr []) = JStr s \<Longrightarrow> s \<noteq> [] \<Longrightarrow> v = JStr s"
  by (cases v) (auto simp: js_coalesce_def)

lemma add_check_flags:
  assumes "add_check entry states = Inr states'"
  shows "(map_of states' s = None \<longleftrightarrow> map_of states s = None \<and> \<not> reports entry s) \<and>
    (flag_of success states' s \<longleftrightarrow> flag_of success states s \<or> reports entry s \<and> succeeded entry) \<and>
    (flag_of failure states' s \<longleftrightarrow> flag_of failure states s \<or> reports entry s \<and> failed entry)"
proof -
  let ?t = "getp entry ''__typename''"
  have t: "js_coalesce ?t (JStr []) = JStr ''CheckRun'' \<longleftrightarrow> ?t = JStr ''CheckRun''"
    "js_coalesce ?t (JStr []) = JStr ''StatusContext'' \<longleftrightarrow> ?t = JStr ''StatusContext''"
    by (auto dest: coalesce_str simp: js_coalesce_def)
  consider (skip) "\<not> truthy entry \<or> ?t \<noteq> JStr ''CheckRun'' \<and> ?t \<noteq> JStr ''StatusContext''"
    | (run) "truthy entry" "?t = JStr ''CheckRun''" | (status) "truthy entry" "?t = JStr ''StatusContext''"
    by blast
  then show ?thesis
  proof cases
    case skip
    then have "\<not> reports entry s"
      by (auto simp: reports_def)
    moreover have "states' = states"
      using assms skip by (auto simp: add_check_def t Let_def split: if_splits)
    ultimately show ?thesis
      by simp
  next
    case run
    then obtain x where x: "opt_trim (getp entry ''name'') = Inr x"
      using assms by (auto simp: add_check_def t Let_def bindE_Inr_iff)
    show ?thesis
      using assms run x
      by (auto simp: add_check_def t Let_def reports_def succeeded_def failed_def record_check_flags
          simp flip: not_None_eq split: if_splits)
  next
    case status
    then obtain x where x: "opt_trim (getp entry ''context'') = Inr x"
      using assms by (auto simp: add_check_def t Let_def bindE_Inr_iff)
    show ?thesis
      using assms status x
      by (auto simp: add_check_def t Let_def reports_def succeeded_def failed_def record_check_flags
          simp flip: not_None_eq split: if_splits)
  qed
qed

lemma add_checks_flags:
  "add_checks rollup states = Inr states' \<Longrightarrow>
     (flag_of success states' s \<longleftrightarrow> flag_of success states s \<or> (\<exists>e \<in> set rollup. reports e s \<and> succeeded e)) \<and>
     (flag_of failure states' s \<longleftrightarrow> flag_of failure states s \<or> (\<exists>e \<in> set rollup. reports e s \<and> failed e)) \<and>
     (map_of states' s = None \<longleftrightarrow> map_of states s = None \<and> (\<forall>e \<in> set rollup. \<not> reports e s))"
proof (induction rollup arbitrary: states)
  case Nil
  then show ?case by simp
next
  case (Cons entry rollup)
  then obtain s1 where s1: "add_check entry states = Inr s1" "add_checks rollup s1 = Inr states'"
    by auto
  from Cons.IH [OF s1(2)] add_check_flags [OF s1(1), of s] show ?case
    by auto
qed

lemma rollup_flags:
  assumes "checkRollupToMap rollup = Inr states"
  shows "flag_of success states s \<longleftrightarrow> (\<exists>e \<in> set rollup. reports e s \<and> succeeded e)"
    and "flag_of failure states s \<longleftrightarrow> (\<exists>e \<in> set rollup. reports e s \<and> failed e)"
    and "map_of states s = None \<longleftrightarrow> (\<forall>e \<in> set rollup. \<not> reports e s)"
  using add_checks_flags [of rollup "[]" states s] assms by (simp_all add: checkRollupToMap_def flag_of_def)

lemma verdict_ok:
  assumes "evaluateRequiredChecks required rollup = Inr verdict"
  shows "ok verdict \<longleftrightarrow>
    (\<forall>context \<in> set (array_items required). \<exists>s. context = JStr s \<and> check_passed rollup s)"
proof (cases "array_items required = []")
  case True
  with assms show ?thesis
    by (auto simp: evaluateRequiredChecks_def)
next
  case False
  with assms obtain states where states: "checkRollupToMap rollup = Inr states"
    by (auto simp: evaluateRequiredChecks_def Let_def)
  have passed: "state_of_check states x \<noteq> None \<and> \<not> check_failing states x \<longleftrightarrow>
      (\<exists>s. x = JStr s \<and> check_passed rollup s)" for x
  proof (cases "\<exists>s. x = JStr s")
    case True
    then obtain s where s: "x = JStr s" ..
    have "flag_of success states s \<and> \<not> flag_of failure states s \<longleftrightarrow> check_passed rollup s"
      by (auto simp: rollup_flags [OF states] check_passed_def)
    then show ?thesis
      by (auto simp: s state_of_check_def check_failing_def flag_of_def split: option.splits)
  next
    case False
    then show ?thesis
      by (cases x) (auto simp: state_of_check_def)
  qed
  have "ok verdict \<longleftrightarrow>
      (\<forall>x \<in> set (array_items required). state_of_check states x \<noteq> None \<and> \<not> check_failing states x)"
    using assms False states by (auto simp: evaluateRequiredChecks_def Let_def filter_empty_conv)
  with passed show ?thesis
    by simp
qed

section \<open>Classification\<close>

lemma release_targets_subset:
  "fold (release_target nodes) ts (indegree, ready) = (indegree', ready') \<Longrightarrow>
     set ready' \<subseteq> set ready \<union> ran (map_of nodes)"
proof (induction ts arbitrary: indegree ready)
  case Nil
  then show ?case by simp
next
  case (Cons t ts)
  obtain i1 r1 where step: "release_target nodes t (indegree, ready) = (i1, r1)"
    by fastforce
  then have "set r1 \<subseteq> set ready \<union> ran (map_of nodes)"
    by (auto simp: release_target_def Let_def ran_def split: if_splits option.splits)
  with Cons step show ?case
    by fastforce
qed

lemma topo_loop_subset:
  "set (topo_loop nodes edges indegree ready order) \<subseteq> set ready \<union> set order \<union> ran (map_of nodes)"
proof (induction nodes edges indegree ready order rule: topo_loop.induct)
  case (1 nodes edges indegree order)
  then show ?case by simp
next
  case (2 nodes edges indegree c ready order)
  obtain i' r' where step: "fold (release_target nodes) (get_or [] edges (number c)) (indegree, ready) = (i', r')"
    by fastforce
  from 2 [OF step [symmetric]] release_targets_subset [OF step] step show ?case
    by auto
qed

lemma ordered_subset: "set (ordered (toTopoOrder cs)) \<subseteq> set cs"
proof -
  have "ran (map_of (node_map cs)) \<subseteq> set cs"
    using node_map_Some by (auto simp: ran_def)
  then have "set (released cs) \<subseteq> set cs"
    using topo_loop_subset by (fastforce simp: released_def split: prod.splits)
  then show ?thesis
    by (auto simp: toTopoOrder_released)
qed

lemma block_reasons_Nil:
  "block_reasons managed excluded pr verdict = [] \<longleftrightarrow>
     baseRefName pr \<in> set managed \<and> \<not> isDraft pr \<and> mergeStateStatus pr \<noteq> ''DIRTY'' \<and>
     mergeable pr \<noteq> ''CONFLICTING'' \<and> set (labels pr) \<inter> set excluded = {} \<and>
     (ok verdict \<or> missing verdict = [] \<and> failing verdict = [])"
  by (auto simp: block_reasons_def list_ex_iff)

lemma verdict_consistent:
  "evaluateRequiredChecks required rollup = Inr verdict \<Longrightarrow> missing verdict = [] \<and> failing verdict = [] \<Longrightarrow> ok verdict"
  by (auto simp: evaluateRequiredChecks_def Let_def split: if_splits)

text \<open>What an eligible candidate has passed.\<close>

definition clear :: "jsval \<Rightarrow> string list \<Rightarrow> string list \<Rightarrow> 'a open_pr_scheme \<Rightarrow> bool" where
  "clear requiredByBranch managed excluded pr \<longleftrightarrow>
     baseRefName pr \<in> set managed \<and> \<not> isDraft pr \<and> mergeStateStatus pr \<noteq> ''DIRTY'' \<and>
     mergeable pr \<noteq> ''CONFLICTING'' \<and> set (labels pr) \<inter> set excluded = {} \<and>
     (\<forall>check \<in> set (array_items (js_coalesce (getp requiredByBranch (baseRefName pr)) (JArr []))).
        \<exists>s. check = JStr s \<and> check_passed (statusCheckRollup pr) s)"

lemma classified:
  assumes "classify_pull_request managed excluded requiredByBranch pr = Inr c"
  shows "eligible c \<longleftrightarrow> clear requiredByBranch managed excluded c" "open_pr.truncate c = pr"
proof -
  have d: "dot requiredByBranch k = Inr v \<Longrightarrow> v = getp requiredByBranch k" for k v
    by (auto simp: dot_def split: if_splits)
  from assms obtain verdict where v:
      "evaluateRequiredChecks (js_coalesce (getp requiredByBranch (baseRefName pr)) (JArr [])) (statusCheckRollup pr) = Inr verdict"
      "c = to_candidate pr (js_coalesce (getp requiredByBranch (baseRefName pr)) (JArr [])) verdict
             (block_reasons managed excluded pr verdict)"
    by (auto simp: classify_pull_request_def Let_def dest!: d)
  from v(2) show t: "open_pr.truncate c = pr"
    by (simp add: to_candidate_def open_pr.defs)
  from v(2) have e: "eligible c \<longleftrightarrow> block_reasons managed excluded pr verdict = []"
    by (simp add: to_candidate_def open_pr.defs)
  have f: "baseRefName c = baseRefName pr" "isDraft c = isDraft pr" "mergeStateStatus c = mergeStateStatus pr"
    "mergeable c = mergeable pr" "labels c = labels pr" "statusCheckRollup c = statusCheckRollup pr"
    using v(2) by (simp_all add: to_candidate_def open_pr.defs)
  show "eligible c \<longleftrightarrow> clear requiredByBranch managed excluded c"
    using verdict_ok [OF v(1)] verdict_consistent [OF v(1)]
    by (auto simp: e f block_reasons_Nil clear_def)
qed

lemma mapE_member: "mapE f xs = Inr ys \<Longrightarrow> y \<in> set ys \<Longrightarrow> \<exists>x \<in> set xs. f x = Inr y"
  by (induction xs arbitrary: ys) auto

lemma mapE_image: "mapE f xs = Inr ys \<Longrightarrow> x \<in> set xs \<Longrightarrow> \<exists>y \<in> set ys. f x = Inr y"
  by (induction xs arbitrary: ys) auto

lemma check_dependencies_eligible:
  assumes "eligible (check_dependencies allOpen eligibleSet c)"
  shows "eligible c" "open_pr.truncate (check_dependencies allOpen eligibleSet c) = open_pr.truncate c"
    "\<forall>dep \<in> set (dependsOn c). dep \<in> set allOpen \<longrightarrow> dep \<in> set eligibleSet"
  using assms by (auto simp: check_dependencies_def Let_def filter_empty_conv open_pr.defs split: if_splits)

lemma clear_truncate: "clear required managed excluded (open_pr.truncate c) \<longleftrightarrow> clear required managed excluded c"
  by (simp add: clear_def open_pr.defs)

lemma classification_eligible:
  assumes "classifyOpenPullRequests pullRequests required managed excluded = Inr r" "c \<in> set (cl_candidates r)" "eligible c"
  shows "open_pr.truncate c \<in> set (cl_allOpen r) \<and>
    clear required managed excluded c \<and>
    (\<forall>dep \<in> set (dependsOn c). dep \<in> numbers (cl_allOpen r) \<longrightarrow>
       (\<exists>pr \<in> set (cl_allOpen r). number pr = dep \<and> clear required managed excluded pr))"
proof -
  from assms(1) obtain items normalized cs where
    items: "mapE parse_pull_request items = Inr normalized"
    and cs: "mapE (classify_pull_request managed excluded required) normalized = Inr cs"
    and r: "r = (let eligibleSet = map number (filter eligible cs);
           candidates = map (check_dependencies (map number normalized) eligibleSet) cs;
           topo = toTopoOrder (filter eligible candidates)
       in \<lparr>cl_allOpen = normalized, cl_candidates = candidates,
               cl_orderedEligible = ordered topo, cl_cycleDetected = cycleDetected topo\<rparr>)"
    by (auto simp: classifyOpenPullRequests_def Let_def)
  let ?E = "map number (filter eligible cs)"
  let ?O = "map number normalized"
  have "c \<in> set (map (check_dependencies ?O ?E) cs)"
    using assms(2) by (simp add: r Let_def)
  then obtain c0 where c0: "c0 \<in> set cs" "c = check_dependencies ?O ?E c0" "eligible c"
    using assms(3) by auto
  note dep = check_dependencies_eligible [OF c0(3) [unfolded c0(2)], folded c0(2)]
  from mapE_member [OF cs c0(1)] obtain pr where pr: "pr \<in> set normalized"
      "classify_pull_request managed excluded required pr = Inr c0" by blast
  note cl = classified [OF pr(2)]
  have deps: "\<exists>pr \<in> set normalized. number pr = d \<and> clear required managed excluded pr"
    if "d \<in> set ?E" for d
  proof -
    from that obtain x where x: "x \<in> set cs" "eligible x" "number x = d"
      by auto
    from mapE_member [OF cs x(1)] obtain pr where pr: "pr \<in> set normalized"
      "classify_pull_request managed excluded required pr = Inr x" by blast
    note cl = classified [OF pr(2)]
    have "number pr = d"
      using cl(2) x(3) by (auto simp: open_pr.defs)
    moreover have "clear required managed excluded pr"
      using cl x(2) clear_truncate by metis
    ultimately show ?thesis
      using pr(1) by blast
  qed
  have dependsOn: "dependsOn c = dependsOn c0"
    using dep(2) by (simp add: open_pr.defs)
  have "clear required managed excluded c"
    using cl(1) dep(1,2) clear_truncate by metis
  moreover have "open_pr.truncate c \<in> set (cl_allOpen r)"
    using dep(2) cl(2) pr(1) r by (simp add: Let_def)
  moreover have "\<forall>d \<in> set (dependsOn c). d \<in> numbers (cl_allOpen r) \<longrightarrow>
       (\<exists>pr \<in> set (cl_allOpen r). number pr = d \<and> clear required managed excluded pr)"
    using dep(3) deps r by (auto simp: dependsOn numbers_def Let_def)
  ultimately show ?thesis
    by blast
qed

lemma classification_order:
  assumes "classifyOpenPullRequests pullRequests required managed excluded = Inr r"
  shows "cl_orderedEligible r = ordered (toTopoOrder (filter eligible (cl_candidates r)))"
  using assms by (auto simp: classifyOpenPullRequests_def Let_def)

lemma classification_ordered:
  assumes "classifyOpenPullRequests pullRequests required managed excluded = Inr r" "c \<in> set (cl_orderedEligible r)"
  shows "c \<in> set (cl_candidates r)" "eligible c"
  using subsetD [OF ordered_subset, of c "filter eligible (cl_candidates r)"] assms(2)
  by (simp_all add: classification_order [OF assms(1)])

section \<open>Properties\<close>

definition demo_request :: "int \<Rightarrow> bool \<Rightarrow> string \<Rightarrow> jsval" where
  "demo_request n draft body =
     JObj [(''number'', JNum (num_of_int n)), (''title'', JStr ''Fix''), (''body'', JStr body),
           (''baseRefName'', JStr ''develop''), (''isDraft'', JBool draft)]"

text \<open>The third request waits for the second, which waits for a draft.\<close>

definition demo_chain :: jsval where
  "demo_chain = JArr [demo_request 1 True [], demo_request 2 False ''Depends-On: #1'',
     demo_request 3 False ''Depends-On: #2'']"


definition demo_pr :: "int \<Rightarrow> bool \<Rightarrow> jsnum list \<Rightarrow> open_pr" where
  "demo_pr n draft deps =
     \<lparr>number = num_of_int n, title = JStr ''Fix'', url = JNull, updatedAt = iso_string 0,
      baseRefName = ''develop'', headRefName = JNull, headRepositoryOwner = [], isCrossRepository = False,
      isDraft = draft, mergeStateStatus = [], mergeable = [], isInMergeQueue = False, labels = [],
      autoMergeEnabled = False, coupling = ''independent'', dependsOn = deps, pr_priority = 9,
      couplingOrder = 0, statusCheckRollup = []\<rparr>"

lemma demo_base: "normalizeBaseBranch (JStr ''develop'') = ''develop''"
  by code_simp

lemma demo_title: "priorityFromTitle (JStr ''Fix'') = 9"
  by code_simp

lemma demo_coupling:
  "parseCoupling (JStr []) = ''independent''"
  "parseCoupling (JStr ''Depends-On: #1'') = ''independent''"
  "parseCoupling (JStr ''Depends-On: #2'') = ''independent''"
  by code_simp+

lemma demo_depends:
  "parseDependsOn (JStr []) = []"
  "parseDependsOn (JStr ''Depends-On: #1'') = [Fin 1]"
  "parseDependsOn (JStr ''Depends-On: #2'') = [Fin 2]"
  by code_simp+

lemma demo_coupling_order: "get_or 0 COUPLING_PRIORITY ''independent'' = 0"
  by (simp add: get_or_def COUPLING_PRIORITY_def)

lemma demo_parsed:
  "parseCoupling (JStr body) = ''independent'' \<Longrightarrow>
     parse_pull_request (demo_request n draft body) = Inr (demo_pr n draft (parseDependsOn (JStr body)))"
  by (simp add: parse_pull_request_def demo_request_def demo_pr_def dot_def js_coalesce_def demo_base demo_title
    normalizeIso_def normalizeOwner_def upper_text_def js_text_def to_upper_def demo_coupling_order Let_def)

lemma ordered_single: "numbered c \<Longrightarrow> ordered (toTopoOrder [c]) = [c]"
  using ordered_mset [of "[c]"] by simp

lemma demo_classified:
  "classify_pull_request [''develop''] excluded (JObj []) (demo_pr n draft deps) =
     Inr (to_candidate (demo_pr n draft deps) (JArr []) \<lparr>ok = True, missing = [], failing = []\<rparr>
       (if draft then [''draft''] else []))"
  by (simp add: classify_pull_request_def evaluateRequiredChecks_def dot_def js_coalesce_def block_reasons_def
      demo_pr_def Let_def)

lemma to_candidate_fields [simp]:
  "number (to_candidate pr required verdict rs) = number pr"
  "dependsOn (to_candidate pr required verdict rs) = dependsOn pr"
  "eligible (to_candidate pr required verdict rs) \<longleftrightarrow> rs = []"
  "reasons (to_candidate pr required verdict rs) = rs"
  by (simp_all add: to_candidate_def open_pr.defs)

lemma demo_pr_fields [simp]:
  "number (demo_pr n draft deps) = num_of_int n"
  "dependsOn (demo_pr n draft deps) = deps"
  by (simp_all add: demo_pr_def)

lemma demo_chain_result:
  "\<exists>r c. classifyOpenPullRequests demo_chain (JObj []) [''develop''] EXCLUDED_LABELS = Inr r \<and>
     cl_orderedEligible r = [c] \<and> dependsOn c = [Fin 2] \<and>
     map (\<lambda>d. (number d, eligible d, reasons d)) (cl_candidates r) =
       [(Fin 1, False, [''draft'']), (Fin 2, False, [''dependency-open-not-eligible'']), (Fin 3, True, [])]"
  by (simp add: classifyOpenPullRequests_def demo_chain_def demo_parsed demo_coupling demo_depends js_coalesce_def demo_classified
      check_dependencies_def ordered_single numbered_def Let_def)

definition demo_rollup :: "jsval list" where
  "demo_rollup = [JObj [(''__typename'', JStr ''CheckRun''), (''name'', JStr ''lint''), (''status'', JStr ''COMPLETED''),
     (''conclusion'', JStr ''SUCCESS'')]]"

definition demo_checked :: jsval where
  "demo_checked = JObj [(''number'', JNum (Fin 7)), (''title'', JStr ''Fix''), (''body'', JStr []),
           (''baseRefName'', JStr ''develop''), (''isDraft'', JBool False), (''statusCheckRollup'', JArr demo_rollup)]"

definition demo_required :: jsval where
  "demo_required = JObj [(''develop'', JArr [JStr ''lint''])]"

lemma demo_rollup_verdict:
  "evaluateRequiredChecks (JArr [JStr ''lint'']) demo_rollup = Inr \<lparr>ok = True, missing = [], failing = []\<rparr>"
  by code_simp

lemma demo_checked_parsed:
  "parse_pull_request demo_checked = Inr (demo_pr 7 False []\<lparr>statusCheckRollup := demo_rollup\<rparr>)"
  by (simp add: parse_pull_request_def demo_checked_def demo_pr_def dot_def js_coalesce_def demo_base demo_title
    demo_coupling demo_depends demo_coupling_order normalizeIso_def normalizeOwner_def upper_text_def js_text_def
    to_upper_def Let_def)

lemma demo_checked_classified:
  "classify_pull_request [''develop''] excluded demo_required (demo_pr 7 False []\<lparr>statusCheckRollup := demo_rollup\<rparr>) =
     Inr (to_candidate (demo_pr 7 False []\<lparr>statusCheckRollup := demo_rollup\<rparr>) (JArr [JStr ''lint''])
       \<lparr>ok = True, missing = [], failing = []\<rparr> [])"
  by (simp add: classify_pull_request_def demo_rollup_verdict demo_required_def dot_def js_coalesce_def
      block_reasons_def demo_pr_def Let_def)

lemma demo_checked_result:
  "\<exists>r c. classifyOpenPullRequests (JArr [demo_checked]) demo_required [''develop''] EXCLUDED_LABELS = Inr r \<and>
     cl_orderedEligible r = [c]"
  by (simp add: classifyOpenPullRequests_def demo_checked_parsed demo_checked_classified js_coalesce_def
      check_dependencies_def ordered_single numbered_def Let_def)

text \<open>The order.\<close>

text \<open>
  C7: The queue order is a permutation of the candidates: a greedy topological prefix, in which
  every entry comes after all its dependencies and is a least one by priority, coupling, age and
  number among those that were ready, and, only when a cycle is reported, the rest sorted by the
  same comparison.
\<close>

theorem topo_order_greedy:
  assumes "distinct (map number cs)" "\<forall>c \<in> set cs. num_finite (number c)"
  shows "mset (ordered (toTopoOrder cs)) = mset cs \<and>
    (\<exists>k \<le> length cs.
       (\<forall>i < k. greedy_at cs (numbers (take i (ordered (toTopoOrder cs)))) (ordered (toTopoOrder cs) ! i)) \<and>
       sorted_wrt not_after (drop k (ordered (toTopoOrder cs))) \<and>
       (cycleDetected (toTopoOrder cs) \<longleftrightarrow> k < length cs))"
proof -
  have n: "\<forall>c \<in> set cs. numbered c"
    using assms(2) by (simp add: numbered_def)
  note r = released_subset [OF assms(1) n] released_correct(2) [OF assms(1) n] released_all [OF assms(1) n]
  have le: "length (released cs) \<le> length cs"
    using r(1,3) assms(1) by (metis List.finite_set card_mono distinct_card distinct_map)
  have prefix: "\<exists>rest. ordered (toTopoOrder cs) = released cs @ rest \<and> sorted_wrt not_after rest"
  proof (cases "length (released cs) = length cs")
    case True
    then show ?thesis
      by (auto simp: toTopoOrder_released)
  next
    case False
    have "sorted_wrt not_after (sort_by not_after (filter (\<lambda>c. c \<notin> set (released cs)) cs))"
      using n by (intro candidate_order.sort_by_ordered) auto
    with False show ?thesis
      by (auto simp: toTopoOrder_released unresolved_eq [OF assms(1) n])
  qed
  then obtain rest where rest: "ordered (toTopoOrder cs) = released cs @ rest" "sorted_wrt not_after rest"
    by blast
  have "\<forall>i < length (released cs). greedy_at cs (numbers (take i (released cs @ rest))) ((released cs @ rest) ! i)"
    using r(4) by (auto simp: greedy_order_def nth_append)
  moreover have "cycleDetected (toTopoOrder cs) \<longleftrightarrow> length (released cs) < length cs"
    using le by (auto simp: toTopoOrder_released)
  ultimately show ?thesis
    using ordered_mset [OF assms(1) n] le rest by (intro conjI exI [of _ "length (released cs)"]) auto
qed

theorem topo_order_greedy_witness:
  "mset (ordered (toTopoOrder [demo_pr 1 False [Fin 2], demo_pr 2 False []])) =
     {#demo_pr 1 False [Fin 2], demo_pr 2 False []#}"
  using topo_order_greedy [of "[demo_pr 1 False [Fin 2], demo_pr 2 False []]"]
  by (simp add: demo_pr_def)

text \<open>
  C17: The supervisor reports a dependency cycle exactly when the dependencies among the
  candidates are cyclic.
\<close>

theorem cycle_detected_iff:
  assumes "distinct (map number cs)" "\<forall>c \<in> set cs. num_finite (number c)"
  shows "cycleDetected (toTopoOrder cs) \<longleftrightarrow>
    \<not> acyclic {(d, number c) | d c. c \<in> set cs \<and> d \<in> set (dependsOn c) \<and> d \<in> number ` set cs}"
proof -
  have "depends_rel cs = {(d, number c) | d c. c \<in> set cs \<and> d \<in> set (dependsOn c) \<and> d \<in> number ` set cs}"
    by (auto simp: depends_rel_def inner_deps_def numbers_def)
  with cycle_iff [OF assms(1)] assms(2) show ?thesis
    by (simp add: numbered_def)
qed

theorem cycle_detected_iff_witness:
  "cycleDetected (toTopoOrder [demo_pr 1 False [Fin 2], demo_pr 2 False [Fin 1]])"
proof -
  let ?cs = "[demo_pr 1 False [Fin 2], demo_pr 2 False [Fin 1]]"
  let ?r = "{(d, number c) | d c. c \<in> set ?cs \<and> d \<in> set (dependsOn c) \<and> d \<in> number ` set ?cs}"
  have "(Fin 1, Fin 2) \<in> ?r"
    by (intro CollectI exI [of _ "Fin 1"] exI [of _ "demo_pr 2 False [Fin 1]"]) (simp add: demo_pr_def)
  moreover have "(Fin 2, Fin 1) \<in> ?r"
    by (intro CollectI exI [of _ "Fin 2"] exI [of _ "demo_pr 1 False [Fin 2]"]) (simp add: demo_pr_def)
  ultimately have "(Fin 1, Fin 1) \<in> ?r\<^sup>+"
    by (rule trancl_into_trancl [OF r_into_trancl])
  then have "\<not> acyclic ?r"
    by (auto simp: acyclic_def)
  then show ?thesis
    using cycle_detected_iff [of ?cs] by (simp add: demo_pr_def)
qed

text \<open>
  C22: A pull request that classification puts in the queue order targets a managed branch, is no
  draft, has no merge conflict and no excluded label, and each of its required checks is a string
  reported at least once as a success and never as a failure.
\<close>

theorem ordered_request_clear:
  assumes "classifyOpenPullRequests pullRequests required managed excluded = Inr r" "c \<in> set (cl_orderedEligible r)"
  shows "baseRefName c \<in> set managed \<and> \<not> isDraft c \<and> mergeStateStatus c \<noteq> ''DIRTY'' \<and>
    mergeable c \<noteq> ''CONFLICTING'' \<and> set (labels c) \<inter> set excluded = {} \<and>
    (\<forall>check \<in> set (array_items (js_coalesce (getp required (baseRefName c)) (JArr []))).
       \<exists>s. check = JStr s \<and>
         (\<exists>e \<in> set (statusCheckRollup c). reports e s \<and> succeeded e) \<and>
         (\<forall>e \<in> set (statusCheckRollup c). reports e s \<longrightarrow> \<not> failed e))"
  using classification_eligible [OF assms(1) classification_ordered [OF assms]] by (simp add: clear_def check_passed_def)

theorem ordered_request_clear_witness:
  "\<exists>r c. classifyOpenPullRequests (JArr [demo_checked]) demo_required [''develop''] EXCLUDED_LABELS = Inr r \<and>
     cl_orderedEligible r = [c] \<and> (\<exists>e \<in> set (statusCheckRollup c). reports e ''lint'' \<and> succeeded e)"
proof -
  from demo_checked_result obtain r c where r:
      "classifyOpenPullRequests (JArr [demo_checked]) demo_required [''develop''] EXCLUDED_LABELS = Inr r"
      "cl_orderedEligible r = [c]" by blast
  have "c \<in> set (cl_orderedEligible r)"
    using r(2) by simp
  note clear = ordered_request_clear [OF r(1) this]
  then have "baseRefName c = ''develop''"
    by simp
  with clear have "\<exists>e \<in> set (statusCheckRollup c). reports e ''lint'' \<and> succeeded e"
    by (simp add: demo_required_def js_coalesce_def)
  with r show ?thesis
    by blast
qed

text \<open>The pass over the dependencies looks at what the candidates were before the pass.\<close>

lemma check_dependencies_held:
  assumes "eligible c" "\<forall>dep \<in> set (dependsOn c). dep \<in> set allOpen \<longrightarrow> dep \<in> set eligibleSet"
  shows "eligible (check_dependencies allOpen eligibleSet c)"
  using assms by (auto simp: check_dependencies_def Let_def filter_empty_conv)

lemma truncate_check_dependencies [simp]:
  "open_pr.truncate (check_dependencies allOpen eligibleSet c) = open_pr.truncate c"
  "dependsOn (check_dependencies allOpen eligibleSet c) = dependsOn c"
  by (auto simp: check_dependencies_def Let_def open_pr.defs)

lemma candidate_open:
  assumes "classifyOpenPullRequests pullRequests required managed excluded = Inr r" "c \<in> set (cl_candidates r)"
  shows "number c \<in> numbers (cl_allOpen r)"
proof -
  from assms obtain items normalized cs c0 where
    cs: "mapE (classify_pull_request managed excluded required) normalized = Inr cs" "c0 \<in> set cs" "cl_allOpen r = normalized"
      and c: "c = check_dependencies (map number normalized) (map number (filter eligible cs)) c0"
    by (auto simp: classifyOpenPullRequests_def Let_def)
  obtain pr where pr: "pr \<in> set normalized" "classify_pull_request managed excluded required pr = Inr c0"
    using mapE_member [OF cs(1,2)] by blast
  have "open_pr.truncate c = pr"
    using classified(2) [OF pr(2)] by (simp add: c)
  then have "number c = number pr"
    by (auto simp: open_pr.defs)
  with pr(1) cs(3) show ?thesis
    by (simp add: numbers_def)
qed

text \<open>
  C39: A candidate of the classification is eligible exactly when nothing in its own request
  speaks against it and each of its dependencies that is open is the number of an open request
  nothing speaks against in itself: what that request depends on is not looked at, so a request
  stays eligible behind a dependency that is itself turned down for its own dependencies.
\<close>

theorem eligible_one_level:
  assumes "classifyOpenPullRequests pullRequests required managed excluded = Inr r" "c \<in> set (cl_candidates r)"
  shows "eligible c \<longleftrightarrow> clear required managed excluded c \<and>
    (\<forall>dep \<in> set (dependsOn c). dep \<in> numbers (cl_allOpen r) \<longrightarrow>
       (\<exists>pr \<in> set (cl_allOpen r). number pr = dep \<and> clear required managed excluded pr))"
proof
  assume "eligible c"
  with classification_eligible [OF assms] show "clear required managed excluded c \<and>
      (\<forall>dep \<in> set (dependsOn c). dep \<in> numbers (cl_allOpen r) \<longrightarrow>
         (\<exists>pr \<in> set (cl_allOpen r). number pr = dep \<and> clear required managed excluded pr))"
    by blast
next
  assume ok: "clear required managed excluded c \<and>
    (\<forall>dep \<in> set (dependsOn c). dep \<in> numbers (cl_allOpen r) \<longrightarrow>
       (\<exists>pr \<in> set (cl_allOpen r). number pr = dep \<and> clear required managed excluded pr))"
  from assms(1) obtain items normalized cs where
    cs: "mapE (classify_pull_request managed excluded required) normalized = Inr cs"
    and r: "cl_allOpen r = normalized"
      "cl_candidates r = map (check_dependencies (map number normalized) (map number (filter eligible cs))) cs"
    by (auto simp: classifyOpenPullRequests_def Let_def)
  obtain c0 where c0: "c0 \<in> set cs" "c = check_dependencies (map number normalized) (map number (filter eligible cs)) c0"
    using assms(2) r(2) by auto
  from mapE_member [OF cs c0(1)] obtain pr0 where
    "classify_pull_request managed excluded required pr0 = Inr c0" by blast
  from classified(1) [OF this] have "eligible c0 \<longleftrightarrow> clear required managed excluded c0" .
  moreover have "clear required managed excluded c0"
    using ok c0(2) clear_truncate truncate_check_dependencies(1) by metis
  ultimately have own: "eligible c0" by blast
  have "dep \<in> set (map number (filter eligible cs))"
    if dep: "dep \<in> set (dependsOn c0)" "dep \<in> set (map number normalized)" for dep
  proof -
    have "dep \<in> numbers (cl_allOpen r)"
      using dep(2) by (simp add: r(1) numbers_def)
    with ok dep(1) c0(2) obtain pr where pr: "pr \<in> set normalized" "number pr = dep" "clear required managed excluded pr"
      unfolding r(1) [symmetric] by auto
    from mapE_image [OF cs pr(1)] obtain x where x: "x \<in> set cs" "classify_pull_request managed excluded required pr = Inr x"
      by blast
    note cl = classified [OF x(2)]
    have "eligible x"
      using cl pr(3) clear_truncate by metis
    moreover have "number x = dep"
      using cl(2) pr(2) by (auto simp: open_pr.defs)
    ultimately show ?thesis
      using x(1) by auto
  qed
  then show "eligible c"
    unfolding c0(2) by (intro check_dependencies_held [OF own]) blast
qed

text \<open>Request 3 depends on 2, which is held back because its own dependency 1 is a draft; 3 is eligible all the same.\<close>

lemma eligible_one_level_witness:
  "\<exists>r c d. classifyOpenPullRequests demo_chain (JObj []) [''develop''] EXCLUDED_LABELS = Inr r \<and>
     c \<in> set (cl_orderedEligible r) \<and> d \<in> set (cl_candidates r) \<and> number d \<in> set (dependsOn c) \<and> \<not> eligible d \<and>
     (\<exists>pr \<in> set (cl_allOpen r). number pr = number d \<and> clear (JObj []) [''develop''] EXCLUDED_LABELS pr)"
proof -
  obtain r c where r: "classifyOpenPullRequests demo_chain (JObj []) [''develop''] EXCLUDED_LABELS = Inr r"
      "cl_orderedEligible r = [c]" "dependsOn c = [Fin 2]"
      "map (\<lambda>d. (number d, eligible d, reasons d)) (cl_candidates r) =
       [(Fin 1, False, [''draft'']), (Fin 2, False, [''dependency-open-not-eligible'']), (Fin 3, True, [])]"
    using demo_chain_result by (elim exE conjE)
  have "(Fin 2, False, [''dependency-open-not-eligible'']) \<in> set (map (\<lambda>d. (number d, eligible d, reasons d)) (cl_candidates r))"
    by (simp only: r(4)) simp
  then obtain d where d: "d \<in> set (cl_candidates r)" "number d = Fin 2" "\<not> eligible d"
    by auto
  have c: "c \<in> set (cl_orderedEligible r)" by (simp add: r(2))
  note c' = classification_ordered [OF r(1) c]
  have "number d \<in> numbers (cl_allOpen r)"
    using candidate_open [OF r(1) d(1)] .
  with eligible_one_level [OF r(1) c'(1)] c'(2) r(3) d(2)
  have "\<exists>pr \<in> set (cl_allOpen r). number pr = number d \<and> clear (JObj []) [''develop''] EXCLUDED_LABELS pr"
    by simp
  with r(1,3) c d show ?thesis
    by (intro exI [of _ r] exI [of _ c] exI [of _ d]) simp
qed

end
