(* ===== verification/QueueSupervisorLaws.thy ===== *)
theory QueueSupervisorLaws
  imports QueueControlLaws QueueLaws
begin

text \<open>
  What a run of the queue supervisor does to the repository: which commands it runs, for which requests,
  and in which order.
\<close>

section \<open>The ready set\<close>

lemma ready_entry_fields:
  assumes "ready_entry_of order now (candidate_value c) = Inr e"
  shows "re_number e = number c" "re_eligible e = eligible c"
    "re_dependencyRank e = (case map_of order (number c) of Some i \<Rightarrow> Fin (of_nat i) | None \<Rightarrow> MAX_SAFE_INTEGER)"
  using assms by (auto simp: ready_entry_of_def Let_def candidate_value_def)

lemma ready_set_entry:
  assumes "buildQueueReadinessReport repo (map candidate_value cs) orderedEligible now = Inr r" "e \<in> set (rr_readySet r)"
  shows "\<exists>c \<in> set cs. eligible c \<and> re_number e = number c"
proof -
  from assms(1) obtain entries where
    e: "mapE (ready_entry_of (eligible_order orderedEligible) now) (map candidate_value cs) = Inr entries"
      "rr_readySet r = sort_by ready_before (filter re_eligible entries)"
    by (auto simp: buildQueueReadinessReport_def Let_def)
  from assms(2) e(2) have "e \<in> set entries" "re_eligible e"
    by auto
  from mapE_member [OF e(1) this(1)] obtain c where "c \<in> set cs"
      "ready_entry_of (eligible_order orderedEligible) now (candidate_value c) = Inr e"
    by auto
  with ready_entry_fields [OF this(2)] \<open>re_eligible e\<close> show ?thesis
    by auto
qed

lemma ready_candidate_eligible:
  assumes "buildQueueReadinessReport repo (map candidate_value cs) orderedEligible now = Inr r"
    "distinct (map number cs)" "c \<in> set (ready_candidates cs r)"
  shows "c \<in> set cs" "eligible c"
proof -
  from assms(3) obtain e where e: "e \<in> set (rr_readySet r)"
      "map_of (rev (map (\<lambda>c. (number c, c)) cs)) (re_number e) = Some c"
    by (auto simp: ready_candidates_def split: option.splits)
  from map_of_SomeD [OF e(2)] have c: "c \<in> set cs" "number c = re_number e"
    by auto
  from ready_set_entry [OF assms(1) e(1)] obtain d where d: "d \<in> set cs" "eligible d" "re_number e = number d"
    by blast
  have "c = d"
    using distinct_number_eq [OF assms(2) c(1) d(1)] c(2) d(3) by simp
  with c d show "c \<in> set cs" "eligible c"
    by simp_all
qed

lemma to_process_ready: "set (slice_to n xs) \<subseteq> set xs"
  by (auto simp: slice_to_def split: jsnum.splits dest: in_set_takeD)

text \<open>The sort key of a ready entry.\<close>

definition ready_ok :: "ready_entry \<Rightarrow> bool" where
  "ready_ok e \<longleftrightarrow> num_finite (re_dependencyRank e) \<and> num_finite (re_score e) \<and> num_finite (re_priority e) \<and>
     num_finite (re_number e)"

definition ready_key :: "ready_entry \<Rightarrow> rat \<times> rat \<times> rat \<times> rat \<times> rat" where
  "ready_key e = (num_rat (re_dependencyRank e), - num_rat (re_score e), num_rat (re_priority e),
     num_rat (date_or_zero (re_updatedAt e)), num_rat (re_number e))"

lemma by_number_Fin: "by_number (Fin x) (Fin y) rest = (if x = y then rest else Fin (x - y))"
  by (simp add: by_number_def same_number_def)

lemma ready_before_key:
  assumes "ready_ok a" "ready_ok b"
  shows "ready_before a b \<longleftrightarrow> ready_key a \<le> ready_key b"
proof -
  obtain ta tb where t: "date_or_zero (re_updatedAt a) = Fin ta" "date_or_zero (re_updatedAt b) = Fin tb"
    using date_or_zero_Fin by blast
  obtain ra sa pa na rb sb pb nb where f: "re_dependencyRank a = Fin ra" "re_score a = Fin sa" "re_priority a = Fin pa"
      "re_number a = Fin na" "re_dependencyRank b = Fin rb" "re_score b = Fin sb" "re_priority b = Fin pb" "re_number b = Fin nb"
    using assms by (auto simp: ready_ok_def num_finite_Fin)
  show ?thesis
    by (auto simp: ready_before_def compareReadySet_def ready_key_def t f by_number_Fin)
qed

interpretation ready_order: comparison_order ready_before ready_ok
  by unfold_locales (auto simp: ready_before_key)

lemma ready_before_rank:
  assumes "ready_ok a" "ready_ok b" "ready_before a b" "re_dependencyRank a = Fin x" "re_dependencyRank b = Fin y"
  shows "x \<le> y"
  using assms by (auto simp: ready_before_key ready_key_def)

lemma num_max_finite: "num_finite a \<Longrightarrow> num_finite b \<Longrightarrow> num_finite (num_max a b)"
  by (auto simp: num_finite_Fin)

lemma ageHours_finite: "\<exists>h. ageHours updated now = Fin h"
  by (auto simp: ageHours_def Let_def num_finite_Fin)

lemma scores_finite:
  assumes s: "buildScoreComponents v now = Inr s" and k: "getp v ''priority'' = num_of_nat k"
  shows "num_finite (sr_score s)" "num_finite (sr_priority s)"
proof -
  have p: "parsePriority (num_of_nat k) = Fin (of_nat k)"
    by (simp add: parsePriority_def num_of_nat_def)
  obtain h where h: "ageHours (getp v ''updatedAt'') now = Fin h"
    using ageHours_finite by blast
  have fin: "(if truthy (JNum (Fin x)) then Fin x else Fin 0) = Fin x" for x
    by simp
  show "num_finite (sr_score s)" "num_finite (sr_priority s)"
    using s by (auto simp: buildScoreComponents_def Let_def k p h component_sum_def fin SCORE_WEIGHTS_def simp del: truthy.simps)
qed

lemma ready_entry_total: "\<exists>e. ready_entry_of order now (candidate_value c) = Inr e"
proof -
  have labels: "\<exists>ns. parseLabelNames (jstrs ls) = Inr ns" for ls
    by (simp add: parseLabelNames_def jstrs_def)
  have risk: "\<exists>x. parseRiskClass body (jstrs ls) = Inr x" for body ls
    using labels [of ls] by (auto simp: parseRiskClass_def split: option.split)
  have flaky: "\<exists>x. parseFlakyExposure body (jstrs ls) = Inr x" for body ls
    using labels [of ls] by (auto simp: parseFlakyExposure_def split: option.split)
  have "js_coalesce (getp (candidate_value c) ''labels'') (JArr []) = jstrs (labels c)"
    by (simp add: candidate_value_def jstrs_def)
  then have "\<exists>s. buildScoreComponents (candidate_value c) now = Inr s"
    using risk [of "js_coalesce (getp (candidate_value c) ''body'') (JStr [])" "labels c"]
      flaky [of "js_coalesce (getp (candidate_value c) ''body'') (JStr [])" "labels c"]
    by (auto simp: buildScoreComponents_def Let_def)
  then show ?thesis
    by (auto simp: ready_entry_of_def Let_def)
qed

lemma ready_entries:
  "\<exists>es. mapE (ready_entry_of order now) (map candidate_value cs) = Inr es \<and>
     list_all2 (\<lambda>e c. ready_entry_of order now (candidate_value c) = Inr e) es cs"
proof (induction cs)
  case Nil
  then show ?case by simp
next
  case (Cons c cs)
  obtain e where "ready_entry_of order now (candidate_value c) = Inr e"
    using ready_entry_total by blast
  with Cons show ?case
    by auto
qed

lemma readiness_total:
  assumes "time_clip now \<noteq> NaN"
  shows "\<exists>r. buildQueueReadinessReport repo (map candidate_value cs) orderedEligible now = Inr r"
  using ready_entries [of "eligible_order orderedEligible" now cs] assms
  by (auto simp: buildQueueReadinessReport_def Let_def date_iso_def)

lemma eligible_order_snoc:
  "eligible_order (xs @ [x]) = AList.update (js_number x) (length xs) (eligible_order xs)"
  by (simp add: eligible_order_def)

lemma eligible_order_index:
  "distinct ns \<Longrightarrow> map_of (eligible_order (map JNum ns)) n = Some i \<longleftrightarrow> i < length ns \<and> ns ! i = n"
proof (induction ns rule: rev_induct)
  case Nil
  then show ?case by (simp add: eligible_order_def)
next
  case (snoc x xs)
  then show ?case
    by (auto simp: eligible_order_snoc nth_append less_Suc_eq)
qed

lemma sorted_same_mset: "sorted xs \<Longrightarrow> sorted ys \<Longrightarrow> mset xs = mset ys \<Longrightarrow> xs = (ys :: nat list)"
  by (metis properties_for_sort)

text \<open>Entries ranked by their place in a list without repetition sort into that list.\<close>

lemma ranked_entries_order:
  assumes nums: "mset (map re_number es) = mset ns" "distinct ns"
    and entry: "\<And>e. e \<in> set es \<Longrightarrow> \<exists>i < length ns. re_dependencyRank e = Fin (of_nat i) \<and> ns ! i = re_number e \<and> ready_ok e"
  shows "map re_number (sort_by ready_before es) = ns"
proof -
  define idx where "idx n = the (map_of (zip ns [0..<length ns]) n)" for n
  have index: "idx (ns ! i) = i" if "i < length ns" for i
    using map_of_zip_nth [of ns "[0..<length ns]" i] nums(2) that by (simp add: idx_def)
  let ?sorted = "sort_by ready_before es"
  have "sorted_wrt ready_before ?sorted"
    using entry by (intro ready_order.sort_by_ordered) blast
  then have "sorted_wrt (\<lambda>a b. idx (re_number a) \<le> idx (re_number b)) ?sorted"
  proof (rule sorted_wrt_mono_rel [rotated])
    fix a b
    assume ab: "a \<in> set ?sorted" "b \<in> set ?sorted" "ready_before a b"
    from entry [of a] ab(1) obtain i where i: "i < length ns" "re_dependencyRank a = Fin (of_nat i)" "ns ! i = re_number a" "ready_ok a"
      by auto
    from entry [of b] ab(2) obtain j where j: "j < length ns" "re_dependencyRank b = Fin (of_nat j)" "ns ! j = re_number b" "ready_ok b"
      by auto
    from ready_before_rank [OF i(4) j(4) ab(3) i(2) j(2)] index [OF i(1)] index [OF j(1)] i(3) j(3)
    show "idx (re_number a) \<le> idx (re_number b)"
      by simp
  qed
  then have sorted: "sorted (map idx (map re_number ?sorted))"
    by (simp add: sorted_wrt_map)
  have "map idx ns = [0..<length ns]"
    by (rule nth_equalityI) (simp_all add: index)
  then have sorted': "sorted (map idx ns)"
    by simp
  have m: "mset (map re_number ?sorted) = mset ns"
    using nums(1) by (metis mset_map mset_sort_by)
  have "map idx (map re_number ?sorted) = map idx ns"
    using sorted sorted' m by (intro sorted_same_mset) (simp_all only: mset_map)
  moreover have "inj_on idx (set (map re_number ?sorted) \<union> set ns)"
    using mset_eq_setD [OF m] index by (intro inj_onI) (metis Un_absorb in_set_conv_nth)
  ultimately show ?thesis
    by (rule inj_on_map_eq_map [THEN iffD1, rotated])
qed

text \<open>A value that shows the report a candidate: its number, its eligibility, and scores that are numbers.\<close>

definition presents :: "jsval \<Rightarrow> candidate \<Rightarrow> bool" where
  "presents v c \<longleftrightarrow> js_number (getp v ''number'') = number c \<and> truthy (getp v ''eligible'') = eligible c \<and>
     (\<forall>now. \<exists>s. buildScoreComponents v now = Inr s \<and> num_finite (sr_score s) \<and> num_finite (sr_priority s))"

lemma candidate_presents: "presents (candidate_value c) c"
proof -
  have "\<exists>s. buildScoreComponents (candidate_value c) now = Inr s \<and> num_finite (sr_score s) \<and> num_finite (sr_priority s)" for now
  proof -
    obtain s where "buildScoreComponents (candidate_value c) now = Inr s"
      using ready_entry_total [of "[]" now c] by (auto simp: ready_entry_of_def)
    moreover have "getp (candidate_value c) ''priority'' = num_of_nat (pr_priority c)"
      by (simp add: candidate_value_def)
    ultimately show ?thesis
      using scores_finite by blast
  qed
  then show ?thesis
    by (simp add: presents_def candidate_value_def)
qed

lemma presented_entry:
  assumes "presents v c"
  shows "\<exists>e. ready_entry_of order now v = Inr e \<and> re_number e = number c \<and> re_eligible e = eligible c \<and>
    re_dependencyRank e = (case map_of order (number c) of Some i \<Rightarrow> Fin (of_nat i) | None \<Rightarrow> MAX_SAFE_INTEGER) \<and>
    num_finite (re_score e) \<and> num_finite (re_priority e)"
  using assms by (auto simp: presents_def ready_entry_of_def Let_def dest: spec [of _ now])

lemma presented_entries:
  assumes "list_all2 presents vs cs"
  shows "\<exists>es. mapE (ready_entry_of order now) vs = Inr es \<and>
    list_all2 (\<lambda>e c. re_number e = number c \<and> re_eligible e = eligible c \<and>
      re_dependencyRank e = (case map_of order (number c) of Some i \<Rightarrow> Fin (of_nat i) | None \<Rightarrow> MAX_SAFE_INTEGER) \<and>
      num_finite (re_score e) \<and> num_finite (re_priority e)) es cs"
  using assms
proof (induction rule: list_all2_induct)
  case (Cons v vs c cs)
  with presented_entry [of v c order now] show ?case
    by auto
qed simp

lemma list_all2_left: "list_all2 P xs ys \<Longrightarrow> x \<in> set xs \<Longrightarrow> \<exists>y \<in> set ys. P x y"
  by (induction rule: list_all2_induct) auto

text \<open>The ready set lists the eligible candidates in the order they were given, whatever their scores.\<close>

lemma presented_set_order:
  assumes vs: "list_all2 presents vs cs" and r: "buildQueueReadinessReport repo vs (map JNum ns) now = Inr r"
    and ns: "mset ns = mset (map number (filter eligible cs))" "distinct ns" and n: "\<forall>c \<in> set cs. numbered c"
  shows "map re_number (rr_readySet r) = ns"
proof -
  let ?order = "eligible_order (map JNum ns)"
  obtain es where es: "mapE (ready_entry_of ?order now) vs = Inr es"
      "list_all2 (\<lambda>e c. re_number e = number c \<and> re_eligible e = eligible c \<and>
        re_dependencyRank e = (case map_of ?order (number c) of Some i \<Rightarrow> Fin (of_nat i) | None \<Rightarrow> MAX_SAFE_INTEGER) \<and>
        num_finite (re_score e) \<and> num_finite (re_priority e)) es cs"
    using presented_entries [OF vs] by blast
  have nums: "map re_number (filter re_eligible es) = map number (filter eligible cs)"
    using es(2) by (induction rule: list_all2_induct) auto
  have "map re_number (sort_by ready_before (filter re_eligible es)) = ns"
  proof (rule ranked_entries_order)
    show "mset (map re_number (filter re_eligible es)) = mset ns" "distinct ns"
      using nums ns by simp_all
    fix e
    assume e: "e \<in> set (filter re_eligible es)"
    then have "re_number e \<in> set ns"
      using nums ns(1) by (metis imageI list.set_map mset_eq_setD)
    then obtain i where i: "i < length ns" "ns ! i = re_number e"
      by (auto simp: in_set_conv_nth)
    moreover from e es(2) obtain c where "c \<in> set cs" "re_number e = number c" "num_finite (re_score e)" "num_finite (re_priority e)"
        "re_dependencyRank e = (case map_of ?order (number c) of Some i \<Rightarrow> Fin (of_nat i) | None \<Rightarrow> MAX_SAFE_INTEGER)"
      using list_all2_left [OF es(2), of e] by auto
    ultimately show "\<exists>i < length ns. re_dependencyRank e = Fin (of_nat i) \<and> ns ! i = re_number e \<and> ready_ok e"
      using n eligible_order_index [OF ns(2), of "re_number e" i] by (auto simp: ready_ok_def numbered_def)
  qed
  with r show ?thesis
    by (auto simp: buildQueueReadinessReport_def Let_def es(1))
qed

lemma ready_set_order:
  assumes "buildQueueReadinessReport repo (map candidate_value cs) (map JNum ns) now = Inr r"
    and "mset ns = mset (map number (filter eligible cs))" "distinct ns" and "\<forall>c \<in> set cs. numbered c"
  shows "map re_number (rr_readySet r) = ns"
proof (rule presented_set_order [OF _ assms])
  show "list_all2 presents (map candidate_value cs) cs"
    by (simp add: list_all2_conv_all_nth candidate_presents)
qed

lemma ready_candidates_ordered:
  assumes "map re_number (rr_readySet r) = map number os" "set os \<subseteq> set cs" "distinct (map number cs)"
  shows "ready_candidates cs r = os"
proof -
  have "map_of (rev (map (\<lambda>c. (number c, c)) cs)) (number c) = Some c" if "c \<in> set cs" for c
    using that assms(3) by (intro map_of_is_SomeI) (auto simp: rev_map comp_def simp flip: rev_map)
  then have "concat (map (\<lambda>m. case map_of (rev (map (\<lambda>c. (number c, c)) cs)) m of None \<Rightarrow> [] | Some c \<Rightarrow> [c]) (map number os)) = os"
    using assms(2) by (induction os) auto
  moreover have "ready_candidates cs r =
      concat (map (\<lambda>m. case map_of (rev (map (\<lambda>c. (number c, c)) cs)) m of None \<Rightarrow> [] | Some c \<Rightarrow> [c])
        (map re_number (rr_readySet r)))"
    by (simp add: ready_candidates_def comp_def)
  ultimately show ?thesis
    by (simp only: assms(1))
qed

section \<open>Commands\<close>

text \<open>The commands the loop may run for the request \<open>n\<close>.\<close>

definition request_commands :: "string \<Rightarrow> jsnum \<Rightarrow> command set" where
  "request_commands repository n =
     {(''node'', merge_args repository n),
      (''gh'', [''pr'', ''update-branch'', num_to_string n, ''--repo'', repository]),
      (''gh'', edit_label repository n ''--remove-label'' ''queue-blocked''),
      (''gh'', edit_label repository n ''--add-label'' ''queue-quarantine''),
      (''gh'', edit_label repository n ''--add-label'' ''queue-blocked'')}"

lemma run_command_log: "snd (fst (run_command qe cmd args st)) = snd st @ [(cmd, args)]"
  by (simp add: run_command_def split: prod.splits)

lemma merge_attempt_log:
  "snd (fst (merge_attempt qe repoRoot repository kind n before retried st)) = snd st @ [(''node'', merge_args repository n)]"
  by (simp add: merge_attempt_def run_command_log case_prod_beta Let_def)

lemma merge_request_log:
  "\<exists>new. snd (fst (merge_request qe repoRoot repository c st)) = snd st @ new \<and> set new \<subseteq> request_commands repository (number c)"
  by (simp add: merge_request_def merge_attempt_log run_command_log case_prod_beta Let_def request_commands_def)

lemma process_candidate_log:
  "\<exists>new. snd (fst (process_candidate qe repoRoot repository nowIso c st p)) = snd st @ new \<and>
     set new \<subseteq> request_commands repository (number c)"
proof -
  obtain st1 m where m: "merge_request qe repoRoot repository c st = (st1, m)"
    by fastforce
  then obtain new where "snd st1 = snd st @ new" "set new \<subseteq> request_commands repository (number c)"
    using merge_request_log [of qe repoRoot repository c st] by auto
  moreover have "\<exists>x \<in> request_commands repository (number c).
      snd (fst (process_candidate qe repoRoot repository nowIso c st p)) = snd st1 @ [x]"
    by (auto simp: process_candidate_def m run_command_log case_prod_beta Let_def request_commands_def)
  ultimately show ?thesis
    by auto
qed

lemma process_candidates_log:
  "\<exists>new. snd (fst (process_candidates qe repoRoot repository nowIso cs st p)) = snd st @ new \<and>
     set new \<subseteq> (\<Union>c \<in> set cs. request_commands repository (number c))"
proof (induction cs arbitrary: st p)
  case Nil
  then show ?case by simp
next
  case (Cons c cs)
  obtain st' p' where s: "process_candidate qe repoRoot repository nowIso c st p = (st', p')"
    by fastforce
  obtain new where new: "snd st' = snd st @ new" "set new \<subseteq> request_commands repository (number c)"
    using process_candidate_log [of qe repoRoot repository nowIso c st p] s by auto
  obtain more where "snd (fst (process_candidates qe repoRoot repository nowIso cs st' p')) = snd st' @ more"
      "set more \<subseteq> (\<Union>c \<in> set cs. request_commands repository (number c))"
    using Cons.IH by blast
  with new s show ?case
    by (intro exI [of _ "new @ more"]) auto
qed

section \<open>Steps that run no command\<close>

lemma runE_log:
  "snd (fst m) = L \<Longrightarrow> (\<And>x st. snd st = L \<Longrightarrow> snd (fst (f x st)) = L) \<Longrightarrow> snd (fst (runE m f)) = L"
  by (cases "(m, f)" rule: runE.cases) auto

lemma gh_json_log: "snd (fst (gh_json qe args st)) = snd st"
  by (simp add: gh_json_def split: prod.splits)

lemma write_doc_log: "snd (fst (write_doc qe p doc st)) = snd st"
  by (simp add: write_doc_def split: prod.splits)

lemma read_states_log: "snd (fst (readPullRequestQueueStates qe repository ns st)) = snd st"
  by (simp add: readPullRequestQueueStates_def Let_def split: prod.splits option.splits sum.splits)

lemma fetch_runs_log: "snd (fst (fetchWorkflowRuns qe repository branch specs st)) = snd st"
proof (induction qe repository branch specs st rule: fetchWorkflowRuns.induct)
  case (2 qe repository branch name spec_file specs w cmds)
  show ?case
    using 2 by (fastforce split: prod.splits sum.splits)
qed simp

lemma reconcile_receipt_log: "snd (fst (reconcile_receipt qe repoRoot p summary st)) = snd st"
  by (simp add: reconcile_receipt_def split: prod.splits sum.splits)

lemma reconcile_receipts_log: "snd (fst (reconcile_receipts qe repoRoot apply paths st)) = snd st"
  by (induction paths arbitrary: st) (auto simp: Let_def reconcile_receipt_log case_prod_beta)

lemma reconcile_log: "snd (fst (reconcileDeferredBranchCleanupReceipts qe repoRoot apply st)) = snd st"
  by (simp add: reconcileDeferredBranchCleanupReceipts_def reconcile_receipts_log case_prod_beta Let_def split: sum.splits)

lemma write_documents_log: "snd (fst (write_documents qe args inp pl cleanup p st)) = snd st"
  by (simp add: write_documents_def Let_def runE_log write_doc_log)

lemma collect_log:
  "snd (fst (collect_inputs qe args repoRoot repository now proc st)) = snd st"
  unfolding collect_inputs_def Let_def case_prod_beta
  by (intro runE_log) (simp_all add: gh_json_log read_states_log fetch_runs_log fetchWorkflowRunsByName_def)

lemma collect_classified:
  assumes "collect_inputs qe args repoRoot repository now proc st = (st', Inr inp)"
  shows "\<exists>prs. classifyOpenPullRequests prs (in_required inp) (in_managed inp) EXCLUDED_LABELS = Inr (in_classified inp)"
  using assms unfolding collect_inputs_def Let_def case_prod_beta
  by (auto simp: runE_Inr_iff)

section \<open>Properties\<close>

definition demo_response :: "string list \<Rightarrow> jsval" where
  "demo_response args =
     (if hd args = ''pr'' then JArr [demo_checked]
      else JObj [(''workflow_runs'', JArr [JObj [(''conclusion'', JStr ''success'')]])])"

text \<open>One green request, green workflows, no documents of earlier runs, commands that succeed.\<close>

definition demo_env :: "unit queue_env" where
  "demo_env =
     \<lparr>qe_runGhJson = (\<lambda>args w. (w, Inr (demo_response args))), qe_runGhGraphql = None,
      qe_runCommand = (\<lambda>cmd args w. (w, \<lparr>cr_status = Fin 0, cr_stderr = []\<rparr>)),
      qe_readJsonFile = (\<lambda>p w. Inr (JObj [(''branches'', demo_required)])),
      qe_readOptionalJson = (\<lambda>p w. JNull), qe_writeReport = (\<lambda>p doc w. (w, Inr p)),
      qe_readdir = (\<lambda>p w. Inr None), qe_reconcile = (\<lambda>p doc w. (w, Inr JNull)),
      qe_message = (\<lambda>e. ''failed''), qe_undated = Fin 0\<rparr>"

definition demo_candidate :: candidate where
  "demo_candidate =
     check_dependencies [Fin 7] [Fin 7] (to_candidate (demo_pr 7 False []\<lparr>statusCheckRollup := demo_rollup\<rparr>)
       (JArr [JStr ''lint'']) \<lparr>ok = True, missing = [], failing = []\<rparr> [])"

lemma demo_candidate_fields [simp]:
  "number demo_candidate = Fin 7" "eligible demo_candidate" "\<not> isQueuedCandidate demo_candidate"
  by (simp_all add: demo_candidate_def check_dependencies_def to_candidate_def open_pr.defs demo_pr_def
      isQueuedCandidate_def)

lemma demo_classification:
  "classifyOpenPullRequests (JArr [demo_checked]) demo_required [''develop''] EXCLUDED_LABELS =
     Inr \<lparr>cl_allOpen = [demo_pr 7 False []\<lparr>statusCheckRollup := demo_rollup\<rparr>], cl_candidates = [demo_candidate],
       cl_orderedEligible = [demo_candidate], cl_cycleDetected = cycleDetected (toTopoOrder [demo_candidate])\<rparr>"
proof -
  have "ordered (toTopoOrder [demo_candidate]) = [demo_candidate]"
    by (rule ordered_single) (simp add: numbered_def)
  then show ?thesis
    by (simp add: classifyOpenPullRequests_def demo_checked_parsed demo_checked_classified js_coalesce_def
        demo_candidate_def [symmetric] Let_def)
qed

definition demo_runs :: fields where
  "demo_runs = map (\<lambda>(name, spec_file). (name, JArr [JObj [(''conclusion'', JStr ''success'')]])) HEALTH_WORKFLOW_SPECS"

lemma demo_fetch:
  "fetchWorkflowRunsByName demo_env repository branch st = (st, demo_runs, [])"
  by (cases st) (simp add: fetchWorkflowRunsByName_def HEALTH_WORKFLOW_SPECS_def demo_env_def demo_response_def demo_runs_def)

lemma demo_gate:
  "\<exists>h. evaluateHealthGate (Fin 0) (JObj demo_runs) now DEFAULT_HEALTH_MIN_SUCCESS_RATE DEFAULT_HEALTH_MAX_RED_MINUTES = Inr h \<and>
     \<not> hg_paused h"
proof -
  have low: "lower_text (JStr ''success'') = ''success''"
    by code_simp
  have iso: "normalizeIso JUndef = JNull"
    by (simp add: normalizeIso_def)
  show ?thesis
    by (simp add: evaluateHealthGate_def demo_runs_def HEALTH_WORKFLOW_SPECS_def collect_runs_def health_run_of_def
        dot_def either_field_def low iso newer_first_def created_ms_def success_rate_def red_minutes_def succeeded_run_def
        DEFAULT_HEALTH_MIN_SUCCESS_RATE_def DEFAULT_HEALTH_MAX_RED_MINUTES_def js_coalesce_def Let_def)
qed

lemma demo_fleet_health:
  "\<exists>f. evaluateRuntimeFleetHealth (JObj demo_runs) now (Fin 6) (Fin 8) (Fin 45) = Inr f \<and> \<not> fl_paused f"
proof -
  have none: "normalizeRunStatus JUndef = []"
    by code_simp
  show ?thesis
    by (simp add: evaluateRuntimeFleetHealth_def demo_runs_def HEALTH_WORKFLOW_SPECS_def toRuntimeFleetRuns_def
        collect_runs_def fleet_run_of_def dot_def none queuedStatuses_def inProgressStatuses_def js_coalesce_def Let_def)
qed

lemma demo_managed:
  "parseQueueManagedBranches (JObj [(''branches'', demo_required)]) [''develop''] = Inr [''develop'']"
  by (simp add: parseQueueManagedBranches_def js_coalesce_def demo_base uniq_def Let_def)

lemma demo_states:
  "readPullRequestQueueStates demo_env repository ns st = (st, Inr (no_queue_states False JNull))"
  by (simp add: readPullRequestQueueStates_def demo_env_def Let_def)

lemma demo_collect:
  "\<exists>inp. collect_inputs demo_env demo_args ''/repo'' ''owner/repo'' 0 (\<lambda>_. JUndef) ((), []) = (((), []), Inr inp) \<and>
     cl_candidates (in_classified inp) = [demo_candidate] \<and> cl_orderedEligible (in_classified inp) = [demo_candidate] \<and>
     in_managed inp = [''develop''] \<and> in_required inp = demo_required \<and>
     in_now inp = 0 \<and> in_process inp = (\<lambda>_. JUndef) \<and> in_prs inp = [demo_checked] \<and>
     in_fetchErrors inp = [] \<and> \<not> hg_paused (in_health inp) \<and> \<not> fl_paused (in_fleet inp) \<and>
     in_previousReport inp = JNull \<and> gv_mode (in_governor inp) = ''normal''"
proof -
  obtain h where h: "evaluateHealthGate (Fin 0) (JObj demo_runs) 0 DEFAULT_HEALTH_MIN_SUCCESS_RATE
      DEFAULT_HEALTH_MAX_RED_MINUTES = Inr h" "\<not> hg_paused h"
    using demo_gate by blast
  obtain f where f: "evaluateRuntimeFleetHealth (JObj demo_runs) 0 (Fin 6) (Fin 8) (Fin 45) = Inr f" "\<not> fl_paused f"
    using demo_fleet_health by blast
  have args: "qa_baseBranches demo_args = [''develop'']" "qa_maxQueuedRuns demo_args = Fin 6"
    "qa_maxInProgressRuns demo_args = Fin 8" "qa_stallThresholdMinutes demo_args = Fin 45"
    by (simp_all add: demo_args_def)
  have qe: "qe_readJsonFile demo_env p w = Inr (JObj [(''branches'', demo_required)])"
    "qe_readOptionalJson demo_env p w = JNull" "qe_undated demo_env = Fin 0"
    "gh_json demo_env (pr_list_args repository) st = (st, Inr (JArr [demo_checked]))" for p w repository st
    by (simp_all add: demo_env_def gh_json_def pr_list_args_def demo_response_def split: prod.splits)
  have checked: "dot demo_checked ''baseRefName'' = Inr (JStr ''develop'')"
    by (simp add: demo_checked_def dot_def)
  have req: "js_coalesce demo_required (JObj []) = demo_required"
    by (simp add: demo_required_def)
  have gov: "gv_mode (governor_state_of JNull p) = ''normal''" for p
  proof -
    have "normalizeGovernorMode JUndef = ''normal''"
      by code_simp
    then show ?thesis
      by (simp add: governor_state_of_def envelope_payload_def envelope_has_def Let_def)
  qed
  show ?thesis
    using h f
    by (simp add: collect_inputs_def qe args demo_managed demo_states demo_fetch checked req gov no_queue_states_def enrich_def
        demo_classification date_iso_def time_clip_def case_prod_beta Let_def)
qed

lemma demo_run_plan:
  assumes inp: "cl_candidates (in_classified inp) = [demo_candidate]" "cl_orderedEligible (in_classified inp) = [demo_candidate]"
     "in_managed inp = [''develop'']" "in_now inp = 0" "in_process inp = (\<lambda>_. JUndef)" "in_prs inp = [demo_checked]"
     "in_fetchErrors inp = []" "\<not> hg_paused (in_health inp)" "\<not> fl_paused (in_fleet inp)"
     "in_previousReport inp = JNull" "gv_mode (in_governor inp) = ''normal''"
  shows "\<exists>pl. plan_run demo_args inp = Inr pl \<and> pl_pausedReasons pl = [] \<and> pl_toProcess pl = [demo_candidate]"
proof -
  have args: "qa_maxInflight demo_args = Fin 5" "qa_minInflight demo_args = Fin 2" "qa_adaptiveCap demo_args"
    "qa_burstMode demo_args = ''off''" "qa_burstRefillCycles demo_args = Fin 3"
    by (simp_all add: demo_args_def)
  have off: "parseBurstMode (JStr ''off'') ''burstMode'' = Inr ''off''"
    by code_simp
  have burst: "\<exists>b. evaluateBurstWindow (JStr ''off'') (JNum (Fin 3)) (JArr [demo_checked]) JUndef controllerMode 0 = Inr b" for controllerMode
    by (auto simp: evaluateBurstWindow_def off parseIntStrict_def date_iso_def time_clip_def BURST_BACKOFF_MINUTES_def
        hasReleaseBranchPullRequest_def hasReleaseBurstLabel_def demo_checked_def Let_def case_prod_beta)
  have blank: "trim (js_text JUndef) = []"
    by code_simp
  have "\<exists>pl. plan_run demo_args inp = Inr pl"
  proof -
    let ?rp = "computeRetryPressure (pruneRetryHistory (previous_retry_history JNull) (iso_string 0) RETRY_WINDOW_HOURS) 1"
    obtain a where a: "evaluateAdaptiveInflight (JNum (Fin 5)) (JNum (Fin 2)) True (health_value (in_health inp))
        (fleet_value (in_fleet inp)) (retry_value ?rp) (in_controllerState inp) = Inr a"
      using demo_adaptive by blast
    obtain b where b: "evaluateBurstWindow (JStr ''off'') (JNum (Fin 3)) (JArr [demo_checked]) JUndef (JStr (ai_mode a)) 0 = Inr b"
      using burst by blast
    obtain r where r: "buildQueueReadinessReport (JStr (in_repository inp)) (map candidate_value [demo_candidate])
        [JNum (number demo_candidate)] 0 = Inr r"
      using readiness_total [of 0] by (fastforce simp: time_clip_def)
    show ?thesis
      using a b r by (simp add: plan_run_def inp args Let_def)
  qed
  then obtain pl where pl: "plan_run demo_args inp = Inr pl"
    by blast
  note parts = plan_run_parts [OF pl]
  have paused: "pl_pausedReasons pl = []"
    by (simp add: parts(4) paused_reasons_def inp blank when_reason_def uniq_def)
  obtain c where c: "ai_effectiveMaxInflight (pl_adaptive pl) = Fin (of_nat c)" "2 \<le> c"
    using adaptive_cap_bounds [OF parts(1)] by (auto simp: args)
  have "\<not> bw_active (pl_burst pl)"
    using burst_window_parts(1,5) [OF parts(2)] by (simp add: args off burst_verdict_def)
  then have cap: "rc_effectiveMaxInflight (pl_cap pl) = Fin (of_nat c)"
    by (simp add: parts(5) effective_cap_def inp c(1) Let_def)
  have "pl_inflight pl = 0"
    using pl by (auto simp: plan_run_def inp countInflight_def Let_def)
  then have capacity: "pl_capacity pl = Fin (of_nat c)"
    by (simp add: parts(6) cap)
  have "buildQueueReadinessReport (JStr (in_repository inp)) (map candidate_value [demo_candidate]) (map JNum [Fin 7]) 0 =
      Inr (pl_readiness pl)"
    using parts(3) by (simp add: inp)
  then have "map re_number (rr_readySet (pl_readiness pl)) = [Fin 7]"
    by (rule ready_set_order) (simp_all add: numbered_def)
  then have "pl_ready pl = [demo_candidate]"
    unfolding parts(8) inp by (intro ready_candidates_ordered) simp_all
  then have "pl_toProcess pl = [demo_candidate]"
    using c(2) by (simp add: parts(9) capacity slice_to_def take_Cons')
  with pl paused show ?thesis
    by blast
qed

lemma supervisor_log:
  assumes "collect_inputs qe args repoRoot repository now proc (w, []) = (st, Inr inp)" "plan_run args inp = Inr pl"
    "reconcileDeferredBranchCleanupReceipts qe repoRoot (qa_apply args \<and> \<not> qa_dryRun args) st = (st1, cl)"
  shows "snd st1 = []"
    "snd (fst (runQueueSupervisor qe args repoRoot repository now proc (w, []))) =
      (if isl cl \<or> pl_pausedReasons pl \<noteq> [] \<or> qa_dryRun args \<or> \<not> qa_apply args then []
       else snd (fst (process_candidates qe repoRoot repository (iso_string now) (pl_toProcess pl) st1
         \<lparr>pg_history = pl_retryHistory pl, pg_actions = [], pg_enqueued = 0, pg_quarantined = 0\<rparr>)))"
proof -
  have "snd st = []"
    using collect_log [of qe args repoRoot repository now proc "(w, [])"] assms(1) by simp
  then show st1: "snd st1 = []"
    using reconcile_log [of qe repoRoot "qa_apply args \<and> \<not> qa_dryRun args" st] assms(3) by simp
  show "snd (fst (runQueueSupervisor qe args repoRoot repository now proc (w, []))) =
      (if isl cl \<or> pl_pausedReasons pl \<noteq> [] \<or> qa_dryRun args \<or> \<not> qa_apply args then []
       else snd (fst (process_candidates qe repoRoot repository (iso_string now) (pl_toProcess pl) st1
         \<lparr>pg_history = pl_retryHistory pl, pg_actions = [], pg_enqueued = 0, pg_quarantined = 0\<rparr>)))"
  proof (cases cl)
    case (Inl e)
    then show ?thesis
      by (simp add: runQueueSupervisor_def assms st1)
  next
    case (Inr v)
    then show ?thesis
      by (simp add: runQueueSupervisor_def assms st1 write_documents_log case_prod_beta Let_def)
  qed
qed

text \<open>The ready set of a plan lists the queue order.\<close>

lemma ordered_numbers:
  assumes cl: "classifyOpenPullRequests prs required managed excluded = Inr cl"
    and unique: "distinct (map number (cl_candidates cl))" and n: "\<forall>c \<in> set (cl_candidates cl). num_finite (number c)"
  shows "mset (map number (cl_orderedEligible cl)) = mset (map number (filter eligible (cl_candidates cl)))"
    and "distinct (map number (cl_orderedEligible cl))"
proof -
  let ?eligible = "filter eligible (cl_candidates cl)"
  have d: "distinct (map number ?eligible)"
    using unique by (simp add: distinct_map_filter)
  have "mset (cl_orderedEligible cl) = mset ?eligible"
    unfolding classification_order [OF cl] using d n by (intro ordered_mset) (auto simp: numbered_def)
  then show m: "mset (map number (cl_orderedEligible cl)) = mset (map number ?eligible)"
    by (metis mset_map)
  with d show "distinct (map number (cl_orderedEligible cl))"
    by (metis mset_eq_imp_distinct_iff)
qed

lemma plan_ready_numbers:
  assumes plan: "plan_run args inp = Inr pl"
    and cl: "classifyOpenPullRequests prs (in_required inp) (in_managed inp) excluded = Inr (in_classified inp)"
    and unique: "distinct (map number (cl_candidates (in_classified inp)))"
    and n: "\<forall>c \<in> set (cl_candidates (in_classified inp)). num_finite (number c)"
  shows "map re_number (rr_readySet (pl_readiness pl)) = map number (cl_orderedEligible (in_classified inp))"
proof -
  have "buildQueueReadinessReport (JStr (in_repository inp)) (map candidate_value (cl_candidates (in_classified inp)))
      (map JNum (map number (cl_orderedEligible (in_classified inp)))) (in_now inp) = Inr (pl_readiness pl)"
    using plan_run_parts(3) [OF plan] by (simp add: comp_def)
  then show ?thesis
    using ordered_numbers [OF cl unique n] n by (intro ready_set_order) (auto simp: numbered_def)
qed

lemma process_candidate_first:
  "\<exists>new. snd (fst (process_candidate qe repoRoot repository nowIso c st p)) =
     snd st @ (''node'', merge_args repository (number c)) # new"
proof -
  obtain st1 m where m: "merge_request qe repoRoot repository c st = (st1, m)"
    by fastforce
  have "\<exists>new. snd (fst (merge_request qe repoRoot repository c st)) = snd st @ (''node'', merge_args repository (number c)) # new"
    by (simp add: merge_request_def merge_attempt_log run_command_log case_prod_beta Let_def)
  with m obtain new where "snd st1 = snd st @ (''node'', merge_args repository (number c)) # new"
    by auto
  then show ?thesis
    by (auto simp: process_candidate_def m run_command_log case_prod_beta Let_def)
qed

text \<open>
  C2: Every merge command a supervisor run issues is for an open request that is not queued yet
  and whose classification, from the data of this very run, found no reason against it, and only
  in an apply run that is not paused.
\<close>

theorem supervisor_merges_clear:
  assumes run: "runQueueSupervisor qe args repoRoot repository now proc (w, []) = ((w', cmds), r)"
    and inputs: "collect_inputs qe args repoRoot repository now proc (w, []) = (st, Inr inp)"
    and unique: "distinct (map number (cl_candidates (in_classified inp)))"
    and command: "x \<in> set cmds"
  shows "qa_apply args \<and> \<not> qa_dryRun args \<and>
    paused_reasons proc (in_governor inp) (in_health inp) (in_fleet inp) (in_fetchErrors inp) = [] \<and>
    (\<exists>c \<in> set (cl_candidates (in_classified inp)). x \<in> request_commands repository (number c) \<and>
       eligible c \<and> \<not> isQueuedCandidate c \<and> clear (in_required inp) (in_managed inp) EXCLUDED_LABELS c)"
proof -
  have proc: "in_process inp = proc"
    using inputs unfolding collect_inputs_def Let_def case_prod_beta by (auto simp: runE_Inr_iff)
  have start: "snd st = []"
    using collect_log [of qe args repoRoot repository now proc "(w, [])"] inputs by simp
  from run command start obtain pl where pl: "plan_run args inp = Inr pl"
    by (cases "plan_run args inp") (auto simp: runQueueSupervisor_def inputs)
  obtain st1 cl where cl: "reconcileDeferredBranchCleanupReceipts qe repoRoot (qa_apply args \<and> \<not> qa_dryRun args) st = (st1, cl)"
    by fastforce
  note log = supervisor_log [OF inputs pl cl]
  let ?start = "\<lparr>pg_history = pl_retryHistory pl, pg_actions = [], pg_enqueued = 0, pg_quarantined = 0\<rparr>"
  let ?loop = "process_candidates qe repoRoot repository (iso_string now) (pl_toProcess pl) st1 ?start"
  have live: "\<not> (pl_pausedReasons pl \<noteq> [] \<or> qa_dryRun args \<or> \<not> qa_apply args)"
    and "cmds = snd (fst ?loop)"
    using log(2) command run by (simp_all split: if_splits)
  then have "x \<in> (\<Union>c \<in> set (pl_toProcess pl). request_commands repository (number c))"
    using process_candidates_log [of qe repoRoot repository "iso_string now" "pl_toProcess pl" st1 ?start] log(1) command
    by auto
  then obtain c where c: "c \<in> set (pl_toProcess pl)" "x \<in> request_commands repository (number c)"
    by blast
  note parts = plan_run_parts [OF pl]
  have ready: "c \<in> set (ready_candidates (cl_candidates (in_classified inp)) (pl_readiness pl))" "\<not> isQueuedCandidate c"
    using c(1) to_process_ready [of "pl_capacity pl" "filter (\<lambda>c. \<not> isQueuedCandidate c) (pl_ready pl)"]
    unfolding parts(8,9) by auto
  note elig = ready_candidate_eligible [OF parts(3) unique ready(1)]
  obtain prs where "classifyOpenPullRequests prs (in_required inp) (in_managed inp) EXCLUDED_LABELS = Inr (in_classified inp)"
    using collect_classified [OF inputs] by blast
  from classification_eligible [OF this elig] have "clear (in_required inp) (in_managed inp) EXCLUDED_LABELS c"
    by blast
  with live elig ready(2) c(2) parts(4) proc show ?thesis
    by auto
qed

theorem supervisor_merges_clear_witness:
  "\<exists>cmds r. runQueueSupervisor demo_env demo_args ''/repo'' ''owner/repo'' 0 (\<lambda>_. JUndef) ((), []) = (((), cmds), r) \<and>
     (''node'', merge_args ''owner/repo'' (Fin 7)) \<in> set cmds \<and>
     clear demo_required [''develop''] EXCLUDED_LABELS demo_candidate"
proof -
  let ?run = "runQueueSupervisor demo_env demo_args ''/repo'' ''owner/repo'' 0 (\<lambda>_. JUndef) ((), [])"
  obtain inp where inp: "collect_inputs demo_env demo_args ''/repo'' ''owner/repo'' 0 (\<lambda>_. JUndef) ((), []) = (((), []), Inr inp)"
     "cl_candidates (in_classified inp) = [demo_candidate]" "cl_orderedEligible (in_classified inp) = [demo_candidate]"
     "in_managed inp = [''develop'']" "in_required inp = demo_required" "in_now inp = 0" "in_process inp = (\<lambda>_. JUndef)"
     "in_prs inp = [demo_checked]" "in_fetchErrors inp = []" "\<not> hg_paused (in_health inp)" "\<not> fl_paused (in_fleet inp)"
     "in_previousReport inp = JNull" "gv_mode (in_governor inp) = ''normal''"
    using demo_collect by (elim exE conjE)
  obtain pl where pl: "plan_run demo_args inp = Inr pl" "pl_pausedReasons pl = []" "pl_toProcess pl = [demo_candidate]"
    using demo_run_plan [OF inp(2-4,6-13)] by blast
  have live: "qa_apply demo_args \<and> \<not> qa_dryRun demo_args"
    by (simp add: demo_args_def)
  obtain cleanup where cl: "reconcileDeferredBranchCleanupReceipts demo_env ''/repo'' (qa_apply demo_args \<and> \<not> qa_dryRun demo_args) ((), []) =
      (((), []), Inr cleanup)"
    by (simp add: reconcileDeferredBranchCleanupReceipts_def listMergeSyncSummaryPaths_def demo_env_def Let_def)
  obtain w cmds r where run: "?run = ((w, cmds), r)"
    by (metis surj_pair)
  have node: "(''node'', merge_args ''owner/repo'' (Fin 7)) \<in> set cmds"
    using supervisor_log(2) [OF inp(1) pl(1) cl] run live
      process_candidate_first [of demo_env "''/repo''" "''owner/repo''" "iso_string 0" demo_candidate "((), [])"
        "\<lparr>pg_history = pl_retryHistory pl, pg_actions = [], pg_enqueued = 0, pg_quarantined = 0\<rparr>"]
    by (auto simp: pl(2,3) case_prod_beta)
  have "distinct (map number (cl_candidates (in_classified inp)))"
    by (simp add: inp(2))
  from supervisor_merges_clear [OF run inp(1) this node] have
    "clear demo_required [''develop''] EXCLUDED_LABELS demo_candidate"
    by (simp add: inp(2,4,5))
  with run node show ?thesis
    by auto
qed

text \<open>
  C14: The plan of a run is the front of the queue order, without the requests that are queued
  already: the scores of the readiness report never change the order.
\<close>

theorem plan_in_queue_order:
  assumes plan: "plan_run args inp = Inr pl"
    and cl: "classifyOpenPullRequests prs (in_required inp) (in_managed inp) excluded = Inr (in_classified inp)"
    and unique: "distinct (map number (cl_candidates (in_classified inp)))"
    and n: "\<forall>c \<in> set (cl_candidates (in_classified inp)). num_finite (number c)"
  shows "\<exists>k. pl_toProcess pl = take k (filter (\<lambda>c. \<not> isQueuedCandidate c) (cl_orderedEligible (in_classified inp)))"
proof -
  let ?cs = "cl_candidates (in_classified inp)"
  let ?os = "cl_orderedEligible (in_classified inp)"
  note parts = plan_run_parts [OF plan]
  have "map re_number (rr_readySet (pl_readiness pl)) = map number ?os"
    using plan cl unique n by (rule plan_ready_numbers)
  moreover have "set ?os \<subseteq> set ?cs"
    using classification_ordered(1) [OF cl] by blast
  ultimately have "pl_ready pl = ?os"
    unfolding parts(8) using unique by (rule ready_candidates_ordered)
  moreover have "\<exists>k. slice_to x xs = take k xs" for x and xs :: "candidate list"
    by (cases x) (auto simp: slice_to_def intro: exI [of _ "length xs"] exI [of _ 0])
  ultimately show ?thesis
    by (simp add: parts(9))
qed

theorem plan_in_queue_order_witness:
  "\<exists>inp pl k. plan_run demo_args inp = Inr pl \<and> cl_orderedEligible (in_classified inp) = [demo_candidate] \<and>
     pl_toProcess pl = take k [demo_candidate]"
proof -
  obtain inp where inp: "collect_inputs demo_env demo_args ''/repo'' ''owner/repo'' 0 (\<lambda>_. JUndef) ((), []) = (((), []), Inr inp)"
     "cl_candidates (in_classified inp) = [demo_candidate]" "cl_orderedEligible (in_classified inp) = [demo_candidate]"
     "in_managed inp = [''develop'']" "in_required inp = demo_required" "in_now inp = 0" "in_process inp = (\<lambda>_. JUndef)"
     "in_prs inp = [demo_checked]" "in_fetchErrors inp = []" "\<not> hg_paused (in_health inp)" "\<not> fl_paused (in_fleet inp)"
     "in_previousReport inp = JNull" "gv_mode (in_governor inp) = ''normal''"
    using demo_collect by (elim exE conjE)
  obtain pl where pl: "plan_run demo_args inp = Inr pl"
    using demo_run_plan [OF inp(2-4,6-13)] by blast
  obtain prs where "classifyOpenPullRequests prs (in_required inp) (in_managed inp) EXCLUDED_LABELS = Inr (in_classified inp)"
    using collect_classified [OF inp(1)] by blast
  from plan_in_queue_order [OF pl this] obtain k where
    "pl_toProcess pl = take k (filter (\<lambda>c. \<not> isQueuedCandidate c) [demo_candidate])"
    by (auto simp: inp(2,3))
  with pl inp(3) show ?thesis
    by auto
qed

text \<open>A label of the documentation's list that the code does not know.\<close>

theorem quarantine_not_excluded:
  "block_reasons managed EXCLUDED_LABELS (pr\<lparr>labels := ''queue-quarantine'' # labels pr\<rparr>) verdict =
     block_reasons managed EXCLUDED_LABELS pr verdict"
  by (simp add: block_reasons_def EXCLUDED_LABELS_def)

end
