(* ===== verification/QueueCliLaws.thy ===== *)
theory QueueCliLaws
  imports QueueCli QueueSupervisorLaws
begin

text \<open>
  The laws of the command lines: which options come out of a command line that parses, that a run with
  such options always reaches a plan, how a repository is read from a remote, and that the readiness
  report rebuilt from disk has the ready set of the run.
\<close>

section \<open>The options\<close>

definition counted :: "jsnum option \<Rightarrow> bool" where
  "counted given \<longleftrightarrow> (\<forall>n. given = Some n \<longrightarrow> count_num n)"

definition options_ok :: "queue_options \<Rightarrow> bool" where
  "options_ok opts \<longleftrightarrow> qo_apply opts = (\<not> qo_dryRun opts) \<and> qo_baseBranches opts \<noteq> [] \<and>
     counted (qo_maxInflight opts) \<and> counted (qo_minInflight opts) \<and> counted (qo_maxQueuedRuns opts) \<and>
     counted (qo_maxInProgressRuns opts) \<and> counted (qo_stallThresholdMinutes opts) \<and>
     counted (qo_burstRefillCycles opts) \<and> (\<forall>m. qo_burstMode opts = Some m \<longrightarrow> m \<in> set BURST_MODES)"

definition args_ok :: "supervisor_args \<Rightarrow> bool" where
  "args_ok args \<longleftrightarrow> qa_apply args = (\<not> qa_dryRun args) \<and> qa_baseBranches args \<noteq> [] \<and>
     count_num (qa_maxInflight args) \<and> count_num (qa_minInflight args) \<and>
     \<not> num_gt (qa_minInflight args) (qa_maxInflight args) \<and> count_num (qa_maxQueuedRuns args) \<and>
     count_num (qa_maxInProgressRuns args) \<and> count_num (qa_stallThresholdMinutes args) \<and>
     count_num (qa_burstRefillCycles args) \<and> qa_burstMode args \<in> set BURST_MODES"

lemma parseIntStrict_count: "parseIntStrict v lab = Inr n \<Longrightarrow> count_num n"
  by (auto simp: parseIntStrict_Inr count_num_def)

lemma parseBurstMode_mode: "parseBurstMode v lab = Inr m \<Longrightarrow> m \<in> set BURST_MODES"
  by (auto simp: parseBurstMode_def Let_def split: if_splits)

lemma int_option_Inr: "int_option arg v f = Inr opts \<Longrightarrow> \<exists>n. count_num n \<and> opts = f (Some n)"
  by (auto simp: int_option_def dest: parseIntStrict_count)

lemma counted_simps [simp]: "counted None" "counted (Some n) \<longleftrightarrow> count_num n"
  by (simp_all add: counted_def)

lemma value_option_ok:
  assumes "map_of value_options arg = Some setter" "setter v opts = Inr opts'" "options_ok opts"
  shows "options_ok opts'"
proof -
  from map_of_SomeD [OF assms(1)] assms(2,3) show ?thesis
    unfolding value_options_def
    by (auto simp: options_ok_def set_repo_def set_base_branches_def Let_def
        dest!: int_option_Inr parseBurstMode_mode split: if_splits)
qed

lemma parse_queue_args_ok: "parse_queue_args opts argv = Inr opts' \<Longrightarrow> options_ok opts \<Longrightarrow> options_ok opts'"
proof (induction opts argv rule: parse_queue_args.induct)
  case (2 opts arg rest)
  have flags: "options_ok (opts\<lparr>qo_apply := True, qo_dryRun := False\<rparr>)" "options_ok (opts\<lparr>qo_apply := False, qo_dryRun := True\<rparr>)"
    "options_ok (opts\<lparr>qo_help := True\<rparr>)" "options_ok (opts\<lparr>qo_adaptiveCap := b\<rparr>)" for b
    using 2(8) by (simp_all add: options_ok_def)
  show ?case
    using 2 flags
    by (auto simp: no_option_value_def dest: value_option_ok split: if_splits option.splits list.splits)
qed simp

lemma option_or_env_holds:
  assumes "option_or_env proc name parse given fallback = Inr x"
    and "\<And>y. given = Some y \<Longrightarrow> P y" "\<And>v lab y. parse v lab = Inr y \<Longrightarrow> P y" "P fallback"
  shows "P x"
  using assms by (auto simp: option_or_env_def split: option.splits if_splits)

lemma option_or_env_count:
  "option_or_env proc name parseIntStrict given fallback = Inr n \<Longrightarrow> counted given \<Longrightarrow> count_num fallback \<Longrightarrow> count_num n"
  by (erule option_or_env_holds) (auto simp: counted_def dest: parseIntStrict_count)

lemma option_or_env_mode:
  "option_or_env proc name parseBurstMode given fallback = Inr m \<Longrightarrow> (\<forall>x. given = Some x \<longrightarrow> x \<in> set BURST_MODES) \<Longrightarrow>
     fallback \<in> set BURST_MODES \<Longrightarrow> m \<in> set BURST_MODES"
  by (erule option_or_env_holds) (auto dest: parseBurstMode_mode)

lemma default_counts:
  "count_num DEFAULT_MAX_INFLIGHT" "count_num DEFAULT_MIN_INFLIGHT" "count_num DEFAULT_MAX_QUEUED_RUNS"
  "count_num DEFAULT_MAX_IN_PROGRESS_RUNS" "count_num DEFAULT_STALL_THRESHOLD_MINUTES"
  "count_num DEFAULT_BURST_REFILL_CYCLES" "DEFAULT_BURST_MODE \<in> set BURST_MODES"
  by (simp_all add: count_num_def DEFAULT_MAX_INFLIGHT_def DEFAULT_MIN_INFLIGHT_def DEFAULT_MAX_QUEUED_RUNS_def
      DEFAULT_MAX_IN_PROGRESS_RUNS_def DEFAULT_STALL_THRESHOLD_MINUTES_def DEFAULT_BURST_REFILL_CYCLES_def
      DEFAULT_BURST_MODE_def BURST_MODES_def)

lemma resolve_queue_options_ok:
  assumes "resolve_queue_options proc opts = Inr args" "options_ok opts"
  shows "args_ok args"
  using assms default_counts
  by (auto simp: resolve_queue_options_def args_ok_def options_ok_def split: if_splits
      dest: option_or_env_count option_or_env_mode)

lemma parsed_args_ok:
  assumes "parseArgs_qs proc argv = Inr p"
  shows "args_ok (pa_args p)"
proof -
  have "options_ok queue_defaults"
    by (simp add: options_ok_def queue_defaults_def DEFAULT_BASE_BRANCHES_def)
  with assms show ?thesis
    by (auto simp: parseArgs_qs_def dest: parse_queue_args_ok resolve_queue_options_ok)
qed

definition demo_argv :: "string list" where
  "demo_argv =
     [''node'', ''queue-supervisor.mjs'', ''--apply'', ''--report'', ''report.json'', ''--controller-state'', ''controller.json'',
      ''--readiness-report'', ''readiness.json'', ''--governor-state'', ''governor.json'', ''--security-intake-report'',
      ''security.json'', ''--base-branches'', ''develop'', ''--burst-mode'', ''off'']"

definition demo_readiness :: readiness_options where
  "demo_readiness =
     \<lparr>rdo_supervisorReportPath = ''report.json'', rdo_reportPath = ''readiness.json'', rdo_help = False\<rparr>"

section \<open>Every run reaches a plan\<close>

lemma adaptive_total:
  assumes "args_ok args"
  shows "\<exists>a. evaluateAdaptiveInflight (JNum (qa_maxInflight args)) (JNum (qa_minInflight args)) b h f r s = Inr a"
proof -
  have "parseIntStrict (JNum (qa_maxInflight args)) lab = Inr (qa_maxInflight args)"
    "parseIntStrict (JNum (qa_minInflight args)) lab = Inr (qa_minInflight args)" for lab
    using assms by (auto simp: parseIntStrict_Inr args_ok_def count_num_def)
  then show ?thesis
    using assms by (simp add: evaluateAdaptiveInflight_def args_ok_def case_prod_beta Let_def)
qed

lemma someE_total: "(\<And>x. x \<in> set xs \<Longrightarrow> \<exists>b. f x = Inr b) \<Longrightarrow> \<exists>b. someE f xs = Inr b"
proof (induction xs)
  case (Cons x xs)
  obtain b where "f x = Inr b"
    using Cons.prems [of x] by auto
  moreover obtain c where "someE f xs = Inr c"
    using Cons by auto
  ultimately have "someE f (x # xs) = Inr (b \<or> c)"
    by simp
  then show ?case ..
qed (simp, rule exI [of _ False], simp)

lemma mapE_total: "mapE f xs = Inr ys \<Longrightarrow> x \<in> set xs \<Longrightarrow> \<exists>y. f x = Inr y"
  by (induction xs arbitrary: ys) auto

lemma classified_labels:
  assumes "classifyOpenPullRequests (JArr prs) required managed excluded = Inr cl" "pr \<in> set prs"
  shows "\<exists>ls. mappable (getp pr ''labels'') = Inr ls"
proof -
  from assms(1) obtain ys where "mapE parse_pull_request prs = Inr ys"
    by (auto simp: classifyOpenPullRequests_def)
  from mapE_total [OF this assms(2)] show ?thesis
    by (auto simp: parse_pull_request_def dot_def split: if_splits)
qed

lemma parseBurstMode_total: "m \<in> set BURST_MODES \<Longrightarrow> parseBurstMode (JStr m) lab = Inr m"
proof -
  have "list_all (\<lambda>m. to_lower (trim (js_text (JStr m))) = m) BURST_MODES"
    by code_simp
  then show "m \<in> set BURST_MODES \<Longrightarrow> parseBurstMode (JStr m) lab = Inr m"
    by (auto simp: parseBurstMode_def list_all_iff Let_def)
qed

lemma burst_total:
  assumes "args_ok args" and cl: "classifyOpenPullRequests (JArr prs) required managed excluded = Inr cl"
    and late: "time_clip (now + 30 * 60 * 1000) \<noteq> NaN"
  shows "\<exists>b. evaluateBurstWindow (JStr (qa_burstMode args)) (JNum (qa_burstRefillCycles args)) (JArr prs) previous mode now = Inr b"
proof -
  have refill: "parseIntStrict (JNum (qa_burstRefillCycles args)) lab = Inr (qa_burstRefillCycles args)" for lab
    using assms(1) by (auto simp: parseIntStrict_Inr args_ok_def count_num_def)
  have burst: "parseBurstMode (JStr (qa_burstMode args)) lab = Inr (qa_burstMode args)" for lab
    using assms(1) by (simp add: args_ok_def parseBurstMode_total)
  have until: "date_iso (now + 60000 * BURST_BACKOFF_MINUTES) = Inr (iso_string (now + 60000 * BURST_BACKOFF_MINUTES))"
    using late by (simp add: date_iso_def BURST_BACKOFF_MINUTES_def)
  have branch: "\<exists>b. hasReleaseBranchPullRequest (JArr prs) = Inr b"
    by (simp add: hasReleaseBranchPullRequest_def)
  have label: "\<exists>b. hasReleaseBurstLabel (JArr prs) = Inr b"
    unfolding hasReleaseBurstLabel_def using classified_labels [OF cl] by (fastforce intro: someE_total)
  from branch label obtain b l where "hasReleaseBranchPullRequest (JArr prs) = Inr b" "hasReleaseBurstLabel (JArr prs) = Inr l"
    by blast
  moreover have "\<exists>x. x"
    by (rule exI [of _ True]) simp
  ultimately show ?thesis
    by (simp add: evaluateBurstWindow_def refill burst until case_prod_beta Let_def)
qed

lemma collect_parts:
  assumes "collect_inputs qe args repoRoot repository now proc st = (st', Inr inp)"
  shows "classifyOpenPullRequests (JArr (in_prs inp)) (in_required inp) (in_managed inp) EXCLUDED_LABELS = Inr (in_classified inp)"
    and "in_now inp = now" and "time_clip now \<noteq> NaN"
    and "in_idleAuthority inp = deriveCurrentCycleIdleAuthority (in_runtimeState inp) JNull now DEFAULT_IDLE_AUTHORITY_FRESH_SECONDS"
  using assms unfolding collect_inputs_def Let_def case_prod_beta
  by (auto simp: runE_Inr_iff date_iso_def split: if_splits)

lemma plan_total:
  assumes "args_ok args" "collect_inputs qe args repoRoot repository now proc st = (st', Inr inp)"
    "time_clip (now + 30 * 60 * 1000) \<noteq> NaN"
  shows "\<exists>pl. plan_run args inp = Inr pl"
proof -
  note parts = collect_parts [OF assms(2)]
  let ?pressure = "computeRetryPressure (pruneRetryHistory (previous_retry_history (in_previousReport inp))
    (iso_string (in_now inp)) RETRY_WINDOW_HOURS) (length (cl_candidates (in_classified inp)))"
  obtain a where a: "evaluateAdaptiveInflight (JNum (qa_maxInflight args)) (JNum (qa_minInflight args)) (qa_adaptiveCap args)
      (health_value (in_health inp)) (fleet_value (in_fleet inp)) (retry_value ?pressure) (in_controllerState inp) = Inr a"
    using adaptive_total [OF assms(1)] by blast
  obtain b where b: "evaluateBurstWindow (JStr (qa_burstMode args)) (JNum (qa_burstRefillCycles args)) (JArr (in_prs inp))
      (getp (in_previousReport inp) ''burst'') (JStr (ai_mode a)) (in_now inp) = Inr b"
    using burst_total [OF assms(1) parts(1)] assms(3) parts(2) by blast
  obtain r where r: "buildQueueReadinessReport (JStr (in_repository inp)) (map candidate_value (cl_candidates (in_classified inp)))
      (map (\<lambda>c. JNum (number c)) (cl_orderedEligible (in_classified inp))) (in_now inp) = Inr r"
    using readiness_total parts(2,3) by blast
  show ?thesis
    by (simp add: plan_run_def a b r Let_def)
qed

section \<open>The repository\<close>

lemma rests_after_absent: "x \<notin> set s \<Longrightarrow> rests_after [x] s = []"
  by (induction s) auto

lemma repo_path_pair:
  assumes "owner \<noteq> []" "repo \<noteq> []" "CHR ''/'' \<notin> set owner" "CHR ''/'' \<notin> set repo"
  shows "repo_path (owner @ ''/'' @ repo) = Some (owner, repo)"
  using assms by (simp add: repo_path_def split_on_def split_acc_append split_acc_end)

lemma ends_in_append [simp]: "ends_in (s @ e) e"
  by (simp add: ends_in_def)

text \<open>The two forms of a remote give the repository they were written for.\<close>

theorem remote_url_roundtrip:
  assumes "owner \<noteq> []" "repo \<noteq> []" "CHR ''/'' \<notin> set owner" "CHR ''/'' \<notin> set repo"
    "CHR '':'' \<notin> set owner" "CHR '':'' \<notin> set repo"
  shows "parseRemoteUrl (''git@github.com:'' @ owner @ ''/'' @ repo @ ''.git'') = Some (owner, repo)"
    and "parseRemoteUrl (''https://github.com/'' @ owner @ ''/'' @ repo @ ''.git'') = Some (owner, repo)"
proof -
  have path: "repo_path (owner @ CHR ''/'' # repo @ ''.git'') = Some (owner, repo @ ''.git'')"
    using repo_path_pair [of owner "repo @ ''.git''"] assms by simp
  have ends: "ends_in (repo @ ''.git'') ''.git''"
    by simp
  show "parseRemoteUrl (''git@github.com:'' @ owner @ ''/'' @ repo @ ''.git'') = Some (owner, repo)"
    using path ends by (simp add: parseRemoteUrl_def)
  have "repo_path (''//github.com/'' @ owner @ ''/'' @ repo @ ''.git'') = None"
    using assms by (simp add: repo_path_def split_on_def split_acc_append split_acc_end)
  moreover have "rests_after '':'' (''//github.com/'' @ owner @ ''/'' @ repo @ ''.git'') = []"
    using assms(5,6) by (intro rests_after_absent) auto
  ultimately show "parseRemoteUrl (''https://github.com/'' @ owner @ ''/'' @ repo @ ''.git'') = Some (owner, repo)"
    using path ends by (simp add: parseRemoteUrl_def)
qed

section \<open>The report from disk\<close>

text \<open>A candidate of the report lacks the labels and the body, but it shows what the order rests on.\<close>

lemma report_candidate_fields:
  "getp (report_candidate c) ''number'' = JNum (number c)" "getp (report_candidate c) ''eligible'' = JBool (eligible c)"
  "getp (report_candidate c) ''priority'' = num_of_nat (pr_priority c)" "getp (report_candidate c) ''updatedAt'' = JStr (updatedAt c)"
  "getp (report_candidate c) ''body'' = JUndef" "getp (report_candidate c) ''labels'' = JUndef"
  by (simp_all add: report_candidate_def)

lemma report_candidate_keys: "\<exists>kvs. report_candidate c = JObj kvs \<and> distinct (map fst kvs)"
  by (simp add: report_candidate_def)

lemma report_candidate_absent:
  "getp (json_norm (report_candidate c)) ''body'' = JUndef" "getp (json_norm (report_candidate c)) ''labels'' = JUndef"
  using report_candidate_keys [of c] report_candidate_fields(5,6) [of c] by (auto simp: lookup_json_fields)

lemma scores_total:
  assumes "getp v ''body'' = JUndef" "getp v ''labels'' = JUndef"
  shows "\<exists>s. buildScoreComponents v now = Inr s"
proof -
  have labels: "parseLabelNames (JArr []) = Inr []"
    by (simp add: parseLabelNames_def uniq_def)
  have "\<exists>r. parseRiskClass (JStr []) (JArr []) = Inr r" "\<exists>f. parseFlakyExposure (JStr []) (JArr []) = Inr f"
    by (simp_all add: parseRiskClass_def parseFlakyExposure_def labels split: option.split)
  then obtain r f where "parseRiskClass (JStr []) (JArr []) = Inr r" "parseFlakyExposure (JStr []) (JArr []) = Inr f"
    by blast
  with assms show ?thesis
    by (simp add: buildScoreComponents_def Let_def)
qed

lemma report_presents:
  assumes "num_finite (number c)"
  shows "presents (json_norm (report_candidate c)) c"
proof -
  have "getp (json_norm (report_candidate c)) ''number'' = JNum (number c)"
    using assms by (simp add: getp_json_norm_defined report_candidate_fields)
  moreover have "getp (json_norm (report_candidate c)) ''eligible'' = JBool (eligible c)"
    by (simp add: getp_json_norm_defined report_candidate_fields)
  moreover have "getp (json_norm (report_candidate c)) ''priority'' = num_of_nat (pr_priority c)"
    by (simp add: getp_json_norm_defined report_candidate_fields num_of_nat_def)
  ultimately show ?thesis
    using scores_total [OF report_candidate_absent] scores_finite by (fastforce simp: presents_def)
qed

definition by_candidate_number :: "candidate list \<Rightarrow> candidate list" where
  "by_candidate_number = sort_by (\<lambda>a b. \<not> num_gt (num_sub (number a) (number b)) (Fin 0))"

lemma report_fields:
  "getp (report_value args inp pl cleanup p) ''candidates'' =
     JArr (map report_candidate (by_candidate_number (cl_candidates (in_classified inp))))"
  "getp (report_value args inp pl cleanup p) ''orderedEligible'' =
     JArr (map (\<lambda>c. JNum (number c)) (cl_orderedEligible (in_classified inp)))"
  "getp (report_value args inp pl cleanup p) ''repository'' = JStr (in_repository inp)"
  by (simp_all add: report_value_def by_candidate_number_def)

lemma written_outcome:
  "write_documents qe args inp pl cleanup p st = (st', Inr out) \<Longrightarrow>
     ro_inputs out = inp \<and> ro_plan out = pl \<and> ro_report out = report_value args inp pl cleanup p"
  unfolding write_documents_def Let_def by (auto simp: runE_Inr_iff)

lemma supervisor_outcome:
  assumes "runQueueSupervisor qe args repoRoot repository now proc st = (st', Inr out)"
  shows "\<exists>st1. collect_inputs qe args repoRoot repository now proc st = (st1, Inr (ro_inputs out))"
    and "plan_run args (ro_inputs out) = Inr (ro_plan out)"
    and "\<exists>cleanup p. ro_report out = report_value args (ro_inputs out) (ro_plan out) cleanup p"
  using assms unfolding runQueueSupervisor_def Let_def case_prod_beta
  by (auto simp: runE_Inr_iff dest!: written_outcome split: if_splits)

section \<open>Properties\<close>

lemma demo_command_line:
  "parseArgs_qs (\<lambda>_. JUndef) demo_argv = Inr \<lparr>pa_args = demo_args, pa_repo = None, pa_help = False\<rparr>"
  by code_simp

text \<open>
  C19: With options from a command line that parses, a run that has read its inputs always has a
  plan: computing it never throws, unless the clock is at the very end of the range of dates.
  (After the plan a run can still throw before its commands, when the directory of
  deferred-cleanup receipts cannot be listed.)
\<close>

theorem parsed_run_plans:
  assumes "parseArgs_qs proc argv = Inr p"
    and "collect_inputs qe (pa_args p) repoRoot repository now environment st = (st', Inr inp)"
    and "time_clip (now + 30 * 60 * 1000) \<noteq> NaN"
  shows "\<exists>pl. plan_run (pa_args p) inp = Inr pl"
  using parsed_args_ok [OF assms(1)] assms(2,3) by (rule plan_total)

theorem parsed_run_plans_witness:
  "\<exists>p inp pl. parseArgs_qs (\<lambda>_. JUndef) demo_argv = Inr p \<and> plan_run (pa_args p) inp = Inr pl \<and>
     cl_candidates (in_classified inp) = [demo_candidate]"
proof -
  obtain inp where inp: "collect_inputs demo_env demo_args ''/repo'' ''owner/repo'' 0 (\<lambda>_. JUndef) ((), []) = (((), []), Inr inp)"
     "cl_candidates (in_classified inp) = [demo_candidate]"
    using demo_collect by (elim exE conjE)
  have "time_clip (0 + 30 * 60 * 1000) \<noteq> NaN"
    by (simp add: time_clip_def)
  with parsed_run_plans [OF demo_command_line, of demo_env "''/repo''" "''owner/repo''" 0 "\<lambda>_. JUndef" "((), [])"] inp
  have "\<exists>pl. plan_run demo_args inp = Inr pl"
    by auto
  with inp(2) demo_command_line show ?thesis
    by auto
qed

lemma demo_outcome:
  "\<exists>out. snd (runQueueSupervisor demo_env demo_args ''/repo'' ''owner/repo'' 0 (\<lambda>_. JUndef) ((), [])) = Inr out \<and>
     cl_candidates (in_classified (ro_inputs out)) = [demo_candidate] \<and>
     cl_orderedEligible (in_classified (ro_inputs out)) = [demo_candidate]"
proof -
  obtain inp where inp: "collect_inputs demo_env demo_args ''/repo'' ''owner/repo'' 0 (\<lambda>_. JUndef) ((), []) = (((), []), Inr inp)"
     "cl_candidates (in_classified inp) = [demo_candidate]" "cl_orderedEligible (in_classified inp) = [demo_candidate]"
     "in_managed inp = [''develop'']" "in_required inp = demo_required" "in_now inp = 0" "in_process inp = (\<lambda>_. JUndef)"
     "in_prs inp = [demo_checked]" "in_fetchErrors inp = []" "\<not> hg_paused (in_health inp)" "\<not> fl_paused (in_fleet inp)"
     "in_previousReport inp = JNull" "gv_mode (in_governor inp) = ''normal''"
    using demo_collect by (elim exE conjE)
  obtain pl where pl: "plan_run demo_args inp = Inr pl"
    using demo_run_plan [OF inp(2-4,6-13)] by blast
  obtain cleanup where cl: "reconcileDeferredBranchCleanupReceipts demo_env ''/repo'' b ((), []) = (((), []), Inr cleanup)" for b
    by (simp add: reconcileDeferredBranchCleanupReceipts_def listMergeSyncSummaryPaths_def demo_env_def Let_def)
  have written: "write_doc demo_env q doc s = (s, Inr q)" for q doc s
    by (cases s) (simp add: write_doc_def demo_env_def)
  have "\<exists>report p. snd (runQueueSupervisor demo_env demo_args ''/repo'' ''owner/repo'' 0 (\<lambda>_. JUndef) ((), [])) =
      Inr \<lparr>ro_inputs = inp, ro_plan = pl, ro_report = report, ro_progress = p\<rparr>"
    by (simp add: runQueueSupervisor_def inp(1) pl cl write_documents_def written Let_def case_prod_beta)
  with inp(2,3) show ?thesis
    by auto
qed

text \<open>
  C18: The readiness report that queue-readiness.mjs rebuilds from the supervisor report on disk,
  at any later time, has the same ready set in the same order as the one the supervisor run made
  itself.
\<close>

theorem readiness_from_report:
  assumes run: "runQueueSupervisor qe args repoRoot repository now proc st = (st', Inr out)"
    and unique: "distinct (map number (cl_candidates (in_classified (ro_inputs out))))"
    and n: "\<forall>c \<in> set (cl_candidates (in_classified (ro_inputs out))). num_finite (number c)"
    and disk: "files (path_resolve cwd [rdo_supervisorReportPath opts]) = Some (Doc (json_norm (ro_report out)))"
    and time: "time_clip later \<noteq> NaN"
  shows "\<exists>r. snd (runQueueReadiness cwd later environment opts files) = Inr r \<and>
    map re_number (rr_readySet r) = map re_number (rr_readySet (pl_readiness (ro_plan out)))"
proof -
  let ?cl = "in_classified (ro_inputs out)"
  let ?cs = "by_candidate_number (cl_candidates ?cl)"
  let ?ns = "map number (cl_orderedEligible ?cl)"
  from supervisor_outcome [OF run] obtain st1 cleanup p where
    inputs: "collect_inputs qe args repoRoot repository now proc st = (st1, Inr (ro_inputs out))"
    and plan: "plan_run args (ro_inputs out) = Inr (ro_plan out)"
    and report: "ro_report out = report_value args (ro_inputs out) (ro_plan out) cleanup p"
    by blast
  note cl = collect_parts(1) [OF inputs]
  note order = ordered_numbers [OF cl unique n]
  have perm: "mset ?cs = mset (cl_candidates ?cl)"
    by (simp add: by_candidate_number_def mset_sort_by)
  then have members: "set ?cs = set (cl_candidates ?cl)"
    by (rule mset_eq_setD)
  have eligible: "mset ?ns = mset (map number (filter eligible ?cs))"
    using order(1) perm by (metis mset_filter mset_map)
  have finite_ns: "\<forall>x \<in> set ?ns. num_finite x"
    using n classification_ordered(1) [OF cl] by auto
  define doc where "doc = json_norm (ro_report out)"
  have fields: "getp doc ''candidates'' = JArr (map (\<lambda>c. json_norm (report_candidate c)) ?cs)"
    "getp doc ''orderedEligible'' = JArr (map JNum ?ns)" "getp doc ''repository'' = JStr (in_repository (ro_inputs out))"
    using finite_ns by (simp_all add: doc_def report getp_json_norm_defined report_fields)
  have presents: "list_all2 presents (map (\<lambda>c. json_norm (report_candidate c)) ?cs) ?cs"
    using n members by (auto simp: list_all2_map1 intro!: list.rel_refl_strong report_presents)
  obtain es where "mapE (ready_entry_of (eligible_order (map JNum ?ns)) later) (map (\<lambda>c. json_norm (report_candidate c)) ?cs) = Inr es"
    using presented_entries [OF presents] by blast
  then obtain r where r: "buildQueueReadinessReport (JStr (in_repository (ro_inputs out)))
      (map (\<lambda>c. json_norm (report_candidate c)) ?cs) (map JNum ?ns) later = Inr r"
    using time by (auto simp: buildQueueReadinessReport_def date_iso_def Let_def)
  have "snd (runQueueReadiness cwd later environment opts files) = Inr r"
    using disk r unfolding doc_def [symmetric]
    by (simp only: runQueueReadiness_def readJson_qr_def fields) (simp add: fields del: map_map)
  moreover have "map re_number (rr_readySet r) = ?ns"
    using presented_set_order [OF presents r eligible order(2)] n members by (simp add: numbered_def)
  ultimately show ?thesis
    using plan_ready_numbers [OF plan cl unique n] by auto
qed

theorem readiness_from_report_witness:
  "\<exists>out r. snd (runQueueSupervisor demo_env demo_args ''/repo'' ''owner/repo'' 0 (\<lambda>_. JUndef) ((), [])) = Inr out \<and>
     snd (runQueueReadiness ''/repo'' 1000 (\<lambda>_. JUndef) demo_readiness (\<lambda>_. Some (Doc (json_norm (ro_report out))))) = Inr r \<and>
     cl_orderedEligible (in_classified (ro_inputs out)) = [demo_candidate] \<and>
     map re_number (rr_readySet r) = map re_number (rr_readySet (pl_readiness (ro_plan out)))"
proof -
  obtain st' out where out: "runQueueSupervisor demo_env demo_args ''/repo'' ''owner/repo'' 0 (\<lambda>_. JUndef) ((), []) = (st', Inr out)"
     "cl_candidates (in_classified (ro_inputs out)) = [demo_candidate]"
     "cl_orderedEligible (in_classified (ro_inputs out)) = [demo_candidate]"
    using demo_outcome by (metis surjective_pairing)
  have "time_clip 1000 \<noteq> NaN"
    by (simp add: time_clip_def)
  with readiness_from_report [OF out(1), of "\<lambda>_. Some (Doc (json_norm (ro_report out)))" "''/repo''" demo_readiness 1000 "\<lambda>_. JUndef"]
  show ?thesis
    using out by auto
qed

lemma score_risk:
  "buildScoreComponents v now = Inr s \<Longrightarrow>
     parseRiskClass (js_coalesce (getp v ''body'') (JStr [])) (js_coalesce (getp v ''labels'') (JArr [])) = Inr (sr_riskClass s)"
  by (auto simp: buildScoreComponents_def Let_def)

text \<open>The labels are lost on the way to disk: a request marked as risky counts as one of medium risk there.\<close>

lemma report_loses_risk:
  assumes "labels c = [''risk-high'']"
  shows "\<exists>s s'. buildScoreComponents (candidate_value c) now = Inr s \<and> sr_riskClass s = ''high'' \<and>
    buildScoreComponents (json_norm (report_candidate c)) now = Inr s' \<and> sr_riskClass s' = ''medium''"
proof -
  obtain s where s: "buildScoreComponents (candidate_value c) now = Inr s"
    using ready_entry_total [of "[]" now c] by (auto simp: ready_entry_of_def)
  obtain s' where s': "buildScoreComponents (json_norm (report_candidate c)) now = Inr s'"
    using scores_total [OF report_candidate_absent] by blast
  have "getp (candidate_value c) ''body'' = JUndef" "getp (candidate_value c) ''labels'' = jstrs (labels c)"
    by (simp_all add: candidate_value_def split: option.split)
  moreover have "parseRiskClass (JStr []) (jstrs [''risk-high'']) = Inr ''high''" "parseRiskClass (JStr []) (JArr []) = Inr ''medium''"
    by code_simp+
  ultimately have "sr_riskClass s = ''high'' \<and> sr_riskClass s' = ''medium''"
    using score_risk [OF s] score_risk [OF s'] assms by (simp add: report_candidate_absent jstrs_def)
  with s s' show ?thesis
    by blast
qed

text \<open>
  C20: A run reports the worker pool as idle on the authority of the current cycle only when the
  runtime state document it read says idle and a stamp of that document is at most six hours (and
  the half second of the rounding) old.
\<close>

theorem occupancy_idle_backed:
  assumes "collect_inputs qe args repoRoot repository now proc st = (st', Inr inp)"
    and "getp (buildWorkerOccupancySummary (in_runtimeState inp) (in_runtimeStatePath inp) (in_idleAuthority inp))
      ''authoritySource'' = JStr ''current-cycle-idle''"
  shows "says (getp (in_runtimeState inp) ''status'') ''idle'' \<and> says (getp (in_runtimeState inp) ''laneLifecycle'') ''idle'' \<and>
    (\<exists>t. Some (Fin t) \<in> idle_stamps (in_runtimeState inp) \<and> of_int now - t < 6 * 60 * 60 * 1000 + 500)"
proof -
  have "getp (in_idleAuthority inp) ''status'' = JStr ''observed''"
    using assms(2) by (auto simp: buildWorkerOccupancySummary_def Let_def split: if_splits)
  then show ?thesis
    using delivery_observed [of "in_runtimeState inp" now "6 * 60 * 60"] collect_parts(4) [OF assms(1)]
    by (auto simp: DEFAULT_IDLE_AUTHORITY_FRESH_SECONDS_def)
qed

definition demo_idle_doc :: jsval where
  "demo_idle_doc =
     JObj [(''status'', JStr ''idle''), (''laneLifecycle'', JStr ''idle''), (''derivedFromQueueEmptyState'', JBool True),
       (''generatedAt'', JStr ''1970-01-01T00:00:00.000Z'')]"

lemma demo_idle_authority:
  "getp (deriveCurrentCycleIdleAuthority demo_idle_doc JNull 0 DEFAULT_IDLE_AUTHORITY_FRESH_SECONDS) ''status'' = JStr ''observed''"
  by code_simp

definition demo_idle_env :: "unit queue_env" where
  "demo_idle_env = demo_env\<lparr>qe_readOptionalJson := (\<lambda>p w. demo_idle_doc)\<rparr>"

lemma demo_idle_collect:
  "\<exists>inp. collect_inputs demo_idle_env demo_args ''/repo'' ''owner/repo'' 0 (\<lambda>_. JUndef) ((), []) = (((), []), Inr inp) \<and>
     in_runtimeState inp = demo_idle_doc"
proof -
  obtain h where h: "evaluateHealthGate (Fin 0) (JObj demo_runs) 0 DEFAULT_HEALTH_MIN_SUCCESS_RATE
      DEFAULT_HEALTH_MAX_RED_MINUTES = Inr h"
    using demo_gate by blast
  obtain f where f: "evaluateRuntimeFleetHealth (JObj demo_runs) 0 (Fin 6) (Fin 8) (Fin 45) = Inr f"
    using demo_fleet_health by blast
  have args: "qa_baseBranches demo_args = [''develop'']" "qa_maxQueuedRuns demo_args = Fin 6"
    "qa_maxInProgressRuns demo_args = Fin 8" "qa_stallThresholdMinutes demo_args = Fin 45"
    by (simp_all add: demo_args_def)
  have qe: "qe_readJsonFile demo_idle_env p w = Inr (JObj [(''branches'', demo_required)])"
    "qe_readOptionalJson demo_idle_env p w = demo_idle_doc" "qe_undated demo_idle_env = Fin 0"
    "gh_json demo_idle_env (pr_list_args repository) st = (st, Inr (JArr [demo_checked]))" for p w repository st
    by (simp_all add: demo_idle_env_def demo_env_def gh_json_def pr_list_args_def demo_response_def split: prod.splits)
  have fetch: "fetchWorkflowRunsByName demo_idle_env repository branch st = (st, demo_runs, [])" for repository branch st
    by (cases st) (simp add: fetchWorkflowRunsByName_def HEALTH_WORKFLOW_SPECS_def demo_idle_env_def demo_env_def
        demo_response_def demo_runs_def)
  have states: "readPullRequestQueueStates demo_idle_env repository ns st = (st, Inr (no_queue_states False JNull))" for repository ns st
    by (simp add: readPullRequestQueueStates_def demo_idle_env_def demo_env_def Let_def)
  have checked: "dot demo_checked ''baseRefName'' = Inr (JStr ''develop'')"
    by (simp add: demo_checked_def dot_def)
  have req: "js_coalesce demo_required (JObj []) = demo_required"
    by (simp add: demo_required_def)
  have runtime: "fst (read_runtime_state demo_idle_env q w) = demo_idle_doc" for q w
    by (simp add: read_runtime_state_def qe demo_idle_doc_def Let_def)
  show ?thesis
    using h f
    by (simp add: collect_inputs_def qe args demo_managed states fetch checked req no_queue_states_def enrich_def
        demo_classification date_iso_def time_clip_def runtime case_prod_beta Let_def)
qed

theorem occupancy_idle_backed_witness:
  "\<exists>inp. snd (collect_inputs demo_idle_env demo_args ''/repo'' ''owner/repo'' 0 (\<lambda>_. JUndef) ((), [])) = Inr inp \<and>
     says (getp (in_runtimeState inp) ''status'') ''idle'' \<and>
     (\<exists>t. Some (Fin t) \<in> idle_stamps (in_runtimeState inp) \<and> of_int 0 - t < 6 * 60 * 60 * 1000 + 500)"
proof -
  obtain inp where inp: "collect_inputs demo_idle_env demo_args ''/repo'' ''owner/repo'' 0 (\<lambda>_. JUndef) ((), []) = (((), []), Inr inp)"
    "in_runtimeState inp = demo_idle_doc"
    using demo_idle_collect by blast
  then have "getp (in_idleAuthority inp) ''status'' = JStr ''observed''"
    using collect_parts(4) [OF inp(1)] demo_idle_authority by simp
  then have "getp (buildWorkerOccupancySummary (in_runtimeState inp) (in_runtimeStatePath inp) (in_idleAuthority inp))
      ''authoritySource'' = JStr ''current-cycle-idle''"
    by (simp add: buildWorkerOccupancySummary_def Let_def)
  from occupancy_idle_backed [OF inp(1) this] inp(1) show ?thesis
    by auto
qed

end
